(* ===== verification/Prelude.thy ===== *)
theory Prelude
  imports Complex_Main "HOL-Library.AList" "HOL-Library.Char_ord" "HOL-Library.List_Lexorder"
    "HOL-Library.Sublist"
begin

text \<open>
  Shared vocabulary of the development: Python exceptions as values, dynamically typed
  Python data (\<open>pyval\<close>), dictionaries as insertion-ordered association lists, and the
  string methods the modelled modules call.

  \<^item> A Python \<open>str\<close> is an Isabelle \<open>string\<close>; the case and digit methods are those of
    ASCII text.
  \<^item> A Python \<open>dict\<close> is an association list without duplicate keys in insertion order:
    \<open>d.get(k)\<close> is \<open>map_of d k\<close>, \<open>d[k] = v\<close> is \<open>AList.update k v d\<close> (it keeps the position of
    an existing key and appends a new one), \<open>d.pop(k)\<close> is \<open>AList.delete k d\<close>.
  \<^item> \<open>float\<close> values are their exact rational value; the two conversions between a float and
    its text are the argument \<open>pyrt\<close> of the definitions that use them.
\<close>

named_theorems io_intros \<open>computations that return, and computations that are not cancelled\<close>
named_theorems keeps_intros \<open>computations that preserve a property of the world\<close>
named_theorems py_simps \<open>evaluation of the Python string and dictionary operations\<close>

section \<open>Exceptions and results\<close>

datatype exn =
    TypeError | ValueError | KeyError | AttributeError | IndexError
  | TimeoutError | CancelledError | PermissionError | RuntimeError string | ExtError string
  | HTTPException nat "string list"

text \<open>\<open>except Exception\<close> catches everything but a task cancellation.\<close>

definition is_Exception :: "exn \<Rightarrow> bool" where
  "is_Exception e \<longleftrightarrow> e \<noteq> CancelledError"

type_synonym 'a res = "exn + 'a"

abbreviation Ok :: "'a \<Rightarrow> 'a res" where "Ok \<equiv> Inr"
abbreviation Raise :: "exn \<Rightarrow> 'a res" where "Raise \<equiv> Inl"

definition rbind :: "'a res \<Rightarrow> ('a \<Rightarrow> 'b res) \<Rightarrow> 'b res" where
  "rbind m f = (case m of Inl e \<Rightarrow> Inl e | Inr x \<Rightarrow> f x)"

lemma rbind_simps [simp]:
  "rbind (Inl e) f = Inl e"
  "rbind (Inr x) f = f x"
  by (simp_all add: rbind_def)

lemma rbind_eq_Inr_iff: "rbind m f = Inr y \<longleftrightarrow> (\<exists>x. m = Inr x \<and> f x = Inr y)"
  by (cases m) simp_all

lemma rbind_cong [fundef_cong]:
  "m = m' \<Longrightarrow> (\<And>x. m' = Inr x \<Longrightarrow> f x = f' x) \<Longrightarrow> rbind m f = rbind m' f'"
  by (cases m') simp_all

text \<open>A list comprehension whose body may raise stops at the first exception.\<close>

fun mapM :: "('a \<Rightarrow> 'b res) \<Rightarrow> 'a list \<Rightarrow> 'b list res" where
  "mapM f [] = Ok []"
| "mapM f (x # xs) = rbind (f x) (\<lambda>y. rbind (mapM f xs) (\<lambda>ys. Ok (y # ys)))"

lemma mapM_cong [fundef_cong]:
  "xs = ys \<Longrightarrow> (\<And>x. x \<in> set ys \<Longrightarrow> f x = g x) \<Longrightarrow> mapM f xs = mapM g ys"
  by (induction ys arbitrary: xs) auto

lemma mapM_Ok: "(\<And>x. x \<in> set xs \<Longrightarrow> f x = Ok (g x)) \<Longrightarrow> mapM f xs = Ok (map g xs)"
  by (induction xs) simp_all

lemma mapM_length: "mapM f xs = Ok ys \<Longrightarrow> length ys = length xs"
  by (induction xs arbitrary: ys) (auto simp: rbind_eq_Inr_iff)

section \<open>Computations that act on the outside world\<close>

text \<open>
  A coroutine that calls a database, a cache server, a subprocess or a model service acts on a
  world \<open>'w\<close>, of which nothing is assumed: the calls are arguments of the definitions that make
  them, and each may raise and may change the world.
\<close>

type_synonym ('w, 'a) io = "'w \<Rightarrow> 'a res \<times> 'w"

definition io_return :: "'a \<Rightarrow> ('w, 'a) io" where
  "io_return x = (\<lambda>w. (Ok x, w))"

definition io_raise :: "exn \<Rightarrow> ('w, 'a) io" where
  "io_raise e = (\<lambda>w. (Raise e, w))"

definition io_lift :: "'a res \<Rightarrow> ('w, 'a) io" where
  "io_lift r = (\<lambda>w. (r, w))"

definition io_bind :: "('w, 'a) io \<Rightarrow> ('a \<Rightarrow> ('w, 'b) io) \<Rightarrow> ('w, 'b) io" where
  "io_bind m f = (\<lambda>w. case m w of (Inl e, w') \<Rightarrow> (Inl e, w') | (Inr x, w') \<Rightarrow> f x w')"

definition io_seq :: "('w, 'a) io \<Rightarrow> ('w, 'b) io \<Rightarrow> ('w, 'b) io" where
  "io_seq m k = io_bind m (\<lambda>_. k)"

text \<open>Reading and changing a world that is modelled, such as the tables of a database.\<close>

definition io_gets :: "('w \<Rightarrow> 'a) \<Rightarrow> ('w, 'a) io" where
  "io_gets f = (\<lambda>w. (Ok (f w), w))"

definition io_modify :: "('w \<Rightarrow> 'w) \<Rightarrow> ('w, unit) io" where
  "io_modify f = (\<lambda>w. (Ok (), f w))"

text \<open>\<open>if b: raise e\<close>.\<close>

definition io_guard :: "bool \<Rightarrow> exn \<Rightarrow> ('w, unit) io" where
  "io_guard ok e = (if ok then io_return () else io_raise e)"

text \<open>\<open>try: m except Exception as e: h e\<close>.\<close>

definition io_try :: "('w, 'a) io \<Rightarrow> (exn \<Rightarrow> ('w, 'a) io) \<Rightarrow> ('w, 'a) io" where
  "io_try m h = (\<lambda>w. case m w of
      (Inl e, w') \<Rightarrow> if is_Exception e then h e w' else (Inl e, w')
    | (Inr x, w') \<Rightarrow> (Inr x, w'))"

lemma io_simps [simp]:
  "io_return x w = (Inr x, w)"
  "io_raise e w = (Inl e, w)"
  "io_lift r w = (r, w)"
  "io_gets f w = (Inr (f w), w)"
  "io_modify g w = (Inr (), g w)"
  by (simp_all add: io_return_def io_raise_def io_lift_def io_gets_def io_modify_def)

lemma io_bind_simps [simp]:
  "m w = (Inl e, w') \<Longrightarrow> io_bind m f w = (Inl e, w')"
  "m w = (Inr x, w') \<Longrightarrow> io_bind m f w = f x w'"
  by (simp_all add: io_bind_def)

lemma io_bind_return [simp]: "io_bind (io_return x) f = f x"
  by (simp add: io_bind_def io_return_def)

lemma io_bind_raise [simp]: "io_bind (io_raise e) f = io_raise e"
  by (simp add: io_bind_def io_raise_def)

lemma io_bind_assoc: "io_bind (io_bind m f) g = io_bind m (\<lambda>x. io_bind (f x) g)"
  by (auto simp: io_bind_def fun_eq_iff split: prod.splits sum.splits)

lemma io_guard_bind:
  "io_bind (io_guard ok e) f w = (if ok then f () w else (Inl e, w))"
  by (simp add: io_guard_def)

lemma io_gets_bind [simp]: "io_bind (io_gets f) g w = g (f w) w"
  by (simp add: io_gets_def io_bind_def)

lemma io_modify_bind [simp]: "io_bind (io_modify f) g w = g () (f w)"
  by (simp add: io_modify_def io_bind_def)

lemma io_bind_Inr: "io_bind m f w = (Inr y, w'') \<longleftrightarrow> (\<exists>x w'. m w = (Inr x, w') \<and> f x w' = (Inr y, w''))"
  by (auto simp: io_bind_def split: prod.splits sum.splits)

lemma io_try_simps [simp]:
  "m w = (Inr x, w') \<Longrightarrow> io_try m h w = (Inr x, w')"
  "m w = (Inl e, w') \<Longrightarrow> io_try m h w = (if is_Exception e then h e w' else (Inl e, w'))"
  by (simp_all add: io_try_def)

lemma io_try_Inr:
  "io_try m h w = (Inr x, w') \<longleftrightarrow> m w = (Inr x, w') \<or>
     (\<exists>e w1. m w = (Inl e, w1) \<and> is_Exception e \<and> h e w1 = (Inr x, w'))"
  by (auto simp: io_try_def split: prod.splits sum.splits if_splits)

text \<open>A computation that always returns a value, and one that is never cancelled.\<close>

definition returns :: "('w, 'a) io \<Rightarrow> bool" where
  "returns m \<longleftrightarrow> (\<forall>w. \<exists>x w'. m w = (Inr x, w'))"

definition uncancelled :: "('w, 'a) io \<Rightarrow> bool" where
  "uncancelled m \<longleftrightarrow> (\<forall>w. fst (m w) \<noteq> Inl CancelledError)"

lemma returnsE: "returns m \<Longrightarrow> (\<And>x w'. m w = (Inr x, w') \<Longrightarrow> P) \<Longrightarrow> P"
  unfolding returns_def by blast

lemma returns_uncancelled: "returns m \<Longrightarrow> uncancelled m"
  unfolding returns_def uncancelled_def by (metis fst_conv Inl_Inr_False)

lemma returns_return [io_intros]: "returns (io_return x)"
  by (simp add: returns_def)

lemma returns_bind [io_intros]: "returns m \<Longrightarrow> (\<And>x. returns (f x)) \<Longrightarrow> returns (io_bind m f)"
  unfolding returns_def by (metis io_bind_simps(2))

lemma returns_try [io_intros]:
  "uncancelled m \<Longrightarrow> (\<And>e. returns (h e)) \<Longrightarrow> returns (io_try m h)"
  unfolding returns_def uncancelled_def io_try_def is_Exception_def
  by (auto split: prod.splits sum.splits) (metis fst_conv sum.exhaust)+

lemma returns_if [io_intros]: "(b \<Longrightarrow> returns m) \<Longrightarrow> (\<not> b \<Longrightarrow> returns n) \<Longrightarrow> returns (if b then m else n)"
  by simp

lemma uncancelled_return [io_intros]: "uncancelled (io_return x)"
  by (simp add: uncancelled_def)

lemma uncancelled_bind [io_intros]:
  "uncancelled m \<Longrightarrow> (\<And>x. uncancelled (f x)) \<Longrightarrow> uncancelled (io_bind m f)"
  unfolding uncancelled_def io_bind_def by (auto split: prod.splits sum.splits) (metis fst_conv)+

lemma uncancelled_lift [io_intros]: "r \<noteq> Inl CancelledError \<Longrightarrow> uncancelled (io_lift r)"
  by (simp add: uncancelled_def)

lemma uncancelled_if [io_intros]:
  "(b \<Longrightarrow> uncancelled m) \<Longrightarrow> (\<not> b \<Longrightarrow> uncancelled n) \<Longrightarrow> uncancelled (if b then m else n)"
  by simp

text \<open>
  \<open>hoare P m Q E\<close>: from a world that satisfies \<open>P\<close>, \<open>m\<close> returns with \<open>Q\<close> or raises with \<open>E\<close>. The rules
  push a precondition forward through the primitive computations.
\<close>

definition hoare :: "('w \<Rightarrow> bool) \<Rightarrow> ('w, 'a) io \<Rightarrow> ('a \<Rightarrow> 'w \<Rightarrow> bool) \<Rightarrow> ('w \<Rightarrow> bool) \<Rightarrow> bool" where
  "hoare P m Q E \<longleftrightarrow> (\<forall>w. P w \<longrightarrow> (case m w of (Inr x, w') \<Rightarrow> Q x w' | (Inl e, w') \<Rightarrow> E w'))"

lemma hoareI: "(\<And>w. P w \<Longrightarrow> case m w of (Inr x, w') \<Rightarrow> Q x w' | (Inl e, w') \<Rightarrow> E w') \<Longrightarrow> hoare P m Q E"
  by (simp add: hoare_def)

lemma hoare_snd: "hoare P m (\<lambda>_. E) E \<Longrightarrow> P w \<Longrightarrow> E (snd (m w))"
  unfolding hoare_def by (fastforce split: prod.splits sum.splits)

lemma hoare_Inr: "hoare P m Q E \<Longrightarrow> P w \<Longrightarrow> m w = (Inr x, w') \<Longrightarrow> Q x w'"
  unfolding hoare_def by fastforce

lemma hoare_bind: "hoare P m Q E \<Longrightarrow> (\<And>x. hoare (Q x) (f x) R E) \<Longrightarrow> hoare P (io_bind m f) R E"
  unfolding hoare_def io_bind_def by (fastforce split: prod.splits sum.splits)

lemma hoare_conseq:
  "hoare P m Q E \<Longrightarrow> (\<And>w. P' w \<Longrightarrow> P w) \<Longrightarrow> (\<And>x w. Q x w \<Longrightarrow> Q' x w) \<Longrightarrow> (\<And>w. E w \<Longrightarrow> E' w) \<Longrightarrow>
   hoare P' m Q' E'"
  unfolding hoare_def by (fastforce split: prod.splits sum.splits)

lemma hoare_return: "(\<And>w. P w \<Longrightarrow> Q x w) \<Longrightarrow> hoare P (io_return x) Q E"
  by (simp add: hoare_def)

lemma hoare_raise: "(\<And>w. P w \<Longrightarrow> E w) \<Longrightarrow> hoare P (io_raise e) Q E"
  by (simp add: hoare_def)

lemma hoare_guard: "(\<And>w. P w \<Longrightarrow> E w) \<Longrightarrow> hoare P (io_guard ok e) (\<lambda>_ w. P w \<and> ok) E"
  by (simp add: hoare_def io_guard_def)

lemma hoare_lift: "(\<And>w. P w \<Longrightarrow> E w) \<Longrightarrow> hoare P (io_lift r) (\<lambda>x w. P w \<and> r = Inr x) E"
  by (auto simp: hoare_def split: sum.splits)

lemma hoare_gets: "hoare P (io_gets f) (\<lambda>x w. P w \<and> x = f w) E"
  by (simp add: hoare_def)

lemma hoare_modify: "hoare P (io_modify f) (\<lambda>_ w. \<exists>w0. P w0 \<and> w = f w0) E"
  by (auto simp: hoare_def)

text \<open>\<open>keeps I m\<close>: the computation preserves \<open>I\<close>, whether it returns or raises.\<close>

definition keeps :: "('w \<Rightarrow> bool) \<Rightarrow> ('w, 'a) io \<Rightarrow> bool" where
  "keeps I m \<longleftrightarrow> (\<forall>w. I w \<longrightarrow> I (snd (m w)))"

lemma keepsD: "keeps I m \<Longrightarrow> I w \<Longrightarrow> I (snd (m w))"
  by (simp add: keeps_def)

lemma keeps_return [keeps_intros]: "keeps I (io_return x)"
  by (simp add: keeps_def)

lemma keeps_Pair [keeps_intros]: "keeps I (Pair r)"
  by (simp add: keeps_def)

lemma keeps_raise [keeps_intros]: "keeps I (io_raise e)"
  by (simp add: keeps_def)

lemma keeps_lift [keeps_intros]: "keeps I (io_lift r)"
  by (simp add: keeps_def)

lemma keeps_gets [keeps_intros]: "keeps I (io_gets f)"
  by (simp add: keeps_def)

lemma keeps_guard [keeps_intros]: "keeps I (io_guard b e)"
  by (simp add: keeps_def io_guard_def)

lemma keeps_modify: "(\<And>w. I w \<Longrightarrow> I (f w)) \<Longrightarrow> keeps I (io_modify f)"
  by (simp add: keeps_def)

lemma keeps_bind [keeps_intros]: "keeps I m \<Longrightarrow> (\<And>x. keeps I (f x)) \<Longrightarrow> keeps I (io_bind m f)"
  unfolding keeps_def io_bind_def by (auto split: prod.splits sum.splits)

lemma keeps_try [keeps_intros]: "keeps I m \<Longrightarrow> (\<And>e. keeps I (h e)) \<Longrightarrow> keeps I (io_try m h)"
  unfolding keeps_def io_try_def by (auto split: prod.splits sum.splits)

lemma keeps_if [keeps_intros]: "(b \<Longrightarrow> keeps I m) \<Longrightarrow> (\<not> b \<Longrightarrow> keeps I n) \<Longrightarrow> keeps I (if b then m else n)"
  by simp

lemma keeps_option [keeps_intros]:
  "(x = None \<Longrightarrow> keeps I m) \<Longrightarrow> (\<And>y. x = Some y \<Longrightarrow> keeps I (f y)) \<Longrightarrow> keeps I (case x of None \<Rightarrow> m | Some y \<Rightarrow> f y)"
  by (cases x) simp_all

lemma keeps_sum [keeps_intros]:
  "(\<And>e. x = Inl e \<Longrightarrow> keeps I (g e)) \<Longrightarrow> (\<And>y. x = Inr y \<Longrightarrow> keeps I (f y)) \<Longrightarrow>
   keeps I (case x of Inl e \<Rightarrow> g e | Inr y \<Rightarrow> f y)"
  by (cases x) simp_all

section \<open>Characters and strings\<close>

definition lower_char :: "char \<Rightarrow> char" where
  "lower_char c = (let n = (of_char c :: nat) in
     if 65 \<le> n \<and> n \<le> 90 then char_of (n + 32) else c)"

definition upper_char :: "char \<Rightarrow> char" where
  "upper_char c = (let n = (of_char c :: nat) in
     if 97 \<le> n \<and> n \<le> 122 then char_of (n - 32) else c)"

definition py_lower :: "string \<Rightarrow> string" where "py_lower = map lower_char"
definition py_upper :: "string \<Rightarrow> string" where "py_upper = map upper_char"

definition is_digit :: "char \<Rightarrow> bool" where
  "is_digit c = (let n = (of_char c :: nat) in 48 \<le> n \<and> n \<le> 57)"

definition is_space :: "char \<Rightarrow> bool" where
  "is_space c = (let n = (of_char c :: nat) in n = 32 \<or> (9 \<le> n \<and> n \<le> 13) \<or> (28 \<le> n \<and> n \<le> 31))"

definition digit_val :: "char \<Rightarrow> nat" where
  "digit_val c = (of_char c :: nat) - 48"

text \<open>\<open>s.isdigit()\<close>: not empty and digits only.\<close>

definition py_isdigit :: "string \<Rightarrow> bool" where
  "py_isdigit s \<longleftrightarrow> s \<noteq> [] \<and> list_all is_digit s"

definition lstrip :: "string \<Rightarrow> string" where "lstrip s = dropWhile is_space s"
definition rstrip :: "string \<Rightarrow> string" where "rstrip s = rev (dropWhile is_space (rev s))"
definition strip :: "string \<Rightarrow> string" where "strip s = rstrip (lstrip s)"

text \<open>\<open>s.rstrip(c)\<close> for a single character.\<close>

definition rstrip_char :: "char \<Rightarrow> string \<Rightarrow> string" where
  "rstrip_char c s = rev (dropWhile (\<lambda>x. x = c) (rev s))"

definition startswith :: "string \<Rightarrow> string \<Rightarrow> bool" where
  "startswith s p = prefix p s"

definition endswith :: "string \<Rightarrow> string \<Rightarrow> bool" where
  "endswith s p = suffix p s"

text \<open>\<open>p in s\<close> for strings.\<close>

fun str_in :: "string \<Rightarrow> string \<Rightarrow> bool" where
  "str_in p [] = (p = [])"
| "str_in p (c # cs) = (prefix p (c # cs) \<or> str_in p cs)"

lemma str_in_iff_sublist: "str_in p s \<longleftrightarrow> sublist p s"
  by (induction s) (auto simp: sublist_Cons_right)

text \<open>\<open>s.split(c, 1)\<close>: the text before and after the first separator.\<close>

fun split_once :: "char \<Rightarrow> string \<Rightarrow> (string \<times> string) option" where
  "split_once c [] = None"
| "split_once c (x # xs) =
     (if x = c then Some ([], xs)
      else map_option (\<lambda>(a, b). (x # a, b)) (split_once c xs))"

lemma split_once_Some: "split_once c s = Some (a, b) \<Longrightarrow> s = a @ c # b \<and> c \<notin> set a"
  by (induction s arbitrary: a b) (auto split: if_splits)

lemma split_once_None: "split_once c s = None \<longleftrightarrow> c \<notin> set s"
  by (induction s) auto

lemma split_once_append: "c \<notin> set a \<Longrightarrow> split_once c (a @ c # b) = Some (a, b)"
  by (induction a) auto

text \<open>\<open>s.split(c)\<close> for a single-character separator.\<close>

fun split_on :: "char \<Rightarrow> string \<Rightarrow> string list" where
  "split_on c [] = [[]]"
| "split_on c (x # xs) =
     (if x = c then [] # split_on c xs
      else (case split_on c xs of [] \<Rightarrow> [[x]] | w # ws \<Rightarrow> (x # w) # ws))"

lemma split_on_not_Nil [simp]: "split_on c s \<noteq> []"
  by (cases s) (auto split: list.splits)

lemma split_on_parts: "w \<in> set (split_on c s) \<Longrightarrow> c \<notin> set w"
proof (induction s arbitrary: w)
  case (Cons x xs)
  then show ?case by (cases "split_on c xs") (auto split: if_splits)
qed simp

lemma split_on_no_sep: "c \<notin> set s \<Longrightarrow> split_on c s = [s]"
  by (induction s) auto

lemma split_on_append_sep: "c \<notin> set a \<Longrightarrow> split_on c (a @ c # b) = a # split_on c b"
  by (induction a) auto

text \<open>\<open>sep.join(xs)\<close>.\<close>

fun join :: "string \<Rightarrow> string list \<Rightarrow> string" where
  "join sep [] = []"
| "join sep [x] = x"
| "join sep (x # y # ys) = x @ sep @ join sep (y # ys)"

lemma join_Cons: "xs \<noteq> [] \<Longrightarrow> join sep (x # xs) = x @ sep @ join sep xs"
  by (cases xs) auto

lemma join_split_on: "join [c] (split_on c s) = s"
proof (induction s)
  case Nil
  show ?case by simp
next
  case (Cons x xs)
  obtain w ws where ws: "split_on c xs = w # ws"
    by (cases "split_on c xs") auto
  with Cons.IH show ?case
    by (cases ws) auto
qed

text \<open>\<open>s.rpartition(c)\<close> where the separator occurs: the text around its last occurrence.\<close>

definition rsplit_once :: "char \<Rightarrow> string \<Rightarrow> (string \<times> string) option" where
  "rsplit_once c s = map_option (\<lambda>(a, b). (rev b, rev a)) (split_once c (rev s))"

lemma rsplit_once_Some: "rsplit_once c s = Some (a, b) \<Longrightarrow> s = a @ c # b \<and> c \<notin> set b"
proof -
  assume "rsplit_once c s = Some (a, b)"
  then have "split_once c (rev s) = Some (rev b, rev a)" by (auto simp: rsplit_once_def)
  then have "rev s = rev b @ c # rev a \<and> c \<notin> set (rev b)" by (rule split_once_Some)
  then have "rev (rev s) = rev (rev b @ c # rev a) \<and> c \<notin> set b" by simp
  then show ?thesis by simp
qed

text \<open>\<open>s.split(sep, 1)\<close> for a separator of any length.\<close>

fun split_str_once :: "string \<Rightarrow> string \<Rightarrow> (string \<times> string) option" where
  "split_str_once sep [] = (if sep = [] then Some ([], []) else None)"
| "split_str_once sep (x # xs) =
     (if prefix sep (x # xs) then Some ([], drop (length sep) (x # xs))
      else map_option (\<lambda>(a, b). (x # a, b)) (split_str_once sep xs))"

text \<open>\<open>s.splitlines()\<close>.\<close>

definition is_linebreak :: "char \<Rightarrow> bool" where
  "is_linebreak c = ((of_char c :: nat) \<in> {10, 11, 12, 13, 28, 29, 30, 133})"

fun splitlines_aux :: "string \<Rightarrow> string \<Rightarrow> string list" where
  "splitlines_aux cur [] = (if cur = [] then [] else [rev cur])"
| "splitlines_aux cur [c] = (if is_linebreak c then [rev cur] else [rev (c # cur)])"
| "splitlines_aux cur (c # d # s) =
     (if c = CHR 0x0D \<and> d = CHR 0x0A then rev cur # splitlines_aux [] s
      else if is_linebreak c then rev cur # splitlines_aux [] (d # s)
      else splitlines_aux (c # cur) (d # s))"

definition splitlines :: "string \<Rightarrow> string list" where
  "splitlines s = splitlines_aux [] s"

text \<open>\<open>list(dict.fromkeys(xs))\<close>: the first occurrence of each element, in order.\<close>

definition dedup_first :: "'a list \<Rightarrow> 'a list" where
  "dedup_first xs = rev (remdups (rev xs))"

lemma set_dedup_first [simp]: "set (dedup_first xs) = set xs"
  by (simp add: dedup_first_def)

lemma distinct_dedup_first [simp]: "distinct (dedup_first xs)"
  by (simp add: dedup_first_def)

text \<open>\<open>s.replace(a, b)\<close> for single characters.\<close>

definition replace_char :: "char \<Rightarrow> char \<Rightarrow> string \<Rightarrow> string" where
  "replace_char a b s = map (\<lambda>c. if c = a then b else c) s"

section \<open>Integers and their text\<close>

fun nat_to_str_aux :: "nat \<Rightarrow> string \<Rightarrow> string" where
  "nat_to_str_aux n acc =
     (let acc' = char_of (48 + n mod 10 :: nat) # acc in
      if n < 10 then acc' else nat_to_str_aux (n div 10) acc')"

declare nat_to_str_aux.simps [simp del]

definition nat_to_str :: "nat \<Rightarrow> string" where "nat_to_str n = nat_to_str_aux n []"

definition int_to_str :: "int \<Rightarrow> string" where
  "int_to_str i = (if i < 0 then CHR ''-'' # nat_to_str (nat (- i)) else nat_to_str (nat i))"

text \<open>Value of a digit string, most significant digit first.\<close>

fun digits_val :: "nat \<Rightarrow> string \<Rightarrow> nat" where
  "digits_val acc [] = acc"
| "digits_val acc (c # cs) = digits_val (10 * acc + digit_val c) cs"

text \<open>The digit part of an \<open>int()\<close> argument: digits with single underscores between them.\<close>

fun int_digits :: "nat \<Rightarrow> string \<Rightarrow> nat option" where
  "int_digits acc [] = None"
| "int_digits acc [c] = (if is_digit c then Some (10 * acc + digit_val c) else None)"
| "int_digits acc (c # d # cs) =
     (if is_digit c
      then (if d = CHR ''_'' then int_digits (10 * acc + digit_val c) cs
            else int_digits (10 * acc + digit_val c) (d # cs))
      else None)"

text \<open>\<open>int(s)\<close> for a string: surrounding white space and a sign are allowed.\<close>

definition int_of_str :: "string \<Rightarrow> int option" where
  "int_of_str s = (case strip s of
      [] \<Rightarrow> None
    | c # cs \<Rightarrow>
        if c = CHR ''-'' then map_option (\<lambda>n. - int n) (int_digits 0 cs)
        else if c = CHR ''+'' then map_option int (int_digits 0 cs)
        else map_option int (int_digits 0 (c # cs)))"

section \<open>Dynamically typed values\<close>

datatype pyval =
    PNone
  | PBool bool
  | PInt int
  | PFloat rat
  | PStr string
  | PList "pyval list"
  | PDict "(string \<times> pyval) list"

type_synonym pydict = "(string \<times> pyval) list"

text \<open>The conversions between floats and text that the interpreter supplies.\<close>

record pyrt =
  float_repr :: "rat \<Rightarrow> string"
  float_parse :: "string \<Rightarrow> rat option"

text \<open>Conversions for the examples: no text is a float.\<close>

definition toy_rt :: pyrt where
  "toy_rt = \<lparr>float_repr = (\<lambda>_. []), float_parse = (\<lambda>_. None)\<rparr>"

text \<open>\<open>bool(v)\<close>.\<close>

fun truthy :: "pyval \<Rightarrow> bool" where
  "truthy PNone = False"
| "truthy (PBool b) = b"
| "truthy (PInt i) = (i \<noteq> 0)"
| "truthy (PFloat r) = (r \<noteq> 0)"
| "truthy (PStr s) = (s \<noteq> [])"
| "truthy (PList xs) = (xs \<noteq> [])"
| "truthy (PDict d) = (d \<noteq> [])"

text \<open>\<open>a or b\<close>.\<close>

definition py_or :: "pyval \<Rightarrow> pyval \<Rightarrow> pyval" where
  "py_or a b = (if truthy a then a else b)"

text \<open>The numeric value of a bool, int or float.\<close>

fun num_of :: "pyval \<Rightarrow> rat option" where
  "num_of (PBool b) = Some (if b then 1 else 0)"
| "num_of (PInt i) = Some (of_int i)"
| "num_of (PFloat r) = Some r"
| "num_of _ = None"

text \<open>
  \<open>a == b\<close>: numbers compare by value across bool, int and float; dictionaries compare
  without regard to the order of their keys.
\<close>

function py_eq :: "pyval \<Rightarrow> pyval \<Rightarrow> bool" where
  "py_eq a b =
     (case (num_of a, num_of b) of
        (Some x, Some y) \<Rightarrow> x = y
      | _ \<Rightarrow>
        (case (a, b) of
           (PNone, PNone) \<Rightarrow> True
         | (PStr s, PStr t) \<Rightarrow> s = t
         | (PList xs, PList ys) \<Rightarrow> list_all2 py_eq xs ys
         | (PDict d, PDict e) \<Rightarrow>
             length d = length e \<and>
             list_all (\<lambda>(k, v). case map_of e k of None \<Rightarrow> False | Some w \<Rightarrow> py_eq v w) d
         | _ \<Rightarrow> False))"
  by pat_completeness auto
termination
  apply (relation "measure (\<lambda>(a, b). size a)")
    apply simp
   apply (auto simp: less_Suc_eq_le size_list_estimation')
  done

declare py_eq.simps [simp del]

lemma py_eq_PStr [simp]: "py_eq (PStr s) (PStr t) \<longleftrightarrow> s = t"
  by (subst py_eq.simps) simp

lemma py_eq_PNone [simp]: "py_eq PNone PNone"
  by (subst py_eq.simps) simp

lemma py_eq_num: "num_of a = Some x \<Longrightarrow> num_of b = Some y \<Longrightarrow> py_eq a b \<longleftrightarrow> x = y"
  by (subst py_eq.simps) simp

lemma py_eq_PInt [simp]: "py_eq (PInt i) (PInt j) \<longleftrightarrow> i = j"
  by (simp add: py_eq_num [OF num_of.simps(2) num_of.simps(2)])

lemma py_eq_PBool [simp]: "py_eq (PBool a) (PBool b) \<longleftrightarrow> a = b"
  by (simp add: py_eq_num [OF num_of.simps(1) num_of.simps(1)])

text \<open>\<open>repr(s)\<close> of a string: the quote is chosen as the interpreter does.\<close>

definition hex_digit :: "nat \<Rightarrow> char" where
  "hex_digit n = (if n < 10 then char_of (48 + n) else char_of (87 + n))"

definition repr_char :: "char \<Rightarrow> char \<Rightarrow> string" where
  "repr_char q c = (let n = (of_char c :: nat) in
     if c = q \<or> c = CHR 0x5C then [CHR 0x5C, c]
     else if n = 10 then [CHR 0x5C, CHR ''n'']
     else if n = 13 then [CHR 0x5C, CHR ''r'']
     else if n = 9 then [CHR 0x5C, CHR ''t'']
     else if n < 32 \<or> 127 \<le> n \<and> n \<le> 160 \<or> n = 173
       then [CHR 0x5C, CHR ''x'', hex_digit (n div 16), hex_digit (n mod 16)]
     else [c])"

definition repr_str :: "string \<Rightarrow> string" where
  "repr_str s = (let q = (if CHR 0x27 \<in> set s \<and> CHR 0x22 \<notin> set s then CHR 0x22 else CHR 0x27)
     in [q] @ concat (map (repr_char q) s) @ [q])"

text \<open>\<open>repr(v)\<close> and \<open>str(v)\<close>.\<close>

fun py_repr :: "pyrt \<Rightarrow> pyval \<Rightarrow> string" where
  "py_repr rt PNone = ''None''"
| "py_repr rt (PBool b) = (if b then ''True'' else ''False'')"
| "py_repr rt (PInt i) = int_to_str i"
| "py_repr rt (PFloat r) = float_repr rt r"
| "py_repr rt (PStr s) = repr_str s"
| "py_repr rt (PList xs) = ''['' @ join '', '' (map (py_repr rt) xs) @ '']''"
| "py_repr rt (PDict d) =
     ''{'' @ join '', '' (map (\<lambda>(k, v). repr_str k @ '': '' @ py_repr rt v) d) @ ''}''"

definition py_str :: "pyrt \<Rightarrow> pyval \<Rightarrow> string" where
  "py_str rt v = (case v of PStr s \<Rightarrow> s | _ \<Rightarrow> py_repr rt v)"

lemma py_str_PStr [simp]: "py_str rt (PStr s) = s"
  by (simp add: py_str_def)

text \<open>\<open>int(v)\<close>.\<close>

fun py_int :: "pyval \<Rightarrow> int res" where
  "py_int (PBool b) = Ok (if b then 1 else 0)"
| "py_int (PInt i) = Ok i"
| "py_int (PFloat r) = Ok (if r < 0 then \<lceil>r\<rceil> else \<lfloor>r\<rfloor>)"
| "py_int (PStr s) = (case int_of_str s of None \<Rightarrow> Raise ValueError | Some i \<Rightarrow> Ok i)"
| "py_int _ = Raise TypeError"

text \<open>\<open>d.get(k, default)\<close> on a dictionary, and on a value that need not be one.\<close>

definition dget :: "pydict \<Rightarrow> string \<Rightarrow> pyval \<Rightarrow> pyval" where
  "dget d k dflt = (case map_of d k of None \<Rightarrow> dflt | Some v \<Rightarrow> v)"

definition vget :: "pyval \<Rightarrow> string \<Rightarrow> pyval \<Rightarrow> pyval res" where
  "vget v k dflt = (case v of PDict d \<Rightarrow> Ok (dget d k dflt) | _ \<Rightarrow> Raise AttributeError)"

text \<open>\<open>d[k]\<close>.\<close>

definition dindex :: "('k \<times> 'v) list \<Rightarrow> 'k \<Rightarrow> 'v res" where
  "dindex d k = (case map_of d k of None \<Rightarrow> Raise KeyError | Some v \<Rightarrow> Ok v)"

text \<open>\<open>d.update(e)\<close>.\<close>

definition dupdate :: "('k \<times> 'v) list \<Rightarrow> ('k \<times> 'v) list \<Rightarrow> ('k \<times> 'v) list" where
  "dupdate d e = fold (\<lambda>(k, v) acc. AList.update k v acc) e d"

lemma map_of_dupdate: "map_of (dupdate d e) = map_of d ++ map_of (rev e)"
proof (induction e arbitrary: d)
  case Nil
  show ?case by (simp add: dupdate_def)
next
  case (Cons kv e)
  obtain k v where "kv = (k, v)" by (cases kv)
  with Cons.IH [of "AList.update k v d"] show ?case
    by (auto simp: dupdate_def update_conv map_add_def fun_eq_iff split: option.splits)
qed

lemma dget_simps [simp]:
  "dget [] k d = d"
  "dget ((k', v) # kvs) k d = (if k = k' then v else dget kvs k d)"
  by (auto simp: dget_def)

lemma vget_simps [simp]:
  "vget (PDict d) k dflt = Ok (dget d k dflt)"
  "vget PNone k dflt = Raise AttributeError"
  "vget (PBool b) k dflt = Raise AttributeError"
  "vget (PInt i) k dflt = Raise AttributeError"
  "vget (PFloat r) k dflt = Raise AttributeError"
  "vget (PStr s) k dflt = Raise AttributeError"
  "vget (PList xs) k dflt = Raise AttributeError"
  by (simp_all add: vget_def)

text \<open>Validation of a text field and of a list of texts.\<close>

fun as_str :: "pyval \<Rightarrow> string res" where
  "as_str (PStr s) = Ok s"
| "as_str _ = Raise ValueError"

definition as_strs :: "pyval list \<Rightarrow> string list res" where
  "as_strs vs = mapM as_str vs"

lemma as_strs_PStr [simp]: "as_strs (map PStr ss) = Ok ss"
  unfolding as_strs_def by (induction ss) simp_all

lemma as_strs_simps [simp]:
  "as_strs [] = Ok []"
  "as_strs (PStr s # vs) = rbind (as_strs vs) (\<lambda>ss. Ok (s # ss))"
  by (simp_all add: as_strs_def)

text \<open>Iteration over a value: a list's elements, a string's characters, a dictionary's keys.\<close>

fun py_iter :: "pyval \<Rightarrow> pyval list res" where
  "py_iter (PList xs) = Ok xs"
| "py_iter (PStr s) = Ok (map (\<lambda>c. PStr [c]) s)"
| "py_iter (PDict d) = Ok (map (\<lambda>(k, _). PStr k) d)"
| "py_iter _ = Raise TypeError"

text \<open>\<open>sorted(set(xs))\<close> for strings.\<close>

definition sorted_set :: "string list \<Rightarrow> string list" where
  "sorted_set xs = remdups (sort xs)"

lemma set_sorted_set [simp]: "set (sorted_set xs) = set xs"
  by (simp add: sorted_set_def)

lemma sorted_sorted_set: "sorted (sorted_set xs)"
  by (simp add: sorted_set_def sorted_remdups)

lemma distinct_sorted_set: "distinct (sorted_set xs)"
  by (simp add: sorted_set_def)

lemmas py_str_defs = py_lower_def lower_char_def py_upper_def upper_char_def startswith_def
  endswith_def is_digit_def py_isdigit_def is_space_def strip_def lstrip_def rstrip_def
  rstrip_char_def digit_val_def int_of_str_def replace_char_def char_of_def bit_Suc_0_iff
  int_to_str_def nat_to_str_def nat_to_str_aux.simps

declare py_str_defs [py_simps]

section \<open>Key-value stores\<close>

text \<open>
  The contract shared by every keyed store the program uses: a dictionary in a process or a
  key of the cache server. A lookup after a write returns the written value, other keys are
  unaffected, and a deleted key is absent.
\<close>

locale kv_store =
  fixes kget :: "'s \<Rightarrow> string \<Rightarrow> 'v option"
    and kset :: "string \<Rightarrow> 'v \<Rightarrow> 's \<Rightarrow> 's"
    and kdel :: "string \<Rightarrow> 's \<Rightarrow> 's"
  assumes kget_kset: "kget (kset k v s) k' = (if k' = k then Some v else kget s k')"
    and kget_kdel: "kget (kdel k s) k' = (if k' = k then None else kget s k')"
begin

lemma kget_kset_same [simp]: "kget (kset k v s) k = Some v"
  by (simp add: kget_kset)

lemma kget_kset_other [simp]: "k' \<noteq> k \<Longrightarrow> kget (kset k v s) k' = kget s k'"
  by (simp add: kget_kset)

lemma kget_kdel_same [simp]: "kget (kdel k s) k = None"
  by (simp add: kget_kdel)

lemma kget_kdel_other [simp]: "k' \<noteq> k \<Longrightarrow> kget (kdel k s) k' = kget s k'"
  by (simp add: kget_kdel)

end

interpretation dict: kv_store "map_of" "AList.update" "AList.delete"
  by unfold_locales (simp_all add: update_conv' delete_conv')

end
