(* ===== verification/Version.thy ===== *)
theory Version
  imports Prelude
begin

text \<open>
  Version comparison of the asset scanner, \<open>src/asset_scan/scanner/version.py\<close>. A version is
  split into epoch, upstream version and revision; the parts are compared in alternating
  non-digit and digit chunks. The theory shows that the comparison is a total preorder (the
  contract \<open>total_compare\<close>), that a digit chunk is compared by its numeric value, and that the
  five operators of \<open>version_matches\<close> are the ones that preorder determines.
\<close>

section \<open>Translation of version.py\<close>

text \<open>The match of \<open>^(\d+):\<close>: the leading digits, if a colon follows at least one of them.\<close>

definition epoch_match :: "string \<Rightarrow> (string \<times> string) option" where
  "epoch_match v =
     (let ds = takeWhile is_digit v; r = dropWhile is_digit v in
      if ds \<noteq> [] \<and> r \<noteq> [] \<and> hd r = CHR '':'' then Some (ds, tl r) else None)"

definition split_version :: "string \<Rightarrow> nat \<times> string \<times> string" where
  "split_version version =
     (let (epoch, v) = (case epoch_match version of
                          Some (ds, rest) \<Rightarrow> (digits_val 0 ds, rest)
                        | None \<Rightarrow> (0, version))
      in case split_once (CHR ''-'') v of
           Some (upstream, revision) \<Rightarrow> (epoch, upstream, revision)
         | None \<Rightarrow> (epoch, v, []))"

fun non_digit_prefix :: "string \<Rightarrow> nat" where
  "non_digit_prefix [] = 0"
| "non_digit_prefix (c # s) = (if is_digit c then 0 else Suc (non_digit_prefix s))"

fun digit_prefix_len :: "string \<Rightarrow> nat" where
  "digit_prefix_len [] = 0"
| "digit_prefix_len (c # s) = (if is_digit c then Suc (digit_prefix_len s) else 0)"

fun compare_non_digit :: "string \<Rightarrow> string \<Rightarrow> int" where
  "compare_non_digit [] [] = 0"
| "compare_non_digit (x # a) [] = (if x = CHR ''~'' then -1 else 1)"
| "compare_non_digit [] (y # b) = (if y = CHR ''~'' then 1 else -1)"
| "compare_non_digit (x # a) (y # b) =
     (if x = CHR ''~'' \<or> y = CHR ''~''
      then (if x \<noteq> CHR ''~'' then 1
            else if y \<noteq> CHR ''~'' then -1
            else compare_non_digit a b)
      else if x \<noteq> y then (if x < y then -1 else 1)
      else compare_non_digit a b)"

text \<open>\<open>a.lstrip("0") or "0"\<close>.\<close>

definition strip_zeros :: "string \<Rightarrow> string" where
  "strip_zeros a = (let b = dropWhile (\<lambda>c. c = CHR ''0'') a in if b = [] then ''0'' else b)"

definition compare_digit :: "string \<Rightarrow> string \<Rightarrow> int" where
  "compare_digit a0 b0 =
     (let a = strip_zeros a0; b = strip_zeros b0 in
      if length a \<noteq> length b then (if length a < length b then -1 else 1)
      else if a \<noteq> b then (if a < b then -1 else 1)
      else 0)"

lemma prefix_progress: "s \<noteq> [] \<Longrightarrow>
  length (drop (digit_prefix_len (drop (non_digit_prefix s) s)) (drop (non_digit_prefix s) s)) < length s"
  by (cases s) auto

lemma prefix_no_growth:
  "length (drop (digit_prefix_len (drop (non_digit_prefix s) s)) (drop (non_digit_prefix s) s)) \<le> length s"
  by simp

function compare_parts :: "string \<Rightarrow> string \<Rightarrow> int" where
  "compare_parts a b =
     (if a = [] \<and> b = [] then 0
      else
        let na = non_digit_prefix a; nb = non_digit_prefix b;
            c = compare_non_digit (take na a) (take nb b)
        in if c \<noteq> 0 then c
           else
             let a1 = drop na a; b1 = drop nb b;
                 da = digit_prefix_len a1; db = digit_prefix_len b1;
                 c' = compare_digit (take da a1) (take db b1)
             in if c' \<noteq> 0 then c' else compare_parts (drop da a1) (drop db b1))"
  by pat_completeness auto
termination
proof (relation "measure (\<lambda>(a, b). length a + length b)", goal_cases)
  case 1
  show ?case by simp
next
  case (2 a b na nb c a1 b1 da db c')
  then have *: "a \<noteq> [] \<or> b \<noteq> []" by blast
  from 2 have "length (drop da a1) \<le> length a" "length (drop db b1) \<le> length b" by simp_all
  moreover from * 2 have "length (drop da a1) < length a \<or> length (drop db b1) < length b"
    using prefix_progress by metis
  ultimately show ?case by simp linarith
qed

declare compare_parts.simps [simp del]

definition compare_versions :: "string \<Rightarrow> string \<Rightarrow> int" where
  "compare_versions a b =
     (let (ea, ua, ra) = split_version a; (eb, ub, rb) = split_version b in
      if ea \<noteq> eb then (if ea < eb then -1 else 1)
      else let c = compare_parts ua ub in
           if c \<noteq> 0 then c else compare_parts ra rb)"

definition version_matches :: "string \<Rightarrow> string \<Rightarrow> string \<Rightarrow> bool" where
  "version_matches version op target =
     (let cmp = compare_versions version target; norm = py_lower op in
      if norm = ''<'' \<or> norm = ''lt'' then cmp < 0
      else if norm = ''<='' \<or> norm = ''le'' then cmp \<le> 0
      else if norm = ''='' \<or> norm = ''=='' \<or> norm = ''eq'' then cmp = 0
      else if norm = ''>='' \<or> norm = ''ge'' then cmp \<ge> 0
      else if norm = ''>'' \<or> norm = ''gt'' then cmp > 0
      else False)"

definition normalize_cpe_version :: "string \<Rightarrow> string" where
  "normalize_cpe_version raw =
     (if raw = [] \<or> raw = ''*'' then []
      else replace_char (CHR ''_'') (CHR ''-'') raw)"

lemmas version_eval = compare_versions_def split_version_def epoch_match_def compare_parts.simps
  compare_digit_def strip_zeros_def Let_def py_simps

section \<open>Comparison functions\<close>

text \<open>
  The contract of a three-way comparison: its result is -1, 0 or 1, swapping the arguments
  negates it, and ``at most'' is transitive.
\<close>

locale total_compare =
  fixes cmp :: "'a \<Rightarrow> 'a \<Rightarrow> int"
  assumes cmp_range: "cmp a b \<in> {-1, 0, 1}"
    and cmp_swap: "cmp b a = - cmp a b"
    and cmp_trans: "cmp a b \<le> 0 \<Longrightarrow> cmp b c \<le> 0 \<Longrightarrow> cmp a c \<le> 0"
begin

lemma cmp_refl [simp]: "cmp a a = 0"
  using cmp_swap [of a a] by simp

lemma cmp_eq_trans: "cmp a b = 0 \<Longrightarrow> cmp b c = 0 \<Longrightarrow> cmp a c = 0"
  using cmp_trans [of a b c] cmp_trans [of c b a] cmp_swap [of a b] cmp_swap [of b c]
    cmp_swap [of a c] by simp

lemma cmp_le_less_trans: "cmp a b \<le> 0 \<Longrightarrow> cmp b c < 0 \<Longrightarrow> cmp a c < 0"
  using cmp_trans [of a b c] cmp_trans [of c a b] cmp_swap [of b c] cmp_swap [of a c]
  by fastforce

lemma cmp_less_le_trans: "cmp a b < 0 \<Longrightarrow> cmp b c \<le> 0 \<Longrightarrow> cmp a c < 0"
  using cmp_trans [of a b c] cmp_trans [of b c a] cmp_swap [of a b] cmp_swap [of a c]
  by fastforce

lemma cmp_subst_left: "cmp a b = 0 \<Longrightarrow> cmp a c = cmp b c"
proof -
  assume ab: "cmp a b = 0"
  then have ba: "cmp b a = 0" using cmp_swap [of a b] by simp
  have "cmp a c \<le> 0 \<longleftrightarrow> cmp b c \<le> 0" and "cmp c a \<le> 0 \<longleftrightarrow> cmp c b \<le> 0"
    using ab ba cmp_trans [of a b c] cmp_trans [of b a c] cmp_trans [of c a b] cmp_trans [of c b a]
    by auto
  then show ?thesis
    using cmp_range [of a c] cmp_range [of b c] cmp_swap [of a c] cmp_swap [of b c] by auto
qed

end

text \<open>Comparing by one key and then, where it ties, by another keeps the contract.\<close>

lemma total_compare_lex:
  assumes "total_compare f" and "total_compare g"
  shows "total_compare (\<lambda>x y. if f (p x) (p y) \<noteq> 0 then f (p x) (p y) else g (q x) (q y))"
proof -
  note rules = total_compare.cmp_range [OF assms(1)] total_compare.cmp_range [OF assms(2)]
  show ?thesis
  proof (unfold_locales, goal_cases)
    case (1 a b)
    then show ?case
      using rules(1) [of "p a" "p b"] rules(2) [of "q a" "q b"] by auto
  next
    case (2 b a)
    then show ?case
      using total_compare.cmp_swap [OF assms(1), of "p a" "p b"]
        total_compare.cmp_swap [OF assms(2), of "q a" "q b"] by simp
  next
    case (3 a b c)
    then show ?case
      using total_compare.cmp_trans [OF assms(1), of "p a" "p b" "p c"]
        total_compare.cmp_trans [OF assms(2), of "q a" "q b" "q c"]
        total_compare.cmp_le_less_trans [OF assms(1), of "p a" "p b" "p c"]
        total_compare.cmp_less_le_trans [OF assms(1), of "p a" "p b" "p c"]
        total_compare.cmp_eq_trans [OF assms(1), of "p a" "p b" "p c"]
      by (auto split: if_splits)
  qed
qed

lemma total_compare_key:
  fixes key :: "'a \<Rightarrow> 'k::linorder"
  shows "total_compare (\<lambda>x y. if key x \<noteq> key y then (if key x < key y then -1 else 1) else 0)"
  by unfold_locales (auto split: if_splits)

section \<open>The chunk comparisons\<close>

interpretation nd: total_compare compare_non_digit
proof (unfold_locales, goal_cases)
  case (1 a b)
  show ?case by (induction a b rule: compare_non_digit.induct) auto
next
  case (2 b a)
  show ?case by (induction a b rule: compare_non_digit.induct) auto
next
  case (3 a b c)
  then show ?case
  proof (induction a arbitrary: b c)
    case Nil
    then show ?case
      by (cases b; cases c) (auto split: if_splits)
  next
    case (Cons x a)
    then show ?case
      by (cases b; cases c) (auto split: if_splits)
  qed
qed

interpretation dg: total_compare compare_digit
proof -
  have eq: "compare_digit = (\<lambda>x y.
      if (if length (strip_zeros x) \<noteq> length (strip_zeros y)
          then (if length (strip_zeros x) < length (strip_zeros y) then -1 else 1) else 0) \<noteq> (0::int)
      then (if length (strip_zeros x) \<noteq> length (strip_zeros y)
          then (if length (strip_zeros x) < length (strip_zeros y) then -1 else 1) else 0)
      else (if strip_zeros x \<noteq> strip_zeros y
          then (if strip_zeros x < strip_zeros y then -1 else 1) else 0))"
    by (simp add: fun_eq_iff compare_digit_def Let_def)
  show "total_compare compare_digit"
    unfolding eq
    by (rule total_compare_lex [OF total_compare_key [of "\<lambda>x. length (strip_zeros x)"]
          total_compare_key [of strip_zeros], of "\<lambda>x. x" "\<lambda>x. x"])
qed

text \<open>The first chunks of a part and what follows them.\<close>

definition nd_of :: "string \<Rightarrow> string" where
  "nd_of s = take (non_digit_prefix s) s"

definition dg_of :: "string \<Rightarrow> string" where
  "dg_of s = (let r = drop (non_digit_prefix s) s in take (digit_prefix_len r) r)"

definition rest_of :: "string \<Rightarrow> string" where
  "rest_of s = (let r = drop (non_digit_prefix s) s in drop (digit_prefix_len r) r)"

definition chunk_compare :: "string \<Rightarrow> string \<Rightarrow> int" where
  "chunk_compare a b =
     (if compare_non_digit (nd_of a) (nd_of b) \<noteq> 0 then compare_non_digit (nd_of a) (nd_of b)
      else compare_digit (dg_of a) (dg_of b))"

interpretation chunk: total_compare chunk_compare
  unfolding chunk_compare_def [abs_def]
  by (rule total_compare_lex [OF nd.total_compare_axioms dg.total_compare_axioms])

lemma rest_of_shorter: "s \<noteq> [] \<Longrightarrow> length (rest_of s) < length s"
  using prefix_progress by (simp add: rest_of_def Let_def)

lemma rest_of_le: "length (rest_of s) \<le> length s"
  by (simp add: rest_of_def Let_def)

lemma compare_parts_Nil [simp]: "compare_parts [] [] = 0"
  by (subst compare_parts.simps) simp

lemma compare_parts_step:
  "compare_parts a b =
     (if chunk_compare a b \<noteq> 0 then chunk_compare a b else compare_parts (rest_of a) (rest_of b))"
proof (cases "a = [] \<and> b = []")
  case True
  then show ?thesis
    by (simp add: chunk_compare_def nd_of_def dg_of_def rest_of_def)
next
  case False
  then show ?thesis
    by (subst compare_parts.simps)
      (auto simp: chunk_compare_def nd_of_def dg_of_def rest_of_def Let_def)
qed

interpretation parts: total_compare compare_parts
proof (unfold_locales, goal_cases)
  case (1 a b)
  show ?case
  proof (induction "length a + length b" arbitrary: a b rule: less_induct)
    case less
    show ?case
    proof (cases "a = [] \<and> b = []")
      case False
      then have "length (rest_of a) + length (rest_of b) < length a + length b"
        using rest_of_shorter [of a] rest_of_shorter [of b] rest_of_le [of a] rest_of_le [of b] by auto
      then show ?thesis
        using less [of "rest_of a" "rest_of b"] chunk.cmp_range [of a b] compare_parts_step [of a b]
        by auto
    qed simp
  qed
next
  case (2 b a)
  show ?case
  proof (induction "length a + length b" arbitrary: a b rule: less_induct)
    case less
    show ?case
    proof (cases "a = [] \<and> b = []")
      case False
      then have "length (rest_of a) + length (rest_of b) < length a + length b"
        using rest_of_shorter [of a] rest_of_shorter [of b] rest_of_le [of a] rest_of_le [of b] by auto
      then show ?thesis
        using less [of "rest_of a" "rest_of b"] chunk.cmp_swap [of b a]
          compare_parts_step [of a b] compare_parts_step [of b a]
        by auto
    qed simp
  qed
next
  case (3 a b c)
  then show ?case
  proof (induction "length a + length b + length c" arbitrary: a b c rule: less_induct)
    case less
    show ?case
    proof (cases "a = [] \<and> b = [] \<and> c = []")
      case False
      then have "length (rest_of a) + length (rest_of b) + length (rest_of c)
          < length a + length b + length c"
        using rest_of_shorter [of a] rest_of_shorter [of b] rest_of_shorter [of c]
          rest_of_le [of a] rest_of_le [of b] rest_of_le [of c] by auto
      note IH = less(1) [OF this]
      show ?thesis
        using less(2,3) IH chunk.cmp_trans [of a b c] chunk.cmp_le_less_trans [of a b c]
          chunk.cmp_less_le_trans [of a b c] chunk.cmp_eq_trans [of a b c]
          compare_parts_step [of a b] compare_parts_step [of b c] compare_parts_step [of a c]
        by (auto split: if_splits)
    qed simp
  qed
qed

interpretation versions: total_compare compare_versions
proof -
  define epoch where "epoch v = fst (split_version v)" for v
  define up where "up v = fst (snd (split_version v))" for v
  define rv where "rv v = snd (snd (split_version v))" for v
  let ?parts = "\<lambda>x y. if compare_parts (up x) (up y) \<noteq> 0 then compare_parts (up x) (up y)
    else compare_parts (rv x) (rv y)"
  let ?ep = "\<lambda>x y. if epoch x \<noteq> epoch y then (if epoch x < epoch y then -1 else 1) else (0::int)"
  have eq: "compare_versions = (\<lambda>x y. if ?ep x y \<noteq> 0 then ?ep x y else ?parts x y)"
    by (simp add: fun_eq_iff compare_versions_def epoch_def up_def rv_def Let_def split: prod.splits)
  have parts: "total_compare ?parts"
    by (rule total_compare_lex [OF parts.total_compare_axioms parts.total_compare_axioms])
  show "total_compare compare_versions"
    unfolding eq
    by (rule total_compare_lex [OF total_compare_key [of epoch] parts, of "\<lambda>x. x" "\<lambda>x. x"])
qed

section \<open>Digit chunks are numbers\<close>

lemma digits_val_acc: "digits_val acc s = acc * 10 ^ length s + digits_val 0 s"
proof (induction s arbitrary: acc)
  case (Cons c s)
  show ?case
    using Cons.IH [of "10 * acc + digit_val c"] Cons.IH [of "digit_val c"]
    by (simp add: algebra_simps)
qed simp

lemma digit_val_less: "is_digit c \<Longrightarrow> digit_val c < 10"
  by (simp add: is_digit_def digit_val_def Let_def) linarith

lemma digits_val_bound: "list_all is_digit s \<Longrightarrow> digits_val 0 s < 10 ^ length s"
proof (induction s)
  case (Cons c s)
  then have "digit_val c \<le> 9" and "digits_val 0 s < 10 ^ length s"
    using digit_val_less [of c] by simp_all
  then have "digit_val c * 10 ^ length s + digits_val 0 s < 9 * 10 ^ length s + 10 ^ length s"
    by (intro add_le_less_mono mult_le_mono1)
  then show ?case
    using digits_val_acc [of "digit_val c" s] by simp
qed simp

lemma digits_val_ge: "s \<noteq> [] \<Longrightarrow> digit_val (hd s) \<noteq> 0 \<Longrightarrow> 10 ^ (length s - 1) \<le> digits_val 0 s"
  using digits_val_acc [of "digit_val (hd s)" "tl s"]
    mult_le_mono1 [of 1 "digit_val (hd s)" "10 ^ (length s - 1)"]
  by (cases s) (auto simp: trans_le_add1)

lemma digits_val_zeros: "digits_val 0 (dropWhile (\<lambda>c. c = CHR ''0'') s) = digits_val 0 s"
  by (induction s) (auto simp: digit_val_def)

lemma digits_val_strip_zeros: "digits_val 0 (strip_zeros s) = digits_val 0 s"
proof (cases "dropWhile (\<lambda>c. c = CHR ''0'') s = []")
  case True
  then have "digits_val 0 s = 0" by (metis digits_val.simps(1) digits_val_zeros)
  with True show ?thesis by (simp add: strip_zeros_def digit_val_def)
next
  case False
  then show ?thesis by (simp only: strip_zeros_def Let_def if_False digits_val_zeros)
qed

lemma digit_val_zero: "is_digit c \<Longrightarrow> digit_val c = 0 \<Longrightarrow> c = CHR ''0''"
proof -
  assume "is_digit c" "digit_val c = 0"
  then have "(of_char c :: nat) = 48" by (simp add: is_digit_def digit_val_def Let_def)
  then have "char_of (of_char c :: nat) = (char_of (48::nat) :: char)" by (rule arg_cong)
  moreover have "(char_of (48::nat) :: char) = CHR ''0''" by (simp add: char_of_def bit_Suc_0_iff)
  ultimately show ?thesis by (simp only: char_of_char)
qed

lemma digit_less_iff: "is_digit c \<Longrightarrow> is_digit d \<Longrightarrow> c < d \<longleftrightarrow> digit_val c < digit_val d"
  by (auto simp: is_digit_def digit_val_def Let_def less_char_def)

lemma digit_eq_iff: "is_digit c \<Longrightarrow> is_digit d \<Longrightarrow> c = d \<longleftrightarrow> digit_val c = digit_val d"
  using digit_less_iff [of c d] digit_less_iff [of d c] by (cases c d rule: linorder_cases) auto

lemma digits_less_iff:
  "list_all is_digit a \<Longrightarrow> list_all is_digit b \<Longrightarrow> length a = length b \<Longrightarrow>
   (a < b \<longleftrightarrow> digits_val 0 a < digits_val 0 b) \<and> (a = b \<longleftrightarrow> digits_val 0 a = digits_val 0 b)"
proof (induction a arbitrary: b)
  case (Cons x a)
  then obtain y b' where b: "b = y # b'" by (cases b) auto
  with Cons.prems have d: "is_digit x" "is_digit y" and l: "list_all is_digit a" "list_all is_digit b'"
    "length a = length b'" by simp_all
  note IH = Cons.IH [OF l]
  have va: "digits_val 0 (x # a) = digit_val x * 10 ^ length a + digits_val 0 a"
    and vb: "digits_val 0 (y # b') = digit_val y * 10 ^ length a + digits_val 0 b'"
    using digits_val_acc [of "digit_val x" a] digits_val_acc [of "digit_val y" b'] l by simp_all
  have bounds: "digits_val 0 a < 10 ^ length a" "digits_val 0 b' < 10 ^ length a"
    using digits_val_bound l by metis+
  have step: "u < w \<Longrightarrow> r < k \<Longrightarrow> u * k + r < w * k + t" for u w r k t :: nat
  proof -
    assume "u < w" "r < k"
    then have "u * k + r < Suc u * k" by simp
    also have "\<dots> \<le> w * k" using \<open>u < w\<close> by (intro mult_le_mono1) simp
    finally show ?thesis by simp
  qed
  consider "digit_val x < digit_val y" | "x = y" | "digit_val y < digit_val x"
    using digit_eq_iff [OF d] by linarith
  then show ?case
  proof cases
    case 1
    then show ?thesis
      using step [OF 1 bounds(1), of "digits_val 0 b'"] va vb b d digit_less_iff [of x y] by auto
  next
    case 2
    then show ?thesis using IH va vb b by simp
  next
    case 3
    then show ?thesis
      using step [OF 3 bounds(2), of "digits_val 0 a"] va vb b d digit_less_iff [of x y] by auto
  qed
qed simp

lemma strip_zeros_digits: "list_all is_digit s \<Longrightarrow> list_all is_digit (strip_zeros s)"
proof -
  have "set (dropWhile (\<lambda>c. c = CHR ''0'') s) \<subseteq> set s" by (auto dest: set_dropWhileD)
  then show "list_all is_digit s \<Longrightarrow> list_all is_digit (strip_zeros s)"
    by (auto simp: strip_zeros_def list_all_iff Let_def is_digit_def)
qed

lemma strip_zeros_cases:
  assumes "list_all is_digit s"
  shows "strip_zeros s = ''0'' \<or> digit_val (hd (strip_zeros s)) \<noteq> 0"
proof (cases "dropWhile (\<lambda>c. c = CHR ''0'') s")
  case (Cons c cs)
  then have "c \<noteq> CHR ''0''" using hd_dropWhile [of "\<lambda>c. c = CHR ''0''" s] by simp
  moreover have "c \<in> set s" using Cons set_dropWhileD [of c "\<lambda>c. c = CHR ''0''" s] by simp
  then have "is_digit c" using assms by (simp add: list_all_iff)
  ultimately show ?thesis using Cons digit_val_zero by (auto simp: strip_zeros_def)
qed (simp add: strip_zeros_def)

lemma strip_zeros_shorter:
  assumes "list_all is_digit a" "list_all is_digit b"
    and "length (strip_zeros a) < length (strip_zeros b)"
  shows "digits_val 0 a < digits_val 0 b"
proof -
  have ne: "strip_zeros a \<noteq> []" by (simp add: strip_zeros_def)
  with assms(3) have "strip_zeros b \<noteq> ''0''" by (cases "strip_zeros a") auto
  then have hb: "digit_val (hd (strip_zeros b)) \<noteq> 0" "strip_zeros b \<noteq> []"
    using strip_zeros_cases [OF assms(2)] assms(3) by auto
  have "digits_val 0 (strip_zeros a) < 10 ^ length (strip_zeros a)"
    using digits_val_bound strip_zeros_digits assms(1) by blast
  also have "\<dots> \<le> 10 ^ (length (strip_zeros b) - 1)"
    using assms(3) by (intro power_increasing) auto
  also have "\<dots> \<le> digits_val 0 (strip_zeros b)" using digits_val_ge hb by blast
  finally show ?thesis by (simp add: digits_val_strip_zeros)
qed

section \<open>Properties\<close>

text \<open>A digit chunk is compared by its numeric value, whatever leading zeros it has.\<close>

theorem compare_digit_numeric:
  assumes "list_all is_digit a" "list_all is_digit b"
  shows "compare_digit a b = sgn (int (digits_val 0 a) - int (digits_val 0 b))"
proof -
  consider "length (strip_zeros a) < length (strip_zeros b)"
    | "length (strip_zeros b) < length (strip_zeros a)"
    | "length (strip_zeros a) = length (strip_zeros b)" by linarith
  then show ?thesis
  proof cases
    case 1
    then show ?thesis using strip_zeros_shorter [OF assms] by (simp add: compare_digit_def)
  next
    case 2
    then show ?thesis using strip_zeros_shorter [OF assms(2,1)] by (simp add: compare_digit_def)
  next
    case 3
    note iff = digits_less_iff [OF strip_zeros_digits strip_zeros_digits 3, OF assms]
    then show ?thesis
      using 3 by (auto simp: compare_digit_def digits_val_strip_zeros Let_def)
  qed
qed

theorem compare_digit_numeric_witness: "compare_digit ''007'' ''12'' = -1"
  using compare_digit_numeric [of "''007''" "''12''"] by (simp add: is_digit_def digit_val_def)

text \<open>Version comparison is a total preorder: every pair is ordered one way or tied, the
  order does not depend on which version is given first, and it is transitive.\<close>

theorem compare_versions_total_preorder:
  "compare_versions a b \<in> {-1, 0, 1} \<and> compare_versions b a = - compare_versions a b \<and>
   compare_versions a a = 0 \<and>
   \<not> (compare_versions a b \<le> 0 \<and> compare_versions b c \<le> 0 \<and> compare_versions a c > 0)"
  using versions.cmp_range [of a b] versions.cmp_swap [of b a] versions.cmp_trans [of a b c] by auto

text \<open>Of \<open>lt\<close>, \<open>eq\<close> and \<open>gt\<close> exactly one holds between two versions, \<open>le\<close> and \<open>ge\<close> are the
  negations of \<open>gt\<close> and \<open>lt\<close>, and versions that tie match the same rules.\<close>

theorem version_matches_trichotomy:
  "(version_matches v ''lt'' t \<noteq> version_matches v ''ge'' t) \<and>
   (version_matches v ''gt'' t \<noteq> version_matches v ''le'' t) \<and>
   (version_matches v ''eq'' t = (version_matches v ''le'' t \<and> version_matches v ''ge'' t)) \<and>
   (version_matches v ''lt'' t = version_matches t ''gt'' v) \<and>
   (compare_versions v w = 0 \<longrightarrow> version_matches v op t = version_matches w op t)"
proof -
  have sw: "compare_versions t v = - compare_versions v t" by (rule versions.cmp_swap)
  have "compare_versions v w = 0 \<Longrightarrow> compare_versions v t = compare_versions w t"
    by (rule versions.cmp_subst_left)
  then show ?thesis
    using sw by (auto simp: version_matches_def Let_def py_lower_def lower_char_def)
qed

theorem version_matches_trichotomy_witness:
  "compare_versions ''1.0'' ''1.00'' = 0 \<and>
   version_matches ''1.0'' ''lt'' ''1.1'' = version_matches ''1.00'' ''lt'' ''1.1''"
proof -
  have "compare_versions ''1.0'' ''1.00'' = 0" by (simp add: version_eval)
  then show ?thesis
    using version_matches_trichotomy [of "''1.0''" "''1.1''" "''1.00''" "''lt''"] by blast
qed

text \<open>The module's own example fails: \<open>1.18.0-rc1\<close> is ordered after \<open>1.18.0\<close>, because the
  text behind the hyphen is a revision and a non-empty revision beats the empty one. Only the
  tilde form is ordered before the release.\<close>

theorem release_candidate_order:
  "compare_versions ''1.18.0-rc1'' ''1.18.0'' = 1 \<and>
   compare_versions ''1.18.0~rc1'' ''1.18.0'' = -1 \<and>
   compare_versions ''1:0.1'' ''0.9'' = 1 \<and>
   compare_versions ''1.2.3-1'' ''1.2.3-2'' = -1 \<and>
   \<not> version_matches ''1.18.0-rc1'' ''lt'' ''1.18.0''"
  by (simp add: version_eval version_matches_def)

end
