(* ===== verification/Scanner.thy ===== *)
theory Scanner
  imports Version
begin

text \<open>
  The scanning half of the asset scanner: host and port discovery
  (\<open>src/asset_scan/scanner/discovery.py\<close>), service fingerprints (\<open>fingerprint.py\<close>) and
  vulnerability matching (\<open>vuln_match.py\<close>). XML documents are trees with the operations of
  ElementTree that the code uses; parsing text into a tree, decoding JSON, running a
  subprocess and querying the rule index are arguments.
\<close>

section \<open>Element trees\<close>

datatype xml = Elem (tag: string) (attrs: "(string \<times> string) list") (etext: "string option")
  (kids: "xml list")

definition xget :: "xml \<Rightarrow> string \<Rightarrow> string option" where
  "xget e k = map_of (attrs e) k"

text \<open>\<open>e.find(t)\<close>, \<open>e.findall(t)\<close> and \<open>e.findall(".//t")\<close>.\<close>

definition xfindall :: "xml \<Rightarrow> string \<Rightarrow> xml list" where
  "xfindall e t = filter (\<lambda>c. tag c = t) (kids e)"

definition xfind :: "xml \<Rightarrow> string \<Rightarrow> xml option" where
  "xfind e t = (case xfindall e t of [] \<Rightarrow> None | c # _ \<Rightarrow> Some c)"

fun xnodes :: "xml \<Rightarrow> xml list" where
  "xnodes (Elem t a x cs) = Elem t a x cs # concat (map xnodes cs)"

definition xdescend :: "xml \<Rightarrow> string \<Rightarrow> xml list" where
  "xdescend e t = filter (\<lambda>c. tag c = t) (concat (map xnodes (kids e)))"

section \<open>Discovery\<close>

definition host_ipv4s :: "xml \<Rightarrow> string list" where
  "host_ipv4s host = concat (map (\<lambda>a.
     if xget a ''addrtype'' = Some ''ipv4''
     then (case xget a ''addr'' of Some ip \<Rightarrow> if ip \<noteq> [] then [ip] else [] | None \<Rightarrow> []) else [])
     (xfindall host ''address''))"

definition parse_host_alive :: "(string \<Rightarrow> xml option) \<Rightarrow> string \<Rightarrow> string list" where
  "parse_host_alive parse_xml xml_text =
     (case parse_xml xml_text of
        None \<Rightarrow> []
      | Some doc \<Rightarrow>
          concat (map (\<lambda>host.
            case xfind host ''status'' of
              Some status \<Rightarrow> if xget status ''state'' \<noteq> Some ''up'' then [] else host_ipv4s host
            | None \<Rightarrow> host_ipv4s host)
          (xdescend doc ''host'')))"

text \<open>The loop over \<open>host.findall("address")\<close> that stops at the first IPv4 entry.\<close>

fun first_ipv4 :: "xml list \<Rightarrow> string" where
  "first_ipv4 [] = []"
| "first_ipv4 (a # as) =
     (if xget a ''addrtype'' = Some ''ipv4''
      then (case xget a ''addr'' of Some ip \<Rightarrow> ip | None \<Rightarrow> [])
      else first_ipv4 as)"

definition port_open :: "xml \<Rightarrow> bool" where
  "port_open port = (case xfind port ''state'' of
     None \<Rightarrow> False | Some st \<Rightarrow> xget st ''state'' = Some ''open'')"

definition host_open_ports :: "xml \<Rightarrow> nat list" where
  "host_open_ports host = concat (map (\<lambda>port.
     if port_open port
     then (case xget port ''portid'' of
             Some pid \<Rightarrow> if py_isdigit pid then [digits_val 0 pid] else []
           | None \<Rightarrow> [])
     else []) (xdescend host ''port''))"

fun extract_hosts :: "(string \<times> nat list) list \<Rightarrow> xml list \<Rightarrow> (string \<times> nat list) list" where
  "extract_hosts out [] = out"
| "extract_hosts out (host # hosts) =
     (let ip = first_ipv4 (xfindall host ''address'') in
      if ip = [] then extract_hosts out hosts
      else let ports = host_open_ports host in
           extract_hosts
             (if ports \<noteq> [] then AList.update ip (remdups (sort ports)) out else out) hosts)"

definition extract_ports :: "xml \<Rightarrow> (string \<times> nat list) list" where
  "extract_ports doc = extract_hosts [] (xdescend doc ''host'')"

definition parse_masscan_ports :: "(string \<Rightarrow> xml option) \<Rightarrow> string \<Rightarrow> (string \<times> nat list) list" where
  "parse_masscan_ports parse_xml xml_text =
     (case parse_xml xml_text of None \<Rightarrow> [] | Some doc \<Rightarrow> extract_ports doc)"

definition parse_nmap_ports :: "(string \<Rightarrow> xml option) \<Rightarrow> string \<Rightarrow> (string \<times> nat list) list" where
  "parse_nmap_ports parse_xml xml_text =
     (case parse_xml xml_text of None \<Rightarrow> [] | Some doc \<Rightarrow> extract_ports doc)"

text \<open>A subprocess run: arguments to exit code, output and error output, or an exception.\<close>

type_synonym 'w runner = "string list \<Rightarrow> ('w, int \<times> string \<times> string) io"

definition discover_hosts ::
    "(string \<Rightarrow> xml option) \<Rightarrow> 'w runner \<Rightarrow> string list \<Rightarrow> ('w, string list) io" where
  "discover_hosts parse_xml run targets =
     io_bind (run ([''nmap'', ''-sn'', ''-n'', ''--max-rate'', ''100'', ''-oX'', ''-'', ''--''] @ targets))
       (\<lambda>(rc, out, err). io_return (parse_host_alive parse_xml out))"

definition scan_ports ::
    "(string \<Rightarrow> xml option) \<Rightarrow> 'w runner \<Rightarrow> nat \<Rightarrow> nat \<Rightarrow> string list \<Rightarrow> string \<Rightarrow> nat list
     \<Rightarrow> ('w, (string \<times> nat list) list) io" where
  "scan_ports parse_xml run masscan_rate nmap_max_rate hosts engine ports =
     (if hosts = [] then io_return []
      else if engine = ''full'' \<and> ports = [] then
        io_bind (run ([''masscan'', ''--rate'', nat_to_str masscan_rate, ''-p'', ''1-65535'',
                       ''-oX'', ''-'', ''--''] @ hosts))
          (\<lambda>(rc, out, err). io_return (dupdate [] (parse_masscan_ports parse_xml out)))
      else
        let args = (if ports \<noteq> []
              then [''nmap'', ''-sS'', ''-n'', ''-p'', join '','' (map nat_to_str ports),
                    ''--max-rate'', nat_to_str nmap_max_rate, ''-oX'', ''-'', ''--''] @ hosts
              else [''nmap'', ''-sS'', ''-n'', ''--top-ports'', ''1000'',
                    ''--max-rate'', nat_to_str nmap_max_rate, ''-oX'', ''-'', ''--''] @ hosts)
        in io_bind (run args)
             (\<lambda>(rc, out, err). io_return (dupdate [] (parse_nmap_ports parse_xml out))))"

section \<open>Fingerprints\<close>

record service =
  svc_port :: nat
  svc_protocol :: string
  svc_name :: string
  svc_product :: string
  svc_version :: string
  svc_cpe :: string
  svc_banner :: string
  svc_http_title :: string

definition xget_or :: "xml \<Rightarrow> string \<Rightarrow> string \<Rightarrow> string" where
  "xget_or e k d = (case xget e k of Some v \<Rightarrow> v | None \<Rightarrow> d)"

text \<open>The last \<open>http-title\<close> script under a port wins.\<close>

fun http_title :: "string \<Rightarrow> xml list \<Rightarrow> string" where
  "http_title t [] = t"
| "http_title t (s # ss) =
     http_title (if xget_or s ''id'' [] = ''http-title'' then strip (xget_or s ''output'' []) else t) ss"

definition port_service :: "xml \<Rightarrow> service" where
  "port_service port =
     (let portid = xget_or port ''portid'' [];
          base = \<lparr>svc_port = (if py_isdigit portid then digits_val 0 portid else 0),
                  svc_protocol = xget_or port ''protocol'' ''tcp'',
                  svc_name = [], svc_product = [], svc_version = [], svc_cpe = [],
                  svc_banner = [], svc_http_title = []\<rparr>
      in case xfind port ''service'' of
           None \<Rightarrow> base
         | Some el \<Rightarrow> base\<lparr>
             svc_name := xget_or el ''name'' [],
             svc_product := xget_or el ''product'' [],
             svc_version := xget_or el ''version'' [],
             svc_cpe := (case xfindall el ''cpe'' of
                           [] \<Rightarrow> []
                         | c # _ \<Rightarrow> (case etext c of Some t \<Rightarrow> t | None \<Rightarrow> [])),
             svc_http_title := http_title [] (xdescend port ''script'')\<rparr>)"

definition parse_nmap_services :: "(string \<Rightarrow> xml option) \<Rightarrow> string \<Rightarrow> service list" where
  "parse_nmap_services parse_xml xml_text =
     (case parse_xml xml_text of
        None \<Rightarrow> []
      | Some doc \<Rightarrow>
          concat (map (\<lambda>host.
            if first_ipv4 (xfindall host ''address'') = [] then []
            else map port_service (filter port_open (xdescend host ''port'')))
          (xdescend doc ''host'')))"

text \<open>The arguments of the version scan of several hosts.\<close>

fun fingerprint_args :: "(string \<times> nat list) list \<Rightarrow> string list" where
  "fingerprint_args [] = []"
| "fingerprint_args ((ip, ports) # hps) =
     [''-p'', join '','' (map nat_to_str ports), ''--'', ip] @ fingerprint_args hps"

definition fingerprint ::
    "(string \<Rightarrow> xml option) \<Rightarrow> 'w runner \<Rightarrow> nat \<Rightarrow> (string \<times> nat list) list \<Rightarrow> ('w, service list) io" where
  "fingerprint parse_xml run nmap_max_rate host_ports =
     (if host_ports = [] then io_return []
      else io_bind
        (run ([''nmap'', ''-sV'', ''-sC'', ''-n'', ''--max-rate'', nat_to_str nmap_max_rate, ''-oX'', ''-'']
              @ fingerprint_args host_ports))
        (\<lambda>(rc, out, err). io_return (parse_nmap_services parse_xml out)))"

section \<open>Matching services against package rules\<close>

text \<open>\<open>(v or "").strip()\<close>, which raises on a value that is neither false nor a string.\<close>

definition str_or_empty :: "pyval \<Rightarrow> string res" where
  "str_or_empty v = (case v of PStr s \<Rightarrow> Ok s | _ \<Rightarrow> if truthy v then Raise AttributeError else Ok [])"

definition rule_product_matches :: "pyval \<Rightarrow> string \<Rightarrow> bool res" where
  "rule_product_matches rule_name product =
     rbind (str_or_empty rule_name) (\<lambda>rn.
       let rname = py_lower (strip rn); prod = py_lower (strip product) in
       Ok (if rname = [] \<or> prod = [] then False
           else if rname = prod then True
           else startswith prod (rname @ ''/'') \<or> startswith prod (rname @ '' '')
                \<or> startswith prod (rname @ ''-'')))"

definition MAX_MATCHES_PER_TASK :: nat where "MAX_MATCHES_PER_TASK = 2000"

text \<open>The entry appended for a service and the rule it matches.\<close>

definition match_entry ::
    "pyrt \<Rightarrow> string \<Rightarrow> pydict \<Rightarrow> pydict \<Rightarrow> string \<Rightarrow> string \<Rightarrow> string \<Rightarrow> pydict" where
  "match_entry rt now svc rule product op threshold = [
     (''vuln_id'', PStr (py_str rt (dget svc ''ip'' (PStr ''?'')) @ '':'' @
                         py_str rt (dget svc ''port'' (PInt 0)) @ '':'' @
                         py_str rt (dget rule ''id'' (PStr [])))),
     (''ip'', dget svc ''ip'' (PStr [])),
     (''port'', dget svc ''port'' (PInt 0)),
     (''service'', dget svc ''name'' (PStr [])),
     (''cve'', dget rule ''cve'' PNone),
     (''template_id'', PNone),
     (''name'', dget rule ''name'' (PStr [])),
     (''severity'', dget rule ''severity'' (PStr ''unknown'')),
     (''evidence'', PStr (product @ '' '' @ py_str rt (dget svc ''version'' (PStr [])) @
                          '' ('' @ op @ '' '' @ threshold @ '')'')),
     (''fix_advice'', dget rule ''fix'' (PStr [])),
     (''status'', PStr ''open''),
     (''detected_at'', PStr now)]"

text \<open>
  The decision for one service and one rule: the operator and threshold of a match, \<open>None\<close>
  for a \<open>continue\<close>.
\<close>

definition rule_hit ::
    "pyrt \<Rightarrow> pydict \<Rightarrow> string \<Rightarrow> string \<Rightarrow> (string \<times> string) option res" where
  "rule_hit rt rule product version =
     (let check = py_or (dget rule ''check'' PNone) (PDict []) in
      rbind (vget check ''type'' PNone) (\<lambda>ty.
      if \<not> py_eq ty (PStr ''package_version'') then Ok None
      else rbind (vget check ''name'' (PStr [])) (\<lambda>nm.
           rbind (rule_product_matches nm product) (\<lambda>pm.
           if \<not> pm then Ok None
           else rbind (vget check ''op'' (PStr ''lt'')) (\<lambda>opv.
                rbind (vget check ''value'' (PStr [])) (\<lambda>val.
                let threshold = py_str rt (py_or val (PStr [])) in
                if threshold = [] then Ok None
                else case opv of
                       PStr op \<Rightarrow>
                         Ok (if version_matches version op threshold then Some (op, threshold) else None)
                     | _ \<Rightarrow> Raise AttributeError))))))"

text \<open>
  The inner loop over the rules. \<open>now n\<close> is the time at which the entry with \<open>n\<close> predecessors
  is appended; the boolean tells that the cap ended the whole search.
\<close>

fun match_rules ::
    "pyrt \<Rightarrow> (nat \<Rightarrow> string) \<Rightarrow> pydict \<Rightarrow> string \<Rightarrow> string \<Rightarrow> pydict list \<Rightarrow> pydict list
     \<Rightarrow> (bool \<times> pydict list) res" where
  "match_rules rt now svc product version [] out = Ok (False, out)"
| "match_rules rt now svc product version (rule # rules) out =
     (if length out \<ge> MAX_MATCHES_PER_TASK then Ok (True, out)
      else rbind (rule_hit rt rule product version) (\<lambda>h.
        case h of
          None \<Rightarrow> match_rules rt now svc product version rules out
        | Some (op, threshold) \<Rightarrow>
            match_rules rt now svc product version rules
              (out @ [match_entry rt (now (length out)) svc rule product op threshold])))"

definition svc_product_version :: "pydict \<Rightarrow> (string \<times> string) res" where
  "svc_product_version svc =
     rbind (str_or_empty (py_or (dget svc ''product'' PNone) (dget svc ''name'' PNone))) (\<lambda>p.
     rbind (str_or_empty (dget svc ''version'' PNone)) (\<lambda>v.
     Ok (strip p, normalize_cpe_version v)))"

fun match_services ::
    "pyrt \<Rightarrow> (nat \<Rightarrow> string) \<Rightarrow> pydict list \<Rightarrow> pydict list \<Rightarrow> pydict list \<Rightarrow> pydict list res" where
  "match_services rt now rules [] out = Ok out"
| "match_services rt now rules (svc # svcs) out =
     rbind (svc_product_version svc) (\<lambda>(product, version).
       if product = [] \<or> version = [] then match_services rt now rules svcs out
       else rbind (match_rules rt now svc product version rules out) (\<lambda>(capped, out').
         if capped then Ok out' else match_services rt now rules svcs out'))"

definition match_by_cpe ::
    "pyrt \<Rightarrow> (nat \<Rightarrow> string) \<Rightarrow> pydict list \<Rightarrow> pydict list \<Rightarrow> pydict list res" where
  "match_by_cpe rt now services rules = match_services rt now rules services []"

section \<open>Loading the package rules\<close>

text \<open>
  Paging through the rule index. \<open>search\<close> answers one page for a cursor (the sort key of the
  last document seen, \<open>None\<close> for the first page) as a list of documents with their sort keys;
  any exception ends the loading with the rules read so far.
\<close>

function load_pages ::
    "('c option \<Rightarrow> ('w, ('r \<times> 'c) list) io) \<Rightarrow> nat \<Rightarrow> 'c option \<Rightarrow> 'r list \<Rightarrow> ('w, 'r list) io" where
  "load_pages search limit cursor rules w =
     (case search cursor w of
        (Inl e, w') \<Rightarrow> if is_Exception e then (Ok rules, w') else (Raise e, w')
      | (Inr hits, w') \<Rightarrow>
          if hits = [] then (Ok (take limit rules), w')
          else let rules' = rules @ map fst hits in
               if length hits < 500 \<or> length rules' \<ge> limit then (Ok (take limit rules'), w')
               else load_pages search limit (Some (snd (last hits))) rules' w')"
  by pat_completeness auto
termination
  by (relation "measure (\<lambda>(search, limit, cursor, rules, w). limit - length rules)") auto

declare load_pages.simps [simp del]

definition load_cve_rules ::
    "('c option \<Rightarrow> ('w, ('r \<times> 'c) list) io) \<Rightarrow> nat \<Rightarrow> ('w, 'r list) io" where
  "load_cve_rules search limit = load_pages search limit None []"

section \<open>Template scans\<close>

text \<open>The host and port of a \<open>matched-at\<close> URL.\<close>

definition parse_matched_at :: "pyval \<Rightarrow> (string \<times> nat) res" where
  "parse_matched_at m = (case m of
     PStr s \<Rightarrow>
       (case split_str_once ''://'' s of
          None \<Rightarrow> Ok ([], 0)
        | Some (_, rest) \<Rightarrow>
            let hostport = (case split_once (CHR ''/'') rest of Some (h, _) \<Rightarrow> h | None \<Rightarrow> rest) in
            case rsplit_once (CHR '':'') hostport of
              Some (ip, port_str) \<Rightarrow> Ok (ip, if py_isdigit port_str then digits_val 0 port_str else 0)
            | None \<Rightarrow> Ok (hostport, 0))
   | PList xs \<Rightarrow> if list_ex (\<lambda>x. py_eq x (PStr ''://'')) xs then Raise AttributeError else Ok ([], 0)
   | PDict d \<Rightarrow> if map_of d ''://'' \<noteq> None then Raise AttributeError else Ok ([], 0)
   | _ \<Rightarrow> Raise TypeError)"

definition nuclei_entry :: "pyval \<Rightarrow> pydict res" where
  "nuclei_entry obj =
     rbind (vget obj ''info'' PNone) (\<lambda>i.
     let info = py_or i (PDict []) in
     rbind (vget info ''classification'' PNone) (\<lambda>c.
     rbind (vget (py_or c (PDict [])) ''cve-id'' PNone) (\<lambda>ci.
     let cve = py_or ci PNone in
     rbind (vget obj ''matched-at'' PNone) (\<lambda>m.
     let matched_at = py_or m (PStr []) in
     rbind (parse_matched_at matched_at) (\<lambda>(ip, port).
     rbind (vget obj ''template-id'' PNone) (\<lambda>t1.
     rbind (vget obj ''templateID'' PNone) (\<lambda>t2.
     rbind (vget info ''name'' (PStr [])) (\<lambda>nm.
     rbind (vget info ''severity'' (PStr ''unknown'')) (\<lambda>sev.
     rbind (vget obj ''matcher-name'' (PStr [])) (\<lambda>mn.
     rbind (vget obj ''extracted-results'' PNone) (\<lambda>ex.
     Ok [(''ip'', PStr ip), (''port'', PInt (int port)),
         (''template_id'', py_or t1 (py_or t2 (PStr []))),
         (''name'', nm), (''severity'', sev), (''cve'', cve), (''matched_at'', matched_at),
         (''matcher'', mn), (''extracted'', py_or ex (PList []))])))))))))))"

fun nuclei_lines :: "(string \<Rightarrow> pyval option) \<Rightarrow> string list \<Rightarrow> pydict list res" where
  "nuclei_lines loads [] = Ok []"
| "nuclei_lines loads (l # ls) =
     (let line = strip l in
      if line = [] then nuclei_lines loads ls
      else case loads line of
             None \<Rightarrow> nuclei_lines loads ls
           | Some obj \<Rightarrow>
               rbind (nuclei_entry obj) (\<lambda>e. rbind (nuclei_lines loads ls) (\<lambda>es. Ok (e # es))))"

definition parse_nuclei_jsonl :: "(string \<Rightarrow> pyval option) \<Rightarrow> string \<Rightarrow> pydict list res" where
  "parse_nuclei_jsonl loads output = nuclei_lines loads (splitlines output)"

text \<open>The (ip, port, scheme) triples in the order of the nested loops.\<close>

definition nuclei_targets :: "(string \<times> nat list) list \<Rightarrow> (string \<times> nat \<times> string) list" where
  "nuclei_targets host_ports = concat (map (\<lambda>(ip, ports).
     concat (map (\<lambda>port. [(ip, port, ''http''), (ip, port, ''https'')]) ports)) host_ports)"

definition stamp_hit :: "string \<Rightarrow> string \<Rightarrow> nat \<Rightarrow> pydict \<Rightarrow> pydict" where
  "stamp_hit now ip port h0 =
     (let h1 = (if truthy (dget h0 ''ip'' PNone) then h0
                else AList.update ''port'' (PInt (int port)) (AList.update ''ip'' (PStr ip) h0))
      in AList.update ''status'' (PStr ''open'') (AList.update ''detected_at'' (PStr now) h1))"

fun stamp_hits :: "(nat \<Rightarrow> string) \<Rightarrow> string \<Rightarrow> nat \<Rightarrow> pydict list \<Rightarrow> pydict list \<Rightarrow> pydict list" where
  "stamp_hits now ip port found [] = found"
| "stamp_hits now ip port found (h # hs) =
     stamp_hits now ip port (found @ [stamp_hit (now (length found)) ip port h]) hs"

definition nuclei_args :: "string \<Rightarrow> string \<Rightarrow> string \<times> nat \<times> string \<Rightarrow> string list" where
  "nuclei_args severity templates_dir t =
     (case t of (ip, port, scheme) \<Rightarrow>
       [''nuclei'', ''-u'', scheme @ ''://'' @ ip @ '':'' @ nat_to_str port, ''-severity'', severity,
        ''-jsonl'', ''-silent'', ''-nc''] @
       (if templates_dir \<noteq> [] then [''-t'', templates_dir] else []))"

fun nuclei_loop ::
    "(string \<Rightarrow> pyval option) \<Rightarrow> 'w runner \<Rightarrow> (nat \<Rightarrow> string) \<Rightarrow> string \<Rightarrow> string
     \<Rightarrow> pydict list \<Rightarrow> (string \<times> nat \<times> string) list \<Rightarrow> ('w, pydict list) io" where
  "nuclei_loop loads run now severity dir found [] w = (Ok found, w)"
| "nuclei_loop loads run now severity dir found (t # ts) w =
     (case run (nuclei_args severity dir t) w of
        (Inl e, w') \<Rightarrow>
          if e = TimeoutError then nuclei_loop loads run now severity dir found ts w'
          else (Raise e, w')
      | (Inr (rc, out, err), w') \<Rightarrow>
          if rc \<noteq> 0 \<and> strip out = [] then nuclei_loop loads run now severity dir found ts w'
          else (case parse_nuclei_jsonl loads out of
                  Inl e \<Rightarrow> (Raise e, w')
                | Inr hits \<Rightarrow>
                    nuclei_loop loads run now severity dir
                      (stamp_hits now (fst t) (fst (snd t)) found hits) ts w'))"

definition run_nuclei ::
    "(string \<Rightarrow> pyval option) \<Rightarrow> 'w runner \<Rightarrow> (nat \<Rightarrow> string) \<Rightarrow> string \<Rightarrow> string
     \<Rightarrow> (string \<times> nat list) list \<Rightarrow> ('w, pydict list) io" where
  "run_nuclei loads run now severity env_templates host_ports =
     (if host_ports = [] then io_return []
      else nuclei_loop loads run now severity (strip env_templates) [] (nuclei_targets host_ports))"

section \<open>Merging the findings of one task\<close>

text \<open>The identifier under which \<open>match_vulns\<close> stores a finding.\<close>

definition vuln_key :: "pyrt \<Rightarrow> pydict \<Rightarrow> pyval" where
  "vuln_key rt v = py_or (dget v ''vuln_id'' PNone)
     (PStr (py_str rt (dget v ''ip'' (PStr ''?'')) @ '':'' @
            py_str rt (dget v ''port'' (PInt 0)) @ '':'' @
            py_str rt (py_or (dget v ''cve'' PNone)
                      (py_or (dget v ''template_id'' PNone) (dget v ''name'' (PStr []))))))"

fun hashable :: "pyval \<Rightarrow> bool" where
  "hashable (PList _) = False"
| "hashable (PDict _) = False"
| "hashable _ = True"

fun dedupe_vulns :: "pyrt \<Rightarrow> pyval list \<Rightarrow> pydict list \<Rightarrow> pydict list res" where
  "dedupe_vulns rt seen [] = Ok []"
| "dedupe_vulns rt seen (v # vs) =
     (let vid = vuln_key rt v in
      if \<not> hashable vid then Raise TypeError
      else if list_ex (py_eq vid) seen then dedupe_vulns rt seen vs
      else rbind (dedupe_vulns rt (vid # seen) vs) (\<lambda>ds.
             Ok (AList.update ''vuln_id'' vid v # ds)))"

text \<open>The normalisation of the targets and the engine of a task.\<close>

definition parse_intent :: "string list \<Rightarrow> string \<Rightarrow> (string list \<times> string) res" where
  "parse_intent targets0 engine =
     (let targets = map strip (filter (\<lambda>t. t \<noteq> [] \<and> strip t \<noteq> []) targets0) in
      if targets = [] then Raise ValueError
      else if engine \<notin> {''fast'', ''full'', ''global''} then Raise ValueError
      else Ok (dedup_first targets, engine))"

section \<open>The match list\<close>

text \<open>The matching pairs in the order of the two loops, without the cap.\<close>

definition svc_matches ::
    "pyrt \<Rightarrow> pydict list \<Rightarrow> pydict \<Rightarrow> (pydict \<times> pydict \<times> string \<times> string \<times> string) list" where
  "svc_matches rt rules svc =
     (case svc_product_version svc of
        Inl _ \<Rightarrow> []
      | Inr (p, v) \<Rightarrow>
          if p = [] \<or> v = [] then []
          else concat (map (\<lambda>rule. case rule_hit rt rule p v of
                 Inr (Some (op, t)) \<Rightarrow> [(svc, rule, p, op, t)] | _ \<Rightarrow> []) rules))"

definition well_typed :: "pyrt \<Rightarrow> pydict list \<Rightarrow> pydict list \<Rightarrow> bool" where
  "well_typed rt services rules =
     list_all (\<lambda>svc. case svc_product_version svc of
        Inl _ \<Rightarrow> False
      | Inr (p, v) \<Rightarrow> list_all (\<lambda>rule. case rule_hit rt rule p v of Inl _ \<Rightarrow> False | Inr _ \<Rightarrow> True) rules)
     services"

definition entries ::
    "pyrt \<Rightarrow> (nat \<Rightarrow> string) \<Rightarrow> nat \<Rightarrow> (pydict \<times> pydict \<times> string \<times> string \<times> string) list
     \<Rightarrow> pydict list" where
  "entries rt now n ms =
     map (\<lambda>(i, svc, rule, p, op, t). match_entry rt (now i) svc rule p op t) (enumerate n ms)"

lemma entries_simps [simp]:
  "entries rt now n [] = []"
  "entries rt now n ((svc, rule, p, op, t) # ms) =
     match_entry rt (now n) svc rule p op t # entries rt now (Suc n) ms"
  by (simp_all add: entries_def)

lemma length_entries [simp]: "length (entries rt now n ms) = length ms"
  by (simp add: entries_def)

lemma entries_append:
  "entries rt now n (ms @ ms') = entries rt now n ms @ entries rt now (n + length ms) ms'"
  by (simp add: entries_def enumerate_append_eq)

lemma match_rules_spec:
  assumes "list_all (\<lambda>rule. case rule_hit rt rule p v of Inl _ \<Rightarrow> False | Inr _ \<Rightarrow> True) rules"
    and "length out \<le> MAX_MATCHES_PER_TASK"
  shows "\<exists>b. match_rules rt now svc p v rules out = Ok (b, out @ entries rt now (length out)
      (take (MAX_MATCHES_PER_TASK - length out)
        (concat (map (\<lambda>rule. case rule_hit rt rule p v of
           Inr (Some (op, t)) \<Rightarrow> [(svc, rule, p, op, t)] | _ \<Rightarrow> []) rules)))) \<and>
      (b \<longrightarrow> length out + length (concat (map (\<lambda>rule. case rule_hit rt rule p v of
           Inr (Some (op, t)) \<Rightarrow> [(svc, rule, p, op, t)] | _ \<Rightarrow> []) rules)) \<ge> MAX_MATCHES_PER_TASK)"
  using assms
proof (induction rules arbitrary: out)
  case Nil
  show ?case by (rule exI [of _ False]) simp
next
  case (Cons rule rules)
  show ?case
  proof (cases "length out \<ge> MAX_MATCHES_PER_TASK")
    case True
    then show ?thesis by (intro exI [of _ True]) simp
  next
    case False
    obtain h where h: "rule_hit rt rule p v = Inr h"
      using Cons.prems(1) by (auto split: sum.splits)
    show ?thesis
    proof (cases h)
      case None
      then show ?thesis using Cons.IH [of out] Cons.prems False h by simp
    next
      case (Some ot)
      obtain op t where ot: "ot = (op, t)" by (cases ot)
      let ?out = "out @ [match_entry rt (now (length out)) svc rule p op t]"
      from False have len: "length ?out \<le> MAX_MATCHES_PER_TASK" by simp
      have "MAX_MATCHES_PER_TASK - length out = Suc (MAX_MATCHES_PER_TASK - length ?out)"
        using False by simp
      then show ?thesis
        using Cons.IH [OF _ len] Cons.prems(1) False h Some ot by auto
    qed
  qed
qed

lemma match_services_spec:
  assumes "well_typed rt services rules" and "length out \<le> MAX_MATCHES_PER_TASK"
  shows "match_services rt now rules services out =
    Ok (out @ entries rt now (length out)
      (take (MAX_MATCHES_PER_TASK - length out) (concat (map (svc_matches rt rules) services))))"
  using assms
proof (induction services arbitrary: out)
  case Nil
  then show ?case by simp
next
  case (Cons svc services)
  obtain p v where pv: "svc_product_version svc = Inr (p, v)"
    and hits: "list_all (\<lambda>rule. case rule_hit rt rule p v of Inl _ \<Rightarrow> False | Inr _ \<Rightarrow> True) rules"
    and wt: "well_typed rt services rules"
    using Cons.prems(1) by (auto simp: well_typed_def split: sum.splits)
  show ?case
  proof (cases "p = [] \<or> v = []")
    case True
    then show ?thesis using Cons.IH [OF wt] Cons.prems(2) pv by (auto simp: svc_matches_def)
  next
    case False
    then have sm: "svc_matches rt rules svc = concat (map (\<lambda>rule. case rule_hit rt rule p v of
        Inr (Some (op, t)) \<Rightarrow> [(svc, rule, p, op, t)] | _ \<Rightarrow> []) rules)"
      using pv by (simp add: svc_matches_def)
    let ?m = "take (MAX_MATCHES_PER_TASK - length out) (svc_matches rt rules svc)"
    let ?out = "out @ entries rt now (length out) ?m"
    obtain b where b: "match_rules rt now svc p v rules out = Ok (b, ?out)"
      and full: "b \<longrightarrow> length out + length (svc_matches rt rules svc) \<ge> MAX_MATCHES_PER_TASK"
      using match_rules_spec [OF hits Cons.prems(2), of now svc] unfolding sm by blast
    have len: "length ?out \<le> MAX_MATCHES_PER_TASK" using Cons.prems(2) by simp
    show ?thesis
    proof (cases b)
      case True
      then have "MAX_MATCHES_PER_TASK - length out \<le> length (svc_matches rt rules svc)"
        using full by simp
      then show ?thesis using False pv b True by simp
    next
      case nb: False
      have rest: "MAX_MATCHES_PER_TASK - length ?out =
          MAX_MATCHES_PER_TASK - length out - length (svc_matches rt rules svc)" by simp
      have dl: "length ?out = length out + length ?m" by simp
      show ?thesis
        using False pv b nb Cons.IH [OF wt len] unfolding rest
        by (auto simp: entries_append min_def)
    qed
  qed
qed

section \<open>Ports and hosts\<close>

definition ports_ok :: "(string \<times> nat list) list \<Rightarrow> bool" where
  "ports_ok out \<longleftrightarrow> distinct (map fst out) \<and>
     (\<forall>(ip, ports) \<in> set out. ip \<noteq> [] \<and> ports \<noteq> [] \<and> sorted ports \<and> distinct ports)"

lemma update_set: "set (AList.update k v al) \<subseteq> insert (k, v) (set al)"
  by (induction al) auto

lemma ports_ok_update:
  "ports_ok out \<Longrightarrow> ip \<noteq> [] \<Longrightarrow> q \<noteq> [] \<Longrightarrow> sorted q \<Longrightarrow> distinct q \<Longrightarrow>
   ports_ok (AList.update ip q out)"
  unfolding ports_ok_def using update_set [of ip q out] by (fastforce simp: distinct_update)

lemma sort_eq_Nil: "sort xs = [] \<longleftrightarrow> xs = []"
  by (metis set_empty set_sort)

lemma extract_hosts_ok: "ports_ok out \<Longrightarrow> ports_ok (extract_hosts out hosts)"
proof (induction hosts arbitrary: out)
  case (Cons host hosts)
  let ?ip = "first_ipv4 (xfindall host ''address'')" and ?ports = "host_open_ports host"
  have "?ip \<noteq> [] \<Longrightarrow> ?ports \<noteq> [] \<Longrightarrow> ports_ok (AList.update ?ip (remdups (sort ?ports)) out)"
    by (rule ports_ok_update) (use Cons.prems in \<open>simp_all add: sort_eq_Nil sorted_remdups\<close>)
  then show ?case using Cons by (simp add: Let_def)
qed simp

definition ports_from :: "xml list \<Rightarrow> string \<times> nat list \<Rightarrow> bool" where
  "ports_from hosts = (\<lambda>(ip, ports).
     \<exists>host \<in> set hosts. first_ipv4 (xfindall host ''address'') = ip \<and> set ports = set (host_open_ports host))"

lemma extract_hosts_from:
  "\<forall>e \<in> set out. ports_from all e \<Longrightarrow> set hosts \<subseteq> set all \<Longrightarrow>
   e \<in> set (extract_hosts out hosts) \<Longrightarrow> ports_from all e"
proof (induction hosts arbitrary: out)
  case (Cons host hosts)
  have "ports_from all (first_ipv4 (xfindall host ''address''),
      remdups (sort (host_open_ports host)))"
    using Cons.prems(2) by (auto simp: ports_from_def)
  then have "\<forall>e \<in> set (AList.update (first_ipv4 (xfindall host ''address''))
      (remdups (sort (host_open_ports host))) out). ports_from all e"
    using update_set [of "first_ipv4 (xfindall host ''address'')"
        "remdups (sort (host_open_ports host))" out] Cons.prems(1) by fastforce
  then show ?case
    using Cons.IH Cons.prems by (auto simp: Let_def split: if_splits)
qed simp

section \<open>Properties\<close>

text \<open>On documents whose fields have the declared types, the capped nested search returns
  the first 2000 matching pairs of services and rules in loop order: no match below the cap is
  lost and none above it is reported.\<close>

theorem match_by_cpe_reference:
  assumes "well_typed rt services rules"
  shows "match_by_cpe rt now services rules =
    Ok (entries rt now 0 (take 2000 (concat (map (svc_matches rt rules) services))))"
  using match_services_spec [OF assms, of "[]" now] MAX_MATCHES_PER_TASK_def
  by (simp add: match_by_cpe_def)

definition example_services :: "pydict list" where
  "example_services = [[(''ip'', PStr ''10.0.0.5''), (''port'', PInt 80),
     (''product'', PStr ''nginx''), (''version'', PStr ''1.2'')]]"

definition example_rules :: "pydict list" where
  "example_rules = [[(''id'', PStr ''R1''), (''check'', PDict [(''type'', PStr ''package_version''),
     (''name'', PStr ''nginx''), (''op'', PStr ''lt''), (''value'', PStr ''1.3'')])]]"

lemma example_hit:
  "svc_product_version (hd example_services) = Ok (''nginx'', ''1.2'')"
  "rule_hit rt (hd example_rules) ''nginx'' ''1.2'' = Ok (Some (''lt'', ''1.3''))"
proof -
  show "svc_product_version (hd example_services) = Ok (''nginx'', ''1.2'')"
    by (simp add: example_services_def svc_product_version_def py_or_def str_or_empty_def
        normalize_cpe_version_def py_simps)
  have "version_matches ''1.2'' ''lt'' ''1.3''"
    by (simp add: version_matches_def version_eval)
  moreover have "rule_product_matches (PStr ''nginx'') ''nginx'' = Ok True"
    by (simp add: rule_product_matches_def str_or_empty_def py_simps)
  ultimately show "rule_hit rt (hd example_rules) ''nginx'' ''1.2'' = Ok (Some (''lt'', ''1.3''))"
    by (simp add: example_rules_def rule_hit_def py_or_def)
qed

theorem match_by_cpe_reference_witness:
  "\<exists>e. match_by_cpe toy_rt nat_to_str example_services example_rules = Ok [e] \<and>
       map_of e ''ip'' = Some (PStr ''10.0.0.5'')"
proof -
  have s: "example_services = [hd example_services]" "example_rules = [hd example_rules]"
    by (simp_all add: example_services_def example_rules_def)
  have "well_typed toy_rt example_services example_rules"
    by (subst s(1), subst s(2)) (simp add: well_typed_def example_hit)
  moreover have "concat (map (svc_matches toy_rt example_rules) example_services) =
      [(hd example_services, hd example_rules, ''nginx'', ''lt'', ''1.3'')]"
    by (subst s(1), subst s(2)) (simp add: svc_matches_def example_hit)
  ultimately have "match_by_cpe toy_rt nat_to_str example_services example_rules =
      Ok [match_entry toy_rt (nat_to_str 0) (hd example_services) (hd example_rules) ''nginx'' ''lt'' ''1.3'']"
    using match_by_cpe_reference [of toy_rt example_services example_rules nat_to_str] by simp
  then show ?thesis by (simp add: match_entry_def example_services_def)
qed

text \<open>The port map read from a scan report has one entry per address, each with a
  non-empty, sorted, duplicate-free port list that holds exactly the open ports of a host with
  that address.\<close>

theorem extract_ports_correct:
  "ports_ok (extract_ports doc) \<and> list_all (ports_from (xdescend doc ''host'')) (extract_ports doc)"
  using extract_hosts_ok [of "[]" "xdescend doc ''host''"]
    extract_hosts_from [of "[]" "xdescend doc ''host''" "xdescend doc ''host''"]
  by (auto simp: extract_ports_def ports_ok_def list_all_iff)

text \<open>A global scan is documented as a masscan pass and an nmap pass; the code runs what it
  runs for a fast scan.\<close>

lemma scan_ports_global_is_fast:
  "scan_ports parse_xml run mr nr hosts ''global'' ports = scan_ports parse_xml run mr nr hosts ''fast'' ports"
  by (simp add: scan_ports_def)

lemma load_pages_bound:
  "length rules \<le> limit \<Longrightarrow> load_pages search limit cursor rules w = (Ok rs, w') \<Longrightarrow>
   length rs \<le> limit"
proof (induction search limit cursor rules w rule: load_pages.induct)
  case (1 search limit cursor rules w)
  then show ?case
    by (subst (asm) (2) load_pages.simps)
      (auto simp: Let_def split: prod.splits sum.splits if_splits)
qed

lemma load_pages_no_exception:
  "(\<And>c w e w'. search c w = (Inl e, w') \<Longrightarrow> is_Exception e) \<Longrightarrow>
   \<exists>rs w'. load_pages search limit cursor rules w = (Ok rs, w')"
proof (induction search limit cursor rules w rule: load_pages.induct)
  case (1 search limit cursor rules w)
  show ?case
  proof (cases "search cursor w")
    case (Pair r w1)
    then show ?thesis
    proof (cases r)
      case (Inl e)
      with Pair "1.prems" [of cursor w e w1] show ?thesis by (subst load_pages.simps) auto
    next
      case (Inr hits)
      with Pair "1.IH" [OF Pair [symmetric] Inr] "1.prems" show ?thesis
        by (subst load_pages.simps) (auto simp: Let_def)
    qed
  qed
qed

text \<open>Loading the rule packs always returns, whatever pages the index answers, never with
  more rules than the limit, and unless the task is cancelled it returns a list even when the
  index fails half-way.\<close>

theorem load_cve_rules_total:
  "(case load_cve_rules search limit w of
      (Inr rs, _) \<Rightarrow> length rs \<le> limit
    | (Inl _, _) \<Rightarrow> \<exists>c u e u'. search c u = (Inl e, u') \<and> \<not> is_Exception e)"
proof (cases "load_cve_rules search limit w")
  case (Pair r w')
  show ?thesis
  proof (cases r)
    case (Inr rs)
    with Pair show ?thesis
      using load_pages_bound [of "[]" limit search None w rs w'] by (simp add: load_cve_rules_def)
  next
    case (Inl e)
    with Pair show ?thesis
      using load_pages_no_exception [of search limit None "[]" w]
      by (auto simp: load_cve_rules_def)
  qed
qed

lemma dedupe_vulns_spec:
  "dedupe_vulns rt seen vs = Ok ds \<Longrightarrow>
   (\<forall>d \<in> set ds. \<not> list_ex (py_eq (dget d ''vuln_id'' PNone)) seen) \<and>
   (\<forall>v \<in> set vs. vuln_key rt v \<in> set seen \<or> list_ex (py_eq (vuln_key rt v)) seen \<or>
      (\<exists>d \<in> set ds. py_eq (vuln_key rt v) (dget d ''vuln_id'' PNone) \<or>
         dget d ''vuln_id'' PNone = vuln_key rt v)) \<and>
   (\<forall>d \<in> set ds. \<exists>v \<in> set vs. d = AList.update ''vuln_id'' (vuln_key rt v) v) \<and>
   sorted_wrt (\<lambda>a b. \<not> py_eq (dget b ''vuln_id'' PNone) (dget a ''vuln_id'' PNone)) ds"
proof (induction vs arbitrary: seen ds)
  case (Cons v vs)
  let ?k = "vuln_key rt v"
  have key: "dget (AList.update ''vuln_id'' ?k v) ''vuln_id'' PNone = ?k"
    by (simp add: dget_def update_conv)
  show ?case
  proof (cases "list_ex (py_eq ?k) seen")
    case True
    then have "dedupe_vulns rt seen vs = Ok ds" using Cons.prems by (auto simp: Let_def split: if_splits)
    from Cons.IH [OF this] True show ?thesis by auto
  next
    case False
    then obtain ds' where ds': "dedupe_vulns rt (?k # seen) vs = Ok ds'"
      and ds: "ds = AList.update ''vuln_id'' ?k v # ds'"
      using Cons.prems by (auto simp: Let_def rbind_eq_Inr_iff split: if_splits)
    note IH = Cons.IH [OF ds']
    show ?thesis
      using IH False key unfolding ds by (auto)
  qed
qed simp

text \<open>The findings stored for a task have pairwise different identifiers, each is one of the
  merged findings under its identifier, and every merged finding has one under its own.\<close>

theorem dedupe_vulns_unique:
  assumes "dedupe_vulns rt [] vs = Ok ds"
  shows "sorted_wrt (\<lambda>a b. \<not> py_eq (dget b ''vuln_id'' PNone) (dget a ''vuln_id'' PNone)) ds \<and>
    (\<forall>d \<in> set ds. \<exists>v \<in> set vs. d = AList.update ''vuln_id'' (vuln_key rt v) v) \<and>
    (\<forall>v \<in> set vs. \<exists>d \<in> set ds. py_eq (vuln_key rt v) (dget d ''vuln_id'' PNone) \<or>
       dget d ''vuln_id'' PNone = vuln_key rt v)"
  using dedupe_vulns_spec [OF assms] by auto

theorem dedupe_vulns_unique_witness:
  "\<exists>v. dedupe_vulns toy_rt [] [[(''vuln_id'', PStr ''a'')], [(''vuln_id'', PStr ''a'')]] = Ok [v] \<and>
       dget v ''vuln_id'' PNone = PStr ''a''"
proof -
  have "dedupe_vulns toy_rt [] [[(''vuln_id'', PStr ''a'')], [(''vuln_id'', PStr ''a'')]] =
      Ok [[(''vuln_id'', PStr ''a'')]]"
    by (simp add: vuln_key_def py_or_def)
  from this dedupe_vulns_unique [OF this] show ?thesis by auto
qed

end
