(* ===== verification/Sanitize.thy ===== *)
theory Sanitize
  imports Prelude
begin

text \<open>
  Masking of personal data and credentials (\<open>src/preprocessing/sanitization/mask.py\<close> and
  \<open>engine.py\<close>) and extraction of indicators (\<open>src/preprocessing/ioc_extractor/extractor.py\<close>).
  A compiled pattern is the function from a text to the positions of its matches that
  \<open>finditer\<close> yields.
\<close>

section \<open>Rules and spans\<close>

datatype mask_type = Credential | Pii | Hash

record rule =
  rname :: string
  rpattern :: "string \<Rightarrow> (nat \<times> nat) list"
  rtype :: mask_type
  rpriority :: int
  rmask :: "string option"

record span =
  sstart :: nat
  send :: nat
  srule :: rule

text \<open>\<open>text[i:j]\<close> for \<open>i\<close> and \<open>j\<close> that are not negative, and \<open>text[-n:]\<close>.\<close>

definition slice :: "string \<Rightarrow> nat \<Rightarrow> nat \<Rightarrow> string" where
  "slice text i j = take (j - i) (drop i text)"

definition last_n :: "nat \<Rightarrow> string \<Rightarrow> string" where
  "last_n n s = drop (length s - n) s"

definition apply_mask :: "string \<Rightarrow> span \<Rightarrow> string res" where
  "apply_mask text sp =
     (let matched = slice text (sstart sp) (send sp) in
      case rmask (srule sp) of
        None \<Rightarrow> Ok matched
      | Some mk \<Rightarrow>
          if mk = ''***'' then
            (case split_once (CHR ''='') matched of
               Some (key, _) \<Rightarrow> Ok (key @ ''=***'')
             | None \<Rightarrow>
                 (case split_once (CHR '':'') matched of
                    Some (key, _) \<Rightarrow> Ok (key @ '':***'')
                  | None \<Rightarrow> Ok ''***''))
          else if str_in ''{prefix3}'' mk then Ok (take 3 matched @ ''****'' @ last_n 4 matched)
          else if str_in ''{prefix6}'' mk then Ok (take 6 matched @ ''********'' @ last_n 4 matched)
          else if str_in ''{user_first}'' mk then
            (case split_once (CHR ''@'') matched of
               None \<Rightarrow> Raise ValueError
             | Some (_, domain) \<Rightarrow> Ok (hd matched # ''***@'' @ domain))
          else Ok mk)"

text \<open>The loop over the spans in order of their start; \<open>resolved\<close> is kept newest first.\<close>

fun resolve_loop :: "span list \<Rightarrow> int \<Rightarrow> span list \<Rightarrow> span list" where
  "resolve_loop resolved last_end [] = rev resolved"
| "resolve_loop resolved last_end (s # ss) =
     (if int (sstart s) \<ge> last_end then resolve_loop (s # resolved) (int (send s)) ss
      else case resolved of
             [] \<Rightarrow> resolve_loop [] last_end ss
           | prev # others \<Rightarrow>
               if rpriority (srule s) > rpriority (srule prev)
               then resolve_loop (s # others) last_end ss
               else if rpriority (srule s) = rpriority (srule prev) \<and>
                       int (send s) - int (sstart s) > int (send prev) - int (sstart prev)
               then resolve_loop (s # others) last_end ss
               else resolve_loop resolved last_end ss)"

definition resolve_spans :: "span list \<Rightarrow> span list" where
  "resolve_spans spans = (if spans = [] then [] else resolve_loop [] (-1) (sort_key sstart spans))"

section \<open>The engine\<close>

definition find_spans :: "rule list \<Rightarrow> string \<Rightarrow> span list" where
  "find_spans rules text =
     concat (map (\<lambda>r. map (\<lambda>(i, j). \<lparr>sstart = i, send = j, srule = r\<rparr>) (rpattern r text)) rules)"

fun apply_loop :: "string \<Rightarrow> nat \<Rightarrow> span list \<Rightarrow> string res" where
  "apply_loop text cursor [] = Ok (drop cursor text)"
| "apply_loop text cursor (s # ss) =
     rbind (apply_mask text s) (\<lambda>m.
     rbind (apply_loop text (send s) ss) (\<lambda>rest.
     Ok (slice text cursor (sstart s) @ m @ rest)))"

definition apply_spans :: "string \<Rightarrow> span list \<Rightarrow> string res" where
  "apply_spans text spans =
     (if spans = [] then Ok text else apply_loop text 0 (sort_key sstart spans))"

definition sanitize :: "rule list \<Rightarrow> string \<Rightarrow> string res" where
  "sanitize rules text = apply_spans text (resolve_spans (find_spans rules text))"

section \<open>Indicators\<close>

record ioc_bundle =
  ips :: "string list"
  domains :: "string list"
  hashes :: "string list"
  urls :: "string list"

text \<open>The private-range pattern, matched against the four dot-separated parts.\<close>

definition private_parts :: "string list \<Rightarrow> bool" where
  "private_parts parts = (case parts of
     [a, b, c, d] \<Rightarrow>
       (a = ''10'' \<and> py_isdigit b \<and> py_isdigit c \<and> py_isdigit d)
     \<or> (a = ''172'' \<and> b \<in> {''16'', ''17'', ''18'', ''19'', ''20'', ''21'', ''22'', ''23'', ''24'', ''25'',
                           ''26'', ''27'', ''28'', ''29'', ''30'', ''31''}
          \<and> py_isdigit c \<and> py_isdigit d)
     \<or> (a = ''192'' \<and> b = ''168'' \<and> py_isdigit c \<and> py_isdigit d)
     \<or> (a = ''127'' \<and> py_isdigit b \<and> py_isdigit c \<and> py_isdigit d)
     \<or> (a = ''0'' \<and> b = ''0'' \<and> c = ''0'' \<and> d = ''0'')
   | _ \<Rightarrow> False)"

definition valid_ip :: "string \<Rightarrow> bool" where
  "valid_ip ip =
     (let parts = split_on (CHR ''.'') ip in
      length parts = 4 \<and>
      list_all (\<lambda>p. case int_of_str p of None \<Rightarrow> False | Some i \<Rightarrow> 0 \<le> i \<and> i \<le> 255) parts \<and>
      \<not> private_parts parts)"

text \<open>The loops that collect new matches only.\<close>

fun collect :: "(string \<Rightarrow> bool) \<Rightarrow> string list \<Rightarrow> string list \<Rightarrow> string list" where
  "collect ok acc [] = acc"
| "collect ok acc (x # xs) = collect ok (if ok x \<and> x \<notin> set acc then acc @ [x] else acc) xs"

text \<open>The matches of the six patterns in a text are the arguments.\<close>

record ioc_patterns =
  ip_re :: "string \<Rightarrow> string list"
  domain_re :: "string \<Rightarrow> string list"
  sha256_re :: "string \<Rightarrow> string list"
  sha1_re :: "string \<Rightarrow> string list"
  md5_re :: "string \<Rightarrow> string list"
  url_re :: "string \<Rightarrow> string list"

definition extract_iocs :: "ioc_patterns \<Rightarrow> string \<Rightarrow> ioc_bundle" where
  "extract_iocs re text =
     \<lparr>ips = collect valid_ip [] (ip_re re text),
      domains = collect (\<lambda>_. True) [] (map py_lower (domain_re re text)),
      hashes = collect (\<lambda>_. True) []
        (map py_lower (sha256_re re text @ sha1_re re text @ md5_re re text)),
      urls = collect (\<lambda>_. True) [] (url_re re text)\<rparr>"

section \<open>Disjoint spans\<close>

text \<open>Spans in order of their start, none reaching into the next, all within the text.\<close>

fun laid_out :: "nat \<Rightarrow> nat \<Rightarrow> span list \<Rightarrow> bool" where
  "laid_out lo hi [] \<longleftrightarrow> lo \<le> hi"
| "laid_out lo hi (s # ss) \<longleftrightarrow> lo \<le> sstart s \<and> sstart s \<le> send s \<and> laid_out (send s) hi ss"

lemma laid_out_mono: "laid_out lo hi ss \<Longrightarrow> lo' \<le> lo \<Longrightarrow> laid_out lo' hi ss"
  by (cases ss) auto

lemma laid_out_le: "laid_out lo hi ss \<Longrightarrow> lo \<le> hi"
  by (induction ss arbitrary: lo) fastforce+

lemma laid_out_starts: "laid_out lo hi ss \<Longrightarrow> s \<in> set ss \<Longrightarrow> lo \<le> sstart s"
  by (induction ss arbitrary: lo) fastforce+

lemma laid_out_sorted: "laid_out lo hi ss \<Longrightarrow> sorted (map sstart ss)"
proof (induction ss arbitrary: lo)
  case (Cons s ss)
  then have "\<forall>x \<in> set ss. sstart s \<le> sstart x"
    using laid_out_starts by fastforce
  with Cons show ?case by auto
qed simp

lemma resolve_loop_laid_out:
  "laid_out lo hi ss \<Longrightarrow> le \<le> int lo \<Longrightarrow> resolve_loop acc le ss = rev acc @ ss"
proof (induction ss arbitrary: lo le acc)
  case (Cons s ss)
  then show ?case using Cons.IH [of "send s" "int (send s)" "s # acc"] by simp
qed simp

lemma resolve_spans_laid_out: "laid_out 0 hi (sort_key sstart ss) \<Longrightarrow> resolve_spans ss = sort_key sstart ss"
  using resolve_loop_laid_out [of 0 hi "sort_key sstart ss" "-1" "[]"]
  by (auto simp: resolve_spans_def)

lemma resolve_loop_subset: "set (resolve_loop acc le ss) \<subseteq> set acc \<union> set ss"
  by (induction acc le ss rule: resolve_loop.induct) (auto split: list.splits)

text \<open>The text cut into the pieces between the spans and the spans themselves.\<close>

fun pieces :: "string \<Rightarrow> nat \<Rightarrow> span list \<Rightarrow> (string \<times> string) list \<times> string" where
  "pieces text cursor [] = ([], drop cursor text)"
| "pieces text cursor (s # ss) =
     (let (ps, tail) = pieces text (send s) ss
      in ((slice text cursor (sstart s), slice text (sstart s) (send s)) # ps, tail))"

lemma slice_append: "i \<le> j \<Longrightarrow> j \<le> k \<Longrightarrow> slice t i j @ slice t j k = slice t i k"
proof -
  assume "i \<le> j" "j \<le> k"
  then obtain a b where j: "j = i + a" and k: "k = i + a + b"
    by (metis le_add_diff_inverse)
  show ?thesis
    unfolding slice_def j k by (simp add: take_add add.commute [of a i])
qed

lemma slice_drop: "i \<le> j \<Longrightarrow> slice t i j @ drop j t = drop i t"
  by (simp add: slice_def) (metis append_take_drop_id drop_drop le_add_diff_inverse2)

lemma pieces_concat:
  "laid_out cursor (length text) ss \<Longrightarrow>
   concat (map (\<lambda>(g, m). g @ m) (fst (pieces text cursor ss))) @ snd (pieces text cursor ss) =
   drop cursor text"
proof (induction ss arbitrary: cursor)
  case (Cons s ss)
  have "slice text cursor (sstart s) @ slice text (sstart s) (send s) @ drop (send s) text = drop cursor text"
    using Cons.prems by (simp add: slice_drop)
  then show ?case
    using Cons by (auto simp: case_prod_beta)
qed simp

lemma slice_all: "slice m 0 (length m) = m"
  by (simp add: slice_def)

definition mask_piece :: "rule \<Rightarrow> string \<Rightarrow> string res" where
  "mask_piece r m = apply_mask m \<lparr>sstart = 0, send = length m, srule = r\<rparr>"

lemma mask_piece_eq: "apply_mask text s = mask_piece (srule s) (slice text (sstart s) (send s))"
  by (simp add: mask_piece_def apply_mask_def slice_all)

lemma apply_loop_pieces:
  "apply_loop text cursor ss =
     rbind (mapM (\<lambda>s. mask_piece (srule s) (slice text (sstart s) (send s))) ss) (\<lambda>ms.
     Ok (concat (map (\<lambda>((gap, _), m). gap @ m) (zip (fst (pieces text cursor ss)) ms)) @
         snd (pieces text cursor ss)))"
proof (induction ss arbitrary: cursor)
  case (Cons s ss)
  obtain ps tl where "pieces text (send s) ss = (ps, tl)" by fastforce
  then show ?case
    unfolding apply_loop.simps Cons.IH mask_piece_eq
    by (auto simp: rbind_def split: sum.splits)
qed simp

section \<open>Properties\<close>

text \<open>C23: when the matches of all rules are disjoint, every match is replaced by its mask, the
  text between the matches is unchanged and nothing is lost: the text is the concatenation of
  gaps and matches, the result the concatenation of the same gaps and the masked matches.\<close>

theorem sanitize_disjoint:
  assumes "laid_out 0 (length text) (sort_key sstart (find_spans rules text))"
    and "ss = sort_key sstart (find_spans rules text)"
  shows "concat (map (\<lambda>(gap, m). gap @ m) (fst (pieces text 0 ss))) @ snd (pieces text 0 ss) = text \<and>
    sanitize rules text =
      rbind (mapM (\<lambda>s. mask_piece (srule s) (slice text (sstart s) (send s))) ss) (\<lambda>ms.
      Ok (concat (map (\<lambda>((gap, _), m). gap @ m) (zip (fst (pieces text 0 ss)) ms)) @
          snd (pieces text 0 ss)))"
proof -
  have r: "resolve_spans (find_spans rules text) = ss"
    using resolve_spans_laid_out assms by blast
  have "sort_key sstart ss = ss"
    using laid_out_sorted assms by (intro sort_key_id_if_sorted) auto
  then have "sanitize rules text = apply_loop text 0 ss"
    by (cases "ss = []") (simp_all add: sanitize_def r apply_spans_def)
  then show ?thesis
    using pieces_concat [of 0 "text" ss] assms apply_loop_pieces [of "text" 0 ss] by simp
qed

definition token_rule :: rule where
  "token_rule = \<lparr>rname = ''token'', rpattern = (\<lambda>_. [(2, 9)]), rtype = Credential,
     rpriority = 1, rmask = Some ''***''\<rparr>"

theorem sanitize_disjoint_witness: "sanitize [token_rule] ''a key=123 b'' = Ok ''a key=*** b''"
proof -
  have l: "laid_out 0 (length ''a key=123 b'') (sort_key sstart (find_spans [token_rule] ''a key=123 b''))"
    by (simp add: find_spans_def token_rule_def)
  show ?thesis
    using sanitize_disjoint [OF l refl]
    by (simp add: find_spans_def token_rule_def slice_def mask_piece_def apply_mask_def)
qed

text \<open>A credential mask keeps at most the key in front of the first \<open>=\<close> (or, without one, of
  the first \<open>:\<close>) and drops every character behind it, so equal keys give equal output whatever
  the secret is.\<close>

theorem credential_mask_hides_value:
  assumes "rmask r = Some ''***''"
  shows "\<exists>key sep. mask_piece r m = Ok (key @ sep @ ''***'') \<and>
    (sep = [] \<and> key = [] \<or> sep = ''='' \<and> CHR ''='' \<notin> set key \<or> sep = '':'' \<and> CHR '':'' \<notin> set key) \<and>
    prefix (key @ sep) m \<and>
    (sep = ''='' \<longrightarrow> (\<forall>v. mask_piece r (key @ ''='' @ v) = mask_piece r m))"
proof (cases "split_once (CHR ''='') m")
  case None
  show ?thesis
  proof (cases "split_once (CHR '':'') m")
    case None
    with \<open>split_once (CHR ''='') m = None\<close> show ?thesis
      using assms by (intro exI [of _ "[]"]) (simp add: mask_piece_def apply_mask_def slice_def)
  next
    case (Some kv)
    obtain k v where kv: "kv = (k, v)" by (cases kv)
    with Some \<open>split_once (CHR ''='') m = None\<close> show ?thesis
      using assms split_once_Some [of "CHR '':''" m k v]
      by (intro exI [of _ k] exI [of _ "'':''"]) (simp add: mask_piece_def apply_mask_def slice_def)
  qed
next
  case (Some kv)
  obtain k v where kv: "kv = (k, v)" by (cases kv)
  have k: "CHR ''='' \<notin> set k" "m = k @ CHR ''='' # v"
    using Some kv split_once_Some [of "CHR ''=''" m k v] by auto
  with Some kv show ?thesis
    using assms
    by (intro exI [of _ k] exI [of _ "''=''"])
      (simp add: mask_piece_def apply_mask_def slice_def split_once_append)
qed

theorem credential_mask_hides_value_witness:
  "\<exists>key sep. mask_piece token_rule ''pw=hunter2'' = Ok (key @ sep @ ''***'') \<and>
     prefix (key @ sep) ''pw=hunter2''"
  using credential_mask_hides_value [of token_rule "''pw=hunter2''"] by (auto simp: token_rule_def)

text \<open>
  Overlapping matches. Documented is that a higher priority wins and, with equal priority, the
  longer match; the replacement keeps the end of the replaced span as the cursor.
\<close>

definition prio_rule :: "int \<Rightarrow> (nat \<times> nat) list \<Rightarrow> rule" where
  "prio_rule p ms = \<lparr>rname = [], rpattern = (\<lambda>_. ms), rtype = Pii, rpriority = p, rmask = Some ''#''\<rparr>"

text \<open>Overlapping matches leak. A high-priority match inside a longer low-priority one
  uncovers the rest of the longer one; a match that is dropped for overlapping the replaced span
  is masked by nothing; and after a longer match has replaced a shorter one, a later match inside
  it is accepted as well, which makes the engine copy the tail of the longer match unmasked.\<close>

theorem sanitize_overlap_leaks:
  "sanitize [prio_rule 1 [(0, 10)], prio_rule 2 [(2, 4)]] ''0123456789'' = Ok ''01#456789'' \<and>
   sanitize [prio_rule 1 [(0, 10), (6, 9)], prio_rule 2 [(2, 4)]] ''0123456789'' = Ok ''01#456789'' \<and>
   sanitize [prio_rule 1 [(0, 3), (4, 5)], prio_rule 2 [(1, 9)]] ''0123456789'' = Ok ''0##56789''"
  by (simp add: sanitize_def find_spans_def prio_rule_def resolve_spans_def apply_spans_def
      apply_mask_def slice_def)

lemma collect_spec:
  "distinct acc \<Longrightarrow> distinct (collect ok acc xs) \<and> set (collect ok acc xs) = set acc \<union> {x \<in> set xs. ok x}"
  by (induction xs arbitrary: acc) auto

text \<open>The extracted indicators are free of duplicates, are exactly the (lower-cased) matches
  of the patterns, and no address in them lies in a private range or has a part above 255.\<close>

theorem extract_correct:
  "distinct (ips (extract_iocs re text)) \<and> distinct (domains (extract_iocs re text)) \<and>
   distinct (hashes (extract_iocs re text)) \<and> distinct (urls (extract_iocs re text)) \<and>
   set (ips (extract_iocs re text)) = {x \<in> set (ip_re re text). valid_ip x} \<and>
   set (domains (extract_iocs re text)) = py_lower ` set (domain_re re text) \<and>
   set (hashes (extract_iocs re text)) =
     py_lower ` (set (sha256_re re text) \<union> set (sha1_re re text) \<union> set (md5_re re text)) \<and>
   set (urls (extract_iocs re text)) = set (url_re re text)"
  by (auto simp: extract_iocs_def collect_spec)

lemma private_ranges_rejected:
  assumes "py_isdigit b" "py_isdigit c" "py_isdigit d"
  shows "\<not> valid_ip (''10.'' @ b @ ''.'' @ c @ ''.'' @ d)"
    "\<not> valid_ip (''127.'' @ b @ ''.'' @ c @ ''.'' @ d)"
    "\<not> valid_ip (''192.168.'' @ c @ ''.'' @ d)"
proof -
  have nd: "CHR ''.'' \<notin> set x" if "py_isdigit x" for x
    using that by (auto simp: py_isdigit_def list_all_iff is_digit_def Let_def)
  note sp = split_on_append_sep [OF nd [OF assms(1)]] split_on_append_sep [OF nd [OF assms(2)]]
    split_on_no_sep [OF nd [OF assms(3)]]
  show "\<not> valid_ip (''10.'' @ b @ ''.'' @ c @ ''.'' @ d)"
    "\<not> valid_ip (''127.'' @ b @ ''.'' @ c @ ''.'' @ d)"
    "\<not> valid_ip (''192.168.'' @ c @ ''.'' @ d)"
    using assms by (simp_all add: valid_ip_def private_parts_def sp Let_def)
qed

end
