(* ===== verification/Alerts.thy ===== *)
theory Alerts
  imports Prelude
begin

text \<open>
  The normalised alert, \<open>src/agents/models.py\<close>. Its constructor validates the declared field
  types: a text field that is not a string, or a list of texts with another element, raises.
\<close>

datatype alert_severity = Sev_Critical | Sev_High | Sev_Medium | Sev_Low | Sev_Info

datatype alert_status = St_New | St_Acknowledged | St_In_Progress | St_Resolved | St_False_Positive

datatype alert_source =
    Src_Wazuh | Src_Elkeid | Src_Elastic | Src_CrowdStrike | Src_SentinelOne | Src_Syslog
  | Src_SecAgent | Src_Unknown

fun source_value :: "alert_source \<Rightarrow> string" where
  "source_value Src_Wazuh = ''wazuh''"
| "source_value Src_Elkeid = ''elkeid''"
| "source_value Src_Elastic = ''elastic''"
| "source_value Src_CrowdStrike = ''crowdstrike''"
| "source_value Src_SentinelOne = ''sentinelone''"
| "source_value Src_Syslog = ''syslog''"
| "source_value Src_SecAgent = ''secagent''"
| "source_value Src_Unknown = ''unknown''"

definition all_sources :: "alert_source list" where
  "all_sources = [Src_Wazuh, Src_Elkeid, Src_Elastic, Src_CrowdStrike, Src_SentinelOne, Src_Syslog,
     Src_SecAgent, Src_Unknown]"

text \<open>\<open>AlertSource(s)\<close>: the member with that value.\<close>

definition source_of :: "string \<Rightarrow> alert_source option" where
  "source_of s = List.find (\<lambda>x. source_value x = s) all_sources"

lemma source_of_value [simp]: "source_of (source_value x) = Some x"
  by (cases x) (simp_all add: source_of_def all_sources_def)

record alert_ioc =
  ioc_ips :: "string list"
  ioc_domains :: "string list"
  ioc_hashes :: "string list"
  ioc_urls :: "string list"
  ioc_emails :: "string list"
  ioc_users :: "string list"

definition empty_ioc :: alert_ioc where
  "empty_ioc = \<lparr>ioc_ips = [], ioc_domains = [], ioc_hashes = [], ioc_urls = [], ioc_emails = [],
     ioc_users = []\<rparr>"

record alert =
  alert_id :: string
  a_source :: alert_source
  a_title :: string
  a_description :: string
  a_severity :: alert_severity
  a_status :: alert_status
  a_occurred_at :: string
  a_received_at :: string
  a_hostname :: string
  a_host_ip :: string
  a_agent_id :: string
  a_rule_id :: string
  a_rule_name :: string
  a_category :: string
  a_mitre_attack :: "string list"
  a_iocs :: alert_ioc
  a_tags :: "string list"
  a_source_url :: string
  a_raw :: pydict

end
