(* ===== verification/Sigma.thy ===== *)
theory Sigma
  imports Alerts
begin

text \<open>
  The Sigma rule language, \<open>src/detection/sigma.py\<close>: parsing a rule from its YAML mapping and
  matching it against an event. Both the mapping and the event are dynamically typed.
\<close>

section \<open>Rules\<close>

datatype rule_level = Informational | Low | Medium | High | Critical

fun level_value :: "rule_level \<Rightarrow> string" where
  "level_value Informational = ''informational''"
| "level_value Low = ''low''"
| "level_value Medium = ''medium''"
| "level_value High = ''high''"
| "level_value Critical = ''critical''"

definition level_of :: "string \<Rightarrow> rule_level option" where
  "level_of s = List.find (\<lambda>l. level_value l = s) [Informational, Low, Medium, High, Critical]"

definition level_parse :: "pyval \<Rightarrow> rule_level res" where
  "level_parse raw =
     (if \<not> truthy raw then Ok Medium
      else case raw of
             PStr s \<Rightarrow> Ok (case level_of (py_lower s) of None \<Rightarrow> Medium | Some l \<Rightarrow> l)
           | _ \<Rightarrow> Raise AttributeError)"

datatype operator = EQ | NEQ | GT | GTE | LT | LTE | CONTAINS | STARTSWITH | EXISTS

fun operator_value :: "operator \<Rightarrow> string" where
  "operator_value EQ = ''eq''"
| "operator_value NEQ = ''neq''"
| "operator_value GT = ''gt''"
| "operator_value GTE = ''gte''"
| "operator_value LT = ''lt''"
| "operator_value LTE = ''lte''"
| "operator_value CONTAINS = ''contains''"
| "operator_value STARTSWITH = ''startswith''"
| "operator_value EXISTS = ''exists''"

definition operator_parse :: "string \<Rightarrow> operator" where
  "operator_parse raw =
     (if raw = [] then EQ
      else case List.find (\<lambda>o1. operator_value o1 = py_lower raw)
                  [EQ, NEQ, GT, GTE, LT, LTE, CONTAINS, STARTSWITH, EXISTS] of
             None \<Rightarrow> EQ | Some o1 \<Rightarrow> o1)"

record field_predicate =
  fp_field :: string
  fp_op :: operator
  fp_value :: pyval

definition from_yaml :: "string \<Rightarrow> pyval \<Rightarrow> field_predicate" where
  "from_yaml raw value =
     (case split_once (CHR ''|'') raw of
        Some (f, o1) \<Rightarrow> \<lparr>fp_field = f, fp_op = operator_parse o1, fp_value = value\<rparr>
      | None \<Rightarrow> \<lparr>fp_field = raw, fp_op = EQ, fp_value = value\<rparr>)"

record sigma_rule =
  rule_id :: string
  r_title :: string
  r_description :: string
  r_level :: rule_level
  r_product :: string
  r_service :: string
  r_category :: string
  r_detection_fields :: "string list"
  r_selection :: "field_predicate list"
  r_pred_lists :: "field_predicate list list"
  r_condition_mode :: string
  r_tags :: "string list"
  r_source_path :: "string option"

section \<open>Matching\<close>

definition coerce :: "pyrt \<Rightarrow> pyval \<Rightarrow> pyval" where
  "coerce rt v = (case v of
     PStr s \<Rightarrow>
       if CHR ''.'' \<in> set s
       then (case float_parse rt s of None \<Rightarrow> v | Some r \<Rightarrow> PFloat r)
       else (case int_of_str s of None \<Rightarrow> v | Some i \<Rightarrow> PInt i)
   | _ \<Rightarrow> v)"

fun walk :: "pyval \<Rightarrow> string list \<Rightarrow> pyval" where
  "walk node [] = node"
| "walk node (part # parts) =
     (case node of
        PDict d \<Rightarrow>
          (let v = dget d part PNone in if v = PNone then PNone else walk v parts)
      | _ \<Rightarrow> PNone)"

definition event_get :: "pyval \<Rightarrow> string \<Rightarrow> pyval" where
  "event_get event path = walk event (split_on (CHR ''.'') path)"

text \<open>The four orderings: numbers, strings and lists compare, other pairs raise \<open>TypeError\<close>.\<close>

datatype ordop = OLt | OLe | OGt | OGe

fun ord_holds :: "ordop \<Rightarrow> int \<Rightarrow> bool" where
  "ord_holds OLt c = (c < 0)"
| "ord_holds OLe c = (c \<le> 0)"
| "ord_holds OGt c = (c > 0)"
| "ord_holds OGe c = (c \<ge> 0)"

definition cmp3 :: "'a::linorder \<Rightarrow> 'a \<Rightarrow> int" where
  "cmp3 a b = (if a < b then -1 else if b < a then 1 else 0)"

fun py_ord :: "ordop \<Rightarrow> pyval \<Rightarrow> pyval \<Rightarrow> bool option"
  and py_ord_list :: "ordop \<Rightarrow> pyval list \<Rightarrow> pyval list \<Rightarrow> bool option" where
  "py_ord o1 (PStr s) b = (case b of PStr t \<Rightarrow> Some (ord_holds o1 (cmp3 s t)) | _ \<Rightarrow> None)"
| "py_ord o1 (PList xs) b = (case b of PList ys \<Rightarrow> py_ord_list o1 xs ys | _ \<Rightarrow> None)"
| "py_ord o1 a b =
     (case (num_of a, num_of b) of
        (Some x, Some y) \<Rightarrow> Some (ord_holds o1 (cmp3 x y))
      | _ \<Rightarrow> None)"
| "py_ord_list o1 [] ys = Some (ord_holds o1 (if ys = [] then 0 else -1))"
| "py_ord_list o1 (x # xs) [] = Some (ord_holds o1 1)"
| "py_ord_list o1 (x # xs) (y # ys) =
     (if py_eq x y then py_ord_list o1 xs ys else py_ord o1 x y)"

definition py_order :: "pyrt \<Rightarrow> ordop \<Rightarrow> pyval \<Rightarrow> pyval \<Rightarrow> bool" where
  "py_order rt o1 actual expected =
     (case py_ord o1 (coerce rt actual) (coerce rt expected) of None \<Rightarrow> False | Some b \<Rightarrow> b)"

definition compare_op :: "pyrt \<Rightarrow> pyval \<Rightarrow> operator \<Rightarrow> pyval \<Rightarrow> bool" where
  "compare_op rt actual op1 expected =
     (if actual = PNone then False
      else case op1 of
        EQ \<Rightarrow> py_eq actual expected
      | NEQ \<Rightarrow> \<not> py_eq actual expected
      | GT \<Rightarrow> py_order rt OGt actual expected
      | GTE \<Rightarrow> py_order rt OGe actual expected
      | LT \<Rightarrow> py_order rt OLt actual expected
      | LTE \<Rightarrow> py_order rt OLe actual expected
      | CONTAINS \<Rightarrow> str_in (py_lower (py_str rt expected)) (py_lower (py_str rt actual))
      | STARTSWITH \<Rightarrow> startswith (py_lower (py_str rt actual)) (py_lower (py_str rt expected))
      | EXISTS \<Rightarrow> True)"

fun block_loop ::
    "pyrt \<Rightarrow> pyval \<Rightarrow> pydict \<Rightarrow> field_predicate list \<Rightarrow> pydict option" where
  "block_loop rt event matched [] = Some matched"
| "block_loop rt event matched (pred # preds) =
     (let actual = event_get event (fp_field pred) in
      if \<not> compare_op rt actual (fp_op pred) (fp_value pred) then None
      else block_loop rt event (AList.update (fp_field pred) actual matched) preds)"

definition block_matches :: "pyrt \<Rightarrow> pyval \<Rightarrow> field_predicate list \<Rightarrow> pydict option" where
  "block_matches rt event block = block_loop rt event [] block"

fun finish_loop :: "pyval \<Rightarrow> pydict \<Rightarrow> string list \<Rightarrow> pydict" where
  "finish_loop event matched [] = matched"
| "finish_loop event matched (path # paths) =
     (let val = event_get event path in
      finish_loop event
        (if val \<noteq> PNone \<and> map_of matched path = None then AList.update path val matched else matched)
        paths)"

definition finish_match :: "sigma_rule \<Rightarrow> pyval \<Rightarrow> pydict \<Rightarrow> bool \<times> pydict" where
  "finish_match rule event matched = (True, finish_loop event matched (r_detection_fields rule))"

text \<open>The filter on a log source that the event declares.\<close>

definition logsource_rejects :: "pyval \<Rightarrow> string \<Rightarrow> string \<Rightarrow> bool" where
  "logsource_rejects event key wanted =
     (let ls = py_or (event_get event ''logsource'') (PDict []) in
      wanted \<noteq> [] \<and>
      (let e = (case ls of PDict d \<Rightarrow> dget d key PNone | _ \<Rightarrow> PNone)
       in truthy e \<and> \<not> py_eq (PStr wanted) e))"

fun any_block :: "pyrt \<Rightarrow> pyval \<Rightarrow> field_predicate list list \<Rightarrow> pydict option" where
  "any_block rt event [] = None"
| "any_block rt event (b # bs) =
     (case block_matches rt event b of Some m \<Rightarrow> Some m | None \<Rightarrow> any_block rt event bs)"

fun all_blocks ::
    "pyrt \<Rightarrow> pyval \<Rightarrow> pydict \<Rightarrow> field_predicate list list \<Rightarrow> pydict option" where
  "all_blocks rt event merged [] = Some merged"
| "all_blocks rt event merged (b # bs) =
     (case block_matches rt event b of
        None \<Rightarrow> None
      | Some m \<Rightarrow> all_blocks rt event (dupdate merged m) bs)"

definition rule_blocks :: "sigma_rule \<Rightarrow> field_predicate list list" where
  "rule_blocks rule =
     (if r_pred_lists rule \<noteq> [] then r_pred_lists rule
      else if r_selection rule \<noteq> [] then [r_selection rule] else [])"

definition sigma_matches :: "pyrt \<Rightarrow> sigma_rule \<Rightarrow> pyval \<Rightarrow> bool \<times> pydict" where
  "sigma_matches rt rule event =
     (if r_selection rule = [] then (False, [])
      else if logsource_rejects event ''product'' (r_product rule) then (False, [])
      else if logsource_rejects event ''service'' (r_service rule) then (False, [])
      else
        let blocks = rule_blocks rule in
        if r_condition_mode rule = ''1of'' then
          (case any_block rt event blocks of
             Some m \<Rightarrow> finish_match rule event m | None \<Rightarrow> (False, []))
        else if r_condition_mode rule = ''all'' then
          (case all_blocks rt event [] blocks of
             None \<Rightarrow> (False, []) | Some merged \<Rightarrow> finish_match rule event merged)
        else
          (case block_matches rt event
                  (case blocks of b # _ \<Rightarrow> b | [] \<Rightarrow> r_selection rule) of
             None \<Rightarrow> (False, []) | Some m \<Rightarrow> finish_match rule event m))"

section \<open>Parsing\<close>

definition preds_of :: "pydict \<Rightarrow> field_predicate list" where
  "preds_of block = map (\<lambda>(k, v). from_yaml k v) block"

fun dict_of :: "pyval \<Rightarrow> pydict option" where
  "dict_of (PDict d) = Some d"
| "dict_of _ = None"

definition all_dicts :: "pydict \<Rightarrow> bool" where
  "all_dicts sel = list_all (\<lambda>(_, v). dict_of v \<noteq> None) sel"

definition block_of :: "pyval \<Rightarrow> field_predicate list" where
  "block_of v = (case dict_of v of Some d \<Rightarrow> preds_of d | None \<Rightarrow> [])"

definition selection_blocks :: "pydict \<Rightarrow> field_predicate list list" where
  "selection_blocks sel =
     (if sel = [] then []
      else if all_dicts sel then map (\<lambda>(_, v). block_of v) sel
      else [preds_of sel])"

definition one_of :: string where "one_of = ''1 of ''"

definition one_of_keys :: "string \<Rightarrow> pydict \<Rightarrow> pydict" where
  "one_of_keys prefix1 sel =
     (if prefix1 = ''them'' then sel
      else filter (\<lambda>kv. startswith (fst kv) (rstrip_char (CHR ''*'') prefix1)) sel)"

text \<open>The condition and the selection of a detection give the mode and the predicate lists.\<close>

definition parse_condition ::
    "string \<Rightarrow> pydict \<Rightarrow> (string \<times> field_predicate list list) res" where
  "parse_condition condition selection =
     (if condition \<noteq> ''selection'' \<and> \<not> startswith condition one_of \<and> condition \<noteq> ''all of them''
      then Raise ValueError
      else if condition = ''all of them'' then
        (let pls = selection_blocks selection in
         if pls = [] then Raise ValueError else Ok (''all'', pls))
      else if startswith condition one_of then
        (let prefix1 = strip (drop (length one_of) condition) in
         if \<not> all_dicts selection then Raise ValueError
         else let chosen = one_of_keys prefix1 selection in
              if chosen = [] then Raise ValueError
              else Ok (''1of'', map (\<lambda>kv. block_of (snd kv)) chosen))
      else Ok (''selection'', selection_blocks selection))"

text \<open>A single field name counts as a list of one.\<close>

definition fields_list :: "pyval \<Rightarrow> pyval list res" where
  "fields_list v = (case v of PStr _ \<Rightarrow> Ok [v] | _ \<Rightarrow> py_iter v)"

text \<open>The rule built from the mapping once the condition is resolved.\<close>

definition rule_of ::
    "pyrt \<Rightarrow> pydict \<Rightarrow> string option \<Rightarrow> string \<times> field_predicate list list \<Rightarrow> sigma_rule res" where
  "rule_of rt d source_path mp =
     (let g = (\<lambda>k. dget d k PNone); logsource = py_or (g ''logsource'') (PDict []) in
      rbind (level_parse (g ''level'')) (\<lambda>level.
      rbind (vget logsource ''product'' PNone) (\<lambda>product.
      rbind (vget logsource ''service'' PNone) (\<lambda>service.
      rbind (vget logsource ''category'' PNone) (\<lambda>category.
      rbind (fields_list (py_or (g ''fields'') (PList []))) (\<lambda>fs.
      rbind (py_iter (py_or (g ''tags'') (PList []))) (\<lambda>ts.
      Ok \<lparr>rule_id = py_str rt (py_or (g ''id'') (py_or (g ''title'') (PStr ''unknown''))),
          r_title = py_str rt (py_or (g ''title'') (PStr ''untitled'')),
          r_description = py_str rt (py_or (g ''description'') (PStr [])),
          r_level = level,
          r_product = py_str rt (py_or product (PStr [])),
          r_service = py_str rt (py_or service (PStr [])),
          r_category = py_str rt (py_or category (PStr [])),
          r_detection_fields = map (py_str rt) fs,
          r_selection = (if snd mp = [] then [] else hd (snd mp)),
          r_pred_lists = snd mp,
          r_condition_mode = fst mp,
          r_tags = map (py_str rt) ts,
          r_source_path = source_path\<rparr>)))))))"

definition parse_sigma_dict :: "pyrt \<Rightarrow> pyval \<Rightarrow> string option \<Rightarrow> sigma_rule res" where
  "parse_sigma_dict rt data source_path =
     (case dict_of data of
        None \<Rightarrow> Raise ValueError
      | Some d \<Rightarrow>
          let detection = py_or (dget d ''detection'' PNone) (PDict []) in
          rbind (vget detection ''selection'' PNone) (\<lambda>s.
          rbind (vget detection ''condition'' PNone) (\<lambda>c.
          case py_or c (PStr ''selection'') of
            PStr condition \<Rightarrow>
              (case dict_of (py_or s (PDict [])) of
                 None \<Rightarrow>
                   (if condition \<noteq> ''selection'' \<and> \<not> startswith condition one_of \<and>
                       condition \<noteq> ''all of them''
                    then Raise ValueError else Raise AttributeError)
               | Some selection \<Rightarrow>
                   rbind (parse_condition condition selection) (rule_of rt d source_path))
          | _ \<Rightarrow> Raise AttributeError)))"

section \<open>What a rule means\<close>

definition pred_holds :: "pyrt \<Rightarrow> pyval \<Rightarrow> field_predicate \<Rightarrow> bool" where
  "pred_holds rt event p = compare_op rt (event_get event (fp_field p)) (fp_op p) (fp_value p)"

definition block_holds :: "pyrt \<Rightarrow> pyval \<Rightarrow> field_predicate list \<Rightarrow> bool" where
  "block_holds rt event b = list_all (pred_holds rt event) b"

definition rule_holds :: "pyrt \<Rightarrow> sigma_rule \<Rightarrow> pyval \<Rightarrow> bool" where
  "rule_holds rt rule event \<longleftrightarrow>
     r_selection rule \<noteq> [] \<and>
     \<not> logsource_rejects event ''product'' (r_product rule) \<and>
     \<not> logsource_rejects event ''service'' (r_service rule) \<and>
     (if r_condition_mode rule = ''1of'' then \<exists>b \<in> set (rule_blocks rule). block_holds rt event b
      else if r_condition_mode rule = ''all'' then \<forall>b \<in> set (rule_blocks rule). block_holds rt event b
      else block_holds rt event (hd (rule_blocks rule)))"

text \<open>Evidence is truthful when every recorded value is the value of that path in the event.\<close>

definition truthful :: "pyval \<Rightarrow> pydict \<Rightarrow> bool" where
  "truthful event m \<longleftrightarrow> (\<forall>k v. map_of m k = Some v \<longrightarrow> v = event_get event k)"

lemma truthful_Nil [simp]: "truthful event []"
  by (simp add: truthful_def)

lemma truthful_update: "truthful event m \<Longrightarrow> truthful event (AList.update k (event_get event k) m)"
  by (auto simp: truthful_def update_conv' split: if_splits)

lemma map_of_rev_SomeD: "map_of (rev m) k = Some v \<Longrightarrow> distinct (map fst m) \<Longrightarrow> map_of m k = Some v"
  by (metis map_of_SomeD map_of_is_SomeI set_rev)

lemma truthful_dupdate: "truthful event m \<Longrightarrow> truthful event m' \<Longrightarrow> distinct (map fst m') \<Longrightarrow>
  truthful event (dupdate m m')"
  by (auto simp: truthful_def map_of_dupdate map_add_def dest: map_of_rev_SomeD split: option.splits)

lemma block_loop_spec:
  "(block_loop rt event m b \<noteq> None \<longleftrightarrow> block_holds rt event b) \<and>
   (block_loop rt event m b = Some m' \<longrightarrow> truthful event m \<longrightarrow> distinct (map fst m) \<longrightarrow>
      truthful event m' \<and> distinct (map fst m'))"
proof (induction b arbitrary: m)
  case Nil
  then show ?case by (simp add: block_holds_def)
next
  case (Cons p b)
  from Cons.IH [of "AList.update (fp_field p) (event_get event (fp_field p)) m"] show ?case
    by (auto simp: block_holds_def pred_holds_def Let_def truthful_update distinct_update)
qed

lemma block_matches_iff: "block_matches rt event b \<noteq> None \<longleftrightarrow> block_holds rt event b"
  using block_loop_spec [of rt event "[]" b] by (simp add: block_matches_def)

lemma block_matches_truthful:
  "block_matches rt event b = Some m \<Longrightarrow> truthful event m \<and> distinct (map fst m)"
  using block_loop_spec [of rt event "[]" b m] by (simp add: block_matches_def)

lemma any_block_iff: "any_block rt event bs \<noteq> None \<longleftrightarrow> (\<exists>b \<in> set bs. block_holds rt event b)"
  by (induction bs) (auto simp: block_matches_iff [symmetric] split: option.splits)

lemma any_block_truthful: "any_block rt event bs = Some m \<Longrightarrow> truthful event m"
  by (induction bs) (auto dest: block_matches_truthful split: option.splits)

lemma all_blocks_iff:
  "all_blocks rt event m bs \<noteq> None \<longleftrightarrow> (\<forall>b \<in> set bs. block_holds rt event b)"
  by (induction bs arbitrary: m) (auto simp: block_matches_iff [symmetric] split: option.splits)

lemma all_blocks_truthful:
  "all_blocks rt event m bs = Some m' \<Longrightarrow> truthful event m \<Longrightarrow> truthful event m'"
  by (induction bs arbitrary: m)
    (auto dest: block_matches_truthful simp: truthful_dupdate split: option.splits)

lemma finish_loop_truthful: "truthful event m \<Longrightarrow> truthful event (finish_loop event m paths)"
  by (induction paths arbitrary: m) (auto simp: Let_def truthful_update)

lemma finish_loop_keeps: "map_of m k = Some v \<Longrightarrow> map_of (finish_loop event m paths) k = Some v"
proof (induction paths arbitrary: m)
  case (Cons p paths)
  let ?m = "if event_get event p \<noteq> PNone \<and> map_of m p = None
    then AList.update p (event_get event p) m else m"
  have "map_of ?m k = Some v" using Cons.prems by (auto simp: update_conv')
  from Cons.IH [OF this] show ?case by (simp add: Let_def)
qed simp

lemma finish_loop_covers:
  "p \<in> set paths \<Longrightarrow> event_get event p \<noteq> PNone \<Longrightarrow> map_of (finish_loop event m paths) p \<noteq> None"
proof (induction paths arbitrary: m)
  case (Cons q paths)
  show ?case
  proof (cases "p = q")
    case True
    let ?m = "if event_get event q \<noteq> PNone \<and> map_of m q = None
        then AList.update q (event_get event q) m else m"
    have "\<exists>v. map_of ?m p = Some v"
      using True Cons.prems(2) by (cases "map_of m q") (auto simp: update_conv')
    then show ?thesis using finish_loop_keeps by (fastforce simp: Let_def)
  next
    case False
    with Cons show ?thesis by (simp add: Let_def)
  qed
qed simp

lemma finish_loop_exact:
  assumes "truthful event m" "p \<in> set paths" "event_get event p \<noteq> PNone"
  shows "map_of (finish_loop event m paths) p = Some (event_get event p)"
proof -
  obtain v where "map_of (finish_loop event m paths) p = Some v"
    using finish_loop_covers [OF assms(2,3), of m] by blast
  then show ?thesis using finish_loop_truthful [OF assms(1), of paths] by (simp add: truthful_def)
qed

lemma logsource_undeclared:
  "event_get event ''logsource'' = PNone \<Longrightarrow> \<not> logsource_rejects event key wanted"
  by (simp add: logsource_rejects_def py_or_def)

lemma rule_of_Ok:
  "rule_of rt d src mp = Ok rule \<Longrightarrow>
   r_condition_mode rule = fst mp \<and> r_pred_lists rule = snd mp \<and>
   r_selection rule = (if snd mp = [] then [] else hd (snd mp)) \<and> r_source_path rule = src"
  by (auto simp: rule_of_def rbind_eq_Inr_iff Let_def)

lemma parse_sigma_dict_condition:
  assumes "parse_sigma_dict rt data src = Ok rule"
  shows "\<exists>condition selection.
    parse_condition condition selection = Ok (r_condition_mode rule, r_pred_lists rule) \<and>
    r_selection rule = (if r_pred_lists rule = [] then [] else hd (r_pred_lists rule)) \<and>
    r_source_path rule = src"
proof -
  obtain d where d: "dict_of data = Some d"
    using assms by (cases "dict_of data") (simp_all add: parse_sigma_dict_def)
  obtain s c where rest: "(case py_or c (PStr ''selection'') of
      PStr condition \<Rightarrow>
        (case dict_of (py_or s (PDict [])) of
           None \<Rightarrow> (if condition \<noteq> ''selection'' \<and> \<not> startswith condition one_of \<and>
                       condition \<noteq> ''all of them''
                    then Raise ValueError else Raise AttributeError)
         | Some selection \<Rightarrow> rbind (parse_condition condition selection) (rule_of rt d src))
    | _ \<Rightarrow> Raise AttributeError) = Ok rule"
    using assms unfolding parse_sigma_dict_def d Let_def option.case rbind_eq_Inr_iff by blast
  then obtain condition where c: "py_or c (PStr ''selection'') = PStr condition"
    by (cases "py_or c (PStr ''selection'')") simp_all
  with rest obtain selection where sel: "dict_of (py_or s (PDict [])) = Some selection"
    by (cases "dict_of (py_or s (PDict []))") (simp_all split: if_splits)
  from rest obtain mp where "parse_condition condition selection = Ok mp"
    and "rule_of rt d src mp = Ok rule"
    unfolding c sel by (auto simp: rbind_eq_Inr_iff)
  then show ?thesis
    using rule_of_Ok [of rt d src mp rule]
    by (intro exI [of _ condition] exI [of _ selection]) simp
qed

lemma parse_condition_wf:
  "parse_condition condition selection = Ok (mode, pls) \<Longrightarrow>
   mode \<in> {''selection'', ''1of'', ''all''} \<and> (mode \<noteq> ''selection'' \<longrightarrow> pls \<noteq> [])"
  by (auto simp: parse_condition_def Let_def split: if_splits)

lemma sigma_matches_facts:
  "fst (sigma_matches rt rule event) = rule_holds rt rule event \<and>
   truthful event (snd (sigma_matches rt rule event)) \<and>
   (fst (sigma_matches rt rule event) \<longrightarrow>
     (\<forall>p \<in> set (r_detection_fields rule). event_get event p \<noteq> PNone \<longrightarrow>
        map_of (snd (sigma_matches rt rule event)) p = Some (event_get event p)))"
proof -
  let ?b = "case rule_blocks rule of b # _ \<Rightarrow> b | [] \<Rightarrow> r_selection rule"
  have hd: "r_selection rule \<noteq> [] \<Longrightarrow> ?b = hd (rule_blocks rule)"
    by (auto simp: rule_blocks_def split: list.splits)
  have fin: "truthful event m \<Longrightarrow> truthful event (finish_loop event m ps) \<and>
      (\<forall>p \<in> set ps. event_get event p \<noteq> PNone \<longrightarrow>
         map_of (finish_loop event m ps) p = Some (event_get event p))" for m ps
    using finish_loop_truthful finish_loop_exact by blast
  show ?thesis
  proof (cases "r_selection rule = [] \<or> logsource_rejects event ''product'' (r_product rule) \<or>
      logsource_rejects event ''service'' (r_service rule)")
    case True
    then show ?thesis by (auto simp: sigma_matches_def rule_holds_def)
  next
    case False
    define found where "found =
      (if r_condition_mode rule = ''1of'' then any_block rt event (rule_blocks rule)
       else if r_condition_mode rule = ''all'' then all_blocks rt event [] (rule_blocks rule)
       else block_matches rt event ?b)"
    have eq: "sigma_matches rt rule event =
        (case found of None \<Rightarrow> (False, []) | Some m \<Rightarrow> finish_match rule event m)"
      using False by (simp add: sigma_matches_def found_def Let_def split: option.splits)
    have "found \<noteq> None \<longleftrightarrow> rule_holds rt rule event"
      using False hd any_block_iff [of rt event "rule_blocks rule"]
        all_blocks_iff [of rt event "[]" "rule_blocks rule"] block_matches_iff [of rt event ?b]
      by (simp add: rule_holds_def found_def)
    moreover have "found = Some m \<Longrightarrow> truthful event m" for m
      by (auto simp: found_def dest: any_block_truthful all_blocks_truthful block_matches_truthful
          split: if_splits)
    ultimately show ?thesis
      using fin by (cases found) (auto simp: eq finish_match_def)
  qed
qed

lemma sigma_matches_decides: "fst (sigma_matches rt rule event) = rule_holds rt rule event"
  and sigma_matches_truthful: "truthful event (snd (sigma_matches rt rule event))"
  using sigma_matches_facts by blast+

section \<open>Properties\<close>



text \<open>An accepted rule is well formed: its mode is one of three, a rule over several blocks
  has at least one, and its selection is the first block. A \<open>1 of\<close> condition selects exactly the
  named blocks whose key has the prefix.\<close>

theorem parse_sigma_dict_wf:
  assumes "parse_sigma_dict rt data src = Ok rule"
  shows "r_condition_mode rule \<in> {''selection'', ''1of'', ''all''} \<and>
    (r_condition_mode rule \<noteq> ''selection'' \<longrightarrow> r_pred_lists rule \<noteq> []) \<and>
    r_selection rule = (if r_pred_lists rule = [] then [] else hd (r_pred_lists rule)) \<and>
    r_source_path rule = src"
proof -
  obtain condition selection where
    "parse_condition condition selection = Ok (r_condition_mode rule, r_pred_lists rule)"
    and "r_selection rule = (if r_pred_lists rule = [] then [] else hd (r_pred_lists rule))"
    and "r_source_path rule = src"
    using parse_sigma_dict_condition [OF assms] by blast
  then show ?thesis using parse_condition_wf by blast
qed

theorem parse_sigma_dict_wf_witness:
  "\<exists>rule. parse_sigma_dict toy_rt (PDict [(''detection'', PDict [(''selection'', PDict [(''a'', PInt 1)])])]) None
     = Ok rule \<and> r_condition_mode rule \<in> {''selection'', ''1of'', ''all''}"
proof -
  let ?d = "PDict [(''detection'', PDict [(''selection'', PDict [(''a'', PInt 1)])])]"
  obtain rule where r: "parse_sigma_dict toy_rt ?d None = Ok rule"
    by (simp add: parse_sigma_dict_def rule_of_def fields_list_def py_or_def parse_condition_def
        one_of_def startswith_def level_parse_def)
  from r parse_sigma_dict_wf [OF r] show ?thesis by blast
qed

lemma one_of_condition:
  assumes "parse_condition (one_of @ pfx) sel = Ok (mode, pls)"
  shows "mode = ''1of'' \<and>
    (list_ex (block_holds rt event) pls \<longleftrightarrow>
     (\<exists>kv \<in> set sel. (strip pfx = ''them'' \<or> startswith (fst kv) (rstrip_char (CHR ''*'') (strip pfx))) \<and>
        block_holds rt event (block_of (snd kv))))"
proof -
  have ne: "one_of @ pfx \<noteq> ''all of them''" and st: "startswith (one_of @ pfx) one_of"
    by (simp_all add: one_of_def startswith_def)
  have eq: "list_ex Q (map f (filter P xs)) \<longleftrightarrow> (\<exists>x \<in> set xs. P x \<and> Q (f x))"
    "list_ex Q (map f xs) \<longleftrightarrow> (\<exists>x \<in> set xs. Q (f x))" for Q P and f :: "string \<times> pyval \<Rightarrow> 'a" and xs
    by (induction xs) auto
  show ?thesis
    using assms ne st
    by (simp add: parse_condition_def one_of_keys_def Let_def case_prod_beta split: if_splits)
      (hypsubst, simp only: eq simp_thms set_filter, blast?)+
qed

text \<open>A \<open>1 of\<close> rule whose first block is empty matches no event, although another block holds:
  the matcher takes the first block for the whole selection.\<close>

lemma empty_first_block_never_matches:
  "r_selection rule = [] \<Longrightarrow> b \<in> set (r_pred_lists rule) \<Longrightarrow> block_holds rt event b \<Longrightarrow>
   r_condition_mode rule = ''1of'' \<Longrightarrow> fst (sigma_matches rt rule event) = False"
  by (simp add: sigma_matches_def)

end
