(* ===== verification/Detection.thy ===== *)
theory Detection
  imports Sigma "HOL-Library.Multiset"
begin

text \<open>
  From a matching rule to a stored alert: the alert builder \<open>src/detection/builder.py\<close>, the rule
  registry and the rule fan-out \<open>src/detection/detector.py\<close>, and the directory importer
  \<open>src/detection/rule_importer.py\<close>. The file system, the YAML reader, the clock, the hash and the
  alert store are arguments.
\<close>

section \<open>Building an alert\<close>

fun level_to_severity :: "rule_level \<Rightarrow> alert_severity" where
  "level_to_severity Informational = Sev_Info"
| "level_to_severity Low = Sev_Low"
| "level_to_severity Medium = Sev_Medium"
| "level_to_severity High = Sev_High"
| "level_to_severity Critical = Sev_Critical"

fun first_str :: "pyval \<Rightarrow> string list \<Rightarrow> string" where
  "first_str event [] = []"
| "first_str event (path # paths) =
     (case event_get event path of
        PStr s \<Rightarrow> if s \<noteq> [] then s else first_str event paths
      | _ \<Rightarrow> first_str event paths)"

definition event_hostname :: "pyval \<Rightarrow> string" where
  "event_hostname event = first_str event [''agent.name'', ''host.name'', ''hostname'']"

definition event_host_ip :: "pyval \<Rightarrow> string" where
  "event_host_ip event = first_str event [''agent.ip'', ''host.ip'']"

definition event_agent_id :: "pyval \<Rightarrow> string" where
  "event_agent_id event = first_str event [''agent.id'', ''agent_id'']"

text \<open>The kind of indicator a field declares by its name.\<close>

datatype ioc_kind = Ioc_Ip | Ioc_Domain | Ioc_Hash | Ioc_Url | Ioc_Email

definition ioc_kind_of :: "string \<Rightarrow> string \<Rightarrow> ioc_kind option" where
  "ioc_kind_of path value =
     (let leaf = last (split_on (CHR ''.'') path) in
      if leaf = ''ip'' \<or> path = ''srcip'' \<or> path = ''dstip'' then Some Ioc_Ip
      else if leaf = ''domain'' \<or> str_in ''domain'' path then Some Ioc_Domain
      else if leaf \<in> set [''hash'', ''sha256'', ''md5''] \<or> startswith leaf ''sha'' then Some Ioc_Hash
      else if leaf = ''url'' \<or> str_in ''url'' path then Some Ioc_Url
      else if leaf = ''email'' \<or> CHR ''@'' \<in> set value then Some Ioc_Email
      else None)"

fun ioc_values :: "pydict \<Rightarrow> ioc_kind \<Rightarrow> string list \<Rightarrow> string list" where
  "ioc_values matched k [] = []"
| "ioc_values matched k (path # paths) =
     (case map_of matched path of
        Some (PStr value) \<Rightarrow>
          if ioc_kind_of path value = Some k then value # ioc_values matched k paths
          else ioc_values matched k paths
      | _ \<Rightarrow> ioc_values matched k paths)"

definition ioc_from_event :: "sigma_rule \<Rightarrow> pydict \<Rightarrow> alert_ioc" where
  "ioc_from_event rule matched =
     (let vs = (\<lambda>k. sorted_set (ioc_values matched k (r_detection_fields rule))) in
      \<lparr>ioc_ips = vs Ioc_Ip, ioc_domains = vs Ioc_Domain, ioc_hashes = vs Ioc_Hash,
       ioc_urls = vs Ioc_Url, ioc_emails = vs Ioc_Email, ioc_users = []\<rparr>)"

definition technique_head :: "string \<Rightarrow> bool" where
  "technique_head h = (startswith h ''T'' \<and> py_isdigit (drop 1 h))"

definition mitre_of_tag :: "string \<Rightarrow> string option" where
  "mitre_of_tag t =
     (if \<not> startswith (py_lower t) ''attack.'' then None
      else let parts = split_on (CHR ''.'') t in
        if length parts < 2 then None
        else if length parts = 3 \<and> py_isdigit (parts ! 2)
          then (let head = py_upper (parts ! 1) in
                if technique_head head then Some (head @ ''.'' @ parts ! 2) else None)
        else (let head = py_upper (last parts) in
              if technique_head head then Some head else None))"

definition extract_mitre :: "string list \<Rightarrow> string list" where
  "extract_mitre tags = List.map_filter mitre_of_tag tags"

definition build_alert ::
    "pyrt \<Rightarrow> (string \<Rightarrow> string) \<Rightarrow> string \<Rightarrow> sigma_rule \<Rightarrow> pyval \<Rightarrow> string \<Rightarrow> alert option res" where
  "build_alert rt sha256_hex now rule event event_id =
     (case sigma_matches rt rule event of (is_match, matched) \<Rightarrow>
      if \<not> is_match then Ok None
      else
        rbind (vget event ''timestamp'' PNone) (\<lambda>ts1.
        rbind (vget event ''ts'' PNone) (\<lambda>ts2.
        Ok (Some
          \<lparr>alert_id = ''sigma:'' @ take 32 (sha256_hex (rule_id rule @ '':'' @ event_id)),
           a_source = Src_SecAgent,
           a_title = r_title rule,
           a_description = r_description rule,
           a_severity = level_to_severity (r_level rule),
           a_status = St_New,
           a_occurred_at = py_str rt (py_or ts1 (py_or ts2 (PStr now))),
           a_received_at = now,
           a_hostname = event_hostname event,
           a_host_ip = event_host_ip event,
           a_agent_id = event_agent_id event,
           a_rule_id = rule_id rule,
           a_rule_name = r_title rule,
           a_category = r_category rule,
           a_mitre_attack = extract_mitre (r_tags rule),
           a_iocs = ioc_from_event rule matched,
           a_tags = r_tags rule,
           a_source_url = [],
           a_raw = [(''rule_id'', PStr (rule_id rule)), (''event_id'', PStr event_id),
             (''event'', event), (''matched'', PDict matched)]\<rparr>))))"

section \<open>The rule registry\<close>

type_synonym registry = "(string \<times> sigma_rule) list"

definition add_rule :: "sigma_rule \<Rightarrow> registry \<Rightarrow> registry" where
  "add_rule rule reg = AList.update (rule_id rule) rule reg"

definition remove_rule :: "string \<Rightarrow> registry \<Rightarrow> bool \<times> registry" where
  "remove_rule rid reg = (map_of reg rid \<noteq> None, AList.delete rid reg)"

definition list_rules :: "registry \<Rightarrow> sigma_rule list" where
  "list_rules reg = map snd reg"

definition get_rule :: "string \<Rightarrow> registry \<Rightarrow> sigma_rule option" where
  "get_rule rid reg = map_of reg rid"

text \<open>
  Loading a directory. \<open>root\<close> and \<open>deep\<close> are the \<open>.yml\<close> files directly in it and anywhere below
  it, \<open>parse_file\<close> reads and parses one.
\<close>

fun load_loop ::
    "('p \<Rightarrow> sigma_rule res) \<Rightarrow> 'p list \<Rightarrow> nat \<Rightarrow> registry \<Rightarrow> nat res \<times> registry" where
  "load_loop parse_file [] loaded reg = (Ok loaded, reg)"
| "load_loop parse_file (p # ps) loaded reg =
     (case parse_file p of
        Inr rule \<Rightarrow> load_loop parse_file ps (loaded + 1) (add_rule rule reg)
      | Inl e \<Rightarrow>
          if is_Exception e then load_loop parse_file ps loaded reg else (Raise e, reg))"

definition load_builtin_rules ::
    "('p::linorder \<Rightarrow> sigma_rule res) \<Rightarrow> bool \<Rightarrow> 'p list \<Rightarrow> 'p list \<Rightarrow> registry \<Rightarrow> nat res \<times> registry" where
  "load_builtin_rules parse_file exists1 root_files deep_files reg =
     (if \<not> exists1 then (Ok 0, reg)
      else load_loop parse_file (sort (root_files @ deep_files)) 0 reg)"

definition init_builtin_rules ::
    "('p::linorder \<Rightarrow> sigma_rule res) \<Rightarrow> bool \<Rightarrow> 'p list \<Rightarrow> 'p list \<Rightarrow> registry \<Rightarrow> nat res \<times> registry" where
  "init_builtin_rules parse_file exists1 root_files deep_files _ =
     load_builtin_rules parse_file exists1 root_files deep_files []"

text \<open>Every rule is run; an evaluation that raises or an alert that cannot be stored is skipped.\<close>

fun run_rules ::
    "(alert \<Rightarrow> ('w, unit) io) \<Rightarrow> (sigma_rule \<Rightarrow> alert option res) \<Rightarrow> sigma_rule list \<Rightarrow>
     ('w, alert list) io" where
  "run_rules save build [] = io_return []"
| "run_rules save build (rule # rules) =
     (case build rule of
        Inl e \<Rightarrow> if is_Exception e then run_rules save build rules else io_raise e
      | Inr None \<Rightarrow> run_rules save build rules
      | Inr (Some a) \<Rightarrow>
          io_bind (io_try (io_bind (save a) (\<lambda>_. io_return [a])) (\<lambda>_. io_return [])) (\<lambda>hit.
          io_bind (run_rules save build rules) (\<lambda>hits. io_return (hit @ hits))))"

definition detect ::
    "pyrt \<Rightarrow> (string \<Rightarrow> string) \<Rightarrow> string \<Rightarrow> (alert \<Rightarrow> ('w, unit) io) \<Rightarrow> registry \<Rightarrow> pyval \<Rightarrow>
     string \<Rightarrow> ('w, alert list) io" where
  "detect rt sha256_hex now save reg event event_id =
     run_rules save (\<lambda>rule. build_alert rt sha256_hex now rule event event_id) (list_rules reg)"

section \<open>Importing a directory of rules\<close>

definition OS_BY_PRODUCT :: "(string \<times> string) list" where
  "OS_BY_PRODUCT = [(''linux'', ''linux''), (''macos'', ''macos''), (''windows'', ''windows'')]"

definition SUPPORTED_CATEGORIES :: "string list" where
  "SUPPORTED_CATEGORIES = [''process_creation'', ''file_event'', ''network_connection'', ''image_load'',
     ''dns_query'', ''process_access'', ''registry_event'']"

record imported_rule =
  ir_path :: string
  ir_rule :: sigma_rule
  ir_applicable_os :: "string list"
  ir_category :: string
  ir_detector_supported :: bool
  ir_level :: string
  ir_mitre :: "string list"
  ir_title :: string

record import_result =
  res_accepted :: "imported_rule list"
  res_skipped :: "(string \<times> string) list"
  res_source_dir :: string
  res_imported_at :: string

definition total_seen :: "import_result \<Rightarrow> nat" where
  "total_seen r = length (res_accepted r) + length (res_skipped r)"

fun count_loop :: "(string \<times> nat) list \<Rightarrow> string list \<Rightarrow> (string \<times> nat) list" where
  "count_loop c [] = c"
| "count_loop c (x # xs) =
     count_loop (AList.update x ((case map_of c x of None \<Rightarrow> 0 | Some n \<Rightarrow> n) + 1) c) xs"

definition by_category :: "import_result \<Rightarrow> (string \<times> nat) list" where
  "by_category r = count_loop []
     (map (\<lambda>x. if ir_category x \<noteq> [] then ir_category x else ''uncategorized'') (res_accepted r))"

definition by_os :: "import_result \<Rightarrow> (string \<times> nat) list" where
  "by_os r = count_loop [] (concat (map ir_applicable_os (res_accepted r)))"

definition by_level :: "import_result \<Rightarrow> (string \<times> nat) list" where
  "by_level r = count_loop [] (map ir_level (res_accepted r))"

definition counts_dict :: "(string \<times> nat) list \<Rightarrow> pyval" where
  "counts_dict c = PDict (map (\<lambda>(k, n). (k, PInt (int n))) c)"

definition to_manifest :: "import_result \<Rightarrow> pydict" where
  "to_manifest r =
     [(''source_dir'', PStr (res_source_dir r)),
      (''imported_at'', PStr (res_imported_at r)),
      (''total_seen'', PInt (int (total_seen r))),
      (''accepted'', PInt (int (length (res_accepted r)))),
      (''skipped'', PInt (int (length (res_skipped r)))),
      (''by_category'', counts_dict (by_category r)),
      (''by_os'', counts_dict (by_os r)),
      (''by_level'', counts_dict (by_level r)),
      (''skipped_reasons'', PList (map (\<lambda>(p, reason).
         PDict [(''path'', PStr p), (''reason'', PStr reason)]) (res_skipped r)))]"

text \<open>The payload \<open>write_manifest\<close> stores as JSON: the summary and one entry per accepted rule.\<close>

definition manifest_payload :: "import_result \<Rightarrow> pydict" where
  "manifest_payload r = AList.update ''rules''
     (PList (map (\<lambda>x. PDict
        [(''path'', PStr (ir_path x)),
         (''rule_id'', PStr (rule_id (ir_rule x))),
         (''title'', PStr (ir_title x)),
         (''level'', PStr (ir_level x)),
         (''category'', PStr (ir_category x)),
         (''applicable_os'', PList (map PStr (ir_applicable_os x))),
         (''detector_supported'', PBool (ir_detector_supported x)),
         (''mitre_techniques'', PList (map PStr (ir_mitre x)))]) (res_accepted r)))
     (to_manifest r)"

definition canonical_technique :: "string \<Rightarrow> string option" where
  "canonical_technique t =
     (if \<not> startswith (py_lower t) ''attack.'' then None
      else let parts = split_on (CHR ''.'') t in
        if length parts < 2 \<or> \<not> startswith (py_lower (parts ! 1)) ''t'' then None
        else let rest = drop 1 parts;
                 canonical = (if length rest = 2 \<and> py_isdigit (rest ! 1)
                              then py_upper (rest ! 0) @ ''.'' @ rest ! 1
                              else py_upper (rest ! 0))
             in if technique_head (hd (split_on (CHR ''.'') canonical)) then Some canonical else None)"

fun mitre_loop :: "string list \<Rightarrow> string list \<Rightarrow> string list" where
  "mitre_loop out [] = out"
| "mitre_loop out (t # ts) =
     (case canonical_technique t of
        None \<Rightarrow> mitre_loop out ts
      | Some c \<Rightarrow> if c \<in> set out then mitre_loop out ts else mitre_loop (out @ [c]) ts)"

definition mitre_from_tags :: "string list \<Rightarrow> string list" where
  "mitre_from_tags tags = mitre_loop [] tags"

definition enrich :: "sigma_rule \<Rightarrow> string \<Rightarrow> imported_rule" where
  "enrich rule path =
     (let os1 = (if r_product rule \<noteq> []
                 then (case map_of OS_BY_PRODUCT (py_lower (r_product rule)) of
                         Some m \<Rightarrow> [m] | None \<Rightarrow> [])
                 else []);
          c = py_lower (r_category rule);
          category = (if c \<noteq> [] then c else ''uncategorized'')
      in \<lparr>ir_path = path, ir_rule = rule, ir_applicable_os = os1, ir_category = category,
          ir_detector_supported = category \<in> set SUPPORTED_CATEGORIES,
          ir_level = level_value (r_level rule), ir_mitre = mitre_from_tags (r_tags rule),
          ir_title = r_title rule\<rparr>)"

fun import_loop ::
    "('p \<Rightarrow> sigma_rule res) \<Rightarrow> ('p \<Rightarrow> string) \<Rightarrow> (exn \<Rightarrow> string) \<Rightarrow> 'p list \<Rightarrow> import_result \<Rightarrow>
     import_result res" where
  "import_loop parse_file path_str exn_str [] r = Ok r"
| "import_loop parse_file path_str exn_str (f # fs) r =
     (case parse_file f of
        Inl e \<Rightarrow>
          if is_Exception e
          then import_loop parse_file path_str exn_str fs
                 (r\<lparr>res_skipped := res_skipped r @ [(path_str f, ''parse: '' @ exn_str e)]\<rparr>)
          else Raise e
      | Inr rule \<Rightarrow>
          import_loop parse_file path_str exn_str fs
            (r\<lparr>res_accepted := res_accepted r @ [enrich rule (path_str f)]\<rparr>))"

text \<open>What a path names: nothing, a file, or a directory with its \<open>.yml\<close> and \<open>.yaml\<close> files.\<close>

datatype 'p path_kind = Missing | A_File | A_Dir "'p list" "'p list"

definition import_from_directory ::
    "('p::linorder \<Rightarrow> sigma_rule res) \<Rightarrow> ('p \<Rightarrow> string) \<Rightarrow> (exn \<Rightarrow> string) \<Rightarrow> string \<Rightarrow> 'p \<Rightarrow>
     'p path_kind \<Rightarrow> import_result res" where
  "import_from_directory parse_file path_str exn_str now p kind =
     (let r = \<lparr>res_accepted = [], res_skipped = [], res_source_dir = path_str p, res_imported_at = now\<rparr> in
      case kind of
        Missing \<Rightarrow> Ok (r\<lparr>res_skipped := [(path_str p, ''path does not exist'')]\<rparr>)
      | A_File \<Rightarrow> import_loop parse_file path_str exn_str [p] r
      | A_Dir ymls yamls \<Rightarrow>
          import_loop parse_file path_str exn_str (sort ymls @ sort yamls) r)"

section \<open>What the builder and the detector guarantee\<close>

lemma ioc_values_sound:
  "v \<in> set (ioc_values matched k paths) \<Longrightarrow>
   \<exists>p \<in> set paths. map_of matched p = Some (PStr v) \<and> ioc_kind_of p v = Some k"
  by (induction paths) (auto split: option.splits pyval.splits if_splits)

lemma ioc_values_truthful:
  assumes "truthful event matched" "v \<in> set (ioc_values matched k paths)"
  shows "\<exists>p \<in> set paths. event_get event p = PStr v \<and> ioc_kind_of p v = Some k"
  using ioc_values_sound [OF assms(2)] assms(1) unfolding truthful_def by metis

lemma build_alert_no_match:
  "\<not> rule_holds rt rule event \<Longrightarrow> build_alert rt h now rule event eid = Ok None"
  using sigma_matches_decides [of rt rule event]
  by (cases "sigma_matches rt rule event") (simp add: build_alert_def)

lemma build_alert_match:
  "rule_holds rt rule (PDict d) \<Longrightarrow>
   \<exists>a. build_alert rt h now rule (PDict d) eid = Ok (Some a) \<and> a_rule_id a = rule_id rule \<and>
       a_severity a = level_to_severity (r_level rule) \<and>
       a_iocs a = ioc_from_event rule (snd (sigma_matches rt rule (PDict d)))"
  using sigma_matches_decides [of rt rule "PDict d"]
  by (auto simp: build_alert_def split: prod.splits)

text \<open>The alerts that reach the store, in order, when storing may fail.\<close>

fun stored :: "(alert \<Rightarrow> ('w, unit) io) \<Rightarrow> alert list \<Rightarrow> 'w \<Rightarrow> alert list" where
  "stored save [] w = []"
| "stored save (a # as) w =
     (case save a w of
        (Inr _, w') \<Rightarrow> a # stored save as w'
      | (Inl _, w') \<Rightarrow> stored save as w')"

definition built :: "(sigma_rule \<Rightarrow> alert option res) \<Rightarrow> sigma_rule list \<Rightarrow> alert list" where
  "built build rules = List.map_filter (\<lambda>r. case build r of Inr x \<Rightarrow> x | Inl _ \<Rightarrow> None) rules"

lemma built_simps:
  "built build [] = []"
  "built build (r # rs) =
     (case build r of Inr (Some a) \<Rightarrow> a # built build rs | _ \<Rightarrow> built build rs)"
  by (simp_all add: built_def map_filter_simps split: sum.splits option.splits)

lemma run_rules_spec:
  assumes save: "\<And>a w. fst (save a w) \<noteq> Inl CancelledError"
    and build: "\<And>r. r \<in> set rules \<Longrightarrow> build r \<noteq> Inl CancelledError"
  shows "run_rules save build rules w =
    (Ok (stored save (built build rules) w), fold (\<lambda>a w. snd (save a w)) (built build rules) w)"
  using build
proof (induction rules arbitrary: w)
  case Nil
  show ?case by (simp add: built_simps)
next
  case (Cons r rules)
  have IH: "run_rules save build rules w =
    (Ok (stored save (built build rules) w), fold (\<lambda>a w. snd (save a w)) (built build rules) w)" for w
    using Cons by simp
  show ?case
  proof (cases "build r")
    case (Inl e)
    then show ?thesis using Cons.prems [of r] IH by (simp add: built_simps is_Exception_def)
  next
    case (Inr x)
    show ?thesis
    proof (cases x)
      case None
      then show ?thesis using Inr IH by (simp add: built_simps)
    next
      case (Some a)
      obtain out w' where sa: "save a w = (out, w')" by fastforce
      then have "out \<noteq> Inl CancelledError" using save [of a w] by simp
      then show ?thesis using Inr Some sa IH
        by (cases out) (simp_all add: built_simps io_bind_def io_try_def is_Exception_def)
    qed
  qed
qed

lemma built_rule_ids:
  "map a_rule_id (built (\<lambda>r. build_alert rt h now r (PDict d) eid) rules) =
   map rule_id (filter (\<lambda>r. rule_holds rt r (PDict d)) rules)"
proof (induction rules)
  case (Cons r rules)
  show ?case
  proof (cases "rule_holds rt r (PDict d)")
    case True
    from build_alert_match [OF this, of h now eid] Cons True show ?thesis
      by (auto simp: built_simps)
  next
    case False
    with build_alert_no_match [of rt r "PDict d" h now eid] Cons show ?thesis by (simp add: built_simps)
  qed
qed (simp add: built_simps)

section \<open>Loading rules\<close>

definition parsed :: "('p \<Rightarrow> sigma_rule res) \<Rightarrow> 'p list \<Rightarrow> sigma_rule list" where
  "parsed parse_file ps = List.map_filter (\<lambda>p. case parse_file p of Inr r \<Rightarrow> Some r | Inl _ \<Rightarrow> None) ps"

lemma parsed_simps [simp]:
  "parsed parse_file [] = []"
  "parsed parse_file (p # ps) =
     (case parse_file p of Inr r \<Rightarrow> r # parsed parse_file ps | Inl _ \<Rightarrow> parsed parse_file ps)"
  by (simp_all add: parsed_def map_filter_simps split: sum.splits)

lemma length_parsed_insort [simp]:
  "length (parsed f (insort_key g x xs)) = length (parsed f (x # xs))"
  by (induction xs) (auto split: sum.splits)

lemma length_parsed_sort [simp]: "length (parsed f (sort xs)) = length (parsed f xs)"
  by (induction xs) (auto split: sum.splits)

lemma parsed_append [simp]: "parsed f (xs @ ys) = parsed f xs @ parsed f ys"
  by (induction xs) (auto split: sum.splits)

lemma load_loop_spec:
  assumes "\<And>p. parse_file p \<noteq> Inl CancelledError"
  shows "load_loop parse_file ps n reg =
    (Ok (n + length (parsed parse_file ps)), fold add_rule (parsed parse_file ps) reg)"
proof (induction ps arbitrary: n reg)
  case (Cons p ps)
  show ?case
  proof (cases "parse_file p")
    case (Inl e)
    then have "is_Exception e" using assms [of p] by (simp add: is_Exception_def)
    with Inl Cons show ?thesis by simp
  next
    case (Inr r)
    then show ?thesis using Cons by simp
  qed
qed simp

lemma map_of_fold_add_rule:
  "map_of (fold add_rule rules reg) =
   map_of reg ++ map_of (rev (map (\<lambda>r. (rule_id r, r)) rules))"
proof (induction rules arbitrary: reg)
  case (Cons r rules)
  then show ?case
    by (auto simp: add_rule_def update_conv map_add_def fun_eq_iff split: option.splits)
qed simp

section \<open>Technique tags\<close>

lemma upper_char_T: "upper_char c = CHR ''T'' \<Longrightarrow> lower_char c = CHR ''t''"
proof -
  assume up: "upper_char c = CHR ''T''"
  let ?n = "of_char c :: nat"
  have bound: "?n < 256" by simp
  have code: "?n = 116 \<or> ?n = 84"
  proof (cases "97 \<le> ?n \<and> ?n \<le> 122")
    case True
    with up have "char_of (?n - 32) = CHR ''T''" by (simp add: upper_char_def)
    then have "of_char (char_of (?n - 32) :: char) = (of_char (CHR ''T'') :: nat)" by (rule arg_cong)
    then have "(?n - 32) mod 256 = 84" by simp
    moreover have "(?n - 32) mod 256 = ?n - 32" using bound by (intro mod_less) arith
    ultimately show ?thesis using True by arith
  next
    case False
    with up have "c = CHR ''T''" unfolding upper_char_def Let_def by (meson)
    then show ?thesis by simp
  qed
  have cn: "c = char_of ?n" by simp
  have t: "char_of (116 :: nat) = CHR ''t''" by (simp add: char_of_def bit_Suc_0_iff)
  show ?thesis
  proof (cases "?n = 84")
    case True
    then show ?thesis using t by (simp add: lower_char_def)
  next
    case False
    then have "c = CHR ''t''" using code cn t by metis
    then show ?thesis by (simp add: lower_char_def)
  qed
qed

lemma upper_T_lower_t: "startswith (py_upper h) ''T'' \<Longrightarrow> startswith (py_lower h) ''t''"
  by (cases h) (auto simp: startswith_def py_upper_def py_lower_def dest: upper_char_T [OF sym])

lemma upper_char_dot: "upper_char c = CHR ''.'' \<Longrightarrow> c = CHR ''.''"
proof -
  assume up: "upper_char c = CHR ''.''"
  let ?n = "of_char c :: nat"
  have "\<not> (97 \<le> ?n \<and> ?n \<le> 122)"
  proof
    assume r: "97 \<le> ?n \<and> ?n \<le> 122"
    with up have "char_of (?n - 32) = CHR ''.''" by (simp add: upper_char_def)
    then have "of_char (char_of (?n - 32) :: char) = (of_char (CHR ''.'') :: nat)" by (rule arg_cong)
    then have "(?n - 32) mod 256 = 46" by simp
    moreover have "(?n - 32) mod 256 = ?n - 32" using r by (intro mod_less) arith
    ultimately show False using r by arith
  qed
  then show ?thesis using up unfolding upper_char_def Let_def by meson
qed

lemma upper_part_head:
  "CHR ''.'' \<notin> set w \<Longrightarrow> hd (split_on (CHR ''.'') (py_upper w)) = py_upper w"
  "CHR ''.'' \<notin> set w \<Longrightarrow> hd (split_on (CHR ''.'') (py_upper w @ CHR ''.'' # v)) = py_upper w"
  by (subst split_on_no_sep split_on_append_sep;
      force simp: py_upper_def dest: upper_char_dot [OF sym])+

text \<open>On a tag with a technique, or a technique and a numeric sub-technique, after \<open>attack.\<close> the
  two extractors agree.\<close>

lemma mitre_extractors_eq:
  assumes "length (split_on (CHR ''.'') t) = 2 \<or>
    (length (split_on (CHR ''.'') t) = 3 \<and> py_isdigit (split_on (CHR ''.'') t ! 2))"
  shows "mitre_of_tag t = canonical_technique t"
proof -
  let ?p = "split_on (CHR ''.'') t"
  have nodot: "CHR ''.'' \<notin> set (?p ! 1)"
    using assms by (intro split_on_parts [of _ _ t] nth_mem) auto
  have t: "technique_head (py_upper h) \<Longrightarrow> startswith (py_lower h) ''t''" for h
    by (auto simp: technique_head_def dest: upper_T_lower_t)
  show ?thesis
  proof (cases "length ?p = 2")
    case True
    then have "last ?p = ?p ! 1" "drop 1 ?p ! 0 = ?p ! 1" by (simp_all add: last_conv_nth)
    then show ?thesis using True t [of "?p ! 1"] nodot
      by (simp add: mitre_of_tag_def canonical_technique_def Let_def upper_part_head)
  next
    case False
    then have "drop 1 ?p ! 0 = ?p ! 1" "drop 1 ?p ! 1 = ?p ! 2"
      using assms by (auto simp: numeral_2_eq_2)
    then show ?thesis using False assms t [of "?p ! 1"] nodot
      by (simp add: mitre_of_tag_def canonical_technique_def Let_def upper_part_head)
  qed
qed

lemma mitre_loop_spec:
  "distinct out \<Longrightarrow> distinct (mitre_loop out ts) \<and>
   set (mitre_loop out ts) = set out \<union> set (List.map_filter canonical_technique ts)"
  by (induction ts arbitrary: out) (auto simp: map_filter_simps split: option.splits)

section \<open>Importing\<close>

lemma count_loop_spec:
  "case map_of (count_loop c xs) k of None \<Rightarrow> map_of c k = None \<and> k \<notin> set xs
   | Some n \<Rightarrow> n = (case map_of c k of None \<Rightarrow> 0 | Some m \<Rightarrow> m) + count (mset xs) k \<and>
       (map_of c k \<noteq> None \<or> k \<in> set xs)"
proof (induction xs arbitrary: c)
  case Nil
  show ?case by (simp split: option.splits)
next
  case (Cons x xs)
  let ?c = "AList.update x ((case map_of c x of None \<Rightarrow> 0 | Some n \<Rightarrow> n) + 1) c"
  from Cons.IH [of ?c] show ?case
    by (cases "k = x"; cases "map_of c k"; cases "map_of (count_loop ?c xs) k")
      (simp_all add: update_conv')
qed

lemma count_loop_counts:
  "map_of (count_loop [] xs) k = (if k \<in> set xs then Some (count (mset xs) k) else None)"
  using count_loop_spec [where c = "[]" and xs = xs and k = k]
  by (cases "map_of (count_loop [] xs) k") auto

lemma import_loop_spec:
  assumes "\<And>p. parse_file p \<noteq> Inl CancelledError"
  shows "\<exists>acc skip. import_loop parse_file path_str exn_str fs r =
      Ok (r\<lparr>res_accepted := res_accepted r @ acc, res_skipped := res_skipped r @ skip\<rparr>) \<and>
    map ir_path acc = map path_str (filter (\<lambda>f. \<not> isl (parse_file f)) fs) \<and>
    map fst skip = map path_str (filter (\<lambda>f. isl (parse_file f)) fs) \<and>
    map ir_rule acc = parsed parse_file fs"
proof (induction fs arbitrary: r)
  case Nil
  show ?case by (intro exI [of _ "[]"]) simp
next
  case (Cons f fs)
  show ?case
  proof (cases "parse_file f")
    case (Inl e)
    then have e: "is_Exception e" using assms [of f] by (simp add: is_Exception_def)
    let ?r = "r\<lparr>res_skipped := res_skipped r @ [(path_str f, ''parse: '' @ exn_str e)]\<rparr>"
    obtain acc skip where "import_loop parse_file path_str exn_str fs ?r =
      Ok (?r\<lparr>res_accepted := res_accepted ?r @ acc, res_skipped := res_skipped ?r @ skip\<rparr>) \<and>
      map ir_path acc = map path_str (filter (\<lambda>f. \<not> isl (parse_file f)) fs) \<and>
      map fst skip = map path_str (filter (\<lambda>f. isl (parse_file f)) fs) \<and>
      map ir_rule acc = parsed parse_file fs"
      using Cons.IH [of ?r] by blast
    then show ?thesis using Inl e
      by (intro exI [of _ acc] exI [of _ "(path_str f, ''parse: '' @ exn_str e) # skip"]) simp
  next
    case (Inr rule)
    let ?r = "r\<lparr>res_accepted := res_accepted r @ [enrich rule (path_str f)]\<rparr>"
    obtain acc skip where "import_loop parse_file path_str exn_str fs ?r =
      Ok (?r\<lparr>res_accepted := res_accepted ?r @ acc, res_skipped := res_skipped ?r @ skip\<rparr>) \<and>
      map ir_path acc = map path_str (filter (\<lambda>f. \<not> isl (parse_file f)) fs) \<and>
      map fst skip = map path_str (filter (\<lambda>f. isl (parse_file f)) fs) \<and>
      map ir_rule acc = parsed parse_file fs"
      using Cons.IH [of ?r] by blast
    then show ?thesis using Inr
      by (intro exI [of _ "enrich rule (path_str f) # acc"] exI [of _ skip])
        (simp add: enrich_def Let_def)
  qed
qed

section \<open>Properties\<close>

text \<open>An alert is built exactly when the rule's declared meaning holds for the event. Its
  severity is the rule's level, and every indicator it carries is the text found in the event
  under a declared field of that kind; each indicator list is sorted without duplicates.\<close>

theorem build_alert_correct:
  "(\<not> rule_holds rt rule (PDict d) \<longrightarrow> build_alert rt sha now rule (PDict d) eid = Ok None) \<and>
   (rule_holds rt rule (PDict d) \<longrightarrow>
     (\<exists>a. build_alert rt sha now rule (PDict d) eid = Ok (Some a) \<and>
        a_severity a = level_to_severity (r_level rule) \<and>
        sorted (ioc_ips (a_iocs a)) \<and> distinct (ioc_ips (a_iocs a)) \<and>
        (\<forall>v \<in> set (ioc_ips (a_iocs a)). \<exists>p \<in> set (r_detection_fields rule).
            event_get (PDict d) p = PStr v \<and> ioc_kind_of p v = Some Ioc_Ip) \<and>
        (\<forall>v \<in> set (ioc_hashes (a_iocs a)). \<exists>p \<in> set (r_detection_fields rule).
            event_get (PDict d) p = PStr v \<and> ioc_kind_of p v = Some Ioc_Hash) \<and>
        (\<forall>v \<in> set (ioc_domains (a_iocs a)). \<exists>p \<in> set (r_detection_fields rule).
            event_get (PDict d) p = PStr v \<and> ioc_kind_of p v = Some Ioc_Domain)))"
proof -
  let ?m = "snd (sigma_matches rt rule (PDict d))"
  have ev: "v \<in> set (ioc_values ?m k (r_detection_fields rule)) \<Longrightarrow>
      \<exists>p \<in> set (r_detection_fields rule). event_get (PDict d) p = PStr v \<and> ioc_kind_of p v = Some k" for v k
    by (rule ioc_values_truthful [OF sigma_matches_truthful])
  show ?thesis
  proof (cases "rule_holds rt rule (PDict d)")
    case True
    then obtain a where a: "build_alert rt sha now rule (PDict d) eid = Ok (Some a)"
      "a_severity a = level_to_severity (r_level rule)" "a_iocs a = ioc_from_event rule ?m"
      using build_alert_match [OF True, of sha now eid] by blast
    show ?thesis using True a ev
      by (auto simp: ioc_from_event_def Let_def sorted_sorted_set distinct_sorted_set)
  qed (simp add: build_alert_no_match)
qed

theorem build_alert_correct_witness:
  "build_alert toy_rt (\<lambda>s. s) ''now''
     \<lparr>rule_id = ''r'', r_title = [], r_description = [], r_level = High, r_product = [], r_service = [],
      r_category = [], r_detection_fields = [], r_selection = [], r_pred_lists = [],
      r_condition_mode = ''selection'', r_tags = [], r_source_path = None\<rparr> (PDict []) ''e'' = Ok None"
  by (rule build_alert_correct [THEN conjunct1, rule_format]) (simp add: rule_holds_def)



text \<open>Loading never stops at an unreadable rule file; it returns the number of files parsed,
  counting each listing, and the registry maps every identifier to the last rule loaded with it,
  keyed by the rule's own identifier.\<close>

theorem init_builtin_rules_correct:
  assumes "\<And>p. parse_file p \<noteq> Inl CancelledError"
  shows "init_builtin_rules parse_file True root_files deep_files reg =
      (Ok (length (parsed parse_file root_files) + length (parsed parse_file deep_files)),
       fold add_rule (parsed parse_file (sort (root_files @ deep_files))) []) \<and>
    get_rule rid (snd (init_builtin_rules parse_file True root_files deep_files reg)) =
      List.find (\<lambda>r. rule_id r = rid) (rev (parsed parse_file (sort (root_files @ deep_files))))"
proof -
  have f: "map_of (map (\<lambda>r. (rule_id r, r)) rs) rid = List.find (\<lambda>r. rule_id r = rid) rs" for rs
    by (induction rs) auto
  show ?thesis
    by (simp add: init_builtin_rules_def load_builtin_rules_def load_loop_spec [OF assms]
        get_rule_def map_of_fold_add_rule rev_map f)
qed

theorem init_builtin_rules_correct_witness:
  "fst (init_builtin_rules (\<lambda>p :: nat. Inl ValueError) True [1] [1, 2] []) = Ok 0"
  using init_builtin_rules_correct [of "\<lambda>p :: nat. Inl ValueError" "[1]" "[1, 2]" "[]"]
  by simp

text \<open>Every rule file directly in the directory is loaded and counted twice.\<close>

lemma load_counts_root_files_twice:
  assumes "\<And>p. \<not> isl (parse_file p)"
  shows "fst (init_builtin_rules parse_file True files files reg) = Ok (2 * length files)"
proof -
  have nc: "parse_file p \<noteq> Inl CancelledError" for p using assms [of p] by (cases "parse_file p") auto
  have "length (parsed parse_file files) = length files"
  proof (induction files)
    case (Cons p ps)
    then show ?case using assms [of p] by (cases "parse_file p") auto
  qed simp
  then show ?thesis
    by (simp add: init_builtin_rules_def load_builtin_rules_def load_loop_spec [OF nc])
qed

text \<open>The two extractors of attack techniques agree on every tag with a technique, or a
  technique and a numeric sub-technique, after its first dot; the importer's list is exactly the
  set of canonical techniques of the tags, without duplicates.\<close>

theorem mitre_extractors_agree:
  assumes "\<forall>t \<in> set tags. length (split_on (CHR ''.'') t) = 2 \<or>
    (length (split_on (CHR ''.'') t) = 3 \<and> py_isdigit (split_on (CHR ''.'') t ! 2))"
  shows "set (extract_mitre tags) = set (mitre_from_tags tags) \<and> distinct (mitre_from_tags tags)"
proof -
  have "List.map_filter mitre_of_tag tags = List.map_filter canonical_technique tags"
    using assms by (induction tags) (auto simp: map_filter_simps mitre_extractors_eq split: option.splits)
  then show ?thesis
    using mitre_loop_spec [of "[]" tags] by (simp add: extract_mitre_def mitre_from_tags_def)
qed

theorem mitre_extractors_agree_witness:
  "set (extract_mitre [''attack.t1059.004'', ''attack.execution'']) =
   set (mitre_from_tags [''attack.t1059.004'', ''attack.execution''])"
  by (rule mitre_extractors_agree [THEN conjunct1]) (simp add: py_simps)

text \<open>Importing a directory accounts for every rule file exactly once, as accepted or as
  skipped, and the summary's category and level counts are the multiplicities among the accepted
  rules.\<close>

theorem import_from_directory_accounts:
  assumes "\<And>p. parse_file p \<noteq> Inl CancelledError"
  shows "\<exists>r. import_from_directory parse_file path_str exn_str now p (A_Dir ymls yamls) = Ok r \<and>
    mset (map ir_path (res_accepted r)) + mset (map fst (res_skipped r)) =
      mset (map path_str (ymls @ yamls)) \<and>
    total_seen r = length ymls + length yamls \<and>
    map_of (by_level r) k =
      (let n = count (mset (map ir_level (res_accepted r))) k in if n = 0 then None else Some n)"
proof -
  let ?fs = "sort ymls @ sort yamls"
  let ?r = "\<lparr>res_accepted = [], res_skipped = [], res_source_dir = path_str p, res_imported_at = now\<rparr>"
  obtain acc skip where imp: "import_loop parse_file path_str exn_str ?fs ?r =
      Ok (?r\<lparr>res_accepted := acc, res_skipped := skip\<rparr>)"
    and acc: "map ir_path acc = map path_str (filter (\<lambda>f. \<not> isl (parse_file f)) ?fs)"
    and skip: "map fst skip = map path_str (filter (\<lambda>f. isl (parse_file f)) ?fs)"
    using import_loop_spec [where parse_file = parse_file and path_str = path_str
        and exn_str = exn_str and r = ?r and fs = ?fs] assms by auto
  have part: "mset (map path_str (filter (\<lambda>f. \<not> P f) fs)) + mset (map path_str (filter P fs)) =
      mset (map path_str fs)" for P fs
    by (induction fs) auto
  have "mset (map ir_path acc) + mset (map fst skip) = mset (map path_str ?fs)"
    unfolding acc skip by (rule part)
  then have ms: "mset (map ir_path acc) + mset (map fst skip) = mset (map path_str (ymls @ yamls))"
    by simp
  then have "size (mset (map ir_path acc) + mset (map fst skip)) = length ymls + length yamls" by simp
  then have "length acc + length skip = length ymls + length yamls" by simp
  then show ?thesis using imp ms
    by (simp add: import_from_directory_def total_seen_def by_level_def count_loop_counts Let_def
        count_eq_zero_iff)
qed

theorem import_from_directory_accounts_witness:
  "\<exists>r. import_from_directory (\<lambda>n :: nat. Inl ValueError) (\<lambda>n. ''f'') (\<lambda>e. ''bad'') ''now'' 0 (A_Dir [2, 1] [3]) = Ok r \<and>
     total_seen r = 3"
proof -
  have "length [2, 1 :: nat] + length [3 :: nat] = 3" by simp
  then show ?thesis
    using import_from_directory_accounts [of "\<lambda>n :: nat. Inl ValueError" "\<lambda>n. ''f''" "\<lambda>e. ''bad''"
        "''now''" 0 "[2, 1]" "[3]"] by fastforce
qed

end
