(* ===== verification/Edr.thy ===== *)
theory Edr
  imports Alerts "HOL-Library.Multiset"
begin

text \<open>
  Third-party alert normalisation, \<open>src/preprocessing/edr_adapter\<close>. The base class is a record of
  hooks with its defaults, each vendor adapter an update of the hooks it overrides. The clock, the
  hash and the iteration order of a set are the argument \<open>edr_env\<close>.
\<close>

record edr_env =
  e_rt :: pyrt
  e_sha256_hex :: "string \<Rightarrow> string"
  e_now :: string
  e_list_of_set :: "string list \<Rightarrow> string list"

definition toy_edr :: edr_env where
  "toy_edr = \<lparr>e_rt = toy_rt, e_sha256_hex = (\<lambda>s. s), e_now = ''now'', e_list_of_set = (\<lambda>xs. xs)\<rparr>"

type_synonym 'a hook = "edr_env \<Rightarrow> pydict \<Rightarrow> 'a res"

record adapter =
  h_source :: alert_source
  h_vendor_id :: "string hook"
  h_id :: "alert_source \<Rightarrow> string hook \<Rightarrow> string hook"
  h_title :: "pyval hook"
  h_description :: "string hook"
  h_severity :: "alert_severity hook"
  h_occurred_at :: "pyval hook"
  h_hostname :: "string hook"
  h_host_ip :: "string hook"
  h_agent_id :: "string hook"
  h_rule_id :: "string hook"
  h_rule_name :: "string hook"
  h_category :: "string hook"
  h_mitre :: "pyval list hook"
  h_iocs :: "alert_ioc hook"
  h_tags :: "pyval list hook"
  h_source_url :: "string hook"

definition getn :: "pydict \<Rightarrow> string \<Rightarrow> pyval" where
  "getn d k = dget d k PNone"

definition str_or :: "edr_env \<Rightarrow> pyval \<Rightarrow> string \<Rightarrow> string" where
  "str_or env v dflt = py_str (e_rt env) (py_or v (PStr dflt))"

section \<open>The base adapter\<close>

definition sorted_items :: "(string \<times> pyval) list \<Rightarrow> (string \<times> pyval) list" where
  "sorted_items d = sort_key fst d"

text \<open>\<open>repr(sorted(raw.items()))\<close>; the keys are distinct, so the values are never compared.\<close>

definition canonical_repr :: "edr_env \<Rightarrow> pydict \<Rightarrow> string" where
  "canonical_repr env raw =
     ''['' @ join '', '' (map (\<lambda>(k, v). ''('' @ repr_str k @ '', '' @ py_repr (e_rt env) v @ '')'')
       (sorted_items raw)) @ '']''"

definition hashed_id :: "alert_source \<Rightarrow> string hook" where
  "hashed_id src env raw =
     Ok (source_value src @ '':sha256:'' @ take 32 (e_sha256_hex env (canonical_repr env raw)))"

definition base_id :: "alert_source \<Rightarrow> string hook \<Rightarrow> string hook" where
  "base_id src vendor_id env raw =
     rbind (vendor_id env raw) (\<lambda>vendor.
       if vendor \<noteq> [] then Ok (source_value src @ '':'' @ vendor) else hashed_id src env raw)"

definition base_occurred_at :: "pyval hook" where
  "base_occurred_at env raw =
     Ok (py_or (getn raw ''timestamp'') (py_or (getn raw ''timestamp_utc'') (PStr (e_now env))))"

definition base_adapter :: "alert_source \<Rightarrow> adapter" where
  "base_adapter src =
     \<lparr>h_source = src,
      h_vendor_id = (\<lambda>env raw. Ok []),
      h_id = base_id,
      h_title = (\<lambda>env raw.
        Ok (py_or (getn raw ''title'') (py_or (getn raw ''description'') (PStr ''(no title)'')))),
      h_description = (\<lambda>env raw.
        Ok (str_or env (py_or (getn raw ''description'') (getn raw ''summary'')) [])),
      h_severity = (\<lambda>env raw. Ok Sev_Medium),
      h_occurred_at = base_occurred_at,
      h_hostname = (\<lambda>env raw. Ok []),
      h_host_ip = (\<lambda>env raw. Ok []),
      h_agent_id = (\<lambda>env raw. Ok []),
      h_rule_id = (\<lambda>env raw. Ok []),
      h_rule_name = (\<lambda>env raw. Ok []),
      h_category = (\<lambda>env raw. Ok []),
      h_mitre = (\<lambda>env raw. Ok []),
      h_iocs = (\<lambda>env raw. Ok empty_ioc),
      h_tags = (\<lambda>env raw. Ok []),
      h_source_url = (\<lambda>env raw. Ok [])\<rparr>"

text \<open>Every hook runs, then the alert's constructor validates what they returned.\<close>

definition to_alert :: "edr_env \<Rightarrow> adapter \<Rightarrow> pydict \<Rightarrow> alert res" where
  "to_alert env ad raw =
     rbind (h_id ad (h_source ad) (h_vendor_id ad) env raw) (\<lambda>id1.
     rbind (h_title ad env raw) (\<lambda>title.
     rbind (h_description ad env raw) (\<lambda>description.
     rbind (h_severity ad env raw) (\<lambda>severity.
     rbind (h_occurred_at ad env raw) (\<lambda>occurred.
     rbind (h_hostname ad env raw) (\<lambda>hostname.
     rbind (h_host_ip ad env raw) (\<lambda>host_ip.
     rbind (h_agent_id ad env raw) (\<lambda>agent_id.
     rbind (h_rule_id ad env raw) (\<lambda>rule_id.
     rbind (h_rule_name ad env raw) (\<lambda>rule_name.
     rbind (h_category ad env raw) (\<lambda>category.
     rbind (h_mitre ad env raw) (\<lambda>mitre.
     rbind (h_iocs ad env raw) (\<lambda>iocs.
     rbind (h_tags ad env raw) (\<lambda>tags.
     rbind (h_source_url ad env raw) (\<lambda>url.
     rbind (as_str title) (\<lambda>title_s.
     rbind (as_str occurred) (\<lambda>occurred_s.
     rbind (as_strs mitre) (\<lambda>mitre_s.
     rbind (as_strs tags) (\<lambda>tags_s.
     Ok \<lparr>alert_id = id1, a_source = h_source ad, a_title = title_s, a_description = description,
         a_severity = severity, a_status = St_New, a_occurred_at = occurred_s,
         a_received_at = e_now env, a_hostname = hostname, a_host_ip = host_ip,
         a_agent_id = agent_id, a_rule_id = rule_id, a_rule_name = rule_name,
         a_category = category, a_mitre_attack = mitre_s, a_iocs = iocs, a_tags = tags_s,
         a_source_url = url, a_raw = raw\<rparr>)))))))))))))))))))"

text \<open>\<open>AlertIOC(...)\<close>: each list must hold texts.\<close>

definition make_ioc ::
    "pyval list \<Rightarrow> pyval list \<Rightarrow> pyval list \<Rightarrow> pyval list \<Rightarrow> alert_ioc res" where
  "make_ioc ips domains hashes urls =
     rbind (as_strs ips) (\<lambda>i. rbind (as_strs domains) (\<lambda>d.
     rbind (as_strs hashes) (\<lambda>h. rbind (as_strs urls) (\<lambda>u.
       Ok (empty_ioc\<lparr>ioc_ips := i, ioc_domains := d, ioc_hashes := h, ioc_urls := u\<rparr>)))))"

text \<open>The keys of \<open>d\<close> with a true value, as a list of those values.\<close>

definition present :: "pydict \<Rightarrow> string list \<Rightarrow> pyval list" where
  "present d ks = filter truthy (map (getn d) ks)"

text \<open>\<open>raw.get(k, {}).get(k2, dflt)\<close>.\<close>

definition sub_get :: "pydict \<Rightarrow> string \<Rightarrow> string \<Rightarrow> pyval \<Rightarrow> pyval res" where
  "sub_get raw k k2 dflt = vget (dget raw k (PDict [])) k2 dflt"

text \<open>\<open>str(raw.get(k, {}).get(k2) or "")\<close>.\<close>

definition sub_str :: "string \<Rightarrow> string \<Rightarrow> string hook" where
  "sub_str k k2 env raw = rbind (sub_get raw k k2 PNone) (\<lambda>v. Ok (str_or env v []))"

text \<open>\<open>try: int(v) except (TypeError, ValueError): dflt\<close>.\<close>

definition int_or :: "pyval \<Rightarrow> int \<Rightarrow> int" where
  "int_or v dflt = (case py_int v of Inl _ \<Rightarrow> dflt | Inr i \<Rightarrow> i)"

section \<open>Wazuh\<close>

definition wazuh_severity_of :: "int \<Rightarrow> alert_severity" where
  "wazuh_severity_of level =
     (if level \<ge> 12 then Sev_Critical else if level \<ge> 10 then Sev_High
      else if level \<ge> 7 then Sev_Medium else if level \<ge> 4 then Sev_Low else Sev_Info)"

definition wazuh_adapter :: adapter where
  "wazuh_adapter = (base_adapter Src_Wazuh)
     \<lparr>h_vendor_id := (\<lambda>env raw. Ok (str_or env (getn raw ''id'') [])),
      h_title := (\<lambda>env raw. rbind (sub_get raw ''rule'' ''description'' (PStr ''(no rule description)''))
        (\<lambda>v. Ok (PStr (''Wazuh: '' @ py_str (e_rt env) v)))),
      h_description := (\<lambda>env raw. rbind (sub_get raw ''rule'' ''description'' (PStr []))
        (\<lambda>v. Ok (py_str (e_rt env) v))),
      h_severity := (\<lambda>env raw. rbind (sub_get raw ''rule'' ''level'' (PInt 5))
        (\<lambda>v. Ok (wazuh_severity_of (int_or v 5)))),
      h_occurred_at := (\<lambda>env raw.
        rbind (base_occurred_at env raw) (\<lambda>b. Ok (py_or (getn raw ''timestamp'') b))),
      h_hostname := (\<lambda>env raw. rbind (sub_get raw ''agent'' ''name'' (PStr []))
        (\<lambda>v. Ok (py_str (e_rt env) v))),
      h_agent_id := (\<lambda>env raw. rbind (sub_get raw ''agent'' ''id'' (PStr []))
        (\<lambda>v. Ok (py_str (e_rt env) v))),
      h_rule_id := (\<lambda>env raw. rbind (sub_get raw ''rule'' ''id'' (PStr []))
        (\<lambda>v. Ok (py_str (e_rt env) v))),
      h_rule_name := (\<lambda>env raw. rbind (sub_get raw ''rule'' ''description'' (PStr []))
        (\<lambda>v. Ok (py_str (e_rt env) v))),
      h_category := (\<lambda>env raw. rbind (sub_get raw ''rule'' ''groups'' PNone)
        (\<lambda>groups. Ok (case groups of PList (g # _) \<Rightarrow> py_str (e_rt env) g | _ \<Rightarrow> []))),
      h_mitre := (\<lambda>env raw. rbind (sub_get raw ''rule'' ''mitre'' (PDict []))
        (\<lambda>mitre. rbind (vget mitre ''id'' (PList [])) (\<lambda>ids. py_iter (py_or ids (PList []))))),
      h_iocs := (\<lambda>env raw. case py_or (getn raw ''data'') (PDict []) of
          PDict d \<Rightarrow> make_ioc (present d [''srcip'', ''dstip'']) []
                      (present d [''md5'', ''sha1'', ''sha256'']) (present d [''url''])
        | _ \<Rightarrow> Raise AttributeError),
      h_tags := (\<lambda>env raw. rbind (sub_get raw ''rule'' ''groups'' (PList []))
        (\<lambda>groups. rbind (py_iter groups)
          (\<lambda>ts. Ok (filter (\<lambda>t. case t of PStr _ \<Rightarrow> True | _ \<Rightarrow> False) ts)))),
      h_source_url := (\<lambda>env raw. rbind (sub_get raw ''agent'' ''ip'' (PStr []))
        (\<lambda>ip. if \<not> truthy ip then Ok []
              else case ip of PStr s \<Rightarrow> Ok (''http://'' @ s @ '':56001/app/wz-home'')
                   | _ \<Rightarrow> Raise TypeError))\<rparr>"

section \<open>Elkeid\<close>

definition elkeid_severity_of :: "int \<Rightarrow> alert_severity" where
  "elkeid_severity_of lvl =
     (if lvl \<ge> 5 then Sev_Critical else if lvl \<ge> 4 then Sev_High
      else if lvl \<ge> 3 then Sev_Medium else if lvl \<ge> 2 then Sev_Low else Sev_Info)"

definition elkeid_adapter :: adapter where
  "elkeid_adapter = (base_adapter Src_Elkeid)
     \<lparr>h_vendor_id := (\<lambda>env raw. Ok (str_or env (py_or (getn raw ''alert_id'') (getn raw ''id'')) [])),
      h_title := (\<lambda>env raw. rbind (sub_get raw ''data'' ''rule_name'' PNone)
        (\<lambda>v. Ok (PStr (str_or env (py_or v (getn raw ''title'')) ''(no rule)'')))),
      h_description := sub_str ''data'' ''description'',
      h_severity := (\<lambda>env raw. rbind (sub_get raw ''data'' ''level'' (PInt 3))
        (\<lambda>v. Ok (elkeid_severity_of (int_or v 3)))),
      h_occurred_at := (\<lambda>env raw. rbind (base_occurred_at env raw)
        (\<lambda>b. Ok (py_or (getn raw ''time'') (py_or (getn raw ''timestamp'') b)))),
      h_hostname := (\<lambda>env raw. rbind (sub_get raw ''host'' ''hostname'' PNone)
        (\<lambda>v. rbind (sub_get raw ''host'' ''name'' PNone) (\<lambda>n. Ok (str_or env (py_or v n) [])))),
      h_host_ip := sub_str ''host'' ''ip'',
      h_agent_id := sub_str ''host'' ''agent_id'',
      h_rule_id := sub_str ''data'' ''rule_id'',
      h_mitre := (\<lambda>env raw. rbind (sub_get raw ''data'' ''tactic'' (PList []))
        (\<lambda>t. py_iter (py_or t (PList [])))),
      h_iocs := (\<lambda>env raw. case dget raw ''data'' (PDict []) of
          PDict d \<Rightarrow> make_ioc (present d [''srcip'']) (present d [''domain'']) (present d [''sha256'']) []
        | _ \<Rightarrow> Raise AttributeError),
      h_source_url := (\<lambda>env raw. Ok (str_or env (getn raw ''dashboard_url'') []))\<rparr>"

section \<open>Elastic\<close>

definition elastic_severity_of :: "string \<Rightarrow> alert_severity" where
  "elastic_severity_of sev =
     (if sev = ''critical'' then Sev_Critical else if sev = ''high'' then Sev_High
      else if sev = ''medium'' then Sev_Medium else if sev = ''low'' then Sev_Low else Sev_Info)"

definition elastic_adapter :: adapter where
  "elastic_adapter = (base_adapter Src_Elastic)
     \<lparr>h_vendor_id := (\<lambda>env raw. Ok (str_or env (py_or (getn raw ''id'') (getn raw ''alert_id'')) [])),
      h_title := (\<lambda>env raw. rbind (sub_get raw ''signal'' ''title'' PNone)
        (\<lambda>v. Ok (PStr (str_or env (py_or v (getn raw ''title'')) ''Elastic alert'')))),
      h_severity := (\<lambda>env raw. rbind (sub_get raw ''signal'' ''severity'' (PStr []))
        (\<lambda>v. Ok (elastic_severity_of (py_lower (py_str (e_rt env) v))))),
      h_rule_id := sub_str ''signal'' ''rule_id'',
      h_rule_name := sub_str ''signal'' ''name'',
      h_mitre := (\<lambda>env raw.
        rbind (sub_get raw ''signal'' ''tactics'' (PDict [])) (\<lambda>tactics.
        rbind (sub_get raw ''signal'' ''techniques'' (PList [])) (\<lambda>techs.
        let tactic = (case tactics of PDict d \<Rightarrow> dget d ''id'' (PList []) | _ \<Rightarrow> tactics);
            ts = (case tactic of PList xs \<Rightarrow> xs | _ \<Rightarrow> if truthy tactic then [tactic] else [])
        in rbind (py_iter (py_or techs (PList []))) (\<lambda>us. Ok (ts @ us)))))\<rparr>"

section \<open>CrowdStrike\<close>

definition crowdstrike_severity_of :: "string \<Rightarrow> alert_severity" where
  "crowdstrike_severity_of sev =
     (if sev = ''critical'' then Sev_Critical else if sev = ''high'' then Sev_High
      else if sev = ''medium'' then Sev_Medium else if sev = ''low'' then Sev_Low
      else if sev = ''informational'' then Sev_Info else Sev_Medium)"

definition crowdstrike_adapter :: adapter where
  "crowdstrike_adapter = (base_adapter Src_CrowdStrike)
     \<lparr>h_vendor_id := (\<lambda>env raw.
        Ok (str_or env (getn raw ''detection_id'') (str_or env (getn raw ''id'') []))),
      h_title := (\<lambda>env raw.
        Ok (PStr (str_or env (py_or (getn raw ''name'') (getn raw ''title'')) ''CrowdStrike alert''))),
      h_severity := (\<lambda>env raw.
        Ok (crowdstrike_severity_of (py_lower (py_str (e_rt env) (dget raw ''severity'' (PStr [])))))),
      h_rule_id := (\<lambda>env raw. Ok (case dget raw ''quarantine_files_sha256'' (PList []) of
          PList (q # _) \<Rightarrow> py_str (e_rt env) q
        | _ \<Rightarrow> str_or env (getn raw ''tactic'') [])),
      h_hostname := sub_str ''device'' ''hostname'',
      h_host_ip := sub_str ''device'' ''local_ip'',
      h_iocs := (\<lambda>env raw. rbind (sub_get raw ''device'' ''external_ip'' PNone) (\<lambda>ext.
        rbind (py_iter (py_or (dget raw ''quarantine_files_sha256'' (PList [])) (PList []))) (\<lambda>hashes.
        make_ioc (if truthy ext then [ext] else []) [] hashes [])))\<rparr>"

section \<open>SentinelOne\<close>

definition sentinelone_severity_of :: "string \<Rightarrow> alert_severity" where
  "sentinelone_severity_of sev =
     (if sev = ''CRITICAL'' then Sev_Critical else if sev = ''HIGH'' then Sev_High
      else if sev = ''MEDIUM'' then Sev_Medium else if sev = ''LOW'' then Sev_Low
      else if sev = ''INFO'' then Sev_Info else Sev_Medium)"

definition sentinelone_adapter :: adapter where
  "sentinelone_adapter = (base_adapter Src_SentinelOne)
     \<lparr>h_vendor_id := (\<lambda>env raw.
        let a = py_or (dget raw ''alertInfo'' (PDict [])) (PDict raw) in
        rbind (vget a ''alertId'' PNone) (\<lambda>x. rbind (vget a ''id'' PNone) (\<lambda>y.
          Ok (str_or env (py_or x y) [])))),
      h_title := (\<lambda>env raw.
        rbind (vget (py_or (dget raw ''alertInfo'' (PDict [])) (PDict [])) ''name'' PNone) (\<lambda>v.
          Ok (PStr (str_or env (py_or v (getn raw ''title'')) ''SentinelOne alert'')))),
      h_severity := (\<lambda>env raw. rbind (sub_get raw ''alertInfo'' ''severity'' (PStr []))
        (\<lambda>v. Ok (sentinelone_severity_of (py_upper (py_str (e_rt env) v))))),
      h_hostname := (\<lambda>env raw.
        let a = py_or (dget raw ''agentDetectionInfo'' (PDict [])) (PDict []) in
        rbind (vget a ''agentName'' PNone) (\<lambda>x. rbind (vget a ''machineName'' PNone) (\<lambda>y.
          Ok (str_or env (py_or x y) [])))),
      h_agent_id := (\<lambda>env raw.
        rbind (vget (py_or (dget raw ''agentDetectionInfo'' (PDict [])) (PDict [])) ''agentId'' PNone)
          (\<lambda>x. Ok (str_or env x []))),
      h_iocs := (\<lambda>env raw. case py_or (dget raw ''threatInfo'' (PDict [])) (PDict []) of
          PDict t \<Rightarrow> make_ioc (present t [''ip'']) [] (present t [''sha256'']) []
        | _ \<Rightarrow> Raise AttributeError)\<rparr>"

section \<open>The in-house adapter\<close>

definition secagent_severity_of :: "string \<Rightarrow> alert_severity" where
  "secagent_severity_of sev =
     (if sev = ''critical'' then Sev_Critical else if sev = ''high'' then Sev_High
      else if sev = ''medium'' then Sev_Medium else if sev = ''low'' then Sev_Low
      else if sev = ''info'' then Sev_Info else Sev_Medium)"

definition secagent_adapter :: adapter where
  "secagent_adapter = (base_adapter Src_SecAgent)
     \<lparr>h_vendor_id := (\<lambda>env raw. Ok (str_or env (py_or (getn raw ''alert_id'') (getn raw ''id'')) [])),
      h_title := (\<lambda>env raw. Ok (PStr (str_or env (getn raw ''title'') ''SecAgent alert''))),
      h_description := (\<lambda>env raw. Ok (str_or env (getn raw ''description'') [])),
      h_severity := (\<lambda>env raw.
        Ok (secagent_severity_of (py_lower (py_str (e_rt env) (dget raw ''severity'' (PStr ''medium'')))))),
      h_occurred_at := (\<lambda>env raw. rbind (base_occurred_at env raw)
        (\<lambda>b. Ok (py_or (getn raw ''occurred_at'') (py_or (getn raw ''timestamp'') b)))),
      h_hostname := (\<lambda>env raw. Ok (str_or env (getn raw ''hostname'') [])),
      h_host_ip := (\<lambda>env raw. Ok (str_or env (getn raw ''host_ip'') [])),
      h_agent_id := (\<lambda>env raw. Ok (str_or env (getn raw ''agent_id'') [])),
      h_rule_id := (\<lambda>env raw. Ok (str_or env (getn raw ''rule_id'') [])),
      h_mitre := (\<lambda>env raw. py_iter (py_or (dget raw ''mitre_attack'' (PList [])) (PList []))),
      h_iocs := (\<lambda>env raw.
        let iocs = py_or (dget raw ''iocs'' (PDict [])) (PDict []);
            part = (\<lambda>k. rbind (vget iocs k (PList [])) (\<lambda>v. py_iter (py_or v (PList []))))
        in rbind (part ''ips'') (\<lambda>i. rbind (part ''domains'') (\<lambda>d.
           rbind (part ''hashes'') (\<lambda>h. rbind (part ''urls'') (\<lambda>u. make_ioc i d h u)))))\<rparr>"

section \<open>Syslog\<close>

text \<open>The search for \<open><(\d+)>\<close>: the digits of the first priority in the text.\<close>

fun pri_search :: "string \<Rightarrow> string option" where
  "pri_search [] = None"
| "pri_search (c # cs) =
     (if c = CHR ''<'' \<and> takeWhile is_digit cs \<noteq> [] \<and>
         startswith (dropWhile is_digit cs) ''>''
      then Some (takeWhile is_digit cs) else pri_search cs)"

definition is_word :: "char \<Rightarrow> bool" where
  "is_word c = (let n = (of_char c :: nat) in
     (48 \<le> n \<and> n \<le> 57) \<or> (65 \<le> n \<and> n \<le> 90) \<or> n = 95 \<or> (97 \<le> n \<and> n \<le> 122))"

text \<open>
  \<open>n + 1\<close> groups of one to three digits separated by dots, not followed by a word character: the
  match of the address pattern at the start of a text and what follows it.
\<close>

fun quad :: "nat \<Rightarrow> string \<Rightarrow> (string \<times> string) option" where
  "quad 0 s =
     (let d = takeWhile is_digit s; r = dropWhile is_digit s in
      if 1 \<le> length d \<and> length d \<le> 3 \<and> (r = [] \<or> \<not> is_word (hd r)) then Some (d, r) else None)"
| "quad (Suc n) s =
     (let d = takeWhile is_digit s in
      if 1 \<le> length d \<and> length d \<le> 3
      then (case dropWhile is_digit s of
              CHR ''.'' # r \<Rightarrow> map_option (\<lambda>(m, rest). (d @ ''.'' @ m, rest)) (quad n r)
            | _ \<Rightarrow> None)
      else None)"

lemma quad_split: "quad n s = Some (m, rest) \<Longrightarrow> s = m @ rest \<and> m \<noteq> []"
proof (induction n arbitrary: s m rest)
  case 0
  then show ?case by (auto simp: Let_def split: if_splits)
next
  case (Suc n)
  let ?d = "takeWhile is_digit s"
  have s: "s = ?d @ dropWhile is_digit s" by simp
  from Suc.prems obtain r where r: "dropWhile is_digit s = CHR ''.'' # r"
    by (auto simp: Let_def split: if_splits list.splits char.splits bool.splits)
  from Suc.prems obtain m' where "quad n r = Some (m', rest)" "m = ?d @ ''.'' @ m'"
    unfolding quad.simps Let_def r by (auto split: if_splits)
  with Suc.IH [of r m' rest] s r show ?case by (metis append.assoc append_Cons append_Nil append_is_Nil_conv list.distinct(1))
qed

lemma quad_shorter:
  assumes "(if after_word then None else quad 3 s) = Some (m, rest)"
  shows "length rest < length s"
proof -
  have "s = m @ rest \<and> m \<noteq> []" using assms by (intro quad_split [of 3]) (simp split: if_splits)
  then have "length s = length m + length rest" "0 < length m" by (metis length_append, simp)
  then show ?thesis by simp
qed

text \<open>All matches, left to right; a match starts where the previous character is not a word
  character.\<close>

function find_ips :: "bool \<Rightarrow> string \<Rightarrow> string list" where
  "find_ips after_word [] = []"
| "find_ips after_word (c # cs) =
     (case (if after_word then None else quad 3 (c # cs)) of
        Some (m, rest) \<Rightarrow> m # find_ips True rest
      | None \<Rightarrow> find_ips (is_word c) cs)"
  by pat_completeness auto
termination
  by (relation "measure (\<lambda>(_, s). length s)") (use quad_shorter in \<open>force+\<close>)

definition syslog_severity_of :: "int \<Rightarrow> alert_severity" where
  "syslog_severity_of sev =
     (if sev \<le> 1 then Sev_Critical else if sev \<le> 3 then Sev_High
      else if sev \<le> 4 then Sev_Medium else if sev \<le> 5 then Sev_Low else Sev_Info)"

definition syslog_level :: "edr_env \<Rightarrow> pydict \<Rightarrow> int" where
  "syslog_level env raw =
     (case py_int (getn raw ''severity'') of
        Inr i \<Rightarrow> i
      | Inl _ \<Rightarrow>
          (case pri_search (py_str (e_rt env)
                  (py_or (getn raw ''priority'') (py_or (getn raw ''PRI'') (PInt 134)))) of
             Some ds \<Rightarrow> int (digits_val 0 ds) mod 8
           | None \<Rightarrow> 5))"

definition syslog_adapter :: adapter where
  "syslog_adapter = (base_adapter Src_Syslog)
     \<lparr>h_id := (\<lambda>src vendor_id env raw. hashed_id src env raw),
      h_title := (\<lambda>env raw.
        Ok (PStr (str_or env (py_or (getn raw ''msg'') (getn raw ''message'')) ''Syslog alert''))),
      h_severity := (\<lambda>env raw. Ok (syslog_severity_of (syslog_level env raw))),
      h_hostname := (\<lambda>env raw. Ok (str_or env (getn raw ''hostname'') (str_or env (getn raw ''host'') []))),
      h_rule_name := (\<lambda>env raw. Ok (str_or env (getn raw ''program'') (str_or env (getn raw ''app_name'') []))),
      h_iocs := (\<lambda>env raw.
        let msg = str_or env (py_or (getn raw ''msg'') (getn raw ''message'')) [] in
        make_ioc (map PStr (e_list_of_set env (dedup_first (find_ips False msg)))) [] [] [])\<rparr>"

section \<open>Choosing the adapter\<close>

fun adapter_for :: "alert_source \<Rightarrow> adapter" where
  "adapter_for Src_Wazuh = wazuh_adapter"
| "adapter_for Src_Elkeid = elkeid_adapter"
| "adapter_for Src_Syslog = syslog_adapter"
| "adapter_for Src_Elastic = elastic_adapter"
| "adapter_for Src_CrowdStrike = crowdstrike_adapter"
| "adapter_for Src_SentinelOne = sentinelone_adapter"
| "adapter_for Src_SecAgent = secagent_adapter"
| "adapter_for Src_Unknown = syslog_adapter"

definition edr_normalize :: "edr_env \<Rightarrow> pydict \<Rightarrow> string \<Rightarrow> alert res" where
  "edr_normalize env raw source =
     (let src = (case source_of source of Some s \<Rightarrow> s | None \<Rightarrow> Src_Unknown)
      in to_alert env (adapter_for src) raw)"

text \<open>The older registry facade refuses a source without an adapter.\<close>

definition register_adapter ::
    "alert_source \<Rightarrow> adapter \<Rightarrow> (alert_source \<times> adapter) list \<Rightarrow> (alert_source \<times> adapter) list" where
  "register_adapter src ad reg = AList.update src ad reg"

definition registry_normalize ::
    "(alert_source \<times> adapter) list \<Rightarrow> edr_env \<Rightarrow> pydict \<Rightarrow> string \<Rightarrow> alert res" where
  "registry_normalize reg env raw source =
     (let src = (case source_of source of Some s \<Rightarrow> s | None \<Rightarrow> Src_Unknown)
      in case map_of reg src of
           None \<Rightarrow> Raise ValueError
         | Some ad \<Rightarrow> to_alert env ad raw)"

section \<open>Facts about the hooks\<close>

lemma str_or_PStr: "str_or env (PStr s) dflt = (if s = [] then dflt else s)"
  by (simp add: str_or_def py_or_def)

lemma py_iter_or_PList: "py_iter (py_or (PList xs) (PList [])) = Ok xs"
  by (simp add: py_or_def)

lemma to_alert_Ok:
  assumes "to_alert env ad raw = Ok a"
  shows "h_id ad (h_source ad) (h_vendor_id ad) env raw = Ok (alert_id a) \<and>
    a_source a = h_source ad \<and> h_severity ad env raw = Ok (a_severity a) \<and>
    h_iocs ad env raw = Ok (a_iocs a) \<and>
    a_raw a = raw \<and> a_received_at a = e_now env \<and> a_status a = St_New"
  using assms unfolding to_alert_def rbind_eq_Inr_iff by auto

lemmas adapter_defs = wazuh_adapter_def elkeid_adapter_def elastic_adapter_def
  crowdstrike_adapter_def sentinelone_adapter_def secagent_adapter_def syslog_adapter_def
  base_adapter_def

lemma adapter_for_source: "h_source (adapter_for src) = (if src = Src_Unknown then Src_Syslog else src)"
  by (cases src) (simp_all add: adapter_defs)

lemma base_id_prefix: "base_id src vid env raw = Ok i \<Longrightarrow> startswith i (source_value src @ '':'')"
  by (auto simp: base_id_def hashed_id_def rbind_eq_Inr_iff startswith_def split: if_splits)

lemma adapter_for_id:
  assumes "h_id (adapter_for src) s v env raw = Ok i"
  shows "startswith i (source_value s @ '':'')"
proof -
  have "h_id (adapter_for src) = base_id \<or> h_id (adapter_for src) = (\<lambda>s v. hashed_id s)"
    by (cases src) (auto simp: adapter_defs fun_eq_iff)
  moreover have "startswith i (source_value s @ '':'')" if "hashed_id s env raw = Ok i"
    using that by (auto simp: hashed_id_def startswith_def)
  ultimately show ?thesis using assms base_id_prefix by metis
qed

lemma filter_one: "distinct xs \<Longrightarrow> k \<in> set xs \<Longrightarrow> filter (\<lambda>x. x = k) xs = [k]"
  by (induction xs) (auto simp: filter_empty_conv)

lemma sorted_items_perm:
  assumes "mset d = mset e" "distinct (map fst d)"
  shows "sorted_items d = sorted_items e"
  unfolding sorted_items_def
proof (rule properties_for_sort_key)
  show "mset (sort_key fst e) = mset d" using assms by simp
  show "sorted (map fst (sort_key fst e))" by simp
  show "filter (\<lambda>x. fst k = fst x) (sort_key fst e) = filter (\<lambda>x. fst k = fst x) d" if k: "k \<in> set (sort_key fst e)" for k
  proof -
    have "k \<in> set d" using k mset_eq_setD [OF assms(1)] by simp
    have inj: "inj_on fst (set d)" using assms(2) by (simp add: distinct_map)
    have "filter (\<lambda>x. fst k = fst x) xs = [k]" if "mset xs = mset d" for xs :: "(string \<times> pyval) list"
    proof -
      have "distinct xs" using assms(2) that by (metis distinct_map mset_eq_imp_distinct_iff)
      have "set xs = set d" using that by (rule mset_eq_setD)
      then have "filter (\<lambda>x. fst k = fst x) xs = filter (\<lambda>x. x = k) xs"
        using inj \<open>k \<in> set d\<close> by (intro filter_cong) (auto simp: inj_on_def)
      moreover have "filter (\<lambda>x. x = k) xs = [k]"
        by (rule filter_one) (use \<open>distinct xs\<close> \<open>set xs = set d\<close> \<open>k \<in> set d\<close> in simp_all)
      ultimately show ?thesis by simp
    qed
    then show ?thesis using assms(1) by (metis mset_sort)
  qed
qed

section \<open>Properties\<close>

text \<open>A normalised alert keeps the payload, is new, is stamped with the time of receipt, and
  belongs to the named source, or to the system log when the name is unknown; its identifier
  starts with that source's name.\<close>

theorem edr_normalize_source:
  assumes "edr_normalize env raw source = Ok a"
  shows "a_source a = (case source_of source of None \<Rightarrow> Src_Syslog
      | Some s \<Rightarrow> if s = Src_Unknown then Src_Syslog else s) \<and>
    startswith (alert_id a) (source_value (a_source a) @ '':'') \<and>
    a_raw a = raw \<and> a_received_at a = e_now env \<and> a_status a = St_New"
proof -
  let ?s = "case source_of source of Some s \<Rightarrow> s | None \<Rightarrow> Src_Unknown"
  have t: "to_alert env (adapter_for ?s) raw = Ok a"
    using assms by (simp add: edr_normalize_def Let_def)
  note f = to_alert_Ok [OF t]
  then have "startswith (alert_id a) (source_value (a_source a) @ '':'')"
    using adapter_for_id [of ?s "h_source (adapter_for ?s)"] by metis
  with f show ?thesis by (auto simp: adapter_for_source split: option.splits)
qed

theorem edr_normalize_source_witness:
  "\<exists>a. edr_normalize \<lparr>e_rt = toy_rt, e_sha256_hex = (\<lambda>s. ''00''), e_now = ''now'', e_list_of_set = (\<lambda>xs. xs)\<rparr>
      [(''id'', PStr ''7''), (''timestamp'', PStr ''t'')] ''wazuh'' = Ok a \<and> a_source a = Src_Wazuh"
proof -
  let ?env = "\<lparr>e_rt = toy_rt, e_sha256_hex = (\<lambda>s. ''00''), e_now = ''now'', e_list_of_set = (\<lambda>xs. xs)\<rparr>"
  have w: "source_of ''wazuh'' = Some Src_Wazuh" by (simp add: source_of_def all_sources_def)
  obtain a where a: "edr_normalize ?env [(''id'', PStr ''7''), (''timestamp'', PStr ''t'')] ''wazuh'' = Ok a"
    by (simp add: edr_normalize_def w to_alert_def adapter_defs base_id_def str_or_PStr getn_def
        sub_get_def base_occurred_at_def py_or_def make_ioc_def present_def)
  from edr_normalize_source [OF a] w a show ?thesis by auto
qed

text \<open>The identifier of an alert without a vendor identifier depends on the payload's top
  level entries only as a set: any order of the keys gives the same identifier.\<close>

theorem hashed_id_order_independent:
  assumes "mset raw = mset raw'" "distinct (map fst raw)"
  shows "hashed_id src env raw = hashed_id src env raw'"
  by (simp add: hashed_id_def canonical_repr_def sorted_items_perm [OF assms])

theorem hashed_id_order_independent_witness:
  "hashed_id Src_Syslog toy_edr [(''a'', PInt 1), (''b'', PInt 2)] = hashed_id Src_Syslog toy_edr [(''b'', PInt 2), (''a'', PInt 1)]"
  by (rule hashed_id_order_independent) simp_all

text \<open>How urgent a severity is.\<close>

fun sev_rank :: "alert_severity \<Rightarrow> nat" where
  "sev_rank Sev_Info = 0"
| "sev_rank Sev_Low = 1"
| "sev_rank Sev_Medium = 2"
| "sev_rank Sev_High = 3"
| "sev_rank Sev_Critical = 4"

text \<open>Whatever a vendor puts in the level field, the Wazuh and Elkeid severities are defined:
  a level that is not a number counts as the default, and a higher level is never less severe.\<close>

theorem vendor_level_total:
  "(\<exists>s. h_severity wazuh_adapter env [(''rule'', PDict [(''level'', v)])] = Ok s \<and>
        h_severity wazuh_adapter env [(''rule'', PDict [(''level'', PInt (int_or v 5))])] = Ok s) \<and>
   (\<exists>s. h_severity elkeid_adapter env [(''data'', PDict [(''level'', v)])] = Ok s \<and>
        h_severity elkeid_adapter env [(''data'', PDict [(''level'', PInt (int_or v 3))])] = Ok s) \<and>
   sev_rank (wazuh_severity_of i) \<le> sev_rank (wazuh_severity_of (max i j)) \<and>
   sev_rank (elkeid_severity_of i) \<le> sev_rank (elkeid_severity_of (max i j)) \<and>
   sev_rank (syslog_severity_of (max i j)) \<le> sev_rank (syslog_severity_of i)"
  by (auto simp: adapter_defs sub_get_def int_or_def wazuh_severity_of_def elkeid_severity_of_def
      syslog_severity_of_def max_def)

text \<open>The dictionary of an alert of our own.\<close>

fun severity_value :: "alert_severity \<Rightarrow> string" where
  "severity_value Sev_Critical = ''critical''"
| "severity_value Sev_High = ''high''"
| "severity_value Sev_Medium = ''medium''"
| "severity_value Sev_Low = ''low''"
| "severity_value Sev_Info = ''info''"

definition alert_dump :: "alert \<Rightarrow> pydict" where
  "alert_dump a =
     (let strs = (\<lambda>xs. PList (map PStr xs)); i = a_iocs a in
      [(''alert_id'', PStr (alert_id a)), (''title'', PStr (a_title a)),
       (''description'', PStr (a_description a)), (''severity'', PStr (severity_value (a_severity a))),
       (''occurred_at'', PStr (a_occurred_at a)), (''hostname'', PStr (a_hostname a)),
       (''host_ip'', PStr (a_host_ip a)), (''agent_id'', PStr (a_agent_id a)),
       (''rule_id'', PStr (a_rule_id a)), (''rule_name'', PStr (a_rule_name a)),
       (''category'', PStr (a_category a)), (''mitre_attack'', strs (a_mitre_attack a)),
       (''iocs'', PDict [(''ips'', strs (ioc_ips i)), (''domains'', strs (ioc_domains i)),
          (''hashes'', strs (ioc_hashes i)), (''urls'', strs (ioc_urls i)),
          (''emails'', strs (ioc_emails i)), (''users'', strs (ioc_users i))]),
       (''tags'', strs (a_tags a)), (''source_url'', PStr (a_source_url a))])"

lemma secagent_severity_roundtrip:
  "secagent_severity_of (py_lower (severity_value s)) = s"
  by (cases s) (simp_all add: secagent_severity_of_def py_simps)

lemma secagent_to_alert:
  assumes "alert_id a \<noteq> []" "a_title a \<noteq> []" "a_occurred_at a \<noteq> []"
  shows "\<exists>b. edr_normalize env (alert_dump a) ''secagent'' = Ok b \<and>
    alert_id b = ''secagent:'' @ alert_id a \<and> a_title b = a_title a \<and> a_description b = a_description a \<and>
    a_severity b = a_severity a \<and> a_occurred_at b = a_occurred_at a \<and> a_hostname b = a_hostname a \<and>
    a_host_ip b = a_host_ip a \<and> a_agent_id b = a_agent_id a \<and> a_rule_id b = a_rule_id a \<and>
    a_mitre_attack b = a_mitre_attack a \<and>
    a_iocs b = (a_iocs a)\<lparr>ioc_emails := [], ioc_users := []\<rparr> \<and>
    a_rule_name b = [] \<and> a_category b = [] \<and> a_tags b = [] \<and> a_source_url b = []"
proof -
  have s: "source_of ''secagent'' = Some Src_SecAgent" by (simp add: source_of_def all_sources_def)
  show ?thesis using assms
    by (simp add: edr_normalize_def s to_alert_def adapter_defs base_id_def str_or_PStr getn_def
        alert_dump_def Let_def base_occurred_at_def py_or_def make_ioc_def py_iter_or_PList
        secagent_severity_roundtrip empty_ioc_def)
qed

text \<open>The fields of an in-house alert that normalising its own dictionary does not keep.\<close>

lemma secagent_drops_fields:
  assumes "alert_id a \<noteq> []" "a_title a \<noteq> []" "a_occurred_at a \<noteq> []"
  shows "\<exists>b. edr_normalize env (alert_dump a) ''secagent'' = Ok b \<and>
    a_rule_name b = [] \<and> a_category b = [] \<and> a_tags b = [] \<and> a_source_url b = [] \<and>
    ioc_emails (a_iocs b) = [] \<and> ioc_users (a_iocs b) = []"
  using secagent_to_alert [OF assms, of env] by auto

text \<open>Normalising the dictionary of an in-house alert gives back its title, description,
  severity, time, host, agent, rule identifier, techniques and network and file indicators; the
  identifier gains the source's name.\<close>

theorem secagent_roundtrip:
  assumes "alert_id a \<noteq> []" "a_title a \<noteq> []" "a_occurred_at a \<noteq> []"
  shows "\<exists>b. edr_normalize env (alert_dump a) ''secagent'' = Ok b \<and>
    alert_id b = ''secagent:'' @ alert_id a \<and> a_title b = a_title a \<and> a_description b = a_description a \<and>
    a_severity b = a_severity a \<and> a_occurred_at b = a_occurred_at a \<and> a_hostname b = a_hostname a \<and>
    a_host_ip b = a_host_ip a \<and> a_agent_id b = a_agent_id a \<and> a_rule_id b = a_rule_id a \<and>
    a_mitre_attack b = a_mitre_attack a \<and> ioc_ips (a_iocs b) = ioc_ips (a_iocs a) \<and>
    ioc_domains (a_iocs b) = ioc_domains (a_iocs a) \<and> ioc_hashes (a_iocs b) = ioc_hashes (a_iocs a) \<and>
    ioc_urls (a_iocs b) = ioc_urls (a_iocs a)"
  using secagent_to_alert [OF assms, of env] by auto

theorem secagent_roundtrip_witness:
  "\<exists>b. edr_normalize toy_edr (alert_dump
      \<lparr>alert_id = ''1'', a_source = Src_SecAgent, a_title = ''t'', a_description = [], a_severity = Sev_High,
       a_status = St_New, a_occurred_at = ''now'', a_received_at = [], a_hostname = ''h'', a_host_ip = [],
       a_agent_id = [], a_rule_id = [], a_rule_name = [], a_category = [], a_mitre_attack = [],
       a_iocs = empty_ioc, a_tags = [], a_source_url = [], a_raw = []\<rparr>) ''secagent'' = Ok b \<and>
     alert_id b = ''secagent:1'' \<and> a_severity b = Sev_High \<and> a_hostname b = ''h''"
  using secagent_roundtrip [of
      "\<lparr>alert_id = ''1'', a_source = Src_SecAgent, a_title = ''t'', a_description = [], a_severity = Sev_High,
       a_status = St_New, a_occurred_at = ''now'', a_received_at = [], a_hostname = ''h'', a_host_ip = [],
       a_agent_id = [], a_rule_id = [], a_rule_name = [], a_category = [], a_mitre_attack = [],
       a_iocs = empty_ioc, a_tags = [], a_source_url = [], a_raw = []\<rparr>" toy_edr]
  by force

end
