(* ===== verification/Actions.thy ===== *)
theory Actions
  imports Prelude
begin

text \<open>
  Executing a response playbook: \<open>src/execution/actions\<close>, the dispatcher with its dry runs,
  duplicate check and rollback, and the four connectors. The cache server, the event index, the
  webhooks, the audit log and the clock are the argument \<open>act_env\<close>; one use of the cache server
  (open, command, close) is one call.
\<close>

section \<open>Contexts, results and the environment\<close>

record action_context =
  ctx_event_id :: string
  ctx_approval_id :: "string option"
  ctx_actor :: string
  ctx_dry_run :: bool

datatype action_status = Act_Success | Act_Failed | Act_Skipped | Act_DryRun

fun act_status_value :: "action_status \<Rightarrow> string" where
  "act_status_value Act_Success = ''success''"
| "act_status_value Act_Failed = ''failed''"
| "act_status_value Act_Skipped = ''skipped''"
| "act_status_value Act_DryRun = ''dry_run''"

record action_result =
  ar_op_id :: string
  ar_op_type :: pyval
  ar_status :: action_status
  ar_output :: string
  ar_error :: string
  ar_started_at :: string
  ar_finished_at :: string
  ar_op :: "pydict option"

record 'w act_env =
  ae_rt :: pyrt
  ae_sha256_hex :: "string \<Rightarrow> string"
  ae_now :: string
  ae_exn_str :: "exn \<Rightarrow> string"
  ae_webhooks :: "string list"
  ae_redis_exists :: "string \<Rightarrow> ('w, bool) io"
  ae_redis_set_ex :: "string \<Rightarrow> string \<Rightarrow> nat \<Rightarrow> ('w, unit) io"
  ae_redis_sadd :: "string \<Rightarrow> pyval \<Rightarrow> ('w, unit) io"
  ae_redis_expire :: "string \<Rightarrow> nat \<Rightarrow> ('w, unit) io"
  ae_redis_srem :: "string \<Rightarrow> pyval \<Rightarrow> ('w, unit) io"
  ae_es_tag :: "string \<Rightarrow> pyval \<Rightarrow> ('w, unit) io"
  ae_post :: "string \<Rightarrow> string \<Rightarrow> pydict \<Rightarrow> ('w, unit) io"
  ae_audit :: "string \<Rightarrow> action_context \<Rightarrow> pydict \<Rightarrow> ('w, unit) io"

text \<open>Constructing a result stamps it; a dry run is not finished.\<close>

definition make_result ::
    "'w act_env \<Rightarrow> string \<Rightarrow> pyval \<Rightarrow> action_status \<Rightarrow> string \<Rightarrow> string \<Rightarrow> pydict option \<Rightarrow> action_result" where
  "make_result env oid ot st output error op =
     \<lparr>ar_op_id = oid, ar_op_type = ot, ar_status = st, ar_output = output, ar_error = error,
      ar_started_at = ae_now env, ar_finished_at = (if st = Act_DryRun then [] else ae_now env),
      ar_op = op\<rparr>"

definition result_to_dict :: "action_result \<Rightarrow> pydict" where
  "result_to_dict r =
     [(''op_id'', PStr (ar_op_id r)), (''op_type'', ar_op_type r),
      (''status'', PStr (act_status_value (ar_status r))), (''output'', PStr (ar_output r)),
      (''error'', PStr (ar_error r)), (''started_at'', PStr (ar_started_at r)),
      (''finished_at'', PStr (ar_finished_at r))]"

definition op_id_of :: "'w act_env \<Rightarrow> string \<Rightarrow> pydict \<Rightarrow> string" where
  "op_id_of env event_id op =
     take 16 (ae_sha256_hex env
       (event_id @ '':'' @ py_str (ae_rt env) (dget op ''type'' (PStr [])) @ '':'' @
        py_str (ae_rt env) (dget op ''params'' (PDict []))))"

section \<open>Connectors\<close>

record 'w connector_impl =
  c_execute :: "pydict \<Rightarrow> action_context \<Rightarrow> ('w, action_result) io"
  c_rollback :: "pydict \<Rightarrow> action_context \<Rightarrow> ('w, unit) io"

definition param_get :: "pydict \<Rightarrow> string \<Rightarrow> pyval \<Rightarrow> pyval res" where
  "param_get op k dflt = vget (dget op ''params'' (PDict [])) k dflt"

subsection \<open>DNS blocklist\<close>

definition dns_execute :: "'w act_env \<Rightarrow> pydict \<Rightarrow> action_context \<Rightarrow> ('w, action_result) io" where
  "dns_execute env op ctx =
     (let oid = op_id_of env (ctx_event_id ctx) op; ot = PStr ''dns_block'' in
      io_bind (io_lift (param_get op ''domain'' (PStr []))) (\<lambda>domain.
      if \<not> truthy domain
      then io_return (make_result env oid ot Act_Skipped ''No domain specified'' [] None)
      else io_try
        (io_bind (ae_redis_sadd env ''dns:blocklist'' domain) (\<lambda>_.
         io_bind (ae_redis_expire env ''dns:blocklist'' 86400) (\<lambda>_.
         io_return (make_result env oid ot Act_Success
           (''Added '' @ [CHR 0x27] @ py_str (ae_rt env) domain @ [CHR 0x27] @ '' to DNS blocklist'') [] None))))
        (\<lambda>e. io_return (make_result env oid ot Act_Failed [] (ae_exn_str env e) None))))"

definition dns_rollback :: "'w act_env \<Rightarrow> pydict \<Rightarrow> action_context \<Rightarrow> ('w, unit) io" where
  "dns_rollback env op ctx =
     io_bind (io_lift (param_get op ''domain'' (PStr []))) (\<lambda>domain.
     if truthy domain
     then io_try (ae_redis_srem env ''dns:blocklist'' domain) (\<lambda>e. io_return ())
     else io_return ())"

subsection \<open>Notifications\<close>

fun post_all :: "'w act_env \<Rightarrow> string \<Rightarrow> pydict \<Rightarrow> string list \<Rightarrow> bool \<Rightarrow> ('w, bool) io" where
  "post_all env event_id op [] sent = io_return sent"
| "post_all env event_id op (webhook # hooks) sent =
     io_bind (io_try (io_bind (ae_post env webhook event_id op) (\<lambda>_. io_return True))
                (\<lambda>e. io_return sent))
       (\<lambda>s. post_all env event_id op hooks s)"

definition notify_execute :: "'w act_env \<Rightarrow> pydict \<Rightarrow> action_context \<Rightarrow> ('w, action_result) io" where
  "notify_execute env op ctx =
     (let oid = op_id_of env (ctx_event_id ctx) op; ot = dget op ''type'' (PStr ''notify'') in
      io_bind (post_all env (ctx_event_id ctx) op (filter (\<lambda>h. h \<noteq> []) (ae_webhooks env)) False) (\<lambda>sent.
      io_return
        (if sent then make_result env oid ot Act_Success ''Webhook notification sent'' [] None
         else make_result env oid ot Act_Skipped
           ''No webhook configured (set wechat_work_webhook or dingtalk_webhook in .env)'' [] None)))"

subsection \<open>Tags in the event index\<close>

definition siem_execute :: "'w act_env \<Rightarrow> pydict \<Rightarrow> action_context \<Rightarrow> ('w, action_result) io" where
  "siem_execute env op ctx =
     (let oid = op_id_of env (ctx_event_id ctx) op; ot = dget op ''type'' (PStr ''siem_tag'') in
      io_bind (io_lift (param_get op ''channel'' (PStr ''security''))) (\<lambda>channel.
      io_bind (io_lift (param_get op ''tag'' channel)) (\<lambda>tag.
      io_try
        (io_bind (ae_es_tag env (ctx_event_id ctx) tag) (\<lambda>_.
         io_return (make_result env oid ot Act_Success
           (''Tagged event with '' @ [CHR 0x27] @ py_str (ae_rt env) tag @ [CHR 0x27]) [] None)))
        (\<lambda>e. io_return (make_result env oid ot Act_Failed [] (ae_exn_str env e) None)))))"

subsection \<open>The simulator\<close>

definition simulator_execute :: "'w act_env \<Rightarrow> pydict \<Rightarrow> action_context \<Rightarrow> ('w, action_result) io" where
  "simulator_execute env op ctx =
     io_return (make_result env (op_id_of env (ctx_event_id ctx) op)
       (dget op ''type'' (PStr ''unknown''))
       (if ctx_dry_run ctx then Act_DryRun else Act_Success)
       (''Simulated '' @ py_str (ae_rt env) (dget op ''type'' PNone)) [] None)"

text \<open>Only the blocklist can be rolled back; the other connectors record the request and stop.\<close>

definition no_rollback :: "pydict \<Rightarrow> action_context \<Rightarrow> ('w, unit) io" where
  "no_rollback op ctx = io_return ()"

section \<open>The dispatcher\<close>

type_synonym 'w conn_registry = "(string \<times> 'w connector_impl) list"

definition register :: "'w connector_impl \<Rightarrow> string list \<Rightarrow> 'w conn_registry \<Rightarrow> 'w conn_registry" where
  "register c types reg = fold (\<lambda>t r. AList.update t c r) types reg"

definition builtin_registry :: "'w act_env \<Rightarrow> 'w conn_registry" where
  "builtin_registry env =
     register \<lparr>c_execute = dns_execute env, c_rollback = dns_rollback env\<rparr> [''dns_block'']
     (register \<lparr>c_execute = siem_execute env, c_rollback = no_rollback\<rparr> [''siem_tag'', ''tag'']
     (register \<lparr>c_execute = notify_execute env, c_rollback = no_rollback\<rparr> [''notify'', ''notify_analyst'']
     (register \<lparr>c_execute = simulator_execute env, c_rollback = no_rollback\<rparr>
        [''firewall_block'', ''isolate_host'', ''terminate_process'', ''quarantine_file'', ''edr_policy'']
        [])))"

text \<open>\<open>registry.get(op_type)\<close>: a list or a dictionary cannot be a key.\<close>

definition registry_get :: "'w conn_registry \<Rightarrow> pyval \<Rightarrow> 'w connector_impl option res" where
  "registry_get reg ot = (case ot of
     PStr t \<Rightarrow> Ok (map_of reg t)
   | PList _ \<Rightarrow> Raise TypeError
   | PDict _ \<Rightarrow> Raise TypeError
   | _ \<Rightarrow> Ok None)"

definition done_key :: "string \<Rightarrow> string" where
  "done_key oid = ''action:done:'' @ oid"

definition is_done :: "'w act_env \<Rightarrow> string \<Rightarrow> action_context \<Rightarrow> ('w, bool) io" where
  "is_done env oid ctx =
     (if ctx_dry_run ctx then io_return False
      else io_try (ae_redis_exists env (done_key oid)) (\<lambda>e. io_return False))"

definition mark_done :: "'w act_env \<Rightarrow> string \<Rightarrow> action_context \<Rightarrow> ('w, unit) io" where
  "mark_done env oid ctx =
     (if ctx_dry_run ctx then io_return ()
      else io_try (ae_redis_set_ex env (done_key oid) ''1'' 86400) (\<lambda>e. io_return ()))"

fun rollback_loop ::
    "'w conn_registry \<Rightarrow> action_context \<Rightarrow> action_result list \<Rightarrow> ('w, unit) io" where
  "rollback_loop reg ctx [] = io_return ()"
| "rollback_loop reg ctx (r # rs) =
     (if ar_status r \<noteq> Act_Success then rollback_loop reg ctx rs
      else
        io_bind (io_lift (registry_get reg (ar_op_type r))) (\<lambda>c.
        case c of
          None \<Rightarrow> rollback_loop reg ctx rs
        | Some conn \<Rightarrow>
            let op = (case ar_op r of
                        Some o1 \<Rightarrow> if o1 \<noteq> [] then o1 else [(''type'', ar_op_type r)]
                      | None \<Rightarrow> [(''type'', ar_op_type r)])
            in io_bind (io_try (c_rollback conn op ctx) (\<lambda>e. io_return ()))
                 (\<lambda>_. rollback_loop reg ctx rs)))"

definition rollback :: "'w conn_registry \<Rightarrow> action_context \<Rightarrow> action_result list \<Rightarrow> ('w, unit) io" where
  "rollback reg ctx results = rollback_loop reg ctx (rev results)"

text \<open>Running one operation that is neither a duplicate, unknown nor a dry run.\<close>

definition run_op ::
    "'w act_env \<Rightarrow> 'w connector_impl \<Rightarrow> action_context \<Rightarrow> string \<Rightarrow> pyval \<Rightarrow> pydict \<Rightarrow>
     ('w, action_result + exn) io" where
  "run_op env conn ctx oid ot op =
     io_bind (ae_audit env ''execute_op_start'' ctx
       [(''op_type'', ot), (''op_id'', PStr oid)]) (\<lambda>_.
     io_try
       (io_bind (c_execute conn op ctx) (\<lambda>result.
        io_bind (mark_done env oid ctx) (\<lambda>_.
        io_return (Inl (result\<lparr>ar_op := Some op\<rparr>)))))
       (\<lambda>e. io_return (Inr e)))"

fun run_ops ::
    "'w act_env \<Rightarrow> 'w conn_registry \<Rightarrow> action_context \<Rightarrow> action_result list \<Rightarrow> pyval list \<Rightarrow>
     ('w, action_result list) io" where
  "run_ops env reg ctx results [] = io_return results"
| "run_ops env reg ctx results (opv # ops) =
     (case opv of
        PDict op \<Rightarrow>
          (let ot = dget op ''type'' (PStr []); oid = op_id_of env (ctx_event_id ctx) op;
               next = (\<lambda>r. run_ops env reg ctx (results @ [r]) ops)
           in io_bind (io_lift (registry_get reg ot)) (\<lambda>connector.
              io_bind (is_done env oid ctx) (\<lambda>done1.
              if done1 then
                next (make_result env oid ot Act_Skipped ''Duplicate operation (already executed)'' [] (Some op))
              else case connector of
                None \<Rightarrow>
                  next (make_result env oid ot Act_Skipped
                    (''No connector for '' @ py_str (ae_rt env) ot) [] (Some op))
              | Some conn \<Rightarrow>
                  if ctx_dry_run ctx then
                    io_bind (ae_audit env ''execute_op_dry_run'' ctx
                      [(''op_type'', ot), (''op_id'', PStr oid), (''params'', dget op ''params'' (PDict []))]) (\<lambda>_.
                    next (make_result env oid ot Act_DryRun
                      (''Dry-run: would execute '' @ py_str (ae_rt env) ot) [] (Some op)))
                  else
                    io_bind (run_op env conn ctx oid ot op) (\<lambda>out.
                    case out of
                      Inl result \<Rightarrow> next result
                    | Inr e \<Rightarrow>
                        io_bind (ae_audit env ''execute_op_error'' ctx
                          [(''op_type'', ot), (''op_id'', PStr oid), (''error'', PStr (ae_exn_str env e))]) (\<lambda>_.
                        let results' = results @ [make_result env oid ot Act_Failed [] (ae_exn_str env e) (Some op)]
                        in io_bind (rollback reg ctx results') (\<lambda>_. io_return results'))))))
      | _ \<Rightarrow> io_raise AttributeError)"

definition execute_playbook ::
    "'w act_env \<Rightarrow> 'w conn_registry \<Rightarrow> pydict \<Rightarrow> action_context \<Rightarrow> ('w, pydict list) io" where
  "execute_playbook env reg playbook ctx =
     io_bind (io_lift (py_iter (dget playbook ''operations'' (PList [])))) (\<lambda>ops.
     io_bind (run_ops env reg ctx [] ops) (\<lambda>results. io_return (map result_to_dict results)))"

section \<open>The contract of a connector\<close>

text \<open>
  A connector reports the dispatcher's identifier of the operation, and an operation whose
  parameters are a dictionary makes it raise nothing but a cancellation.
\<close>

definition params_ok :: "pydict \<Rightarrow> bool" where
  "params_ok op \<longleftrightarrow> (case dget op ''params'' (PDict []) of PDict _ \<Rightarrow> True | _ \<Rightarrow> False)"

lemma param_get_ok: "params_ok op \<Longrightarrow> \<exists>v. param_get op k dflt = Ok v"
  by (auto simp: params_ok_def param_get_def split: pyval.splits)

lemma io_try_only_cancelled:
  "(\<And>e w e' w'. h e w = (Inl e', w') \<Longrightarrow> e' = CancelledError) \<Longrightarrow>
   io_try m h w = (Inl e, w') \<Longrightarrow> e = CancelledError"
  by (auto simp: io_try_def is_Exception_def split: prod.splits sum.splits if_splits)

lemma io_try_return_cancelled: "io_try m (\<lambda>e. io_return (g e)) w = (Inl e, w') \<Longrightarrow> e = CancelledError"
  by (rule io_try_only_cancelled [of "\<lambda>e. io_return (g e)" m w e w']) simp_all

lemma mark_done_cancelled: "mark_done env oid ctx w = (Inl e, w') \<Longrightarrow> e = CancelledError"
  by (auto simp: mark_done_def dest: io_try_return_cancelled split: if_splits)

lemma post_all_cancelled: "post_all env eid op hooks sent w = (Inl e, w') \<Longrightarrow> e = CancelledError"
proof (induction hooks arbitrary: sent w)
  case (Cons h hooks)
  let ?m = "io_try (io_bind (ae_post env h eid op) (\<lambda>_. io_return True)) (\<lambda>e. io_return sent)"
  obtain out w1 where m: "?m w = (out, w1)" by fastforce
  show ?case
  proof (cases out)
    case (Inl e1)
    then show ?thesis using m Cons.prems io_try_return_cancelled [of _ "\<lambda>_. sent" w e1 w1] by simp
  next
    case (Inr s)
    then show ?thesis using m Cons by simp
  qed
qed simp

locale connector =
  fixes ident :: "string \<Rightarrow> pydict \<Rightarrow> string"
    and execute :: "pydict \<Rightarrow> action_context \<Rightarrow> ('w, action_result) io"
    and undo :: "pydict \<Rightarrow> action_context \<Rightarrow> ('w, unit) io"
  assumes execute_ident:
      "execute op ctx w = (Inr r, w') \<Longrightarrow> ar_op_id r = ident (ctx_event_id ctx) op"
    and execute_cancelled:
      "params_ok op \<Longrightarrow> execute op ctx w = (Inl e, w') \<Longrightarrow> e = CancelledError"
    and undo_cancelled: "params_ok op \<Longrightarrow> undo op ctx w = (Inl e, w') \<Longrightarrow> e = CancelledError"
begin

lemma run_op_reports:
  assumes "params_ok op"
    and "run_op env \<lparr>c_execute = execute, c_rollback = undo\<rparr> ctx oid ot op w = (Inr out, w')"
  shows "\<exists>r. out = Inl r \<and> ar_op_id r = ident (ctx_event_id ctx) op \<and> ar_op r = Some op"
proof -
  from assms(2) obtain w1 where try1: "io_try
      (io_bind (execute op ctx) (\<lambda>result. io_bind (mark_done env oid ctx) (\<lambda>_.
        io_return (Inl (result\<lparr>ar_op := Some op\<rparr>)))))
      (\<lambda>e. io_return (Inr e)) w1 = (Inr out, w')"
    by (auto simp: run_op_def io_bind_Inr)
  obtain x w2 where ex: "execute op ctx w1 = (x, w2)" by fastforce
  show ?thesis
  proof (cases x)
    case (Inl e)
    then have "e = CancelledError" using execute_cancelled [OF assms(1)] ex by blast
    then show ?thesis using try1 ex Inl by (simp add: io_try_def is_Exception_def)
  next
    case (Inr r)
    obtain y w3 where md: "mark_done env oid ctx w2 = (y, w3)" by fastforce
    show ?thesis
    proof (cases y)
      case (Inl e)
      then have "e = CancelledError" using md mark_done_cancelled [of env oid ctx w2 e w3] by simp
      then show ?thesis using try1 ex Inr md Inl by (simp add: io_try_def is_Exception_def)
    next
      case (Inr u)
      then show ?thesis using try1 ex \<open>x = Inr r\<close> md execute_ident [of op ctx w1 r w2]
        by (auto simp: io_try_def)
    qed
  qed
qed

end

lemma make_result_id [simp]: "ar_op_id (make_result env oid ot st out err op) = oid"
  by (simp add: make_result_def)

interpretation simulator: connector "op_id_of env" "simulator_execute env" no_rollback for env
  by unfold_locales (auto simp: simulator_execute_def no_rollback_def)

interpretation notify: connector "op_id_of env" "notify_execute env" no_rollback for env
proof
  show "ar_op_id r = op_id_of env (ctx_event_id ctx) op"
    if "notify_execute env op ctx w = (Inr r, w')" for op ctx w r w'
    using that by (auto simp: notify_execute_def Let_def io_bind_Inr)
  show "e = CancelledError" if "notify_execute env op ctx w = (Inl e, w')" for op ctx w e w'
    using that post_all_cancelled
    by (fastforce simp: notify_execute_def Let_def io_bind_def split: prod.splits sum.splits)
qed (simp add: no_rollback_def)

interpretation siem: connector "op_id_of env" "siem_execute env" no_rollback for env
proof
  show "ar_op_id r = op_id_of env (ctx_event_id ctx) op"
    if "siem_execute env op ctx w = (Inr r, w')" for op ctx w r w'
    using that by (auto simp: siem_execute_def Let_def io_bind_Inr io_try_Inr split: if_splits)
  show "e = CancelledError" if ok: "params_ok op" and run: "siem_execute env op ctx w = (Inl e, w')" for op ctx w e w'
  proof -
    obtain ch tag where "param_get op ''channel'' (PStr ''security'') = Ok ch" "param_get op ''tag'' ch = Ok tag"
      using param_get_ok [OF ok] by blast
    then show ?thesis using run by (auto simp: siem_execute_def Let_def dest!: io_try_return_cancelled)
  qed
qed (simp add: no_rollback_def)

interpretation dns: connector "op_id_of env" "dns_execute env" "dns_rollback env" for env
proof
  show "ar_op_id r = op_id_of env (ctx_event_id ctx) op"
    if "dns_execute env op ctx w = (Inr r, w')" for op ctx w r w'
    using that by (auto simp: dns_execute_def Let_def io_bind_Inr io_try_Inr split: if_splits)
  show "e = CancelledError" if ok: "params_ok op" and run: "dns_execute env op ctx w = (Inl e, w')" for op ctx w e w'
  proof -
    obtain d where "param_get op ''domain'' (PStr []) = Ok d" using param_get_ok [OF ok] by blast
    then show ?thesis using run
      by (auto simp: dns_execute_def Let_def dest!: io_try_return_cancelled split: if_splits)
  qed
  show "e = CancelledError" if ok: "params_ok op" and run: "dns_rollback env op ctx w = (Inl e, w')" for op ctx w e w'
  proof -
    obtain d where "param_get op ''domain'' (PStr []) = Ok d" using param_get_ok [OF ok] by blast
    then show ?thesis using run
      by (auto simp: dns_rollback_def dest!: io_try_return_cancelled split: if_splits)
  qed
qed

lemma builtin_connectors:
  "map_of (builtin_registry env) t = Some c \<Longrightarrow>
   c \<in> {\<lparr>c_execute = simulator_execute env, c_rollback = no_rollback\<rparr>,
        \<lparr>c_execute = notify_execute env, c_rollback = no_rollback\<rparr>,
        \<lparr>c_execute = siem_execute env, c_rollback = no_rollback\<rparr>,
        \<lparr>c_execute = dns_execute env, c_rollback = dns_rollback env\<rparr>}"
  by (auto simp: builtin_registry_def register_def update_conv' split: if_splits)

lemma builtin_run_op:
  assumes "registry_get (builtin_registry env) ot = Ok (Some c)" "params_ok op"
    "run_op env c ctx oid ot' op w = (Inr out, w')"
  shows "\<exists>r. out = Inl r \<and> ar_op_id r = op_id_of env (ctx_event_id ctx) op \<and> ar_op r = Some op"
proof -
  obtain t where "map_of (builtin_registry env) t = Some c"
    using assms(1) by (auto simp: registry_get_def split: pyval.splits)
  from builtin_connectors [OF this] show ?thesis
    using assms(2,3) simulator.run_op_reports [of op env env ctx oid ot' w out w']
      notify.run_op_reports [of op env env ctx oid ot' w out w']
      siem.run_op_reports [of op env env ctx oid ot' w out w']
      dns.run_op_reports [of op env env ctx oid ot' w out w'] by blast
qed

text \<open>The result reported for one operation.\<close>

definition reports :: "'w act_env \<Rightarrow> action_context \<Rightarrow> pyval \<Rightarrow> action_result \<Rightarrow> bool" where
  "reports env ctx opv r \<longleftrightarrow>
     (\<exists>op. opv = PDict op \<and> ar_op r = Some op \<and> ar_op_id r = op_id_of env (ctx_event_id ctx) op)"

lemma make_result_op [simp]: "ar_op (make_result env oid ot st out err op) = op"
  by (simp add: make_result_def)

lemma run_ops_reports:
  assumes "\<forall>opv \<in> set ops. \<exists>op. opv = PDict op \<and> params_ok op"
    and "run_ops env (builtin_registry env) ctx rs ops w = (Inr out, w')"
  shows "\<exists>new. out = rs @ new \<and> list_all2 (reports env ctx) ops new"
  using assms
proof (induction ops arbitrary: rs w)
  case (Cons opv ops)
  obtain op where op: "opv = PDict op" "params_ok op" using Cons.prems(1) by auto
  let ?ot = "dget op ''type'' (PStr [])" and ?oid = "op_id_of env (ctx_event_id ctx) op"
  have step: "\<exists>new. out = rs @ new \<and> list_all2 (reports env ctx) (opv # ops) new"
    if r: "reports env ctx opv r" and "run_ops env (builtin_registry env) ctx (rs @ [r]) ops w1 = (Inr out, w')"
    for r w1
  proof -
    have "\<exists>new. out = (rs @ [r]) @ new \<and> list_all2 (reports env ctx) ops new"
      using Cons.prems(1) that(2) by (intro Cons.IH) auto
    then obtain new where "out = rs @ r # new" "list_all2 (reports env ctx) ops new" by auto
    with r show ?thesis by auto
  qed
  have rep: "reports env ctx opv (make_result env ?oid ot st o1 e1 (Some op))" for ot st o1 e1
    using op by (simp add: reports_def)
  from Cons.prems(2) obtain c dn w1 where c: "registry_get (builtin_registry env) ?ot = Ok c"
    and dn: "is_done env ?oid ctx w = (Inr dn, w1)"
    unfolding op(1) by (auto simp: Let_def io_bind_Inr)
  note run = Cons.prems(2) [unfolded op(1)] c dn
  show ?case
  proof (cases dn)
    case True
    with run show ?thesis by (auto simp: Let_def intro: step rep)
  next
    case False
    show ?thesis
    proof (cases c)
      case None
      with run False show ?thesis by (auto simp: Let_def intro: step rep)
    next
      case (Some conn)
      show ?thesis
      proof (cases "ctx_dry_run ctx")
        case True
        with run False Some show ?thesis by (auto simp: Let_def io_bind_Inr intro: step rep)
      next
        case nd: False
        from run False Some nd obtain x w2 where x: "run_op env conn ctx ?oid ?ot op w1 = (Inr x, w2)"
          by (auto simp: Let_def io_bind_Inr)
        from builtin_run_op [OF c [unfolded Some] op(2) x] obtain r where r: "x = Inl r"
          "ar_op_id r = ?oid" "ar_op r = Some op" by blast
        with run False Some nd x have "run_ops env (builtin_registry env) ctx (rs @ [r]) ops w2 = (Inr out, w')"
          by (simp add: Let_def)
        moreover have "reports env ctx opv r" using r op by (simp add: reports_def)
        ultimately show ?thesis by (intro step)
      qed
    qed
  qed
qed simp

section \<open>A playbook always ends\<close>

text \<open>No outside call is cancelled, and the audit log accepts every entry.\<close>

definition quiet :: "'w act_env \<Rightarrow> bool" where
  "quiet env \<longleftrightarrow>
     (\<forall>k. uncancelled (ae_redis_exists env k)) \<and> (\<forall>k v t. uncancelled (ae_redis_set_ex env k v t)) \<and>
     (\<forall>k v. uncancelled (ae_redis_sadd env k v)) \<and> (\<forall>k t. uncancelled (ae_redis_expire env k t)) \<and>
     (\<forall>e t. uncancelled (ae_es_tag env e t)) \<and> (\<forall>h e op. uncancelled (ae_post env h e op)) \<and>
     (\<forall>a ctx d. returns (ae_audit env a ctx d))"

lemma post_all_returns: "quiet env \<Longrightarrow> returns (post_all env eid op hooks sent)"
  by (induction hooks arbitrary: sent) (auto simp: quiet_def intro!: io_intros)

lemma is_done_returns: "quiet env \<Longrightarrow> returns (is_done env oid ctx)"
  by (auto simp: is_done_def quiet_def intro!: io_intros)

lemma mark_done_returns: "quiet env \<Longrightarrow> returns (mark_done env oid ctx)"
  by (auto simp: mark_done_def quiet_def intro!: io_intros)

lemma io_bind_lift [simp]: "io_bind (io_lift (Inr x)) f = f x"
  by (simp add: fun_eq_iff)

lemma builtin_execute_returns:
  assumes "quiet env" "params_ok op" "map_of (builtin_registry env) t = Some c"
  shows "uncancelled (c_execute c op ctx)"
proof -
  obtain d ch tag where p: "param_get op ''domain'' (PStr []) = Ok d"
      "param_get op ''channel'' (PStr ''security'') = Ok ch" "param_get op ''tag'' ch = Ok tag"
    using param_get_ok [OF assms(2)] by metis
  have "uncancelled (simulator_execute env op ctx)" "uncancelled (notify_execute env op ctx)"
    "uncancelled (siem_execute env op ctx)" "uncancelled (dns_execute env op ctx)"
    using assms(1) post_all_returns [OF assms(1)]
    by (auto simp: simulator_execute_def notify_execute_def siem_execute_def dns_execute_def Let_def p
        quiet_def intro!: io_intros intro: returns_uncancelled)
  then show ?thesis using builtin_connectors [OF assms(3)] by auto
qed

definition op_ok :: "pyval \<Rightarrow> bool" where
  "op_ok opv \<longleftrightarrow> (case opv of PDict op \<Rightarrow> params_ok op \<and>
     (case dget op ''type'' (PStr []) of PStr _ \<Rightarrow> True | _ \<Rightarrow> False) | _ \<Rightarrow> False)"

lemma op_okE:
  assumes "op_ok opv"
  obtains op t where "opv = PDict op" "params_ok op" "dget op ''type'' (PStr []) = PStr t"
  using assms by (auto simp: op_ok_def split: pyval.splits)

lemma run_ops_returns:
  assumes "quiet env" "\<forall>opv \<in> set ops. op_ok opv"
  shows "returns (run_ops env (builtin_registry env) ctx rs ops)"
  using assms(2)
proof (induction ops arbitrary: rs)
  case (Cons opv ops)
  obtain op t where op: "opv = PDict op" "params_ok op" "dget op ''type'' (PStr []) = PStr t"
    using Cons.prems by (auto elim: op_okE)
  have IH: "returns (run_ops env (builtin_registry env) ctx rs' ops)" for rs'
    using Cons by simp
  have audit: "returns (ae_audit env a ctx d)" for a d using assms(1) by (simp add: quiet_def)
  have "\<exists>out w'. run_ops env (builtin_registry env) ctx rs (opv # ops) w = (Inr out, w')" for w
  proof -
    let ?reg = "builtin_registry env" and ?oid = "op_id_of env (ctx_event_id ctx) op"
    obtain dn w1 where dn: "is_done env ?oid ctx w = (Inr dn, w1)"
      using is_done_returns [OF assms(1)] by (rule returnsE)
    show ?thesis
    proof (cases "map_of ?reg t")
      case None
      then show ?thesis using dn op IH by (auto simp: Let_def registry_get_def returns_def)
    next
      case (Some c)
      have "returns (run_op env c ctx ?oid (PStr t) op)"
        unfolding run_op_def
        using audit builtin_execute_returns [OF assms(1) op(2) Some] mark_done_returns [OF assms(1)]
        by (intro io_intros) (auto intro: returns_uncancelled)
      then obtain x w2 where x: "run_op env c ctx ?oid (PStr t) op w1 = (Inr x, w2)" by (rule returnsE)
      obtain r where r: "x = Inl r"
        using builtin_run_op [of env "PStr t" c op ctx ?oid "PStr t" w1 x w2] Some op(2) x
        by (auto simp: registry_get_def)
      obtain y w3 where y: "ae_audit env ''execute_op_dry_run'' ctx
          [(''op_type'', PStr t), (''op_id'', PStr ?oid), (''params'', dget op ''params'' (PDict []))] w1 = (Inr y, w3)"
        using audit by (rule returnsE)
      show ?thesis using dn op IH Some x r y
        by (auto simp: Let_def registry_get_def returns_def)
    qed
  qed
  then show ?case by (simp add: returns_def)
qed (auto intro: io_intros)

lemma rollback_loop_effect:
  assumes "\<And>r. r \<in> set rs \<Longrightarrow> ar_status r = Act_Success \<Longrightarrow>
     \<exists>op c. ar_op r = Some op \<and> op \<noteq> [] \<and> registry_get reg (ar_op_type r) = Ok (Some c) \<and>
       (\<forall>w. snd (c_rollback c op ctx w) = undo op w) \<and> uncancelled (c_rollback c op ctx)"
  shows "rollback_loop reg ctx rs w =
    (Inr (), fold (\<lambda>r. undo (the (ar_op r))) (filter (\<lambda>r. ar_status r = Act_Success) rs) w)"
  using assms
proof (induction rs arbitrary: w)
  case (Cons r rs)
  have IH: "rollback_loop reg ctx rs w =
    (Inr (), fold (\<lambda>r. undo (the (ar_op r))) (filter (\<lambda>r. ar_status r = Act_Success) rs) w)" for w
    using Cons by auto
  show ?case
  proof (cases "ar_status r = Act_Success")
    case True
    obtain op c where c: "ar_op r = Some op" "op \<noteq> []" "registry_get reg (ar_op_type r) = Ok (Some c)"
      "\<forall>w. snd (c_rollback c op ctx w) = undo op w" "uncancelled (c_rollback c op ctx)"
      using Cons.prems [of r] True by auto
    obtain out w1 where o1: "c_rollback c op ctx w = (out, w1)" by fastforce
    then have "w1 = undo op w" "out \<noteq> Inl CancelledError"
      using c(4,5) unfolding uncancelled_def by (metis snd_conv, metis fst_conv)
    then show ?thesis using True c(1-3) o1 IH
      by (cases out) (simp_all add: Let_def io_bind_def io_try_def is_Exception_def)
  qed (simp add: IH)
qed simp

text \<open>
  The blocklist connector reports a failed write as a result, not as an exception, so the
  dispatcher marks the operation as done: it is not retried, and nothing is rolled back.
\<close>

lemma failed_result_marked_done:
  assumes "params_ok op" "param_get op ''domain'' (PStr []) = Ok (PStr dmn)" "dmn \<noteq> []"
    and "\<not> ctx_dry_run ctx" "is_Exception e"
    and "ae_audit env ''execute_op_start'' ctx [(''op_type'', ot), (''op_id'', PStr oid)] w = (Inr (), w1)"
    and "ae_redis_sadd env ''dns:blocklist'' (PStr dmn) w1 = (Inl e, w2)"
    and "ae_redis_set_ex env (done_key oid) ''1'' 86400 w2 = (Inr (), w3)"
  shows "\<exists>r. run_op env \<lparr>c_execute = dns_execute env, c_rollback = dns_rollback env\<rparr> ctx oid ot op w =
      (Inr (Inl r), w3) \<and> ar_status r = Act_Failed"
  using assms
  by (simp add: run_op_def dns_execute_def Let_def mark_done_def io_bind_def io_try_def make_result_def)

section \<open>Properties\<close>

text \<open>With the built-in connectors a playbook whose operations have a text type and
  dictionary parameters always runs to its end: it returns one result for each operation, in
  order, under that operation's identifier. In particular no connector failure makes it stop.\<close>

theorem playbook_reports_every_operation:
  assumes "quiet env" "dget playbook ''operations'' (PList []) = PList ops" "\<forall>opv \<in> set ops. op_ok opv"
  shows "\<exists>results w'. execute_playbook env (builtin_registry env) playbook ctx w =
      (Ok (map result_to_dict results), w') \<and> list_all2 (reports env ctx) ops results"
proof -
  obtain rs w' where r: "run_ops env (builtin_registry env) ctx [] ops w = (Inr rs, w')"
    using run_ops_returns [OF assms(1,3)] by (rule returnsE)
  have "\<forall>opv \<in> set ops. \<exists>op. opv = PDict op \<and> params_ok op" using assms(3) by (auto elim: op_okE)
  from run_ops_reports [OF this r] r assms(2) show ?thesis
    by (intro exI [of _ rs] exI [of _ w']) (simp add: execute_playbook_def)
qed

definition toy_env :: "nat act_env" where
  "toy_env = \<lparr>ae_rt = toy_rt, ae_sha256_hex = (\<lambda>s. s),
     ae_now = [], ae_exn_str = (\<lambda>_. []), ae_webhooks = [], ae_redis_exists = (\<lambda>_. io_return False),
     ae_redis_set_ex = (\<lambda>_ _ _ w. (Inr (), w + 1)), ae_redis_sadd = (\<lambda>_ _. io_raise (ExtError ''down'')),
     ae_redis_expire = (\<lambda>_ _. io_return ()), ae_redis_srem = (\<lambda>_ _. io_return ()),
     ae_es_tag = (\<lambda>_ _. io_return ()), ae_post = (\<lambda>_ _ _. io_return ()),
     ae_audit = (\<lambda>_ _ _. io_return ())\<rparr>"

definition toy_ctx :: action_context where
  "toy_ctx = \<lparr>ctx_event_id = [], ctx_approval_id = None, ctx_actor = [], ctx_dry_run = False\<rparr>"

lemma toy_quiet: "quiet toy_env"
  by (simp add: quiet_def toy_env_def uncancelled_def returns_def)

theorem playbook_reports_every_operation_witness:
  "\<exists>results w'. execute_playbook toy_env (builtin_registry toy_env)
      [(''operations'', PList [PDict [(''type'', PStr ''dns_block''),
         (''params'', PDict [(''domain'', PStr ''x.y'')])]])] toy_ctx 0 =
      (Ok (map result_to_dict results), w') \<and> length results = 1"
proof -
  let ?op = "PDict [(''type'', PStr ''dns_block''), (''params'', PDict [(''domain'', PStr ''x.y'')])]"
  have "\<exists>results w'. execute_playbook toy_env (builtin_registry toy_env) [(''operations'', PList [?op])] toy_ctx 0 =
      (Ok (map result_to_dict results), w') \<and> list_all2 (reports toy_env toy_ctx) [?op] results"
    by (rule playbook_reports_every_operation [OF toy_quiet])
      (simp_all add: op_ok_def params_ok_def)
  then obtain results w' where "execute_playbook toy_env (builtin_registry toy_env)
      [(''operations'', PList [?op])] toy_ctx 0 = (Ok (map result_to_dict results), w')"
    "length results = 1" using list_all2_lengthD by fastforce
  then show ?thesis by blast
qed

text \<open>C19: in a dry run nothing is executed: the outcome and every effect are the same for any
  connectors registered under the same types, whatever they do.\<close>

theorem dry_run_inert:
  assumes "ctx_dry_run ctx" "\<And>t. (map_of reg t = None) = (map_of reg' t = None)"
  shows "execute_playbook env reg playbook ctx w = execute_playbook env reg' playbook ctx w"
proof -
  have "run_ops env reg ctx rs ops = run_ops env reg' ctx rs ops" for rs ops
  proof (induction ops arbitrary: rs)
    case (Cons opv ops)
    show ?case
    proof (cases opv)
      case (PDict op)
      show ?thesis
        using assms(2) [of "case dget op ''type'' (PStr []) of PStr t \<Rightarrow> t"] assms(1) Cons.IH
        by (cases "dget op ''type'' (PStr [])")
          (auto simp: PDict Let_def registry_get_def is_done_def split: option.splits)
    qed simp_all
  qed simp
  then show ?thesis by (simp add: execute_playbook_def)
qed

theorem dry_run_inert_witness:
  "execute_playbook toy_env [(''tag'', \<lparr>c_execute = (\<lambda>_ _. io_raise ValueError), c_rollback = no_rollback\<rparr>)]
      [(''operations'', PList [PDict [(''type'', PStr ''tag'')]])]
      \<lparr>ctx_event_id = [], ctx_approval_id = None, ctx_actor = [], ctx_dry_run = True\<rparr> 0 =
   execute_playbook toy_env [(''tag'', \<lparr>c_execute = siem_execute toy_env, c_rollback = no_rollback\<rparr>)]
      [(''operations'', PList [PDict [(''type'', PStr ''tag'')]])]
      \<lparr>ctx_event_id = [], ctx_approval_id = None, ctx_actor = [], ctx_dry_run = True\<rparr> 0"
  by (rule dry_run_inert) simp_all



end
