(* ===== verification/Approvals.thy ===== *)
theory Approvals
  imports Prelude
begin

text \<open>
  The approval queue, \<open>src/orchestration/subgraphs/responder/approval_store.py\<close>. The two tables are
  explicit state: each SQL statement of the source is one atomic operation on them, with the
  primary key of \<open>approvals\<close> and the uniqueness of a voter per approval that the schema declares.
  A vote is several statements, so concurrent votes and timeouts interleave between them: the
  step relation \<open>sys_step\<close> runs any number of such requests, one statement at a time.
\<close>

section \<open>The tables\<close>

record approval_row =
  ap_id :: string
  ap_event :: string
  ap_status :: string
  ap_required :: int
  ap_level :: string
  ap_created :: string

record vote_row =
  v_approval :: string
  v_voter :: string
  v_decision :: string

text \<open>Rows are in the order of their insertion; \<open>notices\<close> is what was published, oldest first.\<close>

record approval_db =
  approvals :: "approval_row list"
  votes :: "vote_row list"
  notices :: "(string \<times> string) list"

definition find_approval :: "string \<Rightarrow> approval_db \<Rightarrow> approval_row option" where
  "find_approval aid db = List.find (\<lambda>r. ap_id r = aid) (approvals db)"

definition votes_of :: "string \<Rightarrow> approval_db \<Rightarrow> vote_row list" where
  "votes_of aid db = filter (\<lambda>v. v_approval v = aid) (votes db)"

section \<open>Single statements\<close>

definition create_approval ::
    "string \<Rightarrow> string \<Rightarrow> string \<Rightarrow> int \<Rightarrow> string \<Rightarrow> approval_db \<Rightarrow> approval_db res" where
  "create_approval aid event level n_required now db =
     (if find_approval aid db \<noteq> None then Raise (ExtError ''unique_violation'')
      else Ok (db\<lparr>approvals := approvals db @
             [\<lparr>ap_id = aid, ap_event = event, ap_status = ''pending'', ap_required = n_required,
               ap_level = level, ap_created = now\<rparr>]\<rparr>))"

definition find_pending :: "string \<Rightarrow> approval_db \<Rightarrow> approval_row option" where
  "find_pending event db =
     List.find (\<lambda>r. ap_event r = event \<and> ap_status r = ''pending'') (approvals db)"

definition insert_vote :: "string \<Rightarrow> string \<Rightarrow> string \<Rightarrow> approval_db \<Rightarrow> approval_db" where
  "insert_vote aid voter decision db =
     (if \<exists>v \<in> set (votes db). v_approval v = aid \<and> v_voter v = voter then db
      else db\<lparr>votes := votes db @ [\<lparr>v_approval = aid, v_voter = voter, v_decision = decision\<rparr>]\<rparr>)"

definition count_approved :: "string \<Rightarrow> approval_db \<Rightarrow> nat" where
  "count_approved aid db =
     length (filter (\<lambda>v. v_approval v = aid \<and> v_decision v = ''approved'') (votes db))"

definition set_status :: "string \<Rightarrow> string \<Rightarrow> approval_db \<Rightarrow> approval_db" where
  "set_status aid status db =
     db\<lparr>approvals := map (\<lambda>r. if ap_id r = aid then r\<lparr>ap_status := status\<rparr> else r) (approvals db)\<rparr>"

definition publish :: "string \<Rightarrow> string \<Rightarrow> approval_db \<Rightarrow> approval_db" where
  "publish aid msg db = db\<lparr>notices := notices db @ [(''approval:notify:'' @ aid, msg)]\<rparr>"

section \<open>The operations of the store\<close>

definition approval_dict :: "approval_row \<Rightarrow> pyval list \<Rightarrow> pydict" where
  "approval_dict r vs =
     [(''approval_id'', PStr (ap_id r)), (''event_id'', PStr (ap_event r)),
      (''status'', PStr (ap_status r)), (''required'', PInt (ap_required r)),
      (''operation_level'', PStr (ap_level r)), (''approvals'', PList vs),
      (''created_at'', PStr (ap_created r))]"

definition get_approval :: "string \<Rightarrow> approval_db \<Rightarrow> pydict option" where
  "get_approval aid db =
     (case find_approval aid db of
        None \<Rightarrow> None
      | Some r \<Rightarrow> Some (approval_dict r
          (map (\<lambda>v. PDict [(''actor'', PStr (v_voter v)), (''decision'', PStr (v_decision v))])
             (votes_of aid db))))"

definition list_pending :: "approval_db \<Rightarrow> pydict list" where
  "list_pending db =
     map (\<lambda>r. approval_dict r (map (\<lambda>v. PDict [(''actor'', PStr (v_voter v))]) (votes_of (ap_id r) db)))
       (sort_key ap_created (filter (\<lambda>r. ap_status r = ''pending'') (approvals db)))"

text \<open>A vote, with nothing else running between its statements.\<close>

definition add_vote :: "string \<Rightarrow> string \<Rightarrow> string \<Rightarrow> approval_db \<Rightarrow> (string \<times> nat) \<times> approval_db" where
  "add_vote event actor decision db =
     (case find_pending event db of
        None \<Rightarrow> ((''not_found'', 0), db)
      | Some row \<Rightarrow>
          let aid = ap_id row; required = ap_required row; db1 = insert_vote aid actor decision db in
          if decision = ''rejected'' then
            ((''rejected'', 0), publish aid (''rejected:'' @ actor) (set_status aid ''rejected'' db1))
          else
            let count = count_approved aid db1 in
            if int count \<ge> required then
              ((''approved'', count), publish aid (''approved:'' @ actor) (set_status aid ''approved'' db1))
            else ((''pending'', count), publish aid (''pending:'' @ actor) db1))"

text \<open>Resolving touches the row only while it is pending.\<close>

definition resolve :: "string \<Rightarrow> string \<Rightarrow> approval_db \<Rightarrow> approval_db" where
  "resolve aid status db =
     (if \<exists>r \<in> set (approvals db). ap_id r = aid \<and> ap_status r = ''pending''
      then publish aid status
        (db\<lparr>approvals := map (\<lambda>r. if ap_id r = aid \<and> ap_status r = ''pending''
              then r\<lparr>ap_status := status\<rparr> else r) (approvals db)\<rparr>)
      else db)"

definition current_status :: "string \<Rightarrow> approval_db \<Rightarrow> string" where
  "current_status aid db = (case find_approval aid db of Some r \<Rightarrow> ap_status r | None \<Rightarrow> ''pending'')"

text \<open>
  Waiting. One turn of the loop sees the seconds that remain, the message received in that turn,
  if any, and the tables at that moment; \<open>None\<close> means the wait goes on after the given turns.
\<close>

fun wait_loop ::
    "string \<Rightarrow> (int \<times> string option \<times> approval_db) list \<Rightarrow> (string \<times> approval_db) option" where
  "wait_loop aid [] = None"
| "wait_loop aid ((remaining, msg, db) # turns) =
     (if remaining \<le> 0 then Some (''timeout'', resolve aid ''timeout'' db)
      else case msg of
        None \<Rightarrow> wait_loop aid turns
      | Some raw \<Rightarrow>
          let status = (case split_once (CHR '':'') raw of Some (s, _) \<Rightarrow> s | None \<Rightarrow> raw) in
          if status \<in> {''approved'', ''rejected'', ''timeout''} then Some (status, db)
          else
            let current = current_status aid db in
            if current \<noteq> ''pending'' then Some (current, db) else wait_loop aid turns)"

text \<open>\<open>before\<close> and \<open>after\<close> are the tables before and after subscribing to the notifications.\<close>

definition wait_result ::
    "string \<Rightarrow> approval_db \<Rightarrow> approval_db \<Rightarrow> (int \<times> string option \<times> approval_db) list \<Rightarrow>
     (string \<times> approval_db) option" where
  "wait_result aid before after turns =
     (if current_status aid before \<noteq> ''pending'' then Some (current_status aid before, before)
      else if current_status aid after \<noteq> ''pending'' then Some (current_status aid after, after)
      else wait_loop aid turns)"

section \<open>Concurrent requests\<close>

datatype request =
    Vote_Find string string string
  | Vote_Insert string int string string
  | Vote_Decide string int string string
  | Vote_Update string string string nat
  | Vote_Publish string string string nat
  | Resolve_Timeout string
  | Answered string nat

text \<open>The next statement of a request.\<close>

fun request_step :: "approval_db \<Rightarrow> request \<Rightarrow> approval_db \<times> request" where
  "request_step db (Vote_Find event actor decision) =
     (case find_pending event db of
        None \<Rightarrow> (db, Answered ''not_found'' 0)
      | Some row \<Rightarrow> (db, Vote_Insert (ap_id row) (ap_required row) actor decision))"
| "request_step db (Vote_Insert aid required actor decision) =
     (insert_vote aid actor decision db, Vote_Decide aid required actor decision)"
| "request_step db (Vote_Decide aid required actor decision) =
     (if decision = ''rejected'' then (db, Vote_Update aid ''rejected'' actor 0)
      else let count = count_approved aid db in
        if int count \<ge> required then (db, Vote_Update aid ''approved'' actor count)
        else (db, Vote_Publish aid ''pending'' actor count))"
| "request_step db (Vote_Update aid status actor count) =
     (set_status aid status db, Vote_Publish aid status actor count)"
| "request_step db (Vote_Publish aid status actor count) =
     (publish aid (status @ '':'' @ actor) db, Answered status count)"
| "request_step db (Resolve_Timeout aid) = (resolve aid ''timeout'' db, Answered ''timeout'' 0)"
| "request_step db (Answered status count) = (db, Answered status count)"

text \<open>The whole system: new approvals and requests arrive, and any request takes its next step.\<close>

inductive sys_step :: "approval_db \<times> request list \<Rightarrow> approval_db \<times> request list \<Rightarrow> bool" where
  step_request: "i < length ps \<Longrightarrow> request_step db (ps ! i) = (db', p') \<Longrightarrow>
    sys_step (db, ps) (db', ps[i := p'])"
| step_vote: "sys_step (db, ps) (db, ps @ [Vote_Find event actor decision])"
| step_timeout: "sys_step (db, ps) (db, ps @ [Resolve_Timeout aid])"
| step_create: "create_approval aid event level n now db = Ok db' \<Longrightarrow> sys_step (db, ps) (db', ps)"

definition empty_db :: approval_db where
  "empty_db = \<lparr>approvals = [], votes = [], notices = []\<rparr>"

inductive reachable :: "approval_db \<times> request list \<Rightarrow> bool" where
  reach_init: "reachable (empty_db, [])"
| reach_step: "reachable s \<Longrightarrow> sys_step s s' \<Longrightarrow> reachable s'"

inductive_cases sys_stepE: "sys_step (db, ps) s'"

section \<open>The invariant\<close>

definition row_ok :: "approval_db \<Rightarrow> approval_row \<Rightarrow> bool" where
  "row_ok db r \<longleftrightarrow> (ap_status r = ''approved'' \<longrightarrow> ap_required r \<le> int (count_approved (ap_id r) db))"

definition quorums :: "approval_db \<Rightarrow> (string \<times> int) list" where
  "quorums db = map (\<lambda>r. (ap_id r, ap_required r)) (approvals db)"

definition knows :: "approval_db \<Rightarrow> string \<Rightarrow> int \<Rightarrow> bool" where
  "knows db aid required \<longleftrightarrow> (aid, required) \<in> set (quorums db)"

fun request_ok :: "approval_db \<Rightarrow> request \<Rightarrow> bool" where
  "request_ok db (Vote_Insert aid required actor decision) = knows db aid required"
| "request_ok db (Vote_Decide aid required actor decision) = knows db aid required"
| "request_ok db (Vote_Update aid status actor count) =
     (status = ''approved'' \<longrightarrow> (\<exists>required. knows db aid required \<and> required \<le> int (count_approved aid db)))"
| "request_ok db _ = True"

definition db_ok :: "approval_db \<Rightarrow> bool" where
  "db_ok db \<longleftrightarrow> distinct (map fst (quorums db)) \<and>
     distinct (map (\<lambda>v. (v_approval v, v_voter v)) (votes db)) \<and>
     (\<forall>r \<in> set (approvals db). row_ok db r)"

definition sys_ok :: "approval_db \<times> request list \<Rightarrow> bool" where
  "sys_ok s \<longleftrightarrow> db_ok (fst s) \<and> list_all (request_ok (fst s)) (snd s)"

text \<open>What a statement may change: rows keep their identifiers and quorums, votes only grow.\<close>

definition extends :: "approval_db \<Rightarrow> approval_db \<Rightarrow> bool" where
  "extends db db' \<longleftrightarrow> set (quorums db) \<subseteq> set (quorums db') \<and> set (votes db) \<subseteq> set (votes db') \<and>
     (\<forall>aid. count_approved aid db \<le> count_approved aid db')"

lemma request_ok_mono: "extends db db' \<Longrightarrow> request_ok db p \<Longrightarrow> request_ok db' p"
proof (cases p)
  case (Vote_Update aid status actor count)
  assume e: "extends db db'" and "request_ok db p"
  show ?thesis
  proof (cases "status = ''approved''")
    case True
    with \<open>request_ok db p\<close> Vote_Update obtain n where "knows db aid n" "n \<le> int (count_approved aid db)"
      by auto
    moreover have "int (count_approved aid db) \<le> int (count_approved aid db')" using e by (simp add: extends_def)
    ultimately have "knows db' aid n" "n \<le> int (count_approved aid db')"
      using e by (auto simp: extends_def knows_def intro: order_trans)
    with Vote_Update show ?thesis by auto
  qed (simp add: Vote_Update)
qed (auto simp: extends_def knows_def)

lemma extends_insert_vote: "extends db (insert_vote aid actor decision db)"
  by (auto simp: extends_def insert_vote_def quorums_def count_approved_def)

lemma quorums_set_status [simp]: "quorums (set_status aid status db) = quorums db"
  by (simp add: quorums_def set_status_def)

lemma quorums_publish [simp]: "quorums (publish aid msg db) = quorums db"
  by (simp add: quorums_def publish_def)

lemma quorums_resolve [simp]: "quorums (resolve aid status db) = quorums db"
  by (simp add: quorums_def resolve_def publish_def)

lemma extends_set_status: "extends db (set_status aid status db)"
  by (simp add: extends_def) (simp add: set_status_def count_approved_def)

lemma extends_publish: "extends db (publish aid msg db)"
  by (simp add: extends_def) (simp add: publish_def count_approved_def)

lemma extends_resolve: "extends db (resolve aid status db)"
  by (simp add: extends_def) (simp add: resolve_def publish_def count_approved_def)

lemma create_cases:
  assumes "create_approval aid event level n now db = Ok db'"
  shows "aid \<notin> ap_id ` set (approvals db) \<and> votes db' = votes db \<and>
    approvals db' = approvals db @ [\<lparr>ap_id = aid, ap_event = event, ap_status = ''pending'',
      ap_required = n, ap_level = level, ap_created = now\<rparr>]"
  using assms by (auto simp: create_approval_def find_approval_def find_None_iff split: if_splits)

lemma extends_create: "create_approval aid event level n now db = Ok db' \<Longrightarrow> extends db db'"
  by (drule create_cases) (auto simp: extends_def quorums_def count_approved_def)

lemma db_ok_insert_vote: "db_ok db \<Longrightarrow> db_ok (insert_vote aid actor decision db)"
  by (auto simp: db_ok_def row_ok_def insert_vote_def count_approved_def image_iff quorums_def)

lemma db_ok_set_status:
  assumes "db_ok db" "status = ''approved'' \<Longrightarrow> \<exists>n. knows db aid n \<and> n \<le> int (count_approved aid db)"
  shows "db_ok (set_status aid status db)"
proof -
  have "row_ok (set_status aid status db) r" if r: "r \<in> set (approvals (set_status aid status db))" for r
  proof -
    obtain q where q: "q \<in> set (approvals db)" "r = (if ap_id q = aid then q\<lparr>ap_status := status\<rparr> else q)"
      using r by (auto simp: set_status_def)
    have cnt: "count_approved x (set_status aid status db) = count_approved x db" for x
      by (simp add: count_approved_def set_status_def)
    show ?thesis
    proof (cases "ap_id q = aid \<and> status = ''approved''")
      case True
      with assms(2) obtain n where n: "knows db aid n" "n \<le> int (count_approved aid db)" by blast
      have "(aid, ap_required q) \<in> set (quorums db)" using q(1) True by (auto simp: quorums_def)
      then have "ap_required q = n" using n(1) assms(1)
        by (metis db_ok_def eq_key_imp_eq_value knows_def)
      with n(2) True q(2) show ?thesis by (simp add: row_ok_def count_approved_def set_status_def)
    next
      case False
      then show ?thesis using q assms(1) by (auto simp: row_ok_def cnt db_ok_def)
    qed
  qed
  then show ?thesis using assms(1) by (simp add: db_ok_def) (simp add: set_status_def)
qed

lemma db_ok_publish: "db_ok db \<Longrightarrow> db_ok (publish aid msg db)"
  by (simp add: db_ok_def) (simp add: row_ok_def publish_def count_approved_def)

lemma db_ok_resolve: "db_ok db \<Longrightarrow> status \<noteq> ''approved'' \<Longrightarrow> db_ok (resolve aid status db)"
  by (simp add: db_ok_def) (auto simp: row_ok_def resolve_def publish_def count_approved_def)

lemma db_ok_create: "db_ok db \<Longrightarrow> create_approval aid event level n now db = Ok db' \<Longrightarrow> db_ok db'"
  by (drule create_cases) (auto simp: db_ok_def row_ok_def count_approved_def quorums_def image_iff)

lemma find_pending_knows: "find_pending event db = Some r \<Longrightarrow> knows db (ap_id r) (ap_required r)"
  by (auto simp: find_pending_def find_Some_iff knows_def quorums_def)

lemma request_step_ok:
  assumes "db_ok db" "request_ok db p" "request_step db p = (db', p')"
  shows "db_ok db' \<and> extends db db' \<and> request_ok db' p'"
proof -
  have refl: "extends db db" by (simp add: extends_def)
  show ?thesis
  proof (cases p)
    case (Vote_Find event actor decision)
    then show ?thesis using assms refl find_pending_knows by (auto split: option.splits)
  next
    case (Vote_Insert aid required actor decision)
    then show ?thesis using assms extends_insert_vote [of db aid actor decision] db_ok_insert_vote
      by (auto simp: extends_def knows_def)
  next
    case (Vote_Decide aid required actor decision)
    then show ?thesis using assms refl by (auto simp: Let_def split: if_splits)
  next
    case (Vote_Update aid status actor count)
    then show ?thesis using assms extends_set_status [of db aid status]
        db_ok_set_status [OF assms(1), of status aid] by auto
  next
    case (Vote_Publish aid status actor count)
    then show ?thesis using assms extends_publish db_ok_publish by auto
  next
    case (Resolve_Timeout aid)
    then show ?thesis using assms extends_resolve db_ok_resolve by auto
  next
    case (Answered status count)
    then show ?thesis using assms refl by auto
  qed
qed

lemma sys_step_ok: "sys_step s s' \<Longrightarrow> sys_ok s \<Longrightarrow> sys_ok s'"
proof (induction rule: sys_step.induct)
  case (step_request i ps db db' p')
  then have ok: "db_ok db' \<and> extends db db' \<and> request_ok db' p'"
    by (intro request_step_ok) (auto simp: sys_ok_def list_all_length)
  then have "list_all (request_ok db') ps"
    using step_request.prems request_ok_mono by (auto simp: sys_ok_def list_all_iff)
  with ok show ?case
    by (auto simp: sys_ok_def list_all_iff dest: set_update_subset_insert [THEN subsetD])
next
  case (step_create aid event level n now db db' ps)
  then show ?case using db_ok_create extends_create request_ok_mono
    by (fastforce simp: sys_ok_def list_all_iff)
qed (auto simp: sys_ok_def)

lemma reachable_ok: "reachable s \<Longrightarrow> sys_ok s"
proof (induction rule: reachable.induct)
  case reach_init
  show ?case by (simp add: sys_ok_def db_ok_def empty_db_def quorums_def)
qed (rule sys_step_ok)

text \<open>The count of approving votes is the number of distinct approving voters.\<close>

lemma count_voters:
  assumes "db_ok db"
  shows "count_approved aid db =
    card {v_voter v | v. v \<in> set (votes db) \<and> v_approval v = aid \<and> v_decision v = ''approved''}"
proof -
  let ?vs = "filter (\<lambda>v. v_approval v = aid \<and> v_decision v = ''approved'') (votes db)"
  have "inj_on (\<lambda>v. (v_approval v, v_voter v)) (set (votes db))" "distinct (votes db)"
    using assms by (simp_all add: db_ok_def distinct_map)
  note inj = this
  have "inj_on v_voter (set ?vs)"
  proof (rule inj_onI)
    fix x y assume x: "x \<in> set ?vs" and y: "y \<in> set ?vs" and eq: "v_voter x = v_voter y"
    have "x \<in> set (votes db)" "y \<in> set (votes db)" using x y unfolding set_filter by blast+
    moreover have "v_approval x = aid" "v_approval y = aid" using x y unfolding set_filter by blast+
    ultimately show "x = y" using inj_onD [OF inj(1), of x y] eq by metis
  qed
  moreover have "distinct ?vs" using inj(2) by (rule distinct_filter)
  ultimately have "distinct (map v_voter ?vs)" by (simp add: distinct_map)
  from distinct_card [OF this] have "length ?vs = card (set (map v_voter ?vs))" by simp
  moreover have "set (map v_voter ?vs) =
    {v_voter v | v. v \<in> set (votes db) \<and> v_approval v = aid \<and> v_decision v = ''approved''}" by auto
  ultimately show ?thesis by (simp add: count_approved_def)
qed

lemma resolve_noop:
  "\<not> (\<exists>r \<in> set (approvals db). ap_id r = aid \<and> ap_status r = ''pending'') \<Longrightarrow> resolve aid status db = db"
  unfolding resolve_def by (rule if_not_P)

section \<open>Schedules\<close>

text \<open>A schedule names, statement by statement, the request that runs next.\<close>

fun run_schedule ::
    "approval_db \<times> request list \<Rightarrow> nat list \<Rightarrow> approval_db \<times> request list" where
  "run_schedule s [] = s"
| "run_schedule (db, ps) (i # is) =
     (case request_step db (ps ! i) of (db', p') \<Rightarrow> run_schedule (db', ps[i := p']) is)"

lemma run_schedule_steps:
  "list_all (\<lambda>i. i < length (snd s)) is \<Longrightarrow> sys_step\<^sup>*\<^sup>* s (run_schedule s is)"
proof (induction "is" arbitrary: s)
  case (Cons i "is")
  obtain db ps where s: "s = (db, ps)" by fastforce
  obtain db' p' where st: "request_step db (ps ! i) = (db', p')" by fastforce
  have "sys_step s (db', ps[i := p'])" using Cons.prems s st by (auto intro: step_request)
  moreover have "sys_step\<^sup>*\<^sup>* (db', ps[i := p']) (run_schedule (db', ps[i := p']) is)"
    using Cons.prems s by (intro Cons.IH) simp
  ultimately show ?case using s st by simp
qed simp

lemma reachable_steps: "sys_step\<^sup>*\<^sup>* s s' \<Longrightarrow> reachable s \<Longrightarrow> reachable s'"
  by (induction rule: rtranclp_induct) (auto intro: reach_step)

text \<open>One approval for one event, and the votes that arrived for it.\<close>

definition one_approval :: "int \<Rightarrow> approval_db" where
  "one_approval n = \<lparr>approvals = [\<lparr>ap_id = ''A'', ap_event = ''E'', ap_status = ''pending'',
     ap_required = n, ap_level = ''L4'', ap_created = ''t''\<rparr>], votes = [], notices = []\<rparr>"

lemma reachable_votes:
  "reachable (one_approval n, map (\<lambda>(a, d). Vote_Find ''E'' a d) vs)"
proof (induction vs rule: rev_induct)
  case Nil
  have "create_approval ''A'' ''E'' ''L4'' n ''t'' empty_db = Ok (one_approval n)"
    by (simp add: create_approval_def empty_db_def one_approval_def find_approval_def)
  from reach_step [OF reach_init step_create [OF this, of "[]"]] show ?case by simp
next
  case (snoc v vs)
  obtain a d where v: "v = (a, d)" by fastforce
  from reach_step [OF snoc step_vote [of _ _ "''E''" a d]] show ?case by (simp add: v)
qed

lemmas schedule_eval = one_approval_def find_pending_def insert_vote_def count_approved_def
  set_status_def publish_def Let_def current_status_def find_approval_def resolve_def

text \<open>
  The final update of a vote does not look at the status: a vote that was counted before another
  request closed the approval overwrites its outcome, here a rejection by an approval.
\<close>

lemma late_vote_overrides_rejection:
  "\<exists>s s'. reachable s \<and> sys_step\<^sup>*\<^sup>* s s' \<and> current_status ''A'' (fst s) = ''rejected'' \<and>
     current_status ''A'' (fst s') = ''approved''"
proof -
  let ?init = "(one_approval 1, map (\<lambda>(a, d). Vote_Find ''E'' a d) [(''bob'', ''approved''), (''eve'', ''rejected'')])"
  let ?s = "run_schedule ?init [0, 1, 0, 1, 0, 1, 1]"
  have steps: "sys_step\<^sup>*\<^sup>* ?init ?s" by (rule run_schedule_steps) simp
  have "length (snd ?s) = 2" by (simp add: schedule_eval)
  then have more: "sys_step\<^sup>*\<^sup>* ?s (run_schedule ?s [0])" by (intro run_schedule_steps) simp
  have "current_status ''A'' (fst ?s) = ''rejected''" by (simp add: schedule_eval)
  moreover have "current_status ''A'' (fst (run_schedule ?s [0])) = ''approved''"
    by (simp add: schedule_eval)
  ultimately show ?thesis using reachable_steps [OF steps reachable_votes] more by blast
qed

text \<open>A wait that runs out answers \<open>timeout\<close> although the approval was granted meanwhile.\<close>

lemma timeout_despite_approval:
  assumes "list_all (\<lambda>r. ap_id r = aid \<longrightarrow> ap_status r = ''approved'') (approvals db)" "remaining \<le> 0"
  shows "wait_loop aid [(remaining, msg, db)] = Some (''timeout'', db)"
  using assms by (auto simp: resolve_def list_all_iff)

section \<open>Properties\<close>

text \<open>C2: however votes, timeouts and new approvals interleave, an approval is approved only when
  at least the required number of distinct voters have approved it.\<close>

theorem approval_quorum:
  assumes "reachable (db, ps)" "r \<in> set (approvals db)" "ap_status r = ''approved''"
  shows "ap_required r \<le> int (card {v_voter v | v.
    v \<in> set (votes db) \<and> v_approval v = ap_id r \<and> v_decision v = ''approved''})"
proof -
  have ok: "db_ok db" using reachable_ok [OF assms(1)] by (simp add: sys_ok_def)
  then have "ap_required r \<le> int (count_approved (ap_id r) db)"
    using assms(2,3) by (simp add: db_ok_def row_ok_def)
  then show ?thesis by (simp only: count_voters [OF ok])
qed

theorem approval_quorum_witness:
  "\<exists>db ps r. reachable (db, ps) \<and> r \<in> set (approvals db) \<and> ap_status r = ''approved'' \<and>
     ap_required r = 2 \<and>
     2 \<le> int (card {v_voter v | v. v \<in> set (votes db) \<and> v_approval v = ap_id r \<and> v_decision v = ''approved''})"
proof -
  let ?init = "(one_approval 2, map (\<lambda>(a, d). Vote_Find ''E'' a d) [(''bob'', ''approved''), (''eve'', ''approved'')])"
  let ?s = "run_schedule ?init [0, 1, 0, 1, 0, 1, 0, 1, 1]"
  obtain db ps where s: "?s = (db, ps)" by fastforce
  have "sys_step\<^sup>*\<^sup>* ?init ?s" by (rule run_schedule_steps) simp
  from reachable_steps [OF this reachable_votes] have r: "reachable (db, ps)" using s by simp
  have "fst ?s = db" using s by simp
  then obtain row where row: "row \<in> set (approvals db)" "ap_status row = ''approved''" "ap_required row = 2"
    by (auto simp: schedule_eval)
  from approval_quorum [OF r row(1,2)] r row show ?thesis by (metis (no_types, lifting))
qed


text \<open>Resolving is idempotent: once it has given an approval a terminal status, resolving it
  again, with any status, changes neither the tables nor what is published.\<close>

theorem resolve_idempotent:
  assumes "status \<noteq> ''pending''"
  shows "resolve aid status' (resolve aid status db) = resolve aid status db"
proof (cases "\<exists>r \<in> set (approvals db). ap_id r = aid \<and> ap_status r = ''pending''")
  case True
  have "\<not> (\<exists>r \<in> set (approvals (resolve aid status db)). ap_id r = aid \<and> ap_status r = ''pending'')"
    using assms True by (auto simp: resolve_def publish_def)
  then show ?thesis by (rule resolve_noop)
qed (simp add: resolve_noop)

theorem resolve_idempotent_witness:
  "resolve ''A'' ''timeout'' (resolve ''A'' ''approved'' (one_approval 1)) = resolve ''A'' ''approved'' (one_approval 1)"
  by (rule resolve_idempotent) simp

end
