(* ===== verification/Responder.thy ===== *)
theory Responder
  imports Approvals Actions
begin

text \<open>
  The response subgraph, \<open>src/orchestration/subgraphs/responder\<close>: choosing a playbook and its
  level, asking for approval, and executing or rejecting. The playbook files, the language model,
  the identifiers, the approval queue and the webhooks are the argument \<open>resp_env\<close>.
\<close>

section \<open>Operations and levels\<close>

datatype op_level = L1 | L2 | L3 | L4 | L5

fun level_rank :: "op_level \<Rightarrow> nat" where
  "level_rank L1 = 1"
| "level_rank L2 = 2"
| "level_rank L3 = 3"
| "level_rank L4 = 4"
| "level_rank L5 = 5"

fun op_level_value :: "op_level \<Rightarrow> string" where
  "op_level_value L1 = ''L1''"
| "op_level_value L2 = ''L2''"
| "op_level_value L3 = ''L3''"
| "op_level_value L4 = ''L4''"
| "op_level_value L5 = ''L5''"

fun level_keywords :: "op_level \<Rightarrow> string list" where
  "level_keywords L1 = [''tag'', ''alert'', ''notify'', ''log'']"
| "level_keywords L2 = [''quarantine_file'', ''terminate_process'']"
| "level_keywords L3 = [''firewall_block'', ''edr_policy'', ''dns_block'']"
| "level_keywords L4 = [''isolate_host'', ''network_block'', ''bulk'']"
| "level_keywords L5 = [''global_block'', ''shutdown'', ''wipe'']"

definition infer_level :: "string \<Rightarrow> op_level" where
  "infer_level op_type =
     (case List.find (\<lambda>l. list_ex (\<lambda>kw. str_in kw op_type) (level_keywords l)) [L5, L4, L3, L2] of
        Some l \<Rightarrow> l | None \<Rightarrow> L1)"

record operation =
  o_type :: string
  o_level :: op_level
  o_params :: pydict

record playbook =
  pb_id :: string
  pb_description :: string
  pb_operations :: "operation list"
  pb_max_level :: op_level

text \<open>Validation of the level, the type and the parameters of an operation.\<close>

definition as_level :: "pyval \<Rightarrow> op_level res" where
  "as_level v = (case v of
     PStr s \<Rightarrow> (case List.find (\<lambda>l. op_level_value l = s) [L1, L2, L3, L4, L5] of
                   Some l \<Rightarrow> Ok l | None \<Rightarrow> Raise ValueError)
   | _ \<Rightarrow> Raise ValueError)"

definition make_operation :: "pyval \<Rightarrow> pyval \<Rightarrow> pyval \<Rightarrow> operation res" where
  "make_operation ty lvl params =
     (case ty of PStr t \<Rightarrow>
        rbind (as_level lvl) (\<lambda>l.
        case params of PDict ps \<Rightarrow> Ok \<lparr>o_type = t, o_level = l, o_params = ps\<rparr> | _ \<Rightarrow> Raise ValueError)
      | _ \<Rightarrow> Raise ValueError)"

text \<open>\<open>op["type"]\<close> of a value that should be a dictionary.\<close>

definition vindex :: "pyval \<Rightarrow> string \<Rightarrow> pyval res" where
  "vindex v k = (case v of PDict d \<Rightarrow> dindex d k | _ \<Rightarrow> Raise TypeError)"

text \<open>An operation of a playbook file keeps the level declared there.\<close>

definition declared_operation :: "pyval \<Rightarrow> operation res" where
  "declared_operation op =
     rbind (vindex op ''type'') (\<lambda>ty. rbind (vget op ''level'' (PStr ''L1'')) (\<lambda>lvl.
     rbind (vget op ''params'' (PDict [])) (\<lambda>ps. make_operation ty lvl ps)))"

text \<open>An operation proposed by the model gets its level from its type.\<close>

definition generated_operation :: "pydict \<Rightarrow> operation res" where
  "generated_operation op =
     rbind (dindex op ''type'') (\<lambda>ty. case ty of
       PStr t \<Rightarrow> make_operation ty (PStr (op_level_value (infer_level t))) (dget op ''params'' (PDict []))
     | _ \<Rightarrow> Raise TypeError)"

definition fallback_operation :: operation where
  "fallback_operation = \<lparr>o_type = ''siem_tag'', o_level = L1,
     o_params = [(''note'', PStr ''LLM unavailable; manual triage required'')]\<rparr>"

section \<open>Choosing a playbook\<close>

record resp_state =
  rs_event_id :: string
  rs_verdict :: string
  rs_confidence :: rat
  rs_event_tags :: "string list"
  rs_playbook :: "playbook option"
  rs_level :: "op_level option"
  rs_approval_id :: "string option"
  rs_approval_status :: "string option"
  rs_execution :: "pydict option"

record 'w resp_env =
  re_act :: "'w act_env"
  re_dry_run :: bool
  re_playbooks :: "pyval list"
  re_generate :: "('w, pydict list) io"
  re_uuid :: string
  re_hitl_timeout :: nat
  re_create :: "string \<Rightarrow> string \<Rightarrow> op_level \<Rightarrow> int \<Rightarrow> ('w, unit) io"
  re_schedule :: "string \<Rightarrow> nat \<Rightarrow> ('w, unit) io"
  re_push :: "string \<Rightarrow> string \<Rightarrow> string \<Rightarrow> ('w, unit) io"
  re_wait :: "string \<Rightarrow> nat \<Rightarrow> ('w, string) io"

definition py_ge :: "rat \<Rightarrow> pyval \<Rightarrow> bool res" where
  "py_ge c v = (case num_of v of Some x \<Rightarrow> Ok (c \<ge> x) | None \<Rightarrow> Raise TypeError)"

definition trigger_matches :: "resp_state \<Rightarrow> pyval \<Rightarrow> bool res" where
  "trigger_matches st pb =
     rbind (vget pb ''trigger'' (PDict [])) (\<lambda>trigger.
     rbind (vget trigger ''verdict'' PNone) (\<lambda>v.
     if \<not> py_eq v (PStr (rs_verdict st)) then Ok False
     else rbind (vget trigger ''confidence_min'' (PFloat 0)) (\<lambda>m.
          rbind (py_ge (rs_confidence st) m) (\<lambda>ge.
          if \<not> ge then Ok False
          else rbind (vget trigger ''event_tags'' PNone) (\<lambda>tags.
               if \<not> truthy tags then Ok True
               else rbind (py_iter tags) (\<lambda>ts.
                 Ok (list_ex (\<lambda>t. list_ex (\<lambda>e. py_eq t (PStr e)) (rs_event_tags st)) ts)))))))"

fun first_match :: "resp_state \<Rightarrow> pyval list \<Rightarrow> pyval option res" where
  "first_match st [] = Ok None"
| "first_match st (pb # pbs) =
     rbind (trigger_matches st pb) (\<lambda>b. if b then Ok (Some pb) else first_match st pbs)"

fun max_level_loop :: "op_level \<Rightarrow> operation list \<Rightarrow> op_level" where
  "max_level_loop m [] = m"
| "max_level_loop m (op # ops) =
     max_level_loop (if level_rank (o_level op) > level_rank m then o_level op else m) ops"

definition make_playbook :: "'w resp_env \<Rightarrow> pyval option \<Rightarrow> operation list \<Rightarrow> playbook res" where
  "make_playbook env matched ops =
     (let mx = max_level_loop L1 ops; short_id = PStr (take 8 (re_uuid env)) in
      case matched of
        None \<Rightarrow> Ok \<lparr>pb_id = take 8 (re_uuid env), pb_description = ''LLM generated'',
                   pb_operations = ops, pb_max_level = mx\<rparr>
      | Some pb \<Rightarrow>
          rbind (vget pb ''playbook_id'' PNone) (\<lambda>pid.
          rbind (vget pb ''description'' (PStr ''Auto-generated playbook'')) (\<lambda>descr.
          rbind (as_str (py_or pid short_id)) (\<lambda>i. rbind (as_str descr) (\<lambda>s.
          Ok \<lparr>pb_id = i, pb_description = s, pb_operations = ops, pb_max_level = mx\<rparr>)))))"

definition choose_operations ::
    "'w resp_env \<Rightarrow> pyval option \<Rightarrow> ('w, operation list) io" where
  "choose_operations env matched = (case matched of
     Some pb \<Rightarrow> io_lift (rbind (vget pb ''operations'' (PList [])) (\<lambda>v.
                  rbind (py_iter v) (\<lambda>ops. mapM declared_operation ops)))
   | None \<Rightarrow> io_try (io_bind (re_generate env) (\<lambda>ops. io_lift (mapM generated_operation ops)))
               (\<lambda>e. io_return [fallback_operation]))"

definition match_playbook :: "'w resp_env \<Rightarrow> resp_state \<Rightarrow> ('w, playbook) io" where
  "match_playbook env st =
     io_bind (io_lift (first_match st (re_playbooks env))) (\<lambda>matched.
     io_bind (choose_operations env matched) (\<lambda>ops.
     io_lift (make_playbook env matched ops)))"

definition playbook_matcher_node :: "'w resp_env \<Rightarrow> resp_state \<Rightarrow> ('w, resp_state) io" where
  "playbook_matcher_node env st =
     io_bind (match_playbook env st) (\<lambda>pb.
     io_return (st\<lparr>rs_playbook := Some pb, rs_level := Some (pb_max_level pb)\<rparr>))"

section \<open>Approval\<close>

fun level_timeout :: "op_level \<Rightarrow> nat" where
  "level_timeout L3 = 300"
| "level_timeout L4 = 900"
| "level_timeout L5 = 1800"
| "level_timeout _ = 300"

fun required_approvers :: "op_level \<Rightarrow> int" where
  "required_approvers L3 = 1"
| "required_approvers L4 = 2"
| "required_approvers L5 = 2"
| "required_approvers _ = 1"

fun push_cards :: "'w resp_env \<Rightarrow> string \<Rightarrow> string \<Rightarrow> string list \<Rightarrow> ('w, unit) io" where
  "push_cards env event_id aid [] = io_return ()"
| "push_cards env event_id aid (url # urls) =
     io_bind (io_try (re_push env url event_id aid) (\<lambda>e. io_return ())) (\<lambda>_.
     push_cards env event_id aid urls)"

definition hitl_approval_node :: "'w resp_env \<Rightarrow> resp_state \<Rightarrow> ('w, resp_state) io" where
  "hitl_approval_node env st =
     (let level = (case rs_level st of Some l \<Rightarrow> l | None \<Rightarrow> L1) in
      if level = L1 \<or> level = L2 then
        io_return (st\<lparr>rs_approval_status := Some ''approved'', rs_approval_id := None\<rparr>)
      else
        let aid = re_uuid env;
            timeout_sec = (if re_hitl_timeout env \<noteq> 0 then re_hitl_timeout env else level_timeout level)
        in io_bind (re_create env aid (rs_event_id st) level (required_approvers level)) (\<lambda>_.
           io_bind (io_try (re_schedule env aid timeout_sec) (\<lambda>e. io_return ())) (\<lambda>_.
           io_bind (push_cards env (rs_event_id st) aid (filter (\<lambda>h. h \<noteq> []) (ae_webhooks (re_act env)))) (\<lambda>_.
           io_bind (re_wait env aid timeout_sec) (\<lambda>result.
           let status = (if result = ''approved'' then ''approved''
                         else if result = ''rejected'' \<or> result = ''timeout'' then ''rejected'' else result)
           in io_return (st\<lparr>rs_approval_id := Some aid, rs_approval_status := Some status\<rparr>))))))"

section \<open>Execution\<close>

definition operation_dump :: "operation \<Rightarrow> pyval" where
  "operation_dump op = PDict [(''type'', PStr (o_type op)),
     (''level'', PStr (op_level_value (o_level op))), (''params'', PDict (o_params op))]"

definition playbook_dump :: "playbook \<Rightarrow> pydict" where
  "playbook_dump pb = [(''playbook_id'', PStr (pb_id pb)), (''description'', PStr (pb_description pb)),
     (''operations'', PList (map operation_dump (pb_operations pb))),
     (''max_level'', PStr (op_level_value (pb_max_level pb)))]"

definition opt_str :: "string option \<Rightarrow> pyval" where
  "opt_str v = (case v of Some s \<Rightarrow> PStr s | None \<Rightarrow> PNone)"

definition execute_response_node ::
    "'w resp_env \<Rightarrow> 'w conn_registry \<Rightarrow> resp_state \<Rightarrow> ('w, resp_state) io" where
  "execute_response_node env reg st =
     (if rs_approval_status st \<noteq> Some ''approved'' then
        io_return (st\<lparr>rs_execution := Some [(''status'', PStr ''skipped''),
          (''reason'', opt_str (rs_approval_status st))]\<rparr>)
      else
        let pb = (case rs_playbook st of Some p \<Rightarrow> playbook_dump p | None \<Rightarrow> []);
            ctx = \<lparr>ctx_event_id = rs_event_id st, ctx_approval_id = rs_approval_id st,
                   ctx_actor = ''system'', ctx_dry_run = re_dry_run env\<rparr>
        in io_bind (execute_playbook (re_act env) reg pb ctx) (\<lambda>results.
           io_bind (io_try (ae_audit (re_act env) ''execute_response'' ctx
               [(''results'', PList (map PDict results))]) (\<lambda>e. io_return ())) (\<lambda>_.
           io_return (st\<lparr>rs_execution := Some
             [(''status'', PStr (if list_all (\<lambda>r. dget r ''status'' PNone \<in> {PStr ''success'', PStr ''dry_run''}) results
                then ''completed'' else ''partial'')),
              (''executed_operations'', PList (map PDict results)),
              (''approval_id'', opt_str (rs_approval_id st))]\<rparr>))))"

definition reject_response_node :: "'w resp_env \<Rightarrow> resp_state \<Rightarrow> ('w, resp_state) io" where
  "reject_response_node env st =
     (let reason = opt_str (rs_approval_status st);
          ctx = \<lparr>ctx_event_id = rs_event_id st, ctx_approval_id = None, ctx_actor = ''system'',
                 ctx_dry_run = re_dry_run env\<rparr>
      in io_bind (io_try (ae_audit (re_act env) ''reject_response'' ctx
             [(''approval_status'', reason)]) (\<lambda>e. io_return ())) (\<lambda>_.
         io_return (st\<lparr>rs_execution := Some [(''status'', PStr ''rejected''), (''reason'', reason)]\<rparr>)))"

definition route_after_hitl :: "resp_state \<Rightarrow> string" where
  "route_after_hitl st =
     (if rs_approval_status st = Some ''approved'' then ''execute_response'' else ''reject'')"

text \<open>The graph: matcher, approval, then execution or rejection.\<close>

definition run_responder ::
    "'w resp_env \<Rightarrow> 'w conn_registry \<Rightarrow> resp_state \<Rightarrow> ('w, resp_state) io" where
  "run_responder env reg st =
     io_bind (playbook_matcher_node env st) (\<lambda>st1.
     io_bind (hitl_approval_node env st1) (\<lambda>st2.
     if route_after_hitl st2 = ''execute_response'' then execute_response_node env reg st2
     else reject_response_node env st2))"

text \<open>
  Approving an event through the API, \<open>approve_event\<close> in \<open>src/api/routers/operations.py\<close>: the
  vote is cast, the event's status follows the answer, and then the vote is cast once more by
  \<open>resolve_approval_by_event_id\<close>.
\<close>

definition resolve_approval_by_event_id ::
    "string \<Rightarrow> string \<Rightarrow> string \<Rightarrow> approval_db \<Rightarrow> bool \<times> approval_db" where
  "resolve_approval_by_event_id event decision actor db =
     (case add_vote event actor decision db of ((status, _), db') \<Rightarrow> (status \<noteq> ''not_found'', db'))"

definition approve_event ::
    "string \<Rightarrow> string \<Rightarrow> string \<Rightarrow> approval_db \<Rightarrow> string option \<times> approval_db" where
  "approve_event event action actor db =
     (case add_vote event actor action db of ((status, _), db1) \<Rightarrow>
        (if status = ''approved'' then Some ''completed''
         else if status = ''rejected'' then Some ''rejected'' else None,
         snd (resolve_approval_by_event_id event action actor db1)))"

section \<open>Levels and routing\<close>

lemma max_level_loop_spec:
  "level_rank m \<le> level_rank (max_level_loop m ops) \<and>
   (\<forall>op \<in> set ops. level_rank (o_level op) \<le> level_rank (max_level_loop m ops)) \<and>
   max_level_loop m ops \<in> insert m (o_level ` set ops)"
proof (induction ops arbitrary: m)
  case (Cons op ops)
  from Cons.IH [of "if level_rank (o_level op) > level_rank m then o_level op else m"] show ?case
    by auto
qed simp

lemma make_playbook_Ok:
  "make_playbook env matched ops = Ok pb \<Longrightarrow>
   pb_operations pb = ops \<and> pb_max_level pb = max_level_loop L1 ops"
  by (auto simp: make_playbook_def Let_def rbind_eq_Inr_iff split: option.splits)

lemma match_playbook_level:
  "match_playbook env st w = (Ok pb, w') \<Longrightarrow> pb_max_level pb = max_level_loop L1 (pb_operations pb)"
  by (auto simp: match_playbook_def io_bind_Inr dest: make_playbook_Ok)

text \<open>\<open>never_approves\<close>: no wait answers \<open>approved\<close>.\<close>

definition never_approves :: "'w resp_env \<Rightarrow> bool" where
  "never_approves env \<longleftrightarrow> (\<forall>aid t w w'. re_wait env aid t w \<noteq> (Inr ''approved'', w'))"

lemma hitl_not_approved:
  assumes "rs_level st = Some l" "3 \<le> level_rank l" "never_approves env"
    and "hitl_approval_node env st w = (Ok st', w')"
  shows "rs_approval_status st' \<noteq> Some ''approved''"
proof -
  have "l \<noteq> L1 \<and> l \<noteq> L2" using assms(2) by auto
  then show ?thesis using assms
    by (auto simp: hitl_approval_node_def Let_def io_bind_Inr never_approves_def split: if_splits)
qed

section \<open>Properties\<close>

text \<open>The level of a chosen playbook is the highest level among its operations, and \<open>L1\<close> when it
  has none.\<close>

theorem playbook_level_is_max:
  assumes "match_playbook env st w = (Ok pb, w')"
  shows "(\<forall>op \<in> set (pb_operations pb). level_rank (o_level op) \<le> level_rank (pb_max_level pb)) \<and>
    (pb_max_level pb = L1 \<or> pb_max_level pb \<in> o_level ` set (pb_operations pb))"
  using max_level_loop_spec [of L1 "pb_operations pb"] match_playbook_level [OF assms] by auto

text \<open>C4: no connector runs without an approval: when the chosen playbook has an operation of level
  \<open>L3\<close> or above and the wait is never answered \<open>approved\<close>, the outcome and every effect of the
  responder are the same for any connectors.\<close>

theorem no_unapproved_execution:
  assumes "match_playbook env st w = (Ok pb, w1)" "op \<in> set (pb_operations pb)"
    and "3 \<le> level_rank (o_level op)" "never_approves env"
  shows "run_responder env reg st w = run_responder env reg' st w"
proof -
  have lvl: "3 \<le> level_rank (pb_max_level pb)"
    using max_level_loop_spec [of L1 "pb_operations pb"] match_playbook_level [OF assms(1)] assms(2,3)
    by force
  let ?st = "st\<lparr>rs_playbook := Some pb, rs_level := Some (pb_max_level pb)\<rparr>"
  have m: "playbook_matcher_node env st w = (Ok ?st, w1)"
    using assms(1) by (simp add: playbook_matcher_node_def)
  obtain out w2 where h: "hitl_approval_node env ?st w1 = (out, w2)" by fastforce
  show ?thesis
  proof (cases out)
    case (Inl e)
    then show ?thesis using m h by (simp add: run_responder_def)
  next
    case (Inr st2)
    then have "rs_approval_status st2 \<noteq> Some ''approved''"
      using hitl_not_approved [of ?st "pb_max_level pb" env w1 st2 w2] lvl assms(4) h by simp
    then show ?thesis using m h Inr by (simp add: run_responder_def route_after_hitl_def)
  qed
qed

definition toy_resp :: "nat resp_env" where
  "toy_resp = \<lparr>re_act = toy_env, re_dry_run = False, re_playbooks = [],
     re_generate = io_return [[(''type'', PStr ''isolate_host'')]], re_uuid = ''u'', re_hitl_timeout = 0,
     re_create = (\<lambda>_ _ _ _. io_return ()), re_schedule = (\<lambda>_ _. io_return ()),
     re_push = (\<lambda>_ _ _. io_return ()), re_wait = (\<lambda>_ _. io_return ''timeout'')\<rparr>"

definition toy_state :: resp_state where
  "toy_state = \<lparr>rs_event_id = ''e'', rs_verdict = ''true_positive'', rs_confidence = 1, rs_event_tags = [],
     rs_playbook = None, rs_level = None, rs_approval_id = None, rs_approval_status = None,
     rs_execution = None\<rparr>"

lemma infer_isolate: "infer_level ''isolate_host'' = L4"
  by (simp add: infer_level_def str_in.simps startswith_def)

lemma toy_match:
  "match_playbook toy_resp toy_state 0 =
   (Ok \<lparr>pb_id = ''u'', pb_description = ''LLM generated'',
        pb_operations = [\<lparr>o_type = ''isolate_host'', o_level = L4, o_params = []\<rparr>], pb_max_level = L4\<rparr>, 0)"
  by (simp add: match_playbook_def toy_resp_def choose_operations_def generated_operation_def dindex_def
      make_operation_def infer_isolate as_level_def make_playbook_def io_try_def)

theorem playbook_level_is_max_witness:
  "pb_max_level \<lparr>pb_id = ''u'', pb_description = ''LLM generated'',
      pb_operations = [\<lparr>o_type = ''isolate_host'', o_level = L4, o_params = []\<rparr>], pb_max_level = L4\<rparr>
   \<in> {L1, L4}"
  using playbook_level_is_max [OF toy_match] by simp

theorem no_unapproved_execution_witness:
  "run_responder toy_resp [] toy_state 0 = run_responder toy_resp (builtin_registry toy_env) toy_state 0"
  by (rule no_unapproved_execution [OF toy_match])
    (auto simp: never_approves_def toy_resp_def)

text \<open>
  A playbook file's own level stands: an operation that the keyword table puts at \<open>L3\<close> but the
  file declares at \<open>L2\<close>, as the brute force playbook does for its firewall block, needs no approval.
\<close>

lemma declared_level_bypasses_table:
  "infer_level ''firewall_block'' = L3 \<and>
   declared_operation (PDict [(''type'', PStr ''firewall_block''), (''level'', PStr ''L2'')]) =
     Ok \<lparr>o_type = ''firewall_block'', o_level = L2, o_params = []\<rparr> \<and>
   hitl_approval_node env (st\<lparr>rs_level := Some (max_level_loop L1
       [\<lparr>o_type = ''firewall_block'', o_level = L2, o_params = []\<rparr>])\<rparr>) w =
     (Ok (st\<lparr>rs_level := Some L2, rs_approval_status := Some ''approved'', rs_approval_id := None\<rparr>), w)"
  by (simp add: infer_level_def str_in.simps startswith_def declared_operation_def vindex_def dindex_def
      make_operation_def as_level_def hitl_approval_node_def)

text \<open>A wait that times out is reported as a rejection.\<close>

lemma hitl_timeout_is_rejected:
  assumes "rs_level st = Some l" "3 \<le> level_rank l" "hitl_approval_node env st w = (Ok st', w')"
    and "\<And>aid t v. fst (re_wait env aid t v) = Inr ''timeout''"
  shows "rs_approval_status st' = Some ''rejected''"
proof -
  have l: "l \<noteq> L1" "l \<noteq> L2" using assms(2) by auto
  obtain aid t v r v' where "re_wait env aid t v = (Inr r, v')"
    and st: "rs_approval_status st' = Some (if r = ''approved'' then ''approved''
      else if r = ''rejected'' \<or> r = ''timeout'' then ''rejected'' else r)"
    using assms(1,3) l by (auto simp: hitl_approval_node_def Let_def io_bind_Inr)
  with assms(4) [of aid t v] have "r = ''timeout''" by simp
  with st show ?thesis by simp
qed

text \<open>
  One click can close two approvals: after the first vote closed one approval of the event, the
  second vote of the same request finds another that is pending.
\<close>

lemma approve_event_votes_twice:
  "map ap_status (approvals (snd (approve_event ''E'' ''approved'' ''bob''
     \<lparr>approvals = [\<lparr>ap_id = ''A'', ap_event = ''E'', ap_status = ''pending'', ap_required = 1, ap_level = ''L3'', ap_created = []\<rparr>,
                   \<lparr>ap_id = ''B'', ap_event = ''E'', ap_status = ''pending'', ap_required = 1, ap_level = ''L3'', ap_created = []\<rparr>],
      votes = [], notices = []\<rparr>))) = [''approved'', ''approved'']"
  by (simp add: approve_event_def resolve_approval_by_event_id_def add_vote_def schedule_eval)

end
