(* ===== verification/MainGraph.thy ===== *)
theory MainGraph
  imports Prelude
begin

text \<open>
  The main event graph: \<open>src/orchestration/main_graph\<close> (its nodes, its routing and the assembled
  graph) and the runner's status, \<open>src/orchestration/runner.py\<close>. The subgraphs, the language model,
  the audit log and the clock are the argument \<open>graph_env\<close>; a subgraph run under a time limit is one
  call, which raises \<open>TimeoutError\<close> when the limit passes.
\<close>

section \<open>State and environment\<close>

record main_state =
  ms_event_id :: string
  ms_raw_event :: pydict
  ms_priority :: "string option"
  ms_tags :: "string list"
  ms_stage :: "string option"
  ms_verdict :: pyval
  ms_confidence :: pyval
  ms_pending :: "pydict option"
  ms_sub :: "pydict option"
  ms_error :: "string option"
  ms_audit :: "pydict list"

record triage_result =
  tr_priority :: string
  tr_tags :: "string list"
  tr_noise :: rat
  tr_reasoning :: string

record 'w graph_env =
  ge_rt :: pyrt
  ge_now :: string
  ge_exn_str :: "exn \<Rightarrow> string"
  ge_fixed2 :: "rat \<Rightarrow> string"
  ge_triage :: "string \<Rightarrow> ('w, triage_result) io"
  ge_investigate :: "pydict \<Rightarrow> ('w, pydict) io"
  ge_vuln_hunt :: "pydict \<Rightarrow> ('w, pydict) io"
  ge_respond :: "pydict \<Rightarrow> ('w, pydict) io"
  ge_audit :: "string \<Rightarrow> string \<Rightarrow> pyval \<Rightarrow> pydict \<Rightarrow> ('w, unit) io"

text \<open>The floating point literals of the source, as the doubles they denote.\<close>

definition float_0_8 :: rat where "float_0_8 = 3602879701896397 / 4503599627370496"
definition float_0_95 :: rat where "float_0_95 = 4278419646001971 / 4503599627370496"
definition float_0_2 :: rat where "float_0_2 = 3602879701896397 / 18014398509481984"

definition audit_entry :: "'w graph_env \<Rightarrow> string \<Rightarrow> string \<Rightarrow> pydict" where
  "audit_entry env node summary =
     [(''node'', PStr node), (''ts'', PStr (ge_now env)), (''summary'', PStr summary)]"

text \<open>An audit call whose failure is ignored.\<close>

definition try_audit ::
    "'w graph_env \<Rightarrow> string \<Rightarrow> string \<Rightarrow> pyval \<Rightarrow> pydict \<Rightarrow> ('w, unit) io" where
  "try_audit env event_id node action details =
     io_try (ge_audit env event_id node action details) (\<lambda>e. io_return ())"

section \<open>Entry, triage, aggregation\<close>

definition entry_node :: "'w graph_env \<Rightarrow> main_state \<Rightarrow> ('w, main_state) io" where
  "entry_node env st =
     io_bind (io_lift (as_str (dget (ms_raw_event st) ''event_id'' (PStr ''unknown'')))) (\<lambda>event_id.
     io_bind (try_audit env event_id ''entry'' (PStr ''received'') []) (\<lambda>_.
     io_return (st\<lparr>ms_event_id := event_id, ms_stage := Some ''triage'', ms_error := None,
       ms_audit := ms_audit st @ [audit_entry env ''entry'' (''Event received: '' @ event_id)]\<rparr>)))"

definition HONEYPOT_COMMANDS :: "string list" where
  "HONEYPOT_COMMANDS = [''whoami'', ''id'', ''uname'', ''ifconfig'', ''cat /etc/passwd'']"

definition honeypot_rule :: "string \<Rightarrow> bool" where
  "honeypot_rule text = list_ex (\<lambda>cmd. str_in cmd (py_lower text)) HONEYPOT_COMMANDS"

definition triage :: "'w graph_env \<Rightarrow> string \<Rightarrow> ('w, triage_result) io" where
  "triage env raw_text =
     (if honeypot_rule raw_text
      then io_return \<lparr>tr_priority = ''high'', tr_tags = [''honeypot''], tr_noise = 0,
             tr_reasoning = ''Honeypot rule match''\<rparr>
      else io_try (ge_triage env (take 2000 raw_text))
             (\<lambda>e. io_return \<lparr>tr_priority = ''medium'', tr_tags = [''unknown''], tr_noise = 1 / 2,
                tr_reasoning = ''LLM unavailable, rule-based fallback: '' @ ge_exn_str env e\<rparr>))"

definition orchestrator_node :: "'w graph_env \<Rightarrow> main_state \<Rightarrow> ('w, main_state) io" where
  "orchestrator_node env st =
     io_bind (triage env (py_str (ge_rt env) (dget (ms_raw_event st) ''sanitized_text'' (PStr [])))) (\<lambda>r.
     io_bind (try_audit env (ms_event_id st) ''orchestrator'' (PStr ''triage'')
        [(''priority'', PStr (tr_priority r)), (''tags'', PList (map PStr (tr_tags r))),
         (''reasoning'', PStr (tr_reasoning r))]) (\<lambda>_.
     io_return (st\<lparr>ms_priority := Some (tr_priority r), ms_tags := tr_tags r, ms_stage := Some ''route'',
       ms_audit := ms_audit st @ [audit_entry env ''orchestrator''
         (''priority='' @ tr_priority r @ '' tags='' @ py_repr (ge_rt env) (PList (map PStr (tr_tags r))) @
          '' noise='' @ ge_fixed2 env (tr_noise r))]\<rparr>)))"

definition sub_of :: "main_state \<Rightarrow> pydict" where
  "sub_of st = (case ms_sub st of Some d \<Rightarrow> d | None \<Rightarrow> [])"

definition aggregator_node :: "'w graph_env \<Rightarrow> main_state \<Rightarrow> ('w, main_state) io" where
  "aggregator_node env st =
     (let verdict = dget (sub_of st) ''final_verdict'' (PStr ''unknown'');
          confidence = dget (sub_of st) ''confidence_score'' (PFloat 0);
          stage = (case ms_stage st of Some s \<Rightarrow> if s \<noteq> [] then s else ''investigate'' | None \<Rightarrow> ''investigate'')
      in io_bind (try_audit env (ms_event_id st) ''aggregator'' verdict []) (\<lambda>_.
         io_return (st\<lparr>ms_verdict := verdict, ms_confidence := confidence, ms_stage := Some stage,
           ms_audit := ms_audit st @ [audit_entry env ''aggregator''
             (''verdict='' @ py_str (ge_rt env) verdict @ '' confidence='' @ py_str (ge_rt env) confidence)]\<rparr>)))"

definition ignore_node :: "'w graph_env \<Rightarrow> main_state \<Rightarrow> ('w, main_state) io" where
  "ignore_node env st =
     io_return (st\<lparr>ms_verdict := PStr ''ignored'', ms_stage := Some ''done'',
       ms_audit := ms_audit st @ [audit_entry env ''ignore'' ''Event archived as low-priority / noise'']\<rparr>)"

section \<open>Subgraphs\<close>

definition failed_sub :: "string \<Rightarrow> pydict" where
  "failed_sub verdict = [(''final_verdict'', PStr verdict), (''confidence_score'', PFloat 0)]"

definition iocs_of :: "main_state \<Rightarrow> pyval" where
  "iocs_of st = dget (ms_raw_event st) ''iocs'' (PDict [])"

definition investigate_node :: "'w graph_env \<Rightarrow> main_state \<Rightarrow> ('w, main_state) io" where
  "investigate_node env st =
     (let sub_state = [(''event_id'', PStr (ms_event_id st)), (''raw_event'', PDict (ms_raw_event st)),
            (''iocs'', iocs_of st), (''raw_intel'', PNone), (''graph_relations'', PList []),
            (''investigation_log'', PList []), (''final_verdict'', PNone), (''confidence_score'', PNone),
            (''evidence_summary'', PNone), (''mitre_ttps'', PList [])]
      in io_try
        (io_bind (ge_investigate env sub_state) (\<lambda>r.
         let verdict = dget r ''final_verdict'' (PStr ''unknown''); conf = dget r ''confidence_score'' (PFloat 0) in
         io_bind (try_audit env (ms_event_id st) ''investigate'' (PStr ''investigation_complete'')
            [(''final_verdict'', verdict), (''confidence_score'', conf)]) (\<lambda>_.
         io_return (st\<lparr>ms_sub := Some
            [(''final_verdict'', verdict), (''confidence_score'', conf),
             (''evidence_summary'', dget r ''evidence_summary'' (PStr [])),
             (''mitre_ttps'', dget r ''mitre_ttps'' (PList []))]\<rparr>))))
        (\<lambda>e. if e = TimeoutError
          then io_return (st\<lparr>ms_stage := Some ''investigate'', ms_sub := Some (failed_sub ''timeout'' @
                 [(''evidence_summary'', PStr ''Investigation timed out'')])\<rparr>)
          else io_return (st\<lparr>ms_stage := Some ''investigate'', ms_sub := Some (failed_sub ''error'' @
                 [(''evidence_summary'', PStr (''Error: '' @ ge_exn_str env e))])\<rparr>)))"

definition str_take :: "nat \<Rightarrow> pyval \<Rightarrow> pyval res" where
  "str_take n v = (case v of PStr s \<Rightarrow> Ok (PStr (take n s)) | PList xs \<Rightarrow> Ok (PList (take n xs))
     | _ \<Rightarrow> Raise TypeError)"

definition vuln_check_node :: "'w graph_env \<Rightarrow> main_state \<Rightarrow> ('w, main_state) io" where
  "vuln_check_node env st =
     (let text = dget (ms_raw_event st) ''sanitized_text'' (PStr []) in
      io_bind (io_lift (str_take 500 text)) (\<lambda>target.
      io_bind (io_lift (str_take 200 text)) (\<lambda>info.
      let sub_state = [(''event_id'', PStr (ms_event_id st)), (''raw_event'', PDict (ms_raw_event st)),
            (''target'', target), (''memory'', PDict [(''target_info'', info)]), (''cve_info'', PDict []),
            (''exploit_chain'', PNone), (''current_poc'', PStr []), (''investigation_log'', PList []),
            (''iteration_count'', PInt 0), (''last_exec_result'', PNone), (''final_poc'', PNone),
            (''is_vulnerable'', PBool False)]
      in io_try
        (io_bind (ge_vuln_hunt env sub_state) (\<lambda>r.
         let vul = dget r ''is_vulnerable'' (PBool False) in
         io_bind (try_audit env (ms_event_id st) ''vuln_check'' (PStr ''vuln_check_complete'')
            [(''is_vulnerable'', vul)]) (\<lambda>_.
         io_return (st\<lparr>ms_stage := Some ''verify'', ms_sub := Some
            [(''final_verdict'', PStr (if truthy (dget r ''is_vulnerable'' PNone) then ''true_positive'' else ''false_positive'')),
             (''confidence_score'', PFloat (if truthy (dget r ''is_vulnerable'' PNone) then float_0_95 else float_0_2)),
             (''final_poc'', dget r ''final_poc'' (PStr [])), (''is_vulnerable'', vul),
             (''exploit_chain'', dget r ''exploit_chain'' (PStr []))]\<rparr>))))
        (\<lambda>e. if e = TimeoutError
          then io_return (st\<lparr>ms_stage := Some ''verify'', ms_sub := Some (failed_sub ''timeout'')\<rparr>)
          else io_return (st\<lparr>ms_stage := Some ''verify'', ms_sub := Some (failed_sub ''error'' @
                 [(''evidence_summary'', PStr (''Error: '' @ ge_exn_str env e))])\<rparr>)))))"

definition respond_node :: "'w graph_env \<Rightarrow> main_state \<Rightarrow> ('w, main_state) io" where
  "respond_node env st =
     (let sub = sub_of st;
          sub_state = [(''event_id'', PStr (ms_event_id st)),
            (''verdict'', dget sub ''final_verdict'' (PStr ''unknown'')),
            (''confidence'', dget sub ''confidence_score'' (PFloat 0)), (''iocs'', iocs_of st),
            (''event_tags'', PList (map PStr (ms_tags st))), (''playbook_draft'', PNone),
            (''operation_level'', PStr ''L1''), (''approval_id'', PNone), (''approval_status'', PNone),
            (''execution_result'', PNone)]
      in io_try
        (io_bind (ge_respond env sub_state) (\<lambda>r.
         io_return (st\<lparr>ms_pending := Some
            [(''approval_id'', dget r ''approval_id'' PNone), (''approval_status'', dget r ''approval_status'' PNone),
             (''execution_summary'', dget r ''execution_result'' PNone)]\<rparr>)))
        (\<lambda>e. if e = TimeoutError then io_return (st\<lparr>ms_error := Some ''responder_timeout''\<rparr>)
              else io_return (st\<lparr>ms_error := Some (''responder_error: '' @ ge_exn_str env e)\<rparr>)))"

section \<open>Routing and the graph\<close>

datatype node = Entry | Orchestrator | Investigate | Vuln_Check | Aggregator | Respond | Ignore | End

definition route_decision :: "main_state \<Rightarrow> node" where
  "route_decision st =
     (let priority = (case ms_priority st of Some p \<Rightarrow> p | None \<Rightarrow> ''low'') in
      if priority = ''low'' then Ignore
      else if ''vulnerability'' \<in> set (ms_tags st) then Vuln_Check
      else if priority = ''high'' \<or> priority = ''medium'' then Investigate
      else Ignore)"

text \<open>\<open>conf >= x\<close> and the chained comparison raise when the score is not a number.\<close>

definition num_res :: "pyval \<Rightarrow> rat res" where
  "num_res v = (case num_of v of Some x \<Rightarrow> Ok x | None \<Rightarrow> Raise TypeError)"

definition route_after_verdict :: "main_state \<Rightarrow> node res" where
  "route_after_verdict st =
     (let sub = sub_of st; verdict = dget sub ''final_verdict'' (PStr ''unknown'');
          conf = py_or (dget sub ''confidence_score'' (PFloat 0)) (PFloat 0);
          confirmed = (verdict = PStr ''true_positive'')
      in if ms_stage st = Some ''verify'' then
           (let is_vulnerable = truthy (dget sub ''is_vulnerable'' PNone) \<or> truthy (dget sub ''final_poc'' PNone) in
            Ok (if confirmed \<or> is_vulnerable then Respond else End))
         else rbind (num_res conf) (\<lambda>c.
           Ok (if confirmed \<and> c \<ge> float_0_8 then Respond
               else if 1 / 2 \<le> c \<and> c < float_0_8 then Vuln_Check
               else End)))"

definition node_body :: "'w graph_env \<Rightarrow> node \<Rightarrow> main_state \<Rightarrow> ('w, main_state) io" where
  "node_body env n = (case n of
     Entry \<Rightarrow> entry_node env | Orchestrator \<Rightarrow> orchestrator_node env
   | Investigate \<Rightarrow> investigate_node env | Vuln_Check \<Rightarrow> vuln_check_node env
   | Aggregator \<Rightarrow> aggregator_node env | Respond \<Rightarrow> respond_node env
   | Ignore \<Rightarrow> ignore_node env | End \<Rightarrow> io_return)"

definition next_node :: "node \<Rightarrow> main_state \<Rightarrow> node res" where
  "next_node n st = (case n of
     Entry \<Rightarrow> Ok Orchestrator | Orchestrator \<Rightarrow> Ok (route_decision st)
   | Investigate \<Rightarrow> Ok Aggregator | Vuln_Check \<Rightarrow> Ok Aggregator
   | Aggregator \<Rightarrow> route_after_verdict st | _ \<Rightarrow> Ok End)"

text \<open>
  Running the graph with the engine's limit on the number of steps: the nodes visited and the
  final state, or \<open>None\<close> when the limit is reached first.
\<close>

fun run_graph ::
    "'w graph_env \<Rightarrow> nat \<Rightarrow> node \<Rightarrow> main_state \<Rightarrow> ('w, (node list \<times> main_state) option) io" where
  "run_graph env limit End st = io_return (Some ([], st))"
| "run_graph env 0 n st = io_return None"
| "run_graph env (Suc limit) n st =
     io_bind (node_body env n st) (\<lambda>st'.
     io_bind (io_lift (next_node n st')) (\<lambda>n'.
     io_bind (run_graph env limit n' st') (\<lambda>out.
     io_return (case out of None \<Rightarrow> None | Some (path, final) \<Rightarrow> Some (n # path, final)))))"

definition recursion_limit :: nat where "recursion_limit = 25"

definition initial_state :: "string \<Rightarrow> string \<Rightarrow> pyval \<Rightarrow> string \<Rightarrow> main_state" where
  "initial_state event_id text iocs source =
     \<lparr>ms_event_id = event_id,
      ms_raw_event = [(''event_id'', PStr event_id), (''sanitized_text'', PStr text), (''iocs'', iocs),
        (''source'', PStr source)],
      ms_priority = None, ms_tags = [], ms_stage = None, ms_verdict = PNone, ms_confidence = PNone,
      ms_pending = None, ms_sub = None, ms_error = None, ms_audit = []\<rparr>"

definition run_main ::
    "'w graph_env \<Rightarrow> string \<Rightarrow> string \<Rightarrow> pyval \<Rightarrow> string \<Rightarrow> ('w, (node list \<times> main_state) option) io" where
  "run_main env event_id text iocs source =
     run_graph env recursion_limit Entry (initial_state event_id text iocs source)"

text \<open>The status the runner stores for the event.\<close>

definition status_from_result :: "pydict \<Rightarrow> string option \<Rightarrow> string" where
  "status_from_result pending error =
     (let status = dget pending ''approval_status'' PNone in
      if error \<noteq> None \<and> error \<noteq> Some [] then ''error''
      else if status = PStr ''approved'' then ''completed''
      else if status = PStr ''rejected'' then ''rejected''
      else if status = PStr ''timeout'' then ''error''
      else if truthy (dget pending ''approval_id'' PNone) then ''pending_approval''
      else ''completed'')"

definition event_status :: "main_state \<Rightarrow> string" where
  "event_status st = status_from_result (case ms_pending st of Some d \<Rightarrow> d | None \<Rightarrow> []) (ms_error st)"

section \<open>The runs of the graph\<close>

text \<open>When responding is justified: a confident verdict, or a verified vulnerability.\<close>

definition justified :: "main_state \<Rightarrow> bool" where
  "justified st \<longleftrightarrow>
     (let sub = sub_of st; confirmed = (dget sub ''final_verdict'' (PStr ''unknown'') = PStr ''true_positive'') in
      if ms_stage st = Some ''verify''
      then confirmed \<or> truthy (dget sub ''is_vulnerable'' PNone) \<or> truthy (dget sub ''final_poc'' PNone)
      else confirmed \<and> (\<exists>c. num_of (dget sub ''confidence_score'' (PFloat 0)) = Some c \<and> c \<ge> float_0_8))"

lemma route_justified: "route_after_verdict st = Ok Respond \<Longrightarrow> justified st"
  by (auto simp: route_after_verdict_def justified_def Let_def num_res_def rbind_eq_Inr_iff py_or_def
      float_0_8_def split: if_splits option.splits)

lemma route_verify: "ms_stage st = Some ''verify'' \<Longrightarrow> route_after_verdict st = Ok n \<Longrightarrow> n \<in> {Respond, End}"
  by (auto simp: route_after_verdict_def Let_def split: if_splits)

lemma route_any: "route_after_verdict st = Ok n \<Longrightarrow> n \<in> {Respond, Vuln_Check, End}"
  by (auto simp: route_after_verdict_def Let_def rbind_eq_Inr_iff split: if_splits)

lemma aggregator_keeps:
  "aggregator_node env st w = (Inr st', w') \<Longrightarrow> ms_sub st' = ms_sub st \<and>
     (ms_stage st = Some ''verify'' \<longrightarrow> ms_stage st' = Some ''verify'')"
  by (auto simp: aggregator_node_def Let_def io_bind_Inr)

lemma vuln_check_verifies: "vuln_check_node env st w = (Inr st', w') \<Longrightarrow> ms_stage st' = Some ''verify''"
  by (auto simp: vuln_check_node_def Let_def io_bind_Inr io_try_Inr split: if_splits)

lemma respond_keeps:
  "respond_node env st w = (Inr st', w') \<Longrightarrow> ms_sub st' = ms_sub st \<and> ms_stage st' = ms_stage st"
  by (auto simp: respond_node_def Let_def io_bind_Inr io_try_Inr split: if_splits)

lemma run_End [simp]: "run_graph env limit End st = io_return (Some ([], st))"
  by (cases limit) simp_all

lemma run_step:
  assumes "run_graph env (Suc limit) n st w = (Inr out, w')" "n \<noteq> End"
  shows "\<exists>st1 w1 n1 o1. node_body env n st w = (Inr st1, w1) \<and> next_node n st1 = Ok n1 \<and>
    run_graph env limit n1 st1 w1 = (Inr o1, w') \<and>
    out = (case o1 of None \<Rightarrow> None | Some (path, final) \<Rightarrow> Some (n # path, final))"
  using assms by (cases n) (auto simp: io_bind_Inr)

text \<open>The outcome of a run: a path among the given ones, and a justified response if it responds.\<close>

definition ends_in :: "(node list \<times> main_state) option \<Rightarrow> node list set \<Rightarrow> bool" where
  "ends_in out paths \<longleftrightarrow> (\<exists>path st. out = Some (path, st) \<and> path \<in> paths \<and>
     (Respond \<in> set path \<longrightarrow> justified st))"

lemma ends_in_mono: "ends_in out A \<Longrightarrow> A \<subseteq> B \<Longrightarrow> ends_in out B"
  by (auto simp: ends_in_def)

lemma run_respond:
  assumes "run_graph env (Suc limit) Respond st w = (Inr out, w')" "justified st"
  shows "ends_in out {[Respond]}"
proof -
  obtain st1 w1 where "respond_node env st w = (Inr st1, w1)" "out = Some ([Respond], st1)"
    using run_step [OF assms(1)] by (auto simp: node_body_def next_node_def)
  moreover from this have "justified st1"
    using respond_keeps assms(2) by (fastforce simp: justified_def sub_of_def)
  ultimately show ?thesis by (simp add: ends_in_def)
qed

lemma ends_in_Cons:
  "ends_in out A \<Longrightarrow> n \<noteq> Respond \<Longrightarrow>
   ends_in (case out of None \<Rightarrow> None | Some (path, final) \<Rightarrow> Some (n # path, final)) ((#) n ` A)"
  by (auto simp: ends_in_def)

lemma run_aggregator_verify:
  assumes "run_graph env (Suc (Suc limit)) Aggregator st w = (Inr out, w')" "ms_stage st = Some ''verify''"
  shows "ends_in out {[Aggregator], [Aggregator, Respond]}"
proof -
  obtain st1 w1 n1 o1 where s: "aggregator_node env st w = (Inr st1, w1)" "route_after_verdict st1 = Ok n1"
    "run_graph env (Suc limit) n1 st1 w1 = (Inr o1, w')"
    "out = (case o1 of None \<Rightarrow> None | Some (path, final) \<Rightarrow> Some (Aggregator # path, final))"
    using run_step [OF assms(1)] by (auto simp: node_body_def next_node_def)
  have "ms_stage st1 = Some ''verify''" using aggregator_keeps [OF s(1)] assms(2) by simp
  then have "n1 = Respond \<or> n1 = End" using route_verify s(2) by blast
  then have "ends_in o1 {[], [Respond]}"
  proof
    assume "n1 = Respond"
    then have "ends_in o1 {[Respond]}"
      using s(2,3) run_respond [of env limit st1 w1 o1 w'] route_justified [of st1] by simp
    then show ?thesis by (rule ends_in_mono) simp
  next
    assume "n1 = End"
    then show ?thesis using s(3) by (auto simp: ends_in_def)
  qed
  from ends_in_Cons [OF this] show ?thesis by (auto simp: s(4))
qed

lemma run_vuln_check:
  assumes "run_graph env (Suc (Suc (Suc limit))) Vuln_Check st w = (Inr out, w')"
  shows "ends_in out {[Vuln_Check, Aggregator], [Vuln_Check, Aggregator, Respond]}"
proof -
  obtain st1 w1 o1 where s: "vuln_check_node env st w = (Inr st1, w1)"
    "run_graph env (Suc (Suc limit)) Aggregator st1 w1 = (Inr o1, w')"
    "out = (case o1 of None \<Rightarrow> None | Some (path, final) \<Rightarrow> Some (Vuln_Check # path, final))"
    using run_step [OF assms] by (auto simp: node_body_def next_node_def)
  from ends_in_Cons [OF run_aggregator_verify [OF s(2) vuln_check_verifies [OF s(1)]], of Vuln_Check]
  show ?thesis by (simp add: s(3))
qed

lemma run_aggregator:
  assumes "run_graph env (Suc (Suc (Suc (Suc limit)))) Aggregator st w = (Inr out, w')"
  shows "ends_in out ((#) Aggregator ` {[], [Respond], [Vuln_Check, Aggregator], [Vuln_Check, Aggregator, Respond]})"
proof -
  obtain st1 w1 n1 o1 where s: "route_after_verdict st1 = Ok n1"
    "run_graph env (Suc (Suc (Suc limit))) n1 st1 w1 = (Inr o1, w')"
    "out = (case o1 of None \<Rightarrow> None | Some (path, final) \<Rightarrow> Some (Aggregator # path, final))"
    using run_step [OF assms] by (auto simp: node_body_def next_node_def)
  consider "n1 = Respond" | "n1 = Vuln_Check" | "n1 = End" using route_any [OF s(1)] by blast
  then have "ends_in o1 {[], [Respond], [Vuln_Check, Aggregator], [Vuln_Check, Aggregator, Respond]}"
  proof cases
    case 1
    then have "ends_in o1 {[Respond]}"
      using s(1,2) run_respond [of env "Suc (Suc limit)" st1 w1 o1 w'] route_justified [of st1] by simp
    then show ?thesis by (rule ends_in_mono) simp
  next
    case 2
    then have "ends_in o1 {[Vuln_Check, Aggregator], [Vuln_Check, Aggregator, Respond]}"
      using s(2) run_vuln_check [of env limit st1 w1 o1 w'] by simp
    then show ?thesis by (rule ends_in_mono) auto
  next
    case 3
    then show ?thesis using s(2) by (auto simp: ends_in_def)
  qed
  from ends_in_Cons [OF this, of Aggregator] show ?thesis by (simp only: s(3)) simp
qed

text \<open>The seven paths through the graph.\<close>

definition graph_paths :: "node list set" where
  "graph_paths = {[Entry, Orchestrator, Ignore],
     [Entry, Orchestrator, Vuln_Check, Aggregator],
     [Entry, Orchestrator, Vuln_Check, Aggregator, Respond],
     [Entry, Orchestrator, Investigate, Aggregator],
     [Entry, Orchestrator, Investigate, Aggregator, Respond],
     [Entry, Orchestrator, Investigate, Aggregator, Vuln_Check, Aggregator],
     [Entry, Orchestrator, Investigate, Aggregator, Vuln_Check, Aggregator, Respond]}"

lemma run_orchestrator:
  assumes "run_graph env (6 + limit) Orchestrator st w = (Inr out, w')"
  shows "ends_in out (tl ` graph_paths)"
proof -
  have six: "6 + limit = Suc (Suc (Suc (Suc (Suc (Suc limit)))))" by simp
  obtain st1 w1 n1 o1 where s: "n1 = route_decision st1"
    "run_graph env (Suc (Suc (Suc (Suc (Suc limit))))) n1 st1 w1 = (Inr o1, w')"
    "out = (case o1 of None \<Rightarrow> None | Some (path, final) \<Rightarrow> Some (Orchestrator # path, final))"
    using run_step [OF assms [unfolded six]] by (auto simp: node_body_def next_node_def)
  consider "n1 = Ignore" | "n1 = Vuln_Check" | "n1 = Investigate"
    using s(1) by (auto simp: route_decision_def Let_def split: if_splits)
  then have "ends_in o1 ((tl \<circ> tl) ` graph_paths)"
  proof cases
    case 1
    then show ?thesis using run_step [OF s(2)]
      by (auto simp: next_node_def ends_in_def graph_paths_def)
  next
    case 2
    then have "ends_in o1 {[Vuln_Check, Aggregator], [Vuln_Check, Aggregator, Respond]}"
      using s(2) run_vuln_check [of env "Suc (Suc limit)" st1 w1 o1 w'] by simp
    then show ?thesis by (rule ends_in_mono) (simp add: graph_paths_def)
  next
    case 3
    obtain st2 w2 o2 where i: "run_graph env (Suc (Suc (Suc (Suc limit)))) Aggregator st2 w2 = (Inr o2, w')"
      "o1 = (case o2 of None \<Rightarrow> None | Some (path, final) \<Rightarrow> Some (Investigate # path, final))"
      using run_step [OF s(2)] 3 by (auto simp: next_node_def)
    from ends_in_Cons [OF run_aggregator [OF i(1)], of Investigate] show ?thesis
      unfolding i(2) by (rule ends_in_mono) (simp_all add: graph_paths_def)
  qed
  from ends_in_Cons [OF this, of Orchestrator] show ?thesis
    unfolding s(3) by (rule ends_in_mono) (simp_all add: graph_paths_def)
qed

lemma run_main_ends:
  assumes "run_main env event_id text iocs source w = (Inr out, w')"
  shows "ends_in out graph_paths"
proof -
  let ?st = "initial_state event_id text iocs source"
  have "recursion_limit = Suc (6 + 18)" by (simp add: recursion_limit_def)
  with assms have r: "run_graph env (Suc (6 + 18)) Entry ?st w = (Inr out, w')"
    unfolding run_main_def by (simp only:)
  obtain st1 w1 o1 where s: "run_graph env (6 + 18) Orchestrator st1 w1 = (Inr o1, w')"
    "out = (case o1 of None \<Rightarrow> None | Some (path, final) \<Rightarrow> Some (Entry # path, final))"
    using run_step [OF r] by (auto simp: next_node_def)
  from ends_in_Cons [OF run_orchestrator [OF s(1)], of Entry] show ?thesis
    unfolding s(2) by (rule ends_in_mono) (simp_all add: graph_paths_def)
qed

section \<open>Every run ends\<close>

text \<open>No outside call is cancelled, and an investigation reports its confidence as a number.\<close>

definition score_ok :: "pydict \<Rightarrow> bool" where
  "score_ok sub \<longleftrightarrow> num_of (py_or (dget sub ''confidence_score'' (PFloat 0)) (PFloat 0)) \<noteq> None"

definition calm :: "'w graph_env \<Rightarrow> bool" where
  "calm env \<longleftrightarrow> (\<forall>t. uncancelled (ge_triage env t)) \<and> (\<forall>d. uncancelled (ge_investigate env d)) \<and>
     (\<forall>d. uncancelled (ge_vuln_hunt env d)) \<and> (\<forall>d. uncancelled (ge_respond env d)) \<and>
     (\<forall>e n a d. uncancelled (ge_audit env e n a d)) \<and>
     (\<forall>d w r w'. ge_investigate env d w = (Inr r, w') \<longrightarrow> score_ok r)"

definition state_ok :: "main_state \<Rightarrow> bool" where
  "state_ok st \<longleftrightarrow> score_ok (sub_of st) \<and> (\<exists>s. map_of (ms_raw_event st) ''event_id'' = Some (PStr s)) \<and>
     (\<exists>s. map_of (ms_raw_event st) ''sanitized_text'' = Some (PStr s))"

lemma try_audit_returns: "calm env \<Longrightarrow> returns (try_audit env e n a d)"
  by (auto simp: try_audit_def calm_def intro!: io_intros)

lemma audit_then: "calm env \<Longrightarrow> \<exists>w1. io_bind (try_audit env e n a d) (\<lambda>_. io_return x) w = (Inr x, w1)"
  by (rule returnsE [OF try_audit_returns [of env e n a d], of w]) auto

lemma score_ok_verdict: "score_ok ((''final_verdict'', v) # (''confidence_score'', PFloat c) # rest)"
  by (simp add: score_ok_def py_or_def)

lemma investigate_ok:
  assumes "calm env" "state_ok st"
  shows "\<exists>st1 w1. investigate_node env st w = (Inr st1, w1) \<and> state_ok st1"
proof -
  have c: "calm env" by (rule assms(1))
  have *: "returns (investigate_node env st)"
    unfolding investigate_node_def Let_def using c try_audit_returns [OF c]
    by (auto simp: calm_def intro!: io_intros intro: returns_uncancelled)
  then obtain st1 w1 where r: "investigate_node env st w = (Inr st1, w1)" by (rule returnsE)
  have sc: "score_ok r" if "ge_investigate env d v = (Inr r, v')" for d v r v'
    using c that unfolding calm_def by blast
  have "state_ok st1" using r assms(2)
    by (auto simp: investigate_node_def Let_def io_bind_Inr io_try_Inr state_ok_def sub_of_def failed_sub_def
        score_ok_verdict dest!: sc split: if_splits) (auto simp: score_ok_def)
  with r show ?thesis by blast
qed

lemma vuln_check_ok:
  assumes "calm env" "state_ok st"
  shows "\<exists>st1 w1. vuln_check_node env st w = (Inr st1, w1) \<and> state_ok st1"
proof -
  obtain s where s: "map_of (ms_raw_event st) ''sanitized_text'' = Some (PStr s)"
    using assms(2) by (auto simp: state_ok_def)
  have "returns (vuln_check_node env st)"
    unfolding vuln_check_node_def Let_def dget_def s
    using assms(1) try_audit_returns [OF assms(1)]
    by (auto simp: calm_def str_take_def returns_def [of "io_lift _"] intro!: io_intros intro: returns_uncancelled)
  then obtain st1 w1 where r: "vuln_check_node env st w = (Inr st1, w1)" by (rule returnsE)
  then have "state_ok st1" using assms(2)
    by (auto simp: vuln_check_node_def Let_def io_bind_Inr io_try_Inr state_ok_def sub_of_def failed_sub_def
        score_ok_verdict split: if_splits)
  with r show ?thesis by blast
qed

lemma respond_ok:
  assumes "calm env" "state_ok st"
  shows "\<exists>st1 w1. respond_node env st w = (Inr st1, w1) \<and> state_ok st1"
proof -
  have "returns (respond_node env st)"
    unfolding respond_node_def Let_def using assms(1) by (auto simp: calm_def intro!: io_intros)
  then obtain st1 w1 where r: "respond_node env st w = (Inr st1, w1)" by (rule returnsE)
  then have "state_ok st1" using assms(2)
    by (auto simp: respond_node_def Let_def io_bind_Inr io_try_Inr state_ok_def sub_of_def split: if_splits)
  with r show ?thesis by blast
qed

lemma orchestrator_ok:
  assumes "calm env" "state_ok st"
  shows "\<exists>st1 w1. orchestrator_node env st w = (Inr st1, w1) \<and> state_ok st1"
proof -
  have "returns (triage env t)" for t
    unfolding triage_def using assms(1) by (auto simp: calm_def intro!: io_intros)
  then have "returns (orchestrator_node env st)"
    unfolding orchestrator_node_def using try_audit_returns [OF assms(1)] by (auto intro!: io_intros)
  then obtain st1 w1 where r: "orchestrator_node env st w = (Inr st1, w1)" by (rule returnsE)
  then have "state_ok st1" using assms(2)
    by (auto simp: orchestrator_node_def io_bind_Inr state_ok_def sub_of_def)
  with r show ?thesis by blast
qed

lemma node_ok:
  assumes "calm env" "state_ok st"
  shows "\<exists>st1 w1. node_body env n st w = (Inr st1, w1) \<and> state_ok st1"
proof (cases n)
  case Entry
  obtain s where "map_of (ms_raw_event st) ''event_id'' = Some (PStr s)" using assms(2) by (auto simp: state_ok_def)
  then show ?thesis using Entry assms(2) audit_then [OF assms(1)]
    by (fastforce simp: node_body_def entry_node_def dget_def state_ok_def sub_of_def)
next
  case Aggregator
  then show ?thesis using assms(2) audit_then [OF assms(1)]
    by (fastforce simp: node_body_def aggregator_node_def Let_def state_ok_def sub_of_def)
next
  case Ignore
  then show ?thesis using assms(2) by (simp add: node_body_def ignore_node_def state_ok_def sub_of_def)
next
  case Orchestrator
  then show ?thesis using orchestrator_ok [OF assms] by (simp only: node_body_def node.case)
next
  case Investigate
  then show ?thesis using investigate_ok [OF assms] by (simp only: node_body_def node.case)
next
  case Vuln_Check
  then show ?thesis using vuln_check_ok [OF assms] by (simp only: node_body_def node.case)
next
  case Respond
  then show ?thesis using respond_ok [OF assms] by (simp only: node_body_def node.case)
qed (use assms in \<open>simp add: node_body_def\<close>)

lemma next_node_ok: "state_ok st \<Longrightarrow> \<exists>n1. next_node n st = Ok n1"
  by (cases n) (auto simp: next_node_def route_after_verdict_def Let_def num_res_def state_ok_def score_ok_def)

lemma run_graph_returns:
  "calm env \<Longrightarrow> state_ok st \<Longrightarrow> \<exists>out w'. run_graph env limit n st w = (Inr out, w')"
proof (induction limit arbitrary: n st w)
  case 0
  show ?case by (cases n) simp_all
next
  case (Suc limit)
  show ?case
  proof (cases "n = End")
    case False
    obtain st1 w1 where b: "node_body env n st w = (Inr st1, w1)" "state_ok st1"
      using node_ok [OF Suc.prems] by blast
    obtain n1 where n1: "next_node n st1 = Ok n1" using next_node_ok [OF b(2)] by blast
    obtain out w' where "run_graph env limit n1 st1 w1 = (Inr out, w')"
      using Suc.IH [OF Suc.prems(1) b(2)] by blast
    then have "\<exists>o2. run_graph env (Suc limit) n st w = (Inr o2, w')"
      using False b(1) n1 by (cases n) simp_all
    then show ?thesis by blast
  qed simp
qed

section \<open>Properties\<close>

text \<open>C34: whatever the model, the subgraphs and their failures do, a run of the graph ends below the
  engine's step limit on one of seven paths: at most one investigation and one vulnerability
  check, and at most one response, which is last.\<close>

theorem graph_run_ends:
  assumes "calm env"
  shows "\<exists>path st w'. run_main env event_id text iocs source w = (Ok (Some (path, st)), w') \<and>
    path \<in> graph_paths"
proof -
  have "state_ok (initial_state event_id text iocs source)"
    by (simp add: state_ok_def initial_state_def sub_of_def score_ok_def py_or_def)
  then obtain out w' where r: "run_main env event_id text iocs source w = (Ok out, w')"
    using run_graph_returns [OF assms] unfolding run_main_def by blast
  with run_main_ends [OF this] show ?thesis by (auto simp: ends_in_def)
qed

definition toy_graph :: "nat graph_env" where
  "toy_graph = \<lparr>ge_rt = toy_rt, ge_now = [], ge_exn_str = (\<lambda>_. []), ge_fixed2 = (\<lambda>_. []),
     ge_triage = (\<lambda>_. io_return \<lparr>tr_priority = ''high'', tr_tags = [], tr_noise = 0, tr_reasoning = []\<rparr>),
     ge_investigate = (\<lambda>_. io_return [(''final_verdict'', PStr ''true_positive''), (''confidence_score'', PInt 1)]),
     ge_vuln_hunt = (\<lambda>_. io_return []), ge_respond = (\<lambda>_. io_raise TimeoutError),
     ge_audit = (\<lambda>_ _ _ _. io_return ())\<rparr>"

lemma toy_calm: "calm toy_graph"
  by (simp add: calm_def toy_graph_def uncancelled_def score_ok_def py_or_def)

theorem graph_run_ends_witness:
  "\<exists>path st w'. run_main toy_graph ''e'' ''scan'' (PDict []) ''api'' 0 = (Ok (Some (path, st)), w') \<and>
     path \<in> graph_paths"
  by (rule graph_run_ends [OF toy_calm])



text \<open>The honeypot commands are searched as substrings, so \<open>id\<close> inside any word counts as one.\<close>

lemma honeypot_matches_inside_words: "honeypot_rule ''Failed login: invalid password''"
  by (simp add: honeypot_rule_def HONEYPOT_COMMANDS_def py_simps)

end
