(* ===== verification/TaskQueue.thy ===== *)
theory TaskQueue
  imports Prelude
begin

text \<open>
  The task queue, \<open>src/orchestration/task_queue\<close>: envelopes, enqueueing, the dequeue helpers, the
  worker's handling of one entry and the bridge to the scan. The cache server, the task store and
  the scan itself are a \<open>service\<close>: any function from the commands issued so far and the next
  command to its answer. A computation's world is the history of the commands it issued, so every
  behaviour of the services is covered and the effects of a run can be read off its history.
\<close>

section \<open>Keys\<close>

definition STREAM_TASKS :: string where "STREAM_TASKS = ''vulnscan:queue:tasks''"
definition STREAM_DLQ :: string where "STREAM_DLQ = ''vulnscan:queue:dlq''"
definition CONSUMER_GROUP :: string where "CONSUMER_GROUP = ''vulnscan-workers''"
definition STREAM_ASSET_TASKS :: string where "STREAM_ASSET_TASKS = ''assetscan:queue:tasks''"
definition STREAM_ASSET_DLQ :: string where "STREAM_ASSET_DLQ = ''assetscan:queue:dlq''"
definition ASSET_CONSUMER_GROUP :: string where "ASSET_CONSUMER_GROUP = ''asset-scan-workers''"
definition STATUS_TTL_SEC :: int where "STATUS_TTL_SEC = 24 * 3600"

definition status_key :: "string \<Rightarrow> string" where
  "status_key task_id = ''vulnscan:queue:status:'' @ task_id"
definition cancel_key :: "string \<Rightarrow> string" where
  "cancel_key task_id = ''vulnscan:queue:cancel:'' @ task_id"
definition asset_status_key :: "string \<Rightarrow> string" where
  "asset_status_key task_id = ''assetscan:queue:status:'' @ task_id"
definition asset_cancel_key :: "string \<Rightarrow> string" where
  "asset_cancel_key task_id = ''assetscan:queue:cancel:'' @ task_id"

section \<open>Commands and answers\<close>

datatype cmd =
    XGroupCreate string string
  | XReadGroup string string string nat
  | XAdd string pydict "nat option"
  | XAck string string string
  | XAutoClaim string string string nat
  | XPending string string
  | XPendingRange string string string
  | XLen string
  | SetEx string pydict int
  | Exists string
  | SaveTask pydict
  | UpdateTask pyval pydict
  | RunScan pydict

datatype answer =
    A_Done
  | A_Bool bool
  | A_Entries "(string \<times> pydict) list"
  | A_Value pyval
  | A_Err exn

type_synonym service = "cmd list \<Rightarrow> cmd \<Rightarrow> answer"
type_synonym 'a qio = "(cmd list, 'a) io"

definition call :: "service \<Rightarrow> cmd \<Rightarrow> answer qio" where
  "call sv c = (\<lambda>h. (case sv h c of A_Err e \<Rightarrow> Inl e | a \<Rightarrow> Inr a, h @ [c]))"

fun ans_bool :: "answer \<Rightarrow> bool" where
  "ans_bool (A_Bool b) = b" | "ans_bool _ = False"
fun ans_entries :: "answer \<Rightarrow> (string \<times> pydict) list" where
  "ans_entries (A_Entries es) = es" | "ans_entries _ = []"
fun ans_value :: "answer \<Rightarrow> pyval" where
  "ans_value (A_Value v) = v" | "ans_value _ = PNone"

text \<open>The server's own error: its message, for \<open>except ResponseError\<close>.\<close>

definition response_error :: "exn \<Rightarrow> string option" where
  "response_error e = (case e of
     ExtError s \<Rightarrow> if startswith s ''ResponseError:'' then Some (drop 14 s) else None
   | _ \<Rightarrow> None)"

section \<open>Envelopes\<close>

text \<open>A field of an envelope and its default, \<open>None\<close> for a required one.\<close>

definition task_fields :: "(string \<times> pyval option) list" where
  "task_fields =
     [(''task_id'', None), (''source'', None), (''intent_text'', Some PNone), (''targets'', Some (PList [])),
      (''modules'', Some (PList [PStr ''sys_vuln'', PStr ''baseline''])), (''engine'', Some (PStr ''matcher'')),
      (''nuclei_ports'', Some (PList [])), (''nuclei_severity'', Some (PList [])),
      (''nuclei_tags'', Some (PList [])), (''nuclei_templates'', Some (PList [])),
      (''nuclei_timeout_sec'', Some (PInt 0)), (''actor'', Some (PStr [])), (''submitted_at'', Some (PStr [])),
      (''target_groups'', Some (PList [])), (''submitted_by'', Some (PStr []))]"

definition asset_fields :: "(string \<times> pyval option) list" where
  "asset_fields =
     [(''task_id'', None), (''source'', None), (''targets'', Some (PList [])), (''ports'', Some (PList [])),
      (''engine'', Some (PStr ''fast'')),
      (''modules'', Some (PList [PStr ''discovery'', PStr ''fingerprint'', PStr ''cve'', PStr ''nuclei''])),
      (''schedule'', Some (PStr [])), (''actor'', Some (PStr [])), (''submitted_at'', Some (PStr [])),
      (''submitted_by'', Some (PStr []))]"

text \<open>
  Building an envelope from keyword arguments: every field takes the argument or its default, a
  required field without an argument raises. An envelope is the dictionary of its fields.
\<close>

fun build_fields :: "(string \<times> pyval option) list \<Rightarrow> pydict \<Rightarrow> pydict res" where
  "build_fields [] obj = Ok []"
| "build_fields ((f, dflt) # fs) obj =
     (case (map_of obj f, dflt) of
        (Some v, _) \<Rightarrow> rbind (build_fields fs obj) (\<lambda>rest. Ok ((f, v) # rest))
      | (None, Some v) \<Rightarrow> rbind (build_fields fs obj) (\<lambda>rest. Ok ((f, v) # rest))
      | (None, None) \<Rightarrow> Raise TypeError)"

definition from_dict :: "(string \<times> pyval option) list \<Rightarrow> pyval \<Rightarrow> pydict res" where
  "from_dict fs obj = (case obj of
     PDict d \<Rightarrow> build_fields fs (filter (\<lambda>(k, v). k \<in> set (map fst fs)) d)
   | _ \<Rightarrow> Raise AttributeError)"

definition to_json :: "(pyval \<Rightarrow> string) \<Rightarrow> pydict \<Rightarrow> string" where
  "to_json dumps env = dumps (PDict env)"

definition from_json ::
    "(string \<Rightarrow> pyval res) \<Rightarrow> (string \<times> pyval option) list \<Rightarrow> string \<Rightarrow> pydict res" where
  "from_json loads fs raw = rbind (loads raw) (from_dict fs)"

section \<open>Enqueueing\<close>

definition env_str :: "pydict \<Rightarrow> string \<Rightarrow> string" where
  "env_str env k = (case dget env k PNone of PStr s \<Rightarrow> s | _ \<Rightarrow> [])"

definition entry_payload :: "(pyval \<Rightarrow> string) \<Rightarrow> pydict \<Rightarrow> pydict" where
  "entry_payload dumps env =
     [(''envelope'', PStr (to_json dumps env)), (''task_id'', dget env ''task_id'' PNone),
      (''engine'', dget env ''engine'' PNone)]"

definition or_default :: "'a list option \<Rightarrow> 'a list \<Rightarrow> 'a list" where
  "or_default v d = (case v of Some (x # xs) \<Rightarrow> x # xs | _ \<Rightarrow> d)"

text \<open>The caller's arguments; \<open>now\<close>, \<open>host\<close> and \<open>uuid\<close> are the clock, the host name and a fresh id.\<close>

record enqueue_args =
  q_source :: string
  q_targets :: "pyval list option"
  q_intent :: pyval
  q_modules :: "pyval list option"
  q_engine :: string
  q_severity :: "pyval list option"
  q_ports :: "pyval list option"
  q_tags :: "pyval list option"
  q_templates :: "pyval list option"
  q_timeout :: int
  q_actor :: string
  q_task_id :: "string option"
  q_groups :: "pyval list option"

definition task_id_or :: "string option \<Rightarrow> string \<Rightarrow> string" where
  "task_id_or tid uuid = (case tid of Some (c # cs) \<Rightarrow> c # cs | _ \<Rightarrow> uuid)"

definition make_envelope :: "string \<Rightarrow> string \<Rightarrow> string \<Rightarrow> enqueue_args \<Rightarrow> pydict" where
  "make_envelope uuid now host a =
     [(''task_id'', PStr (task_id_or (q_task_id a) uuid)), (''source'', PStr (q_source a)),
      (''intent_text'', q_intent a), (''targets'', PList (or_default (q_targets a) [])),
      (''modules'', PList (or_default (q_modules a) [PStr ''sys_vuln'', PStr ''baseline''])),
      (''engine'', PStr (q_engine a)), (''nuclei_ports'', PList (or_default (q_ports a) [])),
      (''nuclei_severity'', PList (or_default (q_severity a) [])),
      (''nuclei_tags'', PList (or_default (q_tags a) [])),
      (''nuclei_templates'', PList (or_default (q_templates a) [])),
      (''nuclei_timeout_sec'', PInt (q_timeout a)), (''actor'', PStr (q_actor a)),
      (''submitted_at'', PStr now), (''target_groups'', PList (or_default (q_groups a) [])),
      (''submitted_by'', PStr host)]"

definition enqueue_task ::
    "service \<Rightarrow> (pyval \<Rightarrow> string) \<Rightarrow> string \<Rightarrow> string \<Rightarrow> string \<Rightarrow> enqueue_args \<Rightarrow> pydict qio" where
  "enqueue_task sv dumps uuid now host a =
     (let env = make_envelope uuid now host a in
      io_bind (call sv (XAdd STREAM_TASKS (entry_payload dumps env) (Some 10000))) (\<lambda>_.
      io_bind (io_try (call sv (SetEx (status_key (env_str env ''task_id''))
          [(''status'', PStr ''queued''), (''actor'', PStr (q_actor a)), (''source'', PStr (q_source a)),
           (''targets'', PList (or_default (q_targets a) [])), (''submitted_at'', PStr now)]
          STATUS_TTL_SEC)) (\<lambda>e. io_return A_Done)) (\<lambda>_.
      io_return env)))"

text \<open>An asset scan: the task record is written before the entry, so a worker finds it.\<close>

definition make_asset_envelope ::
    "string \<Rightarrow> string \<Rightarrow> string \<Rightarrow> string \<Rightarrow> pyval list \<Rightarrow> pyval list option \<Rightarrow> string \<Rightarrow> pyval list option \<Rightarrow>
     string \<Rightarrow> string \<Rightarrow> string option \<Rightarrow> pydict" where
  "make_asset_envelope uuid now host source targets ports engine modules schedule actor tid =
     [(''task_id'', PStr (task_id_or tid uuid)), (''source'', PStr source), (''targets'', PList targets),
      (''ports'', PList (or_default ports [])), (''engine'', PStr engine),
      (''modules'', PList (or_default modules
         [PStr ''discovery'', PStr ''fingerprint'', PStr ''cve'', PStr ''nuclei''])),
      (''schedule'', PStr schedule), (''actor'', PStr actor), (''submitted_at'', PStr now),
      (''submitted_by'', PStr host)]"

definition enqueue_asset_task :: "service \<Rightarrow> (pyval \<Rightarrow> string) \<Rightarrow> string \<Rightarrow> pydict \<Rightarrow> pydict qio" where
  "enqueue_asset_task sv dumps now env =
     (let g = (\<lambda>k. dget env k PNone) in
      io_bind (io_try (call sv (SaveTask
        [(''task_id'', g ''task_id''), (''source'', g ''source''), (''targets'', g ''targets''),
         (''ports'', g ''ports''), (''engine'', g ''engine''), (''modules'', g ''modules''),
         (''schedule'', g ''schedule''), (''actor'', g ''actor''), (''status'', PStr ''queued''),
         (''created_at'', PStr now), (''updated_at'', PStr now)])) (\<lambda>e. io_return A_Done)) (\<lambda>_.
      io_bind (call sv (XAdd STREAM_ASSET_TASKS (entry_payload dumps env) (Some 10000))) (\<lambda>_.
      io_bind (io_try (call sv (SetEx (asset_status_key (env_str env ''task_id''))
          [(''status'', PStr ''queued''), (''actor'', g ''actor''), (''source'', g ''source''),
           (''targets'', g ''targets''), (''engine'', g ''engine''), (''submitted_at'', g ''submitted_at'')]
          STATUS_TTL_SEC)) (\<lambda>e. io_return A_Done)) (\<lambda>_.
      io_return env))))"

section \<open>Dequeueing\<close>

definition MAX_DELIVERY :: int where "MAX_DELIVERY = 3"
definition STALE_CLAIM_MIN_IDLE_MS :: nat where "STALE_CLAIM_MIN_IDLE_MS = 3600000"

text \<open>\<open>x or default\<close> for an optional stream, group or dead-letter stream.\<close>

definition name_or :: "string option \<Rightarrow> string \<Rightarrow> string" where
  "name_or v d = (case v of Some (c # cs) \<Rightarrow> c # cs | _ \<Rightarrow> d)"

definition ensure_group :: "service \<Rightarrow> string option \<Rightarrow> string option \<Rightarrow> unit qio" where
  "ensure_group sv stream grp =
     io_try (io_bind (call sv (XGroupCreate (name_or stream STREAM_TASKS) (name_or grp CONSUMER_GROUP)))
               (\<lambda>_. io_return ()))
       (\<lambda>e. case response_error e of
          None \<Rightarrow> io_raise e
        | Some msg \<Rightarrow> if str_in ''BUSYGROUP'' msg then io_return () else io_raise e)"

definition read_message_blocking ::
    "service \<Rightarrow> string \<Rightarrow> nat \<Rightarrow> string option \<Rightarrow> string option \<Rightarrow> (string \<times> pydict) option qio" where
  "read_message_blocking sv consumer block_ms stream grp =
     io_bind (call sv (XReadGroup (name_or stream STREAM_TASKS) (name_or grp CONSUMER_GROUP) consumer block_ms))
       (\<lambda>a. io_return (case ans_entries a of [] \<Rightarrow> None | e # _ \<Rightarrow> Some e))"

definition ack_message :: "service \<Rightarrow> string \<Rightarrow> string option \<Rightarrow> string option \<Rightarrow> unit qio" where
  "ack_message sv entry_id stream grp =
     io_try (io_bind (call sv (XAck (name_or stream STREAM_TASKS) (name_or grp CONSUMER_GROUP) entry_id))
               (\<lambda>_. io_return ()))
       (\<lambda>e. io_return ())"

definition claim_stale_in_stream ::
    "service \<Rightarrow> string \<Rightarrow> string \<Rightarrow> string \<Rightarrow> nat \<Rightarrow> (string \<times> pydict) option qio" where
  "claim_stale_in_stream sv stream grp consumer min_idle =
     io_try (io_bind (call sv (XAutoClaim stream grp consumer min_idle))
               (\<lambda>a. io_return (case ans_entries a of [] \<Rightarrow> None | e # _ \<Rightarrow> Some e)))
       (\<lambda>e. if response_error e \<noteq> None then io_return None else io_raise e)"

definition claim_stale ::
    "service \<Rightarrow> string \<Rightarrow> nat \<Rightarrow> string option \<Rightarrow> string option \<Rightarrow> (string \<times> pydict) option qio" where
  "claim_stale sv consumer min_idle stream grp =
     claim_stale_in_stream sv (name_or stream STREAM_TASKS) (name_or grp CONSUMER_GROUP) consumer min_idle"

text \<open>The batch loop; \<open>room\<close> is how many more entries it may claim.\<close>

fun claim_batch_loop ::
    "service \<Rightarrow> string \<Rightarrow> string \<Rightarrow> string \<Rightarrow> nat \<Rightarrow> nat \<Rightarrow> (string \<times> pydict) list \<Rightarrow>
     (string \<times> pydict) list qio" where
  "claim_batch_loop sv stream grp consumer min_idle 0 claimed = io_return claimed"
| "claim_batch_loop sv stream grp consumer min_idle (Suc room) claimed =
     io_bind (claim_stale_in_stream sv stream grp consumer min_idle) (\<lambda>r.
     case r of
       None \<Rightarrow> io_return claimed
     | Some (entry_id, payload) \<Rightarrow>
         if entry_id \<in> fst ` set claimed then io_return claimed
         else claim_batch_loop sv stream grp consumer min_idle room (claimed @ [(entry_id, payload)]))"

definition claim_stale_batch ::
    "service \<Rightarrow> string \<Rightarrow> string \<Rightarrow> string \<Rightarrow> nat \<Rightarrow> nat \<Rightarrow> (string \<times> pydict) list qio" where
  "claim_stale_batch sv stream grp consumer min_idle max_claims =
     claim_batch_loop sv stream grp consumer min_idle max_claims []"

definition pending_count :: "service \<Rightarrow> string option \<Rightarrow> string option \<Rightarrow> int qio" where
  "pending_count sv stream grp =
     io_try
       (io_bind (call sv (XPending (name_or stream STREAM_TASKS) (name_or grp CONSUMER_GROUP))) (\<lambda>a.
        case ans_value a of
          PDict d \<Rightarrow> io_lift (py_int (dget d ''pending'' (PInt 0)))
        | PList (x # _) \<Rightarrow> io_lift (py_int (py_or x (PInt 0)))
        | _ \<Rightarrow> io_return 0))
       (\<lambda>e. io_return 0)"

definition stream_depth :: "service \<Rightarrow> string option \<Rightarrow> int qio" where
  "stream_depth sv stream =
     io_try (io_bind (call sv (XLen (name_or stream STREAM_TASKS))) (\<lambda>a. io_lift (py_int (ans_value a))))
       (\<lambda>e. io_return 0)"

definition dlq_fields :: "pyrt \<Rightarrow> string \<Rightarrow> pydict \<Rightarrow> string \<Rightarrow> pydict" where
  "dlq_fields rt entry_id payload reason =
     fold (\<lambda>(k, v) d. AList.update k (PStr (if v = PNone then [] else py_str rt v)) d) payload
       [(''original_id'', PStr entry_id), (''dlq_reason'', PStr reason)]"

definition move_to_dlq ::
    "service \<Rightarrow> pyrt \<Rightarrow> string \<Rightarrow> pydict \<Rightarrow> string \<Rightarrow> string option \<Rightarrow> string option \<Rightarrow> string option \<Rightarrow> unit qio" where
  "move_to_dlq sv rt entry_id payload reason stream grp dlq =
     io_try
       (io_bind (call sv (XAdd (name_or dlq STREAM_DLQ) (dlq_fields rt entry_id payload reason) None)) (\<lambda>_.
        io_bind (call sv (XAck (name_or stream STREAM_TASKS) (name_or grp CONSUMER_GROUP) entry_id)) (\<lambda>_.
        io_return ())))
       (\<lambda>e. io_return ())"

definition delivery_count :: "service \<Rightarrow> string \<Rightarrow> string option \<Rightarrow> string option \<Rightarrow> int qio" where
  "delivery_count sv entry_id stream grp =
     io_bind (io_try (io_bind (call sv (XPendingRange (name_or stream STREAM_TASKS)
                (name_or grp CONSUMER_GROUP) entry_id)) (\<lambda>a. io_return (ans_value a)))
         (\<lambda>e. if response_error e \<noteq> None then io_return PNone else io_raise e)) (\<lambda>info.
     case info of
       PList (PDict d # _) \<Rightarrow>
         (case py_int (dget d ''times_delivered'' (PInt 0)) of
            Inr n \<Rightarrow> io_return n
          | Inl e \<Rightarrow> if e = TypeError then io_return 0 else io_raise e)
     | _ \<Rightarrow> io_return 0)"

section \<open>The worker\<close>

record worker =
  wk_stream :: string
  wk_group :: string
  wk_dlq :: string
  wk_consumer :: string
  wk_block_ms :: nat
  wk_fields :: "(string \<times> pyval option) list"
  wk_runner :: "pydict \<Rightarrow> unit qio"

text \<open>One entry: run it and acknowledge it, or leave it pending, or move it aside.\<close>

definition worker_process ::
    "service \<Rightarrow> pyrt \<Rightarrow> (string \<Rightarrow> pyval res) \<Rightarrow> (exn \<Rightarrow> string) \<Rightarrow> worker \<Rightarrow> string \<Rightarrow> pydict \<Rightarrow> unit qio" where
  "worker_process sv rt loads exn_str wk entry_id payload =
     (let raw = dget payload ''envelope'' PNone in
      if \<not> truthy raw then move_to_dlq sv rt entry_id payload ''envelope_missing'' None None None
      else case (case raw of PStr s \<Rightarrow> from_json loads (wk_fields wk) s | _ \<Rightarrow> Raise TypeError) of
        Inl e \<Rightarrow>
          if is_Exception e
          then move_to_dlq sv rt entry_id payload (''parse:'' @ exn_str e)
                 (Some (wk_stream wk)) (Some (wk_group wk)) (Some (wk_dlq wk))
          else io_raise e
      | Inr env \<Rightarrow>
          io_try
            (io_bind (wk_runner wk env) (\<lambda>_. ack_message sv entry_id (Some (wk_stream wk)) (Some (wk_group wk))))
            (\<lambda>e. io_bind (delivery_count sv entry_id (Some (wk_stream wk)) (Some (wk_group wk))) (\<lambda>attempts.
                 if attempts \<ge> MAX_DELIVERY
                 then move_to_dlq sv rt entry_id payload (''max_delivery:'' @ exn_str e)
                        (Some (wk_stream wk)) (Some (wk_group wk)) (Some (wk_dlq wk))
                 else io_return ())))"

fun claim_loop ::
    "service \<Rightarrow> (string \<Rightarrow> pydict \<Rightarrow> unit qio) \<Rightarrow> worker \<Rightarrow> nat \<Rightarrow> unit qio" where
  "claim_loop sv process wk 0 = io_return ()"
| "claim_loop sv process wk (Suc n) =
     io_bind (claim_stale sv (wk_consumer wk) STALE_CLAIM_MIN_IDLE_MS (Some (wk_stream wk)) (Some (wk_group wk))) (\<lambda>r.
     case r of
       None \<Rightarrow> io_return ()
     | Some (entry_id, payload) \<Rightarrow>
         io_bind (process entry_id payload) (\<lambda>_. claim_loop sv process wk n))"

text \<open>The delay before the next restart, after a crash with or without a healthy stretch before it.\<close>

definition retry_delay :: "rat \<Rightarrow> bool \<Rightarrow> rat" where
  "retry_delay backoff was_healthy = (if was_healthy then 1 else backoff)"

definition next_backoff :: "rat \<Rightarrow> bool \<Rightarrow> rat" where
  "next_backoff backoff was_healthy = min 30 (retry_delay backoff was_healthy * 2)"

fun retry_delays :: "rat \<Rightarrow> bool list \<Rightarrow> rat list" where
  "retry_delays backoff [] = []"
| "retry_delays backoff (h # hs) = retry_delay backoff h # retry_delays (next_backoff backoff h) hs"

section \<open>Running a scan\<close>

definition status_payload :: "string \<Rightarrow> string \<Rightarrow> string \<Rightarrow> string \<Rightarrow> pydict" where
  "status_payload status worker now error =
     [(''status'', PStr status), (''worker'', PStr worker), (''ts'', PStr now)] @
     (if error \<noteq> [] then [(''error'', PStr (take 500 error))] else [])"

definition set_status_cmd :: "pydict \<Rightarrow> string \<Rightarrow> string \<Rightarrow> string \<Rightarrow> string \<Rightarrow> cmd" where
  "set_status_cmd env status worker now error =
     SetEx (status_key (env_str env ''task_id'')) (status_payload status worker now error) STATUS_TTL_SEC"

definition try_call :: "service \<Rightarrow> cmd \<Rightarrow> unit qio" where
  "try_call sv c = io_try (io_bind (call sv c) (\<lambda>_. io_return ())) (\<lambda>e. io_return ())"

definition run_scan_body :: "service \<Rightarrow> string \<Rightarrow> string \<Rightarrow> pydict \<Rightarrow> pydict qio" where
  "run_scan_body sv worker now env =
     (let tid = env_str env ''task_id'' in
      io_bind (call sv (Exists (cancel_key tid))) (\<lambda>c.
      if ans_bool c then
        io_bind (call sv (set_status_cmd env ''cancelled'' worker now [])) (\<lambda>_.
        io_return [(''task_id'', PStr tid), (''status'', PStr ''cancelled'')])
      else
        io_bind (try_call sv (set_status_cmd env ''running'' worker now [])) (\<lambda>_.
        io_bind (call sv (RunScan env)) (\<lambda>a.
        let result = (case ans_value a of PDict d \<Rightarrow> d | _ \<Rightarrow> []) in
        io_bind (if dget result ''status'' PNone = PStr ''cancelled'' then io_return True
                 else io_bind (call sv (Exists (cancel_key tid))) (\<lambda>c2. io_return (ans_bool c2))) (\<lambda>cancelled.
        io_bind (try_call sv (set_status_cmd env (if cancelled then ''cancelled'' else ''completed'') worker now []))
          (\<lambda>_. io_return result))))))"

definition run_vulnscan_from_envelope ::
    "service \<Rightarrow> (exn \<Rightarrow> string) \<Rightarrow> string \<Rightarrow> string \<Rightarrow> pydict \<Rightarrow> pydict qio" where
  "run_vulnscan_from_envelope sv exn_str worker now env =
     io_try (run_scan_body sv worker now env) (\<lambda>e.
       io_bind (try_call sv (UpdateTask (dget env ''task_id'' PNone)
         [(''status'', PStr ''failed''), (''error'', PStr (take 500 (exn_str e))), (''finished_at'', PStr now)])) (\<lambda>_.
       io_bind (try_call sv (set_status_cmd env ''failed'' worker now (exn_str e))) (\<lambda>_.
       io_raise e)))"

section \<open>Facts\<close>

lemma call_simps:
  "call sv c h = (case sv h c of A_Err e \<Rightarrow> Inl e | a \<Rightarrow> Inr a, h @ [c])"
  by (simp add: call_def)

lemma call_ok: "\<forall>e. sv h c \<noteq> A_Err e \<Longrightarrow> call sv c h = (Inr (sv h c), h @ [c])"
  by (cases "sv h c") (simp_all add: call_def)

lemma call_err: "sv h c = A_Err e \<Longrightarrow> call sv c h = (Inl e, h @ [c])"
  by (simp add: call_def)

lemma name_or_Some [simp]: "x \<noteq> [] \<Longrightarrow> name_or (Some x) d = x"
  by (cases x) (simp_all add: name_or_def)

lemma name_or_None [simp]: "name_or None d = d"
  by (simp add: name_or_def)

lemma move_to_dlq_trace:
  assumes "st \<noteq> []" "g \<noteq> []" "dlq \<noteq> []"
  shows "let add = XAdd dlq (dlq_fields rt i payload reason) None in
    snd (move_to_dlq sv rt i payload reason (Some st) (Some g) (Some dlq) h) =
      (case sv h add of A_Err e \<Rightarrow> h @ [add] | _ \<Rightarrow> h @ [add, XAck st g i])"
  using assms
  by (cases "sv h (XAdd dlq (dlq_fields rt i payload reason) None)";
      cases "sv (h @ [XAdd dlq (dlq_fields rt i payload reason) None]) (XAck st g i)")
    (simp_all add: move_to_dlq_def io_try_def io_bind_def call_def)

lemma ack_trace:
  "st \<noteq> [] \<Longrightarrow> g \<noteq> [] \<Longrightarrow> snd (ack_message sv i (Some st) (Some g) h) = h @ [XAck st g i]"
  by (cases "sv h (XAck st g i)") (simp_all add: ack_message_def io_try_def io_bind_def call_def)

lemma delivery_count_trace:
  "st \<noteq> [] \<Longrightarrow> g \<noteq> [] \<Longrightarrow> snd (delivery_count sv i (Some st) (Some g) h) = h @ [XPendingRange st g i]"
  by (cases "sv h (XPendingRange st g i)")
    (auto simp: delivery_count_def io_try_def io_bind_def call_def split: sum.splits pyval.splits list.splits)

lemma build_fields_self:
  assumes "distinct (map fst fs)" "list_all (\<lambda>f. map_of obj (fst f) \<noteq> None) fs"
  shows "build_fields fs obj = Ok (map (\<lambda>f. (fst f, the (map_of obj (fst f)))) fs)"
  using assms by (induction fs) (auto split: option.splits)

lemma map_of_filter_key: "P k \<Longrightarrow> map_of (filter (\<lambda>(k, v). P k) d) k = map_of d k"
  by (induction d) auto

lemma map_the_map_of: "distinct (map fst d) \<Longrightarrow> map (\<lambda>k. (k, the (map_of (d @ extra) k))) (map fst d) = d"
proof (induction d rule: rev_induct)
  case (snoc x d)
  have "map (\<lambda>k. (k, the (map_of ((d @ [x]) @ extra) k))) (map fst d) = d"
    using snoc by (intro trans [OF map_cong snoc.IH]) (auto simp: map_add_def split: option.splits)
  moreover have "map_of d (fst x) = None" using snoc.prems by (auto simp: map_of_eq_None_iff)
  ultimately show ?case by (cases x) (simp add: map_add_def)
qed simp

lemma from_dict_known:
  assumes "map fst env = map fst fs" "distinct (map fst fs)"
  shows "from_dict fs (PDict (env @ extra)) = Ok env"
proof -
  let ?obj = "filter (\<lambda>(k, v). k \<in> set (map fst fs)) (env @ extra)"
  have look: "k \<in> set (map fst fs) \<Longrightarrow> map_of ?obj k = map_of (env @ extra) k" for k
    by (rule map_of_filter_key)
  have have_all: "list_all (\<lambda>f. map_of ?obj (fst f) \<noteq> None) fs"
  proof (simp only: list_all_iff, intro ballI)
    fix f assume f: "f \<in> set fs"
    then have k: "fst f \<in> set (map fst fs)" by simp
    then have "fst f \<in> set (map fst env)" by (simp only: assms(1))
    then show "map_of ?obj (fst f) \<noteq> None"
      unfolding look [OF k] by (simp add: map_add_def map_of_eq_None_iff split: option.splits)
  qed
  have "from_dict fs (PDict (env @ extra)) = Ok (map (\<lambda>f. (fst f, the (map_of ?obj (fst f)))) fs)"
    unfolding from_dict_def by (simp only: pyval.case build_fields_self [OF assms(2) have_all])
  also have "map (\<lambda>f. (fst f, the (map_of ?obj (fst f)))) fs =
      map (\<lambda>k. (k, the (map_of ?obj k))) (map fst fs)"
    by (simp del: filter_append map_of_append)
  also have "\<dots> = map (\<lambda>k. (k, the (map_of (env @ extra) k))) (map fst fs)"
    by (rule map_cong [OF refl]) (simp only: look)
  also have "\<dots> = env"
    using map_the_map_of [of env extra] assms by simp
  finally show ?thesis .
qed

lemma claim_stale_trace: "snd (claim_stale_in_stream sv st g c m h) = h @ [XAutoClaim st g c m]"
  by (cases "sv h (XAutoClaim st g c m)")
    (simp_all add: claim_stale_in_stream_def io_try_def io_bind_def call_def)

lemma claim_batch_loop_spec:
  assumes "distinct (map fst claimed)"
  shows "length (snd (claim_batch_loop sv st g c m room claimed h)) \<le> length h + room \<and>
    (\<forall>es. fst (claim_batch_loop sv st g c m room claimed h) = Inr es \<longrightarrow>
       distinct (map fst es) \<and> length es \<le> length claimed + room)"
  using assms
proof (induction room arbitrary: claimed h)
  case (Suc room)
  obtain r h1 where r: "claim_stale_in_stream sv st g c m h = (r, h1)" by fastforce
  have h1: "length h1 = length h + 1" using claim_stale_trace [of sv st g c m h] r by simp
  show ?case
  proof (cases r)
    case (Inl e)
    then show ?thesis using r h1 by (simp add: io_bind_def)
  next
    case (Inr o1)
    show ?thesis
    proof (cases o1)
      case None
      then show ?thesis using r h1 Inr Suc.prems by (simp add: io_bind_def)
    next
      case (Some ep)
      obtain i p where ep: "ep = (i, p)" by fastforce
      show ?thesis
      proof (cases "i \<in> fst ` set claimed")
        case True
        then show ?thesis using r h1 Inr Some ep Suc.prems by (simp add: io_bind_def)
      next
        case False
        then have "distinct (map fst (claimed @ [(i, p)]))" using Suc.prems by auto
        from Suc.IH [OF this, of h1] show ?thesis using r h1 Inr Some ep False by (auto simp: io_bind_def)
      qed
    qed
  qed
qed simp

lemma retry_delays_bounded:
  "1 \<le> b \<Longrightarrow> b \<le> 30 \<Longrightarrow> \<forall>d \<in> set (retry_delays b hs). 1 \<le> d \<and> d \<le> 30"
proof (induction hs arbitrary: b)
  case (Cons h hs)
  have d: "1 \<le> retry_delay b h" "retry_delay b h \<le> 30"
    using Cons.prems by (cases h; simp add: retry_delay_def)+
  then have "1 \<le> next_backoff b h" "next_backoff b h \<le> 30"
    unfolding next_backoff_def by linarith+
  then show ?case using Cons.IH [of "next_backoff b h"] d by simp
qed simp

lemma try_call_trace: "snd (try_call sv c h) = h @ [c]"
  by (cases "sv h c") (simp_all add: try_call_def io_try_def io_bind_def call_def)

lemma try_call_cases: "fst (try_call sv c h) = Inr () \<or> fst (try_call sv c h) = Inl CancelledError"
  by (cases "sv h c") (simp_all add: try_call_def io_try_def io_bind_def call_def is_Exception_def)

lemma ack_quiet: "fst (ack_message sv i st g h) = Inr () \<or> fst (ack_message sv i st g h) = Inl CancelledError"
  by (cases "sv h (XAck (name_or st STREAM_TASKS) (name_or g CONSUMER_GROUP) i)")
    (simp_all add: ack_message_def io_try_def io_bind_def call_def is_Exception_def)

lemma call_trace: "snd (call sv c h) = h @ [c]"
  by (simp add: call_def)

text \<open>The status an outcome of a scan must have written last.\<close>

fun final_statuses :: "(exn \<Rightarrow> string) \<Rightarrow> string \<Rightarrow> string \<Rightarrow> pydict \<Rightarrow> pydict res \<Rightarrow> cmd set" where
  "final_statuses es worker now env (Inr r) =
     {set_status_cmd env ''cancelled'' worker now [], set_status_cmd env ''completed'' worker now []}"
| "final_statuses es worker now env (Inl e) =
     (if e = CancelledError then UNIV else {set_status_cmd env ''failed'' worker now (es e)})"

lemma run_scan_body_ok:
  assumes "run_scan_body sv worker now env h = (Inr r, h')"
  shows "last h' \<in> final_statuses es worker now env (Inr r)"
proof -
  have tc: "try_call sv c h1 = (x, h2) \<Longrightarrow> h2 = h1 @ [c]" for c h1 x h2
    using try_call_trace [of sv c h1] by simp
  have ca: "call sv c h1 = (x, h2) \<Longrightarrow> h2 = h1 @ [c]" for c h1 x h2
    using call_trace [of sv c h1] by simp
  show ?thesis using assms
    by (auto simp: run_scan_body_def Let_def io_bind_Inr split: if_splits dest!: tc ca)
qed

lemma run_scan_body_skips:
  assumes "sv h (Exists (cancel_key (env_str env ''task_id''))) = A_Bool True"
  shows "snd (run_scan_body sv worker now env h) =
     h @ [Exists (cancel_key (env_str env ''task_id'')), set_status_cmd env ''cancelled'' worker now []]"
  using assms
  by (cases "sv (h @ [Exists (cancel_key (env_str env ''task_id''))]) (set_status_cmd env ''cancelled'' worker now [])")
    (simp_all add: run_scan_body_def io_bind_def call_def Let_def)

text \<open>What a run that raised does after its body.\<close>

lemma run_failed:
  fixes es :: "exn \<Rightarrow> string" and now :: string
  assumes "run_scan_body sv worker now env h = (Inl e, h1)" "e \<noteq> CancelledError"
  defines "upd \<equiv> UpdateTask (dget env ''task_id'' PNone)
      [(''status'', PStr ''failed''), (''error'', PStr (take 500 (es e))), (''finished_at'', PStr now)]"
  defines "failed \<equiv> set_status_cmd env ''failed'' worker now (es e)"
  shows "run_vulnscan_from_envelope sv es worker now env h = (Inl CancelledError, h1 @ [upd]) \<or>
    run_vulnscan_from_envelope sv es worker now env h = (Inl CancelledError, h1 @ [upd, failed]) \<or>
    run_vulnscan_from_envelope sv es worker now env h = (Inl e, h1 @ [upd, failed])"
proof -
  obtain x1 where t1: "try_call sv upd h1 = (x1, h1 @ [upd])" "x1 = Inr () \<or> x1 = Inl CancelledError"
    using try_call_cases [of sv upd h1] try_call_trace [of sv upd h1] by (metis prod.collapse)
  obtain x2 where t2: "try_call sv failed (h1 @ [upd]) = (x2, h1 @ [upd, failed])"
      "x2 = Inr () \<or> x2 = Inl CancelledError"
    using try_call_cases [of sv failed "h1 @ [upd]"] try_call_trace [of sv failed "h1 @ [upd]"]
    by (metis append.assoc append_Cons append_Nil prod.collapse)
  show ?thesis
    using t1(2) t2(2)
    by (elim disjE)
      (simp_all add: run_vulnscan_from_envelope_def is_Exception_def io_try_def io_bind_def assms(1,2)
         t1(1) [unfolded upd_def] t2(1) [unfolded upd_def failed_def] upd_def failed_def)
qed

lemma run_trace:
  obtains t where "snd (run_vulnscan_from_envelope sv es worker now env h) =
      snd (run_scan_body sv worker now env h) @ t" "RunScan env \<notin> set t"
proof (cases "run_scan_body sv worker now env h")
  case (Pair r h1)
  show ?thesis
  proof (cases r)
    case (Inr x)
    then have "run_vulnscan_from_envelope sv es worker now env h = (Inr x, h1)"
      using Pair by (simp add: run_vulnscan_from_envelope_def)
    then show ?thesis using that [of "[]"] Pair by simp
  next
    case (Inl e)
    show ?thesis
    proof (cases "e = CancelledError")
      case True
      then have "run_vulnscan_from_envelope sv es worker now env h = (Inl e, h1)"
        using Pair Inl by (simp add: run_vulnscan_from_envelope_def is_Exception_def)
      then show ?thesis using that [of "[]"] Pair by simp
    next
      case False
      from run_failed [OF Pair [unfolded Inl] False, of es] show ?thesis
        using that Pair by (auto simp: set_status_cmd_def)
    qed
  qed
qed

text \<open>A finished scan leaves a terminal status: the last command of a run that returned reports
  \<open>cancelled\<close> or \<open>completed\<close>, of one that raised \<open>failed\<close> with its error (unless the run itself was
  cancelled); and a task whose tombstone is present is never scanned.\<close>

theorem scan_status_terminal:
  assumes "run_vulnscan_from_envelope sv es worker now env h = (r, h')"
  shows "last h' \<in> final_statuses es worker now env r \<and>
    (sv h (Exists (cancel_key (env_str env ''task_id''))) = A_Bool True \<longrightarrow>
      RunScan env \<notin> set (drop (length h) h'))"
proof (rule conjI)
  obtain x h1 where b: "run_scan_body sv worker now env h = (x, h1)" by fastforce
  show "last h' \<in> final_statuses es worker now env r"
  proof (cases x)
    case (Inr y)
    then show ?thesis using assms b run_scan_body_ok [OF b [unfolded Inr], of es]
      by (auto simp: run_vulnscan_from_envelope_def)
  next
    case (Inl e)
    show ?thesis
    proof (cases "e = CancelledError")
      case True
      then show ?thesis using assms b Inl by (auto simp: run_vulnscan_from_envelope_def is_Exception_def)
    next
      case False
      from run_failed [OF b [unfolded Inl] False, of es] show ?thesis using assms by auto
    qed
  qed
  show "sv h (Exists (cancel_key (env_str env ''task_id''))) = A_Bool True \<longrightarrow>
      RunScan env \<notin> set (drop (length h) h')"
  proof
    assume "sv h (Exists (cancel_key (env_str env ''task_id''))) = A_Bool True"
    then have "snd (run_scan_body sv worker now env h) =
        h @ [Exists (cancel_key (env_str env ''task_id'')), set_status_cmd env ''cancelled'' worker now []]"
      by (rule run_scan_body_skips)
    then obtain t where
      "h' = (h @ [Exists (cancel_key (env_str env ''task_id'')), set_status_cmd env ''cancelled'' worker now []]) @ t"
      "RunScan env \<notin> set t"
      using run_trace [of sv es worker now env h] assms by (metis snd_conv)
    then show "RunScan env \<notin> set (drop (length h) h')" by (simp add: set_status_cmd_def)
  qed
qed

definition toy_service :: service where
  "toy_service h c = (case c of Exists _ \<Rightarrow> A_Bool True | _ \<Rightarrow> A_Done)"

theorem scan_status_terminal_witness:
  "set_status_cmd [] ''cancelled'' ''w1'' ''now'' [] \<in> final_statuses (\<lambda>e. []) ''w1'' ''now'' [] (Inr [])
     \<and> RunScan [] \<notin> set (drop 0 [Exists (cancel_key []), set_status_cmd [] ''cancelled'' ''w1'' ''now'' []])"
proof -
  have "run_vulnscan_from_envelope toy_service (\<lambda>e. []) ''w1'' ''now'' [] [] =
      (Inr [(''task_id'', PStr []), (''status'', PStr ''cancelled'')],
       [Exists (cancel_key []), set_status_cmd [] ''cancelled'' ''w1'' ''now'' []])"
    by (simp add: run_vulnscan_from_envelope_def run_scan_body_def io_bind_def call_def toy_service_def Let_def
        env_str_def dget_def set_status_cmd_def)
  from scan_status_terminal [OF this] show ?thesis by (simp add: toy_service_def env_str_def dget_def)
qed


definition toy_worker :: worker where
  "toy_worker = \<lparr>wk_stream = ''s'', wk_group = ''g'', wk_dlq = ''d'', wk_consumer = ''c'', wk_block_ms = 1,
     wk_fields = [(''task_id'', None)], wk_runner = (\<lambda>env. io_raise TypeError)\<rparr>"


text \<open>Claiming stale entries in a batch makes at most \<open>k\<close> claims, and returns at most \<open>k\<close> entries,
  no entry twice.\<close>

theorem claim_stale_batch_bounded:
  "length (snd (claim_stale_batch sv stream grp consumer min_idle k h)) \<le> length h + k \<and>
   (case fst (claim_stale_batch sv stream grp consumer min_idle k h) of
      Inr es \<Rightarrow> distinct (map fst es) \<and> length es \<le> k
    | Inl e \<Rightarrow> True)"
  using claim_batch_loop_spec [of "[]" sv stream grp consumer min_idle k h]
  by (auto simp: claim_stale_batch_def split: sum.splits)

text \<open>A worker reads back the envelope that was enqueued, field for field, also when a later version
  of the sender added fields it does not know.\<close>

theorem envelope_roundtrip:
  assumes "loads (dumps (PDict (make_envelope uuid now host a @ extra))) =
    Ok (PDict (make_envelope uuid now host a @ extra))"
  shows "from_json loads task_fields (to_json dumps (make_envelope uuid now host a @ extra)) =
    Ok (make_envelope uuid now host a)"
proof -
  have "map fst (make_envelope uuid now host a) = map fst task_fields"
    by (simp add: make_envelope_def task_fields_def)
  moreover have "distinct (map fst task_fields)" by (simp add: task_fields_def)
  ultimately have "from_dict task_fields (PDict (make_envelope uuid now host a @ extra)) =
      Ok (make_envelope uuid now host a)"
    by (rule from_dict_known)
  then show ?thesis using assms by (simp add: from_json_def to_json_def)
qed

theorem envelope_roundtrip_witness:
  "from_json (\<lambda>s. Ok (PDict (make_envelope ''u'' ''n'' ''h'' \<lparr>q_source = ''api'', q_targets = None,
       q_intent = PNone, q_modules = None, q_engine = ''nuclei'', q_severity = None, q_ports = None,
       q_tags = None, q_templates = None, q_timeout = 60, q_actor = [], q_task_id = None, q_groups = None\<rparr>
       @ [(''new'', PNone)]))) task_fields (to_json (\<lambda>v. []) (make_envelope ''u'' ''n'' ''h''
      \<lparr>q_source = ''api'', q_targets = None,
       q_intent = PNone, q_modules = None, q_engine = ''nuclei'', q_severity = None, q_ports = None,
       q_tags = None, q_templates = None, q_timeout = 60, q_actor = [], q_task_id = None, q_groups = None\<rparr>
       @ [(''new'', PNone)])) =
    Ok (make_envelope ''u'' ''n'' ''h'' \<lparr>q_source = ''api'', q_targets = None,
       q_intent = PNone, q_modules = None, q_engine = ''nuclei'', q_severity = None, q_ports = None,
       q_tags = None, q_templates = None, q_timeout = 60, q_actor = [], q_task_id = None, q_groups = None\<rparr>)"
  by (rule envelope_roundtrip) (rule refl)

text \<open>
  An entry without an envelope in the queue of another worker is dead-lettered and acknowledged in the
  default queue: its own queue keeps it pending.
\<close>

lemma missing_envelope_settles_wrong_stream:
  "snd (worker_process toy_service toy_rt loads es wk ''1-0'' [] []) =
     [XAdd STREAM_DLQ (dlq_fields toy_rt ''1-0'' [] ''envelope_missing'') None,
      XAck STREAM_TASKS CONSUMER_GROUP ''1-0'']"
  by (simp add: worker_process_def move_to_dlq_def toy_service_def io_try_def io_bind_def call_def dget_def)

end
