(* ===== verification/Accounts.thy ===== *)
theory Accounts
  imports Prelude
begin

text \<open>
  Accounts and access: \<open>src/api/auth/jwt.py\<close>, \<open>src/api/auth/routes.py\<close>, \<open>src/api/auth/sse_tokens.py\<close>,
  the token check of \<open>src/api/routers/stream.py\<close>, the user management of
  \<open>src/api/routers/users.py\<close> and the seeding of \<open>src/common/db/pg.py\<close>. The tables are an explicit state;
  the password hash, the token encoding and the clock are arguments. A time is a number of seconds.
\<close>

section \<open>Tables\<close>

datatype role = Admin | Analyst | Viewer | Responder

fun role_value :: "role \<Rightarrow> string" where
  "role_value Admin = ''admin''"
| "role_value Analyst = ''analyst''"
| "role_value Viewer = ''viewer''"
| "role_value Responder = ''responder''"

record user_row =
  u_name :: string
  u_hash :: string
  u_role :: role
  u_disabled :: bool
  u_created :: int
  u_updated :: int
  u_login :: "int option"
  u_deleted :: "int option"
  u_version :: int

record audit_row =
  au_action :: string
  au_actor :: string
  au_details :: pydict

record accounts =
  users :: "user_row list"
  enroll_creators :: "string list"
  voters :: "string list"
  audits :: "audit_row list"

type_synonym 'a acct = "(accounts, 'a) io"

text \<open>\<open>ae_decode\<close> checks the signature and the expiry of a token at a given time.\<close>

record acct_env =
  ae_now :: int
  ae_hash :: "string \<Rightarrow> string"
  ae_verify :: "string \<Rightarrow> string \<Rightarrow> bool"
  ae_encode :: "pydict \<Rightarrow> string"
  ae_decode :: "int \<Rightarrow> string \<Rightarrow> pydict option"
  ae_expire_minutes :: int
  ae_audit_up :: bool

definition find_user :: "string \<Rightarrow> accounts \<Rightarrow> user_row option" where
  "find_user name db = find (\<lambda>u. u_name u = name) (users db)"

definition update_rows :: "string \<Rightarrow> (user_row \<Rightarrow> user_row) \<Rightarrow> accounts \<Rightarrow> accounts" where
  "update_rows name f db = db\<lparr>users := map (\<lambda>u. if u_name u = name then f u else u) (users db)\<rparr>"

definition bump :: "user_row \<Rightarrow> user_row" where
  "bump u = u\<lparr>u_version := u_version u + 1\<rparr>"

section \<open>Credentials and tokens\<close>

definition get_user :: "string \<Rightarrow> bool \<Rightarrow> user_row option acct" where
  "get_user name include_deleted = io_gets (\<lambda>db. case find_user name db of
     None \<Rightarrow> None
   | Some u \<Rightarrow> if include_deleted \<or> u_deleted u = None then Some u else None)"

definition record_login :: "acct_env \<Rightarrow> string \<Rightarrow> unit acct" where
  "record_login env name = io_modify (update_rows name (\<lambda>u. u\<lparr>u_login := Some (ae_now env)\<rparr>))"

definition authenticate_user :: "acct_env \<Rightarrow> string \<Rightarrow> string \<Rightarrow> user_row option acct" where
  "authenticate_user env name password =
     io_bind (get_user name False) (\<lambda>r.
     case r of
       None \<Rightarrow> io_return None
     | Some u \<Rightarrow>
         if \<not> ae_verify env password (u_hash u) then io_return None
         else if u_disabled u then io_return None
         else if u_deleted u \<noteq> None then io_return None
         else io_bind (record_login env name) (\<lambda>_. io_return (Some u)))"

definition create_access_token :: "acct_env \<Rightarrow> pydict \<Rightarrow> int option \<Rightarrow> int \<Rightarrow> string" where
  "create_access_token env data expires_delta token_version =
     (let delta = (case expires_delta of
            Some d \<Rightarrow> if d \<noteq> 0 then d else ae_expire_minutes env * 60
          | None \<Rightarrow> ae_expire_minutes env * 60)
      in ae_encode env (dupdate (AList.update ''ver'' (PInt token_version) data)
           [(''exp'', PInt (ae_now env + delta))]))"

definition decode_token :: "acct_env \<Rightarrow> string \<Rightarrow> pydict option" where
  "decode_token env token = ae_decode env (ae_now env) token"

definition SSE_TOKEN_TTL_SECONDS :: int where "SSE_TOKEN_TTL_SECONDS = 60"

definition mint_sse_token_for :: "acct_env \<Rightarrow> string \<Rightarrow> string \<Rightarrow> string \<Rightarrow> string" where
  "mint_sse_token_for env sub role scope =
     ae_encode env [(''sub'', PStr sub), (''role'', PStr role), (''scope'', PStr scope),
       (''exp'', PInt (ae_now env + SSE_TOKEN_TTL_SECONDS))]"

definition mint_sse_token :: "acct_env \<Rightarrow> pyrt \<Rightarrow> string \<Rightarrow> string \<Rightarrow> string" where
  "mint_sse_token env rt user_jwt scope =
     (let payload = (case decode_token env user_jwt of None \<Rightarrow> [] | Some p \<Rightarrow> p) in
      mint_sse_token_for env (py_str rt (dget payload ''sub'' (PStr [])))
        (py_str rt (dget payload ''role'' (PStr []))) scope)"

definition decode_sse_token :: "acct_env \<Rightarrow> string \<Rightarrow> string \<Rightarrow> pydict res" where
  "decode_sse_token env token expected_scope =
     (case decode_token env token of
        None \<Rightarrow> Raise PermissionError
      | Some payload \<Rightarrow>
          if \<not> py_eq (dget payload ''scope'' PNone) (PStr expected_scope) then Raise PermissionError
          else Ok payload)"

definition verify_scoped_token :: "acct_env \<Rightarrow> string \<Rightarrow> string \<Rightarrow> pydict res" where
  "verify_scoped_token env token scope =
     (case decode_sse_token env token scope of
        Inr payload \<Rightarrow> Ok payload
      | Inl _ \<Rightarrow>
          (case decode_token env token of
             None \<Rightarrow> Raise (HTTPException 401 [''Invalid or expired token''])
           | Some payload \<Rightarrow>
               let token_scope = dget payload ''scope'' PNone; role = dget payload ''role'' PNone in
               if token_scope \<noteq> PNone \<and> \<not> py_eq token_scope (PStr scope)
               then Raise (HTTPException 401 [''token scope mismatch''])
               else if \<not> list_ex (\<lambda>r. py_eq role (PStr r)) [''admin'', ''analyst'', ''responder'']
               then Raise (HTTPException 403 [''SSE requires admin/analyst/responder role''])
               else Ok payload))"

definition get_current_user :: "acct_env \<Rightarrow> string option \<Rightarrow> user_row option acct" where
  "get_current_user env token =
     (case token of
        None \<Rightarrow> io_return None
      | Some t \<Rightarrow>
          (case decode_token env t of
             None \<Rightarrow> io_return None
           | Some payload \<Rightarrow>
               (case dget payload ''sub'' PNone of
                  PNone \<Rightarrow> io_return None
                | PStr username \<Rightarrow>
                    io_bind (get_user username True) (\<lambda>r.
                    case r of
                      None \<Rightarrow> io_return None
                    | Some u \<Rightarrow>
                        if u_disabled u \<or> u_deleted u \<noteq> None then io_return None
                        else
                          let ver = (case py_int (dget payload ''ver'' (PInt 0)) of Inr v \<Rightarrow> v | Inl _ \<Rightarrow> 0) in
                          if ver \<noteq> u_version u then io_return None else io_return (Some u))
                | _ \<Rightarrow> io_raise (ExtError ''DataError''))))"

definition require_role :: "acct_env \<Rightarrow> role list \<Rightarrow> string option \<Rightarrow> user_row acct" where
  "require_role env roles token =
     io_bind (get_current_user env token) (\<lambda>r.
     case r of
       None \<Rightarrow> io_raise (HTTPException 401 [''Not authenticated''])
     | Some u \<Rightarrow>
         if u_role u \<notin> set roles then io_raise (HTTPException 403 [''Insufficient permissions''])
         else io_return u)"

definition login :: "acct_env \<Rightarrow> string \<Rightarrow> string \<Rightarrow> (string \<times> role) acct" where
  "login env name password =
     io_bind (authenticate_user env name password) (\<lambda>r.
     case r of
       None \<Rightarrow> io_raise (HTTPException 401 [''Invalid credentials''])
     | Some u \<Rightarrow>
         io_return (create_access_token env
           [(''sub'', PStr (u_name u)), (''role'', PStr (role_value (u_role u)))] None (u_version u), u_role u))"

definition auth_me :: "acct_env \<Rightarrow> string option \<Rightarrow> (string \<times> role \<times> bool) acct" where
  "auth_me env token =
     io_bind (require_role env [Admin, Analyst, Viewer, Responder] token) (\<lambda>u.
     io_return (u_name u, u_role u, u_disabled u))"

definition issue_sse_token :: "acct_env \<Rightarrow> string option \<Rightarrow> string \<Rightarrow> (string \<times> int) acct" where
  "issue_sse_token env token scope =
     io_bind (require_role env [Admin, Analyst, Responder, Viewer] token) (\<lambda>u.
     io_return (mint_sse_token_for env (u_name u) (role_value (u_role u)) scope, SSE_TOKEN_TTL_SECONDS))"

section \<open>Managing users\<close>

record user_public =
  p_name :: string
  p_role :: role
  p_disabled :: bool
  p_created :: int
  p_updated :: int
  p_login :: "int option"
  p_deleted :: "int option"

definition to_public :: "user_row \<Rightarrow> user_public" where
  "to_public u = \<lparr>p_name = u_name u, p_role = u_role u, p_disabled = u_disabled u, p_created = u_created u,
     p_updated = u_updated u, p_login = u_login u, p_deleted = u_deleted u\<rparr>"

definition load_or_404 :: "string \<Rightarrow> bool \<Rightarrow> user_row acct" where
  "load_or_404 name include_deleted =
     io_bind (get_user name include_deleted) (\<lambda>r.
     case r of None \<Rightarrow> io_raise (HTTPException 404 [''user not found'']) | Some u \<Rightarrow> io_return u)"

text \<open>The audit log swallows its own failures: while it is down nothing is written.\<close>

definition audit :: "acct_env \<Rightarrow> string \<Rightarrow> string \<Rightarrow> string \<Rightarrow> pydict \<Rightarrow> unit acct" where
  "audit env action actor target details =
     io_modify (\<lambda>db. if ae_audit_up env
       then db\<lparr>audits := audits db @ [\<lparr>au_action = action, au_actor = actor,
              au_details = (''target'', PStr target) # details\<rparr>]\<rparr>
       else db)"

definition count_for_user :: "acct_env \<Rightarrow> string \<Rightarrow> nat acct" where
  "count_for_user env name =
     io_gets (\<lambda>db. if ae_audit_up env
       then length (filter (\<lambda>a.
         au_actor a = name \<or> dget (au_details a) ''target'' PNone = PStr name) (audits db)) else 0)"

definition LEGACY_WEAK_PASSWORDS :: "string list" where
  "LEGACY_WEAK_PASSWORDS =
     [''admin123'', ''analyst123'', ''viewer123'', ''responder123'', ''admin'', ''analyst'', ''viewer'',
      ''responder'', ''password'', ''changeme'', ''test'']"

definition MIN_PW_LEN :: nat where "MIN_PW_LEN = 12"

definition is_lower :: "char \<Rightarrow> bool" where
  "is_lower c = (let n = (of_char c :: nat) in 97 \<le> n \<and> n \<le> 122)"
definition is_upper :: "char \<Rightarrow> bool" where
  "is_upper c = (let n = (of_char c :: nat) in 65 \<le> n \<and> n \<le> 90)"
definition is_alnum :: "char \<Rightarrow> bool" where
  "is_alnum c \<longleftrightarrow> is_lower c \<or> is_upper c \<or> is_digit c"

definition password_classes :: "string \<Rightarrow> nat" where
  "password_classes p = length (filter id
     [list_ex is_lower p, list_ex is_upper p, list_ex is_digit p, list_ex (\<lambda>c. \<not> is_alnum c) p])"

definition validate_password :: "string \<Rightarrow> string option \<Rightarrow> string option \<Rightarrow> unit res" where
  "validate_password new_password username old_password =
     (if length new_password < MIN_PW_LEN
      then Raise (HTTPException 400 [''password must be at least 12 characters''])
      else if py_lower new_password \<in> set (map py_lower LEGACY_WEAK_PASSWORDS)
      then Raise (HTTPException 400 [''password is on the weak-password list; pick another''])
      else if password_classes new_password < 3
      then Raise (HTTPException 400
        [''password must contain at least 3 of 4 classes: lowercase, uppercase, digit, symbol''])
      else if (case username of Some n \<Rightarrow> n \<noteq> [] \<and> py_lower new_password = py_lower n | None \<Rightarrow> False)
      then Raise (HTTPException 400 [''password must differ from username''])
      else if old_password = Some new_password
      then Raise (HTTPException 400 [''new password must differ from the old password''])
      else Ok ())"

text \<open>The pattern's \<open>$\<close> also matches before a final line feed.\<close>

definition name_char :: "char \<Rightarrow> bool" where
  "name_char c \<longleftrightarrow> is_alnum c \<or> c = CHR ''_''"

definition username_match :: "string \<Rightarrow> bool" where
  "username_match name =
     (let body = (if name \<noteq> [] \<and> last name = CHR 0x0A then butlast name else name) in
      3 \<le> length body \<and> length body \<le> 32 \<and> list_all name_char body)"

definition validate_username_format :: "string \<Rightarrow> unit res" where
  "validate_username_format name =
     (if username_match name then Ok ()
      else Raise (HTTPException 400 [''username must be 3-32 chars of [A-Za-z0-9_]'']))"

text \<open>The request bodies; the pattern of a body is matched against the whole text.\<close>

record user_create =
  uc_name :: string
  uc_password :: string
  uc_role :: role

record user_update =
  up_name :: "string option"
  up_role :: "role option"
  up_disabled :: "bool option"

definition valid_name :: "string \<Rightarrow> bool" where
  "valid_name n \<longleftrightarrow> 3 \<le> length n \<and> length n \<le> 32 \<and> list_all name_char n"

definition valid_create :: "user_create \<Rightarrow> bool" where
  "valid_create b \<longleftrightarrow> valid_name (uc_name b) \<and> 12 \<le> length (uc_password b) \<and> length (uc_password b) \<le> 128"

definition valid_update :: "user_update \<Rightarrow> bool" where
  "valid_update b \<longleftrightarrow> (case up_name b of None \<Rightarrow> True | Some n \<Rightarrow> valid_name n)"

definition valid_change :: "string \<Rightarrow> string \<Rightarrow> bool" where
  "valid_change old new \<longleftrightarrow> 1 \<le> length old \<and> length old \<le> 128 \<and> 12 \<le> length new \<and> length new \<le> 128"

definition users_me :: "acct_env \<Rightarrow> string option \<Rightarrow> user_public acct" where
  "users_me env token =
     io_bind (get_current_user env token) (\<lambda>r.
     case r of
       None \<Rightarrow> io_raise (HTTPException 401 [''Not authenticated''])
     | Some u \<Rightarrow>
         io_bind (get_user (u_name u) False) (\<lambda>fresh.
         io_return (to_public (case fresh of Some f \<Rightarrow> f | None \<Rightarrow> u))))"

definition change_own_password :: "acct_env \<Rightarrow> string option \<Rightarrow> string \<Rightarrow> string \<Rightarrow> unit acct" where
  "change_own_password env token old_password new_password =
     io_bind (get_current_user env token) (\<lambda>r.
     case r of
       None \<Rightarrow> io_raise (HTTPException 401 [''Not authenticated''])
     | Some u \<Rightarrow>
         io_bind (load_or_404 (u_name u) False) (\<lambda>fresh.
         io_bind (io_guard (ae_verify env old_password (u_hash fresh))
                    (HTTPException 400 [''old_password is incorrect''])) (\<lambda>_.
         io_bind (io_lift (validate_password new_password (Some (u_name fresh)) (Some old_password))) (\<lambda>_.
         io_bind (io_modify (update_rows (u_name fresh)
                    (\<lambda>x. bump (x\<lparr>u_hash := ae_hash env new_password, u_updated := ae_now env\<rparr>)))) (\<lambda>_.
         audit env ''user.password'' (u_name fresh) (u_name fresh) [])))))"

definition list_users :: "acct_env \<Rightarrow> string option \<Rightarrow> bool \<Rightarrow> user_public list acct" where
  "list_users env token include_deleted =
     io_bind (require_role env [Admin] token) (\<lambda>_.
     io_gets (\<lambda>db. map to_public (sort_key u_name
       (filter (\<lambda>u. include_deleted \<or> u_deleted u = None) (users db)))))"

definition get_user_one :: "acct_env \<Rightarrow> string option \<Rightarrow> string \<Rightarrow> bool \<Rightarrow> user_public acct" where
  "get_user_one env token name include_deleted =
     io_bind (require_role env [Admin] token) (\<lambda>_.
     io_bind (get_user name include_deleted) (\<lambda>r.
     case r of
       None \<Rightarrow> io_raise (HTTPException 404 [''user not found''])
     | Some u \<Rightarrow> io_return (to_public u)))"

text \<open>The insertion; the name is the primary key of the table.\<close>

definition insert_user :: "acct_env \<Rightarrow> string \<Rightarrow> string \<Rightarrow> role \<Rightarrow> unit acct" where
  "insert_user env name hash role =
     (\<lambda>db. if find_user name db \<noteq> None then (Raise (HTTPException 409 [''username already exists'']), db)
           else (Ok (), db\<lparr>users := users db @ [\<lparr>u_name = name, u_hash = hash, u_role = role, u_disabled = False,
                  u_created = ae_now env, u_updated = ae_now env, u_login = None, u_deleted = None,
                  u_version = 0\<rparr>]\<rparr>))"

definition create_user :: "acct_env \<Rightarrow> string option \<Rightarrow> user_create \<Rightarrow> user_public acct" where
  "create_user env token body =
     io_bind (require_role env [Admin] token) (\<lambda>cur.
     io_bind (io_lift (validate_username_format (uc_name body))) (\<lambda>_.
     io_bind (io_lift (validate_password (uc_password body) (Some (uc_name body)) None)) (\<lambda>_.
     io_bind (insert_user env (uc_name body) (ae_hash env (uc_password body)) (uc_role body)) (\<lambda>_.
     io_bind (load_or_404 (uc_name body) False) (\<lambda>fresh.
     io_bind (audit env ''user.create'' (u_name cur) (uc_name body) [(''role'', PStr (role_value (uc_role body)))])
       (\<lambda>_. io_return (to_public fresh)))))))"

definition active_admin :: "user_row \<Rightarrow> bool" where
  "active_admin u \<longleftrightarrow> u_role u = Admin \<and> \<not> u_disabled u \<and> u_deleted u = None"

definition count_active_admins :: "string option \<Rightarrow> nat acct" where
  "count_active_admins exclude =
     io_gets (\<lambda>db. length (filter (\<lambda>u. active_admin u \<and> exclude \<noteq> Some (u_name u)) (users db)))"

definition ensure_not_last_admin_change ::
    "user_row \<Rightarrow> bool option \<Rightarrow> role option \<Rightarrow> nat \<Rightarrow> unit res" where
  "ensure_not_last_admin_change target new_disabled new_role active_admins_after =
     (let would_disable = (new_disabled = Some True \<or> u_disabled target);
          would_demote = ((case new_role of Some r \<Rightarrow> r \<noteq> Admin | None \<Rightarrow> False) \<and> u_role target = Admin)
      in if u_role target = Admin \<and> (would_disable \<or> would_demote) \<and> active_admins_after < 1
         then Raise (HTTPException 409
           [''cannot leave the system with zero enabled admins; promote another admin first''])
         else Ok ())"

text \<open>The checks of an update, up to the row to change.\<close>

definition update_checks :: "acct_env \<Rightarrow> string option \<Rightarrow> string \<Rightarrow> user_update \<Rightarrow> (user_row \<times> user_row) acct" where
  "update_checks env token name body =
     io_bind (require_role env [Admin] token) (\<lambda>cur.
     io_bind (io_guard ((case up_name body of Some (c # cs) \<Rightarrow> True | _ \<Rightarrow> False) \<or>
                up_role body \<noteq> None \<or> up_disabled body \<noteq> None) (HTTPException 400 [''no fields to update''])) (\<lambda>_.
     io_bind (load_or_404 name False) (\<lambda>target.
     let self = (u_name target = u_name cur);
         renames = (case up_name body of Some n \<Rightarrow> n \<noteq> u_name target | None \<Rightarrow> False) in
     io_bind (io_guard (\<not> (self \<and> renames)) (HTTPException 403 [''cannot rename own account''])) (\<lambda>_.
     io_bind (io_guard (\<not> (self \<and> (case up_role body of Some r \<Rightarrow> r \<noteq> u_role target | None \<Rightarrow> False)))
                (HTTPException 403 [''cannot change own role''])) (\<lambda>_.
     io_bind (io_guard (\<not> (self \<and> up_disabled body = Some True))
                (HTTPException 403 [''cannot disable own account''])) (\<lambda>_.
     io_bind (if renames then io_lift (validate_username_format (the (up_name body))) else io_return ()) (\<lambda>_.
     io_bind (count_active_admins (Some (u_name target))) (\<lambda>remaining.
     io_bind (io_lift (ensure_not_last_admin_change target (up_disabled body) (up_role body) remaining)) (\<lambda>_.
     io_return (cur, target))))))))))"

text \<open>The changed row; an update to another row's name violates the primary key.\<close>

definition changed_row :: "acct_env \<Rightarrow> user_update \<Rightarrow> user_row \<Rightarrow> user_row \<Rightarrow> user_row" where
  "changed_row env body target u =
     (let u1 = u\<lparr>u_updated := ae_now env\<rparr>;
          u2 = (case up_role body of Some r \<Rightarrow> u1\<lparr>u_role := r\<rparr> | None \<Rightarrow> u1);
          u3 = (case up_disabled body of Some d \<Rightarrow> u2\<lparr>u_disabled := d\<rparr> | None \<Rightarrow> u2);
          u4 = (case up_name body of Some n \<Rightarrow> u3\<lparr>u_name := n\<rparr> | None \<Rightarrow> u3)
      in if (case up_disabled body of Some d \<Rightarrow> d \<noteq> u_disabled target | None \<Rightarrow> False) then bump u4 else u4)"

definition update_write :: "acct_env \<Rightarrow> user_update \<Rightarrow> user_row \<Rightarrow> unit acct" where
  "update_write env body target =
     (\<lambda>db. let new_name = (case up_name body of Some n \<Rightarrow> n | None \<Rightarrow> u_name target) in
           if new_name \<noteq> u_name target \<and> find_user (u_name target) db \<noteq> None \<and> find_user new_name db \<noteq> None
           then (Raise (HTTPException 409 [''username already exists'']), db)
           else (Ok (), update_rows (u_name target) (changed_row env body target) db))"

definition opt_val :: "('a \<Rightarrow> pyval) \<Rightarrow> 'a option \<Rightarrow> pyval" where
  "opt_val f v = (case v of None \<Rightarrow> PNone | Some x \<Rightarrow> f x)"

definition update_user :: "acct_env \<Rightarrow> string option \<Rightarrow> string \<Rightarrow> user_update \<Rightarrow> user_public acct" where
  "update_user env token name body =
     io_bind (update_checks env token name body) (\<lambda>(cur, target).
     io_bind (update_write env body target) (\<lambda>_.
     io_bind (load_or_404 (case up_name body of Some (c # cs) \<Rightarrow> c # cs | _ \<Rightarrow> u_name target) True) (\<lambda>after.
     io_bind (audit env ''user.update'' (u_name cur) (u_name target)
       [(''new_username'', opt_val PStr (up_name body)),
        (''role'', opt_val (\<lambda>r. PStr (role_value r)) (up_role body)),
        (''disabled'', opt_val PBool (up_disabled body))]) (\<lambda>_.
     io_return (to_public after)))))"

definition hard_delete_blockers :: "acct_env \<Rightarrow> string \<Rightarrow> string list acct" where
  "hard_delete_blockers env name =
     io_bind (io_gets (\<lambda>db. length (filter (\<lambda>c. c = name) (enroll_creators db)))) (\<lambda>n_tokens.
     io_bind (io_gets (\<lambda>db. length (filter (\<lambda>v. v = name) (voters db)))) (\<lambda>n_votes.
     io_bind (count_for_user env name) (\<lambda>n_audit.
     io_return
       ((if n_tokens > 0 then [''enroll_tokens (created_by): '' @ nat_to_str n_tokens] else []) @
        (if n_votes > 0 then [''approval_votes (voter): '' @ nat_to_str n_votes] else []) @
        (if n_audit > 0 then [''audit events (actor/target): '' @ nat_to_str n_audit] else [])))))"

definition delete_user :: "acct_env \<Rightarrow> string option \<Rightarrow> string \<Rightarrow> bool \<Rightarrow> string acct" where
  "delete_user env token name hard =
     io_bind (require_role env [Admin] token) (\<lambda>cur.
     io_bind (load_or_404 name True) (\<lambda>target.
     io_bind (io_guard (u_name target \<noteq> u_name cur) (HTTPException 403 [''cannot delete own account''])) (\<lambda>_.
     io_bind (count_active_admins (Some (u_name target))) (\<lambda>remaining.
     io_bind (io_lift (ensure_not_last_admin_change target (Some True) None remaining)) (\<lambda>_.
     if hard then
       io_bind (hard_delete_blockers env (u_name target)) (\<lambda>blockers.
       io_bind (io_guard (blockers = []) (HTTPException 409
          (''cannot hard-delete user with dependencies or audit history; use soft-delete (default) or reassign first''
           # blockers))) (\<lambda>_.
       io_bind (io_modify (\<lambda>db. db\<lparr>users := filter (\<lambda>u. u_name u \<noteq> u_name target) (users db)\<rparr>)) (\<lambda>_.
       io_bind (audit env ''user.delete.hard'' (u_name cur) (u_name target) []) (\<lambda>_.
       io_return ''deleted''))))
     else
       io_bind (io_modify (update_rows (u_name target)
         (\<lambda>u. bump (u\<lparr>u_deleted := Some (ae_now env), u_updated := ae_now env\<rparr>)))) (\<lambda>_.
       io_bind (audit env ''user.delete.soft'' (u_name cur) (u_name target) []) (\<lambda>_.
       io_return ''soft_deleted'')))))))"

definition restore_user :: "acct_env \<Rightarrow> string option \<Rightarrow> string \<Rightarrow> user_public acct" where
  "restore_user env token name =
     io_bind (require_role env [Admin] token) (\<lambda>cur.
     io_bind (get_user name True) (\<lambda>r.
     case r of
       None \<Rightarrow> io_raise (HTTPException 404 [''user not found''])
     | Some target \<Rightarrow>
         io_bind (io_guard (u_deleted target \<noteq> None) (HTTPException 409 [''user is not soft-deleted''])) (\<lambda>_.
         io_bind (io_modify (update_rows (u_name target)
           (\<lambda>u. bump (u\<lparr>u_deleted := None, u_updated := ae_now env\<rparr>)))) (\<lambda>_.
         io_bind (load_or_404 (u_name target) False) (\<lambda>fresh.
         io_bind (audit env ''user.restore'' (u_name cur) (u_name target) []) (\<lambda>_.
         io_return (to_public fresh)))))))"

section \<open>Seeding\<close>

definition DEFAULT_USERS :: "(string \<times> role) list" where
  "DEFAULT_USERS = [(''admin'', Admin), (''analyst'', Analyst), (''viewer'', Viewer), (''responder'', Responder)]"

text \<open>\<open>configured\<close> gives the configured password of a role, \<open>random\<close> the generated one.\<close>

fun seed_users :: "acct_env \<Rightarrow> bool \<Rightarrow> (string \<Rightarrow> string) \<Rightarrow> (string \<Rightarrow> string) \<Rightarrow> (string \<times> role) list \<Rightarrow> unit acct" where
  "seed_users env dev_mode configured random [] = io_return ()"
| "seed_users env dev_mode configured random ((name, role) # rest) =
     (let password = configured name; weak = (password = [] \<or> password \<in> set LEGACY_WEAK_PASSWORDS) in
      io_bind (io_guard (\<not> (weak \<and> \<not> dev_mode)) (RuntimeError ''password unset or weak'')) (\<lambda>_.
      let used = (if weak then random name else password) in
      io_bind (io_guard (\<not> (length used < 12 \<and> \<not> dev_mode)) (RuntimeError ''password too short'')) (\<lambda>_.
      io_bind (insert_user env name (ae_hash env used) role) (\<lambda>_.
      seed_users env dev_mode configured random rest))))"

definition init_schema :: "acct_env \<Rightarrow> bool \<Rightarrow> (string \<Rightarrow> string) \<Rightarrow> (string \<Rightarrow> string) \<Rightarrow> unit acct" where
  "init_schema env dev_mode configured random =
     io_bind (io_gets (\<lambda>db. length (users db))) (\<lambda>count.
     if count = 0 then seed_users env dev_mode configured random DEFAULT_USERS else io_return ())"

end
