(* ===== verification/AccountLaws.thy ===== *)
theory AccountLaws
  imports Accounts
begin

text \<open>
  The laws of the accounts: requests are served one after the other (\<open>serve\<close>); what every request keeps is
  proved once (\<open>handle_keeps\<close>) and instantiated for the well-formedness of the table, the presence of an
  administrator and the staleness of old tokens. The last section shows what the checks do not cover.
\<close>

section \<open>Requests\<close>

datatype acct_request =
    Sign_In string string
  | Change_Password string string
  | Create_User user_create
  | Update_User string user_update
  | Delete_User string bool
  | Restore_User string

text \<open>A request with the token it carries; a body that does not validate is answered with 422.\<close>

definition invalid_body :: exn where "invalid_body = HTTPException 422 []"

fun handle :: "acct_env \<Rightarrow> string option \<Rightarrow> acct_request \<Rightarrow> unit acct" where
  "handle env token (Sign_In name password) = io_bind (login env name password) (\<lambda>_. io_return ())"
| "handle env token (Change_Password old new) =
     io_bind (io_guard (valid_change old new) invalid_body) (\<lambda>_. change_own_password env token old new)"
| "handle env token (Create_User body) =
     io_bind (io_guard (valid_create body) invalid_body) (\<lambda>_.
     io_bind (create_user env token body) (\<lambda>_. io_return ()))"
| "handle env token (Update_User name body) =
     io_bind (io_guard (valid_update body) invalid_body) (\<lambda>_.
     io_bind (update_user env token name body) (\<lambda>_. io_return ()))"
| "handle env token (Delete_User name hard) = io_bind (delete_user env token name hard) (\<lambda>_. io_return ())"
| "handle env token (Restore_User name) = io_bind (restore_user env token name) (\<lambda>_. io_return ())"

type_synonym arrival = "acct_env \<times> string option \<times> acct_request"

text \<open>Requests served one after the other, each at its own time.\<close>

definition serve :: "arrival list \<Rightarrow> accounts \<Rightarrow> accounts" where
  "serve arrivals db = fold (\<lambda>(env, token, req) db. snd (handle env token req db)) arrivals db"

definition accounts_ok :: "accounts \<Rightarrow> bool" where
  "accounts_ok db \<longleftrightarrow> distinct (map u_name (users db)) \<and>
     list_all (\<lambda>u. valid_name (u_name u) \<and> 0 \<le> u_version u) (users db)"

definition has_admin :: "accounts \<Rightarrow> bool" where
  "has_admin db \<longleftrightarrow> list_ex active_admin (users db)"

section \<open>What every computation keeps\<close>

text \<open>
  A kept predicate looks at the table of users only, and survives the changes that do not touch what it
  says: a login stamp, a new password, an insertion.
\<close>

lemma find_user_Some: "find_user name db = Some u \<Longrightarrow> u \<in> set (users db) \<and> u_name u = name"
  by (auto simp: find_user_def find_Some_iff)

lemma find_user_None: "find_user name db = None \<longleftrightarrow> name \<notin> u_name ` set (users db)"
  by (auto simp: find_user_def find_None_iff)

lemma find_user_distinct:
  "distinct (map u_name (users db)) \<Longrightarrow> u \<in> set (users db) \<Longrightarrow> find_user (u_name u) db = Some u"
proof -
  assume d: "distinct (map u_name (users db))" and u: "u \<in> set (users db)"
  then obtain v where v: "find_user (u_name u) db = Some v" using find_user_None by fastforce
  then have "v \<in> set (users db)" "u_name v = u_name u" by (simp_all add: find_user_Some)
  with d u have "v = u" by (metis distinct_map inj_onD)
  with v show ?thesis by simp
qed

lemma find_user_same:
  "find_user a db = Some u \<Longrightarrow> find_user b db = Some v \<Longrightarrow> u_name u = u_name v \<Longrightarrow> u = v"
  by (metis find_user_Some option.inject)

lemma find_map_keep: "(\<And>x. P (g x) \<longleftrightarrow> P x) \<Longrightarrow> find P (map g xs) = map_option g (find P xs)"
  by (induction xs) simp_all

lemma find_user_update:
  assumes "\<And>u. u_name (f u) = u_name u"
  shows "find_user n (update_rows name f db) =
     map_option (\<lambda>u. if u_name u = name then f u else u) (find_user n db)"
  unfolding find_user_def update_rows_def by (simp add: find_map_keep assms)

definition signed_in :: "role list \<Rightarrow> user_row \<Rightarrow> accounts \<Rightarrow> bool" where
  "signed_in roles u db \<longleftrightarrow> find_user (u_name u) db = Some u \<and> \<not> u_disabled u \<and> u_deleted u = None \<and>
     u_role u \<in> set roles"

lemma get_current_user_reads: "snd (get_current_user env token db) = db"
  by (auto simp: get_current_user_def get_user_def Let_def split: option.splits pyval.splits)

lemma get_current_user_Some:
  "get_current_user env token db = (Inr (Some u), db') \<Longrightarrow>
   find_user (u_name u) db = Some u \<and> \<not> u_disabled u \<and> u_deleted u = None"
  by (auto simp: get_current_user_def get_user_def Let_def find_user_Some
      split: option.splits pyval.splits if_splits sum.splits)

lemma hoare_current:
  assumes "\<And>db. P db \<Longrightarrow> E db"
  shows "hoare P (get_current_user env token)
    (\<lambda>r db. P db \<and> (case r of None \<Rightarrow> True | Some u \<Rightarrow> find_user (u_name u) db = Some u \<and> \<not> u_disabled u \<and> u_deleted u = None)) E"
proof (rule hoareI)
  fix db assume "P db"
  then show "case get_current_user env token db of (Inr r, db') \<Rightarrow> P db' \<and>
      (case r of None \<Rightarrow> True | Some u \<Rightarrow> find_user (u_name u) db' = Some u \<and> \<not> u_disabled u \<and> u_deleted u = None)
    | (Inl e, db') \<Rightarrow> E db'"
    using get_current_user_reads [of env token db] get_current_user_Some [of env token db] assms
    by (auto split: prod.splits sum.splits option.splits)
qed

lemma hoare_role:
  assumes "\<And>db. P db \<Longrightarrow> E db"
  shows "hoare P (require_role env roles token) (\<lambda>u db. P db \<and> signed_in roles u db) E"
  unfolding require_role_def
  by (rule hoare_bind, rule hoare_current)
    (auto simp: assms signed_in_def hoare_def split: option.splits)

lemma hoare_get_user:
  "hoare P (get_user name b) (\<lambda>r db. P db \<and> (case r of None \<Rightarrow> True | Some u \<Rightarrow> find_user name db = Some u)) E"
  by (auto simp: get_user_def hoare_def split: option.splits)

lemma hoare_load:
  assumes "\<And>db. P db \<Longrightarrow> E db"
  shows "hoare P (load_or_404 name b) (\<lambda>u db. P db \<and> find_user name db = Some u) E"
  unfolding load_or_404_def
  by (rule hoare_bind, rule hoare_get_user) (auto simp: assms hoare_def split: option.splits)

lemma hoare_audit:
  "hoare (\<lambda>db. J (users db)) (audit env action actor target details) (\<lambda>_ db. J (users db)) E"
  by (auto simp: audit_def hoare_def)

lemma hoare_option:
  "hoare P m Q E \<Longrightarrow> (\<And>x. hoare P (f x) Q E) \<Longrightarrow> hoare P (case r of None \<Rightarrow> m | Some x \<Rightarrow> f x) Q E"
  by (cases r) simp_all

lemma hoare_login:
  assumes "\<And>us. J us \<Longrightarrow>
    J (map (\<lambda>u. if u_name u = name then u\<lparr>u_login := Some (ae_now env)\<rparr> else u) us)"
  shows "hoare (\<lambda>db. J (users db)) (login env name password) (\<lambda>_ db. J (users db)) (\<lambda>db. J (users db))"
  using assms
  by (auto simp: login_def authenticate_user_def get_user_def record_login_def update_rows_def hoare_def
      io_bind_def split: option.splits prod.splits sum.splits if_splits)

lemma hoare_None: "hoare (\<lambda>db. P db \<and> (case None of None \<Rightarrow> True | Some u \<Rightarrow> R u db)) m Q E = hoare P m Q E"
  by simp

lemma hoare_pre: "(\<And>w. P w \<Longrightarrow> P' w) \<Longrightarrow> hoare P' m Q E \<Longrightarrow> hoare P m Q E"
  by (simp add: hoare_def)

lemmas hoare_steps = hoare_current hoare_role hoare_load hoare_get_user hoare_guard hoare_lift hoare_gets

lemma hoare_change_password:
  assumes "\<And>us name new. J us \<Longrightarrow>
    J (map (\<lambda>x. if u_name x = name then bump (x\<lparr>u_hash := new, u_updated := ae_now env\<rparr>) else x) us)"
  shows "hoare (\<lambda>db. J (users db)) (change_own_password env token old new) (\<lambda>_ db. J (users db)) (\<lambda>db. J (users db))"
  unfolding change_own_password_def
  apply (rule hoare_bind, rule hoare_current, assumption)
  apply (rule hoare_option)
   apply (rule hoare_raise, simp)
  apply (rule hoare_bind, rule hoare_load, simp)
  apply (rule hoare_bind, rule hoare_guard, simp)
  apply (rule hoare_bind, rule hoare_lift, simp)
  apply (rule hoare_bind, rule hoare_modify)
  apply (rule hoare_pre [OF _ hoare_audit])
  using assms apply (auto simp: update_rows_def)
  done

lemma hoare_delete:
  assumes soft: "\<And>db cur. J (users db) \<Longrightarrow> signed_in [Admin] cur db \<Longrightarrow> name \<noteq> u_name cur \<Longrightarrow> \<not> hard \<Longrightarrow>
      J (map (\<lambda>u. if u_name u = name then bump (u\<lparr>u_deleted := Some (ae_now env), u_updated := ae_now env\<rparr>) else u) (users db))"
    and hard: "\<And>db cur. J (users db) \<Longrightarrow> signed_in [Admin] cur db \<Longrightarrow> name \<noteq> u_name cur \<Longrightarrow> hard \<Longrightarrow>
      J (filter (\<lambda>u. u_name u \<noteq> name) (users db))"
  shows "hoare (\<lambda>db. J (users db)) (delete_user env token name hard) (\<lambda>_ db. J (users db)) (\<lambda>db. J (users db))"
  unfolding delete_user_def count_active_admins_def hard_delete_blockers_def count_for_user_def io_bind_assoc
    io_bind_return
  apply (rule hoare_bind, rule hoare_role, assumption)
  apply (rule hoare_bind, rule hoare_load, simp)
  apply (rule hoare_bind, rule hoare_guard, simp)
  apply (rule hoare_bind, rule hoare_gets)
  apply (rule hoare_bind, rule hoare_lift, simp)
  apply (cases hard; simp only: if_True if_False)
   apply (rule hoare_bind, rule hoare_gets)
   apply (rule hoare_bind, rule hoare_gets)
   apply (rule hoare_bind, rule hoare_gets)
   apply (rule hoare_bind, rule hoare_guard, simp)
   apply (rule hoare_bind, rule hoare_modify)
   apply (rule hoare_bind, rule hoare_pre [OF _ hoare_audit [where J = J]])
    apply (clarsimp simp del: length_greater_0_conv split del: if_split, frule find_user_Some [THEN conjunct2], simp only:)
    apply (rule hard; simp)
   apply (rule hoare_return, assumption)
  apply (rule hoare_bind, rule hoare_modify)
  apply (rule hoare_bind, rule hoare_pre [OF _ hoare_audit [where J = J]])
   apply (clarsimp simp: update_rows_def, frule find_user_Some [THEN conjunct2], simp only:)
   apply (rule soft; simp)
  apply (rule hoare_return, assumption)
  done

lemma hoare_restore:
  assumes "\<And>us name. J us \<Longrightarrow>
      J (map (\<lambda>u. if u_name u = name then bump (u\<lparr>u_deleted := None, u_updated := ae_now env\<rparr>) else u) us)"
  shows "hoare (\<lambda>db. J (users db)) (restore_user env token name) (\<lambda>_ db. J (users db)) (\<lambda>db. J (users db))"
  unfolding restore_user_def
  apply (rule hoare_bind, rule hoare_role, assumption)
  apply (rule hoare_bind, rule hoare_get_user)
  apply (rule hoare_option)
   apply (rule hoare_raise, simp)
  apply (rule hoare_bind, rule hoare_guard, simp)
  apply (rule hoare_bind, rule hoare_modify)
  apply (rule hoare_bind, rule hoare_load)
   apply (clarsimp simp: update_rows_def assms)
  apply (rule hoare_bind, rule hoare_pre [OF _ hoare_audit [where J = J]])
   apply (clarsimp simp: update_rows_def assms)
  apply (rule hoare_return, assumption)
  done

definition new_row :: "acct_env \<Rightarrow> string \<Rightarrow> string \<Rightarrow> role \<Rightarrow> user_row" where
  "new_row env name hash role = \<lparr>u_name = name, u_hash = hash, u_role = role, u_disabled = False,
     u_created = ae_now env, u_updated = ae_now env, u_login = None, u_deleted = None, u_version = 0\<rparr>"

lemma hoare_insert:
  assumes "\<And>db. P db \<Longrightarrow> E db"
  shows "hoare P (insert_user env name hash role)
    (\<lambda>_ db. \<exists>db0. P db0 \<and> find_user name db0 = None \<and> users db = users db0 @ [new_row env name hash role]) E"
  using assms by (auto simp: insert_user_def hoare_def new_row_def)

lemma hoare_create:
  assumes "\<And>us h. J us \<Longrightarrow> uc_name body \<notin> u_name ` set us \<Longrightarrow>
      J (us @ [new_row env (uc_name body) h (uc_role body)])"
  shows "hoare (\<lambda>db. J (users db)) (create_user env token body) (\<lambda>_ db. J (users db)) (\<lambda>db. J (users db))"
  unfolding create_user_def
  apply (rule hoare_bind, rule hoare_role, assumption)
  apply (rule hoare_bind, rule hoare_lift, simp)
  apply (rule hoare_bind, rule hoare_lift, simp)
  apply (rule hoare_bind, rule hoare_insert, simp)
  apply (rule hoare_bind, rule hoare_load)
   apply (clarsimp simp: assms find_user_None)
  apply (rule hoare_bind, rule hoare_pre [OF _ hoare_audit [where J = J]])
   apply (clarsimp simp: assms find_user_None)
  apply (rule hoare_return, assumption)
  done

text \<open>What the checks of an update establish.\<close>

definition may_change :: "user_row \<Rightarrow> user_row \<Rightarrow> user_update \<Rightarrow> bool" where
  "may_change cur target body \<longleftrightarrow> u_name target = u_name cur \<longrightarrow>
     (case up_name body of None \<Rightarrow> True | Some n \<Rightarrow> n = u_name cur) \<and>
     (case up_role body of None \<Rightarrow> True | Some r \<Rightarrow> r = u_role cur) \<and> up_disabled body \<noteq> Some True"

lemma hoare_check:
  "(\<And>w. P w \<Longrightarrow> E w) \<Longrightarrow> hoare P (if b then io_lift r else io_return x) (\<lambda>_. P) E"
  by (auto simp: hoare_def split: sum.splits)

lemma hoare_update_checks:
  assumes "\<And>db. P db \<Longrightarrow> E db"
  shows "hoare P (update_checks env token name body)
    (\<lambda>r db. P db \<and> signed_in [Admin] (fst r) db \<and> find_user name db = Some (snd r) \<and>
       may_change (fst r) (snd r) body) E"
  unfolding update_checks_def Let_def count_active_admins_def
  apply (rule hoare_bind, rule hoare_role, erule assms)
  apply (rule hoare_bind, rule hoare_guard, simp add: assms)
  apply (rule hoare_bind, rule hoare_load, simp add: assms)
  apply (rule hoare_bind, rule hoare_guard, simp add: assms)
  apply (rule hoare_bind, rule hoare_guard, simp add: assms)
  apply (rule hoare_bind, rule hoare_guard, simp add: assms)
  apply (rule hoare_bind, rule hoare_check, simp add: assms)
  apply (rule hoare_bind, rule hoare_gets)
  apply (rule hoare_bind, rule hoare_lift, simp add: assms)
  apply (rule hoare_return)
  apply (auto simp: may_change_def signed_in_def dest: find_user_same split: option.splits)
  done

lemma hoare_update_write:
  assumes "\<And>db. P db \<Longrightarrow> E db"
  shows "hoare P (update_write env body target)
    (\<lambda>_ db. \<exists>db0. P db0 \<and> db = update_rows (u_name target) (changed_row env body target) db0 \<and>
       (case up_name body of None \<Rightarrow> True | Some n \<Rightarrow>
          n = u_name target \<or> find_user (u_name target) db0 = None \<or> find_user n db0 = None)) E"
  using assms by (auto simp: update_write_def hoare_def Let_def split: option.splits)

text \<open>What an update needs of a kept predicate.\<close>

lemma hoare_update:
  assumes "\<And>db cur target. J (users db) \<Longrightarrow> signed_in [Admin] cur db \<Longrightarrow> find_user name db = Some target \<Longrightarrow>
      may_change cur target body \<Longrightarrow>
      (case up_name body of None \<Rightarrow> True | Some n \<Rightarrow> n = name \<or> n \<notin> u_name ` set (users db)) \<Longrightarrow>
      J (map (\<lambda>u. if u_name u = name then changed_row env body target u else u) (users db))"
  shows "hoare (\<lambda>db. J (users db)) (update_user env token name body) (\<lambda>_ db. J (users db)) (\<lambda>db. J (users db))"
proof -
  have J: "J (users (update_rows (u_name t) (changed_row env body t) db0))"
    if "J (users db0)" "signed_in [Admin] cur db0" "find_user name db0 = Some t" "may_change cur t body"
      "case up_name body of None \<Rightarrow> True | Some n \<Rightarrow>
          n = u_name t \<or> find_user (u_name t) db0 = None \<or> find_user n db0 = None" for db0 cur t
  proof -
    have "u_name t = name" using that(3) by (simp add: find_user_Some)
    then show ?thesis
      using assms [OF that(1-4)] that(3,5) by (auto simp: update_rows_def find_user_None split: option.splits)
  qed
  show ?thesis
    unfolding update_user_def
    apply (rule hoare_bind, rule hoare_update_checks, assumption)
    apply (clarsimp split: prod.splits)
    apply (rule hoare_bind, rule hoare_update_write, simp)
    apply (rule hoare_bind, rule hoare_load)
     apply (clarsimp, rule J; simp)
    apply (rule hoare_bind, rule hoare_pre [OF _ hoare_audit [where J = J]])
     apply (clarsimp, rule J; simp)
    apply (rule hoare_return, assumption)
    done
qed

text \<open>A change of a row that keeps its name, role and standing, does not delete it and keeps old tokens stale.\<close>

definition benign :: "(user_row \<Rightarrow> user_row) \<Rightarrow> bool" where
  "benign f \<longleftrightarrow> (\<forall>u. u_name (f u) = u_name u \<and> u_role (f u) = u_role u \<and> u_disabled (f u) = u_disabled u \<and>
     (u_deleted (f u) = u_deleted u \<or> u_deleted (f u) = None) \<and> u_version u \<le> u_version (f u))"

definition soft_deleted :: "acct_env \<Rightarrow> user_row \<Rightarrow> user_row" where
  "soft_deleted env u = bump (u\<lparr>u_deleted := Some (ae_now env), u_updated := ae_now env\<rparr>)"

text \<open>Changing the rows with a name.\<close>

definition on_rows :: "string \<Rightarrow> (user_row \<Rightarrow> user_row) \<Rightarrow> user_row list \<Rightarrow> user_row list" where
  "on_rows name f us = map (\<lambda>u. if u_name u = name then f u else u) us"

lemma handle_keeps:
  assumes benign: "\<And>us name f. J us \<Longrightarrow> benign f \<Longrightarrow> J (on_rows name f us)"
    and create: "\<And>us body h. req = Create_User body \<Longrightarrow> J us \<Longrightarrow> valid_create body \<Longrightarrow>
      uc_name body \<notin> u_name ` set us \<Longrightarrow> J (us @ [new_row env (uc_name body) h (uc_role body)])"
    and update: "\<And>db name body cur target. req = Update_User name body \<Longrightarrow> J (users db) \<Longrightarrow>
      signed_in [Admin] cur db \<Longrightarrow> find_user name db = Some target \<Longrightarrow> may_change cur target body \<Longrightarrow>
      valid_update body \<Longrightarrow>
      (case up_name body of None \<Rightarrow> True | Some n \<Rightarrow> n = name \<or> n \<notin> u_name ` set (users db)) \<Longrightarrow>
      J (on_rows name (changed_row env body target) (users db))"
    and soft: "\<And>db cur name. req = Delete_User name False \<Longrightarrow> J (users db) \<Longrightarrow> signed_in [Admin] cur db \<Longrightarrow>
      name \<noteq> u_name cur \<Longrightarrow> J (on_rows name (soft_deleted env) (users db))"
    and hard: "\<And>db cur name. req = Delete_User name True \<Longrightarrow> J (users db) \<Longrightarrow> signed_in [Admin] cur db \<Longrightarrow>
      name \<noteq> u_name cur \<Longrightarrow> J (filter (\<lambda>u. u_name u \<noteq> name) (users db))"
  shows "J (users db) \<Longrightarrow> J (users (snd (handle env token req db)))"
proof (rule hoare_snd [where P = "\<lambda>db. J (users db)"])
  note benign' = benign [unfolded on_rows_def benign_def]
  let ?J = "\<lambda>db. J (users db)"
  show "hoare ?J (handle env token req) (\<lambda>_. ?J) ?J"
  proof (cases req)
    case (Sign_In name password)
    have "hoare ?J (login env name password) (\<lambda>_. ?J) ?J"
      by (rule hoare_login, rule benign') simp_all
    then show ?thesis unfolding Sign_In handle.simps by (rule hoare_bind) (simp add: hoare_return)
  next
    case (Change_Password old new)
    have "hoare ?J (change_own_password env token old new) (\<lambda>_. ?J) ?J"
      by (rule hoare_change_password, rule benign') (simp_all add: bump_def)
    then show ?thesis unfolding Change_Password handle.simps
      by (cases "valid_change old new") (simp_all add: io_guard_def hoare_raise)
  next
    case (Create_User body)
    have "valid_create body \<Longrightarrow> hoare ?J (create_user env token body) (\<lambda>_. ?J) ?J"
      by (rule hoare_create, rule create [OF Create_User])
    then show ?thesis unfolding Create_User handle.simps
      by (cases "valid_create body")
        (auto simp: io_guard_def intro!: hoare_bind [OF _ hoare_return] hoare_raise)
  next
    case (Update_User name body)
    have "valid_update body \<Longrightarrow> hoare ?J (update_user env token name body) (\<lambda>_. ?J) ?J"
      by (rule hoare_update, rule update [OF Update_User, unfolded on_rows_def])
    then show ?thesis unfolding Update_User handle.simps
      by (cases "valid_update body")
        (auto simp: io_guard_def intro!: hoare_bind [OF _ hoare_return] hoare_raise)
  next
    case (Delete_User name hrd)
    have "hoare ?J (delete_user env token name hrd) (\<lambda>_. ?J) ?J"
      by (rule hoare_delete)
        (use Delete_User soft [unfolded on_rows_def soft_deleted_def] hard in auto)
    then show ?thesis unfolding Delete_User handle.simps by (rule hoare_bind) (simp add: hoare_return)
  next
    case (Restore_User name)
    have "hoare ?J (restore_user env token name) (\<lambda>_. ?J) ?J"
      by (rule hoare_restore, rule benign') (simp_all add: bump_def)
    then show ?thesis unfolding Restore_User handle.simps by (rule hoare_bind) (simp add: hoare_return)
  qed
qed

section \<open>The tables stay well formed, and keep an administrator\<close>

definition rows_ok :: "user_row list \<Rightarrow> bool" where
  "rows_ok us \<longleftrightarrow> distinct (map u_name us) \<and> list_all (\<lambda>u. valid_name (u_name u) \<and> 0 \<le> u_version u) us"

lemma accounts_ok_rows: "accounts_ok db \<longleftrightarrow> rows_ok (users db)"
  by (simp add: accounts_ok_def rows_ok_def)

lemma names_on_rows: "(\<And>u. u_name (f u) = u_name u) \<Longrightarrow> map u_name (on_rows t f us) = map u_name us"
  unfolding on_rows_def by (induction us) simp_all

lemma rows_ok_keep:
  assumes "rows_ok us" "\<And>u. u_name (f u) = u_name u" "\<And>u. u_version u \<le> u_version (f u)"
  shows "rows_ok (on_rows t f us)"
  using assms(1) names_on_rows [of f t us] assms(2) order_trans [OF _ assms(3)]
  by (auto simp: rows_ok_def list_all_iff on_rows_def simp del: map_map)

lemma rows_ok_rename:
  assumes "rows_ok us" "valid_name n" "n \<notin> u_name ` set us" "\<And>u. u_name (f u) = n"
    "\<And>u. u_version u \<le> u_version (f u)"
  shows "rows_ok (on_rows t f us)"
proof -
  have "distinct (map u_name (on_rows t f us))"
  proof -
    have "map u_name (on_rows t f us) = map (\<lambda>m. if m = t then n else m) (map u_name us)"
      unfolding on_rows_def by (simp add: assms(4))
    moreover have "inj_on (\<lambda>m. if m = t then n else m) (u_name ` set us)"
      using assms(3) unfolding inj_on_def by metis
    ultimately show ?thesis using assms(1) by (simp only: rows_ok_def distinct_map set_map simp_thms)
  qed
  moreover have "list_all (\<lambda>u. valid_name (u_name u) \<and> 0 \<le> u_version u) (on_rows t f us)"
  proof -
    have "0 \<le> u_version (f u)" if "0 \<le> u_version u" for u using assms(5) [of u] that by linarith
    then show ?thesis using assms(1,2) by (auto simp: rows_ok_def list_all_iff on_rows_def assms(4))
  qed
  ultimately show ?thesis by (simp add: rows_ok_def)
qed

lemma changed_row_simps [simp]:
  "u_name (changed_row env body target u) = (case up_name body of None \<Rightarrow> u_name u | Some n \<Rightarrow> n)"
  "u_deleted (changed_row env body target u) = u_deleted u"
  "u_role (changed_row env body target u) = (case up_role body of None \<Rightarrow> u_role u | Some r \<Rightarrow> r)"
  "u_disabled (changed_row env body target u) = (case up_disabled body of None \<Rightarrow> u_disabled u | Some d \<Rightarrow> d)"
  "u_version u \<le> u_version (changed_row env body target u)"
  by (auto simp: changed_row_def bump_def Let_def split: option.splits)

lemma on_rows_cong: "(\<And>u. u_name u = t \<Longrightarrow> f u = g u) \<Longrightarrow> on_rows t f us = on_rows t g us"
  by (simp add: on_rows_def)

lemma rows_ok_update:
  assumes "rows_ok us" "valid_update body"
    "case up_name body of None \<Rightarrow> True | Some n \<Rightarrow> n = t \<or> n \<notin> u_name ` set us"
  shows "rows_ok (on_rows t (changed_row env body target) us)"
proof (cases "case up_name body of None \<Rightarrow> True | Some n \<Rightarrow> n = t")
  case True
  let ?f = "\<lambda>u. if u_name u = t then changed_row env body target u else u"
  have "rows_ok (on_rows t ?f us)"
    by (rule rows_ok_keep [OF assms(1)]) (use True in \<open>auto split: option.splits\<close>)
  moreover have "on_rows t ?f us = on_rows t (changed_row env body target) us"
    by (rule on_rows_cong) simp
  ultimately show ?thesis by simp
next
  case False
  then obtain n where "up_name body = Some n" "n \<noteq> t" by (auto split: option.splits)
  with assms show ?thesis by (intro rows_ok_rename) (auto simp: valid_update_def)
qed

lemma handle_rows_ok: "rows_ok (users db) \<Longrightarrow> rows_ok (users (snd (handle env token req db)))"
proof (rule handle_keeps)
  show "rows_ok (on_rows name f us)" if "rows_ok us" "benign f" for us name f
    using that by (intro rows_ok_keep) (auto simp: benign_def)
  show "rows_ok (us @ [new_row env (uc_name body) h (uc_role body)])"
    if "rows_ok us" "valid_create body" "uc_name body \<notin> u_name ` set us" for us body h
    using that by (auto simp: rows_ok_def new_row_def valid_create_def)
  show "rows_ok (on_rows name (soft_deleted env) (users db))" if "rows_ok (users db)" for db name
    using that by (intro rows_ok_keep) (auto simp: soft_deleted_def bump_def)
  show "rows_ok (filter (\<lambda>u. u_name u \<noteq> name) (users db))" if "rows_ok (users db)" for db name
    using that by (auto simp: rows_ok_def distinct_map_filter list_all_iff)
qed (rule rows_ok_update)

text \<open>C39: whatever requests arrive, and in whatever order, the accounts stay well formed: every name is a
  valid one and no two accounts share it, so it is a primary key, and token versions are never negative.\<close>

theorem accounts_well_formed:
  assumes "accounts_ok db"
  shows "accounts_ok (serve arrivals db)"
  using assms
proof (induction arrivals arbitrary: db)
  case (Cons a arrivals)
  obtain env token req where a: "a = (env, token, req)" by (cases a)
  have "accounts_ok (snd (handle env token req db))"
    using Cons.prems by (simp add: accounts_ok_rows handle_rows_ok)
  then show ?case using Cons.IH by (simp add: serve_def a)
qed (simp add: serve_def)

definition admin_left :: "user_row list \<Rightarrow> bool" where
  "admin_left us \<longleftrightarrow> distinct (map u_name us) \<and> list_ex active_admin us"

lemma active_admin_stays:
  assumes "signed_in [Admin] cur db" "name \<noteq> u_name cur"
  shows "list_ex active_admin (on_rows name f (users db))"
    and "list_ex active_admin (filter (\<lambda>u. u_name u \<noteq> name) (users db))"
proof -
  have "cur \<in> set (users db)" "active_admin cur"
    using assms by (auto simp: signed_in_def active_admin_def dest!: find_user_Some)
  then show "list_ex active_admin (on_rows name f (users db))"
      "list_ex active_admin (filter (\<lambda>u. u_name u \<noteq> name) (users db))"
    using assms(2) by (force simp: list_ex_iff on_rows_def)+
qed

lemma active_admin_update:
  assumes "signed_in [Admin] cur db" "find_user name db = Some target" "may_change cur target body"
  shows "list_ex active_admin (on_rows name (changed_row env body target) (users db))"
proof (cases "name = u_name cur")
  case False
  then show ?thesis using active_admin_stays(1) [OF assms(1)] by simp
next
  case True
  then have t: "target = cur" using assms by (auto simp: signed_in_def)
  have "cur \<in> set (users db)" using assms(1) by (auto simp: signed_in_def dest!: find_user_Some)
  moreover have "active_admin (changed_row env body target cur)"
    using assms(1,3) by (auto simp: t active_admin_def signed_in_def may_change_def split: option.splits)
  ultimately show ?thesis using True by (force simp: list_ex_iff on_rows_def)
qed

lemma handle_admin_left:
  assumes "rows_ok (users db)" "list_ex active_admin (users db)"
  shows "list_ex active_admin (users (snd (handle env token req db)))"
proof -
  let ?J = "\<lambda>us. list_ex active_admin us"
  show ?thesis
  proof (rule handle_keeps [where J = ?J])
    show "?J (on_rows name f us)" if "?J us" "benign f" for us name f
    proof -
      from that(1) obtain u where u: "u \<in> set us" "active_admin u" by (auto simp: list_ex_iff)
      have "active_admin (if u_name u = name then f u else u)"
        using u(2) that(2) [unfolded benign_def, THEN spec, of u] by (auto simp: active_admin_def)
      with u(1) show ?thesis unfolding list_ex_iff on_rows_def set_map by blast
    qed
    show "?J (us @ [r])" if "?J us" for us r
      using that by (auto simp: list_ex_iff)
    show "?J (on_rows name (changed_row env body target) (users db1))"
      if "signed_in [Admin] cur db1" "find_user name db1 = Some target" "may_change cur target body"
      for db1 name body cur target
      using that by (rule active_admin_update)
    show "?J (on_rows name (soft_deleted env) (users db1))" "?J (filter (\<lambda>u. u_name u \<noteq> name) (users db1))"
      if "signed_in [Admin] cur db1" "name \<noteq> u_name cur" for db1 cur name
      using that by (rule active_admin_stays)+
  qed (rule assms(2))
qed

text \<open>C5: requests served one after the other never lock everybody out: as long as there is an enabled
  administrator, there is one after any sequence of sign-ins, password changes, creations, updates,
  deletions and restorations.\<close>

theorem administrator_remains:
  assumes "accounts_ok db" "has_admin db"
  shows "has_admin (serve arrivals db)"
  using assms
proof (induction arrivals arbitrary: db)
  case (Cons a arrivals)
  obtain env token req where a: "a = (env, token, req)" by (cases a)
  let ?db = "snd (handle env token req db)"
  have "accounts_ok ?db" "has_admin ?db"
    using Cons.prems handle_rows_ok handle_admin_left by (simp_all add: accounts_ok_rows has_admin_def)
  then show ?case using Cons.IH by (simp add: serve_def a)
qed (simp add: serve_def)

section \<open>Old tokens stay invalid\<close>

text \<open>A request that neither gives the name \<open>n\<close> up nor removes its row.\<close>

fun keeps_name :: "string \<Rightarrow> arrival \<Rightarrow> bool" where
  "keeps_name n (env, token, Update_User m body) \<longleftrightarrow> m \<noteq> n \<or> up_name body = None \<or> up_name body = Some n"
| "keeps_name n (env, token, Delete_User m hard) \<longleftrightarrow> m \<noteq> n \<or> \<not> hard"
| "keeps_name n (env, token, req) \<longleftrightarrow> True"

definition version_from :: "string \<Rightarrow> int \<Rightarrow> user_row list \<Rightarrow> bool" where
  "version_from n k us \<longleftrightarrow> (\<exists>u \<in> set us. u_name u = n \<and> k \<le> u_version u)"

lemma version_from_on_rows:
  assumes "version_from n k us" "\<And>u. u_name u = n \<Longrightarrow> t = n \<Longrightarrow> u_name (f u) = n"
    "\<And>u. u_version u \<le> u_version (f u)"
  shows "version_from n k (on_rows t f us)"
proof -
  obtain u where u: "u \<in> set us" "u_name u = n" "k \<le> u_version u"
    using assms(1) by (auto simp: version_from_def)
  let ?u = "if u_name u = t then f u else u"
  have "u_name ?u = n" "k \<le> u_version ?u"
    using u assms(2) [of u] order_trans [OF u(3) assms(3)] by auto
  moreover have "?u \<in> set (on_rows t f us)" using u(1) by (simp add: on_rows_def)
  ultimately show ?thesis unfolding version_from_def by blast
qed

lemma version_from_row:
  "u \<in> set us \<Longrightarrow> u_name u = t \<Longrightarrow> u_name (f u) = n \<Longrightarrow> k \<le> u_version (f u) \<Longrightarrow> version_from n k (on_rows t f us)"
  unfolding version_from_def on_rows_def by force

lemma handle_version:
  assumes "keeps_name n (env, token, req)" "version_from n k (users db)"
  shows "version_from n k (users (snd (handle env token req db)))"
proof (rule handle_keeps [where J = "version_from n k"])
  show "version_from n k (on_rows name f us)" if "version_from n k us" "benign f" for us name f
  proof (rule version_from_on_rows [OF that(1)])
    show "u_version u \<le> u_version (f u)" for u using that(2) by (simp add: benign_def)
    show "u_name (f u) = n" if "u_name u = n" for u using \<open>benign f\<close> that by (simp add: benign_def)
  qed
  show "version_from n k (us @ [r])" if "version_from n k us" for us r
    using that by (auto simp: version_from_def)
  show "version_from n k (on_rows name (changed_row env body target) (users db1))"
    if "req = Update_User name body" "version_from n k (users db1)" for db1 name body target
    using assms(1) by (intro version_from_on_rows [OF that(2)]) (auto simp: that(1) split: option.splits)
  show "version_from n k (on_rows name (soft_deleted env) (users db1))" if "version_from n k (users db1)" for db1 name
    by (intro version_from_on_rows [OF that]) (auto simp: soft_deleted_def bump_def)
  show "version_from n k (filter (\<lambda>u. u_name u \<noteq> name) (users db1))"
    if "req = Delete_User name True" "version_from n k (users db1)" for db1 name
    using assms(1) that by (auto simp: version_from_def)
qed (rule assms(2))

lemma serve_version:
  assumes "list_all (keeps_name n) arrivals" "rows_ok (users db)" "version_from n k (users db)"
  shows "rows_ok (users (serve arrivals db)) \<and> version_from n k (users (serve arrivals db))"
  using assms
proof (induction arrivals arbitrary: db)
  case (Cons a arrivals)
  obtain env token req where a: "a = (env, token, req)" by (cases a)
  have "serve (a # arrivals) db = serve arrivals (snd (handle env token req db))"
    by (simp add: serve_def a)
  then show ?case
    using Cons handle_rows_ok [of db env token req] handle_version [of n env token req k db] a by simp
qed (simp add: serve_def)

lemma old_version_rejected:
  assumes "rows_ok (users db)" "version_from n k (users db)"
    "decode_token env token = Some claims" "dget claims ''sub'' PNone = PStr n"
    "py_int (dget claims ''ver'' (PInt 0)) = Ok v" "v < k"
  shows "fst (get_current_user env (Some token) db) = Ok None"
proof -
  obtain u where u: "u \<in> set (users db)" "u_name u = n" "k \<le> u_version u"
    using assms(2) by (auto simp: version_from_def)
  then have "find_user n db = Some u"
    using assms(1) find_user_distinct unfolding rows_ok_def by blast
  then show ?thesis using assms(3-6) u(3) by (simp add: get_current_user_def get_user_def)
qed

lemma change_own_password_effect:
  assumes "change_own_password env token old new db = (Inr (), db1)"
    "get_current_user env token db = (Inr (Some u), db)"
  shows "users db1 = on_rows (u_name u) (\<lambda>x. bump (x\<lparr>u_hash := ae_hash env new, u_updated := ae_now env\<rparr>)) (users db)"
  using assms
  by (auto simp: change_own_password_def io_bind_Inr load_or_404_def get_user_def io_guard_def update_rows_def
      audit_def on_rows_def dest!: find_user_Some split: option.splits if_splits sum.splits)


section \<open>Signing in\<close>

text \<open>The claims of the token of a sign-in.\<close>

definition login_claims :: "acct_env \<Rightarrow> user_row \<Rightarrow> pydict" where
  "login_claims env u = [(''sub'', PStr (u_name u)), (''role'', PStr (role_value (u_role u))),
     (''ver'', PInt (u_version u)), (''exp'', PInt (ae_now env + ae_expire_minutes env * 60))]"

lemma login_token:
  "create_access_token env [(''sub'', PStr (u_name u)), (''role'', PStr (role_value (u_role u)))] None (u_version u)
   = ae_encode env (login_claims env u)"
  by (simp add: create_access_token_def login_claims_def dupdate_def)

text \<open>A sign-in returns a token that is accepted, as long as it decodes, for exactly the account that
  signed in with the role it has in the table, if the account has not changed meanwhile.\<close>

theorem sign_in_roundtrip:
  assumes "find_user name db = Some u"
    and "login env name password db = (Inr (token, r), db1)"
    and "ae_decode env t (ae_encode env (login_claims env u)) = Some (login_claims env u)"
  shows "get_current_user (env\<lparr>ae_now := t\<rparr>) (Some token) db1 =
      (Inr (Some (u\<lparr>u_login := Some (ae_now env)\<rparr>)), db1) \<and> u_name u = name \<and> r = u_role u"
proof -
  have u: "u_deleted u = None" "\<not> u_disabled u" "r = u_role u" "token = ae_encode env (login_claims env u)"
      "db1 = update_rows name (\<lambda>u. u\<lparr>u_login := Some (ae_now env)\<rparr>) db"
    using assms(1,2)
    by (auto simp: login_def authenticate_user_def get_user_def record_login_def io_bind_Inr login_token
        split: option.splits if_splits)
  have name: "u_name u = name" using find_user_Some [OF assms(1)] by simp
  have "find_user name db1 = Some (u\<lparr>u_login := Some (ae_now env)\<rparr>)"
    unfolding u(5) by (simp add: find_user_update assms(1) name)
  then show ?thesis
    using u name assms(3)
    by (simp add: get_current_user_def decode_token_def login_claims_def get_user_def)
qed

text \<open>A stream token opens the stream it was issued for and no other one.\<close>

theorem stream_token_scoped:
  assumes "ae_decode env (ae_now env) (mint_sse_token_for env sub role scope) =
    Some [(''sub'', PStr sub), (''role'', PStr role), (''scope'', PStr scope), (''exp'', PInt e)]"
  shows "verify_scoped_token env (mint_sse_token_for env sub role scope) wanted =
    (if wanted = scope
     then Ok [(''sub'', PStr sub), (''role'', PStr role), (''scope'', PStr scope), (''exp'', PInt e)]
     else Raise (HTTPException 401 [''token scope mismatch'']))"
  using assms by (simp add: verify_scoped_token_def decode_sse_token_def decode_token_def Let_def)

text \<open>
  The same stream token is accepted as a bearer token of its account, for every request, as long as the
  account's token version is still 0.
\<close>

lemma stream_token_opens_account:
  assumes "ae_decode env (ae_now env) token =
    Some [(''sub'', PStr (u_name u)), (''role'', role), (''scope'', PStr scope), (''exp'', PInt e)]"
    and "find_user (u_name u) db = Some u" "\<not> u_disabled u" "u_deleted u = None" "u_version u = 0"
  shows "get_current_user env (Some token) db = (Inr (Some u), db)"
  using assms by (simp add: get_current_user_def decode_token_def get_user_def)

section \<open>Examples\<close>

text \<open>A server whose tokens name one account; its passwords are stored as they are.\<close>

definition toy_claims :: pydict where
  "toy_claims = [(''sub'', PStr ''root''), (''role'', PStr ''admin''), (''ver'', PInt 0), (''exp'', PInt 1600)]"

definition toy_acct :: acct_env where
  "toy_acct = \<lparr>ae_now = 1000, ae_hash = id, ae_verify = (=), ae_encode = (\<lambda>_. ''t''),
     ae_decode = (\<lambda>t s. if t \<le> 1600 then Some toy_claims else None), ae_expire_minutes = 10, ae_audit_up = True\<rparr>"

definition toy_user :: "string \<Rightarrow> role \<Rightarrow> user_row" where
  "toy_user name r = \<lparr>u_name = name, u_hash = ''Aa1!aaaaaaaa'', u_role = r, u_disabled = False, u_created = 0,
     u_updated = 0, u_login = None, u_deleted = None, u_version = 0\<rparr>"

definition toy_db :: accounts where
  "toy_db = \<lparr>users = [toy_user ''root'' Admin, toy_user ''alice'' Admin], enroll_creators = [], voters = [],
     audits = []\<rparr>"

lemmas toy_simps = toy_acct_def toy_claims_def toy_user_def toy_db_def

lemma toy_ok: "accounts_ok toy_db" "has_admin toy_db"
  by (simp_all add: accounts_ok_def has_admin_def toy_simps valid_name_def name_char_def is_alnum_def is_lower_def
      active_admin_def)

lemma toy_signed_in: "get_current_user toy_acct (Some ''t'') toy_db = (Inr (Some (toy_user ''root'' Admin)), toy_db)"
  by (simp add: get_current_user_def decode_token_def get_user_def find_user_def toy_simps)

theorem accounts_well_formed_witness:
  "accounts_ok (serve [(toy_acct, Some ''t'', Delete_User ''alice'' False)] toy_db)"
  by (rule accounts_well_formed [OF toy_ok(1)])

theorem administrator_remains_witness:
  "has_admin (serve [(toy_acct, Some ''t'', Delete_User ''alice'' False)] toy_db)"
  by (rule administrator_remains [OF toy_ok])

theorem sign_in_roundtrip_witness:
  "\<exists>token db1. login toy_acct ''root'' ''Aa1!aaaaaaaa'' toy_db = (Inr (token, Admin), db1) \<and>
     fst (get_current_user (toy_acct\<lparr>ae_now := 1500\<rparr>) (Some token) db1) =
       Ok (Some (toy_user ''root'' Admin\<lparr>u_login := Some 1000\<rparr>))"
proof -
  have l: "login toy_acct ''root'' ''Aa1!aaaaaaaa'' toy_db = (Inr (''t'', Admin),
      update_rows ''root'' (\<lambda>u. u\<lparr>u_login := Some 1000\<rparr>) toy_db)"
    by (simp add: login_def authenticate_user_def get_user_def record_login_def find_user_def
        create_access_token_def toy_simps)
  have u: "find_user ''root'' toy_db = Some (toy_user ''root'' Admin)" by (simp add: find_user_def toy_simps)
  have "ae_decode toy_acct 1500 (ae_encode toy_acct (login_claims toy_acct (toy_user ''root'' Admin))) =
      Some (login_claims toy_acct (toy_user ''root'' Admin))"
    by (simp add: toy_simps login_claims_def)
  from sign_in_roundtrip [OF u l this] l show ?thesis by (auto simp: toy_acct_def)
qed

theorem stream_token_scoped_witness:
  "verify_scoped_token (toy_acct\<lparr>ae_decode := \<lambda>t s. Some [(''sub'', PStr ''root''), (''role'', PStr ''admin''),
        (''scope'', PStr ''events''), (''exp'', PInt 1060)]\<rparr>)
      (mint_sse_token_for (toy_acct\<lparr>ae_decode := \<lambda>t s. Some [(''sub'', PStr ''root''), (''role'', PStr ''admin''),
        (''scope'', PStr ''events''), (''exp'', PInt 1060)]\<rparr>) ''root'' ''admin'' ''events'') ''metrics'' =
   Raise (HTTPException 401 [''token scope mismatch''])"
  by (subst stream_token_scoped [where e = 1060]) (simp_all add: toy_acct_def)


section \<open>Where the checks leave gaps\<close>

text \<open>
  Tokens name the account, and an account created later under a name that was given up starts at version 0
  again: a token of the old holder is accepted for the new account.
\<close>

lemma renamed_token_reused:
  "\<exists>u. fst (get_current_user toy_acct (Some ''t'')
     (serve [(toy_acct\<lparr>ae_decode := \<lambda>t s. Some [(''sub'', PStr ''alice''), (''ver'', PInt 0)]\<rparr>, Some ''a'',
              Update_User ''root'' \<lparr>up_name = Some ''old_root'', up_role = Some Viewer, up_disabled = None\<rparr>),
             (toy_acct\<lparr>ae_decode := \<lambda>t s. Some [(''sub'', PStr ''alice''), (''ver'', PInt 0)]\<rparr>, Some ''a'',
              Create_User \<lparr>uc_name = ''root'', uc_password = ''Cc3#cccccccc'', uc_role = Admin\<rparr>)] toy_db)) =
     Ok (Some u) \<and> u_hash u = ''Cc3#cccccccc''"
  by (simp add: serve_def update_user_def update_checks_def require_role_def get_current_user_def decode_token_def
      get_user_def find_user_def io_bind_def io_guard_def load_or_404_def validate_username_format_def
      username_match_def valid_update_def valid_name_def name_char_def is_alnum_def is_lower_def is_digit_def is_upper_def
      count_active_admins_def ensure_not_last_admin_change_def active_admin_def update_write_def
      update_rows_def changed_row_def audit_def create_user_def valid_create_def validate_password_def MIN_PW_LEN_def
      LEGACY_WEAK_PASSWORDS_def password_classes_def py_lower_def lower_char_def insert_user_def toy_simps
      invalid_body_def opt_val_def)

text \<open>
  Two administrators who demote each other at the same time both pass the check before either change is
  written, and nobody is left.
\<close>

lemma concurrent_demotion_leaves_no_admin:
  defines "as_alice \<equiv> toy_acct\<lparr>ae_decode := \<lambda>t s. Some [(''sub'', PStr ''alice''), (''ver'', PInt 0)]\<rparr>"
  defines "demote \<equiv> \<lparr>up_name = None, up_role = Some Viewer, up_disabled = None\<rparr>"
  shows "\<exists>t1 t2. fst (update_checks toy_acct (Some ''t'') ''alice'' demote toy_db) = Ok t1 \<and>
     fst (update_checks as_alice (Some ''a'') ''root'' demote toy_db) = Ok t2 \<and>
     \<not> has_admin (snd (update_write as_alice demote (snd t2) (snd (update_write toy_acct demote (snd t1) toy_db))))"
  unfolding as_alice_def demote_def
  by (simp add: update_checks_def require_role_def get_current_user_def decode_token_def
      get_user_def find_user_def io_bind_def io_guard_def load_or_404_def
      count_active_admins_def ensure_not_last_admin_change_def active_admin_def update_write_def
      update_rows_def changed_row_def has_admin_def toy_simps)

end
