(* ===== verification/Fleet.thy ===== *)
theory Fleet
  imports Prelude "HOL-Library.Product_Lexorder"
begin

text \<open>
  The fleet of agents: enrollment tokens and agent credentials (\<open>src/agents/enroll.py\<close>,
  \<open>src/agents/revoke.py\<close>) and the host inventory (the host part of \<open>src/agents/store.py\<close>), kept in the
  database with a mirror in the search index. The world \<open>fleet\<close> holds the tables, the index, the key-value
  server and what was published; \<open>fleet_env\<close> holds the clock, the hash and which of the servers answer
  during a request. A time is a number of seconds; its text form is an argument.
\<close>

section \<open>State\<close>

record enroll_row =
  e_token :: string
  e_group :: "string option"
  e_expires :: int
  e_uses :: int
  e_creator :: string

record cred_row =
  c_agent :: string
  c_hash :: string
  c_issued :: int
  c_revoked :: "int option"

datatype host_status = Online | Offline | Decommissioned

record host_row =
  h_id :: string
  h_name :: string
  h_ip :: string
  h_os :: string
  h_arch :: string
  h_kernel :: string
  h_status :: host_status
  h_group :: "string option"
  h_version :: string
  h_rules :: string
  h_beat :: "int option"
  h_created :: int

text \<open>A key of the key-value server has a value and, possibly, the time at which it expires.\<close>

record fleet =
  etokens :: "enroll_row list"
  creds :: "cred_row list"
  hosts :: "host_row list"
  mirror :: "host_row list"
  groups :: "(string \<times> string \<times> int) list"
  keys :: "(string \<times> pyval \<times> int option) list"
  published :: "(string \<times> pyval) list"
  conns :: "(string \<times> nat) list"
  revoked_conns :: "string list"
  sent :: "(nat \<times> pyval) list"

record fleet_env =
  fe_now :: int
  fe_iso :: "int \<Rightarrow> string"
  fe_parse :: "string \<Rightarrow> int option"
  fe_sha :: "string \<Rightarrow> string"
  fe_pg_up :: bool
  fe_es_up :: bool
  fe_redis_up :: bool
  fe_ws_ok :: "nat \<Rightarrow> bool"
  fe_listeners :: "string \<Rightarrow> nat"
  fe_heartbeat :: int
  fe_worker :: string

type_synonym 'a fio = "(fleet, 'a) io"

definition pg :: "fleet_env \<Rightarrow> 'a fio \<Rightarrow> 'a fio" where
  "pg env m = io_bind (io_guard (fe_pg_up env) (ExtError ''postgres'')) (\<lambda>_. m)"
definition es :: "fleet_env \<Rightarrow> 'a fio \<Rightarrow> 'a fio" where
  "es env m = io_bind (io_guard (fe_es_up env) (ExtError ''elasticsearch'')) (\<lambda>_. m)"
definition redis :: "fleet_env \<Rightarrow> 'a fio \<Rightarrow> 'a fio" where
  "redis env m = io_bind (io_guard (fe_redis_up env) (ExtError ''redis'')) (\<lambda>_. m)"

text \<open>An action whose failure is logged and ignored.\<close>

definition best_effort :: "unit fio \<Rightarrow> unit fio" where
  "best_effort m = io_try m (\<lambda>e. io_return ())"

section \<open>Key-value server\<close>

definition kv_get :: "fleet_env \<Rightarrow> string \<Rightarrow> pyval option fio" where
  "kv_get env k = redis env (io_gets (\<lambda>w. case map_of (keys w) k of
     Some (v, None) \<Rightarrow> Some v
   | Some (v, Some t) \<Rightarrow> if fe_now env < t then Some v else None
   | None \<Rightarrow> None))"

definition kv_set :: "fleet_env \<Rightarrow> string \<Rightarrow> pyval \<Rightarrow> int option \<Rightarrow> unit fio" where
  "kv_set env k v ttl = redis env (io_modify (\<lambda>w. w\<lparr>keys :=
     AList.update k (v, map_option (\<lambda>s. fe_now env + s) ttl) (keys w)\<rparr>))"

definition kv_delete :: "fleet_env \<Rightarrow> string list \<Rightarrow> unit fio" where
  "kv_delete env ks = redis env (io_modify (\<lambda>w. w\<lparr>keys := filter (\<lambda>(k, _). k \<notin> set ks) (keys w)\<rparr>))"

definition kv_publish :: "fleet_env \<Rightarrow> string \<Rightarrow> pyval \<Rightarrow> nat fio" where
  "kv_publish env channel msg = redis env (io_bind (io_modify (\<lambda>w. w\<lparr>published := published w @ [(channel, msg)]\<rparr>))
     (\<lambda>_. io_return (fe_listeners env channel)))"

section \<open>Enrollment tokens\<close>

definition find_token :: "string \<Rightarrow> fleet \<Rightarrow> enroll_row option" where
  "find_token token w = find (\<lambda>r. e_token r = token) (etokens w)"

definition delete_token :: "string \<Rightarrow> fleet \<Rightarrow> fleet" where
  "delete_token token w = w\<lparr>etokens := filter (\<lambda>r. e_token r \<noteq> token) (etokens w)\<rparr>"

text \<open>\<open>fresh\<close> is the random token.\<close>

definition create_enroll_token ::
    "fleet_env \<Rightarrow> string \<Rightarrow> string option \<Rightarrow> int \<Rightarrow> int \<Rightarrow> string \<Rightarrow> (string \<times> string) fio" where
  "create_enroll_token env fresh grp ttl_hours uses created_by = pg env
     (let expires = fe_now env + ttl_hours * 3600 in
      io_bind (\<lambda>w. if find_token fresh w \<noteq> None then (Raise (ExtError ''UniqueViolation''), w)
         else (Ok (), w\<lparr>etokens := etokens w @ [\<lparr>e_token = fresh, e_group = grp, e_expires = expires,
                e_uses = uses, e_creator = created_by\<rparr>]\<rparr>)) (\<lambda>_.
      io_return (fresh, fe_iso env expires)))"

definition group_or_empty :: "string option \<Rightarrow> string" where
  "group_or_empty g = (case g of Some s \<Rightarrow> s | None \<Rightarrow> [])"

text \<open>The first half of both checks: the group of a token that is neither unknown, expired nor used up.\<close>

definition read_enroll_token :: "fleet_env \<Rightarrow> string \<Rightarrow> string option fio" where
  "read_enroll_token env token = pg env
     (io_bind (io_gets (find_token token)) (\<lambda>row.
      case row of
        None \<Rightarrow> io_return None
      | Some r \<Rightarrow>
          if fe_now env > e_expires r then io_bind (io_modify (delete_token token)) (\<lambda>_. io_return None)
          else if e_uses r \<le> 0 then io_bind (io_modify (delete_token token)) (\<lambda>_. io_return None)
          else io_return (Some (group_or_empty (e_group r)))))"

definition peek_enroll_token :: "fleet_env \<Rightarrow> string \<Rightarrow> string option fio" where
  "peek_enroll_token env token = read_enroll_token env token"

text \<open>The second half: one use is taken if one is left, and a used-up token is removed.\<close>

definition claim_enroll_token :: "string \<Rightarrow> int option fio" where
  "claim_enroll_token token = (\<lambda>w. case find_token token w of
     Some r \<Rightarrow> if e_uses r > 0
       then (Ok (Some (e_uses r - 1)), w\<lparr>etokens :=
              map (\<lambda>x. if e_token x = token then x\<lparr>e_uses := e_uses x - 1\<rparr> else x) (etokens w)\<rparr>)
       else (Ok None, w)
   | None \<Rightarrow> (Ok None, w))"

definition use_enroll_token :: "string \<Rightarrow> unit fio" where
  "use_enroll_token token =
     io_bind (claim_enroll_token token) (\<lambda>remaining.
     case remaining of
       Some n \<Rightarrow> if n \<le> 0 then io_modify (delete_token token) else io_return ()
     | None \<Rightarrow> io_return ())"

definition validate_enroll_token :: "fleet_env \<Rightarrow> string \<Rightarrow> string option fio" where
  "validate_enroll_token env token =
     io_bind (read_enroll_token env token) (\<lambda>r.
     case r of
       None \<Rightarrow> io_return None
     | Some grp \<Rightarrow> io_bind (use_enroll_token token) (\<lambda>_. io_return (Some grp)))"

text \<open>\<open>s.replace(old, new)\<close>.\<close>

fun replace_all :: "nat \<Rightarrow> string \<Rightarrow> string \<Rightarrow> string \<Rightarrow> string" where
  "replace_all 0 old new s = s"
| "replace_all (Suc n) old new s =
     (case split_str_once old s of None \<Rightarrow> s | Some (a, b) \<Rightarrow> a @ new @ replace_all n old new b)"

definition py_replace :: "string \<Rightarrow> string \<Rightarrow> string \<Rightarrow> string" where
  "py_replace old new s = replace_all (length s) old new s"

record install_settings =
  is_external_url :: string
  is_download_base :: string
  is_nuclei_version :: string
  is_templates_version :: string

definition get_install_script_content ::
    "install_settings \<Rightarrow> string \<Rightarrow> string \<Rightarrow> string \<Rightarrow> string \<Rightarrow> string option \<Rightarrow> string" where
  "get_install_script_content s sh_template ps_template token os_type console_url =
     (let url = (case console_url of Some (c # cs) \<Rightarrow> c # cs | _ \<Rightarrow> is_external_url s);
          template = (if os_type = ''windows'' then ps_template else sh_template)
      in py_replace ''__NUCLEI_TEMPLATES_VERSION__'' (is_templates_version s)
          (py_replace ''__NUCLEI_VERSION__'' (is_nuclei_version s)
          (py_replace ''__NUCLEI_DOWNLOAD_BASE_URL__'' (rstrip_char (CHR ''/'') (is_download_base s))
          (py_replace ''__SECAGENT_CONSOLE_URL__'' url
          (py_replace ''__SECAGENT_TOKEN__'' token template)))))"

section \<open>Agent credentials and their revocation\<close>

definition find_cred :: "string \<Rightarrow> fleet \<Rightarrow> cred_row option" where
  "find_cred agent w = find (\<lambda>r. c_agent r = agent) (creds w)"

definition register_enroll_token :: "fleet_env \<Rightarrow> string \<Rightarrow> string \<Rightarrow> unit fio" where
  "register_enroll_token env agent token = pg env (io_modify (\<lambda>w.
     if find_cred agent w = None
     then w\<lparr>creds := creds w @ [\<lparr>c_agent = agent, c_hash = fe_sha env token, c_issued = fe_now env,
            c_revoked = None\<rparr>]\<rparr>
     else w\<lparr>creds := map (\<lambda>r. if c_agent r = agent
            then r\<lparr>c_hash := fe_sha env token, c_issued := fe_now env, c_revoked := None\<rparr> else r) (creds w)\<rparr>))"

definition validate_agent_token :: "fleet_env \<Rightarrow> string \<Rightarrow> string \<Rightarrow> bool fio" where
  "validate_agent_token env agent token = pg env
     (io_bind (io_gets (find_cred agent)) (\<lambda>row.
      case row of
        None \<Rightarrow> io_return False
      | Some r \<Rightarrow>
          if c_revoked r \<noteq> None then io_return False
          else if c_hash r \<noteq> fe_sha env token then io_return False
          else io_return True))"

definition revoke_channel :: "string \<Rightarrow> string" where
  "revoke_channel agent = ''agent:revoke:'' @ agent"

definition revoke_agent :: "fleet_env \<Rightarrow> string \<Rightarrow> pydict fio" where
  "revoke_agent env agent =
     io_bind (pg env (io_modify (\<lambda>w. w\<lparr>creds := map (\<lambda>r. if c_agent r = agent \<and> c_revoked r = None
        then r\<lparr>c_revoked := Some (fe_now env)\<rparr> else r) (creds w)\<rparr>))) (\<lambda>_.
     io_bind (kv_publish env (revoke_channel agent)
        (PDict [(''agent_id'', PStr agent), (''ts'', PStr (fe_iso env (fe_now env)))])) (\<lambda>listeners.
     io_return [(''agent_id'', PStr agent), (''subscribers'', PInt (int listeners))]))"

text \<open>
  What a listener does with one message of the revocation channels; \<open>loads\<close> reads its text, \<open>None\<close> when
  it is not JSON.
\<close>

definition on_revocation :: "(string \<Rightarrow> pyval option) \<Rightarrow> (pyval \<Rightarrow> unit fio) \<Rightarrow> string \<Rightarrow> pyval \<Rightarrow> unit fio" where
  "on_revocation loads callback msg_type data =
     (if msg_type \<noteq> ''pmessage'' then io_return ()
      else case loads (case data of PStr (c # cs) \<Rightarrow> c # cs | _ \<Rightarrow> ''{}'') of
        None \<Rightarrow> io_return ()
      | Some v \<Rightarrow>
          io_bind (io_lift (vget v ''agent_id'' PNone)) (\<lambda>agent.
          if truthy agent then best_effort (callback agent) else io_return ()))"

section \<open>The host inventory\<close>

definition find_host :: "string \<Rightarrow> host_row list \<Rightarrow> host_row option" where
  "find_host agent hs = find (\<lambda>h. h_id h = agent) hs"

definition put_host :: "host_row \<Rightarrow> host_row list \<Rightarrow> host_row list" where
  "put_host h hs = (if find_host (h_id h) hs = None then hs @ [h]
     else map (\<lambda>x. if h_id x = h_id h then h else x) hs)"

text \<open>The upsert keeps the creation time of an existing row.\<close>

definition upsert_host :: "host_row \<Rightarrow> host_row list \<Rightarrow> host_row list" where
  "upsert_host h hs = (case find_host (h_id h) hs of
     None \<Rightarrow> hs @ [h]
   | Some old \<Rightarrow> map (\<lambda>x. if h_id x = h_id h then h\<lparr>h_created := h_created old\<rparr> else x) hs)"

definition save_host :: "fleet_env \<Rightarrow> host_row \<Rightarrow> unit fio" where
  "save_host env h =
     io_bind (pg env (io_modify (\<lambda>w. w\<lparr>hosts := upsert_host h (hosts w)\<rparr>))) (\<lambda>_.
     best_effort (es env (io_modify (\<lambda>w. w\<lparr>mirror := put_host h (mirror w)\<rparr>))))"

definition get_host :: "fleet_env \<Rightarrow> string \<Rightarrow> host_row option fio" where
  "get_host env agent =
     io_bind (io_try (pg env (io_gets (\<lambda>w. find_host agent (hosts w)))) (\<lambda>e. io_return None)) (\<lambda>row.
     case row of
       Some h \<Rightarrow> io_return (Some h)
     | None \<Rightarrow> es env (io_gets (\<lambda>w. find_host agent (mirror w))))"

text \<open>The filters of a listing; newest heartbeat first, hosts without one last.\<close>

definition beat_key :: "host_row \<Rightarrow> int \<times> int" where
  "beat_key h = (case h_beat h of Some t \<Rightarrow> (0, - t) | None \<Rightarrow> (1, 0))"

definition truthy_eq :: "string option \<Rightarrow> string option \<Rightarrow> bool" where
  "truthy_eq flt v = (case flt of Some (c # cs) \<Rightarrow> v = Some (c # cs) | _ \<Rightarrow> True)"

definition select_hosts ::
    "host_status option \<Rightarrow> string option \<Rightarrow> nat \<Rightarrow> nat \<Rightarrow> bool \<Rightarrow> string option \<Rightarrow> host_row list \<Rightarrow> host_row list" where
  "select_hosts status grp limit offset exclude_decommissioned hostname hs =
     take limit (drop offset (sort_key beat_key (filter (\<lambda>h.
       (case status of Some s \<Rightarrow> h_status h = s
        | None \<Rightarrow> exclude_decommissioned \<longrightarrow> h_status h \<noteq> Decommissioned) \<and>
       truthy_eq grp (h_group h) \<and> truthy_eq hostname (Some (h_name h))) hs)))"

definition store_list_hosts ::
    "fleet_env \<Rightarrow> host_status option \<Rightarrow> string option \<Rightarrow> nat \<Rightarrow> nat \<Rightarrow> bool \<Rightarrow> string option \<Rightarrow> host_row list fio" where
  "store_list_hosts env status grp limit offset excl hostname =
     io_bind (io_try (pg env (io_gets (\<lambda>w. select_hosts status grp limit offset excl hostname (hosts w))))
        (\<lambda>e. io_return [])) (\<lambda>rows.
     if rows \<noteq> [] then io_return rows
     else es env (io_gets (\<lambda>w. select_hosts status grp limit offset excl hostname (mirror w))))"

text \<open>The changes a partial update may make; an absent value leaves a column alone.\<close>

record host_patch =
  hp_status :: "host_status option"
  hp_group :: "string option option"
  hp_version :: "string option"
  hp_rules :: "string option"
  hp_beat :: "string option"

definition no_patch :: host_patch where
  "no_patch = \<lparr>hp_status = None, hp_group = None, hp_version = None, hp_rules = None, hp_beat = None\<rparr>"

definition parse_ts :: "fleet_env \<Rightarrow> string \<Rightarrow> int option" where
  "parse_ts env value =
     (let s = strip value in
      if s = [] then None
      else fe_parse env (if last s = CHR ''Z'' then butlast s @ ''+00:00'' else s))"

definition beat_time :: "fleet_env \<Rightarrow> string \<Rightarrow> int" where
  "beat_time env s = (case parse_ts env s of Some t \<Rightarrow> t | None \<Rightarrow> fe_now env)"

definition apply_patch :: "fleet_env \<Rightarrow> host_patch \<Rightarrow> host_row \<Rightarrow> host_row" where
  "apply_patch env p h = h\<lparr>
     h_status := (case hp_status p of Some s \<Rightarrow> s | None \<Rightarrow> h_status h),
     h_group := (case hp_group p of Some g \<Rightarrow> g | None \<Rightarrow> h_group h),
     h_version := (case hp_version p of Some v \<Rightarrow> v | None \<Rightarrow> h_version h),
     h_rules := (case hp_rules p of Some v \<Rightarrow> v | None \<Rightarrow> h_rules h),
     h_beat := (case hp_beat p of Some s \<Rightarrow> Some (beat_time env s) | None \<Rightarrow> h_beat h)\<rparr>"

definition patch_rows :: "fleet_env \<Rightarrow> string \<Rightarrow> host_patch \<Rightarrow> host_row list \<Rightarrow> host_row list" where
  "patch_rows env agent p hs = map (\<lambda>h. if h_id h = agent then apply_patch env p h else h) hs"

definition update_host :: "fleet_env \<Rightarrow> string \<Rightarrow> host_patch \<Rightarrow> unit fio" where
  "update_host env agent p =
     io_bind (best_effort (pg env (io_modify (\<lambda>w. w\<lparr>hosts := patch_rows env agent p (hosts w)\<rparr>)))) (\<lambda>_.
     if p = no_patch then io_return ()
     else best_effort (es env (\<lambda>w. if find_host agent (mirror w) = None then (Raise (ExtError ''NotFoundError''), w)
            else (Ok (), w\<lparr>mirror := patch_rows env agent p (mirror w)\<rparr>))))"

definition delete_host :: "fleet_env \<Rightarrow> string \<Rightarrow> unit fio" where
  "delete_host env agent =
     io_bind (best_effort (pg env (io_modify (\<lambda>w. w\<lparr>hosts := filter (\<lambda>h. h_id h \<noteq> agent) (hosts w)\<rparr>)))) (\<lambda>_.
     best_effort (es env (io_modify (\<lambda>w. w\<lparr>mirror := filter (\<lambda>h. h_id h \<noteq> agent) (mirror w)\<rparr>))))"

definition expired :: "int \<Rightarrow> host_row \<Rightarrow> bool" where
  "expired cutoff h \<longleftrightarrow> h_status h = Online \<and> (case h_beat h of Some t \<Rightarrow> t < cutoff | None \<Rightarrow> False)"

fun set_offline :: "fleet_env \<Rightarrow> string list \<Rightarrow> unit fio" where
  "set_offline env [] = io_return ()"
| "set_offline env (agent # agents) =
     io_bind (update_host env agent (no_patch\<lparr>hp_status := Some Offline\<rparr>)) (\<lambda>_. set_offline env agents)"

definition store_mark_offline :: "fleet_env \<Rightarrow> int \<Rightarrow> nat fio" where
  "store_mark_offline env timeout_sec =
     (let cutoff = fe_now env - (timeout_sec * 2 + 30) in
      io_bind (io_try (pg env (io_bind (io_gets (\<lambda>w. length (filter (expired cutoff) (hosts w)))) (\<lambda>n.
         io_bind (io_modify (\<lambda>w. w\<lparr>hosts := map (\<lambda>h. if expired cutoff h then h\<lparr>h_status := Offline\<rparr> else h)
            (hosts w)\<rparr>)) (\<lambda>_. io_return n)))) (\<lambda>e. io_return 0)) (\<lambda>pg_count.
      io_bind (es env (io_gets (\<lambda>w. take 1000 (filter (expired cutoff) (mirror w))))) (\<lambda>hits.
      io_bind (set_offline env (map h_id hits)) (\<lambda>_.
      io_return (max pg_count (length hits))))))"

section \<open>Host groups\<close>

record group_info =
  gi_name :: string
  gi_description :: "string option"
  gi_created :: "int option"
  gi_members :: nat
  gi_origin :: string

definition members :: "string \<Rightarrow> host_row list \<Rightarrow> nat" where
  "members g hs = length (filter (\<lambda>h. h_group h = Some g \<and> h_status h \<noteq> Decommissioned) hs)"

definition list_groups :: "fleet_env \<Rightarrow> group_info list fio" where
  "list_groups env = pg env (io_gets (\<lambda>w.
     let managed = map (\<lambda>(g, d, t). \<lparr>gi_name = g, gi_description = Some d, gi_created = Some t,
           gi_members = members g (hosts w), gi_origin = ''managed''\<rparr>) (groups w);
         used = remdups (List.map_filter (\<lambda>h. if h_status h \<noteq> Decommissioned then h_group h else None) (hosts w));
         legacy = map (\<lambda>g. \<lparr>gi_name = g, gi_description = None, gi_created = None,
           gi_members = members g (hosts w), gi_origin = ''legacy''\<rparr>)
           (filter (\<lambda>g. g \<notin> fst ` set (groups w)) used)
     in sort_key gi_name (managed @ legacy)))"

definition create_group :: "fleet_env \<Rightarrow> string \<Rightarrow> string \<Rightarrow> unit fio" where
  "create_group env name description = pg env (\<lambda>w.
     if name \<in> fst ` set (groups w) then (Raise (ExtError ''UniqueViolation''), w)
     else (Ok (), w\<lparr>groups := groups w @ [(name, description, fe_now env)]\<rparr>))"

definition delete_group :: "fleet_env \<Rightarrow> string \<Rightarrow> nat fio" where
  "delete_group env name = pg env
     (io_bind (io_gets (\<lambda>w. members name (hosts w))) (\<lambda>cnt.
      if cnt > 0 then io_return cnt
      else io_bind (io_modify (\<lambda>w. w\<lparr>groups := filter (\<lambda>(g, _). g \<noteq> name) (groups w)\<rparr>)) (\<lambda>_. io_return 0)))"

end
