(* ===== verification/Commands.thy ===== *)
theory Commands
  imports Fleet
begin

text \<open>
  Signed commands and agent upgrades: \<open>src/agents/signing.py\<close>, the delivery of a command in
  \<open>src/agents/ws_gateway.py\<close> and \<open>src/agents/upgrade.py\<close>. The signature scheme and the canonical JSON text
  are arguments; the upgrade status is a dictionary under a key of the key-value server.
\<close>

section \<open>Signing\<close>

definition SENSITIVE_TYPES :: "string list" where
  "SENSITIVE_TYPES = [''scan_command'', ''rule_update'', ''agent_upgrade'', ''nuclei_upgrade'',
     ''nuclei_templates_update'', ''scan_cancel'', ''config_update'', ''response_action'', ''agent_shutdown'']"

record sign_env =
  se_key :: string
  se_sign :: "nat list \<Rightarrow> string \<Rightarrow> string"
  se_public :: "nat list \<Rightarrow> string"
  se_check :: "string \<Rightarrow> string \<Rightarrow> string \<Rightarrow> bool"
  se_dumps :: "pyval \<Rightarrow> string"
  se_rt :: pyrt

definition hex_val :: "char \<Rightarrow> nat option" where
  "hex_val c = (let n = (of_char c :: nat) in
     if 48 \<le> n \<and> n \<le> 57 then Some (n - 48)
     else if 65 \<le> n \<and> n \<le> 70 then Some (n - 55)
     else if 97 \<le> n \<and> n \<le> 102 then Some (n - 87) else None)"

text \<open>\<open>bytes.fromhex\<close>: pairs of digits, with white space allowed between pairs.\<close>

fun fromhex :: "string \<Rightarrow> nat list option" where
  "fromhex [] = Some []"
| "fromhex [c] = (if is_space c then Some [] else None)"
| "fromhex (c # d # cs) =
     (if is_space c then fromhex (d # cs)
      else case (hex_val c, hex_val d, fromhex cs) of
        (Some a, Some b, Some bs) \<Rightarrow> Some ((16 * a + b) # bs)
      | _ \<Rightarrow> None)"

definition get_private_key :: "sign_env \<Rightarrow> nat list option" where
  "get_private_key se =
     (if se_key se = [] then None
      else case fromhex (se_key se) of
        None \<Rightarrow> None
      | Some bs \<Rightarrow> if length bs = 32 then Some bs else None)"

definition sign_bytes :: "sign_env \<Rightarrow> string \<Rightarrow> string" where
  "sign_bytes se data = (case get_private_key se of None \<Rightarrow> [] | Some k \<Rightarrow> se_sign se k data)"

definition get_public_key_hex :: "sign_env \<Rightarrow> string" where
  "get_public_key_hex se = (case get_private_key se of None \<Rightarrow> [] | Some k \<Rightarrow> se_public se k)"

definition check_signing_key :: "sign_env \<Rightarrow> bool" where
  "check_signing_key se \<longleftrightarrow> se_key se \<noteq> [] \<and> fromhex (se_key se) \<noteq> None \<and> length (se_key se) = 64"

definition sensitive :: "pydict \<Rightarrow> bool" where
  "sensitive msg \<longleftrightarrow> list_ex (\<lambda>t. py_eq (dget msg ''type'' (PStr [])) (PStr t)) SENSITIVE_TYPES"

definition canonical :: "sign_env \<Rightarrow> pydict \<Rightarrow> pyval \<Rightarrow> string" where
  "canonical se msg ts =
     py_str (se_rt se) (dget msg ''type'' (PStr [])) @ ''|'' @ py_str (se_rt se) ts @ ''|'' @
     se_dumps se (dget msg ''payload'' (PDict []))"

definition sign_message :: "sign_env \<Rightarrow> string \<Rightarrow> pydict \<Rightarrow> pydict" where
  "sign_message se now msg =
     (if \<not> sensitive msg then msg
      else case get_private_key se of
        None \<Rightarrow> msg
      | Some k \<Rightarrow>
          let ts = dget msg ''ts'' (PStr now);
              signed = AList.update ''sig'' (PStr (se_sign se k (canonical se msg ts))) msg
          in if map_of msg ''ts'' = None then AList.update ''ts'' ts signed else signed)"

definition verify_message :: "sign_env \<Rightarrow> pydict \<Rightarrow> string \<Rightarrow> bool" where
  "verify_message se msg public_key_hex =
     (if \<not> sensitive msg then True
      else let sig_val = dget msg ''sig'' (PStr []) in
        if \<not> truthy sig_val then False
        else case sig_val of
          PStr s \<Rightarrow> se_check se public_key_hex s (canonical se msg (dget msg ''ts'' (PStr [])))
        | _ \<Rightarrow> False)"

section \<open>Delivery\<close>

definition pending_key :: "string \<Rightarrow> string" where "pending_key agent = ''agent:pending_cmd:'' @ agent"
definition conn_key :: "string \<Rightarrow> string" where "conn_key agent = ''agent:conn:'' @ agent"
definition online_key :: "string \<Rightarrow> string" where "online_key agent = ''agent:online:'' @ agent"
definition cmd_channel :: "string \<Rightarrow> string" where "cmd_channel agent = ''agent:cmd:'' @ agent"

definition ws_send :: "fleet_env \<Rightarrow> nat \<Rightarrow> pyval \<Rightarrow> unit fio" where
  "ws_send env ws msg = io_bind (io_guard (fe_ws_ok env ws) (RuntimeError ''websocket closed'')) (\<lambda>_.
     io_modify (\<lambda>w. w\<lparr>sent := sent w @ [(ws, msg)]\<rparr>))"

definition some_truthy :: "pyval option \<Rightarrow> bool" where
  "some_truthy v = (case v of Some x \<Rightarrow> truthy x | None \<Rightarrow> False)"

definition send_to_agent :: "fleet_env \<Rightarrow> sign_env \<Rightarrow> string \<Rightarrow> pydict \<Rightarrow> bool fio" where
  "send_to_agent env se agent msg =
     (let m = PDict (sign_message se (fe_iso env (fe_now env)) msg) in
      io_bind (io_gets (\<lambda>w. map_of (conns w) agent)) (\<lambda>ws.
      case ws of
        Some s \<Rightarrow> io_try (io_bind (ws_send env s m) (\<lambda>_. io_return True)) (\<lambda>e. io_return False)
      | None \<Rightarrow>
          io_try
            (io_bind (kv_publish env (cmd_channel agent) m) (\<lambda>subscribers.
             io_bind (kv_get env (conn_key agent)) (\<lambda>owner.
             let delivered = (subscribers > 0 \<and> some_truthy owner) in
             io_bind (if delivered then io_return () else kv_set env (pending_key agent) m (Some (24 * 3600))) (\<lambda>_.
             io_return delivered))))
            (\<lambda>e. io_return False)))"

fun broadcast_loop :: "fleet_env \<Rightarrow> sign_env \<Rightarrow> pydict \<Rightarrow> string list \<Rightarrow> nat \<times> nat \<Rightarrow> (nat \<times> nat) fio" where
  "broadcast_loop env se msg [] acc = io_return acc"
| "broadcast_loop env se msg (a # as) acc =
     io_bind (send_to_agent env se a msg) (\<lambda>ok.
     broadcast_loop env se msg as (if ok then (Suc (fst acc), snd acc) else (fst acc, Suc (snd acc))))"

definition broadcast :: "fleet_env \<Rightarrow> sign_env \<Rightarrow> string list \<Rightarrow> pydict \<Rightarrow> (nat \<times> nat) fio" where
  "broadcast env se agents msg = broadcast_loop env se msg agents (0, 0)"

definition deliver_pending :: "fleet_env \<Rightarrow> string \<Rightarrow> nat \<Rightarrow> unit fio" where
  "deliver_pending env agent ws = best_effort
     (io_bind (kv_get env (pending_key agent)) (\<lambda>raw.
      case raw of
        None \<Rightarrow> io_return ()
      | Some m \<Rightarrow>
          if \<not> truthy m then io_return ()
          else io_bind (ws_send env ws m) (\<lambda>_. kv_delete env [pending_key agent])))"

section \<open>Versions\<close>

text \<open>The maximal runs of digits of a text, as numbers.\<close>

fun digit_runs :: "string \<Rightarrow> string \<Rightarrow> nat list" where
  "digit_runs cur [] = (if cur = [] then [] else [digits_val 0 cur])"
| "digit_runs cur (c # cs) =
     (if is_digit c then digit_runs (cur @ [c]) cs
      else if cur = [] then digit_runs [] cs else digits_val 0 cur # digit_runs [] cs)"

definition version_key :: "string \<Rightarrow> nat list" where
  "version_key value = (let ns = digit_runs [] value in if ns = [] then [0] else ns)"

definition upgrade_needed :: "string \<Rightarrow> string \<Rightarrow> bool" where
  "upgrade_needed current target \<longleftrightarrow> version_key current < version_key target"

definition norm_nuclei_version :: "string \<Rightarrow> string" where
  "norm_nuclei_version value =
     (let v = strip value in
      case v of c # cs \<Rightarrow> if c = CHR ''v'' \<or> c = CHR ''V'' then cs else v | [] \<Rightarrow> [])"

section \<open>Preparing an upgrade\<close>

text \<open>A path is the list of its parts; joining an absolute path discards what came before.\<close>

definition path_parts :: "string \<Rightarrow> string list" where
  "path_parts s = filter (\<lambda>p. p \<noteq> [] \<and> p \<noteq> ''.'') (split_on (CHR ''/'') s)"

definition path_join :: "string list \<Rightarrow> string \<Rightarrow> string list" where
  "path_join base s = (if startswith s ''/'' then path_parts s else base @ path_parts s)"

definition path_resolve :: "string list \<Rightarrow> string list" where
  "path_resolve parts = fold (\<lambda>p acc. if p = ''..'' then butlast acc else acc @ [p]) parts []"

record upgrade_env =
  ue_binary_dir :: string
  ue_version_file :: "string option"
  ue_default_version :: string
  ue_file :: "string list \<Rightarrow> string option"
  ue_sha256 :: "string \<Rightarrow> string"
  ue_external_url :: string
  ue_nuclei_base :: string

definition binary_path_for :: "upgrade_env \<Rightarrow> host_row \<Rightarrow> string list option" where
  "binary_path_for ue h =
     (let root = path_resolve (path_parts (ue_binary_dir ue));
          ext = (if py_lower (h_os h) = ''windows'' then ''.exe'' else []);
          candidate = path_resolve (path_join (path_join (path_join root (py_lower (h_os h)))
             (py_lower (h_arch h))) (''agent'' @ ext))
      in if prefix root candidate then Some candidate else None)"

definition packaged_version :: "upgrade_env \<Rightarrow> string" where
  "packaged_version ue =
     (case ue_version_file ue of
        Some text \<Rightarrow> if strip text \<noteq> [] then strip text
          else if strip (ue_default_version ue) \<noteq> [] then strip (ue_default_version ue) else ''0.1.0''
      | None \<Rightarrow> if strip (ue_default_version ue) \<noteq> [] then strip (ue_default_version ue) else ''0.1.0'')"

record prepared_upgrade =
  pu_version :: string
  pu_path :: "string list"
  pu_message :: pydict

definition upgrade_unavailable :: "string \<Rightarrow> exn" where
  "upgrade_unavailable why = RuntimeError (''UpgradeNotAvailable: '' @ why)"

definition prepare_upgrade ::
    "fleet_env \<Rightarrow> sign_env \<Rightarrow> upgrade_env \<Rightarrow> host_row \<Rightarrow> string option \<Rightarrow> prepared_upgrade res" where
  "prepare_upgrade env se ue h requested =
     (let version = packaged_version ue in
      if (case requested of Some (c # cs) \<Rightarrow> c # cs \<noteq> version | _ \<Rightarrow> False)
      then Raise (upgrade_unavailable ''not the packaged version'')
      else case binary_path_for ue h of
        None \<Rightarrow> Raise (upgrade_unavailable ''invalid Agent platform path'')
      | Some path \<Rightarrow>
          (case ue_file ue path of
             None \<Rightarrow> Raise (upgrade_unavailable ''binary not available'')
           | Some content \<Rightarrow>
               let signature = sign_bytes se (ue_sha256 ue content); base = rstrip_char (CHR ''/'') (ue_external_url ue) in
               if signature = [] then Raise (upgrade_unavailable ''AGENT_SIGNING_KEY is not configured'')
               else if base = [] then Raise (upgrade_unavailable ''AGENT_CONSOLE_EXTERNAL_URL is not configured'')
               else Ok \<lparr>pu_version = version, pu_path = path,
                 pu_message = [(''v'', PInt 1), (''type'', PStr ''agent_upgrade''),
                   (''ts'', PStr (fe_iso env (fe_now env))),
                   (''payload'', PDict [(''version'', PStr version),
                      (''download_url'', PStr (base @ ''/api/v1/agents/binary/'' @ py_lower (h_os h) @ ''/'' @
                          py_lower (h_arch h) @ ''?agent_id='' @ h_id h)),
                      (''signature'', PStr signature)])]\<rparr>))"

section \<open>The upgrade status\<close>

definition upgrade_key :: "string \<Rightarrow> string" where "upgrade_key agent = ''agent:upgrade:'' @ agent"

text \<open>The two halves of an update: the snapshot that is read, and what is written back.\<close>

definition read_status :: "fleet_env \<Rightarrow> string \<Rightarrow> pydict fio" where
  "read_status env agent =
     io_bind (kv_get env (upgrade_key agent)) (\<lambda>raw.
     io_return (case raw of Some (PDict d) \<Rightarrow> d | _ \<Rightarrow> []))"

definition write_status :: "fleet_env \<Rightarrow> string \<Rightarrow> pydict \<Rightarrow> pydict \<Rightarrow> pydict fio" where
  "write_status env agent current changes =
     (let new = AList.update ''updated_at'' (PStr (fe_iso env (fe_now env)))
            (AList.update ''agent_id'' (PStr agent) (dupdate current changes))
      in io_bind (kv_set env (upgrade_key agent) (PDict new) (Some (24 * 3600))) (\<lambda>_. io_return new))"

definition redis_update :: "fleet_env \<Rightarrow> string \<Rightarrow> pydict \<Rightarrow> pydict fio" where
  "redis_update env agent changes =
     io_bind (read_status env agent) (\<lambda>current. write_status env agent current changes)"

definition update_upgrade_status :: "fleet_env \<Rightarrow> string \<Rightarrow> pydict \<Rightarrow> pydict fio" where
  "update_upgrade_status env agent changes = redis_update env agent changes"

definition get_upgrade_status :: "fleet_env \<Rightarrow> string \<Rightarrow> pydict fio" where
  "get_upgrade_status env agent = redis_update env agent []"

definition or_text :: "pyrt \<Rightarrow> pyval \<Rightarrow> string" where
  "or_text rt v = py_str rt (py_or v (PStr []))"

definition record_upgrade_ack :: "fleet_env \<Rightarrow> pyrt \<Rightarrow> string \<Rightarrow> pydict \<Rightarrow> unit fio" where
  "record_upgrade_ack env rt agent payload =
     (if \<not> py_eq (dget payload ''kind'' PNone) (PStr ''agent'') then io_return ()
      else io_bind (get_upgrade_status env agent) (\<lambda>status.
        if status = [] \<or> or_text rt (dget payload ''version'' PNone) \<noteq> or_text rt (dget status ''target_version'' PNone)
        then io_return ()
        else let ok = truthy (dget payload ''ok'' PNone) in
          io_bind (update_upgrade_status env agent
            [(''state'', PStr (if ok then ''restarting'' else ''failed'')), (''ack_received'', PBool True),
             (''message'', PStr (if ok then ''Agent verified the package and is restarting'' else ''Upgrade failed'')),
             (''error'', PStr (or_text rt (dget payload ''error'' PNone)))]) (\<lambda>_. io_return ())))"

definition confirm_upgrade_from_heartbeat :: "fleet_env \<Rightarrow> string \<Rightarrow> string \<Rightarrow> unit fio" where
  "confirm_upgrade_from_heartbeat env agent current_version =
     io_bind (get_upgrade_status env agent) (\<lambda>status.
     if status = [] \<or> \<not> py_eq (dget status ''state'' PNone) (PStr ''restarting'') \<or>
        \<not> truthy (dget status ''ack_received'' PNone) then io_return ()
     else io_bind (update_upgrade_status env agent
       ([(''current_version'', PStr current_version)] @
        (if current_version \<noteq> [] \<and> py_eq (PStr current_version) (dget status ''target_version'' PNone)
         then [(''state'', PStr ''confirmed''), (''message'', PStr (''Agent is online on version '' @ current_version)),
               (''error'', PStr [])]
         else []))) (\<lambda>_. io_return ()))"

section \<open>Upgrading the scanner of an agent\<close>

definition nuclei_lock_key :: "string \<Rightarrow> string" where "nuclei_lock_key agent = ''agent:nuclei_upgrade:'' @ agent"

definition nuclei_zip_name :: "string \<Rightarrow> string \<Rightarrow> string \<Rightarrow> string" where
  "nuclei_zip_name version os arch = ''nuclei_'' @ version @ ''_'' @ os @ ''_'' @ arch @ ''.zip''"

text \<open>\<open>SET key value NX EX ttl\<close>.\<close>

definition kv_set_nx :: "fleet_env \<Rightarrow> string \<Rightarrow> pyval \<Rightarrow> int \<Rightarrow> bool fio" where
  "kv_set_nx env k v ttl =
     io_bind (kv_get env k) (\<lambda>old.
     if old \<noteq> None then io_return False
     else io_bind (kv_set env k v (Some ttl)) (\<lambda>_. io_return True))"

definition nuclei_message :: "fleet_env \<Rightarrow> string \<Rightarrow> string \<Rightarrow> pydict" where
  "nuclei_message env version url =
     [(''v'', PInt 1), (''type'', PStr ''nuclei_upgrade''), (''ts'', PStr (fe_iso env (fe_now env))),
      (''payload'', PDict [(''version'', PStr version), (''download_url'', PStr url)])]"

definition trigger_nuclei_upgrade ::
    "fleet_env \<Rightarrow> sign_env \<Rightarrow> upgrade_env \<Rightarrow> string \<Rightarrow> string \<Rightarrow> string \<Rightarrow> string \<Rightarrow> unit fio" where
  "trigger_nuclei_upgrade env se ue agent version os arch =
     (let base = rstrip_char (CHR ''/'') (strip (ue_nuclei_base ue)) in
      if base = [] \<or> version = [] then io_return ()
      else io_bind (kv_set_nx env (nuclei_lock_key agent) (PStr ''1'') 300) (\<lambda>got.
        if \<not> got then io_return ()
        else io_bind (send_to_agent env se agent
               (nuclei_message env version (base @ ''/'' @ nuclei_zip_name version os arch))) (\<lambda>delivered.
          if delivered then io_return () else kv_delete env [nuclei_lock_key agent])))"

end
