(* ===== verification/Hosts.thy ===== *)
theory Hosts
  imports Commands
begin

text \<open>
  The life of a host: \<open>src/agents/manager.py\<close>, the connections and incoming messages of
  \<open>src/agents/ws_gateway.py\<close> and the enrollment and host endpoints of \<open>src/api/routers/agents.py\<close>. Background
  jobs that a heartbeat starts are returned as values; they run later.
\<close>

section \<open>The host manager\<close>

definition online_ttl :: "fleet_env \<Rightarrow> int" where "online_ttl env = fe_heartbeat env * 2 + 30"

definition register_online :: "fleet_env \<Rightarrow> string \<Rightarrow> string \<Rightarrow> unit fio" where
  "register_online env agent worker =
     io_bind (kv_set env (online_key agent) (PStr ''1'') (Some (online_ttl env))) (\<lambda>_.
     io_bind (kv_set env (conn_key agent) (PStr worker) None) (\<lambda>_.
     update_host env agent (no_patch\<lparr>hp_status := Some Online, hp_beat := Some (fe_iso env (fe_now env))\<rparr>)))"

record beat =
  hb_ts :: "string option"
  hb_version :: "string option"
  hb_rules :: "string option"
  hb_nuclei :: "string option"
  hb_os :: "string option"
  hb_arch :: "string option"

datatype job =
    Update_Rules string string
  | Upgrade_Nuclei string string string string

definition opt_or :: "string option \<Rightarrow> string \<Rightarrow> string" where
  "opt_or v d = (case v of Some (c # cs) \<Rightarrow> c # cs | _ \<Rightarrow> d)"

definition heartbeat :: "fleet_env \<Rightarrow> string \<Rightarrow> string \<Rightarrow> beat \<Rightarrow> job list fio" where
  "heartbeat env expected_nuclei agent p =
     io_bind (kv_set env (online_key agent) (PStr ''1'') (Some (online_ttl env))) (\<lambda>_.
     io_bind (update_host env agent (no_patch\<lparr>hp_beat := Some (opt_or (hb_ts p) []),
        hp_version := hb_version p, hp_rules := hb_rules p\<rparr>)) (\<lambda>_.
     io_bind (if opt_or (hb_version p) [] \<noteq> []
        then confirm_upgrade_from_heartbeat env agent (opt_or (hb_version p) []) else io_return ()) (\<lambda>_.
     let expected = norm_nuclei_version expected_nuclei; actual = norm_nuclei_version (opt_or (hb_nuclei p) []) in
     io_return ([Update_Rules agent (opt_or (hb_rules p) ''0'')] @
       (if expected \<noteq> [] \<and> actual \<noteq> expected
        then [Upgrade_Nuclei agent expected (opt_or (hb_os p) ''linux'') (opt_or (hb_arch p) ''amd64'')] else [])))))"

definition mark_offline_expired :: "fleet_env \<Rightarrow> nat fio" where
  "mark_offline_expired env = store_mark_offline env (fe_heartbeat env)"

definition list_hosts :: "fleet_env \<Rightarrow> host_status option \<Rightarrow> string option \<Rightarrow> bool \<Rightarrow> host_row list fio" where
  "list_hosts env status grp include_decommissioned =
     store_list_hosts env status grp 100 0 (\<not> include_decommissioned) None"

definition presence_keys :: "string \<Rightarrow> string list" where
  "presence_keys agent = [online_key agent, conn_key agent, ''agent:token:'' @ agent]"

definition try_revoke :: "fleet_env \<Rightarrow> string \<Rightarrow> unit fio" where
  "try_revoke env agent = best_effort (io_bind (revoke_agent env agent) (\<lambda>_. io_return ()))"

definition decommission_host :: "fleet_env \<Rightarrow> string \<Rightarrow> unit fio" where
  "decommission_host env agent =
     io_bind (update_host env agent (no_patch\<lparr>hp_status := Some Decommissioned\<rparr>)) (\<lambda>_.
     io_bind (kv_delete env (presence_keys agent)) (\<lambda>_.
     try_revoke env agent))"

definition delete_host_permanently :: "fleet_env \<Rightarrow> string \<Rightarrow> bool fio" where
  "delete_host_permanently env agent =
     io_bind (get_host env agent) (\<lambda>r.
     case r of
       None \<Rightarrow> io_return False
     | Some h \<Rightarrow>
         if h_status h \<noteq> Decommissioned then io_return False
         else io_bind (delete_host env agent) (\<lambda>_.
              io_bind (kv_delete env (presence_keys agent)) (\<lambda>_.
              io_bind (try_revoke env agent) (\<lambda>_. io_return True))))"

definition update_host_group :: "fleet_env \<Rightarrow> string \<Rightarrow> string option \<Rightarrow> host_row option fio" where
  "update_host_group env agent grp =
     io_bind (get_host env agent) (\<lambda>r.
     case r of
       None \<Rightarrow> io_return None
     | Some h \<Rightarrow> io_bind (update_host env agent (no_patch\<lparr>hp_group := Some grp\<rparr>)) (\<lambda>_. get_host env agent))"

fun decommission_all :: "fleet_env \<Rightarrow> string list \<Rightarrow> unit fio" where
  "decommission_all env [] = io_return ()"
| "decommission_all env (a # as) = io_bind (decommission_host env a) (\<lambda>_. decommission_all env as)"

definition decommission_host_by_ip :: "fleet_env \<Rightarrow> string \<Rightarrow> nat fio" where
  "decommission_host_by_ip env ip =
     (if ip = [] then io_return 0
      else io_try
        (io_bind (pg env (io_gets (\<lambda>w. map h_id (filter (\<lambda>h. h_ip h = ip \<and> h_status h \<noteq> Decommissioned) (hosts w)))))
          (\<lambda>rows.
          if rows = [] then io_return 0
          else io_bind (decommission_all env rows) (\<lambda>_. io_return (length rows))))
        (\<lambda>e. io_return 0))"

section \<open>Connections\<close>

definition authenticate :: "fleet_env \<Rightarrow> string \<Rightarrow> string \<Rightarrow> bool fio" where
  "authenticate env agent token =
     (if agent = [] \<or> token = [] then io_return False
      else io_bind (io_gets (\<lambda>w. agent \<in> set (revoked_conns w))) (\<lambda>revoked.
        if revoked then io_return False
        else io_try (validate_agent_token env agent token) (\<lambda>e. io_return False)))"

definition shutdown_message :: "fleet_env \<Rightarrow> pydict" where
  "shutdown_message env = [(''v'', PInt 1), (''type'', PStr ''agent_shutdown''),
     (''ts'', PStr (fe_iso env (fe_now env))), (''payload'', PDict [(''reason'', PStr ''server_revoked'')])]"

definition drop_revoked_connection :: "fleet_env \<Rightarrow> sign_env \<Rightarrow> string \<Rightarrow> unit fio" where
  "drop_revoked_connection env se agent =
     io_bind (io_modify (\<lambda>w. w\<lparr>revoked_conns := agent # filter (\<lambda>a. a \<noteq> agent) (revoked_conns w)\<rparr>)) (\<lambda>_.
     io_bind (io_gets (\<lambda>w. map_of (conns w) agent)) (\<lambda>ws.
     io_bind (io_modify (\<lambda>w. w\<lparr>conns := AList.delete agent (conns w)\<rparr>)) (\<lambda>_.
     case ws of
       None \<Rightarrow> io_return ()
     | Some s \<Rightarrow> best_effort (ws_send env s
         (PDict (sign_message se (fe_iso env (fe_now env)) (shutdown_message env)))))))"

definition connect :: "fleet_env \<Rightarrow> nat \<Rightarrow> string \<Rightarrow> unit fio" where
  "connect env ws agent =
     io_bind (io_modify (\<lambda>w. w\<lparr>conns := AList.update agent ws (conns w)\<rparr>)) (\<lambda>_.
     io_bind (register_online env agent (fe_worker env)) (\<lambda>_.
     deliver_pending env agent ws))"

definition disconnect :: "fleet_env \<Rightarrow> nat \<Rightarrow> string \<Rightarrow> unit fio" where
  "disconnect env ws agent =
     io_bind (io_gets (\<lambda>w. agent \<noteq> [] \<and> map_of (conns w) agent = Some ws)) (\<lambda>owner.
     if \<not> owner then io_return ()
     else io_bind (io_modify (\<lambda>w. w\<lparr>conns := AList.delete agent (conns w)\<rparr>)) (\<lambda>_.
          io_bind (kv_get env (conn_key agent)) (\<lambda>v.
          if v = Some (PStr (fe_worker env)) then kv_delete env [conn_key agent] else io_return ())))"

section \<open>Findings reported by an agent\<close>

datatype finding_severity = FCritical | FHigh | FMedium | FLow | FInfo
datatype scan_module = Sys_Vuln | Baseline | Nuclei

definition severity_of_text :: "string \<Rightarrow> finding_severity" where
  "severity_of_text s = (if s = ''critical'' then FCritical else if s = ''high'' then FHigh
     else if s = ''medium'' then FMedium else if s = ''low'' then FLow else FInfo)"

definition module_of_text :: "string \<Rightarrow> scan_module" where
  "module_of_text s = (if s = ''baseline'' then Baseline else if s = ''nuclei'' then Nuclei else Sys_Vuln)"

record agent_finding =
  vf_id :: string
  vf_task :: string
  vf_agent :: string
  vf_host :: string
  vf_category :: scan_module
  vf_cve :: "string option"
  vf_name :: string
  vf_severity :: finding_severity
  vf_evidence :: string
  vf_fix :: "string option"
  vf_detected :: string

definition opt_text :: "pyval \<Rightarrow> string option res" where
  "opt_text v = (case v of PNone \<Rightarrow> Ok None | PStr s \<Rightarrow> Ok (Some s) | _ \<Rightarrow> Raise ValueError)"

definition coerce_finding ::
    "pyrt \<Rightarrow> string \<Rightarrow> pydict \<Rightarrow> string \<Rightarrow> pyval \<Rightarrow> pyval \<Rightarrow> agent_finding res" where
  "coerce_finding rt uuid f agent task host =
     (let sev = severity_of_text (py_lower (py_str rt (dget f ''severity'' (PStr ''info''))));
          cat = module_of_text (py_str rt (dget f ''category'' (PStr ''sys_vuln''))) in
      rbind (as_str (py_or (dget f ''finding_id'' PNone) (PStr uuid))) (\<lambda>fid.
      rbind (as_str (py_or (dget f ''task_id'' PNone) task)) (\<lambda>tid.
      rbind (as_str (py_or (dget f ''agent_id'' PNone) (PStr agent))) (\<lambda>aid.
      rbind (as_str (py_or (dget f ''hostname'' PNone) host)) (\<lambda>hst.
      rbind (opt_text (py_or (dget f ''cve'' PNone) PNone)) (\<lambda>cve.
      rbind (as_str (py_or (dget f ''name'' PNone) (PStr []))) (\<lambda>nam.
      rbind (as_str (dget f ''evidence'' (PStr []))) (\<lambda>ev.
      rbind (opt_text (py_or (py_or (dget f ''fix_advice'' PNone) (dget f ''fix'' PNone)) PNone)) (\<lambda>fx.
      rbind (as_str (dget f ''detected_at'' (PStr []))) (\<lambda>det.
      Ok \<lparr>vf_id = fid, vf_task = tid, vf_agent = aid, vf_host = hst, vf_category = cat, vf_cve = cve,
          vf_name = nam, vf_severity = sev, vf_evidence = ev, vf_fix = fx, vf_detected = det\<rparr>))))))))))"

text \<open>Malformed findings drop out one by one; \<open>uuids\<close> supplies a fresh identifier per position.\<close>

fun coerce_findings ::
    "pyrt \<Rightarrow> (nat \<Rightarrow> string) \<Rightarrow> string \<Rightarrow> pyval \<Rightarrow> pyval \<Rightarrow> nat \<Rightarrow> pyval list \<Rightarrow> agent_finding list" where
  "coerce_findings rt uuids agent task host i [] = []"
| "coerce_findings rt uuids agent task host i (v # vs) =
     (case v of
        PDict f \<Rightarrow> (case coerce_finding rt (uuids i) f agent task host of
            Inr x \<Rightarrow> [x] | Inl _ \<Rightarrow> [])
      | _ \<Rightarrow> []) @ coerce_findings rt uuids agent task host (Suc i) vs"

text \<open>What a scan result leads to: nothing, for a cancelled task, or a stored result.\<close>

record scan_result =
  sr_task :: string
  sr_agent :: string
  sr_host :: string
  sr_findings :: "agent_finding list"
  sr_batch :: int
  sr_final :: bool
  sr_ts :: string
  sr_categories :: "string list"

text \<open>\<open>to_int\<close> and \<open>to_bool\<close> are the conversions of the validation library for these two fields.\<close>

definition as_list :: "pyval \<Rightarrow> pyval list res" where
  "as_list v = (case v of PList xs \<Rightarrow> Ok xs | _ \<Rightarrow> Raise ValueError)"

record conversions =
  to_int :: "pyval \<Rightarrow> int res"
  to_bool :: "pyval \<Rightarrow> bool res"

definition build_result ::
    "fleet_env \<Rightarrow> pyrt \<Rightarrow> conversions \<Rightarrow> (nat \<Rightarrow> string) \<Rightarrow> string \<Rightarrow> pydict \<Rightarrow> scan_result res" where
  "build_result env rt cv uuids agent payload =
     (let task = dget payload ''task_id'' (PStr []); host = dget payload ''hostname'' (PStr []) in
      rbind (py_iter (py_or (dget payload ''findings'' PNone) (PList []))) (\<lambda>raw.
      let fs = coerce_findings rt uuids agent task host 0 raw in
      rbind (as_str task) (\<lambda>tid.
      rbind (as_str host) (\<lambda>hst.
      rbind (to_int cv (dget payload ''batch'' (PInt 0))) (\<lambda>b.
      rbind (to_bool cv (dget payload ''is_final'' (PBool False))) (\<lambda>fin.
      rbind (as_str (py_or (dget payload ''ts'' PNone) (PStr (fe_iso env (fe_now env))))) (\<lambda>ts.
      rbind (as_list (py_or (dget payload ''scanned_categories'' PNone) (PList []))) (\<lambda>cats.
      rbind (as_strs cats) (\<lambda>cs.
      Ok \<lparr>sr_task = tid, sr_agent = agent, sr_host = hst, sr_findings = fs, sr_batch = b, sr_final = fin,
          sr_ts = ts, sr_categories = cs\<rparr>)))))))))"

definition handle_scan_result ::
    "fleet_env \<Rightarrow> pyrt \<Rightarrow> conversions \<Rightarrow> (nat \<Rightarrow> string) \<Rightarrow> (pyval \<Rightarrow> string option fio) \<Rightarrow> (scan_result \<Rightarrow> unit fio) \<Rightarrow>
     (pydict \<Rightarrow> unit fio) \<Rightarrow> string \<Rightarrow> pydict \<Rightarrow> unit fio" where
  "handle_scan_result env rt cv uuids task_status save_result progress agent payload =
     (let task = dget payload ''task_id'' (PStr []) in
      io_bind (if truthy task then task_status task else io_return None) (\<lambda>status.
      if status = Some ''cancelled'' then io_return ()
      else io_bind (io_lift (py_iter (py_or (dget payload ''findings'' PNone) (PList [])))) (\<lambda>_.
        io_bind (io_try (io_bind (io_lift (build_result env rt cv uuids agent payload)) (\<lambda>r.
             io_bind (save_result r) (\<lambda>_. io_return True))) (\<lambda>e. io_return False)) (\<lambda>saved.
        if saved then progress payload else io_return ()))))"

text \<open>
  One incoming message: \<open>loads\<close> reads its text, \<open>handlers\<close> gives the handler of a type. Whatever a handler
  raises, the connection goes on.
\<close>

definition handle_message ::
    "(string \<Rightarrow> pyval res) \<Rightarrow> (string \<Rightarrow> (pydict \<Rightarrow> unit fio) option) \<Rightarrow> string \<Rightarrow> unit fio" where
  "handle_message loads handlers raw =
     (case loads raw of
        Inl e \<Rightarrow> if e = ValueError then io_return () else io_raise e
      | Inr msg \<Rightarrow>
          io_bind (io_lift (vget msg ''type'' (PStr []))) (\<lambda>t.
          io_bind (io_lift (vget msg ''payload'' (PDict []))) (\<lambda>p.
          case (t, py_or p (PDict [])) of
            (PStr s, PDict d) \<Rightarrow>
              (case handlers s of Some f \<Rightarrow> best_effort (f d) | None \<Rightarrow> io_return ())
          | _ \<Rightarrow> io_return ())))"

definition record_response_ack :: "fleet_env \<Rightarrow> pyrt \<Rightarrow> string \<Rightarrow> pydict \<Rightarrow> unit fio" where
  "record_response_ack env rt agent payload =
     (let action_id = py_str rt (dget payload ''action_id'' (PStr [])) in
      if action_id = [] then io_return ()
      else best_effort (kv_set env (''response_action:status:'' @ action_id)
        (PDict [(''status'', PStr (if truthy (dget payload ''ok'' (PBool False)) then ''succeeded'' else ''failed'')),
          (''agent_id'', PStr agent), (''detail'', PStr (py_str rt (dget payload ''detail'' (PStr [])))),
          (''received_at'', PInt (fe_now env))]) (Some 300)))"

section \<open>Endpoints\<close>

record enroll_request =
  er_token :: string
  er_hostname :: string
  er_os :: string
  er_arch :: string
  er_ip :: string
  er_kernel :: string

record enroll_response =
  ep_agent :: string
  ep_token :: string
  ep_public_key :: string
  ep_rules :: string
  ep_heartbeat :: int

definition bad_token :: exn where
  "bad_token = HTTPException 422 [''enroll token is invalid, expired, or already used'']"

text \<open>The address is bound only when the header or the connection gives one.\<close>

definition client_ip :: "string \<Rightarrow> string option \<Rightarrow> string res" where
  "client_ip xff peer =
     (if xff \<noteq> [] then Ok (strip (hd (split_on (CHR '','') xff)))
      else case peer of Some (c # cs) \<Rightarrow> Ok (c # cs) | _ \<Rightarrow> Raise (RuntimeError ''UnboundLocalError''))"

text \<open>\<open>hex\<close> and \<open>fresh\<close> are the random parts of the identifier and of the credential.\<close>

definition api_enroll_host ::
    "fleet_env \<Rightarrow> sign_env \<Rightarrow> string \<Rightarrow> string \<Rightarrow> string \<Rightarrow> string option \<Rightarrow> enroll_request \<Rightarrow> enroll_response fio" where
  "api_enroll_host env se hex fresh xff peer req =
     io_bind (validate_enroll_token env (er_token req)) (\<lambda>valid.
     case valid of
       None \<Rightarrow> io_raise bad_token
     | Some grp \<Rightarrow>
         let agent = ''agent-'' @ take 12 hex in
         io_bind (io_lift (client_ip xff peer)) (\<lambda>server_ip.
         io_bind (if server_ip = [] then io_return 0 else decommission_host_by_ip env server_ip) (\<lambda>_.
         io_bind (save_host env \<lparr>h_id = agent, h_name = er_hostname req, h_ip = er_ip req, h_os = er_os req,
            h_arch = er_arch req, h_kernel = er_kernel req, h_status = Online,
            h_group = (if grp = [] then None else Some grp), h_version = ''0.1.0'', h_rules = [],
            h_beat = parse_ts env (fe_iso env (fe_now env)), h_created = fe_now env\<rparr>) (\<lambda>_.
         io_bind (register_enroll_token env agent fresh) (\<lambda>_.
         io_bind (io_try (io_bind (kv_get env ''rules:current_version'') (\<lambda>v.
              io_return (case v of Some (PStr (c # cs)) \<Rightarrow> c # cs | _ \<Rightarrow> ''0''))) (\<lambda>e. io_return [])) (\<lambda>rules.
         io_return \<lparr>ep_agent = agent, ep_token = fresh, ep_public_key = get_public_key_hex se, ep_rules = rules,
            ep_heartbeat = fe_heartbeat env\<rparr>))))))"

definition partition_space :: "string \<Rightarrow> string \<times> string" where
  "partition_space s = (case split_once (CHR '' '') s of Some (a, b) \<Rightarrow> (a, b) | None \<Rightarrow> (s, []))"

definition extract_token :: "string option \<Rightarrow> string option \<Rightarrow> string option" where
  "extract_token query header =
     (case header of
        Some (c # cs) \<Rightarrow>
          if py_lower (fst (partition_space (c # cs))) = ''bearer'' \<and> snd (partition_space (c # cs)) \<noteq> []
          then Some (strip (snd (partition_space (c # cs))))
          else (case query of Some (q # qs) \<Rightarrow> Some (strip (q # qs)) | _ \<Rightarrow> None)
      | _ \<Rightarrow> (case query of Some (q # qs) \<Rightarrow> Some (strip (q # qs)) | _ \<Rightarrow> None))"

text \<open>Who may download the agent binary: the holder of an enrollment token, or an enrolled agent.\<close>

definition may_download :: "fleet_env \<Rightarrow> string option \<Rightarrow> string option \<Rightarrow> string option \<Rightarrow> unit fio" where
  "may_download env query header agent =
     (case extract_token query header of
        Some (c # cs) \<Rightarrow>
          io_bind (peek_enroll_token env (c # cs)) (\<lambda>valid.
          io_bind (case (valid, agent) of
              (None, Some (a # as)) \<Rightarrow>
                io_try (validate_agent_token env (a # as) (c # cs)) (\<lambda>e. io_return False)
            | _ \<Rightarrow> io_return (valid \<noteq> None)) (\<lambda>ok.
          io_guard ok bad_token))
      | _ \<Rightarrow> io_raise bad_token)"

definition api_delete_host :: "fleet_env \<Rightarrow> string \<Rightarrow> bool \<Rightarrow> bool fio" where
  "api_delete_host env agent purge =
     io_bind (get_host env agent) (\<lambda>r.
     case r of
       None \<Rightarrow> io_raise (HTTPException 404 [''Host not found''])
     | Some h \<Rightarrow>
         if purge then
           io_bind (delete_host_permanently env agent) (\<lambda>ok.
           if ok then io_return True else io_raise bad_token)
         else
           io_bind (decommission_host env agent) (\<lambda>_.
           io_bind (revoke_agent env agent) (\<lambda>_. io_return False)))"

definition api_delete_group :: "fleet_env \<Rightarrow> string \<Rightarrow> unit fio" where
  "api_delete_group env name =
     io_bind (delete_group env name) (\<lambda>remaining.
     io_guard (remaining = 0) (HTTPException 409 [''Group still has hosts; remove or reassign them first.'']))"

definition api_update_host :: "fleet_env \<Rightarrow> string \<Rightarrow> string option \<Rightarrow> host_row fio" where
  "api_update_host env agent grp =
     io_bind (update_host_group env agent grp) (\<lambda>r.
     case r of None \<Rightarrow> io_raise (HTTPException 404 [''agent not found (cannot change group)'']) | Some h \<Rightarrow> io_return h)"

datatype token_status = Token_Missing | Token_Revoked string int int | Token_Active string int

definition api_agent_token_status :: "fleet_env \<Rightarrow> string \<Rightarrow> token_status fio" where
  "api_agent_token_status env agent = pg env (io_gets (\<lambda>w. case find_cred agent w of
     None \<Rightarrow> Token_Missing
   | Some r \<Rightarrow> (case c_revoked r of
       Some t \<Rightarrow> Token_Revoked (take 8 (c_hash r)) (c_issued r) t
     | None \<Rightarrow> Token_Active (take 8 (c_hash r)) (c_issued r))))"

datatype upgrade_answer = Already_Current string | Dispatched string bool

definition api_upgrade_agent ::
    "fleet_env \<Rightarrow> sign_env \<Rightarrow> upgrade_env \<Rightarrow> string \<Rightarrow> string option \<Rightarrow> upgrade_answer fio" where
  "api_upgrade_agent env se ue agent requested =
     io_bind (get_host env agent) (\<lambda>r.
     case r of
       None \<Rightarrow> io_raise (HTTPException 404 [''Host not found''])
     | Some h \<Rightarrow>
         (case prepare_upgrade env se ue h requested of
            Inl e \<Rightarrow> io_raise (case e of RuntimeError why \<Rightarrow> HTTPException 409 [why] | _ \<Rightarrow> e)
          | Inr prepared \<Rightarrow>
              if h_version h \<noteq> [] \<and> \<not> upgrade_needed (h_version h) (pu_version prepared)
              then io_return (Already_Current (pu_version prepared))
              else
                io_bind (send_to_agent env se agent (pu_message prepared)) (\<lambda>delivered.
                io_bind (if delivered then io_return ()
                         else update_host env agent (no_patch\<lparr>hp_status := Some Offline\<rparr>)) (\<lambda>_.
                io_bind (update_upgrade_status env agent
                  [(''state'', PStr (if delivered then ''sent'' else ''queued_for_delivery'')),
                   (''target_version'', PStr (pu_version prepared)),
                   (''message'', PStr (if delivered then ''Upgrade command sent to Agent''
                      else ''Agent offline; will retry on reconnect'')), (''error'', PStr [])]) (\<lambda>_.
                io_return (Dispatched (pu_version prepared) delivered))))))"

definition api_upgrade_status :: "fleet_env \<Rightarrow> string \<Rightarrow> pydict fio" where
  "api_upgrade_status env agent =
     io_bind (get_host env agent) (\<lambda>r.
     case r of
       None \<Rightarrow> io_raise (HTTPException 404 [''agent not found''])
     | Some h \<Rightarrow>
         io_bind (get_upgrade_status env agent) (\<lambda>status.
         io_return (if status = [] then [(''state'', PStr ''idle'')] else status)))"

definition api_update_agent_config ::
    "fleet_env \<Rightarrow> sign_env \<Rightarrow> string \<Rightarrow> int option \<Rightarrow> string option \<Rightarrow> pydict option \<Rightarrow> unit fio" where
  "api_update_agent_config env se agent interval level limit =
     io_bind (send_to_agent env se agent
       [(''v'', PInt 1), (''type'', PStr ''config_update''), (''ts'', PStr (fe_iso env (fe_now env))),
        (''payload'', PDict
          [(''heartbeat_interval'', PInt (case interval of Some i \<Rightarrow> i | None \<Rightarrow> 60)),
           (''log_level'', (case level of Some l \<Rightarrow> PStr l | None \<Rightarrow> PNone)),
           (''resource_limit'', PDict (case limit of Some d \<Rightarrow> d
              | None \<Rightarrow> [(''cpu_percent'', PInt 30), (''mem_percent'', PInt 30)]))])]) (\<lambda>ok.
     io_guard ok (HTTPException 404 [''agent is not currently connected to this server'']))"

end
