(* ===== verification/TokenLaws.thy ===== *)
theory TokenLaws
  imports Fleet
begin

text \<open>
  What an enrollment token admits: the number of registrations over any sequence of checks of one token, one
  after the other, and what goes wrong when two checks overlap.
\<close>

section \<open>Enrollment tokens\<close>

datatype token_op = Peek int | Use int

fun op_time :: "token_op \<Rightarrow> int" where "op_time (Peek t) = t" | "op_time (Use t) = t"
fun is_use :: "token_op \<Rightarrow> bool" where "is_use (Peek t) = False" | "is_use (Use t) = True"

text \<open>How many registrations a sequence of checks of one token admits.\<close>

fun admitted :: "fleet_env \<Rightarrow> string \<Rightarrow> token_op list \<Rightarrow> fleet \<Rightarrow> nat" where
  "admitted env token [] w = 0"
| "admitted env token (Peek t # ops) w =
     admitted env token ops (snd (peek_enroll_token (env\<lparr>fe_now := t\<rparr>) token w))"
| "admitted env token (Use t # ops) w =
     (case validate_enroll_token (env\<lparr>fe_now := t\<rparr>) token w of
        (Inr (Some g), w') \<Rightarrow> Suc (admitted env token ops w')
      | (_, w') \<Rightarrow> admitted env token ops w')"

lemma find_token_delete [simp]: "find_token token (delete_token token w) = None"
  by (simp add: find_token_def delete_token_def find_None_iff)

lemma find_token_claim:
  "find_token token w = Some r \<Longrightarrow> find_token token (w\<lparr>etokens :=
     map (\<lambda>x. if e_token x = token then x\<lparr>e_uses := e_uses x - 1\<rparr> else x) (etokens w)\<rparr>) =
     Some (r\<lparr>e_uses := e_uses r - 1\<rparr>)"
  unfolding find_token_def
  by (induction "etokens w" arbitrary: w) (auto simp: find_Some_iff)

definition live :: "fleet_env \<Rightarrow> enroll_row \<Rightarrow> bool" where
  "live env r \<longleftrightarrow> fe_now env \<le> e_expires r \<and> 0 < e_uses r"

lemma read_enroll_token_eq:
  "read_enroll_token env token w =
     (if \<not> fe_pg_up env then (Inl (ExtError ''postgres''), w)
      else case find_token token w of
        None \<Rightarrow> (Inr None, w)
      | Some r \<Rightarrow> if live env r then (Inr (Some (group_or_empty (e_group r))), w)
                  else (Inr None, delete_token token w))"
  by (auto simp: read_enroll_token_def pg_def io_guard_bind live_def split: option.splits)

definition spent :: "string \<Rightarrow> fleet \<Rightarrow> fleet" where
  "spent token w = w\<lparr>etokens := map (\<lambda>x. if e_token x = token then x\<lparr>e_uses := e_uses x - 1\<rparr> else x) (etokens w)\<rparr>"

lemma validate_enroll_token_eq:
  "validate_enroll_token env token w =
     (if \<not> fe_pg_up env then (Inl (ExtError ''postgres''), w)
      else case find_token token w of
        None \<Rightarrow> (Inr None, w)
      | Some r \<Rightarrow> if live env r then (Inr (Some (group_or_empty (e_group r))),
                      if e_uses r = 1 then delete_token token (spent token w) else spent token w)
                  else (Inr None, delete_token token w))"
  by (auto simp: validate_enroll_token_def io_bind_def [of "read_enroll_token env token"] read_enroll_token_eq
      use_enroll_token_def claim_enroll_token_def spent_def live_def io_bind_def split: option.splits)

lemma admitted_unknown: "find_token token w = None \<Longrightarrow> admitted env token ops w = 0"
  by (induction env token ops w rule: admitted.induct)
    (auto simp: peek_enroll_token_def read_enroll_token_eq validate_enroll_token_eq)

lemma admitted_le: "find_token token w = Some r \<Longrightarrow> admitted env token ops w \<le> nat (e_uses r)"
proof (induction ops arbitrary: w r)
  case (Cons x ops)
  show ?case
  proof (cases x)
    case (Peek t)
    with Cons show ?thesis
      by (auto simp: peek_enroll_token_def read_enroll_token_eq admitted_unknown)
  next
    case (Use t)
    show ?thesis
    proof (cases "fe_pg_up env \<and> live (env\<lparr>fe_now := t\<rparr>) r \<and> e_uses r \<noteq> 1")
      case True
      have "admitted env token ops (spent token w) \<le> nat (e_uses r - 1)"
        using Cons.IH [OF find_token_claim [OF Cons.prems]] by (simp add: spent_def)
      moreover have "0 < e_uses r" using True by (simp add: live_def)
      ultimately have "Suc (admitted env token ops (spent token w)) \<le> nat (e_uses r)" by linarith
      then show ?thesis using True Cons.prems by (simp add: Use validate_enroll_token_eq)
    next
      case False
      then show ?thesis using Cons
        by (auto simp: Use validate_enroll_token_eq admitted_unknown live_def)
    qed
  qed
qed simp

lemma admitted_all:
  "fe_pg_up env \<Longrightarrow> \<forall>x\<in>set ops. op_time x \<le> e_expires r \<Longrightarrow> find_token token w = Some r \<Longrightarrow>
   admitted env token ops w = min (length (filter is_use ops)) (nat (e_uses r))"
proof (induction ops arbitrary: w r)
  case (Cons x ops)
  show ?case
  proof (cases "e_uses r \<le> 0")
    case True
    then show ?thesis using admitted_le [OF Cons.prems(3), of env "x # ops"] by simp
  next
    case pos: False
    show ?thesis
    proof (cases x)
      case (Peek t)
      with pos Cons show ?thesis by (simp add: peek_enroll_token_def read_enroll_token_eq live_def)
    next
      case (Use t)
      with pos Cons.prems have live: "live (env\<lparr>fe_now := t\<rparr>) r" by (simp add: live_def)
      show ?thesis
      proof (cases "e_uses r = 1")
        case True
        with live Cons.prems show ?thesis by (simp add: Use validate_enroll_token_eq admitted_unknown)
      next
        case False
        have "admitted env token ops (spent token w) = min (length (filter is_use ops)) (nat (e_uses r - 1))"
          using Cons.IH [OF Cons.prems(1) _ find_token_claim [OF Cons.prems(3)]] Cons.prems by (simp add: spent_def)
        with False live Cons.prems pos show ?thesis by (simp add: Use validate_enroll_token_eq)
      qed
    qed
  qed
qed simp



definition toy_fleet :: fleet where
  "toy_fleet = \<lparr>etokens = [], creds = [], hosts = [], mirror = [], groups = [], keys = [], published = [],
     conns = [], revoked_conns = [], sent = []\<rparr>"

definition toy_env :: fleet_env where
  "toy_env = \<lparr>fe_now = 1000, fe_iso = (\<lambda>t. int_to_str t), fe_parse = (\<lambda>s. int_of_str s), fe_sha = (\<lambda>s. ''#'' @ s),
     fe_pg_up = True, fe_es_up = True, fe_redis_up = True, fe_ws_ok = (\<lambda>s. True), fe_listeners = (\<lambda>c. 0),
     fe_heartbeat = 60, fe_worker = ''w1''\<rparr>"

definition toy_token :: "int \<Rightarrow> enroll_row" where
  "toy_token n = \<lparr>e_token = ''tok'', e_group = Some ''web'', e_expires = 2000, e_uses = n, e_creator = ''admin''\<rparr>"


text \<open>
  Two overlapping registrations with a single-use token: both have read the token before either takes the use.
  The second finds nothing left to take, and its group is returned all the same.
\<close>

lemma single_use_token_admits_two:
  fixes w
  defines "w0 \<equiv> toy_fleet\<lparr>etokens := [toy_token 1]\<rparr>"
  defines "w1 \<equiv> snd (read_enroll_token toy_env ''tok'' w0)"
  defines "w2 \<equiv> snd (read_enroll_token toy_env ''tok'' w1)"
  defines "w3 \<equiv> snd (use_enroll_token ''tok'' w2)"
  shows "fst (read_enroll_token toy_env ''tok'' w0) = Inr (Some ''web'')"
    and "fst (read_enroll_token toy_env ''tok'' w1) = Inr (Some ''web'')"
    and "find_token ''tok'' w3 = None"
    and "fst (io_bind (use_enroll_token ''tok'') (\<lambda>_. io_return (Some ''web'')) w3) = Inr (Some ''web'')"
  by (simp_all add: w0_def w1_def w2_def w3_def read_enroll_token_eq find_token_def toy_fleet_def toy_env_def
      toy_token_def live_def group_or_empty_def use_enroll_token_def claim_enroll_token_def delete_token_def io_bind_def)

text \<open>A lifetime of zero hours is not the default of a day: the token is refused a second later.\<close>

lemma zero_lifetime_token_expires:
  "fst (io_bind (create_enroll_token toy_env ''t'' None 0 1 ''admin'') (\<lambda>_. validate_enroll_token (toy_env\<lparr>fe_now := 1001\<rparr>) ''t'') toy_fleet)
     = Inr None"
  by (simp add: io_bind_def create_enroll_token_def validate_enroll_token_eq pg_def io_guard_def find_token_def
      toy_env_def toy_fleet_def live_def)

end
