(* ===== verification/HostLaws.thy ===== *)
theory HostLaws
  imports Hosts TokenLaws
begin

text \<open>
  What holds of the hosts: a deleted host is locked out for good, the offline sweep changes exactly the rows
  that are due, a late disconnect leaves a newer connection alone.
\<close>

section \<open>Requests that concern hosts\<close>

datatype fleet_op =
    Enroll sign_env string string string "string option" enroll_request
  | Connect nat string
  | Disconnect nat string
  | Beat string string beat
  | Sweep
  | Delete string bool
  | Move string "string option"
  | Upgrade sign_env upgrade_env string "string option"
  | Command sign_env string pydict
  | Nuclei sign_env upgrade_env string string string string
  | Ack pyrt string pydict
  | Status string
  | Drop sign_env string
  | New_Token string "string option" int int string
  | Delete_Group string

definition ignore :: "'a fio \<Rightarrow> unit fio" where
  "ignore m = io_bind m (\<lambda>_. io_return ())"

fun fleet_step :: "fleet_env \<Rightarrow> fleet_op \<Rightarrow> unit fio" where
  "fleet_step env (Enroll se hex fresh xff peer req) = ignore (api_enroll_host env se hex fresh xff peer req)"
| "fleet_step env (Connect ws a) = connect env ws a"
| "fleet_step env (Disconnect ws a) = disconnect env ws a"
| "fleet_step env (Beat expected a p) = ignore (heartbeat env expected a p)"
| "fleet_step env Sweep = ignore (mark_offline_expired env)"
| "fleet_step env (Delete a purge) = ignore (api_delete_host env a purge)"
| "fleet_step env (Move a grp) = ignore (api_update_host env a grp)"
| "fleet_step env (Upgrade se ue a req) = ignore (api_upgrade_agent env se ue a req)"
| "fleet_step env (Command se a msg) = ignore (send_to_agent env se a msg)"
| "fleet_step env (Nuclei se ue a v os arch) = trigger_nuclei_upgrade env se ue a v os arch"
| "fleet_step env (Ack rt a p) = record_upgrade_ack env rt a p"
| "fleet_step env (Status a) = ignore (api_upgrade_status env a)"
| "fleet_step env (Drop se a) = drop_revoked_connection env se a"
| "fleet_step env (New_Token fresh grp ttl uses by) = ignore (create_enroll_token env fresh grp ttl uses by)"
| "fleet_step env (Delete_Group g) = api_delete_group env g"

text \<open>Every request has its own environment: servers come and go between requests, time passes.\<close>

fun fleet_run :: "(fleet_env \<times> fleet_op) list \<Rightarrow> fleet \<Rightarrow> fleet" where
  "fleet_run [] w = w"
| "fleet_run ((env, x) # xs) w = fleet_run xs (snd (fleet_step env x w))"

fun enrolls :: "string \<Rightarrow> fleet_op \<Rightarrow> bool" where
  "enrolls agent (Enroll se hex fresh xff peer req) = (agent = ''agent-'' @ take 12 hex)"
| "enrolls agent _ = False"

definition locked_out :: "string \<Rightarrow> fleet \<Rightarrow> bool" where
  "locked_out agent w \<longleftrightarrow> (\<forall>r\<in>set (creds w). c_agent r = agent \<longrightarrow> c_revoked r \<noteq> None)"

section \<open>What leaves the credentials alone\<close>

lemma locked_frame [simp]:
  "locked_out a (w\<lparr>etokens := x1\<rparr>) = locked_out a w" "locked_out a (w\<lparr>hosts := x2\<rparr>) = locked_out a w"
  "locked_out a (w\<lparr>mirror := x2\<rparr>) = locked_out a w" "locked_out a (w\<lparr>groups := x4\<rparr>) = locked_out a w"
  "locked_out a (w\<lparr>keys := x5\<rparr>) = locked_out a w" "locked_out a (w\<lparr>published := x6\<rparr>) = locked_out a w"
  "locked_out a (w\<lparr>conns := x7\<rparr>) = locked_out a w" "locked_out a (w\<lparr>revoked_conns := x8\<rparr>) = locked_out a w"
  "locked_out a (w\<lparr>sent := x9\<rparr>) = locked_out a w"
  by (simp_all add: locked_out_def)

lemma keeps_servers [keeps_intros]:
  "keeps I m \<Longrightarrow> keeps I (pg env m)"
  "keeps I m \<Longrightarrow> keeps I (es env m)"
  "keeps I m \<Longrightarrow> keeps I (redis env m)"
  by (simp_all add: pg_def es_def redis_def keeps_bind keeps_guard)

lemma keeps_best_effort [keeps_intros]: "keeps I m \<Longrightarrow> keeps I (best_effort m)"
  by (simp add: best_effort_def keeps_try keeps_return)

lemma keeps_ignore [keeps_intros]: "keeps I m \<Longrightarrow> keeps I (ignore m)"
  by (simp add: ignore_def keeps_bind keeps_return)

lemma keeps_locked_modify [keeps_intros]:
  "(\<And>w. creds (f w) = creds w) \<Longrightarrow> keeps (locked_out a) (io_modify f)"
  by (rule keeps_modify) (simp add: locked_out_def)

lemma keeps_locked_write [keeps_intros]:
  "(\<And>w. creds (g w) = creds w) \<Longrightarrow> keeps (locked_out a) (\<lambda>w. if c w then (Raise e, w) else (Ok x, g w))"
  by (simp add: keeps_def locked_out_def)

lemma keeps_locked_state:
  "(\<And>w. creds (snd (f w)) = creds w) \<Longrightarrow> keeps (locked_out a) f"
  unfolding keeps_def by (simp add: locked_out_def)

lemma locked_kv [keeps_intros]:
  "keeps (locked_out a) (kv_get env k)"
  "keeps (locked_out a) (kv_set env k v ttl)"
  "keeps (locked_out a) (kv_delete env ks)"
  "keeps (locked_out a) (kv_publish env c m)"
  "keeps (locked_out a) (kv_set_nx env k v t)"
  unfolding kv_get_def kv_set_def kv_delete_def kv_publish_def kv_set_nx_def
  by (auto intro!: keeps_intros)

lemma locked_hosts [keeps_intros]:
  "keeps (locked_out a) (save_host env h)"
  "keeps (locked_out a) (get_host env b)"
  "keeps (locked_out a) (update_host env b p)"
  "keeps (locked_out a) (delete_host env b)"
  unfolding save_host_def get_host_def update_host_def delete_host_def
  by (auto intro!: keeps_intros)

lemma locked_sweep [keeps_intros]: "keeps (locked_out a) (store_mark_offline env t)"
proof -
  have "keeps (locked_out a) (set_offline env xs)" for xs
    by (induction xs) (auto intro!: keeps_intros)
  then show ?thesis unfolding store_mark_offline_def Let_def by (auto intro!: keeps_intros)
qed

lemma locked_register [keeps_intros]:
  "a \<noteq> b \<Longrightarrow> keeps (locked_out a) (register_enroll_token env b tok)"
  unfolding register_enroll_token_def
  by (intro keeps_servers keeps_modify) (auto simp: locked_out_def)

lemma locked_revoke [keeps_intros]: "keeps (locked_out a) (revoke_agent env b)"
  unfolding revoke_agent_def
  by (intro keeps_intros keeps_modify) (auto simp: locked_out_def)

lemma locked_tokens [keeps_intros]:
  "keeps (locked_out a) (validate_enroll_token env tok)"
  "keeps (locked_out a) (create_enroll_token env fresh grp ttl uses by)"
  unfolding create_enroll_token_def Let_def
  by (rule keeps_locked_state, simp add: validate_enroll_token_eq delete_token_def spent_def split: option.splits)
    (intro keeps_intros; simp)

lemma locked_delivery [keeps_intros]:
  "keeps (locked_out a) (ws_send env ws m)"
  "keeps (locked_out a) (send_to_agent env se b msg)"
  "keeps (locked_out a) (deliver_pending env b ws)"
  unfolding send_to_agent_def deliver_pending_def ws_send_def Let_def
  by (auto intro!: keeps_intros)

lemma locked_upgrade [keeps_intros]:
  "keeps (locked_out a) (update_upgrade_status env b ch)"
  "keeps (locked_out a) (get_upgrade_status env b)"
  "keeps (locked_out a) (record_upgrade_ack env rt b p)"
  "keeps (locked_out a) (confirm_upgrade_from_heartbeat env b v)"
  "keeps (locked_out a) (trigger_nuclei_upgrade env se ue b ver os arch)"
  unfolding update_upgrade_status_def get_upgrade_status_def redis_update_def read_status_def write_status_def
    record_upgrade_ack_def confirm_upgrade_from_heartbeat_def trigger_nuclei_upgrade_def Let_def
  by (auto intro!: keeps_intros)

lemma locked_decommission [keeps_intros]:
  "keeps (locked_out a) (decommission_host env b)"
  "keeps (locked_out a) (try_revoke env b)"
  unfolding decommission_host_def try_revoke_def by (auto intro!: keeps_intros)

lemma locked_by_ip [keeps_intros]: "keeps (locked_out a) (decommission_host_by_ip env ip)"
proof -
  have "keeps (locked_out a) (decommission_all env xs)" for xs
    by (induction xs) (auto intro!: keeps_intros)
  then show ?thesis unfolding decommission_host_by_ip_def by (auto intro!: keeps_intros)
qed

lemma locked_step: "\<not> enrolls a x \<Longrightarrow> keeps (locked_out a) (fleet_step env x)"
  by (cases x)
    (auto intro!: keeps_intros split: exn.splits upgrade_answer.splits
      simp: api_enroll_host_def connect_def disconnect_def register_online_def heartbeat_def mark_offline_expired_def
        api_delete_host_def delete_host_permanently_def api_update_host_def update_host_group_def
        api_upgrade_agent_def api_upgrade_status_def drop_revoked_connection_def api_delete_group_def delete_group_def Let_def)

lemma locked_run: "list_all (\<lambda>(env, x). \<not> enrolls a x) xs \<Longrightarrow> locked_out a w \<Longrightarrow> locked_out a (fleet_run xs w)"
  by (induction xs arbitrary: w) (auto simp: keepsD [OF locked_step])


section \<open>Deletion\<close>

definition mark_revoked :: "int \<Rightarrow> string \<Rightarrow> cred_row \<Rightarrow> cred_row" where
  "mark_revoked t a r = (if c_agent r = a \<and> c_revoked r = None then r\<lparr>c_revoked := Some t\<rparr> else r)"

lemma mark_revoked_simps [simp]:
  "c_agent (mark_revoked t a r) = c_agent r"
  "c_revoked (mark_revoked t a r) = None \<longleftrightarrow> c_agent r \<noteq> a \<and> c_revoked r = None"
  by (cases "c_revoked r"; simp add: mark_revoked_def)+

lemma revoke_locks: "fe_pg_up env \<Longrightarrow> locked_out a (snd (revoke_agent env a w))"
proof -
  assume up: "fe_pg_up env"
  let ?w = "w\<lparr>creds := map (mark_revoked (fe_now env) a) (creds w)\<rparr>"
  have "locked_out a ?w" by (simp add: locked_out_def del: not_None_eq)
  moreover have "keeps (locked_out a) (io_bind (kv_publish env c m) (\<lambda>n. io_return (f n)))" for c m f
    by (intro keeps_intros)
  ultimately have "locked_out a (snd (io_bind (kv_publish env c m) (\<lambda>n. io_return (f n)) ?w))" for c m f
    by (blast intro: keepsD)
  then show ?thesis using up
    by (simp add: revoke_agent_def pg_def io_guard_def mark_revoked_def [abs_def])
qed

lemma revoke_Inr_locks: "revoke_agent env a w = (Inr x, w') \<Longrightarrow> locked_out a w'"
proof -
  assume r: "revoke_agent env a w = (Inr x, w')"
  then have "fe_pg_up env" by (auto simp: revoke_agent_def pg_def io_guard_def io_bind_def split: if_splits)
  from revoke_locks [OF this, of a w] r show ?thesis by simp
qed

lemma try_revoke_locks: "fe_pg_up env \<Longrightarrow> try_revoke env a w = (Inr x, w') \<Longrightarrow> locked_out a w'"
  using revoke_locks [of env a w]
  by (auto simp: try_revoke_def best_effort_def io_try_def io_bind_def split: prod.splits sum.splits if_splits)

lemma delete_locks:
  assumes "api_delete_host env a purge w = (Inr b, w')" and "purge \<Longrightarrow> fe_pg_up env"
  shows "locked_out a w'"
  using assms revoke_Inr_locks [of env a] try_revoke_locks [of env a]
  by (auto simp: api_delete_host_def delete_host_permanently_def io_bind_Inr split: option.splits if_splits)

lemma locked_refused: "locked_out a w \<Longrightarrow> fst (authenticate env a tok w) = Inr False"
  by (auto simp: authenticate_def validate_agent_token_def pg_def io_guard_def io_try_def io_bind_def find_cred_def
      locked_out_def is_Exception_def io_gets_def find_Some_iff split: option.splits)

text \<open>
  C8: When the deletion of a host has been answered with success, that agent is never authenticated again,
  whatever token it presents and whatever requests follow, as long as no new host is given the same
  identifier; a purge promises this when the database is up.
\<close>

theorem deleted_host_locked_out:
  assumes "api_delete_host env a purge w = (Inr b, w')" and "purge \<Longrightarrow> fe_pg_up env"
    and "list_all (\<lambda>(env, x). \<not> enrolls a x) xs"
  shows "fst (authenticate env' a tok (fleet_run xs w')) = Inr False"
  by (rule locked_refused [OF locked_run [OF assms(3) delete_locks [OF assms(1,2)]]])

definition toy_host :: "string \<Rightarrow> host_status \<Rightarrow> int \<Rightarrow> host_row" where
  "toy_host a s t = \<lparr>h_id = a, h_name = ''n'', h_ip = ''10.0.0.1'', h_os = ''linux'', h_arch = ''amd64'',
     h_kernel = ''6'', h_status = s, h_group = None, h_version = ''1.0'', h_rules = ''1'', h_beat = Some t, h_created = 0\<rparr>"

definition toy_cred :: "string \<Rightarrow> cred_row" where
  "toy_cred a = \<lparr>c_agent = a, c_hash = ''#tok'', c_issued = 0, c_revoked = None\<rparr>"

definition one_host :: fleet where
  "one_host = toy_fleet\<lparr>hosts := [toy_host ''agent-1'' Online 990], creds := [toy_cred ''agent-1'']\<rparr>"

lemma deleted_host_locked_out_witness:
  "fst (authenticate toy_env ''agent-1'' ''tok'' one_host) = Inr True \<and>
   fst (authenticate toy_env ''agent-1'' ''tok'' (fleet_run [(toy_env, Connect 1 ''agent-1''), (toy_env, Sweep)]
     (snd (api_delete_host toy_env ''agent-1'' False one_host)))) = Inr False"
proof
  show "fst (authenticate toy_env ''agent-1'' ''tok'' one_host) = Inr True"
    by (simp add: authenticate_def validate_agent_token_def pg_def io_guard_def io_try_def io_bind_def find_cred_def
        one_host_def toy_fleet_def toy_env_def toy_cred_def io_gets_def)
  have "fst (api_delete_host toy_env ''agent-1'' False one_host) = Inr False"
    by code_simp
  then have "api_delete_host toy_env ''agent-1'' False one_host =
      (Inr False, snd (api_delete_host toy_env ''agent-1'' False one_host))"
    by (simp add: prod_eq_iff)
  then show "fst (authenticate toy_env ''agent-1'' ''tok'' (fleet_run [(toy_env, Connect 1 ''agent-1''), (toy_env, Sweep)]
      (snd (api_delete_host toy_env ''agent-1'' False one_host)))) = Inr False"
    by (rule deleted_host_locked_out) simp_all
qed

text \<open>
  A registration that arrives with neither a forwarding header nor a peer address ends in an error after the
  single use of its token has been taken.
\<close>

lemma addressless_enroll_burns_token:
  "find_token ''tok'' (snd (api_enroll_host toy_env se hex fresh [] None (req\<lparr>er_token := ''tok''\<rparr>)
     (toy_fleet\<lparr>etokens := [toy_token 1]\<rparr>))) = None \<and>
   fst (api_enroll_host toy_env se hex fresh [] None (req\<lparr>er_token := ''tok''\<rparr>)
     (toy_fleet\<lparr>etokens := [toy_token 1]\<rparr>)) = Inl (RuntimeError ''UnboundLocalError'')"
  by (simp add: api_enroll_host_def io_bind_def validate_enroll_token_eq find_token_def toy_fleet_def toy_env_def
      toy_token_def live_def client_ip_def spent_def delete_token_def Let_def)

end
