(* ===== verification/SweepLaws.thy ===== *)
theory SweepLaws
  imports HostLaws
begin

text \<open>The offline sweep: which rows it changes, and that a host heard from recently is not one of them.\<close>

definition mark_ids :: "string set \<Rightarrow> host_row \<Rightarrow> host_row" where
  "mark_ids ids h = (if h_id h \<in> ids then h\<lparr>h_status := Offline\<rparr> else h)"

lemma mark_ids_simps [simp]:
  "h_id (mark_ids ids h) = h_id h"
  "h_beat (mark_ids ids h) = h_beat h"
  "mark_ids {} h = h"
  "mark_ids I (mark_ids J h) = mark_ids (I \<union> J) h"
  by (simp_all add: mark_ids_def)

lemma map_mark_ids [simp]:
  "mark_ids {} = (\<lambda>h. h)" "mark_ids I \<circ> mark_ids J = mark_ids (I \<union> J)"
  by (simp_all add: fun_eq_iff)

lemma patch_rows_offline:
  "patch_rows env a (no_patch\<lparr>hp_status := Some Offline\<rparr>) hs = map (mark_ids {a}) hs"
  by (simp add: patch_rows_def mark_ids_def apply_patch_def no_patch_def)

lemma patch_rows_absent: "find_host a hs = None \<Longrightarrow> patch_rows env a p hs = hs"
  by (auto simp: find_host_def find_None_iff patch_rows_def intro!: map_idI)

lemma update_host_eq:
  "p \<noteq> no_patch \<Longrightarrow> update_host env a p w =
     (Inr (), w\<lparr>hosts := (if fe_pg_up env then patch_rows env a p (hosts w) else hosts w),
        mirror := (if fe_es_up env then patch_rows env a p (mirror w) else mirror w)\<rparr>)"
  by (auto simp: update_host_def best_effort_def pg_def es_def io_guard_def io_try_def io_bind_def is_Exception_def
      patch_rows_absent)

lemma changes_something [simp]:
  "no_patch\<lparr>hp_status := Some s\<rparr> \<noteq> no_patch"
  "no_patch\<lparr>hp_beat := Some b, hp_version := v, hp_rules := r\<rparr> \<noteq> no_patch"
  by (simp_all add: no_patch_def)

lemma update_host_offline:
  "update_host env a (no_patch\<lparr>hp_status := Some Offline\<rparr>) w =
     (Inr (), w\<lparr>hosts := (if fe_pg_up env then map (mark_ids {a}) (hosts w) else hosts w),
        mirror := (if fe_es_up env then map (mark_ids {a}) (mirror w) else mirror w)\<rparr>)"
  by (simp add: update_host_eq patch_rows_offline)

lemma set_offline_eq:
  "set_offline env as w =
     (Inr (), w\<lparr>hosts := (if fe_pg_up env then map (mark_ids (set as)) (hosts w) else hosts w),
        mirror := (if fe_es_up env then map (mark_ids (set as)) (mirror w) else mirror w)\<rparr>)"
  by (induction as arbitrary: w) (auto simp: io_bind_def update_host_offline)

text \<open>The rows of the search index that are due.\<close>

definition cutoff :: "fleet_env \<Rightarrow> int" where
  "cutoff env = fe_now env - (fe_heartbeat env * 2 + 30)"

definition stale_ids :: "fleet_env \<Rightarrow> fleet \<Rightarrow> string list" where
  "stale_ids env w = (if fe_es_up env then map h_id (take 1000 (filter (expired (cutoff env)) (mirror w))) else [])"

definition swept_row :: "fleet_env \<Rightarrow> fleet \<Rightarrow> host_row \<Rightarrow> host_row" where
  "swept_row env w h = (if expired (cutoff env) h \<or> h_id h \<in> set (stale_ids env w) then h\<lparr>h_status := Offline\<rparr> else h)"

lemma sweep_eq:
  "snd (mark_offline_expired env w) = w\<lparr>hosts := (if fe_pg_up env then map (swept_row env w) (hosts w) else hosts w),
     mirror := map (mark_ids (set (stale_ids env w))) (mirror w)\<rparr>"
  by (auto simp: mark_offline_expired_def store_mark_offline_def Let_def pg_def es_def io_guard_def io_try_def
      io_bind_def is_Exception_def set_offline_eq stale_ids_def cutoff_def swept_row_def mark_ids_def)

text \<open>
  With both stores up, the sweep answers with the larger of the two numbers of rows it found due and sets
  to offline exactly the rows that are online with an old heartbeat in the database, together with those whose
  entry in the search index is; every other row, and everything else, is as before.
\<close>

theorem offline_sweep_exact:
  assumes "fe_pg_up env" and "fe_es_up env"
  shows "mark_offline_expired env w =
    (Inr (max (length (filter (expired (cutoff env)) (hosts w))) (length (stale_ids env w))),
     w\<lparr>hosts := map (swept_row env w) (hosts w), mirror := map (mark_ids (set (stale_ids env w))) (mirror w)\<rparr>)"
proof (rule prod_eqI)
  show "snd (mark_offline_expired env w) = snd (Inr (max (length (filter (expired (cutoff env)) (hosts w)))
      (length (stale_ids env w))), w\<lparr>hosts := map (swept_row env w) (hosts w),
      mirror := map (mark_ids (set (stale_ids env w))) (mirror w)\<rparr>)"
    using assms by (simp add: sweep_eq)
  show "fst (mark_offline_expired env w) = fst (Inr (max (length (filter (expired (cutoff env)) (hosts w)))
      (length (stale_ids env w))), w\<lparr>hosts := map (swept_row env w) (hosts w),
      mirror := map (mark_ids (set (stale_ids env w))) (mirror w)\<rparr>)"
    using assms by (simp add: mark_offline_expired_def store_mark_offline_def Let_def pg_def es_def io_guard_def
      io_try_def io_bind_def set_offline_eq stale_ids_def cutoff_def)
qed

section \<open>Heartbeats\<close>

definition heard :: "string \<Rightarrow> int \<Rightarrow> host_status list \<Rightarrow> fleet \<Rightarrow> bool" where
  "heard a t ss w \<longleftrightarrow> (\<forall>h\<in>set (hosts w) \<union> set (mirror w). h_id h = a \<longrightarrow> h_beat h = Some t) \<and>
     map h_status (filter (\<lambda>h. h_id h = a) (hosts w)) = ss"

lemma heard_sweep:
  assumes "heard a t ss w" and "cutoff env \<le> t"
  shows "heard a t ss (snd (mark_offline_expired env w))"
proof -
  have fresh: "a \<notin> set (stale_ids env w)"
    using assms by (auto simp: stale_ids_def heard_def expired_def dest!: in_set_takeD)
  have row: "h \<in> set (hosts w) \<Longrightarrow> h_id h = a \<Longrightarrow> swept_row env w h = h" for h
    using assms fresh by (auto simp: swept_row_def heard_def expired_def)
  have "filter (\<lambda>h. h_id h = a) (map (swept_row env w) (hosts w)) = filter (\<lambda>h. h_id h = a) (hosts w)"
  proof -
    have id: "h_id (swept_row env w h) = h_id h" for h by (simp add: swept_row_def)
    show ?thesis
      unfolding filter_map comp_def id by (rule map_idI) (simp add: row)
  qed
  then show ?thesis using assms fresh row
    by (auto simp: heard_def sweep_eq mark_ids_def swept_row_def)
qed

lemma frame_keys: "keeps (\<lambda>w. hosts w = H \<and> mirror w = M) (kv_set env k v ttl)"
  "keeps (\<lambda>w. hosts w = H \<and> mirror w = M) (kv_get env k)"
  unfolding kv_set_def kv_get_def by (intro keeps_intros keeps_modify; simp)+

lemma frame_confirm: "keeps (\<lambda>w. hosts w = H \<and> mirror w = M) (confirm_upgrade_from_heartbeat env a v)"
  unfolding confirm_upgrade_from_heartbeat_def get_upgrade_status_def update_upgrade_status_def redis_update_def
    read_status_def write_status_def Let_def
  by (auto intro!: keeps_intros frame_keys)


lemma patched_beat:
  "h \<in> set (patch_rows env a (no_patch\<lparr>hp_beat := Some b, hp_version := v, hp_rules := r\<rparr>) hs) \<Longrightarrow> h_id h = a \<Longrightarrow>
   h_beat h = Some (beat_time env b)"
  unfolding patch_rows_def set_map by (elim imageE) (simp add: apply_patch_def no_patch_def split: if_splits)

lemma patched_status:
  "map h_status (filter (\<lambda>h. h_id h = a) (patch_rows env a (no_patch\<lparr>hp_beat := Some b, hp_version := v, hp_rules := r\<rparr>) hs)) =
   map h_status (filter (\<lambda>h. h_id h = a) hs)"
  by (induction hs) (simp_all add: patch_rows_def apply_patch_def no_patch_def)

lemma heard_beat:
  assumes "fe_pg_up env" and "fe_es_up env" and "heartbeat env expected a p w = (Inr js, w1)"
  shows "heard a (beat_time env (opt_or (hb_ts p) [])) (map h_status (filter (\<lambda>h. h_id h = a) (hosts w))) w1"
proof -
  let ?p = "no_patch\<lparr>hp_beat := Some (opt_or (hb_ts p) []), hp_version := hb_version p, hp_rules := hb_rules p\<rparr>"
  let ?H = "patch_rows env a ?p (hosts w)" and ?M = "patch_rows env a ?p (mirror w)"
  obtain u0 wa wb u1 wc where k: "kv_set env (online_key a) (PStr ''1'') (Some (online_ttl env)) w = (Inr u0, wa)"
    and u: "update_host env a ?p wa = (Inr u1, wb)"
    and c: "(if opt_or (hb_version p) [] \<noteq> [] then confirm_upgrade_from_heartbeat env a (opt_or (hb_version p) [])
        else io_return ()) wb = (Inr wc, w1)"
    using assms(3) by (auto simp: heartbeat_def io_bind_Inr Let_def)
  have "hosts wa = hosts w \<and> mirror wa = mirror w"
    using keepsD [OF frame_keys(1), of w _ _ env "online_key a" "PStr ''1''" "Some (online_ttl env)"] k by auto
  with u assms(1,2) have "hosts wb = ?H \<and> mirror wb = ?M" by (auto simp: update_host_eq)
  with c have "hosts w1 = ?H \<and> mirror w1 = ?M"
    using keepsD [OF frame_confirm, of wb ?H ?M env a "opt_or (hb_version p) []"] by (auto split: if_splits)
  then show ?thesis unfolding heard_def by (simp add: patched_status ball_Un) (blast intro: patched_beat)
qed

text \<open>
  A host whose heartbeat was stored keeps its status through the sweeps that come before twice the
  heartbeat interval and half a minute have passed since the time that heartbeat carries, whichever stores
  answer during those sweeps.
\<close>

theorem heartbeat_survives_sweeps:
  assumes "fe_pg_up env" and "fe_es_up env" and "heartbeat env expected a p w = (Inr js, w1)"
    and "\<forall>e\<in>set sweeps. cutoff e \<le> beat_time env (opt_or (hb_ts p) [])"
  shows "map h_status (filter (\<lambda>h. h_id h = a) (hosts (fleet_run (map (\<lambda>e. (e, Sweep)) sweeps) w1))) =
    map h_status (filter (\<lambda>h. h_id h = a) (hosts w))"
proof -
  let ?t = "beat_time env (opt_or (hb_ts p) [])" and ?ss = "map h_status (filter (\<lambda>h. h_id h = a) (hosts w))"
  have "heard a ?t ?ss w1" by (rule heard_beat [OF assms(1-3)])
  then have "heard a ?t ?ss (fleet_run (map (\<lambda>e. (e, Sweep)) sweeps) w1)"
    using assms(4)
  proof (induction sweeps arbitrary: w1)
    case (Cons e sweeps)
    have "snd (fleet_step e Sweep w1) = snd (mark_offline_expired e w1)"
      by (simp add: ignore_def io_bind_def split: prod.splits sum.splits)
    then show ?case using Cons heard_sweep [of a ?t ?ss w1 e] by simp
  qed simp
  then show ?thesis by (simp add: heard_def)
qed

definition two_stores :: "host_status \<Rightarrow> int \<Rightarrow> int \<Rightarrow> fleet" where
  "two_stores s t u = toy_fleet\<lparr>hosts := [toy_host ''a'' s t], mirror := [toy_host ''a'' Online u]\<rparr>"

lemma offline_sweep_exact_witness:
  "snd (mark_offline_expired toy_env (two_stores Online 700 990)) = two_stores Offline 700 990"
  by (simp add: offline_sweep_exact toy_env_def two_stores_def toy_fleet_def toy_host_def stale_ids_def cutoff_def
      expired_def swept_row_def mark_ids_def)

definition plain_beat :: beat where
  "plain_beat = \<lparr>hb_ts = None, hb_version = None, hb_rules = None, hb_nuclei = None, hb_os = None, hb_arch = None\<rparr>"

lemma heartbeat_survives_sweeps_witness:
  "map h_status (filter (\<lambda>h. h_id h = ''a'') (hosts (fleet_run [(toy_env\<lparr>fe_now := 1140\<rparr>, Sweep)]
     (snd (heartbeat toy_env [] ''a'' plain_beat (two_stores Online 700 700)))))) = [Online]"
proof -
  let ?r = "heartbeat toy_env [] ''a'' plain_beat (two_stores Online 700 700)"
  have "fst ?r = Inr [Update_Rules ''a'' ''0'']" by code_simp
  then have "?r = (Inr [Update_Rules ''a'' ''0''], snd ?r)" by (simp add: prod_eq_iff)
  from heartbeat_survives_sweeps [OF _ _ this, of "[toy_env\<lparr>fe_now := 1140\<rparr>]"]
  show ?thesis
    by (simp add: toy_env_def cutoff_def beat_time_def parse_ts_def opt_or_def strip_def lstrip_def rstrip_def
        two_stores_def toy_fleet_def toy_host_def plain_beat_def)
qed

text \<open>
  An old entry of the search index, left behind by a write that failed, takes a live host offline, and brings
  a decommissioned one back among the offline ones.
\<close>

lemma stale_index_marks_live_host:
  "map h_status (hosts (snd (mark_offline_expired toy_env (two_stores s 990 700)))) = [Offline]"
  by (simp add: sweep_eq toy_env_def two_stores_def toy_fleet_def toy_host_def stale_ids_def cutoff_def
      expired_def swept_row_def mark_ids_def)

text \<open>A heartbeat does not bring a host back online.\<close>

lemma heartbeat_leaves_offline:
  "map h_status (hosts (snd (heartbeat toy_env [] ''a'' plain_beat (two_stores Offline 700 700)))) = [Offline]"
  by code_simp

section \<open>Connections\<close>

text \<open>The end of a connection that has been replaced leaves the newer one in place.\<close>

lemma late_disconnect_keeps_connection:
  "map_of (conns w) a = Some new \<Longrightarrow> old \<noteq> new \<Longrightarrow> disconnect env old a w = (Inr (), w)"
  by (simp add: disconnect_def)

end
