(* ===== verification/CommandLaws.thy ===== *)
theory CommandLaws
  imports SweepLaws
begin

text \<open>
  Signed commands verify and changed ones do not; a command for an agent that is not connected waits for its
  connection; an upgrade is confirmed only after the agent has acknowledged it and reports its version.
\<close>

section \<open>Signatures\<close>

lemma dget_update [simp]: "dget (AList.update k v d) k' x = (if k' = k then v else dget d k' x)"
  by (simp add: dget_def update_conv')

lemma sensitive_update [simp]: "k \<noteq> ''type'' \<Longrightarrow> sensitive (AList.update k v msg) = sensitive msg"
  by (simp add: sensitive_def)

lemma canonical_update [simp]:
  "k \<noteq> ''type'' \<Longrightarrow> k \<noteq> ''payload'' \<Longrightarrow> canonical se (AList.update k v msg) ts = canonical se msg ts"
  by (simp add: canonical_def)


definition toy_sign :: sign_env where
  "toy_sign = \<lparr>se_key = concat (replicate 32 ''a0''), se_sign = (\<lambda>k d. ''s'' @ d), se_public = (\<lambda>k. ''pk''),
     se_check = (\<lambda>pk s d. s = ''s'' @ d), se_dumps = py_repr toy_rt, se_rt = toy_rt\<rparr>"

definition toy_command :: pydict where
  "toy_command = [(''type'', PStr ''scan_cancel''), (''ts'', PStr ''5''), (''payload'', PDict [(''task_id'', PStr ''t1'')])]"

lemma toy_key: "get_private_key toy_sign = Some (replicate 32 160)"
  by code_simp


text \<open>
  The start-up check accepts a key of sixty-four characters that has white space in it; the key is then not
  usable and commands go out unsigned.
\<close>

lemma checked_key_signs_nothing:
  defines "se \<equiv> toy_sign\<lparr>se_key := concat (replicate 30 ''a0'') @ ''    ''\<rparr>"
  shows "check_signing_key se \<and> sign_message se [] toy_command = toy_command \<and>
    \<not> verify_message se (sign_message se [] toy_command) ''pk''"
  unfolding se_def by code_simp

section \<open>The key-value server while it answers\<close>

definition kv_lookup :: "fleet_env \<Rightarrow> string \<Rightarrow> fleet \<Rightarrow> pyval option" where
  "kv_lookup env k w = (case map_of (keys w) k of
     Some (v, None) \<Rightarrow> Some v
   | Some (v, Some t) \<Rightarrow> if fe_now env < t then Some v else None
   | None \<Rightarrow> None)"

definition kv_put :: "fleet_env \<Rightarrow> string \<Rightarrow> pyval \<Rightarrow> int option \<Rightarrow> fleet \<Rightarrow> fleet" where
  "kv_put env k v ttl w = w\<lparr>keys := AList.update k (v, map_option (\<lambda>s. fe_now env + s) ttl) (keys w)\<rparr>"

lemma kv_up:
  assumes "fe_redis_up env"
  shows "kv_get env k w = (Inr (kv_lookup env k w), w)"
    and "kv_set env k v ttl w = (Inr (), kv_put env k v ttl w)"
    and "kv_delete env ks w = (Inr (), w\<lparr>keys := filter (\<lambda>(k, _). k \<notin> set ks) (keys w)\<rparr>)"
    and "kv_publish env c m w = (Inr (fe_listeners env c), w\<lparr>published := published w @ [(c, m)]\<rparr>)"
  using assms
  by (simp_all add: kv_get_def kv_set_def kv_delete_def kv_publish_def redis_def io_guard_def kv_lookup_def kv_put_def
      cong: option.case_cong)

lemma kv_bind:
  assumes "fe_redis_up env"
  shows "io_bind (kv_get env k) f w = f (kv_lookup env k w) w"
    and "io_bind (kv_set env k v ttl) g w = g () (kv_put env k v ttl w)"
    and "io_bind (kv_delete env ks) g w = g () (w\<lparr>keys := filter (\<lambda>(k, _). k \<notin> set ks) (keys w)\<rparr>)"
    and "io_bind (kv_publish env c m) h w = h (fe_listeners env c) (w\<lparr>published := published w @ [(c, m)]\<rparr>)"
  by (simp_all add: io_bind_def kv_up [OF assms])

lemma kv_down:
  assumes "\<not> fe_redis_up env"
  shows "kv_get env k w = (Inl (ExtError ''redis''), w)"
    and "kv_set env k v ttl w = (Inl (ExtError ''redis''), w)"
  using assms by (simp_all add: kv_get_def kv_set_def redis_def io_guard_def)

lemma kv_put_simps [simp]:
  "map_of (keys (kv_put env k v ttl w)) k' =
     (if k' = k then Some (v, map_option (\<lambda>s. fe_now env + s) ttl) else map_of (keys w) k')"
  "conns (kv_put env k v ttl w) = conns w" "sent (kv_put env k v ttl w) = sent w"
  "published (kv_put env k v ttl w) = published w"
  by (simp_all add: kv_put_def update_conv')

lemma kv_lookup_put [simp]:
  "kv_lookup env' k (kv_put env k v ttl w) =
     (case ttl of None \<Rightarrow> Some v | Some s \<Rightarrow> if fe_now env' < fe_now env + s then Some v else None)"
  "k' \<noteq> k \<Longrightarrow> kv_lookup env' k' (kv_put env k v ttl w) = kv_lookup env' k' w"
  by (simp_all add: kv_lookup_def split: option.splits)

lemma kv_lookup_frame [simp]:
  "kv_lookup env k (w\<lparr>hosts := hs\<rparr>) = kv_lookup env k w" "kv_lookup env k (w\<lparr>mirror := hs\<rparr>) = kv_lookup env k w"
  "kv_lookup env k (w\<lparr>conns := cs\<rparr>) = kv_lookup env k w" "kv_lookup env k (w\<lparr>sent := ms\<rparr>) = kv_lookup env k w"
  "kv_lookup env k (w\<lparr>published := ps\<rparr>) = kv_lookup env k w"
  by (simp_all add: kv_lookup_def)

lemma agent_keys [simp]:
  "pending_key a \<noteq> online_key b" "pending_key a \<noteq> conn_key b" "pending_key a \<noteq> upgrade_key b"
  "upgrade_key a \<noteq> online_key b" "upgrade_key a \<noteq> conn_key b" "upgrade_key a \<noteq> pending_key b"
  "upgrade_key a \<noteq> nuclei_lock_key b"
  "upgrade_key a = upgrade_key b \<longleftrightarrow> a = b"
  by (simp_all add: pending_key_def online_key_def conn_key_def upgrade_key_def nuclei_lock_key_def)

section \<open>Delivery\<close>

lemma online_changes [simp]: "no_patch\<lparr>hp_status := Some s, hp_beat := b\<rparr> \<noteq> no_patch"
  by (simp add: no_patch_def)

lemma connect_delivers:
  assumes "fe_redis_up env" and "fe_ws_ok env ws" and "kv_lookup env (pending_key a) w = Some m" and "truthy m"
  shows "\<exists>w'. connect env ws a w = (Inr (), w') \<and> (ws, m) \<in> set (sent w') \<and> map_of (keys w') (pending_key a) = None"
proof -
  let ?w1 = "kv_put env (conn_key a) (PStr (fe_worker env)) None (kv_put env (online_key a) (PStr ''1'') (Some (online_ttl env))
    (w\<lparr>conns := AList.update a ws (conns w)\<rparr>))"
  obtain H M where r: "register_online env a (fe_worker env) (w\<lparr>conns := AList.update a ws (conns w)\<rparr>) =
      (Inr (), ?w1\<lparr>hosts := H, mirror := M\<rparr>)"
    using assms(1) by (fastforce simp: register_online_def io_bind_def kv_up update_host_eq)
  have "deliver_pending env a ws (?w1\<lparr>hosts := H, mirror := M\<rparr>) =
      (Inr (), ?w1\<lparr>hosts := H, mirror := M, sent := sent w @ [(ws, m)],
         keys := filter (\<lambda>(k, _). k \<notin> {pending_key a}) (keys ?w1)\<rparr>)"
    using assms by (simp add: deliver_pending_def best_effort_def io_try_def io_bind_def kv_up ws_send_def io_guard_def)
  moreover have "map_of (filter (\<lambda>(k, _). k \<noteq> p) xs) p = None" for p :: string and xs :: "(string \<times> pyval \<times> int option) list"
    by (induction xs) auto
  ultimately show ?thesis using r by (simp add: connect_def io_bind_def)
qed

lemma send_offline:
  assumes "map_of (conns w) a = None" and "fe_redis_up env" and "PDict (sign_message se (fe_iso env (fe_now env)) msg) = m"
  shows "send_to_agent env se a msg w =
    (let wp = w\<lparr>published := published w @ [(cmd_channel a, m)]\<rparr>;
         d = (fe_listeners env (cmd_channel a) > 0 \<and> some_truthy (kv_lookup env (conn_key a) wp)) in
     (Inr d, if d then wp else kv_put env (pending_key a) m (Some (24 * 3600)) wp))"
  by (simp add: send_to_agent_def assms(3) Let_def assms(1) io_try_def kv_bind [OF assms(2)] kv_up [OF assms(2)])



text \<open>A send that fails on the connection this process holds loses the command: it is not kept.\<close>

lemma failed_send_is_lost:
  "map_of (conns w) a = Some ws \<Longrightarrow> \<not> fe_ws_ok env ws \<Longrightarrow> send_to_agent env se a msg w = (Inr False, w)"
  by (simp add: send_to_agent_def io_try_def io_bind_def ws_send_def io_guard_def is_Exception_def Let_def)

end
