(* ===== verification/UpgradeLaws.thy ===== *)
theory UpgradeLaws
  imports CommandLaws
begin

text \<open>
  The life of an agent upgrade: its status says confirmed only when the agent has acknowledged the package and
  has reported the version it was sent.
\<close>

section \<open>The status of an upgrade\<close>

definition sound_status :: "pydict \<Rightarrow> bool" where
  "sound_status d \<longleftrightarrow> (py_eq (dget d ''state'' PNone) (PStr ''confirmed'') \<longrightarrow>
     truthy (dget d ''ack_received'' PNone) \<and>
     (\<exists>v. dget d ''current_version'' PNone = PStr v \<and> py_eq (PStr v) (dget d ''target_version'' PNone)))"

definition upgrades_sound :: "fleet \<Rightarrow> bool" where
  "upgrades_sound w \<longleftrightarrow> (\<forall>a d t. map_of (keys w) (upgrade_key a) = Some (PDict d, t) \<longrightarrow> sound_status d)"

lemma sound_frame [simp]:
  "upgrades_sound (w\<lparr>etokens := x1\<rparr>) = upgrades_sound w" "upgrades_sound (w\<lparr>hosts := x2\<rparr>) = upgrades_sound w"
  "upgrades_sound (w\<lparr>mirror := x2\<rparr>) = upgrades_sound w" "upgrades_sound (w\<lparr>groups := x4\<rparr>) = upgrades_sound w"
  "upgrades_sound (w\<lparr>creds := x5\<rparr>) = upgrades_sound w" "upgrades_sound (w\<lparr>published := x6\<rparr>) = upgrades_sound w"
  "upgrades_sound (w\<lparr>conns := x7\<rparr>) = upgrades_sound w" "upgrades_sound (w\<lparr>revoked_conns := x8\<rparr>) = upgrades_sound w"
  "upgrades_sound (w\<lparr>sent := x9\<rparr>) = upgrades_sound w"
  by (simp_all add: upgrades_sound_def)

lemma sound_modify [keeps_intros]: "(\<And>w. keys (f w) = keys w) \<Longrightarrow> keeps upgrades_sound (io_modify f)"
  by (rule keeps_modify) (simp add: upgrades_sound_def)

lemma sound_write [keeps_intros]:
  "(\<And>w. keys (g w) = keys w) \<Longrightarrow> keeps upgrades_sound (\<lambda>w. if c w then (Raise e, w) else (Ok x, g w))"
  by (simp add: keeps_def upgrades_sound_def)

lemma sound_state: "(\<And>w. keys (snd (f w)) = keys w) \<Longrightarrow> keeps upgrades_sound f"
  unfolding keeps_def by (simp add: upgrades_sound_def)

lemma map_of_filter_keys: "map_of (filter (\<lambda>(k, _). k \<notin> K) xs) p = (if p \<in> K then None else map_of xs p)"
  by (induction xs) auto

definition not_upgrade :: "string \<Rightarrow> bool" where
  "not_upgrade k \<longleftrightarrow> (\<forall>a. upgrade_key a \<noteq> k)"

lemma not_upgrade_keys [simp]:
  "not_upgrade (online_key b)" "not_upgrade (conn_key b)" "not_upgrade (pending_key b)" "not_upgrade (nuclei_lock_key b)"
  by (simp_all add: not_upgrade_def)

lemma sound_put: "upgrades_sound w \<Longrightarrow> not_upgrade k \<Longrightarrow> upgrades_sound (kv_put env k v ttl w)"
  by (auto simp: upgrades_sound_def not_upgrade_def)

lemma sound_kv [keeps_intros]:
  "keeps upgrades_sound (kv_get env k)"
  "not_upgrade k \<Longrightarrow> keeps upgrades_sound (kv_set env k v ttl)"
  "keeps upgrades_sound (kv_delete env ks)"
  "keeps upgrades_sound (kv_publish env c m)"
  unfolding kv_get_def kv_set_def kv_delete_def kv_publish_def kv_put_def [symmetric]
  by (intro keeps_intros keeps_modify; (erule (1) sound_put | auto simp: upgrades_sound_def map_of_filter_keys split: if_splits))+

lemma sound_set_nx [keeps_intros]: "not_upgrade k \<Longrightarrow> keeps upgrades_sound (kv_set_nx env k v t)"
  unfolding kv_set_nx_def by (auto intro!: keeps_intros)

section \<open>Updates of the status\<close>

definition status_of :: "fleet_env \<Rightarrow> string \<Rightarrow> fleet \<Rightarrow> pydict" where
  "status_of env a w = (case kv_lookup env (upgrade_key a) w of Some (PDict d) \<Rightarrow> d | _ \<Rightarrow> [])"

definition stamped :: "fleet_env \<Rightarrow> string \<Rightarrow> pydict \<Rightarrow> pydict" where
  "stamped env a d = AList.update ''updated_at'' (PStr (fe_iso env (fe_now env))) (AList.update ''agent_id'' (PStr a) d)"

lemma redis_update_eq:
  "redis_update env a ch w =
     (if fe_redis_up env
      then let d = stamped env a (dupdate (status_of env a w) ch) in
        (Inr d, kv_put env (upgrade_key a) (PDict d) (Some (24 * 3600)) w)
      else (Inl (ExtError ''redis''), w))"
  by (cases "fe_redis_up env")
    (simp_all add: redis_update_def read_status_def write_status_def kv_bind kv_down io_bind_def kv_up status_of_def
      stamped_def Let_def)

lemma status_of_put [simp]:
  "0 < s \<Longrightarrow> status_of env a (kv_put env (upgrade_key a) (PDict d) (Some s) w) = d"
  by (simp add: status_of_def)

lemma dupdate_simps [simp]: "dupdate d [] = d" "dupdate d ((k, v) # e) = dupdate (AList.update k v d) e"
  by (simp_all add: dupdate_def)

lemma sound_stamped [simp]: "sound_status (stamped env a d) = sound_status d"
  by (simp add: sound_status_def stamped_def)

lemma py_eq_text [simp]: "py_eq x (PStr s) \<longleftrightarrow> x = PStr s"
  by (cases x) (simp_all add: py_eq.simps)

lemma py_eq_text_left [simp]: "py_eq (PStr s) x \<longleftrightarrow> x = PStr s"
  by (cases x) (auto simp: py_eq.simps)

lemma sound_empty [simp]: "sound_status []"
  by (simp add: sound_status_def)

lemma sound_status_of: "upgrades_sound w \<Longrightarrow> sound_status (status_of env a w)"
  by (auto simp: upgrades_sound_def status_of_def kv_lookup_def split: option.splits pyval.splits)

lemma sound_put_status: "upgrades_sound w \<Longrightarrow> sound_status d \<Longrightarrow> upgrades_sound (kv_put env (upgrade_key a) (PDict d) ttl w)"
  by (auto simp: upgrades_sound_def)

lemma sound_update [keeps_intros]:
  assumes "\<And>d. sound_status d \<Longrightarrow> sound_status (dupdate d ch)"
  shows "keeps upgrades_sound (update_upgrade_status env a ch)"
  unfolding keeps_def
  by (simp add: update_upgrade_status_def redis_update_eq Let_def sound_put_status assms sound_status_of)

lemma sound_get [keeps_intros]: "keeps upgrades_sound (get_upgrade_status env a)"
  by (auto simp: keeps_def get_upgrade_status_def redis_update_eq Let_def intro!: sound_put_status sound_status_of)

lemma sound_ack [keeps_intros]: "keeps upgrades_sound (record_upgrade_ack env rt a p)"
  unfolding record_upgrade_ack_def Let_def
  by (intro keeps_intros) (simp_all add: sound_status_def)

lemma confirm_eq:
  fixes a :: string
  assumes "fe_redis_up env"
  defines "w1 w \<equiv> kv_put env (upgrade_key a) (PDict (stamped env a (status_of env a w))) (Some (24 * 3600)) w"
  defines "d w \<equiv> stamped env a (status_of env a w)"
  shows "snd (confirm_upgrade_from_heartbeat env a v w) =
    (if d w = [] \<or> dget (d w) ''state'' PNone \<noteq> PStr ''restarting'' \<or> \<not> truthy (dget (d w) ''ack_received'' PNone) then w1 w
     else kv_put env (upgrade_key a) (PDict (stamped env a (dupdate (d w) ([(''current_version'', PStr v)] @
        (if v \<noteq> [] \<and> py_eq (PStr v) (dget (d w) ''target_version'' PNone)
         then [(''state'', PStr ''confirmed''), (''message'', PStr (''Agent is online on version '' @ v)), (''error'', PStr [])]
         else []))))) (Some (24 * 3600)) (w1 w))"
  unfolding w1_def d_def confirm_upgrade_from_heartbeat_def get_upgrade_status_def update_upgrade_status_def
  by (simp add: io_bind_def redis_update_eq assms(1) Let_def del: append.simps)

lemma sound_confirm [keeps_intros]: "keeps upgrades_sound (confirm_upgrade_from_heartbeat env a v)"
proof (cases "fe_redis_up env")
  case True
  show ?thesis
    unfolding keeps_def confirm_eq [OF True]
    by (auto intro!: sound_put_status sound_status_of) (auto simp: sound_status_def)
next
  case False
  then show ?thesis
    unfolding keeps_def confirm_upgrade_from_heartbeat_def get_upgrade_status_def
    by (simp add: io_bind_def redis_update_eq)
qed

section \<open>Every request\<close>

lemma sound_hosts [keeps_intros]:
  "keeps upgrades_sound (save_host env h)"
  "keeps upgrades_sound (get_host env b)"
  "keeps upgrades_sound (update_host env b p)"
  "keeps upgrades_sound (delete_host env b)"
  unfolding save_host_def get_host_def update_host_def delete_host_def
  by (auto intro!: keeps_intros)

lemma sound_sweep [keeps_intros]: "keeps upgrades_sound (store_mark_offline env t)"
proof -
  have "keeps upgrades_sound (set_offline env xs)" for xs
    by (induction xs) (auto intro!: keeps_intros)
  then show ?thesis unfolding store_mark_offline_def Let_def by (auto intro!: keeps_intros)
qed

lemma sound_credentials [keeps_intros]:
  "keeps upgrades_sound (register_enroll_token env b tok)"
  "keeps upgrades_sound (revoke_agent env b)"
  unfolding register_enroll_token_def revoke_agent_def by (auto intro!: keeps_intros)

lemma sound_tokens [keeps_intros]:
  "keeps upgrades_sound (validate_enroll_token env tok)"
  "keeps upgrades_sound (create_enroll_token env fresh grp ttl uses by)"
  unfolding create_enroll_token_def Let_def
  by (rule sound_state, simp add: validate_enroll_token_eq delete_token_def spent_def split: option.splits)
    (intro keeps_intros; simp)

lemma sound_delivery [keeps_intros]:
  "keeps upgrades_sound (ws_send env ws m)"
  "keeps upgrades_sound (send_to_agent env se b msg)"
  "keeps upgrades_sound (deliver_pending env b ws)"
  unfolding send_to_agent_def deliver_pending_def ws_send_def Let_def
  by (auto intro!: keeps_intros)

lemma sound_nuclei [keeps_intros]: "keeps upgrades_sound (trigger_nuclei_upgrade env se ue b ver os arch)"
  unfolding trigger_nuclei_upgrade_def Let_def by (auto intro!: keeps_intros)

lemma sound_decommission [keeps_intros]:
  "keeps upgrades_sound (decommission_host env b)"
  "keeps upgrades_sound (try_revoke env b)"
  unfolding decommission_host_def try_revoke_def by (auto intro!: keeps_intros)

lemma sound_by_ip [keeps_intros]: "keeps upgrades_sound (decommission_host_by_ip env ip)"
proof -
  have "keeps upgrades_sound (decommission_all env xs)" for xs
    by (induction xs) (auto intro!: keeps_intros)
  then show ?thesis unfolding decommission_host_by_ip_def by (auto intro!: keeps_intros)
qed

lemma dispatched_not_confirmed [simp]: "(if b then ''sent'' else ''queued_for_delivery'') \<noteq> ''confirmed''"
  by simp

lemma sound_step: "keeps upgrades_sound (fleet_step env x)"
  by (cases x)
    (auto intro!: keeps_intros split: exn.splits upgrade_answer.splits
      simp: api_enroll_host_def connect_def disconnect_def register_online_def heartbeat_def mark_offline_expired_def
        api_delete_host_def delete_host_permanently_def api_update_host_def update_host_group_def
        api_upgrade_agent_def api_upgrade_status_def drop_revoked_connection_def api_delete_group_def delete_group_def Let_def
        sound_status_def)

text \<open>
  C10: Whatever requests, acknowledgements and heartbeats follow each other, an upgrade whose stored status says
  confirmed has been acknowledged by the agent, and the version the agent reported is the version it was sent.
\<close>

theorem upgrade_confirmed_means_acked:
  assumes "upgrades_sound w" and "map_of (keys (fleet_run xs w)) (upgrade_key a) = Some (PDict d, t)"
    and "dget d ''state'' PNone = PStr ''confirmed''"
  shows "truthy (dget d ''ack_received'' PNone) \<and>
    (\<exists>v. dget d ''current_version'' PNone = PStr v \<and> dget d ''target_version'' PNone = PStr v)"
proof -
  have "upgrades_sound (fleet_run xs w)"
    using assms(1)
  proof (induction xs arbitrary: w)
    case (Cons x xs)
    then show ?case by (cases x) (simp add: keepsD [OF sound_step])
  qed simp
  with assms(2,3) show ?thesis
    by (auto simp: upgrades_sound_def sound_status_def)
qed


definition toy_package :: upgrade_env where
  "toy_package = \<lparr>ue_binary_dir = ''/srv/agent'', ue_version_file = Some ''2.0'', ue_default_version = [],
     ue_file = (\<lambda>p. Some ''elf''), ue_sha256 = (\<lambda>s. s), ue_external_url = ''https://c'', ue_nuclei_base = []\<rparr>"

definition upgrade_story :: "(fleet_env \<times> fleet_op) list" where
  "upgrade_story = [(toy_env, Upgrade toy_sign toy_package ''agent-1'' None),
     (toy_env, Ack toy_rt ''agent-1'' [(''kind'', PStr ''agent''), (''version'', PStr ''2.0''), (''ok'', PBool True)]),
     (toy_env, Beat [] ''agent-1'' (plain_beat\<lparr>hb_version := Some ''2.0''\<rparr>))]"

definition story_status :: pydict where
  "story_status = status_of toy_env ''agent-1'' (fleet_run upgrade_story one_host)"

lemma upgrade_confirmed_means_acked_witness:
  "dget story_status ''state'' PNone = PStr ''confirmed'' \<and> truthy (dget story_status ''ack_received'' PNone) \<and>
   (\<exists>v. dget story_status ''current_version'' PNone = PStr v \<and> dget story_status ''target_version'' PNone = PStr v)"
proof -
  have m: "map_of (keys (fleet_run upgrade_story one_host)) (upgrade_key ''agent-1'') = Some (PDict story_status, Some 87400)"
    by code_simp
  have s: "dget story_status ''state'' PNone = PStr ''confirmed''" by code_simp
  have "upgrades_sound one_host" by (simp add: upgrades_sound_def one_host_def toy_fleet_def)
  from upgrade_confirmed_means_acked [OF this m s] s show ?thesis by simp
qed

end
