(* ===== verification/Scans.thy ===== *)
theory Scans
  imports Hosts
begin

text \<open>
  What a vulnerability scan works on: the scan tasks, results, findings and reports of the search service (the
  rest of \<open>src/agents/store.py\<close>, with the types of \<open>src/agents/models.py\<close>), the cancellation marks and the
  queue of failed analyses in the key-value server (\<open>src/scan_engine/llm_analysis.py\<close>). During a pause other
  processes act: \<open>others\<close> is any function on the world, it may also take a server down or bring it back. A
  write is visible to the reads that follow it.
\<close>

section \<open>Documents\<close>

datatype vuln_status = Open | Fixed | Accepted
datatype engine = Matcher | Nuclei_Engine | Global
datatype task_status =
    T_Queued | T_Dispatching | T_Scanning | T_Analyzing | T_Cancelling | T_Cancelled | T_Completed | T_Failed

record vuln =
  v_id :: string
  v_task :: string
  v_agent :: string
  v_host :: string
  v_category :: scan_module
  v_cve :: "string option"
  v_name :: string
  v_severity :: finding_severity
  v_ai_severity :: "string option"
  v_ai_filtered :: bool
  v_evidence :: string
  v_fix :: "string option"
  v_status :: vuln_status
  v_detected :: string
  v_history :: "string list"
  v_last_seen :: "string option"
  v_ai_processed :: bool
  v_ai_reason :: "string option"
  v_ai_at :: "string option"
  v_first_fixed :: "string option"
  v_last_fixed :: "string option"

text \<open>A finding as an agent reports it, with the defaults of the other fields.\<close>

definition vuln_of :: "agent_finding \<Rightarrow> vuln" where
  "vuln_of f = \<lparr>v_id = vf_id f, v_task = vf_task f, v_agent = vf_agent f, v_host = vf_host f,
     v_category = vf_category f, v_cve = vf_cve f, v_name = vf_name f, v_severity = vf_severity f,
     v_ai_severity = None, v_ai_filtered = False, v_evidence = vf_evidence f, v_fix = vf_fix f, v_status = Open,
     v_detected = vf_detected f, v_history = [], v_last_seen = None, v_ai_processed = False, v_ai_reason = None,
     v_ai_at = None, v_first_fixed = None, v_last_fixed = None\<rparr>"

record scan_policy =
  sp_modules :: "scan_module list"
  sp_limit :: pydict
  sp_timeout :: int

record task_stats =
  st_total :: int
  st_done :: int
  st_failed :: int

record scan_task =
  t_id :: string
  t_source :: string
  t_intent :: "string option"
  t_targets :: "string list"
  t_groups :: "string list"
  t_policy :: scan_policy
  t_rules :: string
  t_engine :: engine
  t_nuclei_severity :: "string list"
  t_nuclei_tags :: "string list"
  t_nuclei_templates :: "string list"
  t_nuclei_timeout :: int
  t_nuclei_ports :: "int list"
  t_status :: task_status
  t_stats :: task_stats
  t_created :: string
  t_finished :: "string option"
  t_error :: "string option"

record top_vuln =
  tv_id :: string
  tv_host :: string
  tv_name :: string
  tv_cve :: "string option"
  tv_severity :: finding_severity
  tv_ai_severity :: "string option"
  tv_category :: scan_module
  tv_fix :: "string option"

record scan_report =
  r_task :: string
  r_summary :: string
  r_analysis :: string
  r_by_severity :: "(string \<times> nat) list"
  r_by_category :: "(string \<times> nat) list"
  r_total :: nat
  r_filtered :: nat
  r_top :: "top_vuln list"
  r_recommendations :: "string list"
  r_generated :: string
  r_ai_processed :: bool
  r_ai_model :: string
  r_advice :: string
  r_ai_at :: "string option"

section \<open>The world\<close>

datatype analysis_outcome = All_Failed | Some_Failed

record scan_world =
  sw_fleet :: fleet
  sw_now :: int
  sw_es :: bool
  sw_redis :: bool
  sw_tasks :: "(string \<times> scan_task) list"
  sw_results :: "scan_result list"
  sw_vulns :: "(string \<times> vuln) list"
  sw_reports :: "(string \<times> scan_report) list"
  sw_cancelled :: "string list"
  sw_collect :: "(string \<times> int \<times> int \<times> int option) list"
  sw_retry :: "(string \<times> (string \<times> int) list) list"
  sw_outcome :: "(string \<times> analysis_outcome \<times> nat \<times> nat) list"
  sw_usage :: "(string \<times> string) list"
  sw_progress :: "(string \<times> string \<times> string \<times> string) list"
  sw_audit :: "(string \<times> string) list"

text \<open>
  \<open>sc_instant\<close> is what the search service makes of a date, \<open>sc_fromiso\<close> what the interpreter makes of it (with or
  without an offset); \<open>sc_analyse\<close> and \<open>sc_chat\<close> are the model service, which may answer differently at each
  attempt.
\<close>

record analysed =
  an_id :: string
  an_severity :: string
  an_filtered :: bool
  an_reason :: string
  an_fix :: string

record scan_env =
  sc_fleet :: fleet_env
  sc_sign :: sign_env
  sc_rt :: pyrt
  sc_exn_str :: "exn \<Rightarrow> string"
  sc_others :: "scan_world \<Rightarrow> scan_world"
  sc_instant :: "string \<Rightarrow> int"
  sc_fromiso :: "string \<Rightarrow> (bool \<times> int) option"
  sc_merge :: bool
  sc_adapter :: bool
  sc_model :: string
  sc_analyse :: "nat \<Rightarrow> int \<Rightarrow> pyval \<Rightarrow> analysed list res"
  sc_chat :: "string \<Rightarrow> nat \<Rightarrow> int \<Rightarrow> pyval res"
  sc_retries :: nat
  sc_backoff :: nat
  sc_max_attempts :: int

type_synonym 'a sio = "(scan_world, 'a) io"

definition now_iso :: "scan_env \<Rightarrow> string sio" where
  "now_iso env = io_gets (\<lambda>w. fe_iso (sc_fleet env) (sw_now w))"

text \<open>\<open>asyncio.sleep\<close>: the others act, and at least that much time passes.\<close>

definition pause :: "scan_env \<Rightarrow> int \<Rightarrow> unit sio" where
  "pause env n = io_modify (\<lambda>w. let w' = sc_others env w in w'\<lparr>sw_now := max (sw_now w + n) (sw_now w')\<rparr>)"

text \<open>An operation on the hosts or the gateway, with the servers as they are now.\<close>

definition on_fleet :: "scan_env \<Rightarrow> (fleet_env \<Rightarrow> 'a fio) \<Rightarrow> 'a sio" where
  "on_fleet env m = (\<lambda>w.
     case m ((sc_fleet env)\<lparr>fe_now := sw_now w, fe_es_up := sw_es w, fe_redis_up := sw_redis w\<rparr>) (sw_fleet w) of
       (r, f) \<Rightarrow> (r, w\<lparr>sw_fleet := f\<rparr>))"

definition es_do :: "'a sio \<Rightarrow> 'a sio" where
  "es_do m = (\<lambda>w. if sw_es w then m w else (Raise (ExtError ''elasticsearch''), w))"

definition redis_do :: "'a sio \<Rightarrow> 'a sio" where
  "redis_do m = (\<lambda>w. if sw_redis w then m w else (Raise (ExtError ''redis''), w))"

definition quietly :: "unit sio \<Rightarrow> unit sio" where
  "quietly m = io_try m (\<lambda>e. io_return ())"

definition audit_event :: "scan_env \<Rightarrow> string \<Rightarrow> string \<Rightarrow> unit sio" where
  "audit_event env event action = quietly (es_do (io_modify (\<lambda>w. w\<lparr>sw_audit := sw_audit w @ [(event, action)]\<rparr>)))"

section \<open>Tasks and results\<close>

definition save_task :: "scan_task \<Rightarrow> unit sio" where
  "save_task t = es_do (io_modify (\<lambda>w. w\<lparr>sw_tasks := AList.update (t_id t) t (sw_tasks w)\<rparr>))"

definition get_task :: "string \<Rightarrow> scan_task option sio" where
  "get_task task = es_do (io_gets (\<lambda>w. map_of (sw_tasks w) task))"

text \<open>A partial update; the service refuses one for a document it does not have.\<close>

definition update_task :: "string \<Rightarrow> (scan_task \<Rightarrow> scan_task) \<Rightarrow> unit sio" where
  "update_task task f = es_do (\<lambda>w. case map_of (sw_tasks w) task of
     None \<Rightarrow> (Raise (ExtError ''NotFoundError''), w)
   | Some t \<Rightarrow> (Ok (), w\<lparr>sw_tasks := AList.update task (f t) (sw_tasks w)\<rparr>))"

definition list_tasks :: "scan_env \<Rightarrow> task_status option \<Rightarrow> nat \<Rightarrow> nat \<Rightarrow> scan_task list sio" where
  "list_tasks env status limit offset = es_do (io_gets (\<lambda>w.
     take limit (drop offset (sort_key (\<lambda>t. - sc_instant env (t_created t))
       (filter (\<lambda>t. case status of None \<Rightarrow> True | Some s \<Rightarrow> t_status t = s) (map snd (sw_tasks w)))))))"

definition count_tasks :: "task_status option \<Rightarrow> nat sio" where
  "count_tasks status = es_do (io_gets (\<lambda>w.
     length (filter (\<lambda>t. case status of None \<Rightarrow> True | Some s \<Rightarrow> t_status t = s) (map snd (sw_tasks w)))))"

definition delete_task :: "string \<Rightarrow> unit sio" where
  "delete_task task = quietly (es_do (io_modify (\<lambda>w. w\<lparr>
     sw_vulns := filter (\<lambda>(i, v). v_task v \<noteq> task) (sw_vulns w),
     sw_results := filter (\<lambda>r. sr_task r \<noteq> task) (sw_results w),
     sw_reports := AList.delete task (sw_reports w),
     sw_tasks := AList.delete task (sw_tasks w)\<rparr>)))"

definition save_result :: "scan_result \<Rightarrow> unit sio" where
  "save_result r = es_do (io_modify (\<lambda>w. w\<lparr>sw_results := sw_results w @ [r]\<rparr>))"

definition list_results :: "scan_env \<Rightarrow> string \<Rightarrow> string option \<Rightarrow> scan_result list sio" where
  "list_results env task agent = es_do (io_gets (\<lambda>w.
     take 10000 (sort_key (\<lambda>r. sc_instant env (sr_ts r))
       (filter (\<lambda>r. sr_task r = task \<and> (case agent of Some (c # cs) \<Rightarrow> sr_agent r = c # cs | _ \<Rightarrow> True))
         (sw_results w)))))"

definition save_report :: "scan_report \<Rightarrow> unit sio" where
  "save_report r = es_do (io_modify (\<lambda>w. w\<lparr>sw_reports := AList.update (r_task r) r (sw_reports w)\<rparr>))"

definition get_report :: "string \<Rightarrow> scan_report option sio" where
  "get_report task = es_do (io_gets (\<lambda>w. map_of (sw_reports w) task))"

section \<open>Findings\<close>

definition get_vuln :: "string \<Rightarrow> vuln option sio" where
  "get_vuln fid = io_try (es_do (io_gets (\<lambda>w. map_of (sw_vulns w) fid))) (\<lambda>e. io_return None)"

definition update_vuln :: "string \<Rightarrow> (vuln \<Rightarrow> vuln) \<Rightarrow> unit sio" where
  "update_vuln fid f = es_do (\<lambda>w. case map_of (sw_vulns w) fid of
     None \<Rightarrow> (Raise (ExtError ''NotFoundError''), w)
   | Some v \<Rightarrow> (Ok (), w\<lparr>sw_vulns := AList.update fid (f v) (sw_vulns w)\<rparr>))"

definition index_vulns :: "vuln list \<Rightarrow> (string \<times> vuln) list \<Rightarrow> (string \<times> vuln) list" where
  "index_vulns vs docs = fold (\<lambda>v. AList.update (v_id v) v) vs docs"

definition save_vulns :: "scan_env \<Rightarrow> vuln list \<Rightarrow> unit sio" where
  "save_vulns env findings =
     io_bind (now_iso env) (\<lambda>now.
     let docs = map (\<lambda>v. if v_detected v = [] then v\<lparr>v_detected := now\<rparr> else v) findings in
     if docs = [] then io_return ()
     else es_do (io_modify (\<lambda>w. w\<lparr>sw_vulns := index_vulns docs (sw_vulns w)\<rparr>)))"

text \<open>A bulk request: an update or a deletion of a document that is not there is an error of that action.\<close>

datatype bulk_action =
    Bulk_Update string "vuln \<Rightarrow> vuln"
  | Bulk_Index string vuln
  | Bulk_Delete string

fun bulk_one :: "bulk_action \<Rightarrow> (string \<times> vuln) list \<Rightarrow> bool \<times> (string \<times> vuln) list" where
  "bulk_one (Bulk_Update i f) docs =
     (case map_of docs i of None \<Rightarrow> (False, docs) | Some v \<Rightarrow> (True, AList.update i (f v) docs))"
| "bulk_one (Bulk_Index i v) docs = (True, AList.update i v docs)"
| "bulk_one (Bulk_Delete i) docs = (case map_of docs i of None \<Rightarrow> (False, docs) | Some v \<Rightarrow> (True, AList.delete i docs))"

fun bulk_chunk :: "bulk_action list \<Rightarrow> bool \<times> (string \<times> vuln) list \<Rightarrow> bool \<times> (string \<times> vuln) list" where
  "bulk_chunk [] acc = acc"
| "bulk_chunk (x # xs) (ok, docs) = (case bulk_one x docs of (b, docs') \<Rightarrow> bulk_chunk xs (ok \<and> b, docs'))"

text \<open>The requests of 2000 actions each; the first that has an error is the last that is made.\<close>

function bulk_chunks :: "bulk_action list \<Rightarrow> (string \<times> vuln) list \<Rightarrow> bool \<times> (string \<times> vuln) list" where
  "bulk_chunks xs docs =
     (if xs = [] then (True, docs)
      else case bulk_chunk (take 2000 xs) (True, docs) of
        (ok, docs') \<Rightarrow> if ok then bulk_chunks (drop 2000 xs) docs' else (False, docs'))"
  by pat_completeness auto
termination by (relation "measure (\<lambda>(xs, docs). length xs)") auto

declare bulk_chunks.simps [simp del]

definition async_bulk :: "bulk_action list \<Rightarrow> unit sio" where
  "async_bulk actions = es_do (\<lambda>w. case bulk_chunks actions (sw_vulns w) of
     (ok, docs) \<Rightarrow> (if ok then Ok () else Raise (ExtError ''BulkIndexError''), w\<lparr>sw_vulns := docs\<rparr>))"

fun bulk_attempts :: "nat \<Rightarrow> bulk_action list \<Rightarrow> exn \<Rightarrow> unit sio" where
  "bulk_attempts 0 actions last_exc = io_raise last_exc"
| "bulk_attempts (Suc n) actions last_exc =
     (\<lambda>w. case async_bulk actions w of
        (Inl e, w') \<Rightarrow> if is_Exception e then bulk_attempts n actions e w' else (Inl e, w')
      | (Inr u, w') \<Rightarrow> (Inr u, w'))"

definition bulk_update_vulns :: "bulk_action list \<Rightarrow> unit sio" where
  "bulk_update_vulns actions = (if actions = [] then io_return () else bulk_attempts 3 actions ValueError)"


section \<open>Searching findings\<close>

record vuln_filter =
  f_task :: "string option"
  f_host :: "string option"
  f_hosts :: "string list option"
  f_agents :: "string list option"
  f_agent :: "string option"
  f_severity :: "string option"
  f_status :: "string option"
  f_cve :: "string option"
  f_cve_keyword :: "string option"
  f_host_keyword :: "string option"
  f_name_keyword :: "string option"
  f_ai_processed :: "bool option"
  f_from :: "string option"
  f_to :: "string option"
  f_limit :: nat
  f_offset :: nat

definition no_filter :: vuln_filter where
  "no_filter = \<lparr>f_task = None, f_host = None, f_hosts = None, f_agents = None, f_agent = None, f_severity = None,
     f_status = None, f_cve = None, f_cve_keyword = None, f_host_keyword = None, f_name_keyword = None,
     f_ai_processed = None, f_from = None, f_to = None, f_limit = 200, f_offset = 0\<rparr>"

fun severity_text :: "finding_severity \<Rightarrow> string" where
  "severity_text FCritical = ''critical''"
| "severity_text FHigh = ''high''"
| "severity_text FMedium = ''medium''"
| "severity_text FLow = ''low''"
| "severity_text FInfo = ''info''"

fun status_text :: "vuln_status \<Rightarrow> string" where
  "status_text Open = ''open''"
| "status_text Fixed = ''fixed''"
| "status_text Accepted = ''accepted''"

text \<open>An absent or empty value filters nothing.\<close>

definition wants :: "string option \<Rightarrow> (string \<Rightarrow> bool) \<Rightarrow> bool" where
  "wants flt p = (case flt of Some (c # cs) \<Rightarrow> p (c # cs) | _ \<Rightarrow> True)"

definition wants_any :: "string list option \<Rightarrow> string \<Rightarrow> bool" where
  "wants_any flt x = (case flt of Some (c # cs) \<Rightarrow> x \<in> set (c # cs) | _ \<Rightarrow> True)"

text \<open>A keyword matches as a part of the text, in any case; its wildcard characters are escaped.\<close>

definition has_keyword :: "string \<Rightarrow> string \<Rightarrow> bool" where
  "has_keyword kw s = str_in (py_lower kw) (py_lower s)"

definition vuln_matches :: "scan_env \<Rightarrow> vuln_filter \<Rightarrow> vuln \<Rightarrow> bool" where
  "vuln_matches env f v \<longleftrightarrow>
     wants (f_task f) (\<lambda>t. v_task v = t \<or> v_last_seen v = Some t) \<and>
     wants (f_host f) (\<lambda>h. v_host v = h) \<and> wants_any (f_hosts f) (v_host v) \<and>
     wants_any (f_agents f) (v_agent v) \<and> wants (f_agent f) (\<lambda>a. v_agent v = a) \<and>
     wants (f_severity f) (\<lambda>s. severity_text (v_severity v) = s) \<and>
     wants (f_status f) (\<lambda>s. status_text (v_status v) = s) \<and>
     wants (f_cve f) (\<lambda>c. v_cve v = Some c) \<and>
     wants (f_cve_keyword f) (\<lambda>k. case v_cve v of Some c \<Rightarrow> has_keyword k c | None \<Rightarrow> False) \<and>
     wants (f_host_keyword f) (\<lambda>k. has_keyword k (v_host v)) \<and>
     wants (f_name_keyword f) (\<lambda>k. has_keyword k (v_name v)) \<and>
     (case f_ai_processed f of Some b \<Rightarrow> v_ai_processed v = b | None \<Rightarrow> True) \<and>
     wants (f_from f) (\<lambda>t. sc_instant env t \<le> sc_instant env (v_detected v)) \<and>
     wants (f_to f) (\<lambda>t. sc_instant env (v_detected v) \<le> sc_instant env t)"

definition overlong :: "string option \<Rightarrow> bool" where
  "overlong kw = (case kw of Some s \<Rightarrow> length s > 200 | None \<Rightarrow> False)"

text \<open>The sort keys of the last hit: by time alone, or by time and identifier.\<close>

datatype cursor = By_Time int | By_Time_And_Id int string

definition es_order :: "scan_env \<Rightarrow> string \<times> vuln \<Rightarrow> int" where
  "es_order env d = - sc_instant env (v_detected (snd d))"

definition last_cursor :: "scan_env \<Rightarrow> bool \<Rightarrow> (string \<times> vuln) list \<Rightarrow> cursor option" where
  "last_cursor env with_id hits =
     (if hits = [] then None
      else Some (if with_id then By_Time_And_Id (- es_order env (last hits)) (fst (last hits))
                 else By_Time (- es_order env (last hits))))"

text \<open>
  One page. The service refuses a window beyond 10000, and a cursor that does not have one value for every
  sort key of the request.
\<close>

definition list_vulns_page :: "scan_env \<Rightarrow> vuln_filter \<Rightarrow> cursor option \<Rightarrow> (vuln list \<times> cursor option) sio" where
  "list_vulns_page env f after =
     io_bind (io_guard (\<not> overlong (f_cve_keyword f) \<and> \<not> overlong (f_host_keyword f) \<and> \<not> overlong (f_name_keyword f))
        ValueError) (\<lambda>_.
     es_do (\<lambda>w. let docs = filter (\<lambda>(i, v). vuln_matches env f v) (sw_vulns w) in
       case after of
         None \<Rightarrow>
           if f_offset f + f_limit f > 10000 then (Raise (ExtError ''result window is too large''), w)
           else let hits = take (f_limit f) (drop (f_offset f) (sort_key (es_order env) docs))
                in (Ok (map snd hits, last_cursor env False hits), w)
       | Some (By_Time t) \<Rightarrow> (Raise (ExtError ''search_after has 1 value(s) but sort has 2.''), w)
       | Some (By_Time_And_Id t i) \<Rightarrow>
           let hits = take (f_limit f) (filter (\<lambda>d. (- t, i) < (es_order env d, fst d))
                 (sort_key (\<lambda>d. (es_order env d, fst d)) docs))
           in (Ok (map snd hits, last_cursor env True hits), w)))"

definition list_vulns :: "scan_env \<Rightarrow> vuln_filter \<Rightarrow> vuln list sio" where
  "list_vulns env f = io_bind (list_vulns_page env f None) (\<lambda>p. io_return (fst p))"

text \<open>
  All findings, page after page. Every page after the first starts behind the last one, so a number of rounds
  equal to the number of documents and two is enough.
\<close>

fun list_vulns_rounds :: "nat \<Rightarrow> scan_env \<Rightarrow> vuln_filter \<Rightarrow> cursor option \<Rightarrow> vuln list \<Rightarrow> vuln list sio" where
  "list_vulns_rounds 0 env f after out = io_return out"
| "list_vulns_rounds (Suc n) env f after out =
     io_bind (list_vulns_page env (f\<lparr>f_offset := 0\<rparr>) after) (\<lambda>(page, cur).
     if page = [] then io_return out
     else if length page < f_limit f then io_return (out @ page)
     else list_vulns_rounds n env f cur (out @ page))"

definition list_vulns_all :: "scan_env \<Rightarrow> vuln_filter \<Rightarrow> vuln list sio" where
  "list_vulns_all env f = (\<lambda>w. list_vulns_rounds (length (sw_vulns w) + 2) env f None [] w)"

record host_bucket =
  hbk_agent :: string
  hbk_total :: nat
  hbk_severity :: "(string \<times> nat) list"
  hbk_status :: "(string \<times> nat) list"
  hbk_last :: string

definition tally :: "('a \<Rightarrow> string) \<Rightarrow> 'a list \<Rightarrow> (string \<times> nat) list" where
  "tally f xs = map (\<lambda>k. (k, length (filter (\<lambda>x. f x = k) xs))) (dedup_first (map f xs))"

text \<open>
  The terms aggregation by agent, the largest buckets first; \<open>fmt\<close> turns an instant into text.
\<close>

definition host_vuln_summary_buckets ::
    "scan_env \<Rightarrow> (int \<Rightarrow> string) \<Rightarrow> string list option \<Rightarrow> string option \<Rightarrow> string option \<Rightarrow> string option \<Rightarrow> nat \<Rightarrow>
     host_bucket list sio" where
  "host_vuln_summary_buckets env fmt agents host_keyword severity status host_limit =
     io_bind (io_guard (\<not> (wants host_keyword (\<lambda>k. True) \<and> overlong host_keyword)) ValueError) (\<lambda>_.
     es_do (io_gets (\<lambda>w.
       let vs = filter (\<lambda>v. wants severity (\<lambda>s. severity_text (v_severity v) = s) \<and>
             wants status (\<lambda>s. status_text (v_status v) = s) \<and> wants host_keyword (\<lambda>k. has_keyword k (v_host v)) \<and>
             wants_any agents (v_agent v)) (map snd (sw_vulns w))
       in map (\<lambda>(a, n). let own = filter (\<lambda>v. v_agent v = a) vs in
            \<lparr>hbk_agent = a, hbk_total = n, hbk_severity = tally (severity_text \<circ> v_severity) own,
             hbk_status = tally (status_text \<circ> v_status) own,
             hbk_last = fmt (Max (set (map (sc_instant env \<circ> v_detected) own)))\<rparr>)
          (take host_limit (sort_key (\<lambda>(a, n). - int n) (tally v_agent vs))))))"

section \<open>Cancellation and progress\<close>

text \<open>A check that fails counts as cancelled; a second look a second later must agree.\<close>

definition is_task_cancelled :: "string \<Rightarrow> bool sio" where
  "is_task_cancelled task =
     io_try (redis_do (io_gets (\<lambda>w. task \<in> set (sw_cancelled w)))) (\<lambda>e. io_return True)"

definition confirm_cancellation :: "scan_env \<Rightarrow> string \<Rightarrow> bool sio" where
  "confirm_cancellation env task =
     io_bind (is_task_cancelled task) (\<lambda>first.
     if \<not> first then io_return False
     else io_bind (pause env 1) (\<lambda>_.
          io_bind (is_task_cancelled task) (\<lambda>second.
          if second then io_return True
          else io_bind (audit_event env task ''cancellation_check_degraded'') (\<lambda>_. io_return False))))"

definition pub_progress :: "string \<Rightarrow> string \<Rightarrow> string \<Rightarrow> string \<Rightarrow> unit sio" where
  "pub_progress task step status message =
     quietly (redis_do (io_modify (\<lambda>w. w\<lparr>sw_progress := sw_progress w @ [(task, step, status, message)]\<rparr>)))"

section \<open>The queue of failed analyses\<close>

definition record_usage :: "string \<Rightarrow> string \<Rightarrow> unit sio" where
  "record_usage kind status =
     quietly (redis_do (io_modify (\<lambda>w. w\<lparr>sw_usage := sw_usage w @ [(kind, status)]\<rparr>)))"

definition hash_of :: "string \<Rightarrow> (string \<times> 'a list) list \<Rightarrow> 'a list" where
  "hash_of k hs = (case map_of hs k of Some h \<Rightarrow> h | None \<Rightarrow> [])"

definition hincr :: "string \<Rightarrow> (string \<times> int) list \<Rightarrow> (string \<times> int) list" where
  "hincr fid h = AList.update fid ((case map_of h fid of Some n \<Rightarrow> n | None \<Rightarrow> 0) + 1) h"

definition enqueue_retry_batch :: "string \<Rightarrow> string list \<Rightarrow> unit sio" where
  "enqueue_retry_batch task fids =
     (if fids = [] then io_return ()
      else quietly (redis_do (io_modify (\<lambda>w. w\<lparr>sw_retry :=
        AList.update task (fold hincr fids (hash_of task (sw_retry w))) (sw_retry w)\<rparr>))))"

definition list_retry_tasks :: "nat \<Rightarrow> (string \<times> (string \<times> int) list) list sio" where
  "list_retry_tasks limit =
     io_try (redis_do (io_gets (\<lambda>w. map (\<lambda>(task, h). (task, sort_key (\<lambda>e. - snd e) h))
       (take limit (sort_key fst (filter (\<lambda>(task, h). h \<noteq> []) (sw_retry w)))))))
     (\<lambda>e. io_return [])"

definition remove_retry_batch :: "string \<Rightarrow> string list \<Rightarrow> unit sio" where
  "remove_retry_batch task fids =
     (if fids = [] then io_return ()
      else quietly (redis_do (io_modify (\<lambda>w.
        let h = filter (\<lambda>(i, _). i \<notin> set fids) (hash_of task (sw_retry w)) in
        w\<lparr>sw_retry := if h = [] then AList.delete task (sw_retry w) else AList.update task h (sw_retry w)\<rparr>))))"

definition mark_analysis_outcome :: "string \<Rightarrow> nat \<Rightarrow> nat \<Rightarrow> unit sio" where
  "mark_analysis_outcome task tot succeeded =
     quietly (redis_do (io_modify (\<lambda>w.
       if succeeded = 0 then w\<lparr>sw_outcome := AList.update task (All_Failed, succeeded, tot) (sw_outcome w)\<rparr>
       else if succeeded < tot then w\<lparr>sw_outcome := AList.update task (Some_Failed, succeeded, tot) (sw_outcome w)\<rparr>
       else w)))"

definition is_timeout :: "exn \<Rightarrow> bool" where
  "is_timeout e = (case e of
      TimeoutError \<Rightarrow> True
    | RuntimeError s \<Rightarrow> str_in ''timeout'' (py_lower s) \<or> str_in ''deadline'' (py_lower s)
    | ExtError s \<Rightarrow> str_in ''timeout'' (py_lower s) \<or> str_in ''deadline'' (py_lower s)
    | _ \<Rightarrow> False)"

text \<open>
  A call with its immediate repetitions: \<open>call\<close> is given the number of the attempt. What fails for good is queued
  and raised.
\<close>

fun chat_attempts :: "nat \<Rightarrow> nat \<Rightarrow> exn \<Rightarrow> scan_env \<Rightarrow> string \<Rightarrow> (nat \<Rightarrow> 'a sio) \<Rightarrow> 'a sio" where
  "chat_attempts 0 attempt last_exc env kind call = io_raise last_exc"
| "chat_attempts (Suc n) attempt last_exc env kind call =
     (\<lambda>w. case call attempt w of
        (Inr x, w') \<Rightarrow> io_bind (record_usage kind ''success'') (\<lambda>_.
            io_bind (if attempt > 0 then record_usage kind ''retry'' else io_return ()) (\<lambda>_. io_return x)) w'
      | (Inl e, w') \<Rightarrow>
          if is_Exception e then
            io_bind (record_usage kind (if is_timeout e then ''timeout'' else ''failed'')) (\<lambda>_.
            io_bind (if n > 0 then pause env (int (sc_backoff env * 2 ^ attempt)) else io_return ()) (\<lambda>_.
            chat_attempts n (Suc attempt) e env kind call)) w'
          else (Inl e, w'))"

definition chat_with_retry ::
    "scan_env \<Rightarrow> string \<Rightarrow> string option \<Rightarrow> string list \<Rightarrow> (nat \<Rightarrow> 'a sio) \<Rightarrow> 'a sio" where
  "chat_with_retry env kind task fids call =
     io_try (chat_attempts (Suc (sc_retries env)) 0 ValueError env kind call)
       (\<lambda>e. io_bind (case task of Some (c # cs) \<Rightarrow> enqueue_retry_batch (c # cs) fids | _ \<Rightarrow> io_return ())
          (\<lambda>_. io_raise e))"

end
