(* ===== verification/ScanNodes.thy ===== *)
theory ScanNodes
  imports Scans
begin

text \<open>
  The nodes of a vulnerability scan (\<open>src/orchestration/subgraphs/vulnscan/nodes.py\<close>, \<open>graph.py\<close> and
  \<open>rescan.py\<close>): parsing the intent, dispatching the command to the agents, collecting their results, reconciling
  them with the known findings, the analysis by the model service and the report.
\<close>

section \<open>The state of a scan\<close>

record scan_state =
  s_task_id :: string
  s_source :: string
  s_intent :: "string option"
  s_targets :: "string list"
  s_modules :: "string list"
  s_engine :: string
  s_nuclei_severity :: "string list"
  s_nuclei_tags :: "string list"
  s_nuclei_templates :: "string list"
  s_nuclei_timeout :: int
  s_nuclei_ports :: "int list"
  s_limit :: pydict
  s_groups :: "string list"
  s_task :: "scan_task option"
  s_dispatched :: bool
  s_total :: nat
  s_received :: nat
  s_findings :: "vuln list"
  s_report :: "scan_report option"
  s_error :: "string option"
  s_status :: string
  s_ai_processed :: bool

record scan_request =
  q_source :: string
  q_intent :: "string option"
  q_targets :: "string list"
  q_modules :: "string list"
  q_task_id :: string
  q_engine :: string
  q_nuclei_severity :: "string list"
  q_nuclei_tags :: "string list"
  q_nuclei_templates :: "string list"
  q_nuclei_timeout :: int
  q_groups :: "string list"
  q_nuclei_ports :: "int list"

definition default_limit :: pydict where
  "default_limit = [(''cpu_percent'', PInt 30), (''mem_percent'', PInt 30)]"

text \<open>\<open>fresh\<close> is the random identifier of a scan that was given none.\<close>

definition default_state :: "string \<Rightarrow> scan_request \<Rightarrow> scan_state" where
  "default_state fresh q = \<lparr>s_task_id = (if q_task_id q = [] then fresh else q_task_id q), s_source = q_source q,
     s_intent = q_intent q, s_targets = q_targets q,
     s_modules = (if q_modules q = [] then [''sys_vuln'', ''baseline''] else q_modules q), s_engine = q_engine q,
     s_nuclei_severity = q_nuclei_severity q, s_nuclei_tags = q_nuclei_tags q,
     s_nuclei_templates = q_nuclei_templates q, s_nuclei_timeout = q_nuclei_timeout q,
     s_nuclei_ports = q_nuclei_ports q, s_limit = default_limit, s_groups = q_groups q, s_task = None,
     s_dispatched = False, s_total = 0, s_received = 0, s_findings = [], s_report = None, s_error = None,
     s_status = ''queued'', s_ai_processed = False\<rparr>"

text \<open>The answer of the model service to an intent.\<close>

record intent =
  i_targets :: "string list"
  i_modules :: "string list"
  i_limit :: pydict

definition parse_intent :: "scan_env \<Rightarrow> (string \<Rightarrow> intent sio) \<Rightarrow> scan_state \<Rightarrow> scan_state sio" where
  "parse_intent env ask s =
     (if s_source s = ''manual'' then io_return (s\<lparr>s_status := ''dispatching''\<rparr>)
      else if s_targets s \<noteq> [] then io_return (s\<lparr>s_status := ''dispatching''\<rparr>)
      else case s_intent s of
        Some (c # cs) \<Rightarrow>
          io_try (io_bind (ask (c # cs)) (\<lambda>r. io_return (s\<lparr>s_targets := i_targets r, s_modules := i_modules r,
              s_limit := i_limit r, s_status := ''dispatching''\<rparr>)))
            (\<lambda>e. io_return (s\<lparr>s_error := Some (''Intent parsing failed: '' @ sc_exn_str env e), s_status := ''failed''\<rparr>))
      | _ \<Rightarrow> io_return (s\<lparr>s_error := Some ''No intent text provided for dialog source'', s_status := ''failed''\<rparr>))"

section \<open>Targets\<close>

definition names_host :: "string \<Rightarrow> host_row \<Rightarrow> bool" where
  "names_host t h \<longleftrightarrow> h_id h = t \<or> h_name h = t \<or> h_ip h = t"

definition add_agent :: "string \<Rightarrow> string list \<Rightarrow> string list" where
  "add_agent a acc = (if a \<noteq> [] \<and> a \<notin> set acc then acc @ [a] else acc)"

fun resolve_one :: "string \<Rightarrow> host_row list \<Rightarrow> string list \<Rightarrow> string list" where
  "resolve_one t [] acc = acc"
| "resolve_one t (h # hs) acc =
     (if names_host t h then add_agent (h_id h) acc
      else if h_group h = Some t then resolve_one t hs (add_agent (h_id h) acc)
      else resolve_one t hs acc)"

fun resolve_loop :: "string list \<Rightarrow> host_row list \<Rightarrow> string list \<Rightarrow> string list" where
  "resolve_loop [] hs acc = acc"
| "resolve_loop (t # ts) hs acc = resolve_loop ts hs (resolve_one t hs acc)"

definition resolve_targets :: "scan_env \<Rightarrow> string list \<Rightarrow> string list sio" where
  "resolve_targets env targets =
     io_bind (on_fleet env (\<lambda>e. store_list_hosts e (Some Online) None 1000 0 True None)) (\<lambda>hs.
     let resolved = resolve_loop targets hs [] in
     io_return (if resolved = [] then targets else resolved))"

fun nuclei_targets_by_agent :: "scan_env \<Rightarrow> string list \<Rightarrow> (string \<times> string list) list sio" where
  "nuclei_targets_by_agent env [] = io_return []"
| "nuclei_targets_by_agent env (a # as) =
     io_bind (io_try (on_fleet env (\<lambda>e. Fleet.get_host e a)) (\<lambda>e. io_return None)) (\<lambda>h.
     io_bind (nuclei_targets_by_agent env as) (\<lambda>rest.
     io_return ((a, case h of Some r \<Rightarrow> if h_ip r \<noteq> [] then [h_ip r] else [] | None \<Rightarrow> []) # rest)))"

section \<open>Dispatch\<close>

definition module_of :: "string \<Rightarrow> scan_module res" where
  "module_of s = (if s = ''sys_vuln'' then Ok Sys_Vuln else if s = ''baseline'' then Ok Baseline
     else if s = ''nuclei'' then Ok Nuclei else Raise ValueError)"

fun module_text :: "scan_module \<Rightarrow> string" where
  "module_text Sys_Vuln = ''sys_vuln''"
| "module_text Baseline = ''baseline''"
| "module_text Nuclei = ''nuclei''"

definition engine_of :: "string \<Rightarrow> engine res" where
  "engine_of s = (if s = ''matcher'' then Ok Matcher else if s = ''nuclei'' then Ok Nuclei_Engine
     else if s = ''global'' then Ok Global else Raise ValueError)"

fun engine_text :: "engine \<Rightarrow> string" where
  "engine_text Matcher = ''matcher''"
| "engine_text Nuclei_Engine = ''nuclei''"
| "engine_text Global = ''global''"

definition make_task :: "string \<Rightarrow> scan_state \<Rightarrow> string list \<Rightarrow> scan_task res" where
  "make_task now s agents =
     rbind (mapM module_of (s_modules s)) (\<lambda>ms.
     rbind (engine_of (s_engine s)) (\<lambda>e.
     if s_source s \<noteq> ''dialog'' \<and> s_source s \<noteq> ''manual'' then Raise ValueError
     else Ok \<lparr>t_id = s_task_id s, t_source = s_source s, t_intent = s_intent s, t_targets = agents, t_groups = s_groups s,
       t_policy = \<lparr>sp_modules = ms, sp_limit = s_limit s, sp_timeout = 1800\<rparr>, t_rules = ''latest'', t_engine = e,
       t_nuclei_severity = s_nuclei_severity s, t_nuclei_tags = s_nuclei_tags s,
       t_nuclei_templates = s_nuclei_templates s, t_nuclei_timeout = s_nuclei_timeout s,
       t_nuclei_ports = s_nuclei_ports s, t_status = T_Dispatching,
       t_stats = \<lparr>st_total = int (length agents), st_done = 0, st_failed = 0\<rparr>, t_created = now,
       t_finished = None, t_error = None\<rparr>))"

definition strs :: "string list \<Rightarrow> pyval" where "strs xs = PList (map PStr xs)"

definition policy_dump :: "scan_policy \<Rightarrow> pyval" where
  "policy_dump p = PDict [(''modules'', PList (map (PStr \<circ> module_text) (sp_modules p))),
     (''resource_limit'', PDict (sp_limit p)), (''time_window'', PNone), (''timeout_sec'', PInt (sp_timeout p))]"

definition scan_cmd :: "string \<Rightarrow> scan_state \<Rightarrow> scan_task \<Rightarrow> string \<Rightarrow> string list \<Rightarrow> pydict" where
  "scan_cmd now s t eng nuclei_targets = [(''v'', PInt 1), (''type'', PStr ''scan_command''), (''ts'', PStr now),
     (''payload'', PDict
       [(''task_id'', PStr (s_task_id s)), (''policy'', policy_dump (t_policy t)), (''rule_version'', PStr ''latest''),
        (''modules'', strs (s_modules s)), (''resource_limit'', PDict (s_limit s)), (''deadline'', PStr []),
        (''engine'', PStr eng), (''nuclei_targets'', strs nuclei_targets),
        (''nuclei_severity'', strs (t_nuclei_severity t)), (''nuclei_tags'', strs (t_nuclei_tags t)),
        (''nuclei_templates'', strs (t_nuclei_templates t)), (''nuclei_timeout_sec'', PInt (t_nuclei_timeout t)),
        (''nuclei_ports'', PList (map PInt (t_nuclei_ports t)))])]"

fun send_nuclei ::
    "scan_env \<Rightarrow> string \<Rightarrow> scan_state \<Rightarrow> scan_task \<Rightarrow> (string \<times> string list) list \<Rightarrow> string list \<Rightarrow> nat \<times> nat \<Rightarrow> (nat \<times> nat) sio" where
  "send_nuclei env now s t targets [] acc = io_return acc"
| "send_nuclei env now s t targets (a # as) acc =
     (let own = (case map_of targets a of Some (x # xs) \<Rightarrow> x # xs | _ \<Rightarrow> s_targets s) in
      io_bind (on_fleet env (\<lambda>e. send_to_agent e (sc_sign env) a (scan_cmd now s t ''nuclei'' own))) (\<lambda>ok.
      send_nuclei env now s t targets as (if ok then (Suc (fst acc), snd acc) else (fst acc, Suc (snd acc)))))"

definition lane_text :: "string \<Rightarrow> nat \<times> nat \<Rightarrow> string list" where
  "lane_text lane c = (if c = (0, 0) then []
     else [lane @ '' '' @ nat_to_str (fst c) @ '' sent/'' @ nat_to_str (snd c) @ '' failed''])"

definition dispatch_message :: "nat \<Rightarrow> nat \<times> nat \<Rightarrow> nat \<times> nat \<Rightarrow> string" where
  "dispatch_message n m k =
     (let summary = join ''; '' (lane_text ''matcher'' m @ lane_text ''nuclei'' k) in
      ''Dispatch to '' @ nat_to_str n @ '' target(s): '' @ (if summary = [] then ''no lanes'' else summary) @ ''; '' @
      nat_to_str (snd m + snd k) @ '' not reachable'')"

text \<open>What is sent: one broadcast, one command for each agent, or both.\<close>

definition send_lanes :: "scan_env \<Rightarrow> scan_state \<Rightarrow> scan_task \<Rightarrow> string list \<Rightarrow> ((nat \<times> nat) \<times> (nat \<times> nat)) sio" where
  "send_lanes env s t agents =
     io_bind (now_iso env) (\<lambda>now.
     io_bind (if t_engine t = Nuclei_Engine then io_return (0, 0)
        else on_fleet env (\<lambda>e. broadcast e (sc_sign env) agents (scan_cmd now s t ''matcher'' (t_targets t)))) (\<lambda>m.
     io_bind (if t_engine t = Matcher then io_return (0, 0)
        else io_bind (nuclei_targets_by_agent env agents) (\<lambda>targets.
             send_nuclei env now s t targets agents (0, 0))) (\<lambda>k.
     io_return (m, k))))"

definition no_targets :: "scan_env \<Rightarrow> scan_state \<Rightarrow> scan_task \<Rightarrow> scan_state sio" where
  "no_targets env s t =
     io_bind (now_iso env) (\<lambda>now.
     io_bind (update_task (s_task_id s) (\<lambda>d. d\<lparr>t_status := T_Failed, t_error := Some ''No target agents found'',
        t_finished := Some now\<rparr>)) (\<lambda>_.
     io_bind (pub_progress (s_task_id s) ''dispatch'' ''failed''
        (''No online agent matches any of '' @ py_repr (sc_rt env) (strs (s_targets s)))) (\<lambda>_.
     io_return (s\<lparr>s_error := Some ''No target agents found'', s_status := ''failed'', s_task := Some t, s_total := 0\<rparr>))))"

definition collect_ttl :: "scan_state \<Rightarrow> int" where
  "collect_ttl s = (case s_task s of
      Some t \<Rightarrow> if sp_timeout (t_policy t) \<noteq> 0 then sp_timeout (t_policy t) else 1800
    | None \<Rightarrow> 1800)"

definition track_collect :: "string \<Rightarrow> int \<Rightarrow> int \<Rightarrow> unit sio" where
  "track_collect task n ttl =
     io_bind (redis_do (io_modify (\<lambda>w. w\<lparr>sw_collect := AList.update task (n, 0, None) (sw_collect w)\<rparr>))) (\<lambda>_.
     redis_do (io_modify (\<lambda>w. w\<lparr>sw_collect := AList.update task (n, 0, Some (sw_now w + ttl)) (sw_collect w)\<rparr>)))"

definition dispatch :: "scan_env \<Rightarrow> scan_state \<Rightarrow> scan_state sio" where
  "dispatch env s =
     io_bind (confirm_cancellation env (s_task_id s)) (\<lambda>cancelled.
     if cancelled then io_return (s\<lparr>s_status := ''cancelled'', s_dispatched := False, s_total := 0\<rparr>)
     else
       io_bind (resolve_targets env (s_targets s)) (\<lambda>agents.
       io_bind (now_iso env) (\<lambda>now.
       io_bind (io_lift (make_task now s agents)) (\<lambda>t.
       io_bind (save_task t) (\<lambda>_.
       if agents = [] then no_targets env s t
       else
         io_bind (send_lanes env s t agents) (\<lambda>(m, k).
         io_bind (update_task (s_task_id s) (\<lambda>d. d\<lparr>t_status := T_Scanning,
            t_stats := \<lparr>st_total = int (length agents), st_done = int (fst m + fst k), st_failed = int (snd m + snd k)\<rparr>\<rparr>)) (\<lambda>_.
         io_bind (pub_progress (s_task_id s) ''dispatch'' ''running'' (dispatch_message (length agents) m k)) (\<lambda>_.
         io_bind (track_collect (s_task_id s) (int (length agents)) (collect_ttl s)) (\<lambda>_.
         io_return (s\<lparr>s_task := Some t, s_dispatched := True, s_total := length agents, s_received := fst m + fst k,
            s_status := ''scanning''\<rparr>))))))))))"


section \<open>Collecting\<close>

datatype collected = Still_Waiting | Gathered string nat

text \<open>One round of the loop: what it decides, or that it goes on waiting.\<close>

definition finals :: "scan_result list \<Rightarrow> scan_result list" where "finals rs = filter sr_final rs"

definition final_agents :: "scan_result list \<Rightarrow> nat" where
  "final_agents rs = length (remdups (map sr_agent (finals rs)))"

definition collect_poll :: "scan_env \<Rightarrow> string \<Rightarrow> nat \<Rightarrow> int \<Rightarrow> engine \<Rightarrow> int \<Rightarrow> nat \<Rightarrow> (collected \<times> nat) sio" where
  "collect_poll env task n failed eng deadline prev_done =
     io_bind (confirm_cancellation env task) (\<lambda>cancelled.
     if cancelled then
       io_bind (now_iso env) (\<lambda>now.
       io_bind (update_task task (\<lambda>d. d\<lparr>t_status := T_Cancelled, t_finished := Some now\<rparr>)) (\<lambda>_.
       io_return (Gathered ''cancelled'' prev_done, prev_done)))
     else
       io_bind (list_results env task None) (\<lambda>rs.
       let done = final_agents rs; required = n * (if eng = Global then 2 else 1) in
       io_bind (update_task task (\<lambda>d. d\<lparr>t_stats := \<lparr>st_total = int n, st_done = int done, st_failed = failed\<rparr>\<rparr>)) (\<lambda>_.
       io_bind (io_gets (\<lambda>w. sw_now w)) (\<lambda>time.
       if n > 0 \<and> length (finals rs) \<ge> required \<or> time \<ge> deadline then
         io_bind (update_task task (\<lambda>d. d\<lparr>t_status := T_Analyzing\<rparr>)) (\<lambda>_. io_return (Gathered ''analyzing'' done, done))
       else io_return (Still_Waiting, done)))))"


lemma keeps_clock:
  "keeps (\<lambda>w. t \<le> sw_now w) (es_do m)" if "keeps (\<lambda>w. t \<le> sw_now w) m" for m :: "'a sio"
  using that by (simp add: keeps_def es_do_def)

lemma keeps_clock_redis:
  "keeps (\<lambda>w. t \<le> sw_now w) (redis_do m)" if "keeps (\<lambda>w. t \<le> sw_now w) m" for m :: "'a sio"
  using that by (simp add: keeps_def redis_do_def)

lemma keeps_clock_modify [keeps_intros]:
  "(\<And>w. sw_now (f w) = sw_now w) \<Longrightarrow> keeps (\<lambda>w. t \<le> sw_now w) (io_modify f)"
  by (rule keeps_modify) simp

lemma keeps_clock_pause [keeps_intros]: "0 \<le> n \<Longrightarrow> keeps (\<lambda>w. t \<le> sw_now w) (pause env n)"
  unfolding pause_def by (rule keeps_modify) (simp add: Let_def)

lemma keeps_clock_update_task [keeps_intros]: "keeps (\<lambda>w. t \<le> sw_now w) (update_task task f)"
  unfolding update_task_def by (rule keeps_clock) (simp add: keeps_def split: option.split)

lemma keeps_clock_confirm [keeps_intros]: "keeps (\<lambda>w. t \<le> sw_now w) (confirm_cancellation env task)"
  unfolding confirm_cancellation_def is_task_cancelled_def audit_event_def quietly_def
  by (auto intro!: keeps_intros keeps_clock keeps_clock_redis)

lemma keeps_clock_results [keeps_intros]: "keeps (\<lambda>w. t \<le> sw_now w) (list_results env task agent)"
  unfolding list_results_def by (intro keeps_clock keeps_intros)

lemma collect_poll_time:
  assumes "collect_poll env task n failed eng deadline prev w = (Inr (Still_Waiting, d), w')"
  shows "sw_now w \<le> sw_now w' \<and> sw_now w' < deadline"
proof
  have "keeps (\<lambda>x. sw_now w \<le> sw_now x) (collect_poll env task n failed eng deadline prev)"
    unfolding collect_poll_def now_iso_def Let_def by (auto intro!: keeps_intros)
  from keepsD [OF this, of w] assms show "sw_now w \<le> sw_now w'" by simp
  show "sw_now w' < deadline"
    using assms by (auto simp: collect_poll_def io_bind_Inr Let_def split: if_splits)
qed

text \<open>The rounds, five seconds apart, end at the deadline at the latest.\<close>

function collect_loop ::
    "scan_env \<Rightarrow> string \<Rightarrow> nat \<Rightarrow> int \<Rightarrow> engine \<Rightarrow> int \<Rightarrow> nat \<Rightarrow> scan_world \<Rightarrow> (string \<times> nat) res \<times> scan_world" where
  "collect_loop env task n failed eng deadline prev w =
     (case collect_poll env task n failed eng deadline prev w of
        (Inl e, w') \<Rightarrow> (Inl e, w')
      | (Inr (Gathered status done, _), w') \<Rightarrow> (Inr (status, done), w')
      | (Inr (Still_Waiting, done), w') \<Rightarrow>
          collect_loop env task n failed eng deadline done (snd (pause env 5 w')))"
  by pat_completeness auto
termination
proof (relation "measure (\<lambda>(env, task, n, failed, eng, deadline, prev, w). nat (deadline - sw_now w))", goal_cases)
  case 1
  show ?case by simp
next
  case 2
  then show ?case
    by (auto simp: pause_def Let_def dest!: sym [THEN collect_poll_time])
qed

declare collect_loop.simps [simp del]

definition collect :: "scan_env \<Rightarrow> scan_state \<Rightarrow> scan_state sio" where
  "collect env s =
     io_bind (if s_status s = ''cancelled'' then io_return True else confirm_cancellation env (s_task_id s)) (\<lambda>cancelled.
     if cancelled then io_return (s\<lparr>s_status := ''cancelled'', s_received := 0\<rparr>)
     else if s_status s = ''failed'' \<or> s_total s = 0 then io_return (s\<lparr>s_status := ''failed'', s_received := 0\<rparr>)
     else
       io_bind (io_gets (\<lambda>w. sw_now w + collect_ttl s)) (\<lambda>deadline.
       io_bind (get_task (s_task_id s)) (\<lambda>t.
       let failed = (case t of Some d \<Rightarrow> st_failed (t_stats d) | None \<Rightarrow> 0) in
       if failed \<ge> int (s_total s) then
         io_bind (update_task (s_task_id s) (\<lambda>d. d\<lparr>t_status := T_Analyzing\<rparr>)) (\<lambda>_.
         io_return (s\<lparr>s_status := ''analyzing'', s_received := 0\<rparr>))
       else
         io_bind (collect_loop env (s_task_id s) (s_total s) failed (case t of Some d \<Rightarrow> t_engine d | None \<Rightarrow> Matcher)
            deadline 0) (\<lambda>(status, done).
         io_return (s\<lparr>s_status := status, s_received := done\<rparr>)))))"


section \<open>Reconciling\<close>

text \<open>What identifies a finding: the agent, the CVE or nothing, and the name.\<close>

datatype vuln_key = Key string string string

definition key_of :: "vuln \<Rightarrow> vuln_key" where
  "key_of v = Key (v_agent v) (case v_cve v of Some c \<Rightarrow> c | None \<Rightarrow> []) (v_name v)"

text \<open>The first occurrence of every finding, with the time of its batch.\<close>

definition add_first :: "string \<Rightarrow> vuln \<Rightarrow> (vuln_key \<times> vuln \<times> string) list \<Rightarrow> (vuln_key \<times> vuln \<times> string) list" where
  "add_first ts v acc = (if map_of acc (key_of v) = None then acc @ [(key_of v, v, ts)] else acc)"

definition first_by_key :: "scan_result list \<Rightarrow> (vuln_key \<times> vuln \<times> string) list" where
  "first_by_key rs = fold (\<lambda>r. fold (\<lambda>f. add_first (sr_ts r) (vuln_of f)) (sr_findings r)) rs []"

text \<open>The newest stored copy of every finding, and the identifiers of the others.\<close>

definition add_existing ::
    "vuln \<Rightarrow> (vuln_key \<times> vuln) list \<times> string list \<Rightarrow> (vuln_key \<times> vuln) list \<times> string list" where
  "add_existing v acc = (case map_of (fst acc) (key_of v) of
      None \<Rightarrow> (AList.update (key_of v) v (fst acc), snd acc)
    | Some cur \<Rightarrow>
        if v_detected v > v_detected cur then (AList.update (key_of v) v (fst acc), List.insert (v_id cur) (snd acc))
        else (fst acc, List.insert (v_id v) (snd acc)))"

definition index_existing :: "vuln list \<Rightarrow> (vuln_key \<times> vuln) list \<times> string list" where
  "index_existing vs = fold add_existing vs ([], [])"

definition existing_times :: "vuln list \<Rightarrow> vuln_key \<Rightarrow> string list" where
  "existing_times vs k = map v_detected (filter (\<lambda>v. key_of v = k \<and> v_detected v \<noteq> []) vs)"

text \<open>
  The order of detection tms: those that can be read first, by time, then the others, as text. Times with and
  without an offset cannot be compared.
\<close>

definition detected_sort_key :: "scan_env \<Rightarrow> string \<Rightarrow> nat \<times> int \<times> string" where
  "detected_sort_key env value =
     (let s = strip value in
      if s = [] then (2, 0, [])
      else case sc_fromiso env (if last s = CHR ''Z'' then butlast s @ ''+00:00'' else s) of
        Some (aware, t) \<Rightarrow> (0, t, [])
      | None \<Rightarrow> (1, 0, if last s = CHR ''Z'' then butlast s @ ''+00:00'' else s))"

definition offset_aware :: "scan_env \<Rightarrow> string \<Rightarrow> bool option" where
  "offset_aware env value =
     (let s = strip value in
      if s = [] then None
      else map_option fst (sc_fromiso env (if last s = CHR ''Z'' then butlast s @ ''+00:00'' else s)))"

definition sort_history :: "scan_env \<Rightarrow> string list \<Rightarrow> string list res" where
  "sort_history env hist =
     (if (\<exists>x\<in>set hist. offset_aware env x = Some True) \<and> (\<exists>x\<in>set hist. offset_aware env x = Some False)
      then Raise TypeError else Ok (sort_key (detected_sort_key env) hist))"

definition merged_history :: "scan_env \<Rightarrow> vuln \<Rightarrow> string list \<Rightarrow> string \<Rightarrow> string list res" where
  "merged_history env ex tms detected =
     sort_history env (dedup_first (filter (\<lambda>t. t \<noteq> detected) (v_history ex @ tms)))"

definition text_or :: "string \<Rightarrow> string \<Rightarrow> string" where "text_or a b = (if a \<noteq> [] then a else b)"

text \<open>The partial document of a finding that is known already.\<close>

definition redetect :: "vuln \<Rightarrow> string \<Rightarrow> string list \<Rightarrow> vuln \<Rightarrow> vuln" where
  "redetect f detected hist d = d\<lparr>v_agent := v_agent f, v_host := v_host f, v_category := v_category f,
     v_cve := v_cve f, v_name := v_name f, v_severity := v_severity f, v_evidence := v_evidence f, v_fix := v_fix f,
     v_detected := detected, v_status := Open, v_history := hist, v_last_seen := Some (v_task f)\<rparr>"

fun merge_loop ::
    "scan_env \<Rightarrow> string \<Rightarrow> (vuln_key \<times> vuln) list \<Rightarrow> (vuln_key \<Rightarrow> string list) \<Rightarrow> (vuln_key \<times> vuln \<times> string) list \<Rightarrow>
     (bulk_action list \<times> vuln list) res" where
  "merge_loop env now known tms [] = Ok ([], [])"
| "merge_loop env now known tms ((k, f, ts) # rest) =
     (let detected = text_or (v_detected f) (text_or ts now); f' = f\<lparr>v_detected := detected\<rparr> in
      rbind (case map_of known k of
          Some ex \<Rightarrow> rbind (merged_history env ex (tms k) detected) (\<lambda>hist.
            Ok (Bulk_Update (v_id ex) (redetect f' detected hist), f'\<lparr>v_id := v_id ex\<rparr>))
        | None \<Rightarrow> Ok (Bulk_Index (v_id f') f', f')) (\<lambda>(a, v).
      rbind (merge_loop env now known tms rest) (\<lambda>(as, vs). Ok (a # as, v # vs))))"

definition coverage :: "scan_result list \<Rightarrow> string \<Rightarrow> string set" where
  "coverage rs a = (\<Union>r\<in>set rs. if sr_agent r = a then set (sr_categories r) else {})"

definition gone :: "scan_result list \<Rightarrow> vuln_key set \<Rightarrow> vuln \<Rightarrow> bool" where
  "gone rs seen v \<longleftrightarrow> v_status v = Open \<and> key_of v \<notin> seen \<and> module_text (v_category v) \<in> coverage rs (v_agent v)"

definition fix_doc :: "string \<Rightarrow> vuln \<Rightarrow> vuln \<Rightarrow> vuln" where
  "fix_doc now v d = d\<lparr>v_status := Fixed,
     v_first_fixed := Some (case v_first_fixed v of Some (c # cs) \<Rightarrow> c # cs | _ \<Rightarrow> now), v_last_fixed := Some now\<rparr>"

definition reconcile ::
    "scan_env \<Rightarrow> string \<Rightarrow> scan_result list \<Rightarrow> vuln list \<Rightarrow> (bulk_action list \<times> vuln list \<times> string list) res" where
  "reconcile env now rs existing =
     (let firsts = first_by_key rs; (known, dups) = index_existing existing;
          fixed = filter (gone rs (fst ` set firsts)) existing in
      rbind (merge_loop env now known (existing_times existing) firsts) (\<lambda>(as, merged).
      Ok (as @ map (\<lambda>v. Bulk_Update (v_id v) (fix_doc now v)) fixed @ map Bulk_Delete dups, merged, map v_id fixed)))"

definition aggregate :: "scan_env \<Rightarrow> scan_state \<Rightarrow> scan_state sio" where
  "aggregate env s =
     io_bind (if s_status s = ''cancelled'' then io_return True else confirm_cancellation env (s_task_id s)) (\<lambda>cancelled.
     if cancelled then io_return (s\<lparr>s_findings := [], s_status := ''cancelled''\<rparr>)
     else
       io_bind (list_results env (s_task_id s) None) (\<lambda>rs.
       let findings = map (\<lambda>(k, f, ts). f) (first_by_key rs) in
       if \<not> sc_merge env \<or> rs = [] then
         io_bind (if findings = [] then io_return () else save_vulns env findings) (\<lambda>_.
         io_return (s\<lparr>s_findings := findings, s_status := ''analyzing''\<rparr>))
       else
         io_bind (now_iso env) (\<lambda>now.
         io_bind (list_vulns_all env (no_filter\<lparr>f_agents := Some (map sr_agent rs), f_limit := 1000\<rparr>)) (\<lambda>existing.
         io_bind (io_lift (reconcile env now rs existing)) (\<lambda>(actions, merged, fixed).
         io_bind (if actions = [] then io_return () else bulk_update_vulns actions) (\<lambda>_.
         io_bind (if fixed = [] then io_return () else audit_event env (s_task_id s) ''auto_fix'') (\<lambda>_.
         io_return (s\<lparr>s_findings := merged, s_status := ''analyzing''\<rparr>))))))))"


section \<open>Analysis\<close>

definition write_fallback_one :: "string \<Rightarrow> string \<Rightarrow> vuln \<Rightarrow> unit sio" where
  "write_fallback_one reason now f = quietly (update_vuln (v_id f) (\<lambda>d. d\<lparr>
     v_ai_severity := Some (severity_text (v_severity f)), v_ai_filtered := False,
     v_fix := (case v_fix f of Some x \<Rightarrow> Some x | None \<Rightarrow> v_fix d), v_ai_processed := False,
     v_ai_reason := Some reason, v_ai_at := Some now\<rparr>))"

fun write_fallback_loop :: "string \<Rightarrow> string \<Rightarrow> vuln list \<Rightarrow> unit sio" where
  "write_fallback_loop reason now [] = io_return ()"
| "write_fallback_loop reason now (f # fs) =
     io_bind (write_fallback_one reason now f) (\<lambda>_. write_fallback_loop reason now fs)"

definition write_fallback :: "scan_env \<Rightarrow> vuln list \<Rightarrow> string \<Rightarrow> unit sio" where
  "write_fallback env findings reason =
     (if findings = [] then io_return ()
      else io_bind (now_iso env) (\<lambda>now. write_fallback_loop reason now findings))"

text \<open>What the model service is shown of a batch; the text around it is fixed.\<close>

definition analysis_input :: "vuln list \<Rightarrow> pyval" where
  "analysis_input fs = PList (map (\<lambda>f. PDict
     [(''finding_id'', PStr (v_id f)), (''name'', PStr (v_name f)),
      (''cve'', (case v_cve f of Some c \<Rightarrow> PStr c | None \<Rightarrow> PNone)), (''severity'', PStr (severity_text (v_severity f))),
      (''category'', PStr (module_text (v_category f))), (''evidence'', PStr (take 300 (v_evidence f)))]) fs)"

definition ask_analysis :: "scan_env \<Rightarrow> vuln list \<Rightarrow> nat \<Rightarrow> analysed list sio" where
  "ask_analysis env batch attempt = (\<lambda>w. (sc_analyse env attempt (sw_now w) (analysis_input batch), w))"

fun batches_of :: "nat \<Rightarrow> nat \<Rightarrow> 'a list \<Rightarrow> 'a list list" where
  "batches_of 0 k xs = []"
| "batches_of (Suc n) k xs = take k xs # batches_of n k (drop k xs)"

definition batch_size :: nat where "batch_size = 15"

definition batches_total :: "nat \<Rightarrow> nat" where
  "batches_total n = (n + batch_size - 1) div batch_size"

definition batch_message :: "nat \<Rightarrow> nat \<Rightarrow> string \<Rightarrow> string" where
  "batch_message i n what = ''Batch '' @ nat_to_str (i + 1) @ ''/'' @ nat_to_str n @ '' '' @ what"

fun analyse_batches :: "scan_env \<Rightarrow> string \<Rightarrow> nat \<Rightarrow> nat \<Rightarrow> vuln list list \<Rightarrow> analysed list sio" where
  "analyse_batches env task n i [] = io_return []"
| "analyse_batches env task n i (b # bs) =
     io_bind (io_try
        (io_bind (chat_with_retry env ''analyze'' (Some task) (filter (\<lambda>x. x \<noteq> []) (map v_id b)) (ask_analysis env b)) (\<lambda>r.
         io_bind (pub_progress task ''analysis'' ''running''
           (batch_message i n (''done ('' @ nat_to_str (length r) @ '' analysed)''))) (\<lambda>_. io_return r)))
        (\<lambda>e. io_bind (pub_progress task ''analysis'' ''running'' (batch_message i n ''failed, continuing''))
           (\<lambda>_. io_return []))) (\<lambda>r.
     io_bind (analyse_batches env task n (Suc i) bs) (\<lambda>rest. io_return (r @ rest)))"

definition apply_analysis :: "string \<Rightarrow> analysed \<Rightarrow> vuln \<Rightarrow> vuln" where
  "apply_analysis now a d = d\<lparr>v_ai_severity := Some (an_severity a), v_ai_filtered := an_filtered a,
     v_fix := Some (an_fix a), v_ai_processed := True, v_ai_reason := Some (an_reason a), v_ai_at := Some now\<rparr>"

text \<open>Writing the answers back; the identifiers that were found.\<close>

fun write_back :: "string \<Rightarrow> analysed list \<Rightarrow> string list sio" where
  "write_back now [] = io_return []"
| "write_back now (a # as) =
     io_bind (io_try (io_bind (update_vuln (an_id a) (apply_analysis now a)) (\<lambda>_. io_return [an_id a]))
        (\<lambda>e. io_return [])) (\<lambda>ok.
     io_bind (write_back now as) (\<lambda>rest. io_return (ok @ rest)))"

definition llm_analysis :: "scan_env \<Rightarrow> scan_state \<Rightarrow> scan_state sio" where
  "llm_analysis env s =
     io_bind (if s_status s = ''cancelled'' then io_return True else confirm_cancellation env (s_task_id s)) (\<lambda>cancelled.
     let findings = s_findings s; task = s_task_id s; n = batches_total (length findings) in
     if cancelled then io_return (s\<lparr>s_status := ''cancelled''\<rparr>)
     else if findings = [] then io_return (s\<lparr>s_status := ''reporting''\<rparr>)
     else if \<not> sc_adapter env then
       io_bind (write_fallback env findings ''LLM unavailable, kept original severity'') (\<lambda>_.
       io_bind (pub_progress task ''analysis'' ''done''
          (''AI unavailable - '' @ nat_to_str (length findings) @ '' findings marked'')) (\<lambda>_.
       io_return (s\<lparr>s_status := ''reporting'', s_ai_processed := False\<rparr>)))
     else
       io_bind (pub_progress task ''analysis'' ''running''
          (''LLM analysing '' @ nat_to_str (length findings) @ '' findings in '' @ nat_to_str n @ '' batches'')) (\<lambda>_.
       io_bind (analyse_batches env task n 0 (batches_of n batch_size findings)) (\<lambda>answers.
       io_bind (now_iso env) (\<lambda>now.
       io_bind (write_back now answers) (\<lambda>ok.
       let failed = filter (\<lambda>f. v_id f \<notin> set ok) findings in
       io_bind (if failed = [] then io_return () else write_fallback_loop ''LLM batch failed, awaiting rescan'' now failed) (\<lambda>_.
       io_return (s\<lparr>s_status := ''reporting'', s_ai_processed := (ok \<noteq> [] \<and> failed = [])\<rparr>)))))))"

section \<open>The report\<close>

definition severity_rank :: "finding_severity \<Rightarrow> nat" where
  "severity_rank s = (case s of FCritical \<Rightarrow> 0 | FHigh \<Rightarrow> 1 | FMedium \<Rightarrow> 2 | FLow \<Rightarrow> 3 | FInfo \<Rightarrow> 4)"

definition shown_severity :: "vuln \<Rightarrow> string" where
  "shown_severity v = (case v_ai_severity v of Some (c # cs) \<Rightarrow> c # cs | _ \<Rightarrow> severity_text (v_severity v))"

definition top_of :: "vuln \<Rightarrow> top_vuln" where
  "top_of v = \<lparr>tv_id = v_id v, tv_host = v_host v, tv_name = v_name v, tv_cve = v_cve v, tv_severity = v_severity v,
     tv_ai_severity = v_ai_severity v, tv_category = v_category v, tv_fix = v_fix v\<rparr>"

definition recommendations :: "vuln list \<Rightarrow> (string \<times> nat) list \<Rightarrow> string list" where
  "recommendations vs by_category =
     (if FCritical \<in> v_severity ` set vs then
        [''Critical: immediate emergency patching required - schedule change window within 24 hours''] else []) @
     (if FHigh \<in> v_severity ` set vs then
        [''High: schedule patching within 7 days, apply compensating controls in interim''] else []) @
     (if FMedium \<in> v_severity ` set vs then
        [''Medium: include in next regular patch cycle (within 30 days)''] else []) @
     (if (case map_of by_category ''baseline'' of Some n \<Rightarrow> n > 0 | None \<Rightarrow> False) then
        [''Baseline: review and harden system configurations per CIS benchmarks''] else []) @
     [''Re-scan affected hosts after remediation to verify fixes'']"

definition long_text :: "pyval res \<Rightarrow> string option" where
  "long_text r = (case r of Inr (PStr t) \<Rightarrow> if length t > 5 then Some t else None | _ \<Rightarrow> None)"

definition ask_chat :: "scan_env \<Rightarrow> string \<Rightarrow> nat \<Rightarrow> pyval sio" where
  "ask_chat env kind attempt = (\<lambda>w. (sc_chat env kind attempt (sw_now w), w))"

text \<open>An action whose exception is returned as a value.\<close>

definition attempt_it :: "'a sio \<Rightarrow> 'a res sio" where
  "attempt_it m = (\<lambda>w. case m w of (Inl e, w') \<Rightarrow> if is_Exception e then (Ok (Inl e), w') else (Inl e, w')
     | (Inr x, w') \<Rightarrow> (Ok (Inr x), w'))"

text \<open>The two texts are asked for one after the other here; each may fail alone.\<close>

definition ask_texts :: "scan_env \<Rightarrow> string \<Rightarrow> (string option \<times> string option \<times> string) sio" where
  "ask_texts env task =
     (if \<not> sc_adapter env then io_return (None, None, [])
      else
        io_bind (attempt_it (chat_with_retry env ''report_summary'' (Some task) [] (ask_chat env ''report_summary''))) (\<lambda>a.
        io_bind (attempt_it (chat_with_retry env ''report_advice'' (Some task) [] (ask_chat env ''report_advice''))) (\<lambda>b.
        io_return (long_text a, long_text b, sc_model env))))"

definition or_empty :: "string option \<Rightarrow> string" where "or_empty t = (case t of Some s \<Rightarrow> s | None \<Rightarrow> [])"

definition empty_report :: "string \<Rightarrow> string \<Rightarrow> scan_report" where
  "empty_report task now = \<lparr>r_task = task, r_summary = ''Scan completed: no vulnerabilities found.'', r_analysis = [],
     r_by_severity = [], r_by_category = [], r_total = 0, r_filtered = 0, r_top = [],
     r_recommendations = [''No issues detected - system within expected security baseline.''], r_generated = now,
     r_ai_processed = False, r_ai_model = [], r_advice = [], r_ai_at = None\<rparr>"

definition full_report ::
    "string \<Rightarrow> string \<Rightarrow> bool \<Rightarrow> vuln list \<Rightarrow> string option \<times> string option \<times> string \<Rightarrow> scan_report" where
  "full_report task now ai vs texts =
     (let kept = filter (\<lambda>v. \<not> v_ai_filtered v) vs; cats = tally (module_text \<circ> v_category) vs;
          summary = ''Scan completed: '' @ nat_to_str (length vs) @ '' findings ('' @ nat_to_str (length kept) @
            '' non-filtered) across '' @ nat_to_str (length cats) @ '' categories'' in
      \<lparr>r_task = task, r_summary = take 500 (case fst texts of Some t \<Rightarrow> t | None \<Rightarrow> summary),
       r_analysis = take 1000 (or_empty (fst texts)), r_by_severity = tally shown_severity vs, r_by_category = cats,
       r_total = length vs, r_filtered = length (filter v_ai_filtered vs),
       r_top = map top_of (take 20 (sort_key (severity_rank \<circ> v_severity) kept)),
       r_recommendations = recommendations kept cats, r_generated = now, r_ai_processed = ai,
       r_ai_model = snd (snd texts), r_advice = take 1000 (or_empty (fst (snd texts))),
       r_ai_at = (if ai then Some now else None)\<rparr>)"

definition generate_report :: "scan_env \<Rightarrow> scan_state \<Rightarrow> scan_state sio" where
  "generate_report env s =
     (let task = s_task_id s in
      io_bind (if s_status s = ''cancelled'' then io_return True else confirm_cancellation env task) (\<lambda>cancelled.
      if cancelled then
        io_bind (now_iso env) (\<lambda>now.
        io_bind (update_task task (\<lambda>d. d\<lparr>t_status := T_Cancelled, t_finished := Some now\<rparr>)) (\<lambda>_.
        io_bind (pub_progress task ''cancel'' ''done'' ''Scan cancelled'') (\<lambda>_.
        io_return (s\<lparr>s_report := None, s_status := ''cancelled''\<rparr>))))
      else
        io_bind (list_vulns_all env (no_filter\<lparr>f_task := Some task, f_limit := 10000\<rparr>)) (\<lambda>vs.
        io_bind (if vs = [] then io_return (None, None, []) else ask_texts env task) (\<lambda>texts.
        io_bind (now_iso env) (\<lambda>now.
        let report = (if vs = [] then empty_report task now else full_report task now (s_ai_processed s) vs texts) in
        io_bind (save_report report) (\<lambda>_.
        io_bind (update_task task (\<lambda>d. d\<lparr>t_status := T_Completed, t_finished := Some now\<rparr>)) (\<lambda>_.
        io_bind (pub_progress task ''report'' ''done''
           (if vs = [] then ''Report generated: 0 findings''
            else ''Report generated: '' @ nat_to_str (length vs) @ '' findings, '' @
              nat_to_str (length (r_recommendations report)) @ '' recommendations'')) (\<lambda>_.
        io_bind (if vs = [] then io_return ()
          else quietly (redis_do (io_modify (\<lambda>w. w\<lparr>sw_collect := AList.delete task (sw_collect w)\<rparr>)))) (\<lambda>_.
        io_return (s\<lparr>s_report := Some report, s_status := ''completed''\<rparr>))))))))))"

section \<open>The graph\<close>

definition run_vulnscan :: "scan_env \<Rightarrow> (string \<Rightarrow> intent sio) \<Rightarrow> string \<Rightarrow> scan_request \<Rightarrow> scan_state sio" where
  "run_vulnscan env ask fresh q =
     io_bind (parse_intent env ask (default_state fresh q)) (\<lambda>s.
     io_bind (dispatch env s) (\<lambda>s.
     io_bind (collect env s) (\<lambda>s.
     io_bind (aggregate env s) (\<lambda>s.
     io_bind (llm_analysis env s) (\<lambda>s. generate_report env s)))))"

section \<open>The repetition of failed analyses\<close>

text \<open>\<open>v.get(k)\<close> on a stored finding, which is a model object and not a dictionary.\<close>

definition model_get :: "vuln \<Rightarrow> string \<Rightarrow> pyval res" where
  "model_get v k = Raise AttributeError"

definition mark_final :: "scan_env \<Rightarrow> string \<Rightarrow> (string \<times> int) list \<Rightarrow> unit sio" where
  "mark_final env task entries =
     io_bind (quietly (redis_do (io_modify (\<lambda>w. w\<lparr>sw_retry := AList.delete task (sw_retry w)\<rparr>)))) (\<lambda>_.
     io_bind (io_try
        (io_bind (list_vulns env (no_filter\<lparr>f_task := Some task, f_limit := 10000\<rparr>)) (\<lambda>vs.
         io_bind (io_lift (mapM (\<lambda>v. model_get v ''ai_processed'') vs)) (\<lambda>marks.
         io_return (length (filter truthy marks), max (length entries) (length vs)))))
        (\<lambda>e. io_return (0, length entries))) (\<lambda>(succeeded, tot).
     mark_analysis_outcome task tot succeeded))"

definition all_spent :: "scan_env \<Rightarrow> (string \<times> int) list \<Rightarrow> bool" where
  "all_spent env entries \<longleftrightarrow> (\<forall>e\<in>set entries. snd e \<ge> sc_max_attempts env)"

definition pending_of :: "string \<Rightarrow> (string \<times> (string \<times> int) list) list \<Rightarrow> (string \<times> int) list" where
  "pending_of task ps = (case find (\<lambda>p. fst p = task) ps of Some p \<Rightarrow> snd p | None \<Rightarrow> [])"

definition str_or2 :: "pyrt \<Rightarrow> pyval \<Rightarrow> pyval \<Rightarrow> string" where
  "str_or2 rt a b = py_str rt (py_or a (py_or b (PStr [])))"

text \<open>The stored findings by identifier, as the code reads them.\<close>

definition vuln_map :: "scan_env \<Rightarrow> vuln list \<Rightarrow> (string \<times> vuln) list res" where
  "vuln_map env vs = rbind (mapM (\<lambda>v.
       rbind (model_get v ''finding_id'') (\<lambda>a. rbind (if truthy a then Ok PNone else model_get v ''id'') (\<lambda>b.
       Ok (str_or2 (sc_rt env) a b, v)))) vs) (\<lambda>kvs. Ok (dupdate [] kvs))"

definition rescan_one_batch :: "scan_env \<Rightarrow> string \<Rightarrow> bool sio" where
  "rescan_one_batch env task =
     io_bind (list_retry_tasks 200) (\<lambda>pending.
     let entries = sort_key snd (pending_of task pending) in
     if entries = [] then io_return False
     else if all_spent env entries then io_bind (mark_final env task entries) (\<lambda>_. io_return False)
     else
       let fids = map fst (take batch_size (filter (\<lambda>e. snd e < sc_max_attempts env) entries)) in
       io_bind (io_try (io_bind (list_vulns env (no_filter\<lparr>f_task := Some task, f_limit := 10000\<rparr>)) (\<lambda>vs.
           io_bind (io_lift (vuln_map env vs)) (\<lambda>m. io_return (Some m)))) (\<lambda>e. io_return None)) (\<lambda>loaded.
       case loaded of
         None \<Rightarrow> io_return False
       | Some m \<Rightarrow>
           let findings = List.map_filter (map_of m) fids in
           if findings = [] then io_bind (remove_retry_batch task fids) (\<lambda>_. io_return True)
           else if \<not> sc_adapter env then io_return True
           else
             io_bind (io_try (io_bind (chat_with_retry env ''rescan'' (Some task) fids (ask_analysis env findings))
                (\<lambda>r. io_return (Some r))) (\<lambda>e. io_return None)) (\<lambda>answer.
             case answer of
               None \<Rightarrow> io_return True
             | Some as \<Rightarrow>
                 io_bind (now_iso env) (\<lambda>now.
                 io_bind (write_back now (filter (\<lambda>a. an_id a \<in> set fids) as)) (\<lambda>ok.
                 io_bind (if ok = [] then io_return () else remove_retry_batch task ok) (\<lambda>_.
                 io_bind (list_retry_tasks 200) (\<lambda>remaining.
                 let left = pending_of task remaining in
                 if left \<noteq> [] \<and> all_spent env left then io_bind (mark_final env task left) (\<lambda>_. io_return False)
                 else io_return True)))))))"

end
