(* ===== verification/ReconcileLaws.thy ===== *)
theory ReconcileLaws
  imports ScanNodes
begin

text \<open>
  What a scan leaves in the index of findings: which document changes how, and that one host and one finding
  have one document.
\<close>

section \<open>Bulk requests without errors\<close>

fun bulk_target :: "bulk_action \<Rightarrow> string" where
  "bulk_target (Bulk_Update i f) = i"
| "bulk_target (Bulk_Index i v) = i"
| "bulk_target (Bulk_Delete i) = i"

fun bulk_effect :: "bulk_action \<Rightarrow> vuln option \<Rightarrow> vuln option" where
  "bulk_effect (Bulk_Update i f) d = map_option f d"
| "bulk_effect (Bulk_Index i v) d = Some v"
| "bulk_effect (Bulk_Delete i) d = None"

fun bulk_needs :: "bulk_action \<Rightarrow> bool" where
  "bulk_needs (Bulk_Index i v) = False"
| "bulk_needs _ = True"

definition bulk_run :: "bulk_action list \<Rightarrow> (string \<times> vuln) list \<Rightarrow> (string \<times> vuln) list" where
  "bulk_run xs docs = fold (\<lambda>x d. snd (bulk_one x d)) xs docs"

definition bulk_fine :: "bulk_action list \<Rightarrow> (string \<times> vuln) list \<Rightarrow> bool" where
  "bulk_fine xs docs \<longleftrightarrow> bulk_chunk xs (True, docs) = (True, bulk_run xs docs)"

lemma bulk_chunk_False: "fst (bulk_chunk xs (False, docs)) = False"
  by (induction xs arbitrary: docs) (auto split: prod.split)

lemma bulk_chunk_append: "bulk_chunk (xs @ ys) acc = bulk_chunk ys (bulk_chunk xs acc)"
  by (induction xs arbitrary: acc) (auto split: prod.split)

lemma bulk_fine_Nil [simp]: "bulk_fine [] docs"
  by (simp add: bulk_fine_def bulk_run_def)

lemma bulk_fine_Cons: "bulk_fine (x # xs) docs \<longleftrightarrow> fst (bulk_one x docs) \<and> bulk_fine xs (snd (bulk_one x docs))"
proof (cases "bulk_one x docs")
  case (Pair b d)
  then show ?thesis
    using bulk_chunk_False [of xs d]
    by (cases b; cases "bulk_chunk xs (False, d)") (auto simp: bulk_fine_def bulk_run_def)
qed

lemma bulk_fine_append: "bulk_fine (xs @ ys) docs \<longleftrightarrow> bulk_fine xs docs \<and> bulk_fine ys (bulk_run xs docs)"
  by (induction xs arbitrary: docs) (auto simp: bulk_fine_Cons bulk_run_def)

lemma bulk_run_append: "bulk_run (xs @ ys) docs = bulk_run ys (bulk_run xs docs)"
  by (simp add: bulk_run_def)

lemma bulk_chunks_fine: "bulk_fine xs docs \<Longrightarrow> bulk_chunks xs docs = (True, bulk_run xs docs)"
proof (induction xs docs rule: bulk_chunks.induct)
  case (1 xs docs)
  show ?case
  proof (cases "xs = []")
    case True
    then show ?thesis by (simp add: bulk_chunks.simps bulk_run_def)
  next
    case False
    have "bulk_fine (take 2000 xs @ drop 2000 xs) docs" using "1.prems" by simp
    then have fine: "bulk_fine (take 2000 xs) docs" "bulk_fine (drop 2000 xs) (bulk_run (take 2000 xs) docs)"
      by (simp_all only: bulk_fine_append)
    then have chunk: "bulk_chunk (take 2000 xs) (True, docs) = (True, bulk_run (take 2000 xs) docs)"
      by (simp add: bulk_fine_def)
    have "bulk_run (drop 2000 xs) (bulk_run (take 2000 xs) docs) = bulk_run xs docs"
      by (metis append_take_drop_id bulk_run_append)
    then show ?thesis
      using "1.IH" [OF False chunk [symmetric]] fine chunk False
      by (subst bulk_chunks.simps) simp
  qed
qed

lemma bulk_update_fine:
  assumes "sw_es w" and "bulk_fine xs (sw_vulns w)"
  shows "bulk_update_vulns xs w = (Inr (), w\<lparr>sw_vulns := bulk_run xs (sw_vulns w)\<rparr>)"
proof (cases "xs = []")
  case True
  then show ?thesis by (simp add: bulk_update_vulns_def bulk_run_def)
next
  case False
  then show ?thesis
    using assms by (simp add: bulk_update_vulns_def eval_nat_numeral async_bulk_def es_do_def bulk_chunks_fine)
qed

text \<open>Actions with different targets do not get in each other's way.\<close>

lemma map_of_bulk_one:
  assumes "bulk_needs x \<longrightarrow> map_of docs (bulk_target x) \<noteq> None"
  shows "fst (bulk_one x docs) \<and>
    map_of (snd (bulk_one x docs)) = (map_of docs)(bulk_target x := bulk_effect x (map_of docs (bulk_target x)))"
  using assms by (cases x) (auto simp: update_conv' delete_conv' fun_eq_iff)

lemma bulk_distinct:
  assumes "distinct (map bulk_target xs)" and "\<forall>x\<in>set xs. bulk_needs x \<longrightarrow> map_of docs (bulk_target x) \<noteq> None"
  shows "bulk_fine xs docs \<and> map_of (bulk_run xs docs) = (\<lambda>i. case find (\<lambda>x. bulk_target x = i) xs of
    Some x \<Rightarrow> bulk_effect x (map_of docs i) | None \<Rightarrow> map_of docs i)"
  using assms
proof (induction xs arbitrary: docs)
  case Nil
  show ?case by (simp add: bulk_run_def)
next
  case (Cons x xs)
  let ?d = "snd (bulk_one x docs)"
  have x: "fst (bulk_one x docs)"
    and m: "map_of ?d = (map_of docs)(bulk_target x := bulk_effect x (map_of docs (bulk_target x)))"
    using map_of_bulk_one [of x docs] Cons.prems by auto
  have "\<forall>y\<in>set xs. bulk_needs y \<longrightarrow> map_of ?d (bulk_target y) \<noteq> None"
    using Cons.prems unfolding m by (metis distinct.simps(2) fun_upd_apply image_eqI list.set_intros(2) list.simps(9) set_map)
  with Cons have IH: "bulk_fine xs ?d \<and> map_of (bulk_run xs ?d) = (\<lambda>i. case find (\<lambda>x. bulk_target x = i) xs of
      Some x \<Rightarrow> bulk_effect x (map_of ?d i) | None \<Rightarrow> map_of ?d i)"
    by simp
  have "bulk_target y \<noteq> bulk_target x" if "y \<in> set xs" for y
    using Cons.prems(1) that by (metis distinct.simps(2) image_eqI list.simps(9) list.set_map)
  then have "find (\<lambda>y. bulk_target y = bulk_target x) xs = None"
    unfolding find_None_iff by blast
  then show ?case
    using IH x unfolding m
    by (auto simp: bulk_fine_Cons bulk_run_def fun_eq_iff split: option.split dest: find_Some_iff [THEN iffD1])
qed


section \<open>The findings of a scan\<close>

definition reported :: "scan_result list \<Rightarrow> (string \<times> vuln) list" where
  "reported rs = concat (map (\<lambda>r. map (\<lambda>f. (sr_ts r, vuln_of f)) (sr_findings r)) rs)"

lemma first_by_key_reported: "first_by_key rs = fold (\<lambda>(ts, v). add_first ts v) (reported rs) []"
proof -
  have inner: "fold (\<lambda>f. add_first ts (vuln_of f)) fs acc = fold (\<lambda>(ts, v). add_first ts v) (map (\<lambda>f. (ts, vuln_of f)) fs) acc"
    for ts fs acc by (induction fs arbitrary: acc) simp_all
  have "fold (\<lambda>r. fold (\<lambda>f. add_first (sr_ts r) (vuln_of f)) (sr_findings r)) rs acc =
      fold (\<lambda>(ts, v). add_first ts v) (reported rs) acc" for acc
    by (induction rs arbitrary: acc) (simp_all add: reported_def inner)
  then show ?thesis by (simp add: first_by_key_def)
qed

definition firsts_ok :: "(string \<times> vuln) list \<Rightarrow> (vuln_key \<times> vuln \<times> string) list \<Rightarrow> bool" where
  "firsts_ok xs acc \<longleftrightarrow> distinct (map fst acc) \<and> fst ` set acc = (\<lambda>(ts, v). key_of v) ` set xs \<and>
     (\<forall>(k, v, ts)\<in>set acc. k = key_of v \<and> (ts, v) \<in> set xs)"

lemma firsts_step: "firsts_ok xs acc \<Longrightarrow> firsts_ok (xs @ [(ts, v)]) (add_first ts v acc)"
proof (cases "map_of acc (key_of v) = None")
  case True
  moreover assume "firsts_ok xs acc"
  ultimately show ?thesis
    unfolding map_of_eq_None_iff by (auto simp: firsts_ok_def add_first_def map_of_eq_None_iff)
next
  case False
  assume ok: "firsts_ok xs acc"
  have "key_of v \<in> (\<lambda>(ts, v). key_of v) ` set xs"
    using False ok unfolding map_of_eq_None_iff firsts_ok_def by simp
  then have "(\<lambda>(ts, v). key_of v) ` set (xs @ [(ts, v)]) = (\<lambda>(ts, v). key_of v) ` set xs" by auto
  with False ok show ?thesis by (auto simp: firsts_ok_def add_first_def)
qed

lemma firsts_facts: "firsts_ok xs (fold (\<lambda>(ts, v). add_first ts v) xs [])"
proof (induction xs rule: rev_induct)
  case (snoc x xs)
  then show ?case by (cases x) (simp add: firsts_step)
qed (simp add: firsts_ok_def)

lemma first_by_key_distinct: "distinct (map fst (first_by_key rs))"
  and first_by_key_keys: "fst ` set (first_by_key rs) = (\<lambda>(ts, v). key_of v) ` set (reported rs)"
  and first_by_key_entry: "(k, v, ts) \<in> set (first_by_key rs) \<Longrightarrow> k = key_of v \<and> (ts, v) \<in> set (reported rs)"
  unfolding first_by_key_reported using firsts_facts [of "reported rs"] unfolding firsts_ok_def by auto

section \<open>The known findings\<close>

definition known_ok :: "vuln list \<Rightarrow> (vuln_key \<times> vuln) list \<times> string list \<Rightarrow> bool" where
  "known_ok vs kd \<longleftrightarrow> distinct (map fst (fst kd)) \<and> distinct (snd kd) \<and>
    (\<forall>k v. map_of (fst kd) k = Some v \<longrightarrow> v \<in> set vs \<and> key_of v = k \<and>
       (\<forall>u\<in>set vs. key_of u = k \<longrightarrow> v_detected u \<le> v_detected v)) \<and>
    (\<forall>v\<in>set vs. map_of (fst kd) (key_of v) \<noteq> None) \<and>
    set (snd kd) = v_id ` {v \<in> set vs. map_of (fst kd) (key_of v) \<noteq> Some v}"

lemma known_okD:
  assumes "known_ok vs (K, D)"
  shows "distinct (map fst K)" and "distinct D"
    and "map_of K k = Some v \<Longrightarrow> v \<in> set vs"
    and "map_of K k = Some v \<Longrightarrow> key_of v = k"
    and "map_of K k = Some v \<Longrightarrow> u \<in> set vs \<Longrightarrow> key_of u = k \<Longrightarrow> v_detected u \<le> v_detected v"
    and "v \<in> set vs \<Longrightarrow> map_of K (key_of v) \<noteq> None"
    and "set D = v_id ` {v \<in> set vs. map_of K (key_of v) \<noteq> Some v}"
  using assms unfolding known_ok_def by auto

lemma known_okI:
  assumes "distinct (map fst K)" and "distinct D"
    and "\<And>k v. map_of K k = Some v \<Longrightarrow> v \<in> set vs \<and> key_of v = k"
    and "\<And>k v u. map_of K k = Some v \<Longrightarrow> u \<in> set vs \<Longrightarrow> key_of u = k \<Longrightarrow> v_detected u \<le> v_detected v"
    and "\<And>v. v \<in> set vs \<Longrightarrow> map_of K (key_of v) \<noteq> None"
    and "set D = v_id ` {v \<in> set vs. map_of K (key_of v) \<noteq> Some v}"
  shows "known_ok vs (K, D)"
  unfolding known_ok_def using assms by simp

lemma known_step:
  assumes ok: "known_ok vs (K, D)" and new: "v_id v \<notin> v_id ` set vs"
  shows "known_ok (vs @ [v]) (add_existing v (K, D))"
proof (cases "map_of K (key_of v)")
  case None
  have other: "key_of u \<noteq> key_of v" if "u \<in> set vs" for u using known_okD(6) [OF ok that] None by metis
  let ?K = "AList.update (key_of v) v K"
  have M: "map_of ?K k = (if k = key_of v then Some v else map_of K k)" for k by (simp add: update_conv')
  have "known_ok (vs @ [v]) (?K, D)"
  proof (rule known_okI)
    show "distinct (map fst ?K)" using known_okD(1) [OF ok] by (rule distinct_update)
    show "distinct D" by (rule known_okD(2) [OF ok])
    have "{u \<in> set (vs @ [v]). map_of ?K (key_of u) \<noteq> Some u} = {u \<in> set vs. map_of K (key_of u) \<noteq> Some u}"
      using other by (auto simp: M)
    then show "set D = v_id ` {u \<in> set (vs @ [v]). map_of ?K (key_of u) \<noteq> Some u}"
      using known_okD(7) [OF ok] by simp
    fix k u x
    show "map_of ?K (key_of u) \<noteq> None" if "u \<in> set (vs @ [v])"
      using that known_okD(6) [OF ok, of u] by (auto simp: M)
    assume u: "map_of ?K k = Some u"
    show "u \<in> set (vs @ [v]) \<and> key_of u = k"
      using u known_okD(3,4) [OF ok, of k u] by (cases "k = key_of v") (simp_all add: M)
    assume x: "x \<in> set (vs @ [v])" "key_of x = k"
    show "v_detected x \<le> v_detected u"
    proof (cases "k = key_of v")
      case True
      then have "x = v" using x other by auto
      with u True show ?thesis by (simp add: M)
    next
      case False
      then show ?thesis using u x known_okD(5) [OF ok, of k u x] by (auto simp: M)
    qed
  qed
  with None show ?thesis by (simp add: add_existing_def)
next
  case (Some cur)
  note cur = known_okD(3,4) [OF ok Some]
  have ne: "u \<noteq> v" if "u \<in> set vs" for u using new that by auto
  show ?thesis
  proof (cases "v_detected v > v_detected cur")
    case True
    have le: "v_detected x \<le> v_detected v" if "x \<in> set vs" "key_of x = key_of v" for x
      using known_okD(5) [OF ok Some that] True by (meson less_imp_le order_trans)
    have dups: "{u \<in> set (vs @ [v]). map_of (AList.update (key_of v) v K) (key_of u) \<noteq> Some u} =
        insert cur {u \<in> set vs. map_of K (key_of u) \<noteq> Some u}"
      using cur ne Some by (auto simp: update_conv')
    have "known_ok (vs @ [v]) (AList.update (key_of v) v K, List.insert (v_id cur) D)"
    proof (rule known_okI)
      show "distinct (map fst (AList.update (key_of v) v K))" using known_okD(1) [OF ok] by (rule distinct_update)
      show "distinct (List.insert (v_id cur) D)" using known_okD(2) [OF ok] by simp
      show "set (List.insert (v_id cur) D) = v_id ` {u \<in> set (vs @ [v]). map_of (AList.update (key_of v) v K) (key_of u) \<noteq> Some u}"
        unfolding dups using known_okD(7) [OF ok] by simp
      fix k u x
      show "map_of (AList.update (key_of v) v K) (key_of u) \<noteq> None" if "u \<in> set (vs @ [v])"
        using that known_okD(6) [OF ok, of u] by (auto simp: update_conv')
      assume u: "map_of (AList.update (key_of v) v K) k = Some u"
      show "u \<in> set (vs @ [v]) \<and> key_of u = k"
        using u known_okD(3,4) [OF ok, of k u] by (simp add: update_conv' split: if_splits)
      assume x: "x \<in> set (vs @ [v])" "key_of x = k"
      show "v_detected x \<le> v_detected u"
      proof (cases "k = key_of v")
        case True
        then show ?thesis using u x le by (auto simp: update_conv')
      next
        case False
        then show ?thesis using u x known_okD(5) [OF ok, of k u x] by (auto simp: update_conv')
      qed
    qed
    with True show ?thesis by (simp add: add_existing_def Some)
  next
    case False
    have "map_of K (key_of v) \<noteq> Some v" using Some ne [OF cur(1)] by simp
    then have dups: "{u \<in> set (vs @ [v]). map_of K (key_of u) \<noteq> Some u} = insert v {u \<in> set vs. map_of K (key_of u) \<noteq> Some u}"
      by auto
    have "known_ok (vs @ [v]) (K, List.insert (v_id v) D)"
    proof (rule known_okI)
      show "distinct (map fst K)" by (rule known_okD(1) [OF ok])
      show "distinct (List.insert (v_id v) D)" using known_okD(2) [OF ok] by simp
      show "set (List.insert (v_id v) D) = v_id ` {u \<in> set (vs @ [v]). map_of K (key_of u) \<noteq> Some u}"
        unfolding dups using known_okD(7) [OF ok] by simp
      fix k u x
      show "map_of K (key_of u) \<noteq> None" if "u \<in> set (vs @ [v])"
        using that known_okD(6) [OF ok, of u] Some by auto
      assume u: "map_of K k = Some u"
      show "u \<in> set (vs @ [v]) \<and> key_of u = k"
        using known_okD(3,4) [OF ok u] by simp
      assume x: "x \<in> set (vs @ [v])" "key_of x = k"
      show "v_detected x \<le> v_detected u"
      proof (cases "x = v")
        case True
        then show ?thesis using u x(2) Some False by simp
      next
        case False
        then show ?thesis using x known_okD(5) [OF ok u] by auto
      qed
    qed
    with False show ?thesis by (simp add: add_existing_def Some)
  qed
qed

lemma index_existing_ok: "distinct (map v_id vs) \<Longrightarrow> known_ok vs (index_existing vs)"
proof (induction vs rule: rev_induct)
  case Nil
  show ?case by (simp add: index_existing_def known_ok_def)
next
  case (snoc v vs)
  then have "known_ok (vs @ [v]) (add_existing v (fst (index_existing vs), snd (index_existing vs)))"
    by (intro known_step) auto
  then show ?case by (simp add: index_existing_def)
qed


section \<open>The actions of a reconciliation\<close>

definition detected_of :: "string \<Rightarrow> vuln \<Rightarrow> string \<Rightarrow> string" where
  "detected_of now f ts = text_or (v_detected f) (text_or ts now)"

text \<open>What one reported finding leads to.\<close>

definition merge_action ::
    "scan_env \<Rightarrow> string \<Rightarrow> (vuln_key \<times> vuln) list \<Rightarrow> (vuln_key \<Rightarrow> string list) \<Rightarrow> vuln_key \<times> vuln \<times> string \<Rightarrow> bulk_action \<Rightarrow> bool" where
  "merge_action env now known tms e a = (case e of (k, f, ts) \<Rightarrow>
     let det = detected_of now f ts in
     (case map_of known k of
        Some ex \<Rightarrow> \<exists>hist. merged_history env ex (tms k) det = Ok hist \<and>
          a = Bulk_Update (v_id ex) (redetect (f\<lparr>v_detected := det\<rparr>) det hist)
      | None \<Rightarrow> a = Bulk_Index (v_id f) (f\<lparr>v_detected := det\<rparr>)))"

lemma merge_loop_actions:
  "merge_loop env now known tms fs = Ok (as, vs) \<Longrightarrow> list_all2 (merge_action env now known tms) fs as"
proof (induction fs arbitrary: as vs)
  case (Cons e fs)
  obtain k f ts where e: "e = (k, f, ts)" by (cases e)
  show ?case
    using Cons.prems Cons.IH
    by (cases "map_of known k")
      (auto simp: e rbind_eq_Inr_iff Let_def merge_action_def detected_of_def)
qed simp

definition merge_target :: "(vuln_key \<times> vuln) list \<Rightarrow> vuln_key \<times> vuln \<times> string \<Rightarrow> string" where
  "merge_target known e = (case e of (k, f, ts) \<Rightarrow> (case map_of known k of Some ex \<Rightarrow> v_id ex | None \<Rightarrow> v_id f))"

lemma merge_action_target: "merge_action env now known tms e a \<Longrightarrow> bulk_target a = merge_target known e"
  by (cases e) (auto simp: merge_action_def merge_target_def Let_def split: option.splits)

lemma merge_action_keeps: "merge_action env now known tms e a \<Longrightarrow> a \<noteq> Bulk_Delete i"
  by (cases e) (auto simp: merge_action_def Let_def split: option.splits)

lemma merge_actions_keep: "list_all2 (merge_action env now known tms) fs as \<Longrightarrow> a \<in> set as \<Longrightarrow> a \<noteq> Bulk_Delete i"
  by (metis merge_action_keeps in_set_conv_nth list_all2_conv_all_nth)

lemma merge_targets:
  "list_all2 (merge_action env now known tms) fs as \<Longrightarrow> map bulk_target as = map (merge_target known) fs"
  by (induction rule: list_all2_induct) (simp_all add: merge_action_target)

text \<open>A well-formed index: one document per identifier, which it carries.\<close>

definition docs_ok :: "(string \<times> vuln) list \<Rightarrow> bool" where
  "docs_ok docs \<longleftrightarrow> distinct (map fst docs) \<and> (\<forall>(i, v)\<in>set docs. v_id v = i)"

lemma docs_okD: "docs_ok docs \<Longrightarrow> map_of docs i = Some v \<Longrightarrow> v_id v = i"
  by (auto simp: docs_ok_def dest!: map_of_SomeD)

text \<open>New findings have identifiers of their own.\<close>

definition fresh_ids :: "(string \<times> vuln) list \<Rightarrow> scan_result list \<Rightarrow> bool" where
  "fresh_ids docs rs \<longleftrightarrow> distinct (map (\<lambda>(ts, v). v_id v) (reported rs)) \<and>
     (\<forall>(ts, v)\<in>set (reported rs). map_of docs (v_id v) = None)"

lemma fresh_ids_new: "fresh_ids docs rs \<Longrightarrow> (ts, v) \<in> set (reported rs) \<Longrightarrow> map_of docs (v_id v) = None"
  by (auto simp: fresh_ids_def)

lemma fresh_ids_inj:
  "fresh_ids docs rs \<Longrightarrow> (ts, v) \<in> set (reported rs) \<Longrightarrow> (ts', v') \<in> set (reported rs) \<Longrightarrow> v_id v = v_id v' \<Longrightarrow>
   (ts, v) = (ts', v')"
  unfolding fresh_ids_def distinct_map inj_on_def by fastforce

text \<open>The findings of the scanned agents, as the code reads them.\<close>

definition known_findings :: "(string \<times> vuln) list \<Rightarrow> string set \<Rightarrow> vuln list \<Rightarrow> bool" where
  "known_findings docs A vs \<longleftrightarrow> distinct (map v_id vs) \<and> (\<forall>v. v \<in> set vs \<longleftrightarrow> map_of docs (v_id v) = Some v \<and> v_agent v \<in> A)"

lemma merge_targets_distinct:
  assumes ok: "known_ok vs (K, D)" and vs: "known_findings docs A vs" and fresh: "fresh_ids docs rs"
  shows "distinct (map (merge_target K) (first_by_key rs))"
proof -
  have "inj_on (merge_target K) (set (first_by_key rs))"
  proof (rule inj_onI)
    fix e e'
    assume "e \<in> set (first_by_key rs)" "e' \<in> set (first_by_key rs)" and same: "merge_target K e = merge_target K e'"
    moreover obtain k f ts where e: "e = (k, f, ts)" by (cases e)
    moreover obtain k' f' ts' where e': "e' = (k', f', ts')" by (cases e')
    ultimately have in1: "(k, f, ts) \<in> set (first_by_key rs)" and in2: "(k', f', ts') \<in> set (first_by_key rs)" by auto
    note r1 = first_by_key_entry [OF in1] and r2 = first_by_key_entry [OF in2]
    have ex: "map_of docs (v_id x) \<noteq> None" if "map_of K j = Some x" for j x
      using known_okD(3) [OF ok that] vs by (auto simp: known_findings_def)
    have "k = k'"
    proof (cases "map_of K k")
      case None
      show ?thesis
      proof (cases "map_of K k'")
        case None
        then have "v_id f = v_id f'" using same \<open>map_of K k = None\<close> by (simp add: e e' merge_target_def)
        then have "(ts, f) = (ts', f')" using fresh_ids_inj [OF fresh] r1 r2 by blast
        then show ?thesis using r1 r2 by simp
      next
        case (Some x)
        then have "v_id f = v_id x" using same None by (simp add: e e' merge_target_def)
        then show ?thesis using ex [OF Some] fresh_ids_new [OF fresh] r1 by metis
      qed
    next
      case (Some x)
      show ?thesis
      proof (cases "map_of K k'")
        case None
        then have "v_id f' = v_id x" using same Some by (simp add: e e' merge_target_def)
        then show ?thesis using ex [OF Some] fresh_ids_new [OF fresh] r2 by metis
      next
        case (Some y)
        then have "v_id x = v_id y" using same \<open>map_of K k = Some x\<close> by (simp add: e e' merge_target_def)
        moreover have "x \<in> set vs" "y \<in> set vs"
          using known_okD(3) [OF ok] Some \<open>map_of K k = Some x\<close> by auto
        ultimately have "x = y" using vs by (auto simp: known_findings_def distinct_map inj_on_def)
        then show ?thesis using known_okD(4) [OF ok] Some \<open>map_of K k = Some x\<close> by metis
      qed
    qed
    then have "(f, ts) = (f', ts')"
      using eq_key_imp_eq_value [OF first_by_key_distinct in1] in2 by simp
    with \<open>k = k'\<close> show "e = e'" by (simp add: e e')
  qed
  moreover have "distinct (first_by_key rs)"
    using first_by_key_distinct [of rs] by (simp add: distinct_map)
  ultimately show ?thesis by (simp add: distinct_map)
qed


lemma fixed_targets:
  assumes ok: "known_ok vs (K, D)" and vs: "known_findings docs A vs" and fresh: "fresh_ids docs rs"
    and v: "v \<in> set vs" "key_of v \<notin> fst ` set (first_by_key rs)"
  shows "v_id v \<notin> merge_target K ` set (first_by_key rs)"
proof
  assume "v_id v \<in> merge_target K ` set (first_by_key rs)"
  then obtain k f ts where e: "(k, f, ts) \<in> set (first_by_key rs)" and t: "v_id v = merge_target K (k, f, ts)" by auto
  note r = first_by_key_entry [OF e]
  show False
  proof (cases "map_of K k")
    case None
    then have "v_id v = v_id f" using t by (simp add: merge_target_def)
    then show False using fresh_ids_new [OF fresh] r v(1) vs by (metis known_findings_def option.distinct(1))
  next
    case (Some x)
    then have "v_id v = v_id x" using t by (simp add: merge_target_def)
    moreover have "x \<in> set vs" "key_of x = k" using known_okD(3,4) [OF ok Some] by auto
    ultimately have "v = x" using v(1) vs by (auto simp: known_findings_def distinct_map inj_on_def)
    with \<open>key_of x = k\<close> e v(2) show False by force
  qed
qed

text \<open>The changes before the deletions, one for each target.\<close>

definition changes :: "string \<Rightarrow> bulk_action list \<Rightarrow> vuln list \<Rightarrow> bulk_action list" where
  "changes now as fixed = as @ map (\<lambda>v. Bulk_Update (v_id v) (fix_doc now v)) fixed"

definition fixed_of :: "scan_result list \<Rightarrow> vuln list \<Rightarrow> vuln list" where
  "fixed_of rs vs = filter (gone rs (fst ` set (first_by_key rs))) vs"

lemma find_unique:
  assumes "distinct (map f xs)" and "x \<in> set xs"
  shows "find (\<lambda>y. f y = f x) xs = Some x"
proof -
  obtain y where y: "find (\<lambda>y. f y = f x) xs = Some y"
    using assms(2) by (metis (mono_tags) find_None_iff not_None_eq)
  then have "y \<in> set xs" "f y = f x" by (auto simp: find_Some_iff)
  then have "y = x" using assms by (auto simp: distinct_map inj_on_def)
  with y show ?thesis by simp
qed

lemma changes_effect:
  assumes ok: "known_ok vs (K, D)" and vs: "known_findings docs A vs" and fresh: "fresh_ids docs rs"
    and as: "list_all2 (merge_action env now K tms) (first_by_key rs) as"
  defines "cs \<equiv> changes now as (fixed_of rs vs)"
  shows "bulk_fine cs docs"
    and "x \<in> set cs \<Longrightarrow> map_of (bulk_run cs docs) (bulk_target x) = bulk_effect x (map_of docs (bulk_target x))"
    and "i \<notin> bulk_target ` set cs \<Longrightarrow> map_of (bulk_run cs docs) i = map_of docs i"
proof -
  have t: "map bulk_target as = map (merge_target K) (first_by_key rs)" by (rule merge_targets [OF as])
  have fx: "map bulk_target (map (\<lambda>v. Bulk_Update (v_id v) (fix_doc now v)) (fixed_of rs vs)) = map v_id (fixed_of rs vs)"
    by simp
  have "distinct (map v_id (fixed_of rs vs))"
    using vs by (simp add: known_findings_def fixed_of_def distinct_map_filter)
  moreover have "set (map bulk_target as) \<inter> set (map v_id (fixed_of rs vs)) = {}"
  proof -
    have "v_id v \<notin> merge_target K ` set (first_by_key rs)" if "v \<in> set (fixed_of rs vs)" for v
      using that by (intro fixed_targets [OF ok vs fresh]) (simp_all add: fixed_of_def gone_def)
    then show ?thesis unfolding t set_map disjoint_iff by (metis imageE)
  qed
  ultimately have d: "distinct (map bulk_target cs)"
    using merge_targets_distinct [OF ok vs fresh]
    unfolding cs_def changes_def map_append distinct_append fx by (simp add: t)
  have needs: "\<forall>x\<in>set cs. bulk_needs x \<longrightarrow> map_of docs (bulk_target x) \<noteq> None"
  proof (intro ballI impI)
    fix x
    assume x: "x \<in> set cs" "bulk_needs x"
    then consider "x \<in> set as" | v where "v \<in> set vs" "x = Bulk_Update (v_id v) (fix_doc now v)"
      by (auto simp: cs_def changes_def fixed_of_def)
    then show "map_of docs (bulk_target x) \<noteq> None"
    proof cases
      case 1
      then obtain k f ts where a: "merge_action env now K tms (k, f, ts) x"
        using as by (metis list_all2_conv_all_nth in_set_conv_nth prod_cases3)
      then obtain ex where "map_of K k = Some ex" "bulk_target x = v_id ex"
        using x(2) by (cases "map_of K k") (auto simp: merge_action_def Let_def)
      then show ?thesis using known_okD(3) [OF ok] vs by (auto simp: known_findings_def)
    next
      case 2
      then show ?thesis using vs by (simp add: known_findings_def)
    qed
  qed
  note bd = bulk_distinct [OF d needs]
  show "bulk_fine cs docs" using bd by simp
  show "map_of (bulk_run cs docs) (bulk_target x) = bulk_effect x (map_of docs (bulk_target x))" if "x \<in> set cs"
    using bd find_unique [OF d that] by simp
  show "map_of (bulk_run cs docs) i = map_of docs i" if "i \<notin> bulk_target ` set cs"
  proof -
    have "find (\<lambda>x. bulk_target x = i) cs = None" using that by (auto simp: find_None_iff)
    then show ?thesis using bd by simp
  qed
qed


text \<open>The index after a reconciliation, document by document.\<close>

definition deletes :: "string list \<Rightarrow> bulk_action list" where
  "deletes D = map Bulk_Delete D"

lemma reconcile_Ok:
  assumes "reconcile env now rs vs = Ok (actions, merged, ids)"
  obtains as where "list_all2 (merge_action env now (fst (index_existing vs)) (existing_times vs)) (first_by_key rs) as"
    and "actions = changes now as (fixed_of rs vs) @ deletes (snd (index_existing vs))"
  using assms
  by (auto simp: reconcile_def Let_def rbind_eq_Inr_iff changes_def deletes_def fixed_of_def split: prod.splits
      dest!: merge_loop_actions)

lemma reconcile_effect:
  assumes vs: "known_findings docs A vs" and fresh: "fresh_ids docs rs"
    and run: "reconcile env now rs vs = Ok (actions, merged, ids)"
  defines "K \<equiv> fst (index_existing vs)" and "D \<equiv> snd (index_existing vs)" and "R \<equiv> bulk_run actions docs"
    and "seen \<equiv> fst ` set (first_by_key rs)"
  shows "bulk_fine actions docs"
    and "i \<in> set D \<Longrightarrow> map_of R i = None"
    and "(k, f, ts) \<in> set (first_by_key rs) \<Longrightarrow> map_of K k = Some ex \<Longrightarrow>
      \<exists>hist. merged_history env ex (existing_times vs k) (detected_of now f ts) = Ok hist \<and>
        map_of R (v_id ex) = Some (redetect (f\<lparr>v_detected := detected_of now f ts\<rparr>) (detected_of now f ts) hist ex)"
    and "(k, f, ts) \<in> set (first_by_key rs) \<Longrightarrow> map_of K k = None \<Longrightarrow>
      map_of R (v_id f) = Some (f\<lparr>v_detected := detected_of now f ts\<rparr>)"
    and "v \<in> set vs \<Longrightarrow> key_of v \<notin> seen \<Longrightarrow> v_id v \<notin> set D \<Longrightarrow>
      map_of R (v_id v) = Some (if gone rs seen v then fix_doc now v v else v)"
    and "map_of docs i = Some v \<Longrightarrow> v \<notin> set vs \<Longrightarrow> v_id v = i \<Longrightarrow> map_of R i = Some v"
    and "map_of docs i = None \<Longrightarrow> map_of R i = Some v \<Longrightarrow>
      \<exists>k f ts. (k, f, ts) \<in> set (first_by_key rs) \<and> map_of K k = None \<and> i = v_id f"
proof -
  have ok: "known_ok vs (K, D)"
    using index_existing_ok [of vs] vs by (simp add: K_def D_def known_findings_def)
  obtain as where as: "list_all2 (merge_action env now K (existing_times vs)) (first_by_key rs) as"
    and act: "actions = changes now as (fixed_of rs vs) @ deletes D"
    using reconcile_Ok [OF run] unfolding K_def D_def by blast
  let ?cs = "changes now as (fixed_of rs vs)" and ?S = "bulk_run (changes now as (fixed_of rs vs)) docs"
  note ce = changes_effect [OF ok vs fresh as]
  have in_vs: "map_of docs (v_id v) = Some v" if "v \<in> set vs" for v using vs that by (simp add: known_findings_def)
  have inj: "u = v" if "u \<in> set vs" "v \<in> set vs" "v_id u = v_id v" for u v
    using vs that by (auto simp: known_findings_def distinct_map inj_on_def)
  have dup: "v_id v \<in> set D \<longleftrightarrow> map_of K (key_of v) \<noteq> Some v" if "v \<in> set vs" for v
    using known_okD(7) [OF ok] that inj by (auto simp: image_iff)
  have kept: "map_of ?S (v_id v) \<noteq> None" if "v \<in> set vs" for v
  proof (cases "v_id v \<in> bulk_target ` set ?cs")
    case True
    then obtain x where x: "x \<in> set ?cs" "bulk_target x = v_id v" by auto
    have "x \<noteq> Bulk_Delete i" for i
      using x(1) merge_actions_keep [OF as] by (auto simp: changes_def)
    then have "bulk_effect x (Some v) \<noteq> None" by (cases x) auto
    then show ?thesis using ce(2) [OF x(1)] x(2) in_vs [OF that] by simp
  next
    case False
    then show ?thesis using ce(3) in_vs [OF that] by simp
  qed
  have del: "bulk_fine (deletes D) ?S \<and> map_of (bulk_run (deletes D) ?S) = (\<lambda>i. if i \<in> set D then None else map_of ?S i)"
  proof -
    have "\<forall>x\<in>set (deletes D). bulk_needs x \<longrightarrow> map_of ?S (bulk_target x) \<noteq> None"
      using kept known_okD(7) [OF ok] by (auto simp: deletes_def)
    moreover have "distinct (map bulk_target (deletes D))"
      using known_okD(2) [OF ok] by (simp add: deletes_def comp_def)
    ultimately have b: "bulk_fine (deletes D) ?S \<and> map_of (bulk_run (deletes D) ?S) = (\<lambda>i. case find (\<lambda>x. bulk_target x = i) (deletes D) of
        Some x \<Rightarrow> bulk_effect x (map_of ?S i) | None \<Rightarrow> map_of ?S i)"
      by (intro bulk_distinct)
    have "(case find (\<lambda>x. bulk_target x = i) (deletes D) of Some x \<Rightarrow> bulk_effect x (map_of ?S i) | None \<Rightarrow> map_of ?S i) =
        (if i \<in> set D then None else map_of ?S i)" for i
    proof (cases "find (\<lambda>x. bulk_target x = i) (deletes D)")
      case None
      then have "i \<notin> set D" by (auto simp: find_None_iff deletes_def)
      with None show ?thesis by simp
    next
      case (Some x)
      then have "x \<in> set (deletes D)" "bulk_target x = i" by (auto simp: find_Some_iff)
      then show ?thesis using Some by (auto simp: deletes_def)
    qed
    with b show ?thesis by simp
  qed
  have R: "map_of R j = (if j \<in> set D then None else map_of ?S j)" for j
    unfolding R_def act bulk_run_append using del by simp
  show "bulk_fine actions docs" unfolding act bulk_fine_append using ce(1) del by simp
  show "map_of R i = None" if "i \<in> set D" using that by (simp add: R)
  have D_in: "v \<in> set vs" if "map_of docs (v_id v) = Some v" "v_id v \<in> set D" for v
    using that known_okD(7) [OF ok] in_vs by (auto simp: image_iff)
  have D_old: "map_of docs i \<noteq> None" if "i \<in> set D" for i
    using that known_okD(7) [OF ok] in_vs by auto
  have action: "\<exists>x\<in>set as. merge_action env now K (existing_times vs) e x" if "e \<in> set (first_by_key rs)" for e
    using as that by (metis in_set_conv_nth list_all2_conv_all_nth)
  have targets: "j \<in> bulk_target ` set ?cs \<longleftrightarrow> j \<in> merge_target K ` set (first_by_key rs) \<or> j \<in> v_id ` set (fixed_of rs vs)" for j
  proof -
    have "map bulk_target ?cs = map (merge_target K) (first_by_key rs) @ map v_id (fixed_of rs vs)"
      using merge_targets [OF as] by (simp add: changes_def comp_def)
    from arg_cong [OF this, of set] show ?thesis by auto
  qed
  show "\<exists>hist. merged_history env ex (existing_times vs k) (detected_of now f ts) = Ok hist \<and>
      map_of R (v_id ex) = Some (redetect (f\<lparr>v_detected := detected_of now f ts\<rparr>) (detected_of now f ts) hist ex)"
    if e: "(k, f, ts) \<in> set (first_by_key rs)" and ex: "map_of K k = Some ex"
  proof -
    from action [OF e] obtain x where x: "x \<in> set as" "merge_action env now K (existing_times vs) (k, f, ts) x" by auto
    then obtain hist where h: "merged_history env ex (existing_times vs k) (detected_of now f ts) = Ok hist"
      "x = Bulk_Update (v_id ex) (redetect (f\<lparr>v_detected := detected_of now f ts\<rparr>) (detected_of now f ts) hist)"
      by (auto simp: merge_action_def Let_def ex)
    note v = known_okD(3,4) [OF ok ex]
    have "map_of ?S (bulk_target x) = bulk_effect x (map_of docs (bulk_target x))"
      using x(1) by (intro ce(2)) (simp add: changes_def)
    moreover have "v_id ex \<notin> set D" using dup [OF v(1)] v(2) ex by simp
    ultimately show ?thesis using h in_vs [OF v(1)] by (auto simp: R)
  qed
  show "map_of R (v_id f) = Some (f\<lparr>v_detected := detected_of now f ts\<rparr>)"
    if e: "(k, f, ts) \<in> set (first_by_key rs)" and none: "map_of K k = None"
  proof -
    from action [OF e] obtain x where x: "x \<in> set as" "merge_action env now K (existing_times vs) (k, f, ts) x" by auto
    then have h: "x = Bulk_Index (v_id f) (f\<lparr>v_detected := detected_of now f ts\<rparr>)"
      by (simp add: merge_action_def Let_def none)
    have "map_of ?S (bulk_target x) = bulk_effect x (map_of docs (bulk_target x))"
      using x(1) by (intro ce(2)) (simp add: changes_def)
    moreover have "v_id f \<notin> set D" using D_old fresh_ids_new [OF fresh] first_by_key_entry [OF e] by metis
    ultimately show ?thesis using h by (simp add: R)
  qed
  show "map_of R (v_id v) = Some (if gone rs seen v then fix_doc now v v else v)"
    if v: "v \<in> set vs" "key_of v \<notin> seen" "v_id v \<notin> set D"
  proof (cases "gone rs seen v")
    case True
    then have "v \<in> set (fixed_of rs vs)" using v by (simp add: fixed_of_def seen_def)
    then have "Bulk_Update (v_id v) (fix_doc now v) \<in> set ?cs" by (simp add: changes_def)
    from ce(2) [OF this] show ?thesis using v(3) in_vs [OF v(1)] True by (simp add: R)
  next
    case False
    have "v_id v \<notin> v_id ` set (fixed_of rs vs)"
      using False inj v(1) by (auto simp: fixed_of_def seen_def)
    then have "v_id v \<notin> bulk_target ` set ?cs"
      unfolding targets using fixed_targets [OF ok vs fresh v(1)] v(2) by (simp add: seen_def)
    from ce(3) [OF this] show ?thesis using v(3) in_vs [OF v(1)] False by (simp add: R)
  qed
  have old_target: "\<exists>u\<in>set vs. j = v_id u" if tgt: "j \<in> bulk_target ` set ?cs" "map_of docs j \<noteq> None" for j
  proof -
    from tgt(1) consider e where "e \<in> set (first_by_key rs)" "j = merge_target K e" | u where "u \<in> set vs" "j = v_id u"
      unfolding targets by (auto simp: fixed_of_def)
    then show ?thesis
    proof cases
      case 1
      obtain k f ts where e: "e = (k, f, ts)" by (cases e)
      have "map_of docs (v_id f) = None" using fresh_ids_new [OF fresh] first_by_key_entry 1(1) e by blast
      then obtain ex where "map_of K k = Some ex" "j = v_id ex"
        using 1(2) tgt(2) by (cases "map_of K k") (auto simp: e merge_target_def)
      then show ?thesis using known_okD(3) [OF ok] by blast
    qed blast
  qed
  show "map_of R i = Some v" if v: "map_of docs i = Some v" "v \<notin> set vs" "v_id v = i"
  proof -
    have "u = v" if "u \<in> set vs" "i = v_id u" for u using in_vs [OF that(1)] that(2) v(1) by simp
    then have "i \<notin> bulk_target ` set ?cs" using old_target [of i] v(1,2) by force
    moreover have "i \<notin> set D" using D_in [of v] v by auto
    ultimately show ?thesis using ce(3) v(1) by (simp add: R)
  qed
  show "\<exists>k f ts. (k, f, ts) \<in> set (first_by_key rs) \<and> map_of K k = None \<and> i = v_id f"
    if v: "map_of docs i = None" "map_of R i = Some v"
  proof -
    have "i \<in> bulk_target ` set ?cs" using ce(3) [of i] v by (auto simp: R split: if_splits)
    then have "i \<in> merge_target K ` set (first_by_key rs)"
      unfolding targets using in_vs v(1) by (auto simp: fixed_of_def)
    then obtain k f ts where e: "(k, f, ts) \<in> set (first_by_key rs)" "i = merge_target K (k, f, ts)" by auto
    moreover have "map_of K k = None"
      using e(2) v(1) in_vs known_okD(3) [OF ok] by (cases "map_of K k") (auto simp: merge_target_def)
    ultimately show ?thesis by (auto simp: merge_target_def)
  qed
qed

end
