(* ===== verification/ScanLaws.thy ===== *)
theory ScanLaws
  imports ReconcileLaws CommandLaws
begin

text \<open>
  What a vulnerability scan guarantees: one document for one finding of one host after a reconciliation, no
  detection time lost, a collection that ends for a reason, a cancelled scan that ends cancelled, and reports
  that count what was found.
\<close>

section \<open>Reading the index\<close>

lemma confirm_no_mark:
  assumes "sw_redis w" and "task \<notin> set (sw_cancelled w)"
  shows "confirm_cancellation env task w = (Inr False, w)"
  using assms by (simp add: confirm_cancellation_def is_task_cancelled_def redis_do_def io_bind_def io_try_def io_gets_def io_return_def)

lemma es_do_Inr: "es_do m w = (Inr x, w') \<longleftrightarrow> sw_es w \<and> m w = (Inr x, w')"
  by (auto simp: es_do_def)

lemma redis_do_Inr: "redis_do m w = (Inr x, w') \<longleftrightarrow> sw_redis w \<and> m w = (Inr x, w')"
  by (auto simp: redis_do_def)

lemma now_iso_Inr: "now_iso env w = (Inr x, w') \<longleftrightarrow> x = fe_iso (sc_fleet env) (sw_now w) \<and> w' = w"
  by (auto simp: now_iso_def io_gets_def)

definition results_of :: "scan_env \<Rightarrow> string \<Rightarrow> scan_world \<Rightarrow> scan_result list" where
  "results_of env task w = take 10000 (sort_key (\<lambda>r. sc_instant env (sr_ts r)) (filter (\<lambda>r. sr_task r = task) (sw_results w)))"

lemma list_results_Inr:
  "list_results env task None w = (Inr rs, w') \<longleftrightarrow> sw_es w \<and> rs = results_of env task w \<and> w' = w"
  by (auto simp: list_results_def es_do_Inr io_gets_def results_of_def)

definition matches :: "scan_env \<Rightarrow> vuln_filter \<Rightarrow> (string \<times> vuln) list \<Rightarrow> (string \<times> vuln) list" where
  "matches env f docs = filter (\<lambda>(i, v). vuln_matches env f v) docs"

text \<open>A search that returns has read everything on its first page.\<close>

lemma list_vulns_all_Inr:
  assumes "list_vulns_all env f w = (Inr vs, w')" and "0 < f_limit f" and "f_offset f = 0"
  shows "w' = w \<and> vs = map snd (sort_key (es_order env) (matches env f (sw_vulns w))) \<and>
    length (matches env f (sw_vulns w)) < f_limit f"
proof -
  let ?ms = "sort_key (es_order env) (matches env f (sw_vulns w))" and ?n = "length (sw_vulns w)"
  have off: "f\<lparr>f_offset := 0\<rparr> = f" using assms(3) by simp
  have hits: "matches env f (sw_vulns w) = filter (\<lambda>(i, v). vuln_matches env f v) (sw_vulns w)" by (simp add: matches_def)
  have rounds: "list_vulns_rounds (Suc (Suc ?n)) env f None [] w = (Inr vs, w')"
    using assms(1) by (simp add: list_vulns_all_def)
  then obtain page cur w1 where p: "list_vulns_page env f None w = (Inr (page, cur), w1)"
    and rest: "(if page = [] then io_return [] else if length page < f_limit f then io_return ([] @ page)
        else list_vulns_rounds (Suc ?n) env f cur ([] @ page)) w1 = (Inr vs, w')"
    by (simp only: list_vulns_rounds.simps(2) [of "Suc ?n"] off io_bind_Inr) (auto simp: io_simps)
  have page: "w1 = w" "page = map snd (take (f_limit f) ?ms)" "cur = last_cursor env False (take (f_limit f) ?ms)"
    using p assms(3)
    by (auto simp: list_vulns_page_def io_bind_Inr es_do_Inr Let_def hits io_guard_def io_simps split: if_splits)
  show ?thesis
  proof (cases "length (matches env f (sw_vulns w)) < f_limit f")
    case True
    then have "take (f_limit f) ?ms = ?ms" by simp
    with True rest page show ?thesis by (auto split: if_splits)
  next
    case False
    then have "length (take (f_limit f) ?ms) = f_limit f" by simp
    moreover from this have "take (f_limit f) ?ms \<noteq> []" using assms(2) by (metis length_0_conv not_gr_zero)
    ultimately have "take (f_limit f) ?ms \<noteq> []" "length (take (f_limit f) ?ms) = f_limit f" by simp_all
    then have "list_vulns_rounds (Suc ?n) env f (Some (By_Time (- es_order env (last (take (f_limit f) ?ms))))) page w = (Inr vs, w')"
      using rest page by (simp add: last_cursor_def)
    then show ?thesis
      by (auto simp: off io_bind_Inr list_vulns_page_def es_do_Inr Let_def)
  qed
qed


section \<open>One document for one finding\<close>

lemma no_filter_sel [simp]:
  "f_task no_filter = None" "f_host no_filter = None" "f_hosts no_filter = None" "f_agents no_filter = None"
  "f_agent no_filter = None" "f_severity no_filter = None" "f_status no_filter = None" "f_cve no_filter = None"
  "f_cve_keyword no_filter = None" "f_host_keyword no_filter = None" "f_name_keyword no_filter = None"
  "f_ai_processed no_filter = None" "f_from no_filter = None" "f_to no_filter = None" "f_offset no_filter = 0"
  by (simp_all add: no_filter_def)

lemma matches_agents:
  assumes "as \<noteq> []"
  shows "vuln_matches env (no_filter\<lparr>f_agents := Some as, f_limit := n\<rparr>) v \<longleftrightarrow> v_agent v \<in> set as"
  using assms by (cases as) (simp_all add: vuln_matches_def wants_def wants_any_def)

lemma known_findings_read:
  assumes "docs_ok docs" and "as \<noteq> []"
  shows "known_findings docs (set as)
    (map snd (sort_key (es_order env) (matches env (no_filter\<lparr>f_agents := Some as, f_limit := n\<rparr>) docs)))"
proof -
  let ?ms = "matches env (no_filter\<lparr>f_agents := Some as, f_limit := n\<rparr>) docs"
  have ms: "set ?ms = {(i, v) \<in> set docs. v_agent v \<in> set as}"
    by (auto simp: matches_def matches_agents [OF assms(2)])
  have ids: "map v_id (map snd xs) = map fst xs" if "set xs \<subseteq> set docs" for xs
    using that assms(1) by (fastforce simp: docs_ok_def)
  have "distinct (map fst (sort_key (es_order env) ?ms))"
    using assms(1) by (simp add: docs_ok_def matches_def distinct_map distinct_filter inj_on_def)
  then have "distinct (map v_id (map snd (sort_key (es_order env) ?ms)))"
    by (subst ids) (auto simp: ms)
  moreover have "v \<in> snd ` set ?ms \<longleftrightarrow> map_of docs (v_id v) = Some v \<and> v_agent v \<in> set as" for v
  proof -
    have "map_of docs i = Some v \<longleftrightarrow> (i, v) \<in> set docs" for i
      using assms(1) by (simp add: docs_ok_def)
    moreover have "v_id v = i" if "(i, v) \<in> set docs" for i using assms(1) that by (auto simp: docs_ok_def)
    ultimately show ?thesis unfolding ms by (auto simp: image_iff)
  qed
  ultimately show ?thesis by (simp add: known_findings_def)
qed

text \<open>What an aggregation that returns has done.\<close>

definition merging :: "scan_env \<Rightarrow> scan_state \<Rightarrow> scan_world \<Rightarrow> bool" where
  "merging env s w \<longleftrightarrow> sc_merge env \<and> s_status s \<noteq> ''cancelled'' \<and> sw_redis w \<and>
     s_task_id s \<notin> set (sw_cancelled w) \<and> results_of env (s_task_id s) w \<noteq> []"

lemma quietly_audit_vulns: "(audit_event env e a w) = (r, w') \<Longrightarrow> r = Inr () \<and> sw_vulns w' = sw_vulns w"
  by (auto simp: audit_event_def quietly_def es_do_def io_try_def io_return_def io_modify_def is_Exception_def
      split: if_splits)

lemma aggregate_merges:
  assumes run: "aggregate env s w = (Inr s', w')" and m: "merging env s w" and docs: "docs_ok (sw_vulns w)"
    and fresh: "fresh_ids (sw_vulns w) (results_of env (s_task_id s) w)"
  obtains vs actions merged ids where
    "known_findings (sw_vulns w) (sr_agent ` set (results_of env (s_task_id s) w)) vs"
    "reconcile env (fe_iso (sc_fleet env) (sw_now w)) (results_of env (s_task_id s) w) vs = Ok (actions, merged, ids)"
    "sw_vulns w' = bulk_run actions (sw_vulns w)"
    "s' = s\<lparr>s_findings := merged, s_status := ''analyzing''\<rparr>"
proof -
  let ?rs = "results_of env (s_task_id s) w" and ?now = "fe_iso (sc_fleet env) (sw_now w)"
  let ?f = "no_filter\<lparr>f_agents := Some (map sr_agent ?rs), f_limit := 1000\<rparr>"
  let ?vs = "map snd (sort_key (es_order env) (matches env ?f (sw_vulns w)))"
  have kf: "known_findings (sw_vulns w) (sr_agent ` set ?rs) ?vs"
    using known_findings_read [OF docs, of "map sr_agent ?rs"] m by (simp add: merging_def)
  have es: "sw_es w"
    using run m by (auto simp: aggregate_def merging_def confirm_no_mark io_bind_Inr list_results_Inr)
  obtain actions merged ids w2 where rec: "reconcile env ?now ?rs ?vs = Ok (actions, merged, ids)"
    and upd: "(if actions = [] then io_return () else bulk_update_vulns actions) w = (Inr (), w2)"
    and rest: "io_bind (if ids = [] then io_return () else audit_event env (s_task_id s) ''auto_fix'')
        (\<lambda>_. io_return (s\<lparr>s_findings := merged, s_status := ''analyzing''\<rparr>)) w2 = (Inr s', w')"
    using run m
    by (auto simp: aggregate_def merging_def confirm_no_mark io_bind_Inr list_results_Inr now_iso_Inr io_lift_def
        Let_def dest!: list_vulns_all_Inr)
  have "bulk_fine actions (sw_vulns w)" by (rule reconcile_effect(1) [OF kf fresh rec])
  then have "sw_vulns w2 = bulk_run actions (sw_vulns w)"
    using upd es by (auto simp: bulk_update_fine bulk_run_def io_return_def split: if_splits)
  moreover have "sw_vulns w' = sw_vulns w2 \<and> s' = s\<lparr>s_findings := merged, s_status := ''analyzing''\<rparr>"
    using rest by (auto simp: io_bind_Inr io_return_def split: if_splits dest: quietly_audit_vulns)
  ultimately show thesis using that kf rec by simp
qed


text \<open>Every document after a reconciliation, and where it comes from.\<close>

lemma reconciled_doc:
  assumes docs: "docs_ok docs" and vs: "known_findings docs A vs" and fresh: "fresh_ids docs rs"
    and run: "reconcile env now rs vs = Ok (actions, merged, ids)" and doc: "map_of (bulk_run actions docs) i = Some v"
  obtains (redetected) f ts ex hist where "(key_of f, f, ts) \<in> set (first_by_key rs)"
      "map_of (fst (index_existing vs)) (key_of f) = Some ex" "i = v_id ex"
      "merged_history env ex (existing_times vs (key_of f)) (detected_of now f ts) = Ok hist"
      "v = redetect (f\<lparr>v_detected := detected_of now f ts\<rparr>) (detected_of now f ts) hist ex"
  | (reported_first) f ts where "(key_of f, f, ts) \<in> set (first_by_key rs)"
      "map_of (fst (index_existing vs)) (key_of f) = None" "i = v_id f" "v = f\<lparr>v_detected := detected_of now f ts\<rparr>"
  | (unreported) u where "u \<in> set vs" "map_of (fst (index_existing vs)) (key_of u) = Some u"
      "key_of u \<notin> fst ` set (first_by_key rs)" "i = v_id u"
      "v = (if gone rs (fst ` set (first_by_key rs)) u then fix_doc now u u else u)"
  | (elsewhere) "map_of docs i = Some v" "v_agent v \<notin> A"
proof -
  note eff = reconcile_effect [OF vs fresh run]
  have ok: "known_ok vs (fst (index_existing vs), snd (index_existing vs))"
    using index_existing_ok [of vs] vs by (simp add: known_findings_def)
  show thesis
  proof (cases "map_of docs i")
    case None
    from eff(7) [OF None doc] obtain k f ts where e: "(k, f, ts) \<in> set (first_by_key rs)"
      "map_of (fst (index_existing vs)) k = None" "i = v_id f" by blast
    then show thesis
      using reported_first [of f ts] first_by_key_entry [OF e(1)] eff(4) [OF e(1,2)] doc by simp
  next
    case (Some u)
    note u_id = docs_okD [OF docs Some]
    show thesis
    proof (cases "u \<in> set vs")
      case False
      then have "v_agent u \<notin> A" using vs Some u_id by (auto simp: known_findings_def)
      moreover have "v = u" using eff(6) [OF Some False u_id] doc by simp
      ultimately show thesis using elsewhere Some by simp
    next
      case True
      have live: "i \<notin> set (snd (index_existing vs))" using eff(2) doc by force
      then have K: "map_of (fst (index_existing vs)) (key_of u) = Some u"
        using known_okD(7) [OF ok] True u_id by auto
      show thesis
      proof (cases "key_of u \<in> fst ` set (first_by_key rs)")
        case False
        then show thesis using unreported [OF True K] eff(5) [OF True False] live u_id doc by simp
      next
        case True
        then obtain f ts where e: "(key_of u, f, ts) \<in> set (first_by_key rs)" by auto
        then have "key_of u = key_of f" using first_by_key_entry by blast
        then show thesis using redetected [of f ts u] eff(3) [OF e K] e K u_id doc by auto
      qed
    qed
  qed
qed

lemma key_of_redetect [simp]: "key_of (redetect f det hist d) = key_of f" "v_agent (redetect f det hist d) = v_agent f"
  "v_id (redetect f det hist d) = v_id d" "v_status (redetect f det hist d) = Open"
  "v_detected (redetect f det hist d) = det" "v_history (redetect f det hist d) = hist"
  by (simp_all add: redetect_def key_of_def)

lemma key_of_fix_doc [simp]: "key_of (fix_doc now u d) = key_of d" "v_agent (fix_doc now u d) = v_agent d"
  "v_id (fix_doc now u d) = v_id d"
  by (simp_all add: fix_doc_def key_of_def)

lemma key_of_detected [simp]: "key_of (f\<lparr>v_detected := t\<rparr>) = key_of f"
  by (simp add: key_of_def)

lemma key_of_agent: "key_of u = key_of v \<Longrightarrow> v_agent u = v_agent v"
  by (simp add: key_of_def)

lemma first_by_key_unique:
  assumes "(k, f, ts) \<in> set (first_by_key rs)" and "(k, f', ts') \<in> set (first_by_key rs)"
  shows "f = f'" and "ts = ts'"
  using eq_key_imp_eq_value [OF first_by_key_distinct assms] by simp_all

lemma reconciled_keys:
  assumes docs: "docs_ok docs" and vs: "known_findings docs A vs" and fresh: "fresh_ids docs rs"
    and run: "reconcile env now rs vs = Ok (actions, merged, ids)"
    and u: "map_of (bulk_run actions docs) i = Some u" "v_agent u \<in> A"
    and v: "map_of (bulk_run actions docs) j = Some v" "key_of u = key_of v"
  shows "i = j"
proof -
  have va: "v_agent v \<in> A" using u(2) key_of_agent [OF v(2)] by simp
  have K: "key_of x = k" if "map_of (fst (index_existing vs)) k = Some x" for x k
    using known_okD(4) [of vs "fst (index_existing vs)" "snd (index_existing vs)"] index_existing_ok [of vs] vs that
    by (simp add: known_findings_def)
  have one: "i = (case map_of (fst (index_existing vs)) (key_of u) of Some ex \<Rightarrow> v_id ex
       | None \<Rightarrow> v_id (fst (the (map_of (first_by_key rs) (key_of u)))))"
    if "map_of (bulk_run actions docs) i = Some u" "v_agent u \<in> A" for i u
  proof (cases rule: reconciled_doc [OF docs vs fresh run that(1), case_names redetected reported_first unreported elsewhere])
    case (reported_first f ts)
    then show ?thesis using map_of_is_SomeI [OF first_by_key_distinct reported_first(1)] by simp
  next
    case (unreported x)
    then have "key_of u = key_of x" by simp
    with unreported show ?thesis by simp
  qed (use that in simp_all)
  show ?thesis using one [OF u] unfolding v(2) one [OF v(1) va, symmetric] .
qed


lemma distinct_bulk_run: "distinct (map fst docs) \<Longrightarrow> distinct (map fst (bulk_run xs docs))"
proof (induction xs arbitrary: docs)
  case (Cons x xs)
  have "distinct (map fst (snd (bulk_one x docs)))"
    using Cons.prems by (cases x) (auto intro: distinct_update distinct_delete split: option.split)
  then show ?case using Cons.IH by (simp add: bulk_run_def)
qed (simp add: bulk_run_def)

lemma reconciled_docs_ok:
  assumes docs: "docs_ok docs" and vs: "known_findings docs A vs" and fresh: "fresh_ids docs rs"
    and run: "reconcile env now rs vs = Ok (actions, merged, ids)"
  shows "docs_ok (bulk_run actions docs)"
proof -
  have d: "distinct (map fst (bulk_run actions docs))"
    using docs by (simp add: docs_ok_def distinct_bulk_run)
  have "v_id v = i" if "(i, v) \<in> set (bulk_run actions docs)" for i v
  proof -
    have doc: "map_of (bulk_run actions docs) i = Some v" using d that by (rule map_of_is_SomeI)
    show ?thesis
    proof (cases rule: reconciled_doc [OF docs vs fresh run doc, case_names redetected reported_first unreported elsewhere])
      case elsewhere
      then show ?thesis by (simp add: docs_okD [OF docs])
    qed simp_all
  qed
  with d show ?thesis by (auto simp: docs_ok_def)
qed

definition scanned :: "scan_env \<Rightarrow> string \<Rightarrow> scan_world \<Rightarrow> string set" where
  "scanned env task w = sr_agent ` set (results_of env task w)"



definition reported_keys :: "scan_result list \<Rightarrow> vuln_key set" where
  "reported_keys rs = (\<lambda>(ts, v). key_of v) ` set (reported rs)"



section \<open>Waiting for the results\<close>

definition lanes :: "engine \<Rightarrow> nat" where "lanes eng = (if eng = Global then 2 else 1)"

definition enough :: "scan_env \<Rightarrow> string \<Rightarrow> nat \<Rightarrow> engine \<Rightarrow> int \<Rightarrow> scan_world \<Rightarrow> bool" where
  "enough env task n eng deadline w \<longleftrightarrow> n * lanes eng \<le> length (finals (results_of env task w)) \<or> deadline \<le> sw_now w"

lemma update_task_Inr:
  "update_task task f w = (Inr u, w') \<longleftrightarrow>
     sw_es w \<and> (\<exists>t. map_of (sw_tasks w) task = Some t \<and> w' = w\<lparr>sw_tasks := AList.update task (f t) (sw_tasks w)\<rparr>)"
  by (auto simp: update_task_def es_do_Inr split: option.splits)

lemma results_of_tasks [simp]: "results_of env task (w\<lparr>sw_tasks := ts\<rparr>) = results_of env task w"
  by (simp add: results_of_def)

lemma collect_poll_gathers:
  assumes "collect_poll env task n failed eng deadline prev w = (Inr (Gathered status d, d'), w')"
  shows "(status = ''cancelled'' \<or> status = ''analyzing'' \<and> enough env task n eng deadline w') \<and>
    map_option t_status (map_of (sw_tasks w') task) = Some (if status = ''cancelled'' then T_Cancelled else T_Analyzing)"
  using assms
  by (auto simp: collect_poll_def io_bind_Inr Let_def now_iso_Inr list_results_Inr update_task_Inr enough_def lanes_def
      io_simps update_conv' split: if_splits)

lemma collect_loop_gathers:
  "collect_loop env task n failed eng deadline prev w = (Inr (status, d), w') \<Longrightarrow>
   (status = ''cancelled'' \<or> status = ''analyzing'' \<and> enough env task n eng deadline w') \<and>
   map_option t_status (map_of (sw_tasks w') task) = Some (if status = ''cancelled'' then T_Cancelled else T_Analyzing)"
proof (induction env task n failed eng deadline prev w rule: collect_loop.induct)
  case (1 env task n failed eng deadline prev w)
  obtain r w1 where poll: "collect_poll env task n failed eng deadline prev w = (r, w1)" by fastforce
  show ?case
  proof (cases r)
    case (Inl e)
    then show ?thesis using "1.prems" poll by (subst (asm) collect_loop.simps) simp
  next
    case (Inr x)
    obtain c d1 where x: "x = (c, d1)" by (cases x)
    show ?thesis
    proof (cases c)
      case Still_Waiting
      have "collect_loop env task n failed eng deadline d1 (snd (pause env 5 w1)) = (Inr (status, d), w')"
        using "1.prems" poll Inr x Still_Waiting by (subst (asm) collect_loop.simps) simp
      then show ?thesis using "1.IH" [OF poll [symmetric] Inr x [symmetric] Still_Waiting] by simp
    next
      case (Gathered st e)
      then have "st = status" "w1 = w'" using "1.prems" poll Inr x by (subst (asm) collect_loop.simps, simp)+
      then show ?thesis using collect_poll_gathers [of env task n failed eng deadline prev w status e d1 w'] poll Inr x Gathered
        by simp
    qed
  qed
qed

lemma confirm_clock: "confirm_cancellation env task w = (r, w') \<Longrightarrow> sw_now w \<le> sw_now w'"
  using keepsD [OF keeps_clock_confirm [of "sw_now w" env task], of w] by simp

text \<open>
  A collection that goes on to the analysis has a reason: at least as many agents were unreachable as there
  are targets, or every target sent its last batch once for each engine it runs, or the time of the scan's policy
  has passed. The stored task is then in the analysis.
\<close>

theorem collect_waits:
  assumes "collect env s w = (Inr s', w')" and "s_status s' = ''analyzing''"
  shows "\<exists>w1 d. confirm_cancellation env (s_task_id s) w = (Inr False, w1) \<and> d = map_of (sw_tasks w1) (s_task_id s) \<and>
    (int (s_total s) \<le> (case d of Some t \<Rightarrow> st_failed (t_stats t) | None \<Rightarrow> 0) \<or>
     s_total s * lanes (case d of Some t \<Rightarrow> t_engine t | None \<Rightarrow> Matcher) \<le> length (finals (results_of env (s_task_id s) w')) \<or>
     sw_now w + collect_ttl s \<le> sw_now w') \<and>
    map_option t_status (map_of (sw_tasks w') (s_task_id s)) = Some T_Analyzing"
proof -
  obtain w1 where conf: "confirm_cancellation env (s_task_id s) w = (Inr False, w1)"
    and rest: "io_bind (io_gets (\<lambda>w. sw_now w + collect_ttl s)) (\<lambda>deadline.
       io_bind (get_task (s_task_id s)) (\<lambda>t.
       let failed = (case t of Some d \<Rightarrow> st_failed (t_stats d) | None \<Rightarrow> 0) in
       if failed \<ge> int (s_total s) then
         io_bind (update_task (s_task_id s) (\<lambda>d. d\<lparr>t_status := T_Analyzing\<rparr>)) (\<lambda>_.
         io_return (s\<lparr>s_status := ''analyzing'', s_received := 0\<rparr>))
       else
         io_bind (collect_loop env (s_task_id s) (s_total s) failed (case t of Some d \<Rightarrow> t_engine d | None \<Rightarrow> Matcher)
            deadline 0) (\<lambda>(status, done).
         io_return (s\<lparr>s_status := status, s_received := done\<rparr>)))) w1 = (Inr s', w')"
    using assms by (auto simp: collect_def io_bind_Inr io_simps split: if_splits)
  let ?d = "map_of (sw_tasks w1) (s_task_id s)"
  note clock = confirm_clock [OF conf]
  have "(int (s_total s) \<le> (case ?d of Some t \<Rightarrow> st_failed (t_stats t) | None \<Rightarrow> 0) \<or>
     enough env (s_task_id s) (s_total s) (case ?d of Some t \<Rightarrow> t_engine t | None \<Rightarrow> Matcher) (sw_now w1 + collect_ttl s) w') \<and>
    map_option t_status (map_of (sw_tasks w') (s_task_id s)) = Some T_Analyzing"
    using rest assms(2)
    by (auto simp: io_bind_Inr Let_def get_task_def es_do_Inr update_task_Inr io_simps update_conv' split: if_splits
        dest!: collect_loop_gathers)
  with clock conf show ?thesis by (auto simp: enough_def)
qed

section \<open>Cancelling\<close>

text \<open>Nobody takes the mark back, removes the stored task or the search service.\<close>

definition stays_cancelled :: "scan_env \<Rightarrow> string \<Rightarrow> bool" where
  "stays_cancelled env task \<longleftrightarrow> (\<forall>w. task \<in> set (sw_cancelled w) \<longrightarrow> sw_es w \<longrightarrow> map_of (sw_tasks w) task \<noteq> None \<longrightarrow>
     task \<in> set (sw_cancelled (sc_others env w)) \<and> sw_es (sc_others env w) \<and> map_of (sw_tasks (sc_others env w)) task \<noteq> None)"

lemma is_cancelled_marked: "task \<in> set (sw_cancelled w) \<Longrightarrow> is_task_cancelled task w = (Inr True, w)"
  by (simp add: is_task_cancelled_def redis_do_def io_try_def io_gets_def io_return_def is_Exception_def)

lemma confirm_marked:
  assumes "task \<in> set (sw_cancelled w)" and "task \<in> set (sw_cancelled (sc_others env w))"
  shows "confirm_cancellation env task w = (Inr True, snd (pause env 1 w))"
  using assms by (simp add: confirm_cancellation_def io_bind_def is_cancelled_marked pause_def io_modify_def Let_def io_return_def)

lemma pub_progress_same: "\<exists>p. pub_progress task a b c w = (Inr (), w\<lparr>sw_progress := p\<rparr>)"
proof (cases "sw_redis w")
  case True
  then show ?thesis by (auto simp: pub_progress_def quietly_def redis_do_def io_try_def io_modify_def)
next
  case False
  then have "pub_progress task a b c w = (Inr (), w\<lparr>sw_progress := sw_progress w\<rparr>)"
    by (simp add: pub_progress_def quietly_def redis_do_def io_try_def is_Exception_def io_return_def)
  then show ?thesis by blast
qed

text \<open>
  C14: A scan that is cancelled before it starts, and stays so, ends cancelled whatever the other processes do: no
  command is sent, nothing is collected, no report is written, and the stored task ends cancelled.
\<close>

theorem cancelled_scan_sends_nothing:
  assumes "q_source q = ''manual''" and "q_task_id q \<noteq> []" and "stays_cancelled env (q_task_id q)"
    and "q_task_id q \<in> set (sw_cancelled w)" and "sw_es w" and "map_of (sw_tasks w) (q_task_id q) \<noteq> None"
  shows "\<exists>s' w'. run_vulnscan env ask fresh q w = (Inr s', w') \<and>
    s_status s' = ''cancelled'' \<and> \<not> s_dispatched s' \<and> s_findings s' = [] \<and> s_report s' = None \<and>
    sw_fleet w' = sw_fleet (sc_others env w) \<and> sw_vulns w' = sw_vulns (sc_others env w) \<and>
    sw_reports w' = sw_reports (sc_others env w) \<and>
    map_option t_status (map_of (sw_tasks w') (q_task_id q)) = Some T_Cancelled"
proof -
  let ?o = "sc_others env w" and ?task = "q_task_id q"
  let ?w = "snd (pause env 1 w)" and ?s = "default_state fresh q\<lparr>s_status := ''cancelled'', s_dispatched := False, s_total := 0\<rparr>"
  have o: "?task \<in> set (sw_cancelled ?o)" "sw_es ?o" "map_of (sw_tasks ?o) ?task \<noteq> None"
    using assms(3-6) by (auto simp: stays_cancelled_def)
  then obtain t where t: "map_of (sw_tasks ?o) ?task = Some t" by blast
  have w: "?w = ?o\<lparr>sw_now := max (sw_now w + 1) (sw_now ?o)\<rparr>" by (simp add: pause_def io_modify_def Let_def)
  have disp: "dispatch env (default_state fresh q\<lparr>s_status := ''dispatching''\<rparr>) w = (Inr ?s, ?w)"
    using assms(2,4) o(1) by (simp add: dispatch_def io_bind_def confirm_marked default_state_def io_return_def)
  let ?now = "fe_iso (sc_fleet env) (sw_now ?w)"
  let ?u = "?w\<lparr>sw_tasks := AList.update ?task (t\<lparr>t_status := T_Cancelled, t_finished := Some ?now\<rparr>) (sw_tasks ?w)\<rparr>"
  have upd: "update_task ?task (\<lambda>d. d\<lparr>t_status := T_Cancelled, t_finished := Some ?now\<rparr>) ?w = (Inr (), ?u)"
    unfolding update_task_Inr using o(2) t by (simp add: w)
  obtain p where p: "pub_progress ?task ''cancel'' ''done'' ''Scan cancelled'' ?u = (Inr (), ?u\<lparr>sw_progress := p\<rparr>)"
    using pub_progress_same by blast
  have id: "s_task_id (default_state fresh q) = ?task" using assms(2) by (simp add: default_state_def)
  have "run_vulnscan env ask fresh q w = (Inr (?s\<lparr>s_received := 0, s_findings := [], s_report := None\<rparr>), ?u\<lparr>sw_progress := p\<rparr>)"
    using assms(1) disp upd p
    by (simp add: run_vulnscan_def parse_intent_def io_bind_def collect_def aggregate_def llm_analysis_def generate_report_def
        io_return_def Let_def now_iso_def io_gets_def id) (simp add: default_state_def)
  then show ?thesis
    by (intro exI [of _ "?s\<lparr>s_received := 0, s_findings := [], s_report := None\<rparr>"] exI [of _ "?u\<lparr>sw_progress := p\<rparr>"] conjI)
      (simp_all add: w update_conv' default_state_def)
qed

section \<open>Reports\<close>

lemma sum_tally: "sum_list (map snd (tally f xs)) = length xs"
proof -
  have "sum_list (map snd (tally f xs)) = (\<Sum>k\<leftarrow>dedup_first (map f xs). length (filter (\<lambda>x. f x = k) xs))"
    by (simp add: tally_def comp_def)
  also have "\<dots> = (\<Sum>k\<in>f ` set xs. length (filter (\<lambda>x. f x = k) xs))"
    by (subst sum_list_distinct_conv_sum_set) simp_all
  also have "\<dots> = length xs"
  proof (induction xs)
    case (Cons x xs)
    have "(\<Sum>k\<in>f ` set (x # xs). length (filter (\<lambda>y. f y = k) (x # xs))) =
        (\<Sum>k\<in>f ` set (x # xs). (if k = f x then 1 else 0) + length (filter (\<lambda>y. f y = k) xs))"
      by (rule sum.cong) auto
    also have "\<dots> = 1 + (\<Sum>k\<in>insert (f x) (f ` set xs). length (filter (\<lambda>y. f y = k) xs))"
      by (simp add: sum.distrib)
    also have "(\<Sum>k\<in>insert (f x) (f ` set xs). length (filter (\<lambda>y. f y = k) xs)) = (\<Sum>k\<in>f ` set xs. length (filter (\<lambda>y. f y = k) xs))"
      by (rule sum.mono_neutral_right) (auto simp: filter_empty_conv)
    finally show ?case using Cons by simp
  qed simp
  finally show ?thesis .
qed

text \<open>
  The report of a scan counts what was found: every finding is in exactly one severity and one category, the
  filtered ones are those the analysis took out, and the list of the worst findings holds at most twenty that were
  not filtered, the worst first, complete when there are no more; the texts keep their bounds and there is always
  a recommendation.
\<close>

theorem report_counts:
  fixes vs :: "vuln list"
  defines "kept \<equiv> filter (\<lambda>v. \<not> v_ai_filtered v) vs"
  shows "let r = full_report task now ai vs texts in
    r_total r = length vs \<and> sum_list (map snd (r_by_severity r)) = r_total r \<and> sum_list (map snd (r_by_category r)) = r_total r \<and>
    r_filtered r + length kept = r_total r \<and> length (r_top r) = min 20 (length kept) \<and>
    sorted (map (severity_rank \<circ> tv_severity) (r_top r)) \<and> set (map tv_id (r_top r)) \<subseteq> set (map v_id kept) \<and>
    (\<forall>v\<in>set kept. top_of v \<notin> set (r_top r) \<longrightarrow> (\<forall>t\<in>set (r_top r). severity_rank (tv_severity t) \<le> severity_rank (v_severity v))) \<and>
    length (r_summary r) \<le> 500 \<and> length (r_analysis r) \<le> 1000 \<and> length (r_advice r) \<le> 1000 \<and> r_recommendations r \<noteq> []"
proof -
  let ?key = "severity_rank \<circ> v_severity"
  let ?sorted = "sort_key ?key kept"
  have sev: "severity_rank \<circ> tv_severity \<circ> top_of = ?key" by (simp add: fun_eq_iff top_of_def)
  have "sorted (map ?key ?sorted)" by simp
  then have srt: "sorted (map ?key (take 20 ?sorted))" and
    above: "\<forall>x\<in>set (take 20 ?sorted). \<forall>y\<in>set (drop 20 ?sorted). ?key x \<le> ?key y"
    by (metis append_take_drop_id map_append sorted_append)
      (metis (no_types, lifting) \<open>sorted (map ?key ?sorted)\<close> append_take_drop_id image_eqI list.set_map map_append sorted_append)
  have rest: "v \<in> set (drop 20 ?sorted)" if "v \<in> set kept" "top_of v \<notin> set (map top_of (take 20 ?sorted))" for v
  proof -
    have "v \<in> set (take 20 ?sorted @ drop 20 ?sorted)" unfolding append_take_drop_id using that(1) by simp
    then show ?thesis using that(2) unfolding set_append set_map by blast
  qed
  have ids: "set (map tv_id (map top_of (take 20 ?sorted))) \<subseteq> set (map v_id kept)"
    using set_take_subset [of 20 ?sorted] by (auto simp: top_of_def)
  have "length (filter v_ai_filtered vs) + length kept = length vs"
    unfolding kept_def by (rule sum_length_filter_compl)
  moreover have "sorted (map (severity_rank \<circ> tv_severity) (map top_of (take 20 ?sorted)))" using srt sev by simp
  moreover have "\<forall>v\<in>set kept. top_of v \<notin> set (map top_of (take 20 ?sorted)) \<longrightarrow>
      (\<forall>t\<in>set (map top_of (take 20 ?sorted)). severity_rank (tv_severity t) \<le> severity_rank (v_severity v))"
    using above rest by (force simp: top_of_def)
  ultimately show ?thesis using ids
    by (simp add: full_report_def Let_def sum_tally kept_def recommendations_def image_image min.commute)
qed

lemma report_counts_witness:
  "r_total (full_report ''t'' ''1'' False [] (None, None, [])) = 0 \<and> r_recommendations (full_report ''t'' ''1'' False [] (None, None, [])) \<noteq> []"
  using report_counts [of "''t''" "''1''" False "[]" "(None, None, [])"] by (simp add: Let_def)

section \<open>A small index\<close>

definition toy_scan :: scan_env where
  "toy_scan = \<lparr>sc_fleet = toy_env, sc_sign = toy_sign, sc_rt = toy_rt, sc_exn_str = (\<lambda>e. []), sc_others = (\<lambda>w. w),
     sc_instant = (\<lambda>s. case int_of_str s of Some i \<Rightarrow> i | None \<Rightarrow> 0),
     sc_fromiso = (\<lambda>s. map_option (Pair True) (int_of_str s)), sc_merge = True, sc_adapter = False, sc_model = [],
     sc_analyse = (\<lambda>n t v. Ok []), sc_chat = (\<lambda>k n t. Ok PNone), sc_retries = 1, sc_backoff = 1, sc_max_attempts = 3\<rparr>"

definition toy_finding :: "string \<Rightarrow> string \<Rightarrow> string \<Rightarrow> string \<Rightarrow> agent_finding" where
  "toy_finding i a c t = \<lparr>vf_id = i, vf_task = ''t'', vf_agent = a, vf_host = a, vf_category = Sys_Vuln, vf_cve = Some c,
     vf_name = ''openssl'', vf_severity = FHigh, vf_evidence = [], vf_fix = None, vf_detected = t\<rparr>"

definition toy_task :: scan_task where
  "toy_task = \<lparr>t_id = ''t'', t_source = ''manual'', t_intent = None, t_targets = [''a''], t_groups = [],
     t_policy = \<lparr>sp_modules = [Sys_Vuln], sp_limit = [], sp_timeout = 1800\<rparr>, t_rules = ''latest'', t_engine = Matcher,
     t_nuclei_severity = [], t_nuclei_tags = [], t_nuclei_templates = [], t_nuclei_timeout = 0, t_nuclei_ports = [],
     t_status = T_Scanning, t_stats = \<lparr>st_total = 1, st_done = 0, st_failed = 0\<rparr>, t_created = ''1'', t_finished = None,
     t_error = None\<rparr>"

text \<open>
  Host \<open>a\<close> has two copies of one finding and another one that is no longer there; host \<open>b\<close> was not scanned.
\<close>

definition toy_index :: scan_world where
  "toy_index = \<lparr>sw_fleet = toy_fleet, sw_now = 100, sw_es = True, sw_redis = True, sw_tasks = [(''t'', toy_task)],
     sw_results = [\<lparr>sr_task = ''t'', sr_agent = ''a'', sr_host = ''a'', sr_findings = [toy_finding ''v9'' ''a'' ''CVE-1'' ''50''],
       sr_batch = 1, sr_final = True, sr_ts = ''60'', sr_categories = [''sys_vuln'']\<rparr>],
     sw_vulns = map (\<lambda>v. (v_id v, v)) [vuln_of (toy_finding ''v1'' ''a'' ''CVE-1'' ''1''), vuln_of (toy_finding ''v2'' ''a'' ''CVE-1'' ''2''),
       vuln_of (toy_finding ''v3'' ''a'' ''CVE-3'' ''1''), vuln_of (toy_finding ''v4'' ''b'' ''CVE-1'' ''1'')],
     sw_reports = [], sw_cancelled = [], sw_collect = [], sw_retry = [], sw_outcome = [], sw_usage = [], sw_progress = [],
     sw_audit = []\<rparr>"

definition toy_request :: scan_request where
  "toy_request = \<lparr>q_source = ''manual'', q_intent = None, q_targets = [''a''], q_modules = [], q_task_id = ''t'',
     q_engine = ''matcher'', q_nuclei_severity = [], q_nuclei_tags = [], q_nuclei_templates = [], q_nuclei_timeout = 0,
     q_groups = [], q_nuclei_ports = []\<rparr>"

abbreviation toy_state :: scan_state where "toy_state \<equiv> default_state [] toy_request"

lemma toy_merging: "merging toy_scan toy_state toy_index" "docs_ok (sw_vulns toy_index)"
  "fresh_ids (sw_vulns toy_index) (results_of toy_scan (s_task_id toy_state) toy_index)"
  unfolding docs_ok_def by code_simp+

lemma toy_aggregated:
  "\<exists>s'. aggregate toy_scan toy_state toy_index = (Inr s', snd (aggregate toy_scan toy_state toy_index))"
proof -
  have "\<not> isl (fst (aggregate toy_scan toy_state toy_index))" by code_simp
  then show ?thesis by (metis isl_def obj_sumE prod.collapse)
qed




theorem collect_waits_witness:
  "length (finals (results_of toy_scan ''t'' (snd (collect toy_scan (toy_state\<lparr>s_total := 1\<rparr>) toy_index)))) \<ge> 1 \<and>
   map_option t_status (map_of (sw_tasks (snd (collect toy_scan (toy_state\<lparr>s_total := 1\<rparr>) toy_index))) ''t'') = Some T_Analyzing"
proof -
  let ?s = "toy_state\<lparr>s_total := 1\<rparr>"
  have "(case fst (collect toy_scan ?s toy_index) of Inr s' \<Rightarrow> s_status s' = ''analyzing'' | Inl e \<Rightarrow> False)" by code_simp
  then obtain s' where run: "collect toy_scan ?s toy_index = (Inr s', snd (collect toy_scan ?s toy_index))"
    "s_status s' = ''analyzing''"
    by (cases "collect toy_scan ?s toy_index") (auto split: sum.splits)
  have "confirm_cancellation toy_scan (s_task_id ?s) toy_index = (Inr False, toy_index)" by (rule confirm_no_mark) code_simp+
  with collect_waits [OF run]
  have "(int (s_total ?s) \<le> (case map_of (sw_tasks toy_index) (s_task_id ?s) of Some t \<Rightarrow> st_failed (t_stats t) | None \<Rightarrow> 0) \<or>
     s_total ?s * lanes (case map_of (sw_tasks toy_index) (s_task_id ?s) of Some t \<Rightarrow> t_engine t | None \<Rightarrow> Matcher)
       \<le> length (finals (results_of toy_scan (s_task_id ?s) (snd (collect toy_scan ?s toy_index)))) \<or>
     sw_now toy_index + collect_ttl ?s \<le> sw_now (snd (collect toy_scan ?s toy_index))) \<and>
    map_option t_status (map_of (sw_tasks (snd (collect toy_scan ?s toy_index))) (s_task_id ?s)) = Some T_Analyzing"
    by (auto simp del: mult_eq_if)
  moreover have "\<not> int (s_total ?s) \<le> (case map_of (sw_tasks toy_index) (s_task_id ?s) of Some t \<Rightarrow> st_failed (t_stats t) | None \<Rightarrow> 0)"
    by code_simp
  moreover have "\<not> sw_now toy_index + collect_ttl ?s \<le> sw_now (snd (collect toy_scan ?s toy_index))" by code_simp
  moreover have "s_task_id ?s = ''t''" "s_total ?s * lanes (case map_of (sw_tasks toy_index) (s_task_id ?s) of Some t \<Rightarrow> t_engine t | None \<Rightarrow> Matcher) = 1"
    by code_simp+
  ultimately show ?thesis by simp
qed

theorem cancelled_scan_sends_nothing_witness:
  "\<exists>s' w'. run_vulnscan toy_scan (\<lambda>t. io_raise ValueError) [] toy_request (toy_index\<lparr>sw_cancelled := [''t'']\<rparr>) = (Inr s', w') \<and>
     s_status s' = ''cancelled'' \<and> map_option t_status (map_of (sw_tasks w') ''t'') = Some T_Cancelled"
proof -
  have "stays_cancelled toy_scan ''t''" by (simp add: stays_cancelled_def toy_scan_def)
  with cancelled_scan_sends_nothing [of toy_request toy_scan "toy_index\<lparr>sw_cancelled := [''t'']\<rparr>" "\<lambda>t. io_raise ValueError" "[]"]
  show ?thesis by (auto simp: toy_request_def toy_index_def)
qed

section \<open>Behaviours worth knowing\<close>

text \<open>
  A scan with both engines on two agents, one of them offline, has two failed deliveries for two targets: it does
  not wait for the agent that is at work.
\<close>

lemma global_scan_does_not_wait:
  "map_option s_received (case fst (collect toy_scan (toy_state\<lparr>s_total := 2\<rparr>) (toy_index\<lparr>sw_tasks := [(''t'', toy_task\<lparr>t_engine := Global,
     t_stats := \<lparr>st_total = 2, st_done = 2, st_failed = 2\<rparr>\<rparr>)]\<rparr>)) of Inr s \<Rightarrow> Some s | Inl e \<Rightarrow> None) = Some 0"
  by code_simp

text \<open>A scan for which no agent was found goes on and its task ends completed.\<close>

lemma no_targets_completes:
  "map_option (\<lambda>t. (t_status t, t_error t)) (map_of (sw_tasks (snd (run_vulnscan toy_scan (\<lambda>t. io_raise ValueError) []
     (toy_request\<lparr>q_targets := []\<rparr>) (toy_index\<lparr>sw_vulns := [], sw_results := []\<rparr>)))) ''t'') =
   Some (T_Completed, Some ''No target agents found'')"
  by code_simp

text \<open>Reading all findings fails as soon as the first page is full.\<close>

lemma full_page_fails:
  "fst (list_vulns_all toy_scan (no_filter\<lparr>f_limit := 4\<rparr>) toy_index) =
     Raise (ExtError ''search_after has 1 value(s) but sort has 2.'')"
  by code_simp

text \<open>Repeating a failed analysis gives up before it has asked anything.\<close>

lemma rescan_never_asks:
  "fst (rescan_one_batch toy_scan ''t'' (toy_index\<lparr>sw_vulns := [(''v1'', (vuln_of (toy_finding ''v1'' ''a'' ''CVE-1'' ''1''))\<lparr>v_task := ''t''\<rparr>)],
     sw_retry := [(''t'', [(''v1'', 1)])]\<rparr>)) = Ok False"
  by code_simp

end
