(* ===== verification/Linter.thy ===== *)
theory Linter
  imports Prelude
begin

text \<open>
  The static checks on a generated proof of concept before it may run in the sandbox
  (\<open>src/execution/linter/poc_linter.py\<close>): the syntax, the imported modules, the called functions. The syntax tree
  has the nodes the checks look at; every other node is \<open>Node\<close> with its children. The parser of the interpreter is
  an argument.
\<close>

section \<open>Syntax trees\<close>

datatype pyast =
    Import "(string \<times> string option) list" nat
  | Import_From "string option" "(string \<times> string option) list" nat
  | Call pyast "pyast list" nat
  | Name string
  | Attribute pyast string
  | Node "pyast list"

fun children :: "pyast \<Rightarrow> pyast list" where
  "children (Call f args line) = f # args"
| "children (Attribute v a) = [v]"
| "children (Node ts) = ts"
| "children _ = []"

text \<open>\<open>ast.walk\<close>: breadth first, children behind everything that is waiting.\<close>

lemma size_children: "sum_list (map (\<lambda>t. Suc (size t)) (children t)) \<le> size t"
  by (cases t) (simp_all add: size_list_conv_sum_list sum_list_Suc)

function walk_queue :: "pyast list \<Rightarrow> pyast list" where
  "walk_queue [] = []"
| "walk_queue (t # ts) = t # walk_queue (ts @ children t)"
  by pat_completeness auto
termination
  by (relation "measure (\<lambda>ts. sum_list (map (\<lambda>t. Suc (size t)) ts))") (simp_all add: size_children less_Suc_eq_le)

definition walk :: "pyast \<Rightarrow> pyast list" where
  "walk t = walk_queue [t]"

record syntax_error =
  err_msg :: string
  err_line :: "nat option"
  err_text :: "string option"

datatype parsed = Parsed pyast | Malformed syntax_error | Parse_Raises exn

section \<open>The checks\<close>

definition ALLOWED_IMPORTS :: "string list" where
  "ALLOWED_IMPORTS = [''requests'', ''json'', ''re'', ''time'', ''sys'', ''struct'', ''hashlib'', ''base64'', ''urllib'',
     ''http'', ''ssl'', ''threading'', ''itertools'', ''functools'', ''string'', ''collections'', ''math'', ''random'',
     ''binascii'', ''hmac'', ''socket'']"

definition DANGEROUS_CALLS :: "string list" where
  "DANGEROUS_CALLS = [''os.system'', ''os.popen'', ''os.execv'', ''os.execvp'', ''subprocess.run'', ''subprocess.Popen'',
     ''subprocess.call'', ''subprocess.check_output'', ''eval'', ''exec'', ''compile'', ''__import__'', ''open'',
     ''builtins.open'', ''getattr'']"

datatype lint_error = Bad_Syntax | Bad_Import | Dangerous_Call

record linter_result =
  lr_passed :: bool
  lr_error :: "lint_error option"
  lr_detail :: "string option"
  lr_suggestion :: "string option"
  lr_line :: "nat option"

definition lint_ok :: linter_result where
  "lint_ok = \<lparr>lr_passed = True, lr_error = None, lr_detail = None, lr_suggestion = None, lr_line = None\<rparr>"

definition rejected :: "lint_error \<Rightarrow> string \<Rightarrow> string \<Rightarrow> nat option \<Rightarrow> linter_result" where
  "rejected e detail suggestion line = \<lparr>lr_passed = False, lr_error = Some e, lr_detail = Some detail,
     lr_suggestion = Some suggestion, lr_line = line\<rparr>"

definition or_none :: "('a \<Rightarrow> string) \<Rightarrow> 'a option \<Rightarrow> string" where
  "or_none f v = (case v of Some x \<Rightarrow> f x | None \<Rightarrow> ''None'')"

definition syntax_check :: "(string \<Rightarrow> parsed) \<Rightarrow> string \<Rightarrow> linter_result res" where
  "syntax_check parse code = (case parse code of
      Parsed t \<Rightarrow> Ok lint_ok
    | Malformed e \<Rightarrow> Ok (rejected Bad_Syntax (err_msg e)
        (''Fix syntax error near line '' @ or_none nat_to_str (err_line e) @ '': '' @ or_none id (err_text e)) (err_line e))
    | Parse_Raises e \<Rightarrow> Raise e)"

definition top_module :: "string \<Rightarrow> string" where
  "top_module m = hd (split_on CHR ''.'' m)"

definition allowed_text :: string where
  "allowed_text = ''Use one of the allowed modules: '' @ join '', '' (sort ALLOWED_IMPORTS)"

definition import_error :: "pyast \<Rightarrow> linter_result option" where
  "import_error t = (case t of
      Import names line \<Rightarrow>
        (case find (\<lambda>(n, as). top_module n \<notin> set ALLOWED_IMPORTS) names of
           Some (n, as) \<Rightarrow> Some (rejected Bad_Import (''Import '' @ [CHR 0x27] @ n @ [CHR 0x27] @ '' is not in the allowlist'')
             allowed_text (Some line))
         | None \<Rightarrow> None)
    | Import_From m names line \<Rightarrow>
        (let top = top_module (case m of Some x \<Rightarrow> x | None \<Rightarrow> []) in
         if top \<noteq> [] \<and> top \<notin> set ALLOWED_IMPORTS
         then Some (rejected Bad_Import (''Import from '' @ [CHR 0x27] @ or_none id m @ [CHR 0x27] @ '' is not in the allowlist'')
           allowed_text (Some line))
         else None)
    | _ \<Rightarrow> None)"

text \<open>The first error of a node, in the order of the walk.\<close>

definition first_error :: "(pyast \<Rightarrow> linter_result option) \<Rightarrow> pyast \<Rightarrow> linter_result" where
  "first_error f t = (case List.map_filter f (walk t) of r # rs \<Rightarrow> r | [] \<Rightarrow> lint_ok)"

text \<open>A parse that raises again raises; a malformed text passes the later checks.\<close>

definition tree_check :: "(string \<Rightarrow> parsed) \<Rightarrow> (pyast \<Rightarrow> linter_result option) \<Rightarrow> string \<Rightarrow> linter_result res" where
  "tree_check parse f code = (case parse code of
      Parsed t \<Rightarrow> Ok (first_error f t)
    | Malformed e \<Rightarrow> Ok lint_ok
    | Parse_Raises e \<Rightarrow> Raise e)"

definition import_check :: "(string \<Rightarrow> parsed) \<Rightarrow> string \<Rightarrow> linter_result res" where
  "import_check parse code = tree_check parse import_error code"

fun call_name :: "pyast \<Rightarrow> string" where
  "call_name (Name x) = x"
| "call_name (Attribute v a) = call_name v @ ''.'' @ a"
| "call_name _ = []"

definition node_aliases :: "pyast \<Rightarrow> (string \<times> string) list" where
  "node_aliases t = (case t of
      Import names line \<Rightarrow> map (\<lambda>(n, as). (case as of Some (c # cs) \<Rightarrow> c # cs | _ \<Rightarrow> n, top_module n)) names
    | Import_From m names line \<Rightarrow>
        map (\<lambda>(n, as). (case as of Some (c # cs) \<Rightarrow> c # cs | _ \<Rightarrow> n, top_module (case m of Some x \<Rightarrow> x | None \<Rightarrow> []))) names
    | _ \<Rightarrow> [])"

text \<open>A later import of the same name wins.\<close>

definition build_alias_map :: "(string \<Rightarrow> parsed) \<Rightarrow> string \<Rightarrow> (string \<times> string) list res" where
  "build_alias_map parse code = (case parse code of
      Parsed t \<Rightarrow> Ok (dupdate [] (concat (map node_aliases (walk t))))
    | Malformed e \<Rightarrow> Ok []
    | Parse_Raises e \<Rightarrow> Raise e)"

definition resolve_call :: "(string \<times> string) list \<Rightarrow> string \<Rightarrow> string" where
  "resolve_call aliases name =
     (let (first, rest) = (case split_once CHR ''.'' name of Some (a, b) \<Rightarrow> (a, Some b) | None \<Rightarrow> (name, None)) in
      case map_of aliases first of
        None \<Rightarrow> name
      | Some m \<Rightarrow>
          (let resolved = m @ (case rest of Some r \<Rightarrow> ''.'' @ r | None \<Rightarrow> []) in
           if resolved \<in> set DANGEROUS_CALLS then resolved else name))"

definition call_error :: "(string \<times> string) list \<Rightarrow> pyast \<Rightarrow> linter_result option" where
  "call_error aliases t = (case t of
      Call f args line \<Rightarrow>
        (let name = resolve_call aliases (call_name f) in
         if name \<in> set DANGEROUS_CALLS
         then Some (rejected Dangerous_Call (''Dangerous call '' @ [CHR 0x27] @ name @ [CHR 0x27] @ '' is prohibited in sandbox'')
           (''Remove the call to '' @ [CHR 0x27] @ name @ [CHR 0x27]) (Some line))
         else None)
    | _ \<Rightarrow> None)"

definition dangerous_call_check :: "(string \<Rightarrow> parsed) \<Rightarrow> string \<Rightarrow> (string \<times> string) list \<Rightarrow> linter_result res" where
  "dangerous_call_check parse code aliases = tree_check parse (call_error aliases) code"

definition lint :: "(string \<Rightarrow> parsed) \<Rightarrow> string \<Rightarrow> linter_result res" where
  "lint parse code =
     rbind (syntax_check parse code) (\<lambda>r.
     if \<not> lr_passed r then Ok r
     else rbind (build_alias_map parse code) (\<lambda>aliases.
          rbind (import_check parse code) (\<lambda>r.
          if \<not> lr_passed r then Ok r else dangerous_call_check parse code aliases)))"

section \<open>What passes\<close>

text \<open>All parts of a tree, by its structure.\<close>

fun parts :: "pyast \<Rightarrow> pyast set" where
  "parts (Call f args line) = insert (Call f args line) (parts f \<union> (\<Union>t\<in>set args. parts t))"
| "parts (Attribute v a) = insert (Attribute v a) (parts v)"
| "parts (Node ts) = insert (Node ts) (\<Union>t\<in>set ts. parts t)"
| "parts t = {t}"

lemma parts_children: "parts t = insert t (\<Union>c\<in>set (children t). parts c)"
  by (cases t) (simp_all only: parts.simps children.simps list.set UN_insert UN_empty Un_empty_right)

lemma set_walk_queue: "set (walk_queue ts) = (\<Union>t\<in>set ts. parts t)"
proof (induction ts rule: walk_queue.induct)
  case (2 t ts)
  then show ?case using parts_children [of t] by auto
qed simp

lemma set_walk [simp]: "set (walk t) = parts t"
  unfolding walk_def set_walk_queue by simp

lemma first_error_passed:
  assumes "\<And>t r. f t = Some r \<Longrightarrow> \<not> lr_passed r"
  shows "lr_passed (first_error f t) \<longleftrightarrow> (\<forall>p\<in>parts t. f p = None)"
proof (cases "List.map_filter f (walk t)")
  case Nil
  then have "\<forall>p\<in>set (walk t). f p = None" by (auto simp: List.map_filter_def filter_empty_conv)
  with Nil show ?thesis by (simp add: first_error_def lint_ok_def)
next
  case (Cons r rs)
  then have "r \<in> set (List.map_filter f (walk t))" by simp
  then obtain p where "p \<in> set (walk t)" "f p = Some r" by (auto simp: List.map_filter_def)
  then show ?thesis using assms Cons by (auto simp: first_error_def)
qed

definition imports_of :: "pyast \<Rightarrow> string set" where
  "imports_of t = (case t of
      Import names line \<Rightarrow> top_module ` fst ` set names
    | Import_From (Some m) names line \<Rightarrow> {top_module m} - {[]}
    | _ \<Rightarrow> {})"

lemma import_error_None: "import_error t = None \<longleftrightarrow> imports_of t \<subseteq> set ALLOWED_IMPORTS"
proof (cases t)
  case (Import names line)
  have "import_error t = None \<longleftrightarrow> find (\<lambda>(n, as). top_module n \<notin> set ALLOWED_IMPORTS) names = None"
    by (simp add: import_error_def Import split: option.split prod.split)
  also have "\<dots> \<longleftrightarrow> imports_of t \<subseteq> set ALLOWED_IMPORTS"
    by (fastforce simp: imports_of_def Import find_None_iff)
  finally show ?thesis .
next
  case (Import_From m names line)
  have "top_module [] = []" by (simp add: top_module_def)
  then show ?thesis using Import_From by (cases m) (simp_all add: import_error_def imports_of_def Let_def subset_iff)
qed (simp_all add: import_error_def imports_of_def)


lemma import_error_fails: "import_error t = Some r \<Longrightarrow> \<not> lr_passed r"
  by (auto simp: import_error_def rejected_def Let_def split: pyast.splits option.splits if_splits)

lemma call_error_fails: "call_error aliases t = Some r \<Longrightarrow> \<not> lr_passed r"
  by (auto simp: call_error_def rejected_def Let_def split: pyast.splits if_splits)

text \<open>What a call means under the aliases: the written name, or the one its first part stands for.\<close>

definition calls_dangerous :: "(string \<times> string) list \<Rightarrow> pyast \<Rightarrow> bool" where
  "calls_dangerous aliases t \<longleftrightarrow> (\<exists>f args line. t = Call f args line \<and>
     (call_name f \<in> set DANGEROUS_CALLS \<or> resolve_call aliases (call_name f) \<in> set DANGEROUS_CALLS))"

lemma resolve_dangerous: "name \<in> set DANGEROUS_CALLS \<Longrightarrow> resolve_call aliases name \<in> set DANGEROUS_CALLS"
  by (simp add: resolve_call_def Let_def split: option.split prod.split)

lemma call_error_None: "call_error aliases t = None \<longleftrightarrow> \<not> calls_dangerous aliases t"
  using resolve_dangerous by (cases t) (auto simp: call_error_def calls_dangerous_def Let_def)

definition harmless :: "(string \<times> string) list \<Rightarrow> pyast set" where
  "harmless aliases = {p. imports_of p \<subseteq> set ALLOWED_IMPORTS \<and> \<not> calls_dangerous aliases p}"

definition aliases_of :: "pyast \<Rightarrow> (string \<times> string) list" where
  "aliases_of t = dupdate [] (concat (map node_aliases (walk t)))"


text \<open>
  A rejection names an error that is there: at the line of the node it is about.
\<close>

definition line_of :: "pyast \<Rightarrow> nat option" where
  "line_of t = (case t of Import names line \<Rightarrow> Some line | Import_From m names line \<Rightarrow> Some line
     | Call f args line \<Rightarrow> Some line | _ \<Rightarrow> None)"

lemma first_error_found: "\<not> lr_passed (first_error f t) \<Longrightarrow> \<exists>p\<in>parts t. f p = Some (first_error f t)"
proof -
  assume "\<not> lr_passed (first_error f t)"
  then obtain r rs where m: "List.map_filter f (walk t) = r # rs"
    by (cases "List.map_filter f (walk t)") (auto simp: first_error_def lint_ok_def)
  have "r \<in> set (List.map_filter f (walk t))" by (simp add: m)
  then have "\<exists>p\<in>parts t. f p = Some r" by (force simp: List.map_filter_def)
  then show ?thesis by (simp add: first_error_def m)
qed

text \<open>
  A rejection names an error that is there: a forbidden import or a dangerous call is reported with the line of
  a node that is one.
\<close>

theorem lint_rejection_located:
  assumes "parse code = Parsed t" and "lint parse code = Ok r" and "\<not> lr_passed r"
  shows "\<exists>p\<in>parts t. lr_line r = line_of p \<and>
    (lr_error r = Some Bad_Import \<and> \<not> imports_of p \<subseteq> set ALLOWED_IMPORTS \<or>
     lr_error r = Some Dangerous_Call \<and> calls_dangerous (aliases_of t) p)"
proof -
  have imp: "lr_line x = line_of p \<and> lr_error x = Some Bad_Import" if "import_error p = Some x" for p x
    using that by (auto simp: import_error_def rejected_def line_of_def Let_def split: pyast.splits option.splits if_splits)
  have call: "lr_line x = line_of p \<and> lr_error x = Some Dangerous_Call" if "call_error (aliases_of t) p = Some x" for p x
    using that by (auto simp: call_error_def rejected_def line_of_def Let_def split: pyast.splits if_splits)
  have run: "r = (if lr_passed (first_error import_error t) then first_error (call_error (aliases_of t)) t
      else first_error import_error t)"
    using assms(1,2) by (auto simp: lint_def syntax_check_def lint_ok_def build_alias_map_def import_check_def
        tree_check_def dangerous_call_check_def aliases_of_def split: if_splits)
  show ?thesis
  proof (cases "lr_passed (first_error import_error t)")
    case True
    then obtain p where "p \<in> parts t" "call_error (aliases_of t) p = Some r"
      using run assms(3) first_error_found [of "call_error (aliases_of t)" t] by auto
    then show ?thesis using call call_error_None [of "aliases_of t" p] by auto
  next
    case False
    then obtain p where "p \<in> parts t" "import_error p = Some r"
      using run first_error_found [of import_error t] by auto
    then show ?thesis using imp import_error_None [of p] by auto
  qed
qed

section \<open>Examples\<close>

definition toy_parse :: "string \<Rightarrow> parsed" where
  "toy_parse code =
     (if code = ''import sys; sys.modules[0].system()''
      then Parsed (Node [Import [(''sys'', None)] 1,
        Node [Call (Attribute (Node [Attribute (Name ''sys'') ''modules'']) ''system'') [] 1]])
      else if code = ''import os as o; o.system()''
      then Parsed (Node [Import [(''os'', Some ''o'')] 1, Node [Call (Attribute (Name ''o'') ''system'') [] 1]])
      else Malformed \<lparr>err_msg = ''invalid syntax'', err_line = Some 1, err_text = None\<rparr>)"

theorem lint_rejection_located_witness:
  "\<exists>p\<in>parts (Node [Import [(''os'', Some ''o'')] 1, Node [Call (Attribute (Name ''o'') ''system'') [] 1]]).
     line_of p = Some 1"
proof -
  let ?code = "''import os as o; o.system()''"
  let ?t = "Node [Import [(''os'', Some ''o'')] 1, Node [Call (Attribute (Name ''o'') ''system'') [] 1]]"
  let ?r = "rejected Bad_Import (''Import '' @ [CHR 0x27] @ ''os'' @ [CHR 0x27] @ '' is not in the allowlist'') allowed_text (Some 1)"
  have p: "toy_parse ?code = Parsed ?t" by code_simp
  have r: "lint toy_parse ?code = Ok ?r" by code_simp
  have "\<not> lr_passed ?r" "lr_line ?r = Some 1" by (simp_all add: rejected_def)
  with lint_rejection_located [OF p r] show ?thesis by metis
qed

text \<open>
  What the name of a called function does not show is not checked: through an element of a table of the allowed
  module \<open>sys\<close> every function can be called.
\<close>

lemma lint_passes_indirect_call:
  "lint toy_parse ''import sys; sys.modules[0].system()'' = Ok lint_ok"
  by code_simp

end
