(* ===== verification/Responses.thy ===== *)
theory Responses
  imports CommandLaws
begin

text \<open>
  Defensive actions an operator sends to one agent (\<open>src/agents/response_actions.py\<close>,
  \<open>src/api/routers/responses.py\<close>): validation, the message, the audit record, the status slot, delivery through
  the gateway and reading the status. \<open>as_int\<close> is what the validation library makes an integer of; the role of the
  caller has been checked before the endpoints run.
\<close>

section \<open>Payloads\<close>

definition SUPPORTED_ACTIONS :: "string list" where
  "SUPPORTED_ACTIONS = [''kill_process'', ''quarantine_file'']"

definition SIGNALS :: "string list" where
  "SIGNALS = [''SIGKILL'', ''SIGTERM'', ''SIGABRT'']"

text \<open>An absolute path, or anything whose second character is a colon.\<close>

definition abs_path :: "string \<Rightarrow> bool" where
  "abs_path p \<longleftrightarrow> startswith p ''/'' \<or> length p \<ge> 2 \<and> p ! 1 = CHR '':''"

definition kill_process_payload :: "(pyval \<Rightarrow> int option) \<Rightarrow> pydict \<Rightarrow> pydict res" where
  "kill_process_payload as_int d =
     (case map_of d ''pid'' of
        None \<Rightarrow> Raise ValueError
      | Some v \<Rightarrow>
          (case as_int v of
             None \<Rightarrow> Raise ValueError
           | Some pid \<Rightarrow>
               if pid < 1 \<or> pid > 4194304 then Raise ValueError
               else (case map_of d ''signal'' of
                   None \<Rightarrow> Ok [(''pid'', PInt pid), (''signal'', PStr ''SIGKILL'')]
                 | Some (PStr s) \<Rightarrow> if s \<in> set SIGNALS then Ok [(''pid'', PInt pid), (''signal'', PStr s)] else Raise ValueError
                 | Some _ \<Rightarrow> Raise ValueError)))"

definition quarantine_file_payload :: "pydict \<Rightarrow> pydict res" where
  "quarantine_file_payload d =
     (case map_of d ''path'' of
        Some (PStr p) \<Rightarrow>
          if p = [] \<or> length p > 4096 \<or> \<not> abs_path p then Raise ValueError
          else (case map_of d ''reason'' of
              None \<Rightarrow> Ok [(''path'', PStr p), (''reason'', PStr [])]
            | Some (PStr r) \<Rightarrow> if length r > 512 then Raise ValueError else Ok [(''path'', PStr p), (''reason'', PStr r)]
            | Some _ \<Rightarrow> Raise ValueError)
      | _ \<Rightarrow> Raise ValueError)"

definition validated :: "(pyval \<Rightarrow> int option) \<Rightarrow> string \<Rightarrow> pydict \<Rightarrow> pydict res" where
  "validated as_int action params =
     (if action = ''kill_process'' then kill_process_payload as_int params
      else if action = ''quarantine_file'' then quarantine_file_payload params
      else Raise ValueError)"

text \<open>\<open>fresh\<close> is the random identifier of the action.\<close>

definition action_message :: "string \<Rightarrow> string \<Rightarrow> string \<Rightarrow> pydict \<Rightarrow> string \<Rightarrow> pydict" where
  "action_message now fresh action params actor =
     [(''v'', PInt 1), (''type'', PStr ''response_action''), (''ts'', PStr now),
      (''payload'', PDict [(''action_id'', PStr fresh), (''action'', PStr action), (''params'', PDict params),
        (''actor'', PStr actor), (''issued_at'', PStr now)])]"

definition build_action_message ::
    "(pyval \<Rightarrow> int option) \<Rightarrow> string \<Rightarrow> string \<Rightarrow> string \<Rightarrow> pydict \<Rightarrow> string \<Rightarrow> pydict res" where
  "build_action_message as_int now fresh action params actor =
     rbind (validated as_int action params) (\<lambda>p. Ok (action_message now fresh action p actor))"

text \<open>The answer before anything is built; \<open>detail\<close> is the text of a validation error.\<close>

definition parse_agent_id_from_action ::
    "(pyval \<Rightarrow> int option) \<Rightarrow> (string \<Rightarrow> pydict \<Rightarrow> string) \<Rightarrow> string \<Rightarrow> pydict \<Rightarrow> bool \<times> string" where
  "parse_agent_id_from_action as_int detail action params =
     (if action \<notin> set SUPPORTED_ACTIONS then (False, ''unsupported action: '' @ repr_str action)
      else case validated as_int action params of
        Inl e \<Rightarrow> (False, ''invalid params for '' @ action @ '': '' @ detail action params)
      | Inr p \<Rightarrow> (True, []))"

section \<open>The endpoints\<close>

record response_env =
  re_fleet :: fleet_env
  re_sign :: sign_env
  re_int :: "pyval \<Rightarrow> int option"
  re_detail :: "string \<Rightarrow> pydict \<Rightarrow> string"
  re_audit_up :: bool

record audit_row =
  au_event :: string
  au_node :: string
  au_action :: string
  au_actor :: string
  au_details :: pydict

record response_world =
  rw_fleet :: fleet
  rw_audit :: "audit_row list"

type_synonym 'a rio = "(response_world, 'a) io"

definition in_fleet :: "'a fio \<Rightarrow> 'a rio" where
  "in_fleet m = (\<lambda>w. case m (rw_fleet w) of (r, f) \<Rightarrow> (r, w\<lparr>rw_fleet := f\<rparr>))"

definition audit_response :: "response_env \<Rightarrow> audit_row \<Rightarrow> unit rio" where
  "audit_response env row = io_try
     (io_bind (io_guard (re_audit_up env) (ExtError ''audit'')) (\<lambda>_.
      io_modify (\<lambda>w. w\<lparr>rw_audit := rw_audit w @ [row]\<rparr>)))
     (\<lambda>e. io_return ())"

definition action_status_key :: "string \<Rightarrow> string" where
  "action_status_key i = ''response_action:status:'' @ i"

definition dispatched_status :: "response_env \<Rightarrow> string \<Rightarrow> string \<Rightarrow> string \<Rightarrow> pyval" where
  "dispatched_status env agent action actor = PDict [(''status'', PStr ''dispatched''), (''agent_id'', PStr agent),
     (''action'', PStr action), (''dispatched_at'', PInt (fe_now (re_fleet env))), (''actor'', PStr actor)]"

record dispatch_answer =
  da_id :: string
  da_action :: string
  da_agent :: string
  da_status :: string

definition bad_request :: "string \<Rightarrow> exn" where
  "bad_request detail = HTTPException 400 [detail]"

definition reason_of :: "pydict \<Rightarrow> string res" where
  "reason_of body = (case py_or (dget body ''reason'' PNone) (PStr []) of PStr s \<Rightarrow> Ok (strip s) | _ \<Rightarrow> Raise AttributeError)"

definition params_of :: "pydict \<Rightarrow> pydict res" where
  "params_of body = (case py_or (dget body ''params'' PNone) (PDict []) of
     PDict d \<Rightarrow> Ok d | _ \<Rightarrow> Raise (bad_request ''params must be a JSON object''))"

definition dispatch_action ::
    "response_env \<Rightarrow> string \<Rightarrow> string \<Rightarrow> string \<Rightarrow> pyval \<Rightarrow> string \<Rightarrow> dispatch_answer rio" where
  "dispatch_action env fresh agent action body actor =
     (if agent = [] \<or> length agent > 128 \<or> action = [] \<or> length action > 64 then io_raise (HTTPException 422 [])
      else if action \<notin> set SUPPORTED_ACTIONS then
        io_raise (bad_request (''unsupported action: '' @ repr_str action @ ''. allowed: [''
          @ join '', '' (map repr_str (sort SUPPORTED_ACTIONS)) @ '']''))
      else case body of
        PDict d \<Rightarrow>
          io_bind (io_lift (reason_of d)) (\<lambda>reason.
          io_bind (io_lift (params_of d)) (\<lambda>params.
          case parse_agent_id_from_action (re_int env) (re_detail env) action params of
            (False, why) \<Rightarrow> io_raise (bad_request why)
          | (True, _) \<Rightarrow>
              io_bind (io_lift (build_action_message (re_int env) (fe_iso (re_fleet env) (fe_now (re_fleet env)))
                fresh action params actor)) (\<lambda>msg.
              io_bind (audit_response env \<lparr>au_event = fresh, au_node = agent, au_action = ''response_action.'' @ action,
                au_actor = actor, au_details = [(''params'', PDict params), (''reason'', PStr reason)]\<rparr>) (\<lambda>_.
              io_bind (in_fleet (best_effort (kv_set (re_fleet env) (action_status_key fresh)
                (dispatched_status env agent action actor) (Some 300)))) (\<lambda>_.
              io_bind (in_fleet (send_to_agent (re_fleet env) (re_sign env) agent msg)) (\<lambda>ok.
              io_return \<lparr>da_id = fresh, da_action = action, da_agent = agent, da_status = ''dispatched''\<rparr>))))))
      | _ \<Rightarrow> io_raise (HTTPException 422 []))"

record action_status =
  as_id :: string
  as_status :: string
  as_detail :: string
  as_agent :: string
  as_received :: string

definition unknown_status :: "string \<Rightarrow> action_status" where
  "unknown_status i = \<lparr>as_id = i, as_status = ''unknown'', as_detail = [], as_agent = [], as_received = []\<rparr>"

definition get_action_status :: "response_env \<Rightarrow> pyrt \<Rightarrow> string \<Rightarrow> action_status rio" where
  "get_action_status env rt i =
     (if i = [] \<or> length i > 64 then io_raise (HTTPException 422 [])
      else io_bind (io_try (in_fleet (kv_get (re_fleet env) (action_status_key i)))
          (\<lambda>e. io_raise (HTTPException 503 [''status store unavailable'']))) (\<lambda>raw.
        case raw of
          None \<Rightarrow> io_return (unknown_status i)
        | Some (PDict d) \<Rightarrow> io_return \<lparr>as_id = i, as_status = py_str rt (dget d ''status'' (PStr ''unknown'')),
            as_detail = py_str rt (dget d ''detail'' (PStr [])), as_agent = py_str rt (dget d ''agent_id'' (PStr [])),
            as_received = py_str rt (dget d ''received_at'' (PStr []))\<rparr>
        | Some v \<Rightarrow> io_raise AttributeError))"


section \<open>What is sent, and what is reported\<close>

lemma audit_response_eq:
  "audit_response env row w = (Inr (), if re_audit_up env then w\<lparr>rw_audit := rw_audit w @ [row]\<rparr> else w)"
  by (simp add: audit_response_def io_try_def io_bind_def io_guard_def is_Exception_def)

lemma send_returns: "\<exists>ok f'. send_to_agent env se agent msg f = (Inr ok, f')"
  by (auto simp: send_to_agent_def io_try_def io_bind_def io_gets_def ws_send_def kv_publish_def kv_get_def kv_set_def
      redis_def io_guard_def is_Exception_def io_modify_def io_raise_def io_return_def Let_def
      split: option.splits prod.splits sum.splits)

definition slot :: "response_env \<Rightarrow> string \<Rightarrow> string \<Rightarrow> string \<Rightarrow> string \<Rightarrow> fleet \<Rightarrow> fleet" where
  "slot env fresh agent action actor f =
     (if fe_redis_up (re_fleet env)
      then kv_put (re_fleet env) (action_status_key fresh) (dispatched_status env agent action actor) (Some 300) f else f)"

lemma best_effort_slot:
  "best_effort (kv_set (re_fleet env) (action_status_key fresh) (dispatched_status env agent action actor) (Some 300)) f =
     (Inr (), slot env fresh agent action actor f)"
proof (cases "fe_redis_up (re_fleet env)")
  case True
  then show ?thesis by (simp add: best_effort_def slot_def io_try_def kv_up)
next
  case False
  then show ?thesis by (simp add: best_effort_def slot_def io_try_def kv_down is_Exception_def)
qed

definition well_addressed :: "string \<Rightarrow> string \<Rightarrow> bool" where
  "well_addressed agent action \<longleftrightarrow> agent \<noteq> [] \<and> length agent \<le> 128 \<and> action \<noteq> [] \<and> length action \<le> 64"

text \<open>The validated parameters of a request, if it is one.\<close>

definition accepted :: "response_env \<Rightarrow> string \<Rightarrow> string \<Rightarrow> pyval \<Rightarrow> (string \<times> pydict \<times> pydict) option" where
  "accepted env agent action body =
     (if well_addressed agent action \<and> action \<in> set SUPPORTED_ACTIONS then
        (case body of
           PDict d \<Rightarrow> (case rbind (reason_of d) (\<lambda>reason. rbind (params_of d) (\<lambda>params.
               rbind (validated (re_int env) action params) (\<lambda>p. Ok (reason, params, p)))) of
             Inr x \<Rightarrow> Some x | Inl e \<Rightarrow> None)
         | _ \<Rightarrow> None)
      else None)"

definition audit_of :: "string \<Rightarrow> string \<Rightarrow> string \<Rightarrow> string \<Rightarrow> pydict \<Rightarrow> string \<Rightarrow> audit_row" where
  "audit_of fresh agent action actor params reason = \<lparr>au_event = fresh, au_node = agent,
     au_action = ''response_action.'' @ action, au_actor = actor,
     au_details = [(''params'', PDict params), (''reason'', PStr reason)]\<rparr>"

lemma dispatch_rejects:
  assumes "accepted env agent action body = None"
  shows "\<exists>e. dispatch_action env fresh agent action body actor w = (Inl e, w)"
proof (cases "well_addressed agent action \<and> action \<in> set SUPPORTED_ACTIONS")
  case False
  then show ?thesis by (auto simp: dispatch_action_def well_addressed_def not_le)
next
  case True
  show ?thesis
  proof (cases body)
    case (PDict d)
    show ?thesis
    proof (cases "reason_of d")
      case (Inl e)
      then show ?thesis using True PDict by (auto simp: dispatch_action_def well_addressed_def io_bind_def io_lift_def)
    next
      case reason: (Inr reason)
      show ?thesis
      proof (cases "params_of d")
        case (Inl e)
        then show ?thesis using True PDict reason
          by (auto simp: dispatch_action_def well_addressed_def io_bind_def io_lift_def)
      next
        case params: (Inr params)
        then obtain e where "validated (re_int env) action params = Inl e"
          using assms True PDict reason by (cases "validated (re_int env) action params") (auto simp: accepted_def)
        then show ?thesis using True PDict reason params
          by (auto simp: dispatch_action_def well_addressed_def io_bind_def io_lift_def parse_agent_id_from_action_def)
      qed
    qed
  qed (use True in \<open>auto simp: dispatch_action_def well_addressed_def\<close>)
qed

lemma accepted_Some:
  assumes "accepted env agent action body = Some (reason, params, p)"
  obtains d where "body = PDict d" "well_addressed agent action" "action \<in> set SUPPORTED_ACTIONS"
    "reason_of d = Ok reason" "params_of d = Ok params" "validated (re_int env) action params = Ok p"
  using assms by (auto simp: accepted_def rbind_eq_Inr_iff split: if_splits pyval.splits sum.splits)

lemma dispatch_sends:
  assumes "accepted env agent action body = Some (reason, params, p)"
    and "send_to_agent (re_fleet env) (re_sign env) agent
       (action_message (fe_iso (re_fleet env) (fe_now (re_fleet env))) fresh action p actor)
       (slot env fresh agent action actor (rw_fleet w)) = (Inr ok, f)"
  shows "dispatch_action env fresh agent action body actor w =
    (Inr \<lparr>da_id = fresh, da_action = action, da_agent = agent, da_status = ''dispatched''\<rparr>,
     w\<lparr>rw_fleet := f, rw_audit := rw_audit w @ (if re_audit_up env then [audit_of fresh agent action actor params reason] else [])\<rparr>)"
proof -
  obtain d where d: "body = PDict d" "well_addressed agent action" "action \<in> set SUPPORTED_ACTIONS"
    "reason_of d = Ok reason" "params_of d = Ok params" "validated (re_int env) action params = Ok p"
    using accepted_Some [OF assms(1)] .
  then have parse: "parse_agent_id_from_action (re_int env) (re_detail env) action params = (True, [])"
    by (simp add: parse_agent_id_from_action_def)
  have build: "build_action_message (re_int env) now fresh action params actor = Ok (action_message now fresh action p actor)" for now
    by (simp add: build_action_message_def d)
  show ?thesis
    using d(2,3) assms(2)
    by (simp add: d(1,4,5) dispatch_action_def well_addressed_def io_bind_def io_lift_def parse build audit_response_eq
        in_fleet_def best_effort_slot audit_of_def split: if_splits)
qed

text \<open>What the parameters of a message to an agent may be.\<close>

definition well_formed_action :: "string \<Rightarrow> pydict \<Rightarrow> bool" where
  "well_formed_action action p \<longleftrightarrow>
     (action = ''kill_process'' \<and> (\<exists>pid s. p = [(''pid'', PInt pid), (''signal'', PStr s)] \<and> 1 \<le> pid \<and> pid \<le> 4194304 \<and>
        s \<in> set SIGNALS)) \<or>
     (action = ''quarantine_file'' \<and> (\<exists>path r. p = [(''path'', PStr path), (''reason'', PStr r)] \<and> path \<noteq> [] \<and>
        length path \<le> 4096 \<and> abs_path path \<and> length r \<le> 512))"

lemma validated_well_formed: "validated as_int action params = Ok p \<Longrightarrow> well_formed_action action p"
  by (auto simp: validated_def well_formed_action_def kill_process_payload_def quarantine_file_payload_def SIGNALS_def
      split: if_splits option.splits pyval.splits)

text \<open>
  Nothing but a well-formed action reaches the gateway. A request is either refused, and then nothing has
  changed, or its action is one of the two that exist, with checked parameters and nothing else, it has been
  written to the audit log if the log can be written, and exactly one message with these parameters and the
  caller's name has been handed to the gateway for exactly the agent that was named.
\<close>

theorem dispatch_well_formed:
  "(\<exists>e. dispatch_action env fresh agent action body actor w = (Inl e, w)) \<or>
   (\<exists>reason params p ok f. well_formed_action action p \<and> length agent \<le> 128 \<and>
      send_to_agent (re_fleet env) (re_sign env) agent
        (action_message (fe_iso (re_fleet env) (fe_now (re_fleet env))) fresh action p actor)
        (slot env fresh agent action actor (rw_fleet w)) = (Inr ok, f) \<and>
      dispatch_action env fresh agent action body actor w =
        (Inr \<lparr>da_id = fresh, da_action = action, da_agent = agent, da_status = ''dispatched''\<rparr>,
         w\<lparr>rw_fleet := f, rw_audit := rw_audit w @
           (if re_audit_up env then [audit_of fresh agent action actor params reason] else [])\<rparr>))"
proof (cases "accepted env agent action body")
  case None
  then show ?thesis using dispatch_rejects by blast
next
  case (Some x)
  obtain reason params p where x: "x = (reason, params, p)" by (cases x)
  have p: "well_formed_action action p" "length agent \<le> 128"
    by (rule accepted_Some [OF Some [unfolded x]], rule validated_well_formed, assumption)
      (rule accepted_Some [OF Some [unfolded x]], simp add: well_addressed_def)
  obtain ok f where "send_to_agent (re_fleet env) (re_sign env) agent
      (action_message (fe_iso (re_fleet env) (fe_now (re_fleet env))) fresh action p actor)
      (slot env fresh agent action actor (rw_fleet w)) = (Inr ok, f)"
    using send_returns by blast
  with dispatch_sends [OF Some [unfolded x] this] p show ?thesis by blast
qed


lemma send_keeps_keys:
  assumes "send_to_agent env se agent msg f = (Inr ok, f')" and "k \<noteq> pending_key agent"
  shows "kv_lookup env' k f' = kv_lookup env' k f"
proof (cases "map_of (conns f) agent")
  case None
  show ?thesis
  proof (cases "fe_redis_up env")
    case True
    then show ?thesis using assms None by (auto simp: send_offline Let_def split: if_splits)
  next
    case False
    then have "f' = f" using assms None
      by (simp add: send_to_agent_def io_try_def io_bind_def kv_publish_def redis_def io_guard_def is_Exception_def Let_def)
    then show ?thesis by simp
  qed
next
  case (Some ws)
  then have "f' = f \<or> (\<exists>ms. f' = f\<lparr>sent := ms\<rparr>)"
    using assms(1)
    by (auto simp: send_to_agent_def io_try_def io_bind_def ws_send_def io_guard_def is_Exception_def Let_def split: if_splits)
  then show ?thesis by auto
qed

lemma action_key_other [simp]: "action_status_key i \<noteq> pending_key a"
  by (simp add: action_status_key_def pending_key_def)

lemma get_status_known:
  assumes "fe_redis_up (re_fleet env)" and "i \<noteq> []" "length i \<le> 64"
    and "kv_lookup (re_fleet env) (action_status_key i) (rw_fleet w) = Some (PDict d)"
  shows "fst (get_action_status env rt i w) = Ok \<lparr>as_id = i, as_status = py_str rt (dget d ''status'' (PStr ''unknown'')),
     as_detail = py_str rt (dget d ''detail'' (PStr [])), as_agent = py_str rt (dget d ''agent_id'' (PStr [])),
     as_received = py_str rt (dget d ''received_at'' (PStr []))\<rparr>"
  using assms by (simp add: get_action_status_def io_try_def io_bind_def in_fleet_def kv_up)

definition ack_payload :: "string \<Rightarrow> bool \<Rightarrow> string \<Rightarrow> pydict" where
  "ack_payload i ok detail = [(''action_id'', PStr i), (''ok'', PBool ok), (''detail'', PStr detail)]"

text \<open>
  The status an operator reads follows the action. For five minutes after an accepted request it is
  \<open>dispatched\<close>, whether the agent was reached or not, and for five minutes after the agent's acknowledgement it is
  what the agent reported, with its text.
\<close>

theorem action_status_follows:
  assumes "dispatch_action env fresh agent action body actor w = (Inr r, w')"
    and "fe_redis_up (re_fleet env)" and "fresh \<noteq> []" "length fresh \<le> 64"
    and "fe_redis_up (re_fleet env')" and "fe_now (re_fleet env') < fe_now (re_fleet env) + 300"
    and "fe_redis_up (re_fleet env'')" and "fe_now (re_fleet env'') < fe_now (re_fleet env') + 300"
  shows "map_sum id as_status (fst (get_action_status env' rt fresh w')) = Ok ''dispatched'' \<and>
    (\<exists>f. record_response_ack (re_fleet env') rt agent (ack_payload fresh ok detail) (rw_fleet w') = (Inr (), f) \<and>
      map_sum id (\<lambda>s. (as_status s, as_detail s, as_agent s)) (fst (get_action_status env'' rt fresh (w'\<lparr>rw_fleet := f\<rparr>))) =
        Ok (if ok then ''succeeded'' else ''failed'', detail, agent))"
proof -
  obtain x where x: "accepted env agent action body = Some x"
    using assms(1) dispatch_rejects [of env agent action body fresh actor w] by fastforce
  obtain reason params p where xx: "x = (reason, params, p)" by (cases x)
  obtain okk f where send: "send_to_agent (re_fleet env) (re_sign env) agent
      (action_message (fe_iso (re_fleet env) (fe_now (re_fleet env))) fresh action p actor)
      (slot env fresh agent action actor (rw_fleet w)) = (Inr okk, f)"
    using send_returns by blast
  have w': "rw_fleet w' = f" using dispatch_sends [OF x [unfolded xx] send] assms(1) by auto
  have "kv_lookup (re_fleet env') (action_status_key fresh) f = Some (dispatched_status env agent action actor)"
    using send_keeps_keys [OF send action_key_other] assms(2,6) by (simp add: slot_def)
  then have "map_sum id as_status (fst (get_action_status env' rt fresh w')) = Ok ''dispatched''"
    using get_status_known [OF assms(5,3,4)] w' by (simp add: dispatched_status_def)
  moreover
  let ?d = "[(''status'', PStr (if ok then ''succeeded'' else ''failed'')), (''agent_id'', PStr agent),
      (''detail'', PStr detail), (''received_at'', PInt (fe_now (re_fleet env')))]"
  let ?f = "kv_put (re_fleet env') (action_status_key fresh) (PDict ?d) (Some 300) f"
  have "record_response_ack (re_fleet env') rt agent (ack_payload fresh ok detail) f = (Inr (), ?f)"
    using assms(3,5)
    by (simp add: record_response_ack_def ack_payload_def best_effort_def io_try_def kv_up action_status_key_def)
  moreover have "fst (get_action_status env'' rt fresh (w'\<lparr>rw_fleet := ?f\<rparr>)) = Ok \<lparr>as_id = fresh,
      as_status = py_str rt (dget ?d ''status'' (PStr ''unknown'')), as_detail = py_str rt (dget ?d ''detail'' (PStr [])),
      as_agent = py_str rt (dget ?d ''agent_id'' (PStr [])), as_received = py_str rt (dget ?d ''received_at'' (PStr []))\<rparr>"
    using assms(8) by (intro get_status_known [OF assms(7,3,4)]) simp
  ultimately show ?thesis using w' by auto
qed

section \<open>Examples\<close>

definition toy_responses :: response_env where
  "toy_responses = \<lparr>re_fleet = toy_env, re_sign = toy_sign\<lparr>se_key := []\<rparr>, re_int = (\<lambda>v. case v of PInt i \<Rightarrow> Some i | _ \<Rightarrow> None),
     re_detail = (\<lambda>a d. []), re_audit_up = True\<rparr>"

definition toy_kill :: pyval where
  "toy_kill = PDict [(''params'', PDict [(''pid'', PInt 4711)]), (''reason'', PStr '' stop it '')]"

definition toy_rworld :: response_world where
  "toy_rworld = \<lparr>rw_fleet = toy_fleet, rw_audit = []\<rparr>"

abbreviation toy_dispatch :: "dispatch_answer res \<times> response_world" where
  "toy_dispatch \<equiv> dispatch_action toy_responses ''id1'' ''a'' ''kill_process'' toy_kill ''ann'' toy_rworld"

theorem action_status_follows_witness:
  "map_sum id as_status (fst (get_action_status (toy_responses\<lparr>re_fleet := toy_env\<lparr>fe_now := 1299\<rparr>\<rparr>) toy_rt ''id1'' (snd toy_dispatch)))
     = Ok ''dispatched''"
proof -
  have "\<not> isl (fst toy_dispatch)" by code_simp
  then obtain r where run: "toy_dispatch = (Inr r, snd toy_dispatch)" by (metis isl_def obj_sumE prod.collapse)
  show ?thesis
    using action_status_follows [OF run, of "toy_responses\<lparr>re_fleet := toy_env\<lparr>fe_now := 1299\<rparr>\<rparr>"
        "toy_responses\<lparr>re_fleet := toy_env\<lparr>fe_now := 1300\<rparr>\<rparr>" toy_rt True "[]"]
    by (simp add: toy_responses_def toy_env_def)
qed

text \<open>
  An action for an agent that is not connected is kept for a day, and its status for five minutes: it runs on the
  next connection, when nobody can see it any more.
\<close>

lemma stale_action_runs:
  "map_sum id as_status (fst (get_action_status (toy_responses\<lparr>re_fleet := toy_env\<lparr>fe_now := 80000\<rparr>\<rparr>) toy_rt ''id1''
     (snd toy_dispatch))) = Ok ''unknown''"
  "\<exists>m w'. connect (toy_env\<lparr>fe_now := 80000\<rparr>) 7 ''a'' (rw_fleet (snd toy_dispatch)) = (Inr (), w') \<and> (7, m) \<in> set (sent w')"
proof -
  show "map_sum id as_status (fst (get_action_status (toy_responses\<lparr>re_fleet := toy_env\<lparr>fe_now := 80000\<rparr>\<rparr>) toy_rt ''id1''
     (snd toy_dispatch))) = Ok ''unknown''"
    by code_simp
  have "(case kv_lookup (toy_env\<lparr>fe_now := 80000\<rparr>) (pending_key ''a'') (rw_fleet (snd toy_dispatch)) of
      Some m \<Rightarrow> truthy m | None \<Rightarrow> False)" by code_simp
  then obtain m where "kv_lookup (toy_env\<lparr>fe_now := 80000\<rparr>) (pending_key ''a'') (rw_fleet (snd toy_dispatch)) = Some m" "truthy m"
    by (auto split: option.splits)
  then show "\<exists>m w'. connect (toy_env\<lparr>fe_now := 80000\<rparr>) 7 ''a'' (rw_fleet (snd toy_dispatch)) = (Inr (), w') \<and> (7, m) \<in> set (sent w')"
    using connect_delivers [of "toy_env\<lparr>fe_now := 80000\<rparr>" 7 "''a''"] by (fastforce simp: toy_env_def)
qed

text \<open>Any agent can acknowledge the action of any other.\<close>

lemma foreign_ack_counts:
  "map_sum id (\<lambda>s. (as_status s, as_agent s)) (fst (get_action_status toy_responses toy_rt ''id1'' ((snd toy_dispatch)\<lparr>rw_fleet :=
     snd (record_response_ack toy_env toy_rt ''b'' (ack_payload ''id1'' True []) (rw_fleet (snd toy_dispatch)))\<rparr>))) = Ok (''succeeded'', ''b'')"
  by code_simp

text \<open>A path that is not absolute passes when its second character is a colon.\<close>

lemma relative_path_passes: "abs_path ''x:y/../../etc/passwd''"
  by code_simp

end
