(* ===== verification/Rules.thy ===== *)
theory Rules
  imports Hosts
begin

text \<open>
  Where the rules of a rule pack come from (\<open>src/agents/rules_sync.py\<close>): the fixed baseline, the operator's file,
  the vulnerability feed and the advisory database, and the import of a document in one of three formats. Texts that
  are not ASCII are an argument.
\<close>

section \<open>Rules\<close>

record rule_check =
  rc_type :: string
  rc_name :: string
  rc_op :: string
  rc_value :: string
  rc_file :: string
  rc_pattern :: string
  rc_expect :: string

record rule_item =
  ri_id :: string
  ri_category :: string
  ri_cve :: "string option"
  ri_name :: string
  ri_severity :: string
  ri_check :: rule_check
  ri_fix :: string

text \<open>A field of text with a default; anything else than text is refused.\<close>

definition text_field :: "pydict \<Rightarrow> string \<Rightarrow> string option \<Rightarrow> string res" where
  "text_field d k dflt = (case map_of d k of
      Some v \<Rightarrow> as_str v
    | None \<Rightarrow> (case dflt of Some s \<Rightarrow> Ok s | None \<Rightarrow> Raise ValueError))"

definition rule_check_of :: "pydict \<Rightarrow> rule_check res" where
  "rule_check_of d =
     rbind (text_field d ''type'' None) (\<lambda>ty. rbind (text_field d ''name'' (Some [])) (\<lambda>n.
     rbind (text_field d ''op'' (Some ''lt'')) (\<lambda>oper. rbind (text_field d ''value'' (Some [])) (\<lambda>v.
     rbind (text_field d ''file'' (Some [])) (\<lambda>f. rbind (text_field d ''pattern'' (Some [])) (\<lambda>p.
     rbind (text_field d ''expect'' (Some [])) (\<lambda>e.
     Ok \<lparr>rc_type = ty, rc_name = n, rc_op = oper, rc_value = v, rc_file = f, rc_pattern = p, rc_expect = e\<rparr>)))))))"

definition SEVERITIES :: "string list" where
  "SEVERITIES = [''critical'', ''high'', ''medium'', ''low'', ''info'']"

definition severity_field :: "pyval \<Rightarrow> string res" where
  "severity_field v = (case v of PStr s \<Rightarrow> if s \<in> set SEVERITIES then Ok s else Raise ValueError | _ \<Rightarrow> Raise ValueError)"

definition make_item :: "pyval \<Rightarrow> pyval \<Rightarrow> pyval \<Rightarrow> pyval \<Rightarrow> pyval \<Rightarrow> rule_check \<Rightarrow> pyval \<Rightarrow> rule_item res" where
  "make_item i cat cve n sev check fix_text =
     rbind (as_str i) (\<lambda>i. rbind (as_str cat) (\<lambda>cat. rbind (opt_text cve) (\<lambda>cve. rbind (as_str n) (\<lambda>n.
     rbind (severity_field sev) (\<lambda>sev. rbind (as_str fix_text) (\<lambda>fx.
     Ok \<lparr>ri_id = i, ri_category = cat, ri_cve = cve, ri_name = n, ri_severity = sev, ri_check = check, ri_fix = fx\<rparr>))))))"

text \<open>\<open>RuleItem(**r)\<close>: what is missing is a validation error.\<close>

definition needed :: "pydict \<Rightarrow> string \<Rightarrow> pyval res" where
  "needed d k = (case map_of d k of Some v \<Rightarrow> Ok v | None \<Rightarrow> Raise ValueError)"

definition check_field :: "exn \<Rightarrow> pyval \<Rightarrow> rule_check res" where
  "check_field e v = (case v of PDict d \<Rightarrow> rule_check_of d | _ \<Rightarrow> Raise e)"

definition rule_item_of :: "pyval \<Rightarrow> rule_item res" where
  "rule_item_of v = (case v of
     PDict d \<Rightarrow>
       rbind (needed d ''id'') (\<lambda>i. rbind (needed d ''category'') (\<lambda>cat. rbind (needed d ''name'') (\<lambda>n.
       rbind (needed d ''severity'') (\<lambda>sev. rbind (needed d ''check'') (\<lambda>c.
       rbind (check_field ValueError c) (\<lambda>check.
       make_item i cat (dget d ''cve'' PNone) n sev check (dget d ''fix'' (PStr []))))))))
   | _ \<Rightarrow> Raise TypeError)"

text \<open>The fields taken out of a raw rule one by one: what is missing is a key error.\<close>

definition raw_item :: "pydict \<Rightarrow> rule_item res" where
  "raw_item d =
     rbind (dindex d ''id'') (\<lambda>i. rbind (dindex d ''category'') (\<lambda>cat. rbind (dindex d ''name'') (\<lambda>n.
     rbind (dindex d ''severity'') (\<lambda>sev. rbind (dindex d ''check'') (\<lambda>c.
     rbind (check_field TypeError c) (\<lambda>check.
     make_item i cat (dget d ''cve'' PNone) n sev check (dget d ''fix'' (PStr []))))))))"

definition raw_rules_to_items :: "pydict list \<Rightarrow> rule_item list" where
  "raw_rules_to_items rs = List.map_filter (\<lambda>r. case raw_item r of Inr x \<Rightarrow> Some x | Inl e \<Rightarrow> None) rs"

section \<open>Baseline\<close>

definition config_check :: "string \<Rightarrow> string \<Rightarrow> string \<Rightarrow> pyval" where
  "config_check f p e = PDict [(''type'', PStr ''config_check''), (''file'', PStr f), (''pattern'', PStr p), (''expect'', PStr e)]"

definition baseline_rule :: "string \<Rightarrow> string \<Rightarrow> string \<Rightarrow> pyval \<Rightarrow> string \<Rightarrow> pydict" where
  "baseline_rule i n sev check fx = [(''id'', PStr i), (''category'', PStr ''baseline''), (''name'', PStr n),
     (''severity'', PStr sev), (''check'', check), (''fix'', PStr fx)]"

definition bs :: string where "bs = [CHR 0x5C]"

text \<open>\<open>zh\<close> gives the name and the advice of a rule.\<close>

definition BASELINE_RULES :: "(string \<Rightarrow> string \<times> string) \<Rightarrow> pydict list" where
  "BASELINE_RULES zh = map (\<lambda>(i, sev, check). baseline_rule i (fst (zh i)) sev check (snd (zh i)))
     [(''BL-001'', ''high'', config_check ''/etc/ssh/sshd_config'' ''^PermitRootLogin'' ''no''),
      (''BL-002'', ''medium'', config_check ''/etc/login.defs'' ''^PASS_MIN_LEN'' ''8''),
      (''BL-003'', ''medium'', config_check ''/proc/net/ip_tables_names'' ''filter'' ''filter''),
      (''BL-004'', ''low'', config_check ''/etc/audit/auditd.conf'' ''^log_format'' ''ENRICHED''),
      (''BL-005'', ''low'', config_check ''/etc/security/limits.conf'' (''^'' @ bs @ ''*'' @ bs @ ''s+hard'' @ bs @ ''s+core'' @ bs @ ''s+0'') ''0'')]"

text \<open>The operator's file: \<open>parsed\<close> is what the YAML library makes of it.\<close>

definition load_extra_baseline_rules :: "string \<Rightarrow> bool \<Rightarrow> pyval res \<Rightarrow> pydict list" where
  "load_extra_baseline_rules path has_yaml parsed =
     (if path = [] \<or> \<not> has_yaml then []
      else case parsed of
        Inl e \<Rightarrow> []
      | Inr v \<Rightarrow> (case py_or v (PList []) of
           PList rs \<Rightarrow> List.map_filter (\<lambda>r. case r of
               PDict d \<Rightarrow> if truthy (dget d ''id'' PNone) \<and> truthy (dget d ''name'' PNone) then Some d else None
             | _ \<Rightarrow> None) rs
         | _ \<Rightarrow> []))"

section \<open>The vulnerability feed\<close>

text \<open>\<open>v[0]\<close> and \<open>v[:n]\<close>.\<close>

definition index0 :: "pyval \<Rightarrow> pyval res" where
  "index0 v = (case v of
     PList (x # xs) \<Rightarrow> Ok x | PList [] \<Rightarrow> Raise IndexError
   | PStr (c # cs) \<Rightarrow> Ok (PStr [c]) | PStr [] \<Rightarrow> Raise IndexError
   | PDict d \<Rightarrow> Raise KeyError | _ \<Rightarrow> Raise TypeError)"

definition slice :: "nat \<Rightarrow> pyval \<Rightarrow> pyval res" where
  "slice n v = (case v of PStr s \<Rightarrow> Ok (PStr (take n s)) | PList xs \<Rightarrow> Ok (PList (take n xs)) | _ \<Rightarrow> Raise TypeError)"

definition cvss_v3 :: "pyval \<Rightarrow> pyval res" where
  "cvss_v3 cve =
     rbind (vget cve ''metrics'' (PDict [])) (\<lambda>m. rbind (vget m ''cvssMetricV30'' (PList [])) (\<lambda>v30.
     vget m ''cvssMetricV31'' v30))"

definition severity_of_base :: "pyval \<Rightarrow> string res" where
  "severity_of_base v = (case v of
     PStr s \<Rightarrow> Ok (if s = ''CRITICAL'' then ''critical'' else if s = ''HIGH'' then ''high''
       else if s = ''LOW'' then ''low'' else ''medium'')
   | PList xs \<Rightarrow> Raise TypeError | PDict d \<Rightarrow> Raise TypeError | _ \<Rightarrow> Ok ''medium'')"

definition cve_severity :: "pyval \<Rightarrow> string res" where
  "cve_severity cve =
     rbind (cvss_v3 cve) (\<lambda>c.
     if \<not> truthy c then Ok ''medium''
     else rbind (index0 c) (\<lambda>x. rbind (vget x ''cvssData'' (PDict [])) (\<lambda>d.
          rbind (vget d ''baseSeverity'' (PStr ''MEDIUM'')) severity_of_base)))"

definition version_rule :: "string \<Rightarrow> pyval \<Rightarrow> string \<Rightarrow> string \<Rightarrow> pyval \<Rightarrow> pyval \<Rightarrow> string \<Rightarrow> pydict" where
  "version_rule i cve n sev product bound fx =
     [(''id'', PStr i), (''category'', PStr ''sys_vuln''), (''cve'', cve), (''name'', PStr n), (''severity'', PStr sev),
      (''check'', PDict [(''type'', PStr ''package_version''), (''name'', product), (''op'', PStr ''lt''), (''value'', bound)]),
      (''fix'', PStr fx)]"

definition upper_bound :: "pyval \<Rightarrow> pyval res" where
  "upper_bound m = rbind (vget m ''versionEndExcluding'' PNone) (\<lambda>excl.
     if truthy excl then Ok excl else vget m ''versionEndIncluding'' (PStr ''*''))"

text \<open>The first entry of a node that names a product.\<close>

fun node_rule :: "pyrt \<Rightarrow> pyval \<Rightarrow> string \<Rightarrow> string \<Rightarrow> pyval list \<Rightarrow> pydict list res" where
  "node_rule rt cve i sev [] = Ok []"
| "node_rule rt cve i sev (m # ms) =
     rbind (vget m ''criteria'' (PStr [])) (\<lambda>criteria.
     if \<not> truthy criteria then node_rule rt cve i sev ms
     else case criteria of
       PStr c \<Rightarrow>
         (let fields = split_on CHR '':'' c in
          if length fields < 6 then node_rule rt cve i sev ms
          else
            rbind (upper_bound m) (\<lambda>bound.
            rbind (vget cve ''descriptions'' (PList [PDict []])) (\<lambda>ds. rbind (index0 ds) (\<lambda>d.
            rbind (vget d ''value'' (PStr i)) (\<lambda>desc. rbind (slice 200 desc) (\<lambda>short.
            Ok [version_rule i (PStr i) (fields ! 4 @ '': '' @ py_str rt short) sev (PStr (fields ! 4)) bound
              (''Upgrade '' @ fields ! 4 @ '' to version >= '' @ py_str rt bound)]))))))
     | _ \<Rightarrow> Raise AttributeError)"

definition config_rules :: "pyrt \<Rightarrow> pyval \<Rightarrow> string \<Rightarrow> string \<Rightarrow> pyval \<Rightarrow> pydict list res" where
  "config_rules rt cve i sev config =
     rbind (vget config ''nodes'' (PList [])) (\<lambda>ns. rbind (py_iter ns) (\<lambda>nodes.
     rbind (mapM (\<lambda>n. rbind (vget n ''cpeMatch'' (PList [])) (\<lambda>ms. rbind (py_iter ms) (node_rule rt cve i sev))) nodes)
       (\<lambda>rss. Ok (concat rss))))"

definition cve_rules :: "pyrt \<Rightarrow> pyval \<Rightarrow> pydict list res" where
  "cve_rules rt cve =
     rbind (vget cve ''id'' (PStr [])) (\<lambda>i. case i of
       PStr s \<Rightarrow>
         if \<not> startswith s ''CVE-'' then Ok []
         else
           rbind (cve_severity cve) (\<lambda>sev.
           rbind (vget cve ''configurations'' (PList [])) (\<lambda>cs. rbind (py_iter cs) (\<lambda>configs.
           rbind (mapM (config_rules rt cve s sev) configs) (\<lambda>rss. Ok (concat rss)))))
     | _ \<Rightarrow> Raise AttributeError)"

definition transform_cves_to_rules :: "pyrt \<Rightarrow> pyval list \<Rightarrow> pydict list res" where
  "transform_cves_to_rules rt cves = rbind (mapM (cve_rules rt) cves) (\<lambda>rss. Ok (concat rss))"


section \<open>Advisories\<close>

text \<open>The level of an impact in a vector: the first H, M or L after the letter.\<close>

fun impact_level :: "char \<Rightarrow> string \<Rightarrow> char option" where
  "impact_level k [] = None"
| "impact_level k (c # cs) =
     (case cs of
        a # b # l # rest \<Rightarrow>
          if c = CHR ''/'' \<and> a = k \<and> b = CHR '':'' \<and> l \<in> {CHR ''H'', CHR ''M'', CHR ''L''} then Some l else impact_level k cs
      | _ \<Rightarrow> None)"

definition vector_severity :: "string \<Rightarrow> string" where
  "vector_severity score =
     (let impacts = List.map_filter (\<lambda>k. impact_level k score) [CHR ''C'', CHR ''I'', CHR ''A''];
          high = count_list impacts CHR ''H'' in
      if high \<ge> 2 then ''critical'' else if high \<ge> 1 then ''high''
      else if CHR ''M'' \<in> set impacts then ''medium'' else ''low'')"

fun entries_severity :: "pyval list \<Rightarrow> string res" where
  "entries_severity [] = Ok ''high''"
| "entries_severity (PDict d # rest) =
     (case dget d ''score'' (PStr []) of PStr s \<Rightarrow> Ok (vector_severity s) | _ \<Rightarrow> Raise TypeError)"
| "entries_severity (e # rest) = entries_severity rest"

definition advisory_severity :: "pyval \<Rightarrow> string res" where
  "advisory_severity v = (case v of
     PStr s \<Rightarrow> Ok (let l = py_lower s in
       if l = ''critical'' then ''critical'' else if l = ''high'' then ''high'' else if l = ''medium'' then ''medium''
       else if l = ''low'' then ''low'' else if l = ''moderate'' then ''medium'' else ''high'')
   | PList ents \<Rightarrow> entries_severity ents
   | _ \<Rightarrow> Ok ''high'')"

text \<open>\<open>a > b\<close>: numbers, texts, and lists by their first difference.\<close>

function py_gt :: "pyval \<Rightarrow> pyval \<Rightarrow> bool res" where
  "py_gt a b = (case (a, b) of
     (PStr s, PStr t) \<Rightarrow> Ok (s > t)
   | (PList (x # xs), PList (y # ys)) \<Rightarrow> if py_eq x y then py_gt (PList xs) (PList ys) else py_gt x y
   | (PList xs, PList ys) \<Rightarrow> Ok (xs \<noteq> [])
   | _ \<Rightarrow> (case (num_of a, num_of b) of (Some x, Some y) \<Rightarrow> Ok (x > y) | _ \<Rightarrow> Raise TypeError))"
  by pat_completeness auto
termination by (relation "measure (\<lambda>(a, b). size a)") auto

declare py_gt.simps [simp del]

fun py_max :: "pyval \<Rightarrow> pyval list \<Rightarrow> pyval res" where
  "py_max m [] = Ok m"
| "py_max m (x # xs) = rbind (py_gt x m) (\<lambda>gt. py_max (if gt then x else m) xs)"

definition max_of :: "pyval \<Rightarrow> pyval res" where
  "max_of v = rbind (py_iter v) (\<lambda>xs. case xs of [] \<Rightarrow> Raise ValueError | x # xs \<Rightarrow> py_max x xs)"

definition py_list :: "pyval \<Rightarrow> pyval list res" where
  "py_list v = py_iter (py_or v (PList []))"

text \<open>The first event with a truthy entry of this name.\<close>

definition event_with :: "string \<Rightarrow> pyval list \<Rightarrow> pyval option" where
  "event_with k evs = (case List.map_filter (\<lambda>e. case e of
      PDict d \<Rightarrow> (let v = dget d k PNone in if truthy v then Some v else None) | _ \<Rightarrow> None) evs of
     v # vs \<Rightarrow> Some v | [] \<Rightarrow> None)"

fun range_bound :: "pyrt \<Rightarrow> pyval list \<Rightarrow> string option res" where
  "range_bound rt [] = Ok None"
| "range_bound rt (r # rs) = (case r of
     PDict d \<Rightarrow>
       rbind (py_list (dget d ''events'' PNone)) (\<lambda>evs.
       case event_with ''fixed'' evs of
         Some v \<Rightarrow> Ok (Some (py_str rt v))
       | None \<Rightarrow> (case event_with ''last_affected'' evs of
           Some v \<Rightarrow> Ok (Some (py_str rt v))
         | None \<Rightarrow> range_bound rt rs))
   | _ \<Rightarrow> range_bound rt rs)"

definition advisory_version_threshold :: "pyrt \<Rightarrow> pyval \<Rightarrow> pyval res" where
  "advisory_version_threshold rt aff =
     rbind (vget aff ''ranges'' PNone) (\<lambda>rv. rbind (py_list rv) (\<lambda>ranges.
     rbind (range_bound rt ranges) (\<lambda>b. case b of
       Some s \<Rightarrow> Ok (PStr s)
     | None \<Rightarrow> rbind (vget aff ''versions'' PNone) (\<lambda>vs. if truthy vs then max_of vs else Ok (PStr [])))))"

definition is_cve :: "pyval \<Rightarrow> bool" where
  "is_cve v = (case v of PStr s \<Rightarrow> startswith s ''CVE-'' | _ \<Rightarrow> False)"

text \<open>\<open>zh_fix product bound\<close> is the advice.\<close>

fun affected_rule :: "pyrt \<Rightarrow> (string \<Rightarrow> string \<Rightarrow> string) \<Rightarrow> pyval \<Rightarrow> string \<Rightarrow> pyval \<Rightarrow> pyval list \<Rightarrow> pydict list res" where
  "affected_rule rt zh_fix i sev summary [] = Ok []"
| "affected_rule rt zh_fix i sev summary (a # as) =
     rbind (vget a ''package'' PNone) (\<lambda>p. rbind (vget (py_or p (PDict [])) ''name'' PNone) (\<lambda>n.
     if \<not> truthy n then affected_rule rt zh_fix i sev summary as
     else rbind (advisory_version_threshold rt a) (\<lambda>bound.
       if \<not> truthy bound then affected_rule rt zh_fix i sev summary as
       else case i of
         PStr s \<Rightarrow> Ok [version_rule s (if startswith s ''CVE-'' then PStr s else PNone)
           (py_str rt n @ '': '' @ py_str rt summary) sev n bound (zh_fix (py_str rt n) (py_str rt bound))]
       | _ \<Rightarrow> Raise AttributeError)))"

definition advisory_rules :: "pyrt \<Rightarrow> (string \<Rightarrow> string \<Rightarrow> string) \<Rightarrow> pyval \<Rightarrow> pydict list res" where
  "advisory_rules rt zh_fix adv =
     rbind (vget adv ''aliases'' PNone) (\<lambda>av. rbind (py_list av) (\<lambda>aliases.
     rbind (case find is_cve aliases of Some v \<Rightarrow> Ok v | None \<Rightarrow> vget adv ''id'' PNone) (\<lambda>i.
     if \<not> truthy i then Ok []
     else
       rbind (vget adv ''severity'' PNone) (\<lambda>sv. rbind (advisory_severity sv) (\<lambda>sev.
       rbind (vget adv ''summary'' PNone) (\<lambda>sm. rbind (slice 200 (py_or sm i)) (\<lambda>summary.
       rbind (vget adv ''affected'' PNone) (\<lambda>affv. rbind (py_list affv) (\<lambda>affs.
       affected_rule rt zh_fix i sev summary affs)))))))))"

definition transform_advisories_to_rules :: "pyrt \<Rightarrow> (string \<Rightarrow> string \<Rightarrow> string) \<Rightarrow> pyval list \<Rightarrow> pydict list res" where
  "transform_advisories_to_rules rt zh_fix advs = rbind (mapM (advisory_rules rt zh_fix) advs) (\<lambda>rss. Ok (concat rss))"

section \<open>Import\<close>

definition cve_entry :: "pyval \<Rightarrow> pyval option" where
  "cve_entry v = (case v of
      PDict d \<Rightarrow> (case dget d ''cve'' v of PDict c \<Rightarrow> Some (PDict c) | _ \<Rightarrow> None)
    | _ \<Rightarrow> None)"

definition is_list :: "pyval \<Rightarrow> bool" where
  "is_list v = (case v of PList xs \<Rightarrow> True | _ \<Rightarrow> False)"

text \<open>The format decides: a pack of this system, an export of the feed, one advisory or several.\<close>

definition parse_imported_data :: "pyrt \<Rightarrow> (string \<Rightarrow> string \<Rightarrow> string) \<Rightarrow> pyval \<Rightarrow> rule_item list res" where
  "parse_imported_data rt zh_fix data = (case data of
     PDict d \<Rightarrow>
       (case dget d ''rules'' PNone of
          PList rs \<Rightarrow> Ok (List.map_filter (\<lambda>r. case rule_item_of r of Inr x \<Rightarrow> Some x | Inl e \<Rightarrow> None) rs)
        | _ \<Rightarrow>
       (case dget d ''vulnerabilities'' PNone of
          PList vs \<Rightarrow> rbind (transform_cves_to_rules rt (List.map_filter cve_entry vs)) (\<lambda>rs. Ok (raw_rules_to_items rs))
        | _ \<Rightarrow>
       if is_list (dget d ''affected'' PNone) \<and> (truthy (dget d ''id'' PNone) \<or> truthy (dget d ''aliases'' PNone))
       then rbind (transform_advisories_to_rules rt zh_fix [data]) (\<lambda>rs. Ok (raw_rules_to_items rs))
       else (case dget d ''advisories'' PNone of
          PList as \<Rightarrow> rbind (transform_advisories_to_rules rt zh_fix as) (\<lambda>rs. Ok (raw_rules_to_items rs))
        | _ \<Rightarrow> Ok [])))
   | _ \<Rightarrow> Raise AttributeError)"

section \<open>Fetching\<close>

text \<open>
  The feed, page after page: \<open>page\<close> is the answer for a start index, an HTTP error is \<open>ExtError\<close>. The loop may never
  end, and then there is no result.
\<close>

definition scored :: "pyval \<Rightarrow> pyval option res" where
  "scored vuln =
     rbind (vget vuln ''cve'' (PDict [])) (\<lambda>cve. rbind (cvss_v3 cve) (\<lambda>c.
     if \<not> truthy c then Ok None
     else rbind (index0 c) (\<lambda>x. rbind (vget x ''cvssData'' (PDict [])) (\<lambda>d.
       rbind (vget d ''baseScore'' (PInt 0)) (\<lambda>score. case num_of score of
         Some r \<Rightarrow> Ok (if r \<ge> 4 then Some cve else None)
       | None \<Rightarrow> Raise TypeError)))))"

definition page_entries :: "pyval \<Rightarrow> (pyval list \<times> nat \<times> pyval) res" where
  "page_entries data =
     rbind (vget data ''vulnerabilities'' (PList [])) (\<lambda>vv. rbind (py_iter vv) (\<lambda>vs.
     rbind (mapM scored vs) (\<lambda>cves. rbind (vget data ''totalResults'' (PInt 0)) (\<lambda>n.
     Ok (List.map_filter id cves, length vs, n)))))"

definition is_http :: "exn \<Rightarrow> bool" where
  "is_http e = (case e of ExtError s \<Rightarrow> True | _ \<Rightarrow> False)"

definition reached :: "nat \<Rightarrow> pyval \<Rightarrow> bool res" where
  "reached start n = (case num_of n of Some r \<Rightarrow> Ok (rat_of_nat start \<ge> r) | None \<Rightarrow> Raise TypeError)"

partial_function (option) fetch_pages ::
    "(nat \<Rightarrow> pyval res) \<Rightarrow> nat \<Rightarrow> pyval list \<Rightarrow> pyval list res option" where
  "fetch_pages page start items =
     (case page start of
        Inl e \<Rightarrow> Some (if is_http e then Ok items else Raise e)
      | Inr data \<Rightarrow>
          (case page_entries data of
             Inl e \<Rightarrow> Some (Raise e)
           | Inr (cves, k, n) \<Rightarrow>
               (case reached (start + k) n of
                  Inl e \<Rightarrow> Some (Raise e)
                | Inr end_reached \<Rightarrow>
                    if end_reached then Some (Ok (items @ cves)) else fetch_pages page (start + k) (items @ cves))))"

definition fetch_nvd_cves :: "(nat \<Rightarrow> pyval res) \<Rightarrow> pyval list res option" where
  "fetch_nvd_cves page = fetch_pages page 0 []"

text \<open>The paths of the reviewed advisories of some years.\<close>

definition digits :: "string \<Rightarrow> bool" where "digits s \<longleftrightarrow> s \<noteq> [] \<and> list_all is_digit s"

definition ghsa_file :: "string \<Rightarrow> bool" where
  "ghsa_file s \<longleftrightarrow> (\<exists>suffix\<in>{''.json'', ''.json'' @ [CHR 0x0A]}.
     startswith s ''GHSA-'' \<and> endswith s suffix \<and> length s > length ''GHSA-'' + length suffix)"

definition advisory_year :: "string \<Rightarrow> nat option" where
  "advisory_year path = (case split_on CHR ''/'' path of
     [a, r, y, m, g, f] \<Rightarrow>
       if a = ''advisories'' \<and> r = ''github-reviewed'' \<and> digits y \<and> length y = 4 \<and> digits m \<and>
          startswith g ''GHSA-'' \<and> length g > length ''GHSA-'' \<and> ghsa_file f
       then Some (digits_val 0 y) else None
   | _ \<Rightarrow> None)"

definition last_n :: "nat \<Rightarrow> 'a list \<Rightarrow> 'a list" where
  "last_n n xs = drop (length xs - n) xs"

definition candidates :: "nat list \<Rightarrow> string list \<Rightarrow> string list" where
  "candidates years paths =
     last_n 800 (filter (\<lambda>p. case advisory_year p of Some y \<Rightarrow> y \<in> set years | None \<Rightarrow> False) paths)"

definition lookback_years :: "nat \<Rightarrow> int \<Rightarrow> nat list" where
  "lookback_years year lookback = (if lookback \<le> 365 then [year] else [year - 1, year])"

text \<open>
  Recent: published at the cutoff or later, at a time that cannot be read, or at no time. \<open>fromiso\<close> is what the
  interpreter makes of a date; a date without an offset cannot be compared.
\<close>

definition is_recent :: "(string \<Rightarrow> (bool \<times> int) option) \<Rightarrow> int \<Rightarrow> pyval \<Rightarrow> bool res" where
  "is_recent fromiso cutoff adv =
     rbind (vget adv ''published'' PNone) (\<lambda>p. rbind (vget adv ''modified'' PNone) (\<lambda>m.
     let pub = py_or p (py_or m (PStr [])) in
     if \<not> truthy pub then Ok True
     else case pub of
       PStr s \<Rightarrow> (case fromiso (py_replace ''Z'' ''+00:00'' s) of
           None \<Rightarrow> Ok True
         | Some (True, t) \<Rightarrow> Ok (t \<ge> cutoff)
         | Some (False, t) \<Rightarrow> Raise TypeError)
     | _ \<Rightarrow> Raise AttributeError))"

fun recent_of :: "(string \<Rightarrow> (bool \<times> int) option) \<Rightarrow> int \<Rightarrow> pyval list \<Rightarrow> pyval list res" where
  "recent_of fromiso cutoff [] = Ok []"
| "recent_of fromiso cutoff (a # as) =
     rbind (is_recent fromiso cutoff a) (\<lambda>b. rbind (recent_of fromiso cutoff as) (\<lambda>rest.
     Ok (if b then a # rest else rest)))"

definition tree_paths :: "pyval \<Rightarrow> string list res" where
  "tree_paths doc =
     rbind (vget doc ''tree'' (PList [])) (\<lambda>tv. rbind (py_iter tv) (\<lambda>entries.
     mapM (\<lambda>e. rbind (vget e ''path'' (PStr [])) (\<lambda>p. case p of PStr s \<Rightarrow> Ok s | _ \<Rightarrow> Raise TypeError)) entries))"

text \<open>\<open>tree\<close> is the list of the repository, \<open>file\<close> the document of a path; any error gives no advisories.\<close>

definition fetch_github_advisories ::
    "pyval res \<Rightarrow> (string \<Rightarrow> pyval option) \<Rightarrow> (string \<Rightarrow> (bool \<times> int) option) \<Rightarrow> nat \<Rightarrow> int \<Rightarrow> int \<Rightarrow> pyval list" where
  "fetch_github_advisories tree file fromiso year now lookback_days =
     (let lookback = (if lookback_days = 0 then 30 else lookback_days) in
      case rbind tree (\<lambda>doc. rbind (tree_paths doc) (\<lambda>paths.
        let down = filter truthy (List.map_filter file (candidates (lookback_years year lookback) paths)) in
        rbind (recent_of fromiso (now - lookback * 86400) down) (\<lambda>recent.
        Ok (if recent = [] then down else recent)))) of
      Inr as \<Rightarrow> as
    | Inl e \<Rightarrow> [])"

end
