(* ===== verification/RulePacks.thy ===== *)
theory RulePacks
  imports Rules
begin

text \<open>
  Publishing a rule pack and bringing it to the agents (\<open>src/agents/rules_sync.py\<close>), and the endpoints around it
  (\<open>src/api/routers/rules.py\<close>). The packs are documents of the search service, the current version is a key of the
  cache server. The key code of a pack, its texts, the feeds and what the interpreter makes of a time are arguments;
  details of answers that are not ASCII are left out.
\<close>

section \<open>Packs\<close>

record rule_pack =
  rp_version :: string
  rp_rules :: "rule_item list"
  rp_signature :: string
  rp_published :: string

record rules_env =
  rl_fenv :: fleet_env
  rl_sign :: sign_env
  rl_rt :: pyrt
  rl_zh :: "string \<Rightarrow> string \<times> string"
  rl_zh_fix :: "string \<Rightarrow> string \<Rightarrow> string"
  rl_extra_path :: string
  rl_has_yaml :: bool
  rl_extra :: "pyval res"
  rl_version_of :: "int \<Rightarrow> string"
  rl_hmac :: "string \<Rightarrow> string \<Rightarrow> string"
  rl_hmac_key :: string
  rl_dump :: "string \<Rightarrow> rule_item list \<Rightarrow> string \<Rightarrow> string"
  rl_body :: "rule_pack \<Rightarrow> string"
  rl_console :: string
  rl_nuclei_base :: string
  rl_nuclei_version :: string
  rl_page :: "nat \<Rightarrow> pyval res"
  rl_tree :: "pyval res"
  rl_file :: "string \<Rightarrow> pyval option"
  rl_fromiso :: "string \<Rightarrow> (bool \<times> int) option"
  rl_year :: nat
  rl_lookback :: int

record rules_world =
  rk_fleet :: fleet
  rk_packs :: "(string \<times> rule_pack) list"
  rk_audit :: "(string \<times> string) list"

type_synonym 'a pio = "(rules_world, 'a) io"

definition on_hosts :: "'a fio \<Rightarrow> 'a pio" where
  "on_hosts m = (\<lambda>w. case m (rk_fleet w) of (r, f) \<Rightarrow> (r, w\<lparr>rk_fleet := f\<rparr>))"

definition on_packs :: "rules_env \<Rightarrow> 'a pio \<Rightarrow> 'a pio" where
  "on_packs env m = (if fe_es_up (rl_fenv env) then m else io_raise (ExtError ''elasticsearch''))"

definition first_text :: "string list \<Rightarrow> string" where
  "first_text ts = (case filter (\<lambda>t. t \<noteq> []) ts of t # rest \<Rightarrow> t | [] \<Rightarrow> [])"

definition sign_pack :: "rules_env \<Rightarrow> string \<Rightarrow> string" where
  "sign_pack env data = rl_hmac env (first_text [rl_hmac_key env, se_key (rl_sign env), ''dev-signing-key'']) data"

definition pack_text :: "rules_env \<Rightarrow> rule_pack \<Rightarrow> string" where
  "pack_text env p = rl_dump env (rp_version p) (rp_rules p) (rp_published p)"

definition verify_pack_signature :: "rules_env \<Rightarrow> rule_pack \<Rightarrow> bool" where
  "verify_pack_signature env p \<longleftrightarrow> sign_pack env (pack_text env p) = rp_signature p"

definition version_key_name :: string where "version_key_name = ''rules:current_version''"

definition current_rule_version :: "rules_env \<Rightarrow> string pio" where
  "current_rule_version env =
     io_bind (on_hosts (kv_get (rl_fenv env) version_key_name)) (\<lambda>v.
     io_return (case v of Some (PStr (c # cs)) \<Rightarrow> c # cs | _ \<Rightarrow> ''0''))"

definition get_rule_pack :: "rules_env \<Rightarrow> string \<Rightarrow> rule_pack option pio" where
  "get_rule_pack env version =
     io_try (on_packs env (io_gets (\<lambda>w. map_of (rk_packs w) version))) (\<lambda>e. io_return None)"

definition get_rule_pack_body :: "rules_env \<Rightarrow> string \<Rightarrow> string option pio" where
  "get_rule_pack_body env version =
     io_try (on_packs env (io_gets (\<lambda>w. map_option (rl_body env) (map_of (rk_packs w) version)))) (\<lambda>e. io_return None)"

definition publish_pack :: "rules_env \<Rightarrow> rule_item list \<Rightarrow> string option \<Rightarrow> string pio" where
  "publish_pack env items version =
     (let now = fe_now (rl_fenv env);
          v = (case version of Some x \<Rightarrow> x | None \<Rightarrow> rl_version_of env now);
          stamp = fe_iso (rl_fenv env) now;
          pack = \<lparr>rp_version = v, rp_rules = items, rp_signature = sign_pack env (rl_dump env v items stamp), rp_published = stamp\<rparr> in
      io_bind (on_packs env (io_modify (\<lambda>w. w\<lparr>rk_packs := AList.update v pack (rk_packs w)\<rparr>))) (\<lambda>_.
      io_bind (on_hosts (kv_set (rl_fenv env) version_key_name (PStr v) None)) (\<lambda>_.
      io_return v)))"

definition import_rules_from_pack :: "rules_env \<Rightarrow> pyval \<Rightarrow> (string \<times> nat) pio" where
  "import_rules_from_pack env data =
     io_bind (io_lift (parse_imported_data (rl_rt env) (rl_zh_fix env) data)) (\<lambda>items.
     io_bind (io_guard (items \<noteq> []) ValueError) (\<lambda>_.
     io_bind (publish_pack env items None) (\<lambda>v. io_return (v, length items))))"

text \<open>The rules of a source; the fetch of the feed may not end.\<close>

definition source_rules :: "rules_env \<Rightarrow> string \<Rightarrow> pydict list res option" where
  "source_rules env source =
     (if source = ''nvd'' then
        map_option (\<lambda>r. rbind r (transform_cves_to_rules (rl_rt env))) (fetch_nvd_cves (rl_page env))
      else if source = ''github'' then
        Some (transform_advisories_to_rules (rl_rt env) (rl_zh_fix env)
          (fetch_github_advisories (rl_tree env) (rl_file env) (rl_fromiso env) (rl_year env) (fe_now (rl_fenv env)) (rl_lookback env)))
      else Some (Ok []))"

definition baseline :: "rules_env \<Rightarrow> pydict list" where
  "baseline env = BASELINE_RULES (rl_zh env) @ load_extra_baseline_rules (rl_extra_path env) (rl_has_yaml env) (rl_extra env)"

definition sync_rules :: "rules_env \<Rightarrow> string \<Rightarrow> rules_world \<Rightarrow> (string res \<times> rules_world) option" where
  "sync_rules env source w =
     map_option (\<lambda>r.
       io_bind (io_lift (rbind r (\<lambda>rules. mapM raw_item (baseline env @ rules)))) (\<lambda>items.
       publish_pack env items (Some (rl_version_of env (fe_now (rl_fenv env))))) w) (source_rules env source)"

section \<open>Distribution\<close>

definition console_base :: "string \<Rightarrow> string" where
  "console_base url = rstrip_char CHR ''/'' (strip url)"

definition pack_url :: "rules_env \<Rightarrow> string \<Rightarrow> string" where
  "pack_url env version = console_base (rl_console env) @ ''/api/v1/rules/pack/'' @ version"

definition diff_versions :: "rules_env \<Rightarrow> string \<Rightarrow> (string \<times> string) option pio" where
  "diff_versions env agent_version =
     io_bind (current_rule_version env) (\<lambda>cur.
     if cur = [] \<or> agent_version = cur then io_return None
     else io_bind (get_rule_pack env cur) (\<lambda>pack. case pack of
         None \<Rightarrow> io_return None
       | Some p \<Rightarrow> if console_base (rl_console env) = [] then io_return None else io_return (Some (cur, pack_url env cur))))"

definition rule_update :: "rules_env \<Rightarrow> string \<Rightarrow> string \<Rightarrow> string \<Rightarrow> pydict" where
  "rule_update env version url signature = [(''v'', PInt 1), (''type'', PStr ''rule_update''),
     (''ts'', PStr (fe_iso (rl_fenv env) (fe_now (rl_fenv env)))),
     (''payload'', PDict [(''rule_version'', PStr version), (''download_url'', PStr url), (''signature'', PStr signature)])]"

definition trigger_update_if_outdated :: "rules_env \<Rightarrow> string \<Rightarrow> string \<Rightarrow> unit pio" where
  "trigger_update_if_outdated env agent agent_version =
     io_bind (diff_versions env agent_version) (\<lambda>d. case d of
       None \<Rightarrow> io_return ()
     | Some (version, url) \<Rightarrow>
         io_bind (get_rule_pack_body env version) (\<lambda>body.
         let signature = (case body of Some (c # cs) \<Rightarrow> sign_bytes (rl_sign env) (c # cs) | _ \<Rightarrow> []) in
         io_bind (on_hosts (send_to_agent (rl_fenv env) (rl_sign env) agent (rule_update env version url signature))) (\<lambda>_.
         io_return ())))"

definition force_rule_update :: "rules_env \<Rightarrow> string \<Rightarrow> bool pio" where
  "force_rule_update env agent =
     io_bind (current_rule_version env) (\<lambda>cur.
     if cur = [] \<or> cur = ''0'' \<or> console_base (rl_console env) = [] then io_return False
     else io_bind (get_rule_pack_body env cur) (\<lambda>body. case body of
         Some (c # cs) \<Rightarrow> on_hosts (send_to_agent (rl_fenv env) (rl_sign env) agent
           (rule_update env cur (pack_url env cur) (sign_bytes (rl_sign env) (c # cs))))
       | _ \<Rightarrow> io_return False))"

text \<open>The agents with a presence key.\<close>

definition online_agents :: "rules_env \<Rightarrow> string list pio" where
  "online_agents env = on_hosts (redis (rl_fenv env) (io_gets (\<lambda>f.
     map (\<lambda>(k, _). py_replace ''agent:online:'' [] k)
       (filter (\<lambda>(k, v, t). startswith k ''agent:online:'' \<and> (case t of None \<Rightarrow> True | Some e \<Rightarrow> fe_now (rl_fenv env) < e)) (keys f)))))"

fun push_all :: "(string \<Rightarrow> bool pio) \<Rightarrow> string list \<Rightarrow> (string \<times> bool) list pio" where
  "push_all push [] = io_return []"
| "push_all push (a # as) =
     io_bind (push a) (\<lambda>ok. io_bind (push_all push as) (\<lambda>rest. io_return ((a, ok) # rest)))"

record sync_answer =
  sy_synced :: nat
  sy_total :: nat
  sy_version :: "string option"
  sy_agents :: "(string \<times> bool) list"
  sy_error :: "string option"

definition summarise :: "string option \<Rightarrow> (string \<times> bool) list \<Rightarrow> sync_answer" where
  "summarise version rs = \<lparr>sy_synced = length (filter snd rs), sy_total = length rs, sy_version = version, sy_agents = rs,
     sy_error = None\<rparr>"

definition sync_rules_to_all_agents :: "rules_env \<Rightarrow> sync_answer pio" where
  "sync_rules_to_all_agents env =
     io_bind (online_agents env) (\<lambda>as.
     io_bind (push_all (force_rule_update env) as) (\<lambda>rs. io_return (summarise None rs)))"

definition nuclei_templates_url :: "rules_env \<Rightarrow> string" where
  "nuclei_templates_url env =
     (let base = console_base (rl_nuclei_base env); v = strip (rl_nuclei_version env) in
      if base = [] \<or> v = [] then [] else base @ ''/nuclei-templates-'' @ v @ ''.zip'')"

definition force_nuclei_templates_update :: "rules_env \<Rightarrow> string \<Rightarrow> bool pio" where
  "force_nuclei_templates_update env agent =
     (if nuclei_templates_url env = [] then io_return False
      else on_hosts (send_to_agent (rl_fenv env) (rl_sign env) agent
        [(''v'', PInt 1), (''type'', PStr ''nuclei_templates_update''),
         (''ts'', PStr (fe_iso (rl_fenv env) (fe_now (rl_fenv env)))),
         (''payload'', PDict [(''version'', PStr (rl_nuclei_version env)), (''download_url'', PStr (nuclei_templates_url env))])]))"

definition sync_nuclei_templates_to_all_agents :: "rules_env \<Rightarrow> sync_answer pio" where
  "sync_nuclei_templates_to_all_agents env =
     (if nuclei_templates_url env = [] then io_return \<lparr>sy_synced = 0, sy_total = 0,
        sy_version = Some (rl_nuclei_version env), sy_agents = [], sy_error = Some ''nuclei_templates_not_configured''\<rparr>
      else io_bind (online_agents env) (\<lambda>as.
        io_bind (push_all (force_nuclei_templates_update env) as) (\<lambda>rs.
        io_return (summarise (Some (rl_nuclei_version env)) rs))))"

section \<open>Endpoints\<close>

definition rules_audit :: "string \<Rightarrow> string \<Rightarrow> unit pio" where
  "rules_audit action actor = io_modify (\<lambda>w. w\<lparr>rk_audit := rk_audit w @ [(action, actor)]\<rparr>)"

record rules_page =
  pg_version :: string
  pg_total :: nat
  pg_page :: nat
  pg_size :: nat
  pg_items :: "rule_item list"

definition matching :: "string option \<Rightarrow> (string \<Rightarrow> bool) \<Rightarrow> bool" where
  "matching flt p = (case flt of Some (c # cs) \<Rightarrow> p (c # cs) | _ \<Rightarrow> True)"

definition rule_wanted :: "string option \<Rightarrow> string option \<Rightarrow> string option \<Rightarrow> rule_item \<Rightarrow> bool" where
  "rule_wanted category severity q r \<longleftrightarrow>
     matching category (\<lambda>c. ri_category r = c) \<and> matching severity (\<lambda>s. ri_severity r = s) \<and>
     matching q (\<lambda>t. str_in (py_lower t) (py_lower (ri_name r)) \<or>
       str_in (py_lower t) (py_lower (case ri_cve r of Some c \<Rightarrow> c | None \<Rightarrow> [])))"

definition api_list_rules ::
    "rules_env \<Rightarrow> string option \<Rightarrow> string option \<Rightarrow> string option \<Rightarrow> nat \<Rightarrow> nat \<Rightarrow> rules_page pio" where
  "api_list_rules env category severity q page page_size =
     (if page < 1 \<or> page_size < 1 \<or> page_size > 200 then io_raise (HTTPException 422 [])
      else io_bind (current_rule_version env) (\<lambda>v.
        io_bind (if v \<noteq> [] \<and> v \<noteq> ''0'' then get_rule_pack env v else io_return None) (\<lambda>pack.
        let rules = filter (rule_wanted category severity q) (case pack of Some p \<Rightarrow> rp_rules p | None \<Rightarrow> []) in
        io_return \<lparr>pg_version = v, pg_total = length rules, pg_page = page, pg_size = page_size,
          pg_items = take page_size (drop ((page - 1) * page_size) rules)\<rparr>)))"

definition api_sync_rules ::
    "rules_env \<Rightarrow> string \<Rightarrow> string \<Rightarrow> rules_world \<Rightarrow> ((string \<times> nat) res \<times> rules_world) option" where
  "api_sync_rules env source actor w =
     map_option (\<lambda>(r, w').
       io_bind (io_lift r) (\<lambda>v.
       io_bind (get_rule_pack env v) (\<lambda>pack.
       io_bind (rules_audit ''sync'' actor) (\<lambda>_.
       io_return (v, case pack of Some p \<Rightarrow> length (rp_rules p) | None \<Rightarrow> 0)))) w') (sync_rules env source w)"

definition api_sync_to_agents :: "rules_env \<Rightarrow> string \<Rightarrow> sync_answer pio" where
  "api_sync_to_agents env actor =
     io_bind (sync_rules_to_all_agents env) (\<lambda>r. io_bind (rules_audit ''sync_to_agents'' actor) (\<lambda>_. io_return r))"

definition api_sync_nuclei_templates :: "rules_env \<Rightarrow> string \<Rightarrow> sync_answer pio" where
  "api_sync_nuclei_templates env actor =
     io_bind (sync_nuclei_templates_to_all_agents env) (\<lambda>r.
     io_bind (rules_audit ''sync_nuclei_templates'' actor) (\<lambda>_.
     if sy_error r = None then io_return r else io_raise (HTTPException 400 [])))"

text \<open>The documents of an archive: a text that is no JSON is an error.\<close>

definition json_files :: "(string \<times> pyval res) list \<Rightarrow> (string \<times> pyval res) list" where
  "json_files files = filter (\<lambda>(n, _). endswith n ''.json'' \<and> \<not> startswith n ''__MACOSX'' \<and> \<not> startswith n ''.'') files"

definition parse_or_nothing :: "rules_env \<Rightarrow> pyval res \<Rightarrow> rule_item list" where
  "parse_or_nothing env doc = (case rbind doc (parse_imported_data (rl_rt env) (rl_zh_fix env)) of Inr items \<Rightarrow> items | Inl e \<Rightarrow> [])"

definition is_export :: "pyval res \<Rightarrow> bool" where
  "is_export doc = (case doc of Inr (PDict d) \<Rightarrow> is_list (dget d ''vulnerabilities'' PNone) | _ \<Rightarrow> False)"

definition advisory_doc :: "pyval res \<Rightarrow> pyval option" where
  "advisory_doc doc = (case doc of
      Inr (PDict d) \<Rightarrow>
        if is_list (dget d ''affected'' PNone) \<and> (truthy (dget d ''id'' PNone) \<or> truthy (dget d ''aliases'' PNone))
        then Some (PDict d) else None
    | _ \<Rightarrow> None)"

definition archive_items :: "rules_env \<Rightarrow> (string \<times> pyval res) list \<Rightarrow> rule_item list res" where
  "archive_items env files =
     (let docs = map snd files;
          own = (case find (\<lambda>(n, _). endswith n ''rulepack.json'') files of Some (n, d) \<Rightarrow> parse_or_nothing env d | None \<Rightarrow> []);
          exported = filter (\<lambda>is. is \<noteq> []) (map (parse_or_nothing env) (filter is_export docs));
          advisories = List.map_filter advisory_doc docs in
      if own \<noteq> [] then Ok own
      else if exported \<noteq> [] then Ok (hd exported)
      else if advisories \<noteq> [] then parse_imported_data (rl_rt env) (rl_zh_fix env) (PDict [(''advisories'', PList advisories)])
      else Ok [])"

definition api_import_rules :: "rules_env \<Rightarrow> (string \<times> pyval res) list option \<Rightarrow> string \<Rightarrow> (string \<times> nat) pio" where
  "api_import_rules env archive actor =
     (case archive of
        None \<Rightarrow> io_raise (HTTPException 422 [])
      | Some files \<Rightarrow>
          if json_files files = [] then io_raise (HTTPException 422 [])
          else io_bind (io_lift (archive_items env (json_files files))) (\<lambda>items.
            io_bind (io_guard (items \<noteq> []) (HTTPException 422 [])) (\<lambda>_.
            io_bind (io_try (publish_pack env items None) (\<lambda>e. io_raise (HTTPException 500 []))) (\<lambda>v.
            io_bind (rules_audit ''import'' actor) (\<lambda>_. io_return (v, length items))))))"

text \<open>\<open>claims\<close> is what the token of a user carries: the role and the name.\<close>

definition bearer :: "string \<Rightarrow> string" where
  "bearer h = strip (if startswith h ''Bearer '' then drop 7 h else h)"

text \<open>An agent's token comes from the header, or else from the query.\<close>

definition agent_actor :: "rules_env \<Rightarrow> string option \<Rightarrow> string option \<Rightarrow> string option \<Rightarrow> string option pio" where
  "agent_actor env agent token authorization =
     (case agent of
        Some (c # cs) \<Rightarrow>
          (case (case authorization of Some (h # hs) \<Rightarrow> bearer (h # hs)
               | _ \<Rightarrow> (case token of Some t \<Rightarrow> t | None \<Rightarrow> [])) of
             [] \<Rightarrow> io_return None
           | x # xs \<Rightarrow> io_bind (on_hosts (validate_agent_token (rl_fenv env) (c # cs) (x # xs))) (\<lambda>ok.
               io_return (if ok then Some (''agent:'' @ c # cs) else None)))
      | _ \<Rightarrow> io_return None)"

definition user_actor :: "(string \<Rightarrow> (string option \<times> string) option) \<Rightarrow> string option \<Rightarrow> string option pio" where
  "user_actor claims authorization =
     (case authorization of
        Some (h # hs) \<Rightarrow>
          (case claims (bearer (h # hs)) of
             Some (Some role, name) \<Rightarrow>
               if role = ''admin'' \<or> role = ''analyst'' then io_return (Some name) else io_raise (HTTPException 403 [])
           | Some (None, name) \<Rightarrow> io_raise (HTTPException 403 [])
           | None \<Rightarrow> io_return None)
      | _ \<Rightarrow> io_return None)"

definition api_download_pack ::
    "rules_env \<Rightarrow> (string \<Rightarrow> (string option \<times> string) option) \<Rightarrow> string \<Rightarrow> string option \<Rightarrow> string option \<Rightarrow> string option \<Rightarrow> string pio" where
  "api_download_pack env claims version agent token authorization =
     io_bind (agent_actor env agent token authorization) (\<lambda>by_token.
     io_bind (case by_token of Some a \<Rightarrow> io_return (Some a) | None \<Rightarrow> user_actor claims authorization) (\<lambda>actor.
     case actor of
       None \<Rightarrow> io_raise (HTTPException 401 [])
     | Some a \<Rightarrow>
         io_bind (get_rule_pack_body env version) (\<lambda>body. case body of
           Some (c # cs) \<Rightarrow> io_bind (rules_audit ''pack_download'' a) (\<lambda>_. io_return (c # cs))
         | _ \<Rightarrow> io_raise (HTTPException 404 [''Rule pack not found'']))))"

end
