(* ===== verification/RuleLaws.thy ===== *)
theory RuleLaws
  imports RulePacks CommandLaws
begin

text \<open>
  What holds of rule packs: a published pack verifies and is current, a synchronised pack holds the baseline, the
  feed is read to its end, an agent that is told of a pack can download it and check it, and nobody else gets it.
\<close>

section \<open>Publishing\<close>

lemma on_packs_Inr: "on_packs env m w = (Inr x, w') \<longleftrightarrow> fe_es_up (rl_fenv env) \<and> m w = (Inr x, w')"
  by (auto simp: on_packs_def)

lemma on_hosts_Inr: "on_hosts m w = (Inr x, w') \<longleftrightarrow> (\<exists>f. m (rk_fleet w) = (Inr x, f) \<and> w' = w\<lparr>rk_fleet := f\<rparr>)"
  by (auto simp: on_hosts_def split: prod.splits)

lemma kv_set_Inr: "kv_set env k v ttl f = (Inr x, f') \<longleftrightarrow> fe_redis_up env \<and> f' = kv_put env k v ttl f"
  by (cases "fe_redis_up env") (auto simp: kv_up kv_down)

definition pack_of :: "rules_env \<Rightarrow> string \<Rightarrow> rule_item list \<Rightarrow> rule_pack" where
  "pack_of env v items = (let stamp = fe_iso (rl_fenv env) (fe_now (rl_fenv env)) in
     \<lparr>rp_version = v, rp_rules = items, rp_signature = sign_pack env (rl_dump env v items stamp), rp_published = stamp\<rparr>)"

definition chosen_version :: "rules_env \<Rightarrow> string option \<Rightarrow> string" where
  "chosen_version env version = (case version of Some x \<Rightarrow> x | None \<Rightarrow> rl_version_of env (fe_now (rl_fenv env)))"

lemma publish_pack_Inr:
  "publish_pack env items version w = (Inr v, w') \<longleftrightarrow>
     fe_es_up (rl_fenv env) \<and> fe_redis_up (rl_fenv env) \<and> v = chosen_version env version \<and>
     w' = w\<lparr>rk_packs := AList.update v (pack_of env v items) (rk_packs w),
       rk_fleet := kv_put (rl_fenv env) version_key_name (PStr v) None (rk_fleet w)\<rparr>"
  by (auto simp: publish_pack_def Let_def io_bind_Inr on_packs_Inr on_hosts_Inr kv_set_Inr pack_of_def chosen_version_def
      io_simps)

lemma get_pack_up:
  assumes "fe_es_up (rl_fenv env)"
  shows "get_rule_pack env v w = (Inr (map_of (rk_packs w) v), w)"
    and "get_rule_pack_body env v w = (Inr (map_option (rl_body env) (map_of (rk_packs w) v)), w)"
  using assms by (simp_all add: get_rule_pack_def get_rule_pack_body_def io_try_def on_packs_def)

lemma current_up:
  assumes "fe_redis_up (rl_fenv env)"
  shows "current_rule_version env w = (Inr (case kv_lookup (rl_fenv env) version_key_name (rk_fleet w) of
    Some (PStr (c # cs)) \<Rightarrow> c # cs | _ \<Rightarrow> ''0''), w)"
  using assms by (simp add: current_rule_version_def io_bind_def on_hosts_def kv_up)

text \<open>
  A pack that was published is found under its version with exactly the given rules, its key code verifies,
  it is the current version, and every other pack is as before.
\<close>

theorem published_pack_verifies:
  assumes "publish_pack env items version w = (Inr v, w')" and "v \<noteq> []"
  shows "\<exists>p. get_rule_pack env v w' = (Inr (Some p), w') \<and> rp_version p = v \<and> rp_rules p = items \<and>
    verify_pack_signature env p \<and> current_rule_version env w' = (Inr v, w') \<and>
    (\<forall>u. u \<noteq> v \<longrightarrow> map_of (rk_packs w') u = map_of (rk_packs w) u)"
proof -
  note run = publish_pack_Inr [THEN iffD1, OF assms(1)]
  then have w': "w' = w\<lparr>rk_packs := AList.update v (pack_of env v items) (rk_packs w),
      rk_fleet := kv_put (rl_fenv env) version_key_name (PStr v) None (rk_fleet w)\<rparr>" by simp
  have "get_rule_pack env v w' = (Inr (Some (pack_of env v items)), w')"
    using run by (simp add: get_pack_up w' update_conv')
  moreover have "verify_pack_signature env (pack_of env v items)"
    by (simp add: verify_pack_signature_def pack_text_def pack_of_def Let_def)
  moreover have "current_rule_version env w' = (Inr v, w')"
  proof -
    obtain c cs where "v = c # cs" using assms(2) by (cases v) auto
    then show ?thesis using run by (simp only: current_up w') simp
  qed
  moreover have "\<forall>u. u \<noteq> v \<longrightarrow> map_of (rk_packs w') u = map_of (rk_packs w) u"
    by (simp add: w' update_conv')
  ultimately show ?thesis
    by (intro exI [of _ "pack_of env v items"]) (simp_all add: pack_of_def Let_def)
qed

text \<open>
  A synchronisation publishes the baseline rules, the operator's rules and the rules of the source, in this
  order and all of them, or it publishes nothing at all: one rule that is not well-formed, or one error of the
  source, leaves the packs and the current version as they were.
\<close>

theorem sync_all_or_nothing:
  assumes "sync_rules env source w = Some (r, w')"
  shows "(\<exists>rules items. source_rules env source = Some (Inr rules) \<and>
      mapM raw_item (BASELINE_RULES (rl_zh env) @
        load_extra_baseline_rules (rl_extra_path env) (rl_has_yaml env) (rl_extra env) @ rules) = Ok items \<and>
      r = fst (publish_pack env items (Some (rl_version_of env (fe_now (rl_fenv env)))) w) \<and>
      (\<forall>v. r = Inr v \<longrightarrow> map_option rp_rules (map_of (rk_packs w') v) = Some items)) \<or>
    (\<exists>e. r = Inl e) \<and> w' = w"
proof -
  obtain x where src: "source_rules env source = Some x" and
    run: "io_bind (io_lift (rbind x (\<lambda>rules. mapM raw_item (baseline env @ rules)))) (\<lambda>items.
       publish_pack env items (Some (rl_version_of env (fe_now (rl_fenv env))))) w = (r, w')"
    using assms by (auto simp: sync_rules_def)
  show ?thesis
  proof (cases "rbind x (\<lambda>rules. mapM raw_item (baseline env @ rules))")
    case (Inl e)
    then have "(r, w') = (Inl e, w)" using run by (simp add: io_bind_def io_lift_def)
    then show ?thesis by simp
  next
    case (Inr items)
    then obtain rules where x: "x = Inr rules" "mapM raw_item (baseline env @ rules) = Ok items"
      by (auto simp: rbind_eq_Inr_iff)
    have p: "publish_pack env items (Some (rl_version_of env (fe_now (rl_fenv env)))) w = (r, w')"
      using run Inr by (simp add: io_bind_def io_lift_def)
    have "map_option rp_rules (map_of (rk_packs w') v) = Some items" if "r = Inr v" for v
      using p that by (simp add: publish_pack_Inr update_conv' pack_of_def Let_def)
    then show ?thesis using src x p by (auto simp: baseline_def)
  qed
qed

section \<open>Reading the feed\<close>

definition feed_page :: "nat \<Rightarrow> pyval list \<Rightarrow> nat \<Rightarrow> pyval res" where
  "feed_page m feed start = Ok (PDict [(''vulnerabilities'', PList (take m (drop start feed))),
     (''totalResults'', PInt (int (length feed)))])"

lemma feed_page_entries:
  assumes "\<And>v. v \<in> set feed \<Longrightarrow> scored v = Ok (sc v)"
  shows "page_entries (PDict [(''vulnerabilities'', PList (take m (drop s feed))), (''totalResults'', PInt n)]) =
    Ok (List.map_filter sc (take m (drop s feed)), min (length feed - s) m, PInt n)"
proof -
  have "mapM scored (take m (drop s feed)) = Ok (map sc (take m (drop s feed)))"
    using assms by (intro mapM_Ok) (meson in_set_dropD in_set_takeD)
  then show ?thesis by (simp add: page_entries_def List.map_filter_def comp_def filter_map)
qed

lemma reached_PInt: "reached s (PInt (int n)) = Ok (n \<le> s)"
  by (simp add: reached_def)

lemma map_filter_append: "List.map_filter f (xs @ ys) = List.map_filter f xs @ List.map_filter f ys"
  by (simp add: List.map_filter_def)

lemma fetch_pages_feed:
  assumes "0 < m" and sc: "\<And>v. v \<in> set feed \<Longrightarrow> scored v = Ok (sc v)" and "s \<le> length feed"
  shows "fetch_pages (feed_page m feed) s items = Some (Ok (items @ List.map_filter sc (drop s feed)))"
  using assms(3)
proof (induction "length feed - s" arbitrary: s items rule: less_induct)
  case less
  let ?k = "min (length feed - s) m"
  have step: "fetch_pages (feed_page m feed) s items =
      (if s + ?k \<ge> length feed then Some (Ok (items @ List.map_filter sc (take m (drop s feed))))
       else fetch_pages (feed_page m feed) (s + ?k) (items @ List.map_filter sc (take m (drop s feed))))"
    unfolding fetch_pages.simps [of "feed_page m feed" s items]
    by (simp only: feed_page_def sum.case feed_page_entries [of feed sc, OF sc] prod.case reached_PInt)
  show ?case
  proof (cases "s + ?k \<ge> length feed")
    case True
    then have "take m (drop s feed) = drop s feed" by simp
    then show ?thesis unfolding step if_P [OF True] by simp
  next
    case False
    then have k: "?k = m" "s + m \<le> length feed" by auto
    have "fetch_pages (feed_page m feed) (s + m) (items @ List.map_filter sc (take m (drop s feed))) =
        Some (Ok ((items @ List.map_filter sc (take m (drop s feed))) @ List.map_filter sc (drop (s + m) feed)))"
      using k False assms(1) by (intro less.hyps) auto
    moreover have "List.map_filter sc (take m (drop s feed)) @ List.map_filter sc (drop (s + m) feed) = List.map_filter sc (drop s feed)"
      unfolding map_filter_append [symmetric] by (metis append_take_drop_id drop_drop add.commute)
    ultimately show ?thesis unfolding step if_not_P [OF False] k(1) by simp
  qed
qed

text \<open>
  Reading the vulnerability feed ends, and has then read all of it: from a server that answers every start index
  with the next entries, at least one of them, and with their total number, the loop returns exactly the entries
  with a score of four or more, in order.
\<close>

theorem fetch_reads_feed:
  assumes "0 < m" and "\<And>v. v \<in> set feed \<Longrightarrow> scored v = Ok (sc v)"
  shows "fetch_nvd_cves (feed_page m feed) = Some (Ok (List.map_filter sc feed))"
  using fetch_pages_feed [of m feed sc 0 "[]"] assms by (simp add: fetch_nvd_cves_def)

text \<open>A server that answers with no entries and a larger total is asked for ever.\<close>

definition empty_page :: "nat \<Rightarrow> pyval res" where
  "empty_page start = Ok (PDict [(''vulnerabilities'', PList []), (''totalResults'', PInt 1)])"

lemma fetch_empty_never_ends: "fetch_nvd_cves empty_page = None"
proof -
  have "\<not> (empty_page = empty_page \<and> (0::nat) = 0)" if "fetch_pages empty_page 0 [] = Some y" for y
  proof (rule fetch_pages.raw_induct [where P = "\<lambda>page s items y. \<not> (page = empty_page \<and> s = 0)", OF _ that])
    fix fetch page s items y
    assume "\<And>page s items y. fetch page s items = Some y \<Longrightarrow> \<not> (page = empty_page \<and> s = 0)"
      and "(case page s of Inl e \<Rightarrow> Some (if is_http e then Ok items else Raise e)
        | Inr data \<Rightarrow> (case page_entries data of Inl e \<Rightarrow> Some (Raise e)
          | Inr (cves, k, n) \<Rightarrow> (case reached (s + k) n of Inl e \<Rightarrow> Some (Raise e)
            | Inr end_reached \<Rightarrow> if end_reached then Some (Ok (items @ cves)) else fetch page (s + k) (items @ cves)))) = Some y"
    then show "\<not> (page = empty_page \<and> s = 0)"
      by (cases s) (fastforce simp: empty_page_def page_entries_def reached_def List.map_filter_def)+
  qed
  then show ?thesis by (cases "fetch_nvd_cves empty_page") (auto simp: fetch_nvd_cves_def)
qed


section \<open>Rules from the feed\<close>

text \<open>The entries of a vulnerability that name a product, as the loops meet them.\<close>

definition entry_in :: "pyval \<Rightarrow> pyval \<Rightarrow> bool" where
  "entry_in cve m \<longleftrightarrow> (\<exists>cs configs config ns nodes node ms entries.
     vget cve ''configurations'' (PList []) = Ok cs \<and> py_iter cs = Ok configs \<and> config \<in> set configs \<and>
     vget config ''nodes'' (PList []) = Ok ns \<and> py_iter ns = Ok nodes \<and> node \<in> set nodes \<and>
     vget node ''cpeMatch'' (PList []) = Ok ms \<and> py_iter ms = Ok entries \<and> m \<in> set entries)"

definition names_product :: "pyval \<Rightarrow> string \<Rightarrow> bool" where
  "names_product m p \<longleftrightarrow> (\<exists>c. vget m ''criteria'' (PStr []) = Ok (PStr c) \<and> length (split_on CHR '':'' c) \<ge> 6 \<and>
     p = split_on CHR '':'' c ! 4)"

lemma mapM_member: "mapM f xs = Ok ys \<Longrightarrow> y \<in> set ys \<Longrightarrow> \<exists>x\<in>set xs. f x = Ok y"
  by (induction xs arbitrary: ys) (auto simp: rbind_eq_Inr_iff)

lemma node_rule_sound:
  "node_rule rt cve i sev ms = Ok rs \<Longrightarrow> length rs \<le> 1 \<and>
     (\<forall>r\<in>set rs. \<exists>m\<in>set ms. \<exists>p b n fx. names_product m p \<and> upper_bound m = Ok b \<and>
        r = version_rule i (PStr i) (p @ '': '' @ n) sev (PStr p) b fx)"
proof (induction ms arbitrary: rs)
  case (Cons m ms)
  obtain criteria where c: "vget m ''criteria'' (PStr []) = Ok criteria"
    using Cons.prems by (auto simp: rbind_eq_Inr_iff)
  show ?case
  proof (cases "\<exists>t. criteria = PStr t \<and> t \<noteq> [] \<and> length (split_on CHR '':'' t) \<ge> 6")
    case False
    then have "node_rule rt cve i sev ms = Ok rs"
      using Cons.prems c by (cases criteria) (auto simp: Let_def split: if_splits)
    from Cons.IH [OF this] show ?thesis by auto
  next
    case True
    then obtain t where t: "criteria = PStr t" "t \<noteq> []" "length (split_on CHR '':'' t) \<ge> 6" by blast
    let ?p = "split_on CHR '':'' t ! 4"
    have "names_product m ?p" using c t by (auto simp: names_product_def)
    moreover obtain b short where "upper_bound m = Ok b"
      "rs = [version_rule i (PStr i) (?p @ '': '' @ py_str rt short) sev (PStr ?p) b
         (''Upgrade '' @ ?p @ '' to version >= '' @ py_str rt b)]"
      using Cons.prems c t by (auto simp: Let_def rbind_eq_Inr_iff not_less)
    ultimately show ?thesis by auto
  qed
qed simp

lemma severity_of_base_level: "severity_of_base v = Ok s \<Longrightarrow> s \<in> set SEVERITIES"
  by (auto simp: severity_of_base_def SEVERITIES_def split: pyval.splits if_splits)

lemma cve_severity_level: "cve_severity cve = Ok s \<Longrightarrow> s \<in> set SEVERITIES"
proof -
  assume sev: "cve_severity cve = Ok s"
  then obtain c where c: "cvss_v3 cve = Ok c" by (auto simp: cve_severity_def rbind_eq_Inr_iff)
  show ?thesis
  proof (cases "truthy c")
    case True
    then show ?thesis using sev c by (auto simp: cve_severity_def rbind_eq_Inr_iff dest: severity_of_base_level)
  next
    case False
    then show ?thesis using sev c by (simp add: cve_severity_def SEVERITIES_def)
  qed
qed

text \<open>
  Every rule made from the vulnerability feed belongs to an entry of the feed: it carries that entry's CVE
  number and a level of severity that exists, it asks for versions of a product below a bound, and product and bound
  are those of one of the entry's product matches.
\<close>

theorem feed_rules_sound:
  assumes "transform_cves_to_rules rt cves = Ok rs" and "r \<in> set rs"
  shows "\<exists>cve\<in>set cves. \<exists>i m p b n sev fx. vget cve ''id'' (PStr []) = Ok (PStr i) \<and> startswith i ''CVE-'' \<and>
    entry_in cve m \<and> names_product m p \<and> upper_bound m = Ok b \<and> sev \<in> set SEVERITIES \<and>
    r = version_rule i (PStr i) (p @ '': '' @ n) sev (PStr p) b fx"
proof -
  obtain rss where rss: "mapM (cve_rules rt) cves = Ok rss" "r \<in> set (concat rss)"
    using assms by (auto simp: transform_cves_to_rules_def rbind_eq_Inr_iff)
  then obtain rs1 where "rs1 \<in> set rss" "r \<in> set rs1" by auto
  with mapM_member [OF rss(1)] obtain cve where cve: "cve \<in> set cves" "cve_rules rt cve = Ok rs1" by blast
  then obtain v where v: "vget cve ''id'' (PStr []) = Ok v" by (auto simp: cve_rules_def rbind_eq_Inr_iff)
  obtain i where "v = PStr i" "startswith i ''CVE-''"
    using cve(2) v \<open>r \<in> set rs1\<close> by (cases v) (auto simp: cve_rules_def split: if_splits)
  with cve(2) v obtain sev cs configs rss2 where i: "vget cve ''id'' (PStr []) = Ok (PStr i)" "startswith i ''CVE-''"
    and sev: "cve_severity cve = Ok sev" and cs: "vget cve ''configurations'' (PList []) = Ok cs" "py_iter cs = Ok configs"
    and rss2: "mapM (config_rules rt cve i sev) configs = Ok rss2" "rs1 = concat rss2"
    by (auto simp: cve_rules_def rbind_eq_Inr_iff)
  then obtain rs2 where "rs2 \<in> set rss2" "r \<in> set rs2" using \<open>r \<in> set rs1\<close> by auto
  with mapM_member [OF rss2(1)] obtain config where config: "config \<in> set configs" "config_rules rt cve i sev config = Ok rs2" by blast
  then obtain ns nodes rss3 where ns: "vget config ''nodes'' (PList []) = Ok ns" "py_iter ns = Ok nodes"
    and rss3: "mapM (\<lambda>n. rbind (vget n ''cpeMatch'' (PList [])) (\<lambda>ms. rbind (py_iter ms) (node_rule rt cve i sev))) nodes = Ok rss3"
      "rs2 = concat rss3"
    by (auto simp: config_rules_def rbind_eq_Inr_iff)
  then obtain rs3 where rs3: "rs3 \<in> set rss3" "r \<in> set rs3" using \<open>r \<in> set rs2\<close> by auto
  from mapM_member [OF rss3(1) rs3(1)] obtain node ms entries where node: "node \<in> set nodes"
    "vget node ''cpeMatch'' (PList []) = Ok ms" "py_iter ms = Ok entries" "node_rule rt cve i sev entries = Ok rs3"
    by (auto simp: rbind_eq_Inr_iff)
  from node_rule_sound [OF node(4)] \<open>r \<in> set rs3\<close> obtain m p b n fx where m: "m \<in> set entries" "names_product m p"
    "upper_bound m = Ok b" "r = version_rule i (PStr i) (p @ '': '' @ n) sev (PStr p) b fx" by blast
  have "entry_in cve m" unfolding entry_in_def using cs config(1) ns node(1-3) m(1) by blast
  with cve(1) i m cve_severity_level [OF sev] show ?thesis by blast
qed

section \<open>Distribution\<close>

lemma validate_same: "validate_agent_token env a t f = (Inr b, f') \<Longrightarrow> f' = f"
  by (auto simp: validate_agent_token_def pg_def io_bind_Inr io_guard_def io_simps split: if_splits option.splits)

lemma agent_actor_some:
  assumes "agent_actor env agent q h w = (Inr (Some x), w')"
  shows "\<exists>a t. agent = Some a \<and> a \<noteq> [] \<and> t \<noteq> [] \<and> fst (validate_agent_token (rl_fenv env) a t (rk_fleet w)) = Ok True"
proof -
  obtain c cs where a: "agent = Some (c # cs)"
    using assms by (auto simp: agent_actor_def io_simps split: option.splits list.splits)
  let ?t = "case h of Some (k # ks) \<Rightarrow> bearer (k # ks) | _ \<Rightarrow> (case q of Some t \<Rightarrow> t | None \<Rightarrow> [])"
  obtain y ys where t: "?t = y # ys" using assms a by (cases ?t) (auto simp: agent_actor_def io_simps)
  obtain ok w1 where "on_hosts (validate_agent_token (rl_fenv env) (c # cs) (y # ys)) w = (Inr ok, w1)" "ok"
    using assms a t by (auto simp: agent_actor_def io_bind_Inr io_simps split: if_splits)
  then have "fst (validate_agent_token (rl_fenv env) (c # cs) (y # ys) (rk_fleet w)) = Ok True"
    by (auto simp: on_hosts_Inr)
  with a show ?thesis by blast
qed


lemma agent_actor_valid:
  assumes "agent \<noteq> []" and "token \<noteq> []" and "strip token = token"
    and "validate_agent_token (rl_fenv env) agent token (rk_fleet w) = (Inr True, rk_fleet w)"
  shows "agent_actor env (Some agent) q (Some (''Bearer '' @ token)) w = (Inr (Some (''agent:'' @ agent)), w)"
proof -
  obtain a as t ts where "agent = a # as" "token = t # ts" using assms(1,2) by (cases agent; cases token) auto
  moreover have "bearer (''Bearer '' @ token) = token" using assms(3) by (simp add: bearer_def startswith_def)
  ultimately show ?thesis using assms(4) by (simp add: agent_actor_def io_bind_def on_hosts_def)
qed

text \<open>
  C27: What an agent is told of a pack is what it can download and check. When a pack is pushed to an agent, either
  nothing is sent, or the message names a version, and under it the agent, with its token, downloads exactly the
  text whose signature the message carries; the law of the signature scheme is that a signature checks for the text
  it was made for.
\<close>

theorem pushed_pack_checks:
  assumes "force_rule_update env agent w = (Inr ok, w')"
    and "get_private_key (rl_sign env) = Some k"
    and "\<And>d. se_check (rl_sign env) (se_public (rl_sign env) k) (se_sign (rl_sign env) k d) d"
    and "fst (validate_agent_token (rl_fenv env) agent token (rk_fleet w')) = Ok True"
    and "agent \<noteq> []" and "token \<noteq> []" and "strip token = token"
  shows "\<not> ok \<and> w' = w \<or>
    (\<exists>v signature body w''.
       send_to_agent (rl_fenv env) (rl_sign env) agent (rule_update env v (pack_url env v) signature) (rk_fleet w) =
         (Inr ok, rk_fleet w') \<and>
       api_download_pack env claims v (Some agent) None (Some (''Bearer '' @ token)) w' = (Inr body, w'') \<and>
       se_check (rl_sign env) (get_public_key_hex (rl_sign env)) signature body)"
proof -
  have redis: "fe_redis_up (rl_fenv env)"
    using assms(1) by (cases "fe_redis_up (rl_fenv env)")
      (auto simp: force_rule_update_def current_rule_version_def io_bind_Inr on_hosts_Inr kv_down)
  obtain v where cur: "current_rule_version env w = (Inr v, w)" using current_up [OF redis] by blast
  show ?thesis
  proof (cases "v = [] \<or> v = ''0'' \<or> console_base (rl_console env) = []")
    case True
    then have "\<not> ok \<and> w' = w" using assms(1) cur by (auto simp: force_rule_update_def io_bind_def io_simps)
    then show ?thesis by blast
  next
    case False
    obtain b where b: "get_rule_pack_body env v w = (Inr b, w)"
      by (cases "fe_es_up (rl_fenv env)")
        (auto simp: get_pack_up get_rule_pack_body_def io_try_def on_packs_def is_Exception_def io_raise_def io_return_def)
    show ?thesis
    proof (cases "\<exists>c cs. b = Some (c # cs)")
      case no: False
      then have "\<not> ok \<and> w' = w" using assms(1) cur False b
        by (auto simp: force_rule_update_def io_bind_def io_simps split: option.splits list.splits)
      then show ?thesis by blast
    next
      case True
      then obtain c cs where bb: "b = Some (c # cs)" by blast
      let ?sig = "sign_bytes (rl_sign env) (c # cs)"
      have send: "on_hosts (send_to_agent (rl_fenv env) (rl_sign env) agent (rule_update env v (pack_url env v) ?sig)) w = (Inr ok, w')"
        using assms(1) cur False b bb by (simp add: force_rule_update_def io_bind_def)
      then obtain f where f: "send_to_agent (rl_fenv env) (rl_sign env) agent (rule_update env v (pack_url env v) ?sig) (rk_fleet w) =
          (Inr ok, f)" "w' = w\<lparr>rk_fleet := f\<rparr>" unfolding on_hosts_Inr by blast
      have es: "fe_es_up (rl_fenv env)"
        using b bb by (cases "fe_es_up (rl_fenv env)")
          (auto simp: get_rule_pack_body_def io_try_def on_packs_def is_Exception_def io_raise_def io_return_def)
      then have body': "get_rule_pack_body env v w' = (Inr (Some (c # cs)), w')"
        using b bb f(2) by (simp add: get_pack_up)
      have valid: "validate_agent_token (rl_fenv env) agent token (rk_fleet w') = (Inr True, rk_fleet w')"
        using assms(4) validate_same by (cases "validate_agent_token (rl_fenv env) agent token (rk_fleet w')") fastforce
      have "api_download_pack env claims v (Some agent) None (Some (''Bearer '' @ token)) w' =
          (Inr (c # cs), w'\<lparr>rk_audit := rk_audit w' @ [(''pack_download'', ''agent:'' @ agent)]\<rparr>)"
        using body' agent_actor_valid [OF assms(5-7) valid, of None]
        by (simp add: api_download_pack_def io_bind_def rules_audit_def)
      moreover have "se_check (rl_sign env) (get_public_key_hex (rl_sign env)) ?sig (c # cs)"
        using assms(2,3) by (simp add: get_public_key_hex_def sign_bytes_def)
      moreover have "send_to_agent (rl_fenv env) (rl_sign env) agent (rule_update env v (pack_url env v) ?sig) (rk_fleet w) =
          (Inr ok, rk_fleet w')" using f by simp
      ultimately show ?thesis by blast
    qed
  qed
qed

section \<open>Concrete runs\<close>

definition toy_match :: pyval where
  "toy_match = PDict [(''criteria'', PStr ''cpe:2.3:a:vendor:nginx:1.2:*''), (''versionEndExcluding'', PStr ''1.25'')]"

definition toy_cve :: "rat \<Rightarrow> pyval" where
  "toy_cve score = PDict [(''id'', PStr ''CVE-1''),
     (''metrics'', PDict [(''cvssMetricV31'', PList [PDict [(''cvssData'', PDict [(''baseScore'', PFloat score)])]])]),
     (''configurations'', PList [PDict [(''nodes'', PList [PDict [(''cpeMatch'', PList [toy_match])]])]])]"

definition toy_vuln :: "rat \<Rightarrow> pyval" where "toy_vuln score = PDict [(''cve'', toy_cve score)]"

definition toy_rules :: rules_env where
  "toy_rules = \<lparr>rl_fenv = toy_env, rl_sign = toy_sign, rl_rt = toy_rt, rl_zh = (\<lambda>i. (i, i)), rl_zh_fix = (\<lambda>p b. p @ b),
     rl_extra_path = [], rl_has_yaml = False, rl_extra = Ok PNone, rl_version_of = int_to_str, rl_hmac = (\<lambda>k d. k @ d),
     rl_hmac_key = ''k'', rl_dump = (\<lambda>v items stamp. v @ stamp), rl_body = (\<lambda>p. ''pack '' @ rp_version p),
     rl_console = ''https://console/'', rl_nuclei_base = [], rl_nuclei_version = [],
     rl_page = feed_page 1 [toy_vuln 9, toy_vuln 2], rl_tree = Raise (ExtError ''http''), rl_file = (\<lambda>_. None),
     rl_fromiso = (\<lambda>_. None), rl_year = 2026, rl_lookback = 30\<rparr>"

definition toy_packs :: rules_world where
  "toy_packs = \<lparr>rk_fleet = one_host\<lparr>conns := [(''agent-1'', 1)]\<rparr>, rk_packs = [], rk_audit = []\<rparr>"

definition toy_item :: rule_item where
  "toy_item = \<lparr>ri_id = ''R1'', ri_category = ''baseline'', ri_cve = None, ri_name = ''root login'', ri_severity = ''high'',
     ri_check = \<lparr>rc_type = ''config_check'', rc_name = [], rc_op = ''lt'', rc_value = [], rc_file = ''f'', rc_pattern = ''p'',
       rc_expect = ''no''\<rparr>, ri_fix = []\<rparr>"

definition with_pack :: rules_world where
  "with_pack = toy_packs\<lparr>rk_packs := [(''v1'', pack_of toy_rules ''v1'' [toy_item])],
     rk_fleet := kv_put toy_env version_key_name (PStr ''v1'') None (rk_fleet toy_packs)\<rparr>"

lemma published_pack_verifies_witness:
  "publish_pack toy_rules [toy_item] (Some ''v1'') toy_packs = (Inr ''v1'', with_pack) \<and>
   (\<exists>p. get_rule_pack toy_rules ''v1'' with_pack = (Inr (Some p), with_pack) \<and> rp_rules p = [toy_item] \<and>
     verify_pack_signature toy_rules p \<and> current_rule_version toy_rules with_pack = (Inr ''v1'', with_pack))"
proof -
  have "publish_pack toy_rules [toy_item] (Some ''v1'') toy_packs = (Inr ''v1'', with_pack)"
    by (simp add: publish_pack_Inr toy_rules_def toy_env_def chosen_version_def with_pack_def toy_packs_def)
  then show ?thesis using published_pack_verifies [of toy_rules "[toy_item]" "Some ''v1''" toy_packs "''v1''" with_pack] by blast
qed

lemma source_rules_other: "source_rules toy_rules ''none'' = Some (Ok [])"
  by (simp add: source_rules_def)

lemma sync_all_or_nothing_witness:
  "\<exists>w' items. sync_rules toy_rules ''none'' toy_packs = Some (Inr ''1000'', w') \<and>
     mapM raw_item (BASELINE_RULES (rl_zh toy_rules)) = Ok items \<and>
     map_option rp_rules (map_of (rk_packs w') ''1000'') = Some items"
proof -
  obtain items where items: "mapM raw_item (BASELINE_RULES (rl_zh toy_rules)) = Ok items"
  proof -
    have "\<not> isl (mapM raw_item (BASELINE_RULES (rl_zh toy_rules)))" by code_simp
    then show ?thesis using that by (metis isl_def sum.exhaust)
  qed
  have v: "int_to_str 1000 = ''1000''" by code_simp
  have none: "load_extra_baseline_rules (rl_extra_path toy_rules) (rl_has_yaml toy_rules) (rl_extra toy_rules) = []"
    by (simp add: toy_rules_def load_extra_baseline_rules_def)
  obtain w' where run: "sync_rules toy_rules ''none'' toy_packs = Some (Inr ''1000'', w')"
    and "publish_pack toy_rules items (Some ''1000'') toy_packs = (Inr ''1000'', w')"
  proof -
    obtain w' where p: "publish_pack toy_rules items (Some ''1000'') toy_packs = (Inr ''1000'', w')"
      unfolding publish_pack_Inr by (simp add: toy_rules_def toy_env_def chosen_version_def)
    then have "sync_rules toy_rules ''none'' toy_packs = Some (Inr ''1000'', w')"
      using items none v by (simp add: sync_rules_def source_rules_other baseline_def io_bind_def io_lift_def)
        (simp add: toy_rules_def toy_env_def)
    with p show ?thesis using that by blast
  qed
  from sync_all_or_nothing [OF run(1)] show ?thesis
    using run items none source_rules_other by auto
qed

lemma fetch_reads_feed_witness:
  "fetch_nvd_cves (feed_page 1 [toy_vuln 9, toy_vuln 2]) = Some (Ok [toy_cve 9])"
proof -
  let ?sc = "\<lambda>v. if v = toy_vuln 9 then Some (toy_cve 9) else None"
  have "scored v = Ok (?sc v)" if "v \<in> set [toy_vuln 9, toy_vuln 2]" for v
    using that by (auto simp: toy_vuln_def toy_cve_def scored_def cvss_v3_def index0_def vget_def)
  from fetch_reads_feed [of 1 "[toy_vuln 9, toy_vuln 2]" ?sc, OF _ this] show ?thesis
    by (simp add: toy_vuln_def toy_cve_def List.map_filter_def)
qed

lemma feed_rules_sound_witness:
  "\<exists>r. transform_cves_to_rules toy_rt [toy_cve 9] = Ok [r] \<and>
    (\<exists>cve\<in>{toy_cve 9}. \<exists>i m p b n sev fx. vget cve ''id'' (PStr []) = Ok (PStr i) \<and> startswith i ''CVE-'' \<and>
    entry_in cve m \<and> names_product m p \<and> upper_bound m = Ok b \<and> sev \<in> set SEVERITIES \<and>
    r = version_rule i (PStr i) (p @ '': '' @ n) sev (PStr p) b fx)"
proof -
  have "(case transform_cves_to_rules toy_rt [toy_cve 9] of Inr [r] \<Rightarrow> True | _ \<Rightarrow> False)" by code_simp
  then obtain r where r: "transform_cves_to_rules toy_rt [toy_cve 9] = Ok [r]"
    by (auto split: sum.splits list.splits)
  from feed_rules_sound [OF this, of r] r show ?thesis by simp
qed

lemma toy_valid: "validate_agent_token (rl_fenv toy_rules) ''agent-1'' ''tok'' (rk_fleet with_pack) = (Inr True, rk_fleet with_pack)"
  by (simp add: validate_agent_token_def toy_rules_def toy_env_def pg_def io_guard_def io_bind_def find_cred_def
      with_pack_def toy_packs_def one_host_def toy_cred_def kv_put_def io_gets_def)

lemma toy_body:
  "fe_es_up (rl_fenv toy_rules)" "fe_redis_up (rl_fenv toy_rules)" "strip ''tok'' = ''tok''"
  "get_rule_pack_body toy_rules ''v1'' with_pack = (Inr (Some ''pack v1''), with_pack)"
proof -
  show up: "fe_es_up (rl_fenv toy_rules)" "fe_redis_up (rl_fenv toy_rules)" by (simp_all add: toy_rules_def toy_env_def)
  show "strip ''tok'' = ''tok''" by code_simp
  show "get_rule_pack_body toy_rules ''v1'' with_pack = (Inr (Some ''pack v1''), with_pack)"
    using get_pack_up(2) [OF up(1), of "''v1''" with_pack] by (simp add: with_pack_def pack_of_def toy_rules_def Let_def)
qed


lemma send_connected:
  assumes "map_of (conns w) a = Some s" and "fe_ws_ok env s"
  shows "send_to_agent env se a msg w = (Inr True, w\<lparr>sent := sent w @ [(s, PDict (sign_message se (fe_iso env (fe_now env)) msg))]\<rparr>)"
  using assms by (simp add: send_to_agent_def Let_def io_try_def io_bind_def ws_send_def io_guard_def)

lemma pushed_pack_checks_witness:
  "\<exists>w'. force_rule_update toy_rules ''agent-1'' with_pack = (Inr True, w') \<and>
    (\<exists>v signature body w''. api_download_pack toy_rules (\<lambda>_. None) v (Some ''agent-1'') None (Some ''Bearer tok'') w' = (Inr body, w'') \<and>
      se_check toy_sign (get_public_key_hex toy_sign) signature body)"
proof -
  have cur: "current_rule_version toy_rules with_pack = (Inr ''v1'', with_pack)"
    using current_up [OF toy_body(2), of with_pack] by (simp add: with_pack_def toy_rules_def)
  have base: "console_base (rl_console toy_rules) \<noteq> []" by (simp add: toy_rules_def) code_simp
  have conn: "map_of (conns (rk_fleet with_pack)) ''agent-1'' = Some 1" "fe_ws_ok (rl_fenv toy_rules) 1"
    by (simp_all add: with_pack_def toy_packs_def toy_rules_def toy_env_def)
  obtain ms where push: "force_rule_update toy_rules ''agent-1'' with_pack =
      (Inr True, with_pack\<lparr>rk_fleet := (rk_fleet with_pack)\<lparr>sent := ms\<rparr>\<rparr>)"
    using base by (simp add: force_rule_update_def io_bind_def cur toy_body(4) on_hosts_def send_connected [OF conn])
  have valid: "fst (validate_agent_token (rl_fenv toy_rules) ''agent-1'' ''tok'' ((rk_fleet with_pack)\<lparr>sent := ms\<rparr>)) = Ok True"
    by (simp add: validate_agent_token_def toy_rules_def toy_env_def pg_def io_guard_def io_bind_def find_cred_def
      with_pack_def toy_packs_def one_host_def toy_cred_def kv_put_def io_gets_def)
  have sig: "get_private_key (rl_sign toy_rules) = Some (replicate 32 160)"
    "se_check (rl_sign toy_rules) (se_public (rl_sign toy_rules) k) (se_sign (rl_sign toy_rules) k d) d" for k d
    by (simp_all add: toy_rules_def toy_key) (simp add: toy_sign_def)
  have se: "rl_sign toy_rules = toy_sign" by (simp add: toy_rules_def)
  let ?w' = "with_pack\<lparr>rk_fleet := (rk_fleet with_pack)\<lparr>sent := ms\<rparr>\<rparr>"
  have "fst (validate_agent_token (rl_fenv toy_rules) ''agent-1'' ''tok'' (rk_fleet ?w')) = Ok True" using valid by simp
  from pushed_pack_checks [OF push sig this _ _ toy_body(3), of "\<lambda>_. None"]
  obtain v signature body w'' where
    "api_download_pack toy_rules (\<lambda>_. None) v (Some ''agent-1'') None (Some (''Bearer '' @ ''tok'')) ?w' = (Inr body, w'')"
    "se_check (rl_sign toy_rules) (get_public_key_hex (rl_sign toy_rules)) signature body"
    by (metis list.distinct(1))
  with push show ?thesis unfolding se by (intro exI [of _ ?w']) auto
qed

end
