(* ===== verification/ScanApi.thy ===== *)
theory ScanApi
  imports ScanNodes TaskQueue
begin

text \<open>
  The endpoints around vulnerability scans (\<open>src/api/routers/vulnscan.py\<close>): queueing, cancelling and deleting
  scans, following one, the findings and what becomes of them, and the statistics with their caches. The world is
  that of the scans, with the stream of queued scans and the caches of this process; one clock counts seconds for the
  documents and for the caches. The role of the caller has been checked before the endpoints run. Texts that are not
  ASCII are left out of error details and are an argument of the report page.
\<close>

section \<open>The world of the endpoints\<close>

record summary_row =
  su_agent :: string
  su_host :: string
  su_ip :: string
  su_os :: string
  su_group :: "string option"
  su_severity :: "(string \<times> nat) list"
  su_total :: nat
  su_open :: nat
  su_fixed :: nat
  su_last :: string

record host_stat =
  hs_group :: string
  hs_members :: nat
  hs_total :: nat
  hs_severity :: "(string \<times> nat) list"

record summary_query =
  sq_group :: "string option"
  sq_keyword :: "string option"
  sq_severity :: "string option"
  sq_status :: "string option"
  sq_page :: nat
  sq_size :: nat

record api_world =
  aw_scan :: scan_world
  aw_stream :: "pydict list"
  aw_groups :: "(int \<times> (string \<times> string) list) option"
  aw_stats :: "int \<times> host_stat list"
  aw_summary :: "(summary_query \<times> int \<times> summary_row list \<times> nat) list"

type_synonym 'a aio = "(api_world, 'a) io"

definition on_scan :: "'a sio \<Rightarrow> 'a aio" where
  "on_scan m = (\<lambda>w. case m (aw_scan w) of (r, s) \<Rightarrow> (r, w\<lparr>aw_scan := s\<rparr>))"

definition clock :: "int aio" where "clock = io_gets (\<lambda>w. sw_now (aw_scan w))"

definition task_status_text :: "task_status \<Rightarrow> string" where
  "task_status_text s = (case s of T_Queued \<Rightarrow> ''queued'' | T_Dispatching \<Rightarrow> ''dispatching'' | T_Scanning \<Rightarrow> ''scanning''
     | T_Analyzing \<Rightarrow> ''analyzing'' | T_Cancelling \<Rightarrow> ''cancelling'' | T_Cancelled \<Rightarrow> ''cancelled''
     | T_Completed \<Rightarrow> ''completed'' | T_Failed \<Rightarrow> ''failed'')"

definition task_status_of :: "string \<Rightarrow> task_status option" where
  "task_status_of s = find (\<lambda>t. task_status_text t = s)
     [T_Queued, T_Dispatching, T_Scanning, T_Analyzing, T_Cancelling, T_Cancelled, T_Completed, T_Failed]"

definition unprocessable :: exn where "unprocessable = HTTPException 422 []"
definition not_found :: "string \<Rightarrow> exn" where "not_found what = HTTPException 404 [what]"

section \<open>Queueing a scan\<close>

text \<open>A truth value is an integer here, as in the source.\<close>

fun bad_port :: "pyval \<Rightarrow> bool" where
  "bad_port (PInt p) = (\<not> (1 \<le> p \<and> p \<le> 65535))"
| "bad_port (PBool b) = (\<not> b)"
| "bad_port v = True"

definition quoted :: "string \<Rightarrow> string" where "quoted s = [CHR 0x27] @ s @ [CHR 0x27]"

definition checked_body :: "pyrt \<Rightarrow> pydict \<Rightarrow> (pyval \<times> pyval list \<times> pyval) res" where
  "checked_body rt body =
     (let source = dget body ''source'' (PStr ''manual'');
          targets = dget body ''targets'' (PList []);
          engine = dget body ''engine'' (PStr ''matcher'');
          ports = dget body ''nuclei_ports'' (PList []) in
      if source \<notin> {PStr ''dialog'', PStr ''manual''} then
        Raise (HTTPException 422 [''unsupported source '' @ py_repr rt source @ ''; expected '' @ quoted ''dialog'' @ '' or '' @ quoted ''manual''])
      else if engine \<notin> {PStr ''matcher'', PStr ''nuclei'', PStr ''global''} then
        Raise (HTTPException 422 [''unsupported engine '' @ py_repr rt engine @ ''; expected matcher, nuclei, or global''])
      else case targets of
        PList ts \<Rightarrow>
          if ts = [] \<or> length ts > 500 then Raise unprocessable
          else (case ports of
              PList ps \<Rightarrow> if length ps > 100 \<or> (\<exists>p\<in>set ps. bad_port p) then Raise unprocessable else Ok (source, ts, engine)
            | _ \<Rightarrow> Raise unprocessable)
      | _ \<Rightarrow> Raise unprocessable)"

text \<open>The business group of a host under its name and under its identifier, kept for thirty seconds.\<close>

definition CACHE_TTL :: int where "CACHE_TTL = 30"

definition named_groups :: "host_row \<Rightarrow> (string \<times> string) list" where
  "named_groups h = (case h_group h of
      Some (c # cs) \<Rightarrow> map (\<lambda>n. (n, c # cs)) (filter (\<lambda>n. n \<noteq> []) [h_name h, h_id h])
    | _ \<Rightarrow> [])"

definition group_index :: "host_row list \<Rightarrow> (string \<times> string) list" where
  "group_index hs = dupdate [] (concat (map named_groups hs))"

definition hashable :: "pyval \<Rightarrow> bool" where
  "hashable v = (case v of PList xs \<Rightarrow> False | PDict d \<Rightarrow> False | _ \<Rightarrow> True)"

definition groups_named :: "(string \<times> string) list \<Rightarrow> pyval list \<Rightarrow> string list res" where
  "groups_named idx ts =
     (if \<not> list_all hashable ts then Raise TypeError
      else Ok (sorted_set (List.map_filter (\<lambda>t. case t of PStr s \<Rightarrow> map_of idx s | _ \<Rightarrow> None) ts)))"

definition host_groups :: "scan_env \<Rightarrow> (string \<times> string) list aio" where
  "host_groups env =
     io_bind clock (\<lambda>now. io_bind (io_gets aw_groups) (\<lambda>cached.
     case cached of
       Some (ts, idx) \<Rightarrow> if now - ts < CACHE_TTL then io_return idx
         else io_bind (on_scan (on_fleet env (\<lambda>e. store_list_hosts e None None 2000 0 True None))) (\<lambda>hs.
              io_bind (io_modify (\<lambda>w. w\<lparr>aw_groups := Some (now, group_index hs)\<rparr>)) (\<lambda>_. io_return (group_index hs)))
     | None \<Rightarrow> io_bind (on_scan (on_fleet env (\<lambda>e. store_list_hosts e None None 2000 0 True None))) (\<lambda>hs.
              io_bind (io_modify (\<lambda>w. w\<lparr>aw_groups := Some (now, group_index hs)\<rparr>)) (\<lambda>_. io_return (group_index hs)))))"

definition target_groups :: "scan_env \<Rightarrow> pyval list \<Rightarrow> string list aio" where
  "target_groups env ts =
     io_try (io_bind (host_groups env) (\<lambda>idx. io_lift (groups_named idx ts))) (\<lambda>e. io_return [])"

text \<open>\<open>fresh\<close> is the random identifier, \<open>host\<close> the name of this machine.\<close>

definition queued_envelope ::
    "string \<Rightarrow> string \<Rightarrow> string \<Rightarrow> pydict \<Rightarrow> pyval \<Rightarrow> pyval list \<Rightarrow> pyval \<Rightarrow> int \<Rightarrow> string list \<Rightarrow> string \<Rightarrow> pydict" where
  "queued_envelope fresh now host body source ts engine timeout grps actor =
     (let opt = (\<lambda>k. py_or (dget body k (PList [])) (PList [])) in
      [(''task_id'', PStr fresh), (''source'', source), (''intent_text'', dget body ''intent_text'' PNone),
       (''targets'', PList ts),
       (''modules'', py_or (dget body ''modules'' (PList [PStr ''sys_vuln'', PStr ''baseline'']))
          (PList [PStr ''sys_vuln'', PStr ''baseline''])),
       (''engine'', engine), (''nuclei_ports'', opt ''nuclei_ports''), (''nuclei_severity'', opt ''nuclei_severity''),
       (''nuclei_tags'', opt ''nuclei_tags''), (''nuclei_templates'', opt ''nuclei_templates''),
       (''nuclei_timeout_sec'', PInt timeout), (''actor'', PStr actor), (''submitted_at'', PStr now),
       (''target_groups'', PList (map PStr grps)), (''submitted_by'', PStr host)])"

definition stream_add :: "pydict \<Rightarrow> unit aio" where
  "stream_add d = (\<lambda>w. if sw_redis (aw_scan w) then (Ok (), w\<lparr>aw_stream := aw_stream w @ [d]\<rparr>)
     else (Raise (ExtError ''redis''), w))"

definition kv_put_status :: "scan_env \<Rightarrow> string \<Rightarrow> pydict \<Rightarrow> unit aio" where
  "kv_put_status env task d = on_scan (on_fleet env (\<lambda>e. kv_set e (status_key task) (PDict d) (Some STATUS_TTL_SEC)))"

definition api_audit :: "scan_env \<Rightarrow> string \<Rightarrow> string \<Rightarrow> unit aio" where
  "api_audit env event action = on_scan (audit_event env event action)"

definition api_create_task :: "scan_env \<Rightarrow> string \<Rightarrow> string \<Rightarrow> pydict \<Rightarrow> string \<Rightarrow> (string \<times> pyval) aio" where
  "api_create_task env fresh host body actor =
     io_bind (io_lift (checked_body (sc_rt env) body)) (\<lambda>(source, ts, engine).
     io_bind (target_groups env ts) (\<lambda>grps.
     io_bind (io_lift (py_int (py_or (dget body ''nuclei_timeout_sec'' (PInt 0)) (PInt 0)))) (\<lambda>timeout.
     io_bind (on_scan (now_iso env)) (\<lambda>now.
     let d = queued_envelope fresh now host body source ts engine timeout grps actor in
     io_bind (stream_add d) (\<lambda>_.
     io_bind (io_try (kv_put_status env fresh [(''status'', PStr ''queued''), (''actor'', PStr actor), (''source'', source),
        (''targets'', PList ts), (''submitted_at'', PStr now)]) (\<lambda>e. io_return ())) (\<lambda>_.
     io_bind (api_audit env fresh ''create_task'') (\<lambda>_.
     io_return (fresh, engine))))))))"

section \<open>Tasks\<close>

record deletion =
  dl_deleted :: nat
  dl_missing :: "string list"
  dl_failed :: "string list"

definition delete_one :: "string \<Rightarrow> deletion sio" where
  "delete_one task =
     io_try (io_bind (get_task task) (\<lambda>t. case t of
         None \<Rightarrow> io_return \<lparr>dl_deleted = 0, dl_missing = [task], dl_failed = []\<rparr>
       | Some _ \<Rightarrow> io_bind (delete_task task) (\<lambda>_. io_return \<lparr>dl_deleted = 1, dl_missing = [], dl_failed = []\<rparr>)))
       (\<lambda>e. io_return \<lparr>dl_deleted = 0, dl_missing = [], dl_failed = [task]\<rparr>)"

fun delete_each :: "string list \<Rightarrow> deletion sio" where
  "delete_each [] = io_return \<lparr>dl_deleted = 0, dl_missing = [], dl_failed = []\<rparr>"
| "delete_each (t # ts) =
     io_bind (delete_one t) (\<lambda>d. io_bind (delete_each ts) (\<lambda>e.
     io_return \<lparr>dl_deleted = dl_deleted d + dl_deleted e, dl_missing = dl_missing d @ dl_missing e,
       dl_failed = dl_failed d @ dl_failed e\<rparr>))"

definition MAX_BATCH_DELETE :: nat where "MAX_BATCH_DELETE = 200"

definition api_batch_delete_tasks :: "scan_env \<Rightarrow> string list \<Rightarrow> deletion aio" where
  "api_batch_delete_tasks env tasks =
     io_bind (io_guard (tasks \<noteq> [] \<and> length tasks \<le> MAX_BATCH_DELETE) unprocessable) (\<lambda>_.
     io_bind (on_scan (delete_each tasks)) (\<lambda>d.
     io_bind (api_audit env ''vulnscan'' ''batch_delete_tasks'') (\<lambda>_. io_return d)))"

text \<open>A status that does not exist has no tasks.\<close>

definition api_list_tasks :: "scan_env \<Rightarrow> string option \<Rightarrow> nat \<Rightarrow> nat \<Rightarrow> (scan_task list \<times> nat) aio" where
  "api_list_tasks env status page page_size =
     io_bind (io_guard (1 \<le> page \<and> 1 \<le> page_size \<and> page_size \<le> 200) unprocessable) (\<lambda>_.
     case (case status of Some (c # cs) \<Rightarrow> map_option Some (task_status_of (c # cs)) | _ \<Rightarrow> Some None) of
       None \<Rightarrow> on_scan (es_do (io_return ([], 0)))
     | Some st \<Rightarrow>
         io_bind (on_scan (list_tasks env st page_size ((page - 1) * page_size))) (\<lambda>ts.
         io_bind (on_scan (count_tasks st)) (\<lambda>n. io_return (ts, n))))"

definition api_task_findings :: "scan_env \<Rightarrow> string \<Rightarrow> (agent_finding list \<times> nat) aio" where
  "api_task_findings env task =
     io_bind (on_scan (list_results env task None)) (\<lambda>rs.
     let fs = concat (map sr_findings rs) in io_return (fs, length fs))"

datatype task_view = Recorded scan_task | Side_Channel pydict

definition side_view :: "string \<Rightarrow> pydict \<Rightarrow> pydict" where
  "side_view task d =
     [(''task_id'', PStr task), (''status'', dget d ''status'' (PStr ''queued'')), (''targets'', dget d ''targets'' (PList [])),
      (''error'', dget d ''error'' PNone), (''side_channel'', PBool True), (''worker'', dget d ''worker'' (PStr [])),
      (''submitted_at'', dget d ''ts'' (PStr []))]"

definition kv_status :: "scan_env \<Rightarrow> string \<Rightarrow> pyval option aio" where
  "kv_status env task = on_scan (on_fleet env (\<lambda>e. kv_get e (status_key task)))"

definition api_get_task :: "scan_env \<Rightarrow> string \<Rightarrow> task_view aio" where
  "api_get_task env task =
     io_bind (on_scan (get_task task)) (\<lambda>t. case t of
       Some t \<Rightarrow> io_return (Recorded t)
     | None \<Rightarrow>
         io_bind (io_try (kv_status env task) (\<lambda>e. io_return None)) (\<lambda>v. case v of
           Some (PDict d) \<Rightarrow> io_return (Side_Channel (side_view task d))
         | _ \<Rightarrow> io_raise (not_found ''Task not found'')))"

text \<open>
  The event stream: in every round the message that came in ten seconds, if one did, and then the recorded state. An
  error of the channel ends the stream, one of the record is ignored.
\<close>

datatype sse = Data string | Heart_Beat | Status_Change task_status | Task_Done task_status

definition is_terminal :: "task_status \<Rightarrow> bool" where
  "is_terminal s \<longleftrightarrow> s \<in> {T_Completed, T_Failed, T_Cancelled}"

fun task_stream :: "task_status option \<Rightarrow> (string option res \<times> scan_task option res) list \<Rightarrow> sse list" where
  "task_stream last_status [] = []"
| "task_stream last_status ((Inl e, t) # rounds) = []"
| "task_stream last_status ((Inr m, t) # rounds) =
     (case m of Some d \<Rightarrow> Data d | None \<Rightarrow> Heart_Beat) #
     (case t of
        Inr (Some x) \<Rightarrow>
          if Some (t_status x) = last_status then task_stream last_status rounds
          else if is_terminal (t_status x) then [Task_Done (t_status x)]
          else Status_Change (t_status x) # task_stream (Some (t_status x)) rounds
      | _ \<Rightarrow> task_stream last_status rounds)"

definition api_task_stream :: "(string \<Rightarrow> pydict option) \<Rightarrow> string \<Rightarrow> (string option res \<times> scan_task option res) list \<Rightarrow> sse list res" where
  "api_task_stream decode_token token rounds =
     (if decode_token token = None then Raise (HTTPException 401 [''Invalid token'']) else Ok (task_stream None rounds))"

section \<open>Cancelling\<close>

definition mark_cancelled :: "string \<Rightarrow> unit sio" where
  "mark_cancelled task = redis_do (io_modify (\<lambda>w. w\<lparr>sw_cancelled := List.insert task (sw_cancelled w)\<rparr>))"

definition cancel_message :: "string \<Rightarrow> string \<Rightarrow> pydict" where
  "cancel_message now task = [(''v'', PInt 1), (''type'', PStr ''scan_cancel''), (''ts'', PStr now),
     (''payload'', PDict [(''task_id'', PStr task)])]"

definition vulnscan_task_channel :: "string \<Rightarrow> string" where
  "vulnscan_task_channel task = ''vulnscan:task:'' @ task"

text \<open>What the side channel knows of a scan that has no record yet.\<close>

definition queue_state :: "scan_env \<Rightarrow> string \<Rightarrow> scan_task option \<Rightarrow> pydict aio" where
  "queue_state env task t = (case t of
     Some _ \<Rightarrow> io_return []
   | None \<Rightarrow> io_bind (kv_status env task) (\<lambda>raw. case raw of
         None \<Rightarrow> io_raise (not_found ''Task not found'')
       | Some (PDict d) \<Rightarrow> io_return d
       | Some v \<Rightarrow> io_raise AttributeError))"

definition stop_recorded :: "scan_env \<Rightarrow> string \<Rightarrow> string \<Rightarrow> string \<Rightarrow> scan_task \<Rightarrow> (nat \<times> nat) sio" where
  "stop_recorded env now task actor t =
     io_bind (update_task task (\<lambda>t. t\<lparr>t_status := T_Cancelling\<rparr>)) (\<lambda>_.
     io_bind (if dedup_first (t_targets t) = [] then io_return (0, 0)
        else on_fleet env (\<lambda>e. broadcast e (sc_sign env) (dedup_first (t_targets t)) (cancel_message now task))) (\<lambda>counts.
     io_bind (update_task task (\<lambda>t. t\<lparr>t_status := T_Cancelled, t_error := Some (''Cancelled by '' @ actor),
        t_finished := Some now\<rparr>)) (\<lambda>_.
     io_return counts)))"

definition carry_out_cancel :: "scan_env \<Rightarrow> string \<Rightarrow> string \<Rightarrow> string \<Rightarrow> pydict \<Rightarrow> scan_task option \<Rightarrow> (nat \<times> nat) aio" where
  "carry_out_cancel env task actor now state t =
     io_bind (on_scan (mark_cancelled task)) (\<lambda>_.
     io_bind (case t of Some t \<Rightarrow> on_scan (stop_recorded env now task actor t) | None \<Rightarrow> io_return (0, 0)) (\<lambda>counts.
     io_bind (kv_put_status env task (dupdate state [(''status'', PStr ''cancelled''), (''cancelled_at'', PStr now),
        (''actor'', PStr actor)])) (\<lambda>_.
     io_bind (on_scan (on_fleet env (\<lambda>e. io_bind (kv_publish e (vulnscan_task_channel task) (PDict [(''type'', PStr ''task_done''),
        (''task_id'', PStr task), (''status'', PStr ''cancelled''), (''message'', PStr ''Scan cancelled by operator'')]))
        (\<lambda>_. io_return ())))) (\<lambda>_.
     io_bind (api_audit env task ''cancel_task'') (\<lambda>_.
     io_return counts)))))"

definition api_cancel_task :: "scan_env \<Rightarrow> string \<Rightarrow> string \<Rightarrow> (nat \<times> nat) aio" where
  "api_cancel_task env task actor =
     io_bind (on_scan (get_task task)) (\<lambda>t.
     io_bind (on_scan (now_iso env)) (\<lambda>now.
     io_bind (queue_state env task t) (\<lambda>state.
     let current = (case t of Some t \<Rightarrow> PStr (task_status_text (t_status t)) | None \<Rightarrow> dget state ''status'' (PStr ''queued'')) in
     if current = PStr ''cancelled'' then io_return (0, 0)
     else if current = PStr ''completed'' \<or> current = PStr ''failed'' then
       io_raise (HTTPException 409 [''Task is already '' @ (case current of PStr s \<Rightarrow> s | _ \<Rightarrow> [])])
     else carry_out_cancel env task actor now state t)))"

definition api_delete_task :: "scan_env \<Rightarrow> string \<Rightarrow> unit aio" where
  "api_delete_task env task =
     io_bind (on_scan (get_task task)) (\<lambda>t.
     io_bind (io_guard (t \<noteq> None) (not_found ''Task not found'')) (\<lambda>_.
     io_bind (on_scan (delete_task task)) (\<lambda>_.
     api_audit env task ''delete_task'')))"

section \<open>Findings\<close>

definition known_name :: "host_row \<Rightarrow> string option" where
  "known_name h = (if h_name h = [] then None else Some (h_name h))"

text \<open>The findings that match a filter; a business group stands for the names of its hosts.\<close>

definition api_list_results :: "scan_env \<Rightarrow> vuln_filter \<Rightarrow> string option \<Rightarrow> vuln list aio" where
  "api_list_results env f grp =
     (let search = (\<lambda>f. io_try (on_scan (list_vulns env f))
            (\<lambda>e. if e = ValueError then io_raise unprocessable else io_raise e)) in
      case grp of
        Some (c # cs) \<Rightarrow>
          io_bind (on_scan (on_fleet env (\<lambda>e. store_list_hosts e None (Some (c # cs)) 2000 0 True None))) (\<lambda>hs.
          if hs = [] then io_return []
          else search (f\<lparr>f_hosts := Some (List.map_filter known_name hs), f_agents := None, f_agent := None, f_limit := 2000,
            f_offset := 0\<rparr>))
      | _ \<Rightarrow> search (f\<lparr>f_hosts := None, f_agents := None, f_agent := None, f_limit := 200, f_offset := 0\<rparr>))"

definition api_get_report :: "string \<Rightarrow> scan_report aio" where
  "api_get_report task =
     io_bind (on_scan (get_report task)) (\<lambda>r. case r of
       Some r \<Rightarrow> io_return r | None \<Rightarrow> io_raise (not_found ''Report not found''))"

text \<open>The host of a finding: by its agent, or else the first of its name; an error leaves it out.\<close>

definition host_of_vuln :: "scan_env \<Rightarrow> vuln \<Rightarrow> host_row option aio" where
  "host_of_vuln env v =
     io_bind (io_try (if v_agent v = [] then io_return None else on_scan (on_fleet env (\<lambda>e. get_host e (v_agent v))))
        (\<lambda>e. io_return None)) (\<lambda>h.
     if h = None \<and> v_host v \<noteq> []
     then io_try (io_bind (on_scan (on_fleet env (\<lambda>e. store_list_hosts e None None 1 0 True (Some (v_host v))))) (\<lambda>hs.
         io_return (case hs of [] \<Rightarrow> None | x # xs \<Rightarrow> Some x))) (\<lambda>e. io_return None)
     else io_return h)"

definition api_get_vuln :: "scan_env \<Rightarrow> string \<Rightarrow> (vuln \<times> host_row option) aio" where
  "api_get_vuln env fid =
     io_bind (on_scan (get_vuln fid)) (\<lambda>v. case v of
       None \<Rightarrow> io_raise (not_found ''Finding not found'')
     | Some v \<Rightarrow> io_bind (host_of_vuln env v) (\<lambda>h. io_return (v, h)))"

definition vuln_status_of :: "pyval \<Rightarrow> vuln_status option" where
  "vuln_status_of v = (if v = PStr ''open'' then Some Open else if v = PStr ''fixed'' then Some Fixed
     else if v = PStr ''accepted'' then Some Accepted else None)"

definition set_vuln_status :: "string \<Rightarrow> vuln_status \<Rightarrow> bool \<Rightarrow> vuln \<Rightarrow> vuln" where
  "set_vuln_status now st first v =
     (let v' = v\<lparr>v_status := st\<rparr> in
      if st = Open then v'
      else (if first then v'\<lparr>v_first_fixed := Some now\<rparr> else v')\<lparr>v_last_fixed := Some now\<rparr>)"

definition api_update_vuln_status :: "scan_env \<Rightarrow> string \<Rightarrow> pydict \<Rightarrow> unit aio" where
  "api_update_vuln_status env fid body =
     (case vuln_status_of (dget body ''status'' (PStr [])) of
        None \<Rightarrow> io_raise (HTTPException 422 [''Invalid status''])
      | Some st \<Rightarrow>
          io_bind (on_scan (get_vuln fid)) (\<lambda>v. case v of
            None \<Rightarrow> io_raise (not_found ''Finding not found'')
          | Some v \<Rightarrow>
              io_bind (on_scan (now_iso env)) (\<lambda>now.
              io_bind (on_scan (update_vuln fid (set_vuln_status now st (v_first_fixed v \<in> {None, Some []})))) (\<lambda>_.
              api_audit env fid ''update_status''))))"

section \<open>Statistics and their caches\<close>

definition host_names :: "host_row list \<Rightarrow> (string \<times> string) list" where
  "host_names hs = dupdate [] (List.map_filter (\<lambda>h. case h_group h of
     Some (c # cs) \<Rightarrow> if h_name h = [] then None else Some (h_name h, c # cs) | _ \<Rightarrow> None) hs)"

definition shown_level :: "vuln \<Rightarrow> string" where
  "shown_level v = (case v_ai_severity v of Some (c # cs) \<Rightarrow> c # cs | _ \<Rightarrow> severity_text (v_severity v))"

definition group_stats :: "group_info list \<Rightarrow> host_row list \<Rightarrow> vuln list \<Rightarrow> host_stat list" where
  "group_stats gs hs vs =
     map (\<lambda>(g, n). let own = filter (\<lambda>v. map_of (host_names hs) (v_host v) = Some g) vs in
       \<lparr>hs_group = g, hs_members = n, hs_total = length own, hs_severity = tally shown_level own\<rparr>)
       (dupdate [] (map (\<lambda>g. (gi_name g, gi_members g)) (filter (\<lambda>g. gi_name g \<noteq> []) gs)))"

definition or_empty :: "'a list aio \<Rightarrow> 'a list aio" where
  "or_empty m = io_try m (\<lambda>e. io_return [])"

definition api_host_stats :: "scan_env \<Rightarrow> (host_stat list \<times> bool) aio" where
  "api_host_stats env =
     io_bind clock (\<lambda>now. io_bind (io_gets aw_stats) (\<lambda>(ts, items).
     if now - ts < CACHE_TTL \<and> items \<noteq> [] then io_return (items, True)
     else
       io_bind (or_empty (on_scan (on_fleet env list_groups))) (\<lambda>gs.
       io_bind (or_empty (on_scan (on_fleet env (\<lambda>e. store_list_hosts e None None 2000 0 True None)))) (\<lambda>hs.
       io_bind (or_empty (on_scan (list_vulns env (no_filter\<lparr>f_limit := 10000\<rparr>)))) (\<lambda>vs.
       let out = group_stats gs hs vs in
       io_bind (io_modify (\<lambda>w. w\<lparr>aw_stats := (now, out)\<rparr>)) (\<lambda>_. io_return (out, False)))))))"

definition summary_of :: "host_row list \<Rightarrow> host_bucket \<Rightarrow> summary_row" where
  "summary_of hs b =
     (let h = map_of (rev (map (\<lambda>h. (h_id h, h)) hs)) (hbk_agent b);
          text = (\<lambda>f. case h of Some h \<Rightarrow> f h | None \<Rightarrow> []);
          count = (\<lambda>k. case map_of (hbk_status b) k of Some n \<Rightarrow> n | None \<Rightarrow> 0) in
      \<lparr>su_agent = hbk_agent b, su_host = text h_name, su_ip = text h_ip, su_os = text h_os,
        su_group = (case h of Some h \<Rightarrow> h_group h | None \<Rightarrow> Some []), su_severity = hbk_severity b, su_total = hbk_total b,
        su_open = count ''open'', su_fixed = count ''fixed'', su_last = hbk_last b\<rparr>)"

definition page_of :: "nat \<Rightarrow> nat \<Rightarrow> 'a list \<Rightarrow> 'a list" where
  "page_of page n xs = take n (drop ((page - 1) * n) xs)"

definition SUMMARY_CACHE_MAX :: nat where "SUMMARY_CACHE_MAX = 64"

definition summary_key :: "summary_row \<Rightarrow> int \<times> string" where
  "summary_key r = (- int (su_total r), su_agent r)"

text \<open>The rows of all hosts with findings, those with most of them first.\<close>

definition summary_rows :: "scan_env \<Rightarrow> summary_query \<Rightarrow> summary_row list aio" where
  "summary_rows env q =
     io_bind (or_empty (on_scan (on_fleet env (\<lambda>e. store_list_hosts e None (sq_group q) 2000 0 True None)))) (\<lambda>hs.
     io_bind (io_try (on_scan (host_vuln_summary_buckets env (fe_iso (sc_fleet env))
          (Some (filter (\<lambda>i. i \<noteq> []) (map h_id hs))) (sq_keyword q) (sq_severity q) (sq_status q) 500))
        (\<lambda>e. io_raise (if e = ValueError then unprocessable else HTTPException 502 [''vuln aggregation failed'']))) (\<lambda>bs.
     io_return (sort_key summary_key (map (summary_of hs) bs))))"

definition remembered ::
    "summary_query \<Rightarrow> int \<Rightarrow> summary_row list \<times> nat \<Rightarrow> (summary_query \<times> int \<times> summary_row list \<times> nat) list \<Rightarrow>
     (summary_query \<times> int \<times> summary_row list \<times> nat) list" where
  "remembered q now v cache = AList.update q (now, v) (if length cache \<ge> SUMMARY_CACHE_MAX then [] else cache)"

definition remember_summary :: "summary_query \<Rightarrow> int \<Rightarrow> summary_row list \<Rightarrow> nat \<Rightarrow> unit aio" where
  "remember_summary q now rows n = io_modify (\<lambda>w. w\<lparr>aw_summary := remembered q now (rows, n) (aw_summary w)\<rparr>)"

text \<open>The declared type of the answer has a text as the group of a row.\<close>

definition answer_rows :: "summary_row list \<Rightarrow> nat \<Rightarrow> bool \<Rightarrow> (summary_row list \<times> nat \<times> bool) aio" where
  "answer_rows rows n cached =
     (if \<exists>r\<in>set rows. su_group r = None then io_raise (ExtError ''ResponseValidationError'') else io_return (rows, n, cached))"

definition api_host_vuln_summary :: "scan_env \<Rightarrow> summary_query \<Rightarrow> (summary_row list \<times> nat \<times> bool) aio" where
  "api_host_vuln_summary env q =
     io_bind (io_guard (1 \<le> sq_page q \<and> 1 \<le> sq_size q \<and> sq_size q \<le> 200 \<and> \<not> overlong (sq_keyword q)) unprocessable) (\<lambda>_.
     io_bind clock (\<lambda>now. io_bind (io_gets (\<lambda>w. map_of (aw_summary w) q)) (\<lambda>hit.
     case (case hit of Some (ts, rows, n) \<Rightarrow> if now - ts < CACHE_TTL then Some (rows, n) else None | None \<Rightarrow> None) of
       Some (rows, n) \<Rightarrow> answer_rows rows n True
     | None \<Rightarrow>
         io_bind (summary_rows env q) (\<lambda>rows.
         let shown = page_of (sq_page q) (sq_size q) rows in
         io_bind (remember_summary q now shown (length rows)) (\<lambda>_. answer_rows shown (length rows) False)))))"

section \<open>The queue\<close>

definition api_queue_stats :: "service \<Rightarrow> (int \<times> int) qio" where
  "api_queue_stats sv =
     io_bind (stream_depth sv None) (\<lambda>d. io_bind (pending_count sv None None) (\<lambda>p. io_return (d, p)))"

definition api_queue_status :: "scan_env \<Rightarrow> string \<Rightarrow> pyval aio" where
  "api_queue_status env task =
     io_bind (kv_status env task) (\<lambda>raw. case raw of
       None \<Rightarrow> io_raise (not_found ''No queue status for task'') | Some v \<Rightarrow> io_return v)"

end
