(* ===== verification/ScanApiLaws.thy ===== *)
theory ScanApiLaws
  imports ScanApi ScanLaws "HOL-Library.Multiset"
begin

text \<open>
  What holds of the endpoints around scans: what is queued is well-formed, a cancellation takes effect, the event
  stream tells every change of state once, the pages of the host summary make up the whole.
\<close>

lemma on_scan_Inr: "on_scan m w = (Inr x, w') \<longleftrightarrow> (\<exists>s. m (aw_scan w) = (Inr x, s) \<and> w' = w\<lparr>aw_scan := s\<rparr>)"
  by (auto simp: on_scan_def split: prod.splits)

lemma on_fleet_Inr: "on_fleet env m s = (Inr x, s') \<longleftrightarrow>
    (\<exists>f. m ((sc_fleet env)\<lparr>fe_now := sw_now s, fe_es_up := sw_es s, fe_redis_up := sw_redis s\<rparr>) (sw_fleet s) = (Inr x, f) \<and>
      s' = s\<lparr>sw_fleet := f\<rparr>)"
  by (auto simp: on_fleet_def split: prod.splits)

lemma api_audit_Inr: "api_audit env event action w = (Inr u, w') \<longleftrightarrow>
    w' = (if sw_es (aw_scan w) then w\<lparr>aw_scan := (aw_scan w)\<lparr>sw_audit := sw_audit (aw_scan w) @ [(event, action)]\<rparr>\<rparr> else w)"
  by (auto simp: api_audit_def on_scan_def audit_event_def quietly_def io_try_def es_do_def is_Exception_def)

section \<open>The event stream\<close>

definition announced :: "sse list \<Rightarrow> task_status list" where
  "announced evs = List.map_filter (\<lambda>e. case e of Status_Change s \<Rightarrow> Some s | Task_Done s \<Rightarrow> Some s | _ \<Rightarrow> None) evs"

definition observed :: "(string option res \<times> scan_task option res) list \<Rightarrow> task_status list" where
  "observed rounds = List.map_filter (\<lambda>(m, t). case t of Inr (Some x) \<Rightarrow> Some (t_status x) | _ \<Rightarrow> None)
     (takeWhile (\<lambda>(m, t). \<not> isl m) rounds)"

fun up_to :: "('a \<Rightarrow> bool) \<Rightarrow> 'a list \<Rightarrow> 'a list" where
  "up_to p [] = []"
| "up_to p (x # xs) = (if p x then [x] else x # up_to p xs)"

definition endings :: "sse list \<Rightarrow> task_status list" where
  "endings evs = List.map_filter (\<lambda>e. case e of Task_Done s \<Rightarrow> Some s | _ \<Rightarrow> None) evs"

lemma announced_simps [simp]:
  "announced [] = []" "announced (Data d # evs) = announced evs" "announced (Heart_Beat # evs) = announced evs"
  "announced (Status_Change s # evs) = s # announced evs" "announced (Task_Done s # evs) = s # announced evs"
  by (simp_all add: announced_def List.map_filter_def)

lemma observed_simps [simp]:
  "observed [] = []" "observed ((Inl e, t) # rounds) = []"
  "observed ((Inr m, t) # rounds) = (case t of Inr (Some x) \<Rightarrow> t_status x # observed rounds | _ \<Rightarrow> observed rounds)"
  by (auto simp: observed_def List.map_filter_def split: sum.splits option.splits)

lemma task_stream_announces:
  "(case last_status of None \<Rightarrow> True | Some s \<Rightarrow> \<not> is_terminal s) \<Longrightarrow>
   announced (task_stream last_status rounds) =
     up_to is_terminal ((case last_status of
         None \<Rightarrow> remdups_adj (observed rounds)
       | Some s \<Rightarrow> tl (remdups_adj (s # observed rounds))))"
proof (induction last_status rounds rule: task_stream.induct)
  case (3 last_status m t rounds)
  show ?case
  proof (cases "\<exists>x. t = Inr (Some x)")
    case False
    then show ?thesis using 3 by (auto split: option.splits sum.splits)
  next
    case True
    then obtain x where x: "t = Inr (Some x)" by blast
    show ?thesis using 3 x
      by (auto simp: remdups_adj_Cons split: option.splits list.splits if_splits)
  qed
qed (auto split: option.splits)

lemma endings_simps [simp]:
  "endings [] = []" "endings (Data d # evs) = endings evs" "endings (Heart_Beat # evs) = endings evs"
  "endings (Status_Change s # evs) = endings evs" "endings (Task_Done s # evs) = s # endings evs"
  by (simp_all add: endings_def List.map_filter_def)

lemma endings_Cons: "endings (e # evs) = (case e of Task_Done s \<Rightarrow> s # endings evs | _ \<Rightarrow> endings evs)"
  by (cases e) simp_all

definition ends_once :: "sse list \<Rightarrow> bool" where
  "ends_once evs \<longleftrightarrow> endings evs = [] \<or> (\<exists>before s. is_terminal s \<and> evs = before @ [Task_Done s] \<and> endings before = [])"

lemma ends_once_Cons:
  assumes "ends_once evs" and "endings [e] = []"
  shows "ends_once (e # evs)"
proof -
  have skip: "endings (e # es') = endings es'" for es' using assms(2) by (cases e) simp_all
  show ?thesis
  proof (cases "endings evs = []")
    case False
    then obtain before s where "is_terminal s" "evs = before @ [Task_Done s]" "endings before = []"
      using assms(1) by (auto simp: ends_once_def)
    then have "is_terminal s \<and> e # evs = (e # before) @ [Task_Done s] \<and> endings (e # before) = []" by (simp add: skip)
    then show ?thesis unfolding ends_once_def by blast
  qed (simp add: ends_once_def skip)
qed

lemma task_stream_ends_once: "ends_once (task_stream last_status rounds)"
proof (induction last_status rounds rule: task_stream.induct)
  case (3 last_status m t rounds)
  have head: "endings [case m of Some d \<Rightarrow> Data d | None \<Rightarrow> Heart_Beat] = []" by (cases m) simp_all
  have done_now: "ends_once [Task_Done s]" if "is_terminal s" for s using that by (force simp: ends_once_def)
  show ?case using 3 unfolding task_stream.simps
    by (intro ends_once_Cons head) (auto split: sum.splits option.splits intro!: ends_once_Cons done_now)
qed (simp_all add: ends_once_def)

text \<open>
  Who follows a scan is told every change of its recorded state once and in order, up to the first final state,
  and nothing else: the states that are announced are the observed ones without repetitions, cut behind the first
  that is completed, failed or cancelled; that one is announced as the end, and nothing comes after the end.
\<close>

theorem task_stream_follows:
  "announced (task_stream None rounds) = up_to is_terminal (remdups_adj (observed rounds)) \<and> ends_once (task_stream None rounds)"
  using task_stream_announces [of None rounds] task_stream_ends_once by simp

section \<open>Queueing\<close>

definition port_ok :: "pyval \<Rightarrow> bool" where
  "port_ok v \<longleftrightarrow> v = PBool True \<or> (\<exists>p. v = PInt p \<and> 1 \<le> p \<and> p \<le> 65535)"

definition queued_ok :: "pydict \<Rightarrow> bool" where
  "queued_ok d \<longleftrightarrow> (\<exists>ts ps timeout. dget d ''targets'' PNone = PList ts \<and> ts \<noteq> [] \<and> length ts \<le> 500 \<and>
     dget d ''engine'' PNone \<in> {PStr ''matcher'', PStr ''nuclei'', PStr ''global''} \<and>
     dget d ''source'' PNone \<in> {PStr ''dialog'', PStr ''manual''} \<and>
     dget d ''nuclei_ports'' PNone = PList ps \<and> length ps \<le> 100 \<and> set ps \<subseteq> Collect port_ok \<and>
     dget d ''nuclei_timeout_sec'' PNone = PInt timeout)"

lemma not_bad_port: "\<not> bad_port v \<Longrightarrow> port_ok v"
  by (cases v rule: bad_port.cases) (auto simp: port_ok_def)

lemma checked_body_Ok:
  assumes "checked_body rt body = Ok (source, ts, engine)"
  shows "queued_ok (queued_envelope fresh now host body source ts engine timeout grps actor)"
  using assms
  by (auto simp: checked_body_def Let_def queued_ok_def queued_envelope_def py_or_def not_bad_port
      split: if_splits pyval.splits)

lemma host_groups_stream: "host_groups env w = (r, w') \<Longrightarrow> aw_stream w' = aw_stream w"
  by (auto simp: host_groups_def io_bind_def clock_def on_scan_def split: option.splits prod.splits sum.splits if_splits)

lemma target_groups_stream: "target_groups env ts w = (r, w') \<Longrightarrow> aw_stream w' = aw_stream w"
  by (auto simp: target_groups_def io_try_def io_bind_def split: sum.splits prod.splits if_splits dest: host_groups_stream)

lemma on_scan_stream: "on_scan m w = (r, w') \<Longrightarrow> aw_stream w' = aw_stream w"
  by (auto simp: on_scan_def split: prod.splits)

lemma status_kept:
  "\<exists>s. io_try (kv_put_status env task d) (\<lambda>e. io_return ()) w = (Inr (), w\<lparr>aw_scan := s\<rparr>)"
proof -
  obtain r s where "on_fleet env (\<lambda>e. kv_set e (status_key task) (PDict d) (Some STATUS_TTL_SEC)) (aw_scan w) = (r, s)"
    by (cases "on_fleet env (\<lambda>e. kv_set e (status_key task) (PDict d) (Some STATUS_TTL_SEC)) (aw_scan w)")
  then have "io_try (kv_put_status env task d) (\<lambda>e. io_return ()) w = (Inr (), w\<lparr>aw_scan := s\<rparr>)"
    by (cases "sw_redis (aw_scan w)")
      (auto simp: kv_put_status_def on_scan_def on_fleet_def io_try_def kv_up kv_down is_Exception_def)
  then show ?thesis by blast
qed

lemma audit_kept: "\<exists>s. api_audit env event action w = (Inr (), w\<lparr>aw_scan := s\<rparr>)"
proof -
  have "\<exists>s. audit_event env event action (aw_scan w) = (Inr (), s)"
    by (auto simp: audit_event_def quietly_def io_try_def es_do_def is_Exception_def)
  then show ?thesis by (auto simp: api_audit_def on_scan_def)
qed

definition queues_one :: "api_world \<Rightarrow> string \<Rightarrow> (string \<times> pyval) res \<times> api_world \<Rightarrow> bool" where
  "queues_one w fresh out \<longleftrightarrow>
     (\<exists>e. fst out = Inl e) \<and> aw_stream (snd out) = aw_stream w \<or>
     (\<exists>d engine. fst out = Inr (fresh, engine) \<and> aw_stream (snd out) = aw_stream w @ [d] \<and> queued_ok d \<and>
        dget d ''task_id'' PNone = PStr fresh \<and> dget d ''engine'' PNone = engine)"

text \<open>
  What is put into the queue is well-formed: one to five hundred targets, an engine and a source that exist, at
  most a hundred ports, all of them ports, and a number as the time limit. A request that is answered has put exactly
  one entry there, under the identifier and with the engine it was answered with, and one that fails has put none.
\<close>

theorem queued_scan_well_formed:
  "queues_one w fresh (api_create_task env fresh host body actor w)"
proof (cases "checked_body (sc_rt env) body")
  case (Inl e)
  then show ?thesis by (simp add: queues_one_def api_create_task_def io_bind_def io_lift_def)
next
  case (Inr c)
  obtain source ts engine where c: "c = (source, ts, engine)" by (cases c)
  obtain rg w1 where g: "target_groups env ts w = (rg, w1)" by (cases "target_groups env ts w")
  note same = target_groups_stream [OF g]
  show ?thesis
  proof (cases rg)
    case (Inl e)
    then show ?thesis using Inr c g same by (simp add: queues_one_def api_create_task_def io_bind_def io_lift_def)
  next
    case grps: (Inr grps)
    show ?thesis
    proof (cases "py_int (py_or (dget body ''nuclei_timeout_sec'' (PInt 0)) (PInt 0))")
      case (Inl e)
      then show ?thesis using Inr c g grps same by (simp add: queues_one_def api_create_task_def io_bind_def io_lift_def)
    next
      case timeout: (Inr timeout)
      let ?now = "fe_iso (sc_fleet env) (sw_now (aw_scan w1))"
      let ?d = "queued_envelope fresh ?now host body source ts engine timeout grps actor"
      have run: "api_create_task env fresh host body actor w =
          io_bind (stream_add ?d) (\<lambda>_.
          io_bind (io_try (kv_put_status env fresh [(''status'', PStr ''queued''), (''actor'', PStr actor), (''source'', source),
            (''targets'', PList ts), (''submitted_at'', PStr ?now)]) (\<lambda>e. io_return ())) (\<lambda>_.
          io_bind (api_audit env fresh ''create_task'') (\<lambda>_. io_return (fresh, engine)))) w1"
        using Inr c g grps timeout by (simp add: api_create_task_def io_bind_def io_lift_def on_scan_def now_iso_def Let_def)
      show ?thesis
      proof (cases "sw_redis (aw_scan w1)")
        case False
        then show ?thesis using same by (simp add: run queues_one_def stream_add_def io_bind_def)
      next
        case True
        obtain s where s: "io_try (kv_put_status env fresh [(''status'', PStr ''queued''), (''actor'', PStr actor), (''source'', source),
            (''targets'', PList ts), (''submitted_at'', PStr ?now)]) (\<lambda>e. io_return ()) (w1\<lparr>aw_stream := aw_stream w1 @ [?d]\<rparr>) =
            (Inr (), w1\<lparr>aw_stream := aw_stream w1 @ [?d], aw_scan := s\<rparr>)"
          using status_kept [of env fresh _ "w1\<lparr>aw_stream := aw_stream w1 @ [?d]\<rparr>"] by auto
        obtain s' where s': "api_audit env fresh ''create_task'' (w1\<lparr>aw_stream := aw_stream w1 @ [?d], aw_scan := s\<rparr>) =
            (Inr (), w1\<lparr>aw_stream := aw_stream w1 @ [?d], aw_scan := s'\<rparr>)"
          using audit_kept [of env fresh "''create_task''" "w1\<lparr>aw_stream := aw_stream w1 @ [?d], aw_scan := s\<rparr>"] by auto
        have "dget ?d ''task_id'' PNone = PStr fresh" "dget ?d ''engine'' PNone = engine"
          by (simp_all add: queued_envelope_def)
        then show ?thesis using True same checked_body_Ok [OF Inr [unfolded c]] s s'
          by (simp add: run queues_one_def stream_add_def io_bind_def)
      qed
    qed
  qed
qed

section \<open>Cancelling\<close>

definition side_status :: "scan_env \<Rightarrow> string \<Rightarrow> scan_world \<Rightarrow> pyval option" where
  "side_status env task s = (case kv_lookup ((sc_fleet env)\<lparr>fe_now := sw_now s\<rparr>) (status_key task) (sw_fleet s) of
     Some (PDict d) \<Rightarrow> map_of d ''status'' | _ \<Rightarrow> None)"

definition stopped :: "string \<Rightarrow> string \<Rightarrow> scan_task \<Rightarrow> scan_task" where
  "stopped now actor t = t\<lparr>t_status := T_Cancelled, t_error := Some (''Cancelled by '' @ actor), t_finished := Some now\<rparr>"

lemma stop_recorded_effect:
  assumes "stop_recorded env now task actor t w = (Inr counts, w')" and "map_of (sw_tasks w) task = Some t"
  shows "map_of (sw_tasks w') = (map_of (sw_tasks w))(task \<mapsto> stopped now actor t) \<and> sw_cancelled w' = sw_cancelled w \<and>
    sw_es w' = sw_es w \<and> sw_es w"
  using assms
  by (auto simp: stop_recorded_def io_bind_Inr update_task_Inr on_fleet_Inr io_simps update_conv' stopped_def split: if_splits)

lemma kv_put_status_Inr:
  "kv_put_status env task d w = (Inr u, w') \<longleftrightarrow> sw_redis (aw_scan w) \<and>
     w' = w\<lparr>aw_scan := (aw_scan w)\<lparr>sw_fleet := kv_put ((sc_fleet env)\<lparr>fe_now := sw_now (aw_scan w), fe_es_up := sw_es (aw_scan w),
       fe_redis_up := sw_redis (aw_scan w)\<rparr>) (status_key task) (PDict d) (Some STATUS_TTL_SEC) (sw_fleet (aw_scan w))\<rparr>\<rparr>"
  by (cases "sw_redis (aw_scan w)") (auto simp: kv_put_status_def on_scan_Inr on_fleet_Inr kv_up kv_down)

lemma mark_cancelled_Inr:
  "mark_cancelled task w = (Inr u, w') \<longleftrightarrow> sw_redis w \<and> w' = w\<lparr>sw_cancelled := List.insert task (sw_cancelled w)\<rparr>"
  by (auto simp: mark_cancelled_def redis_do_Inr)

lemma published_keys:
  assumes "on_fleet env (\<lambda>e. io_bind (kv_publish e c m) (\<lambda>_. io_return ())) s = (Inr u, s')"
  shows "\<exists>f. s' = s\<lparr>sw_fleet := f\<rparr> \<and> keys f = keys (sw_fleet s)"
  using assms by (auto simp: on_fleet_Inr io_bind_Inr kv_publish_def redis_def io_guard_bind io_simps split: if_splits)

lemma put_status_read:
  assumes "kv_put_status env task (dupdate d [(''status'', PStr ''cancelled''), (''cancelled_at'', a), (''actor'', b)]) w = (Inr u, w')"
    and "sw_now s = sw_now (aw_scan w')" and "keys (sw_fleet s) = keys (sw_fleet (aw_scan w'))"
  shows "side_status env task s = Some (PStr ''cancelled'')"
  using assms
  by (auto simp: kv_put_status_Inr side_status_def kv_lookup_def STATUS_TTL_SEC_def map_of_dupdate)

lemma kv_status_same: "kv_status env task w = (r, w') \<Longrightarrow> w' = w"
  by (cases "sw_redis (aw_scan w)") (auto simp: kv_status_def on_scan_def on_fleet_def kv_up kv_down)

lemma queue_state_same:
  assumes "queue_state env task t w = (Inr d, w')"
  shows "w' = w"
proof (cases t)
  case None
  then obtain raw where "kv_status env task w = (Inr raw, w)"
    "(case raw of None \<Rightarrow> io_raise (not_found ''Task not found'') | Some (PDict d) \<Rightarrow> io_return d
      | Some v \<Rightarrow> io_raise AttributeError) w = (Inr d, w')"
    using assms kv_status_same by (force simp: queue_state_def io_bind_Inr)
  then show ?thesis by (cases raw) (auto split: pyval.splits)
qed (use assms in \<open>simp add: queue_state_def\<close>)

lemma carry_out_cancel_effect:
  assumes "carry_out_cancel env task actor now state t w = (Inr counts, w')" and "t = map_of (sw_tasks (aw_scan w)) task"
  shows "task \<in> set (sw_cancelled (aw_scan w')) \<and> side_status env task (aw_scan w') = Some (PStr ''cancelled'') \<and>
    (case t of None \<Rightarrow> sw_tasks (aw_scan w') = sw_tasks (aw_scan w)
     | Some x \<Rightarrow> sw_es (aw_scan w') \<and> map_of (sw_tasks (aw_scan w')) = (map_of (sw_tasks (aw_scan w)))(task \<mapsto> stopped now actor x))"
proof -
  let ?w1 = "w\<lparr>aw_scan := (aw_scan w)\<lparr>sw_cancelled := List.insert task (sw_cancelled (aw_scan w))\<rparr>\<rparr>"
  let ?d = "dupdate state [(''status'', PStr ''cancelled''), (''cancelled_at'', PStr now), (''actor'', PStr actor)]"
  obtain w2 w3 w4 where w2: "(case t of Some t \<Rightarrow> on_scan (stop_recorded env now task actor t) | None \<Rightarrow> io_return (0, 0)) ?w1 = (Inr counts, w2)"
    and w3: "kv_put_status env task ?d w2 = (Inr (), w3)"
    and w4: "on_scan (on_fleet env (\<lambda>e. io_bind (kv_publish e (vulnscan_task_channel task) (PDict [(''type'', PStr ''task_done''),
        (''task_id'', PStr task), (''status'', PStr ''cancelled''), (''message'', PStr ''Scan cancelled by operator'')]))
        (\<lambda>_. io_return ()))) w3 = (Inr (), w4)"
    and w': "api_audit env task ''cancel_task'' w4 = (Inr (), w')"
    using assms(1) unfolding carry_out_cancel_def
    by (clarsimp simp: io_bind_Inr on_scan_Inr mark_cancelled_Inr io_simps)
  obtain f where f: "aw_scan w4 = (aw_scan w3)\<lparr>sw_fleet := f\<rparr>" "keys f = keys (sw_fleet (aw_scan w3))"
    using w4 by (auto simp: on_scan_Inr dest!: published_keys)
  have "side_status env task (aw_scan w') = Some (PStr ''cancelled'')"
    by (rule put_status_read [OF w3]) (use w' f in \<open>auto simp: api_audit_Inr\<close>)
  moreover have same: "sw_tasks (aw_scan w') = sw_tasks (aw_scan w2) \<and> sw_cancelled (aw_scan w') = sw_cancelled (aw_scan w2) \<and>
      sw_es (aw_scan w') = sw_es (aw_scan w2)"
    using w3 w' f by (auto simp: kv_put_status_Inr api_audit_Inr)
  moreover have "task \<in> set (sw_cancelled (aw_scan w2)) \<and>
    (case t of None \<Rightarrow> sw_tasks (aw_scan w2) = sw_tasks (aw_scan w)
     | Some x \<Rightarrow> sw_es (aw_scan w2) \<and> map_of (sw_tasks (aw_scan w2)) = (map_of (sw_tasks (aw_scan w)))(task \<mapsto> stopped now actor x))"
  proof (cases "map_of (sw_tasks (aw_scan w)) task")
    case None
    then show ?thesis using w2 assms(2) by auto
  next
    case (Some x)
    then have "on_scan (stop_recorded env now task actor x) ?w1 = (Inr counts, w2)" using w2 assms(2) by simp
    then obtain s where s: "stop_recorded env now task actor x (aw_scan ?w1) = (Inr counts, s)" "w2 = ?w1\<lparr>aw_scan := s\<rparr>"
      unfolding on_scan_Inr by auto
    have "map_of (sw_tasks s) = (map_of (sw_tasks (aw_scan ?w1)))(task \<mapsto> stopped now actor x) \<and>
        sw_cancelled s = sw_cancelled (aw_scan ?w1) \<and> sw_es s = sw_es (aw_scan ?w1) \<and> sw_es (aw_scan ?w1)"
      by (rule stop_recorded_effect [OF s(1)]) (simp add: Some)
    then show ?thesis using s(2) Some assms(2) by simp
  qed
  ultimately show ?thesis by (auto split: option.splits)
qed


section \<open>The summary of hosts\<close>

definition counted :: "summary_query \<Rightarrow> string list \<Rightarrow> scan_world \<Rightarrow> vuln list" where
  "counted q agents s = filter (\<lambda>v. wants (sq_severity q) (\<lambda>x. severity_text (v_severity v) = x) \<and>
     wants (sq_status q) (\<lambda>x. status_text (v_status v) = x) \<and> wants (sq_keyword q) (\<lambda>k. has_keyword k (v_host v)) \<and>
     wants_any (Some agents) (v_agent v)) (map snd (sw_vulns s))"

lemma tally_keys: "map fst (tally f xs) = dedup_first (map f xs)"
  by (simp add: tally_def comp_def)

lemma tally_count: "(k, n) \<in> set (tally f xs) \<Longrightarrow> n = length (filter (\<lambda>x. f x = k) xs)"
  by (auto simp: tally_def)

lemma buckets_Inr:
  assumes "host_vuln_summary_buckets env fmt (Some agents) (sq_keyword q) (sq_severity q) (sq_status q) 500 s = (Inr bs, s')"
  defines "ks \<equiv> take 500 (sort_key (\<lambda>(a, n). - int n) (tally v_agent (counted q agents s)))"
  shows "map (\<lambda>b. (hbk_agent b, hbk_total b)) bs = ks \<and> s' = s"
  using assms
  by (auto simp: host_vuln_summary_buckets_def io_guard_bind es_do_Inr counted_def Let_def comp_def split_beta io_simps
      split: if_splits)

lemma list_hosts_same: "store_list_hosts e st g l off x h f = (r, f') \<Longrightarrow> f' = f"
  by (auto simp: store_list_hosts_def pg_def es_def io_bind_def io_try_def io_guard_def is_Exception_def split: if_splits)

lemma or_empty_hosts:
  "or_empty (on_scan (on_fleet env (\<lambda>e. store_list_hosts e st g l off x h))) w = (r, w') \<Longrightarrow> w' = w"
  by (auto simp: or_empty_def on_scan_def on_fleet_def io_try_def split: prod.splits sum.splits if_splits dest: list_hosts_same)

lemma summary_rows_Inr:
  assumes "summary_rows env q w = (Inr rows, w')"
  obtains hs bs where "rows = sort_key summary_key (map (summary_of hs) bs)" "w' = w"
    "map (\<lambda>b. (hbk_agent b, hbk_total b)) bs = take 500 (sort_key (\<lambda>(a, n). - int n)
       (tally v_agent (counted q (filter (\<lambda>i. i \<noteq> []) (map h_id hs)) (aw_scan w))))"
proof -
  obtain hs w1 where hs: "or_empty (on_scan (on_fleet env (\<lambda>e. store_list_hosts e None (sq_group q) 2000 0 True None))) w = (Inr hs, w1)"
    and rest: "io_bind (io_try (on_scan (host_vuln_summary_buckets env (fe_iso (sc_fleet env))
          (Some (filter (\<lambda>i. i \<noteq> []) (map h_id hs))) (sq_keyword q) (sq_severity q) (sq_status q) 500))
        (\<lambda>e. io_raise (if e = ValueError then unprocessable else HTTPException 502 [''vuln aggregation failed'']))) (\<lambda>bs.
       io_return (sort_key summary_key (map (summary_of hs) bs))) w1 = (Inr rows, w')"
    using io_bind_Inr [THEN iffD1, OF assms [unfolded summary_rows_def]] by blast
  have w1: "w1 = w" using or_empty_hosts [OF hs] .
  obtain bs w2 where "on_scan (host_vuln_summary_buckets env (fe_iso (sc_fleet env))
          (Some (filter (\<lambda>i. i \<noteq> []) (map h_id hs))) (sq_keyword q) (sq_severity q) (sq_status q) 500) w = (Inr bs, w2)"
    and rows: "rows = sort_key summary_key (map (summary_of hs) bs)" "w' = w2"
    using rest unfolding w1 by (auto simp: io_bind_Inr io_try_def split: prod.splits sum.splits if_splits)
  then obtain s where "host_vuln_summary_buckets env (fe_iso (sc_fleet env))
          (Some (filter (\<lambda>i. i \<noteq> []) (map h_id hs))) (sq_keyword q) (sq_severity q) (sq_status q) 500 (aw_scan w) = (Inr bs, s)"
    "w2 = w\<lparr>aw_scan := s\<rparr>" unfolding on_scan_Inr by blast
  with buckets_Inr [OF this(1)] rows that show thesis by simp
qed

lemma summary_of_simps [simp]: "su_agent (summary_of hs b) = hbk_agent b" "su_total (summary_of hs b) = hbk_total b"
  by (simp_all add: summary_of_def Let_def)

lemma summary_rows_facts:
  assumes "summary_rows env q w = (Inr rows, w')"
  shows "\<exists>agents. w' = w \<and> sorted (map summary_key rows) \<and> distinct (map su_agent rows) \<and>
    (\<forall>r\<in>set rows. su_total r = length (filter (\<lambda>v. v_agent v = su_agent r) (counted q agents (aw_scan w)))) \<and>
    (length (dedup_first (map v_agent (counted q agents (aw_scan w)))) \<le> 500 \<longrightarrow>
       sum_list (map su_total rows) = length (counted q agents (aw_scan w)))"
proof -
  obtain hs bs where rows: "rows = sort_key summary_key (map (summary_of hs) bs)" "w' = w" and
    bs: "map (\<lambda>b. (hbk_agent b, hbk_total b)) bs = take 500 (sort_key (\<lambda>(a, n). - int n)
       (tally v_agent (counted q (filter (\<lambda>i. i \<noteq> []) (map h_id hs)) (aw_scan w))))"
    using summary_rows_Inr [OF assms] .
  let ?vs = "counted q (filter (\<lambda>i. i \<noteq> []) (map h_id hs)) (aw_scan w)"
  let ?ks = "sort_key (\<lambda>(a, n). - int n) (tally v_agent ?vs)"
  have agents: "map hbk_agent bs = map fst (take 500 ?ks)" and totals: "map hbk_total bs = map snd (take 500 ?ks)"
    using arg_cong [OF bs, of "map fst"] arg_cong [OF bs, of "map snd"] by (simp_all add: comp_def)
  have "mset (map fst ?ks) = mset (map fst (tally v_agent ?vs))" by simp
  moreover have "distinct (map fst (tally v_agent ?vs))" unfolding tally_keys by simp
  ultimately have "distinct (map fst ?ks)" by (metis mset_eq_imp_distinct_iff)
  then have "distinct (map hbk_agent bs)" unfolding agents by (metis distinct_take take_map)
  moreover have "mset (map su_agent rows) = mset (map hbk_agent bs)"
    unfolding rows by (simp add: multiset.map_comp comp_def)
  ultimately have dist: "distinct (map su_agent rows)" by (metis mset_eq_imp_distinct_iff)
  have each: "su_total r = length (filter (\<lambda>v. v_agent v = su_agent r) ?vs)" if "r \<in> set rows" for r
  proof -
    have "r \<in> summary_of hs ` set bs" using that unfolding rows by simp
    then obtain b where b: "b \<in> set bs" "r = summary_of hs b" by blast
    then have "(hbk_agent b, hbk_total b) \<in> set (take 500 ?ks)" unfolding bs [symmetric] by auto
    then have "(hbk_agent b, hbk_total b) \<in> set (tally v_agent ?vs)" by (auto dest: in_set_takeD)
    from tally_count [OF this] b show ?thesis by simp
  qed
  have sum: "sum_list (map su_total rows) = length ?vs" if "length (dedup_first (map v_agent ?vs)) \<le> 500"
  proof -
    have "length ?ks \<le> 500" using that by (metis length_map length_sort tally_keys)
    then have "map hbk_total bs = map snd ?ks" using totals by simp
    then have "mset (map hbk_total bs) = mset (map snd (tally v_agent ?vs))" by simp
    then have "mset (map su_total rows) = mset (map snd (tally v_agent ?vs))"
      unfolding rows by (simp add: multiset.map_comp comp_def)
    then show ?thesis by (metis sum_mset_sum_list sum_tally)
  qed
  show ?thesis using rows dist each sum by (intro exI [of _ "filter (\<lambda>i. i \<noteq> []) (map h_id hs)"]) auto
qed

lemma pages_append: "1 \<le> n \<Longrightarrow> concat (map (\<lambda>p. page_of p n xs) [1..<Suc k]) = take (k * n) xs"
proof (induction k)
  case (Suc k)
  have "concat (map (\<lambda>p. page_of p n xs) [1..<Suc (Suc k)]) = take (k * n) xs @ take n (drop (k * n) xs)"
    using Suc by (simp add: page_of_def)
  also have "\<dots> = take (Suc k * n) xs" by (simp add: take_add add.commute [of n])
  finally show ?case .
qed simp

definition uncached :: "summary_query \<Rightarrow> api_world \<Rightarrow> bool" where
  "uncached q w \<longleftrightarrow> (\<forall>ts rows n. map_of (aw_summary w) q = Some (ts, rows, n) \<longrightarrow> CACHE_TTL \<le> sw_now (aw_scan w) - ts)"

text \<open>
  The pages of the host summary make up the whole. When the rows of a query could be computed, every page that is
  not in the cache is a piece of them, with their number; the pages one after the other are all rows, each host is in
  exactly one row, the hosts with most findings come first, and the number in a row is that of the host's findings
  that match the query.
\<close>

theorem summary_pages_complete:
  assumes "summary_rows env q w = (Inr rows, w1)" and "None \<notin> su_group ` set rows"
    and "1 \<le> sq_size q" and "sq_size q \<le> 200" and "\<not> overlong (sq_keyword q)" and "length rows \<le> k * sq_size q"
    and "\<And>p. uncached (q\<lparr>sq_page := p\<rparr>) w"
  shows "(\<forall>p\<ge>1. fst (api_host_vuln_summary env (q\<lparr>sq_page := p\<rparr>) w) = Inr (page_of p (sq_size q) rows, length rows, False)) \<and>
    concat (map (\<lambda>p. page_of p (sq_size q) rows) [1..<Suc k]) = rows \<and>
    sorted (map summary_key rows) \<and> distinct (map su_agent rows) \<and>
    (\<exists>agents. \<forall>r\<in>set rows. su_total r = length (filter (\<lambda>v. v_agent v = su_agent r) (counted q agents (aw_scan w))))"
proof (intro conjI allI impI)
  fix p :: nat
  assume p: "1 \<le> p"
  let ?q = "q\<lparr>sq_page := p\<rparr>"
  have rows: "summary_rows env ?q w = (Inr rows, w)"
    using assms(1) summary_rows_Inr [OF assms(1)] by (simp add: summary_rows_def)
  have miss: "(case map_of (aw_summary w) ?q of Some (ts, rows, n) \<Rightarrow>
      if sw_now (aw_scan w) - ts < CACHE_TTL then Some (rows, n) else None | None \<Rightarrow> None) = None"
    using assms(7) [of p] by (auto simp: uncached_def split: option.splits)
  have shown: "None \<notin> su_group ` set (page_of p (sq_size q) rows)"
    using assms(2) by (auto simp: page_of_def dest!: in_set_takeD in_set_dropD)
  then have "\<not> (\<exists>r\<in>set (page_of p (sq_size q) rows). su_group r = None)" by (metis imageI)
  then show "fst (api_host_vuln_summary env ?q w) = Inr (page_of p (sq_size q) rows, length rows, False)"
    using p assms(3-5) miss rows
    by (simp add: api_host_vuln_summary_def io_bind_def io_guard_def clock_def remember_summary_def answer_rows_def Let_def)
next
  show "concat (map (\<lambda>p. page_of p (sq_size q) rows) [1..<Suc k]) = rows"
    using pages_append [of "sq_size q" rows k] assms(3,6) by simp
qed (use summary_rows_facts [OF assms(1)] in blast)+

section \<open>The caches\<close>

text \<open>
  What the caches share: a key that was put holds the new entry or nothing, and putting one entry leaves every other as
  it was or drops it. Then what is found under a key is what was put there last.
\<close>

locale timed_cache =
  fixes entry :: "'c \<Rightarrow> 'k \<Rightarrow> (int \<times> 'v) option" and put :: "'k \<Rightarrow> int \<Rightarrow> 'v \<Rightarrow> 'c \<Rightarrow> 'c"
  assumes entry_put: "entry (put k t v c) k = Some (t, v) \<or> entry (put k t v c) k = None"
    and entry_other: "k' \<noteq> k \<Longrightarrow> entry (put k t v c) k' = entry c k' \<or> entry (put k t v c) k' = None"
begin

lemma entry_is_last:
  assumes "entry c k = None" and "entry (fold (\<lambda>(k, t, v). put k t v) hist c) k = Some (t, v)"
  shows "\<exists>before after. hist = before @ (k, t, v) # after \<and> k \<notin> fst ` set after"
  using assms(2)
proof (induction hist rule: rev_induct)
  case (snoc x hist)
  obtain k' t' v' where x: "x = (k', t', v')" by (cases x)
  show ?case
  proof (cases "k' = k")
    case True
    then have "x = (k, t, v)" using snoc.prems x entry_put [of k t' v' "fold (\<lambda>(k, t, v). put k t v) hist c"] by auto
    then show ?thesis by (intro exI [of _ hist] exI [of _ "[]"]) simp
  next
    case False
    then have "entry (fold (\<lambda>(k, t, v). put k t v) hist c) k = Some (t, v)"
      using snoc.prems x entry_other [of k k' t' v' "fold (\<lambda>(k, t, v). put k t v) hist c"] by auto
    from snoc.IH [OF this] obtain before after where "hist = before @ (k, t, v) # after" "k \<notin> fst ` set after" by blast
    then have "hist @ [x] = before @ (k, t, v) # (after @ [x]) \<and> k \<notin> fst ` set (after @ [x])" using x False by auto
    then show ?thesis by blast
  qed
qed (use assms(1) in simp)

end

interpretation summaries: timed_cache map_of remembered
  by unfold_locales (auto simp: remembered_def update_conv')

interpretation group_names: timed_cache "\<lambda>c (k::unit). c" "\<lambda>k t v c. Some (t, v)"
  by unfold_locales auto

interpretation group_statistics: timed_cache "\<lambda>c (k::unit). if snd c = [] then None else Some c" "\<lambda>k t v c. (t, v)"
  by unfold_locales auto

text \<open>
  A summary that comes from the cache is recent and right: it is what was computed last for exactly this query,
  less than thirty seconds ago, and giving it changes nothing.
\<close>

theorem cached_summary_is_last:
  assumes "aw_summary w = fold (\<lambda>(q, t, v). remembered q t v) hist []"
    and "api_host_vuln_summary env q w = (Inr (rows, n, True), w')"
  shows "\<exists>t before after. hist = before @ (q, t, (rows, n)) # after \<and> q \<notin> fst ` set after \<and>
    sw_now (aw_scan w) - t < CACHE_TTL \<and> w' = w"
proof -
  have "\<exists>t. map_of (aw_summary w) q = Some (t, (rows, n)) \<and> sw_now (aw_scan w) - t < CACHE_TTL \<and> w' = w"
    using assms(2)
    by (auto simp: api_host_vuln_summary_def io_guard_bind clock_def io_bind_Inr answer_rows_def Let_def remember_summary_def
        io_simps split: option.splits if_splits)
  then obtain t where "map_of (fold (\<lambda>(q, t, v). remembered q t v) hist []) q = Some (t, (rows, n))"
    "sw_now (aw_scan w) - t < CACHE_TTL" "w' = w" unfolding assms(1) by blast
  with summaries.entry_is_last [of "[]" q hist t "(rows, n)"] show ?thesis by auto
qed

section \<open>Concrete requests\<close>

definition owned :: "string \<Rightarrow> string option \<Rightarrow> host_row" where
  "owned i g = (toy_host i Online 990)\<lparr>h_name := i, h_group := g\<rparr>"

definition toy_api :: "host_row list \<Rightarrow> api_world" where
  "toy_api hs = \<lparr>aw_scan = toy_index\<lparr>sw_fleet := toy_fleet\<lparr>hosts := hs\<rparr>\<rparr>, aw_stream = [], aw_groups = None, aw_stats = (0, []), aw_summary = []\<rparr>"

definition toy_query :: summary_query where
  "toy_query = \<lparr>sq_group = None, sq_keyword = None, sq_severity = None, sq_status = None, sq_page = 1, sq_size = 1\<rparr>"

abbreviation two_hosts :: "host_row list" where "two_hosts \<equiv> [owned ''a'' (Some ''web''), owned ''b'' (Some ''db'')]"

definition outline :: "(summary_row list \<times> nat \<times> bool) res \<Rightarrow> (string \<times> nat) list res" where
  "outline r = rbind r (\<lambda>(rows, n, cached). Ok (map (\<lambda>r. (su_agent r, su_total r)) rows))"

lemma summary_pages_complete_witness:
  "map (\<lambda>p. outline (fst (api_host_vuln_summary toy_scan (toy_query\<lparr>sq_page := p\<rparr>) (toy_api two_hosts)))) [1, 2] =
    [Ok [(''a'', 3)], Ok [(''b'', 1)]]"
proof -
  have "(case fst (summary_rows toy_scan toy_query (toy_api two_hosts)) of
      Inr rs \<Rightarrow> map (\<lambda>r. (su_agent r, su_total r)) rs = [(''a'', 3), (''b'', 1)] \<and> None \<notin> su_group ` set rs | Inl e \<Rightarrow> False)"
    by code_simp
  then obtain rows w1 where rows: "summary_rows toy_scan toy_query (toy_api two_hosts) = (Inr rows, w1)"
    "map (\<lambda>r. (su_agent r, su_total r)) rows = [(''a'', 3), (''b'', 1)]" "None \<notin> su_group ` set rows"
    by (cases "summary_rows toy_scan toy_query (toy_api two_hosts)") (auto split: sum.splits)
  then obtain r1 r2 where r: "rows = [r1, r2]" by auto
  have "uncached (toy_query\<lparr>sq_page := p\<rparr>) (toy_api two_hosts)" for p by (simp add: uncached_def toy_api_def)
  from summary_pages_complete [OF rows(1,3) _ _ _ _ this, of 2]
  have "fst (api_host_vuln_summary toy_scan (toy_query\<lparr>sq_page := 1\<rparr>) (toy_api two_hosts)) = Inr (page_of 1 1 rows, 2, False)"
    "fst (api_host_vuln_summary toy_scan (toy_query\<lparr>sq_page := 2\<rparr>) (toy_api two_hosts)) = Inr (page_of 2 1 rows, 2, False)"
    by (simp_all add: toy_query_def overlong_def r)
  then show ?thesis using rows(2) by (simp add: outline_def r page_of_def)
qed

text \<open>A group without hosts is no restriction: the summary shows the hosts of all groups.\<close>

lemma empty_group_shows_all:
  "outline (fst (api_host_vuln_summary toy_scan (toy_query\<lparr>sq_group := Some ''nobody'', sq_size := 5\<rparr>) (toy_api two_hosts))) =
     Ok [(''a'', 3), (''b'', 1)]"
  by code_simp

text \<open>A group whose hosts have no name is none either: the list shows the findings of all hosts.\<close>

lemma unnamed_group_shows_all:
  "rbind (fst (api_list_results toy_scan no_filter (Some ''web'') (toy_api [(owned ''a'' (Some ''web''))\<lparr>h_name := []\<rparr>])))
     (\<lambda>vs. Ok (map v_agent vs)) = Ok [''a'', ''a'', ''a'', ''b'']"
  by code_simp

text \<open>The summary fails as soon as a host on the page has no group.\<close>

lemma ungrouped_host_fails:
  "fst (api_host_vuln_summary toy_scan toy_query (toy_api [owned ''a'' None, owned ''b'' (Some ''db'')])) =
     Raise (ExtError ''ResponseValidationError'')"
  by code_simp

text \<open>Deleting a scan deletes the findings it was the first to report, also those that later scans confirmed.\<close>

lemma delete_loses_confirmed:
  assumes "(i, v) \<in> set (sw_vulns s)" and "v_task v = task" and "v_last_seen v = Some later" and "sw_es s"
  shows "(i, v) \<notin> set (sw_vulns (snd (delete_task task s)))"
  using assms by (simp add: delete_task_def quietly_def io_try_def es_do_def)

abbreviation unsigned_scan :: scan_env where "unsigned_scan \<equiv> toy_scan\<lparr>sc_sign := toy_sign\<lparr>se_key := []\<rparr>\<rparr>"


lemma cached_summary_is_last_witness:
  "let w = (toy_api two_hosts)\<lparr>aw_summary := [(toy_query, 90, [], 0)]\<rparr> in
     api_host_vuln_summary toy_scan toy_query w = (Inr ([], 0, True), w) \<and> sw_now (aw_scan w) - 90 < CACHE_TTL"
proof -
  let ?w = "(toy_api two_hosts)\<lparr>aw_summary := [(toy_query, 90, [], 0)]\<rparr>"
  have run: "api_host_vuln_summary toy_scan toy_query ?w = (Inr ([], 0, True), ?w)"
    by (simp add: api_host_vuln_summary_def toy_query_def overlong_def io_guard_def io_bind_def clock_def answer_rows_def
        toy_api_def toy_index_def CACHE_TTL_def)
  have "aw_summary ?w = fold (\<lambda>(q, t, v). remembered q t v) [(toy_query, 90, ([], 0))] []"
    by (simp add: remembered_def SUMMARY_CACHE_MAX_def)
  from cached_summary_is_last [OF this run] run show ?thesis by (auto simp: Let_def Cons_eq_append_conv)
qed

end
