(* ===== verification/ReportPage.thy ===== *)
theory ReportPage
  imports ScanApi
begin

text \<open>
  The page a scan report is exported as (\<open>_render_report_html\<close> of \<open>src/api/routers/vulnscan.py\<close>). The words of the page
  that are not ASCII are given by \<open>zh\<close> under an English name. The page is built from the values of the report, which
  come from agents and from the model service; what is shown of it is that no value adds markup.
\<close>

section \<open>The page\<close>

definition esc_char :: "char \<Rightarrow> string" where
  "esc_char c =
     (if c = CHR ''&'' then ''&amp;'' else if c = CHR ''<'' then ''&lt;'' else if c = CHR ''>'' then ''&gt;''
      else if c = CHR 0x22 then ''&quot;'' else if c = CHR 0x27 then ''&#x27;'' else [c])"

definition esc :: "string \<Rightarrow> string" where
  "esc s = concat (map esc_char s)"

definition or_text2 :: "string \<Rightarrow> string \<Rightarrow> string" where
  "or_text2 s dflt = (if s = [] then dflt else s)"

definition opt_string :: "string option \<Rightarrow> string" where
  "opt_string v = (case v of Some s \<Rightarrow> s | None \<Rightarrow> [])"

definition in_tag :: "string \<Rightarrow> string \<Rightarrow> string" where
  "in_tag t s = ''<'' @ t @ ''>'' @ s @ ''</'' @ t @ ''>''"

definition severity_rows :: "(string \<Rightarrow> string) \<Rightarrow> (string \<times> nat) list \<Rightarrow> string" where
  \<open>severity_rows zh by_sev =
     (if by_sev = [] then ''<tr><td colspan="2">'' @ zh ''no data'' @ ''</td></tr>''
      else concat (map (\<lambda>(k, n). in_tag ''tr'' (in_tag ''td'' (esc k) @ in_tag ''td'' (esc (nat_to_str n)))) by_sev))\<close>

definition vuln_row :: "(string \<Rightarrow> string) \<Rightarrow> top_vuln \<Rightarrow> string" where
  "vuln_row zh v = in_tag ''tr''
     (in_tag ''td'' (esc (tv_host v)) @ in_tag ''td'' (esc (tv_name v)) @
      in_tag ''td'' (esc (or_text2 (opt_string (tv_cve v)) (zh ''baseline check''))) @
      in_tag ''td'' (esc (or_text2 (opt_string (tv_ai_severity v)) (severity_text (tv_severity v)))) @
      in_tag ''td'' (esc (opt_string (tv_fix v))))"

definition top_rows :: "(string \<Rightarrow> string) \<Rightarrow> top_vuln list \<Rightarrow> string" where
  \<open>top_rows zh vs =
     (if vs = [] then ''<tr><td colspan="5">'' @ zh ''no findings'' @ ''</td></tr>'' else concat (map (vuln_row zh) vs))\<close>

definition recommendation_items :: "(string \<Rightarrow> string) \<Rightarrow> string list \<Rightarrow> string" where
  "recommendation_items zh rs = (if rs = [] then in_tag ''li'' (zh ''none'') else concat (map (\<lambda>r. in_tag ''li'' (esc r)) rs))"

definition unlines :: "string list \<Rightarrow> string" where
  "unlines ls = join [CHR 0x0A] ls"

definition page_style :: "string list" where
  \<open>page_style =
     [''<style>'',
      ''  body { font-family: -apple-system, "Segoe UI", "Microsoft YaHei", sans-serif; margin: 32px; color: #333; }'',
      ''  h1 { color: #1677ff; border-bottom: 2px solid #1677ff; padding-bottom: 8px; }'',
      ''  h2 { margin-top: 28px; color: #001529; }'',
      ''  .meta { color: #888; font-size: 13px; margin-bottom: 16px; }'',
      ''  table { border-collapse: collapse; width: 100%; margin: 12px 0; }'',
      ''  th, td { border: 1px solid #ddd; padding: 8px 12px; text-align: left; font-size: 14px; }'',
      ''  th { background: #fafafa; }'',
      ''  .summary { background: #f6ffed; padding: 16px; border-radius: 6px; margin: 12px 0; }'',
      ''  .ai { color: #555; line-height: 1.6; }'',
      ''</style>'']\<close>

definition render_report_html :: "(string \<Rightarrow> string) \<Rightarrow> string \<Rightarrow> scan_report \<Rightarrow> string" where
  \<open>render_report_html zh task r = unlines
     ([''<!DOCTYPE html>'', ''<html lang="zh-CN">'', ''<head>'', ''<meta charset="utf-8">'',
       ''<title>'' @ zh ''scan report'' @ '' - '' @ esc task @ ''</title>''] @ page_style @
      [''</head>'', ''<body>'', ''  <h1>'' @ zh ''vulnerability scan report'' @ ''</h1>'',
       ''  <div class="meta">'' @ zh ''task id'' @ esc task @ zh ''bar'' @ zh ''generated at'' @ esc (r_generated r) @ ''</div>'', [],
       ''  <h2>'' @ zh ''scan summary'' @ ''</h2>'', ''  <div class="summary">'',
       ''    '' @ esc (or_text2 (r_summary r) (zh ''no summary'')), ''  </div>'',
       ''  '' @ (if r_analysis r = [] then []
         else ''<div class="ai"><strong>'' @ zh ''ai analysis'' @ ''</strong>'' @ esc (r_analysis r) @ ''</div>''), [],
       ''  <h2>'' @ zh ''statistics'' @ ''</h2>'', ''  <table>'',
       ''    '' @ in_tag ''tr'' (in_tag ''th'' (zh ''severity'') @ in_tag ''th'' (zh ''count'')),
       ''    '' @ severity_rows zh (r_by_severity r),
       ''    '' @ in_tag ''tr'' (in_tag ''td'' (zh ''filtered out'') @ in_tag ''td'' (esc (nat_to_str (r_filtered r)))),
       ''  </table>'', [], ''  <h2>Top '' @ zh ''vulnerabilities'' @ ''</h2>'', ''  <table>'',
       ''    '' @ in_tag ''tr'' (in_tag ''th'' (zh ''host'') @ in_tag ''th'' (zh ''name'') @ in_tag ''th'' ''CVE'' @
         in_tag ''th'' (zh ''severity'') @ in_tag ''th'' (zh ''fix advice'')),
       ''    '' @ top_rows zh (r_top r), ''  </table>'', [], ''  <h2>'' @ zh ''fix advice'' @ ''</h2>'',
       ''  <ul>'' @ recommendation_items zh (r_recommendations r) @ ''</ul>'', ''</body>'', ''</html>''])\<close>

definition api_export_report :: "(string \<Rightarrow> string) \<Rightarrow> scan_env \<Rightarrow> string \<Rightarrow> string \<Rightarrow> (string \<times> string) aio" where
  "api_export_report zh env task format =
     io_bind (on_scan (get_report task)) (\<lambda>r. case r of
       None \<Rightarrow> io_raise (not_found ''Report not found'')
     | Some r \<Rightarrow>
         io_bind (io_guard (format = ''html'')
           (HTTPException 422 [''unsupported format '' @ repr_str format @ ''; expected html''])) (\<lambda>_.
         io_bind (api_audit env task ''export_report'') (\<lambda>_.
         io_return (render_report_html zh task r, ''scan-report-'' @ task @ ''.html''))))"

section \<open>No value adds markup\<close>

text \<open>The characters of a text that open or close a tag, an attribute or an entity's place.\<close>

definition marks :: "string \<Rightarrow> string" where
  "marks s = filter (\<lambda>c. c \<in> {CHR ''<'', CHR ''>'', CHR 0x22, CHR 0x27}) s"

lemma marks_append [simp]: "marks [] = []" "marks (s @ t) = marks s @ marks t"
  by (simp_all add: marks_def)

lemma marks_Cons [simp]:
  "marks (c # s) = (if c \<in> {CHR ''<'', CHR ''>'', CHR 0x22, CHR 0x27} then c # marks s else marks s)"
  by (simp add: marks_def)

lemma marks_join: "marks (join sep ss) = join (marks sep) (map marks ss)"
  by (induction sep ss rule: join.induct) simp_all

lemma marks_esc_char: "marks (esc_char c) = []"
  by (simp add: esc_char_def marks_def)

lemma marks_esc [simp]: "marks (esc s) = []"
  by (induction s) (simp_all add: esc_def marks_esc_char)

lemma marks_tag [simp]: "marks (in_tag t s) = marks (''<'' @ t @ ''>'') @ marks s @ marks (''</'' @ t @ ''>'')"
  unfolding in_tag_def by simp

lemma marks_rows:
  assumes "\<And>x. x \<in> set xs \<Longrightarrow> marks (f x) = c"
  shows "marks (concat (map f xs)) = concat (replicate (length xs) c)"
  using assms by (induction xs) auto

definition same_shape :: "scan_report \<Rightarrow> scan_report \<Rightarrow> bool" where
  "same_shape r r' \<longleftrightarrow> length (r_by_severity r) = length (r_by_severity r') \<and> length (r_top r) = length (r_top r') \<and>
     length (r_recommendations r) = length (r_recommendations r') \<and> (r_analysis r = [] \<longleftrightarrow> r_analysis r' = [])"

lemma marks_severity_rows:
  "length xs = length ys \<Longrightarrow> marks (severity_rows zh xs) = marks (severity_rows zh ys)"
proof -
  assume len: "length xs = length ys"
  have "marks (concat (map (\<lambda>(k, n). in_tag ''tr'' (in_tag ''td'' (esc k) @ in_tag ''td'' (esc (nat_to_str n)))) zs)) =
      concat (replicate (length zs) (marks (in_tag ''tr'' (in_tag ''td'' [] @ in_tag ''td'' []))))" for zs
    by (intro marks_rows) auto
  then show ?thesis using len by (cases "xs = []") (auto simp: severity_rows_def)
qed

lemma marks_vuln_row: "marks (vuln_row zh v) = marks (vuln_row zh v')"
  by (simp add: vuln_row_def)

lemma marks_top_rows:
  assumes "length xs = length ys"
  shows "marks (top_rows zh xs) = marks (top_rows zh ys)"
proof (cases xs)
  case (Cons x xs')
  have "marks (concat (map (vuln_row zh) zs)) = concat (replicate (length zs) (marks (vuln_row zh x)))" for zs
    by (intro marks_rows marks_vuln_row)
  then show ?thesis using assms Cons by (cases "ys = []") (auto simp: top_rows_def simp del: concat.simps list.map)
qed (use assms in \<open>auto simp: top_rows_def\<close>)

lemma marks_items:
  assumes "length xs = length ys"
  shows "marks (recommendation_items zh xs) = marks (recommendation_items zh ys)"
proof -
  have "marks (concat (map (\<lambda>r. in_tag ''li'' (esc r)) zs)) = concat (replicate (length zs) (marks (in_tag ''li'' [])))" for zs
    by (intro marks_rows) simp
  then show ?thesis using assms by (cases xs; cases ys) (auto simp: recommendation_items_def)
qed

text \<open>
  C28: No value of a report adds markup to its page. The characters that open and close tags and attributes are, one
  after the other, the same in the pages of any two reports, of any tasks, that have as many levels, findings and
  recommendations and that both have or both lack an analysis.
\<close>

theorem report_page_inert:
  assumes "same_shape r r'"
  shows "marks (render_report_html zh task r) = marks (render_report_html zh task' r')"
proof -
  have rows: "marks (severity_rows zh (r_by_severity r)) = marks (severity_rows zh (r_by_severity r'))"
    "marks (top_rows zh (r_top r)) = marks (top_rows zh (r_top r'))"
    "marks (recommendation_items zh (r_recommendations r)) = marks (recommendation_items zh (r_recommendations r'))"
    "r_analysis r = [] \<longleftrightarrow> r_analysis r' = []"
    using assms by (auto simp: same_shape_def intro: marks_severity_rows marks_top_rows marks_items)
  show ?thesis unfolding render_report_html_def unlines_def marks_join
    by (rule arg_cong [where f = "join (marks [CHR 0x0A])"]) (simp add: rows)
qed

definition plain_report :: "string \<Rightarrow> scan_report" where
  "plain_report s = \<lparr>r_task = s, r_summary = s, r_analysis = [], r_by_severity = [(s, 1)], r_by_category = [], r_total = 1, r_filtered = 0,
     r_top = [\<lparr>tv_id = s, tv_host = s, tv_name = s, tv_cve = Some s, tv_severity = FHigh, tv_ai_severity = Some s, tv_category = Sys_Vuln,
       tv_fix = Some s\<rparr>], r_recommendations = [s], r_generated = s, r_ai_processed = False, r_ai_model = s, r_advice = s, r_ai_at = None\<rparr>"

lemma report_page_inert_witness:
  "marks (render_report_html id ''<b>'' (plain_report ''<script>'')) = marks (render_report_html id ''t'' (plain_report ''x''))"
  by (rule report_page_inert) (simp add: same_shape_def plain_report_def)

end
