(* ===== verification/AssetScan.thy ===== *)
theory AssetScan
  imports Scanner TaskQueue
begin

text \<open>
  The scans of hosts without an agent: the documents of \<open>src/asset_scan/store.py\<close>, the subprocesses of
  \<open>src/asset_scan/scanner/runner.py\<close>, the nodes of \<open>src/orchestration/subgraphs/asset_scan\<close> and the run of a queued
  task in \<open>src/asset_scan/runner.py\<close>. The world holds the four indices, the cancellation marks with the time at which
  they expire, and the argument lists of the programs started so far. A program is what it has written by each
  second of its run; while one runs, and during every other pause, others act on the world. Texts that are not ASCII
  are represented by what they are made of.
\<close>

section \<open>The world\<close>

datatype advice = Patch_Critical | Plan_High | Keep_Routine

record asset_report =
  ar_task :: string
  ar_summary :: "nat \<times> nat \<times> nat"
  ar_hosts :: nat
  ar_ports :: nat
  ar_services :: nat
  ar_vulns :: nat
  ar_by_severity :: "(pyval \<times> nat) list"
  ar_top :: "pydict list"
  ar_advice :: "advice list"
  ar_generated :: string

record asset_world =
  nw_now :: int
  nw_redis :: bool
  nw_es :: bool
  nw_cancel :: "(string \<times> int) list"
  nw_status :: "(string \<times> pydict \<times> int) list"
  nw_stream :: "pydict list"
  nw_progress :: "(string \<times> string \<times> pydict) list"
  nw_usage :: "(string \<times> string) list"
  nw_tasks :: "(string \<times> pydict) list"
  nw_assets :: "(string \<times> pydict) list"
  nw_vulns :: "(string \<times> pydict) list"
  nw_reports :: "(string \<times> asset_report) list"
  nw_runs :: "string list list"

type_synonym 'a nio = "(asset_world, 'a) io"

text \<open>What a program does: when it ends and with which code, and its two outputs after so many seconds.\<close>

record process =
  pr_end :: "nat option"
  pr_rc :: int
  pr_out :: "nat \<Rightarrow> string"
  pr_err :: "nat \<Rightarrow> string"

text \<open>
  \<open>ne_process\<close> is given how many programs were started before; it may refuse to start one. \<open>ne_slot\<close> is how long
  that program waits for a free slot. \<open>ne_accepts\<close> says which documents the search service takes into an index.
\<close>

record asset_env =
  ne_rt :: pyrt
  ne_iso :: "int \<Rightarrow> string"
  ne_instant :: "string \<Rightarrow> int"
  ne_exn_str :: "exn \<Rightarrow> string"
  ne_others :: "asset_world \<Rightarrow> asset_world"
  ne_process :: "nat \<Rightarrow> string list \<Rightarrow> process res"
  ne_slot :: "nat \<Rightarrow> int"
  ne_accepts :: "string \<Rightarrow> pydict \<Rightarrow> bool"
  ne_xml :: "string \<Rightarrow> xml option"
  ne_loads :: "string \<Rightarrow> pyval option"
  ne_rules :: "int option \<Rightarrow> int \<Rightarrow> (pydict \<times> int) list res"
  ne_adapter :: bool
  ne_chat :: "pydict list \<Rightarrow> nat \<Rightarrow> int \<Rightarrow> string res"
  ne_retries :: nat
  ne_backoff :: nat
  ne_timeout :: nat
  ne_masscan_rate :: nat
  ne_nmap_rate :: nat
  ne_severity :: string
  ne_templates :: string

definition asset_pause :: "asset_env \<Rightarrow> int \<Rightarrow> unit nio" where
  "asset_pause env n = io_modify (\<lambda>w.
     let w1 = w\<lparr>nw_now := nw_now w + max n 0\<rparr>; w2 = ne_others env w1 in w2\<lparr>nw_now := max (nw_now w1) (nw_now w2)\<rparr>)"

definition asset_now :: "asset_env \<Rightarrow> string nio" where
  "asset_now env = io_gets (\<lambda>w. ne_iso env (nw_now w))"

definition on_redis :: "'a nio \<Rightarrow> 'a nio" where
  "on_redis m = (\<lambda>w. if nw_redis w then m w else (Raise (ExtError ''redis''), w))"

definition on_es :: "'a nio \<Rightarrow> 'a nio" where
  "on_es m = (\<lambda>w. if nw_es w then m w else (Raise (ExtError ''elasticsearch''), w))"

definition best_effort :: "unit nio \<Rightarrow> unit nio" where
  "best_effort m = io_try m (\<lambda>e. io_return ())"

section \<open>The store\<close>

definition INDEX_ASSET_TASKS :: string where "INDEX_ASSET_TASKS = ''assetscan-tasks''"
definition INDEX_ASSET_ASSETS :: string where "INDEX_ASSET_ASSETS = ''assetscan-assets''"
definition INDEX_ASSET_VULNS :: string where "INDEX_ASSET_VULNS = ''assetscan-vulns''"

definition asset_save_task :: "asset_env \<Rightarrow> pydict \<Rightarrow> unit nio" where
  "asset_save_task env task = on_es (\<lambda>w.
     if ne_accepts env INDEX_ASSET_TASKS task
     then (Ok (), w\<lparr>nw_tasks := AList.update (env_str task ''task_id'') task (nw_tasks w)\<rparr>)
     else (Raise (ExtError ''RequestError''), w))"

text \<open>Fields that are \<open>None\<close> are left alone; the service refuses an update of a document it does not have.\<close>

definition given_fields :: "pydict \<Rightarrow> pydict" where
  "given_fields flds = filter (\<lambda>(k, v). v \<noteq> PNone) flds"

definition asset_update_task :: "asset_env \<Rightarrow> string \<Rightarrow> pydict \<Rightarrow> unit nio" where
  "asset_update_task env task flds =
     (let doc = given_fields flds in
      if doc = [] then io_return ()
      else on_es (\<lambda>w. case map_of (nw_tasks w) task of
          None \<Rightarrow> (Raise (ExtError ''NotFoundError''), w)
        | Some t \<Rightarrow> (Ok (), w\<lparr>nw_tasks := AList.update task
             (dupdate t (doc @ [(''updated_at'', PStr (ne_iso env (nw_now w)))])) (nw_tasks w)\<rparr>)))"

definition asset_get_task :: "string \<Rightarrow> pydict option nio" where
  "asset_get_task task = on_es (io_gets (\<lambda>w. map_of (nw_tasks w) task))"

definition asset_list_tasks :: "asset_env \<Rightarrow> string option \<Rightarrow> string option \<Rightarrow> nat \<Rightarrow> nat \<Rightarrow> pydict list nio" where
  "asset_list_tasks env status source limit offset = on_es (io_gets (\<lambda>w.
     take limit (drop offset (sort_key (\<lambda>t. - ne_instant env (env_str t ''created_at''))
       (filter (\<lambda>t. (case status of Some (c # cs) \<Rightarrow> dget t ''status'' PNone = PStr (c # cs) | _ \<Rightarrow> True) \<and>
                    (case source of Some (c # cs) \<Rightarrow> dget t ''source'' PNone = PStr (c # cs) | _ \<Rightarrow> True))
          (map snd (nw_tasks w)))))))"

definition of_task :: "string \<Rightarrow> pydict \<Rightarrow> bool" where
  "of_task task d \<longleftrightarrow> dget d ''task_id'' PNone = PStr task"

text \<open>The four deletions fail alone; what fails is logged.\<close>

definition asset_delete_task :: "string \<Rightarrow> unit nio" where
  "asset_delete_task task = best_effort (on_es (io_modify (\<lambda>w. w\<lparr>
     nw_tasks := filter (\<lambda>(i, d). \<not> of_task task d) (nw_tasks w),
     nw_assets := filter (\<lambda>(i, d). \<not> of_task task d) (nw_assets w),
     nw_vulns := filter (\<lambda>(i, d). \<not> of_task task d) (nw_vulns w),
     nw_reports := filter (\<lambda>(i, d). ar_task d \<noteq> task) (nw_reports w)\<rparr>)))"

text \<open>
  Bulk writing: chunks of 500; the documents of a chunk the service takes are stored, and a refused one ends the
  writing after its chunk.
\<close>

fun chunks :: "nat \<Rightarrow> nat \<Rightarrow> 'a list \<Rightarrow> 'a list list" where
  "chunks n 0 xs = []"
| "chunks n (Suc k) xs = (if xs = [] then [] else take n xs # chunks n k (drop n xs))"

definition put_all :: "(pydict \<Rightarrow> bool) \<Rightarrow> (string \<times> pydict) list \<Rightarrow> (string \<times> pydict) list \<Rightarrow> (string \<times> pydict) list" where
  "put_all ok docs st = fold (\<lambda>(i, d) acc. AList.update i d acc) (filter (\<lambda>(i, d). ok d) docs) st"

fun bulk_assets :: "asset_env \<Rightarrow> (string \<times> pydict) list list \<Rightarrow> unit nio" where
  "bulk_assets env [] = io_return ()"
| "bulk_assets env (c # cs) =
     (let ok = ne_accepts env INDEX_ASSET_ASSETS in
      io_bind (on_es (io_modify (\<lambda>w. w\<lparr>nw_assets := put_all ok c (nw_assets w)\<rparr>))) (\<lambda>_.
      if list_all (\<lambda>(i, d). ok d) c then bulk_assets env cs else io_raise (ExtError ''BulkIndexError'')))"

fun bulk_vulns :: "asset_env \<Rightarrow> (string \<times> pydict) list list \<Rightarrow> unit nio" where
  "bulk_vulns env [] = io_return ()"
| "bulk_vulns env (c # cs) =
     (let ok = ne_accepts env INDEX_ASSET_VULNS in
      io_bind (on_es (io_modify (\<lambda>w. w\<lparr>nw_vulns := put_all ok c (nw_vulns w)\<rparr>))) (\<lambda>_.
      if list_all (\<lambda>(i, d). ok d) c then bulk_vulns env cs else io_raise (ExtError ''BulkIndexError'')))"

definition asset_doc :: "asset_env \<Rightarrow> string \<Rightarrow> pydict \<Rightarrow> string \<times> pydict" where
  "asset_doc env task a = (task @ '':'' @ py_str (ne_rt env) (dget a ''ip'' (PStr [])) @ '':'' @
     py_str (ne_rt env) (dget a ''index'' (PInt 0)), AList.update ''task_id'' (PStr task) a)"

definition save_assets :: "asset_env \<Rightarrow> string \<Rightarrow> pydict list \<Rightarrow> unit nio" where
  "save_assets env task assets =
     (let docs = map (asset_doc env task) assets in bulk_assets env (chunks 500 (length docs) docs))"

definition vuln_doc :: "asset_env \<Rightarrow> string \<Rightarrow> pydict \<Rightarrow> string \<times> pydict" where
  "vuln_doc env task v = (py_str (ne_rt env) (py_or (dget v ''vuln_id'' PNone)
       (PStr (task @ '':'' @ py_str (ne_rt env) (dget v ''ip'' (PStr [])) @ '':'' @
         py_str (ne_rt env) (dget v ''cve'' (PStr [])) @ '':'' @ py_str (ne_rt env) (dget v ''port'' (PInt 0))))),
     AList.update ''task_id'' (PStr task) v)"

definition save_vulns :: "asset_env \<Rightarrow> string \<Rightarrow> pydict list \<Rightarrow> unit nio" where
  "save_vulns env task vs =
     (let docs = map (vuln_doc env task) vs in bulk_vulns env (chunks 500 (length docs) docs))"

text \<open>Oldest first; a document without a date comes last. The first 10000 are returned.\<close>

definition detected_key :: "asset_env \<Rightarrow> pydict \<Rightarrow> nat \<times> int" where
  "detected_key env d = (case dget d ''detected_at'' PNone of PStr s \<Rightarrow> (0, ne_instant env s) | _ \<Rightarrow> (1, 0))"

definition by_detection :: "asset_env \<Rightarrow> string \<Rightarrow> (string \<times> pydict) list \<Rightarrow> pydict list" where
  "by_detection env task docs = take 10000
     (sort_key (snd \<circ> detected_key env) (filter (\<lambda>d. fst (detected_key env d) = 0) (filter (of_task task) (map snd docs))) @
      filter (\<lambda>d. fst (detected_key env d) = 1) (filter (of_task task) (map snd docs)))"

definition list_assets :: "asset_env \<Rightarrow> string \<Rightarrow> pydict list nio" where
  "list_assets env task = on_es (io_gets (\<lambda>w. by_detection env task (nw_assets w)))"

definition asset_list_vulns :: "asset_env \<Rightarrow> string \<Rightarrow> pydict list nio" where
  "asset_list_vulns env task = on_es (io_gets (\<lambda>w. by_detection env task (nw_vulns w)))"

definition asset_update_vuln :: "asset_env \<Rightarrow> string \<Rightarrow> pydict \<Rightarrow> unit nio" where
  "asset_update_vuln env vid flds =
     (let doc = given_fields flds in
      if doc = [] then io_return ()
      else best_effort (on_es (\<lambda>w. case map_of (nw_vulns w) vid of
          None \<Rightarrow> (Raise (ExtError ''NotFoundError''), w)
        | Some v \<Rightarrow>
            if ne_accepts env INDEX_ASSET_VULNS (dupdate v doc)
            then (Ok (), w\<lparr>nw_vulns := AList.update vid (dupdate v doc) (nw_vulns w)\<rparr>)
            else (Raise (ExtError ''RequestError''), w))))"

definition asset_save_report :: "asset_report \<Rightarrow> unit nio" where
  "asset_save_report r = on_es (io_modify (\<lambda>w. w\<lparr>nw_reports := AList.update (ar_task r) r (nw_reports w)\<rparr>))"

definition asset_get_report :: "string \<Rightarrow> asset_report option nio" where
  "asset_get_report task = on_es (io_gets (\<lambda>w. map_of (nw_reports w) task))"

section \<open>Cancellation and progress\<close>

definition marked :: "string \<Rightarrow> asset_world \<Rightarrow> bool" where
  "marked task w \<longleftrightarrow> (case map_of (nw_cancel w) (asset_cancel_key task) of Some t \<Rightarrow> nw_now w < t | None \<Rightarrow> False)"

text \<open>A check that fails counts as not cancelled.\<close>

definition asset_cancelled :: "string \<Rightarrow> bool nio" where
  "asset_cancelled task = io_try (on_redis (io_gets (marked task))) (\<lambda>e. io_return False)"

definition asset_progress :: "string \<Rightarrow> string \<Rightarrow> pydict \<Rightarrow> unit nio" where
  "asset_progress task step detail =
     best_effort (on_redis (io_modify (\<lambda>w. w\<lparr>nw_progress := nw_progress w @ [(task, step, detail)]\<rparr>)))"

section \<open>Running a program\<close>

text \<open>\<open>ScannerRunner.check_cancelled\<close>: a mark raises a cancellation, a failing check does not.\<close>

definition check_cancelled :: "string \<Rightarrow> unit nio" where
  "check_cancelled task = (\<lambda>w. if nw_redis w \<and> marked task w then (Raise CancelledError, w) else (Ok (), w))"

text \<open>
  Every two seconds the mark is looked for; when it is found the program is killed and what it wrote until then is
  returned with the code of the signal.
\<close>

definition ends_by :: "process \<Rightarrow> nat \<Rightarrow> nat option" where
  "ends_by p t = (case pr_end p of Some d \<Rightarrow> if d \<le> t then Some d else None | None \<Rightarrow> None)"

function watch :: "asset_env \<Rightarrow> string \<Rightarrow> process \<Rightarrow> nat \<Rightarrow> nat \<Rightarrow> (int \<times> string \<times> string) nio" where
  "watch env task p limit t =
     (case ends_by p (min (t + 2) limit) of
        Some d \<Rightarrow> io_bind (asset_pause env (int d - int t)) (\<lambda>_. io_return (pr_rc p, pr_out p d, pr_err p d))
      | None \<Rightarrow>
          if limit \<le> t + 2 then io_bind (asset_pause env (int limit - int t)) (\<lambda>_. io_raise TimeoutError)
          else io_bind (asset_pause env 2) (\<lambda>_.
               io_bind (io_gets (\<lambda>w. task \<noteq> [] \<and> nw_redis w \<and> marked task w)) (\<lambda>stop.
               if stop then io_return (- 9, pr_out p (t + 2), pr_err p (t + 2))
               else watch env task p limit (t + 2))))"
  by pat_completeness auto
termination
  by (relation "measure (\<lambda>(env, task, p, limit, t). limit - t)") auto

declare watch.simps [simp del]

definition scanner_run :: "asset_env \<Rightarrow> nat option \<Rightarrow> string \<Rightarrow> asset_world runner" where
  "scanner_run env timeout task args =
     io_bind (io_gets (\<lambda>w. length (nw_runs w))) (\<lambda>n.
     io_bind (asset_pause env (ne_slot env n)) (\<lambda>_.
     io_bind (check_cancelled task) (\<lambda>_.
     io_bind (io_lift (ne_process env n args)) (\<lambda>p.
     io_bind (io_modify (\<lambda>w. w\<lparr>nw_runs := nw_runs w @ [args]\<rparr>)) (\<lambda>_.
     watch env task p (case timeout of Some (Suc t) \<Rightarrow> Suc t | _ \<Rightarrow> ne_timeout env) 0)))))"

section \<open>The nodes\<close>

record asset_state =
  ns_task :: string
  ns_source :: string
  ns_targets :: "string list"
  ns_ports :: "nat list"
  ns_engine :: string
  ns_modules :: "string list"
  ns_schedule :: string
  ns_actor :: string
  ns_alive :: "string list"
  ns_host_ports :: "(string \<times> nat list) list"
  ns_services :: "pydict list"
  ns_vulns :: "pydict list"
  ns_ai_results :: "pydict list"
  ns_report :: "asset_report option"
  ns_status :: string
  ns_error :: "string option"
  ns_ai_processed :: bool

text \<open>The queued request, with the fields of \<open>AssetScanEnvelope\<close> the graph reads.\<close>

record asset_request =
  aq_task :: string
  aq_source :: string
  aq_targets :: "string list"
  aq_ports :: "nat list"
  aq_engine :: string
  aq_modules :: "string list"
  aq_schedule :: string
  aq_actor :: string

definition asset_default_state :: "asset_request \<Rightarrow> asset_state" where
  "asset_default_state q = \<lparr>ns_task = aq_task q, ns_source = aq_source q, ns_targets = aq_targets q,
     ns_ports = aq_ports q, ns_engine = aq_engine q, ns_modules = aq_modules q, ns_schedule = aq_schedule q,
     ns_actor = aq_actor q, ns_alive = [], ns_host_ports = [], ns_services = [], ns_vulns = [], ns_ai_results = [],
     ns_report = None, ns_status = ''running'', ns_error = None, ns_ai_processed = False\<rparr>"

definition str_list :: "string list \<Rightarrow> pyval" where "str_list xs = PList (map PStr xs)"

definition parse_node :: "asset_env \<Rightarrow> asset_state \<Rightarrow> asset_state nio" where
  "parse_node env s =
     io_bind (asset_cancelled (ns_task s)) (\<lambda>c.
     if c then io_return (s\<lparr>ns_status := ''cancelled''\<rparr>)
     else io_bind (io_lift (parse_intent (ns_targets s) (ns_engine s))) (\<lambda>(targets, engine).
          io_bind (asset_progress (ns_task s) ''parse''
            [(''targets'', str_list (map strip (filter (\<lambda>t. t \<noteq> [] \<and> strip t \<noteq> []) (ns_targets s)))),
             (''engine'', PStr engine)]) (\<lambda>_.
          io_return (s\<lparr>ns_targets := targets, ns_engine := engine\<rparr>))))"

definition bare_asset :: "string \<Rightarrow> nat list \<Rightarrow> pydict" where
  "bare_asset ip ports = [(''ip'', PStr ip), (''hostname'', PStr []), (''os_guess'', PStr []),
     (''ports'', PList (map (\<lambda>p. PInt (int p)) ports)), (''services'', PList [])]"

definition found_assets :: "string list \<Rightarrow> (string \<times> nat list) list \<Rightarrow> pydict list" where
  "found_assets hosts host_ports = map (\<lambda>(ip, ports). bare_asset ip ports) host_ports @
     map (\<lambda>ip. bare_asset ip []) (filter (\<lambda>ip. map_of host_ports ip = None) hosts)"

definition discover_node :: "asset_env \<Rightarrow> asset_state \<Rightarrow> asset_state nio" where
  "discover_node env s =
     (let task = ns_task s; run = scanner_run env None task in
      io_bind (asset_cancelled task) (\<lambda>c.
      if c then io_return (s\<lparr>ns_status := ''cancelled''\<rparr>)
      else
        io_bind (asset_progress task ''discover'' [(''phase'', PStr ''alive''), (''targets'', str_list (ns_targets s))]) (\<lambda>_.
        io_bind (discover_hosts (ne_xml env) run (ns_targets s)) (\<lambda>hosts.
        if hosts = [] then
          io_return (s\<lparr>ns_alive := [], ns_host_ports := [], ns_services := [], ns_vulns := [], ns_status := ''completed''\<rparr>)
        else
          io_bind (scan_ports (ne_xml env) run (ne_masscan_rate env) (ne_nmap_rate env) hosts (ns_engine s) (ns_ports s))
            (\<lambda>host_ports.
          io_bind (asset_progress task ''discover'' [(''phase'', PStr ''ports''), (''hosts'', PInt (int (length host_ports)))])
            (\<lambda>_.
          io_bind (best_effort (save_assets env task (found_assets hosts host_ports))) (\<lambda>_.
          io_return (s\<lparr>ns_alive := hosts, ns_host_ports := host_ports\<rparr>))))))))"

text \<open>A service as a dictionary, with the host it was found on.\<close>

definition service_dict :: "string \<Rightarrow> Scanner.service \<Rightarrow> pydict" where
  "service_dict ip v = [(''port'', PInt (int (svc_port v))), (''protocol'', PStr (svc_protocol v)),
     (''name'', PStr (svc_name v)), (''product'', PStr (svc_product v)), (''version'', PStr (svc_version v)),
     (''cpe'', PStr (svc_cpe v)), (''banner'', PStr (svc_banner v)), (''http_title'', PStr (svc_http_title v)),
     (''ip'', PStr ip)]"

definition host_args :: "asset_env \<Rightarrow> string \<Rightarrow> nat list \<Rightarrow> string list" where
  "host_args env ip ports = [''nmap'', ''-sV'', ''-sC'', ''-n'', ''--max-rate'', nat_to_str (ne_nmap_rate env),
     ''-p'', join '','' (map nat_to_str ports), ''-oX'', ''-'', ''--'', ip]"

text \<open>\<open>None\<close> when the scan was cancelled between two hosts; a host whose program fails is skipped.\<close>

fun fingerprint_loop ::
    "asset_env \<Rightarrow> string \<Rightarrow> pydict list \<Rightarrow> (string \<times> nat list) list \<Rightarrow> pydict list option nio" where
  "fingerprint_loop env task services [] = io_return (Some services)"
| "fingerprint_loop env task services ((ip, ports) # rest) =
     io_bind (asset_cancelled task) (\<lambda>c.
     if c then io_return None
     else
       io_bind (io_try (io_bind (scanner_run env None task (host_args env ip ports)) (\<lambda>r. io_return (Some r)))
          (\<lambda>e. io_return None)) (\<lambda>r.
       case r of
         None \<Rightarrow> fingerprint_loop env task services rest
       | Some (rc, out, err) \<Rightarrow>
           if rc \<noteq> 0 \<and> strip out = [] then fingerprint_loop env task services rest
           else fingerprint_loop env task (services @ map (service_dict ip) (parse_nmap_services (ne_xml env) out)) rest))"

definition fingerprint_node :: "asset_env \<Rightarrow> asset_state \<Rightarrow> asset_state nio" where
  "fingerprint_node env s =
     (let task = ns_task s in
      io_bind (asset_cancelled task) (\<lambda>c.
      if c then io_return (s\<lparr>ns_status := ''cancelled''\<rparr>)
      else if ns_host_ports s = [] then io_return (s\<lparr>ns_services := []\<rparr>)
      else io_bind (fingerprint_loop env task [] (ns_host_ports s)) (\<lambda>r. case r of
          None \<Rightarrow> io_return (s\<lparr>ns_status := ''cancelled''\<rparr>)
        | Some services \<Rightarrow>
            io_bind (asset_progress task ''fingerprint'' [(''services'', PInt (int (length services)))]) (\<lambda>_.
            io_return (s\<lparr>ns_services := services\<rparr>)))))"

text \<open>One page of the rule index.\<close>

definition search_rules :: "asset_env \<Rightarrow> int option \<Rightarrow> (pydict \<times> int) list nio" where
  "search_rules env cursor = on_es (\<lambda>w. (ne_rules env cursor (nw_now w), w))"

definition cpe_findings :: "asset_env \<Rightarrow> asset_state \<Rightarrow> pydict list nio" where
  "cpe_findings env s =
     (if ''cve'' \<in> set (ns_modules s) \<and> ns_services s \<noteq> [] then
        io_bind (load_cve_rules (search_rules env) 10000) (\<lambda>rules.
        io_bind (asset_now env) (\<lambda>now. io_lift (match_by_cpe (ne_rt env) (\<lambda>n. now) (ns_services s) rules)))
      else io_return [])"

text \<open>A template scan that fails contributes nothing.\<close>

definition template_findings :: "asset_env \<Rightarrow> asset_state \<Rightarrow> pydict list nio" where
  "template_findings env s =
     (if ''nuclei'' \<in> set (ns_modules s) \<and> ns_host_ports s \<noteq> [] then
        io_try (io_bind (asset_now env) (\<lambda>now.
            run_nuclei (ne_loads env) (scanner_run env (Some 600) (ns_task s)) (\<lambda>n. now) (ne_severity env)
              (ne_templates env) (ns_host_ports s)))
          (\<lambda>e. io_return [])
      else io_return [])"

definition match_node :: "asset_env \<Rightarrow> asset_state \<Rightarrow> asset_state nio" where
  "match_node env s =
     (let task = ns_task s in
      io_bind (asset_cancelled task) (\<lambda>c.
      if c then io_return (s\<lparr>ns_status := ''cancelled''\<rparr>)
      else
        io_bind (cpe_findings env s) (\<lambda>a.
        io_bind (template_findings env s) (\<lambda>b.
        io_bind (io_lift (dedupe_vulns (ne_rt env) [] (a @ b))) (\<lambda>vs.
        io_bind (if vs = [] then io_return () else save_vulns env task vs) (\<lambda>_.
        io_bind (asset_progress task ''match'' [(''vulns'', PInt (int (length vs)))]) (\<lambda>_.
        io_return (s\<lparr>ns_vulns := vs\<rparr>))))))))"

section \<open>The model's judgement\<close>

text \<open>The text between the first pair of code fences, and the text from the first bracket to the last.\<close>

definition fence :: string where "fence = [CHR 0x60, CHR 0x60, CHR 0x60]"

definition unfenced :: "string \<Rightarrow> string" where
  "unfenced t = (case split_str_once fence t of
      None \<Rightarrow> t
    | Some (_, rest) \<Rightarrow>
        (case split_str_once fence (if prefix ''json'' rest then drop 4 rest else rest) of
           None \<Rightarrow> t
         | Some (body, _) \<Rightarrow> strip body))"

definition bracketed :: "string \<Rightarrow> string option" where
  "bracketed t = (case (split_once (CHR ''['') t, rsplit_once (CHR '']'') t) of
      (Some (before, _), Some (front, _)) \<Rightarrow> Some (drop (length before) (front @ '']''))
    | _ \<Rightarrow> None)"

definition ai_item :: "pyval \<Rightarrow> pydict list" where
  "ai_item item = (case item of
      PDict d \<Rightarrow> if truthy (dget d ''vuln_id'' PNone) then
          [[(''vuln_id'', dget d ''vuln_id'' PNone), (''ai_severity'', dget d ''ai_severity'' (PStr ''info'')),
            (''ai_reason'', dget d ''ai_reason'' (PStr [])), (''fix_advice'', dget d ''fix_advice'' (PStr [])),
            (''ai_processed'', PBool True)]] else []
    | _ \<Rightarrow> [])"

definition parse_ai_json :: "(string \<Rightarrow> pyval option) \<Rightarrow> string \<Rightarrow> pydict list" where
  "parse_ai_json loads raw =
     (if raw = [] then []
      else let t = unfenced (strip raw);
               data = (case loads t of Some v \<Rightarrow> Some v
                 | None \<Rightarrow> (case bracketed t of None \<Rightarrow> None | Some u \<Rightarrow> loads u)) in
           case data of Some (PList items) \<Rightarrow> concat (map ai_item items) | _ \<Rightarrow> [])"

definition ai_fallback :: "string \<Rightarrow> pydict \<Rightarrow> pydict" where
  "ai_fallback reason v = [(''vuln_id'', dget v ''vuln_id'' (PStr [])),
     (''ai_severity'', dget v ''severity'' (PStr ''unknown'')), (''ai_reason'', PStr reason), (''ai_processed'', PBool False)]"

text \<open>\<open>chat_with_retry\<close> without a list of findings to queue: at most \<open>ne_retries\<close> repetitions, with growing pauses.\<close>

definition asset_usage :: "string \<Rightarrow> unit nio" where
  "asset_usage status =
     best_effort (on_redis (io_modify (\<lambda>w. w\<lparr>nw_usage := nw_usage w @ [(''asset_scan_llm_analysis'', status)]\<rparr>)))"

definition names_timeout :: "asset_env \<Rightarrow> exn \<Rightarrow> bool" where
  "names_timeout env e \<longleftrightarrow> e = TimeoutError \<or> str_in ''timeout'' (py_lower (ne_exn_str env e)) \<or>
     str_in ''deadline'' (py_lower (ne_exn_str env e))"

fun ask_model :: "nat \<Rightarrow> nat \<Rightarrow> exn \<Rightarrow> asset_env \<Rightarrow> pydict list \<Rightarrow> string nio" where
  "ask_model 0 attempt last_exc env batch = io_raise last_exc"
| "ask_model (Suc n) attempt last_exc env batch =
     (\<lambda>w. case ne_chat env batch attempt (nw_now w) of
        Inr x \<Rightarrow> io_bind (asset_usage ''success'') (\<lambda>_.
            io_bind (if attempt > 0 then asset_usage ''retry'' else io_return ()) (\<lambda>_. io_return x)) w
      | Inl e \<Rightarrow>
          if is_Exception e then
            io_bind (asset_usage (if names_timeout env e then ''timeout'' else ''failed'')) (\<lambda>_.
            io_bind (if n > 0 then asset_pause env (int (ne_backoff env * 2 ^ attempt)) else io_return ()) (\<lambda>_.
            ask_model n (Suc attempt) e env batch)) w
          else (Inl e, w))"

definition judge_batch :: "asset_env \<Rightarrow> pydict list \<Rightarrow> pydict list nio" where
  "judge_batch env batch =
     io_try (io_bind (ask_model (Suc (ne_retries env)) 0 ValueError env batch) (\<lambda>raw.
        let parsed = parse_ai_json (ne_loads env) raw in
        io_return (if parsed \<noteq> [] then parsed else map (ai_fallback ''AI output unparseable'') batch)))
       (\<lambda>e. io_return (map (ai_fallback (''LLM batch failed: '' @ ne_exn_str env e)) batch))"

text \<open>\<open>None\<close> when the scan was cancelled between two batches: nothing is written back then.\<close>

fun judge_batches :: "asset_env \<Rightarrow> string \<Rightarrow> pydict list list \<Rightarrow> pydict list option nio" where
  "judge_batches env task [] = io_return (Some [])"
| "judge_batches env task (b # bs) =
     io_bind (asset_cancelled task) (\<lambda>c.
     if c then io_return None
     else io_bind (judge_batch env b) (\<lambda>rs.
          io_bind (judge_batches env task bs) (\<lambda>r. io_return (map_option ((@) rs) r))))"

definition write_judgement :: "asset_env \<Rightarrow> pydict \<Rightarrow> unit nio" where
  "write_judgement env r = asset_update_vuln env (py_str (ne_rt env) (dget r ''vuln_id'' (PStr [])))
     [(''ai_severity'', dget r ''ai_severity'' PNone), (''ai_reason'', dget r ''ai_reason'' (PStr [])),
      (''ai_processed'', dget r ''ai_processed'' (PBool False)), (''fix_advice'', dget r ''fix_advice'' (PStr []))]"

fun write_judgements :: "asset_env \<Rightarrow> pydict list \<Rightarrow> unit nio" where
  "write_judgements env [] = io_return ()"
| "write_judgements env (r # rs) = io_bind (write_judgement env r) (\<lambda>_. write_judgements env rs)"

definition AI_BATCH_SIZE :: nat where "AI_BATCH_SIZE = 15"

definition judge_node :: "asset_env \<Rightarrow> asset_state \<Rightarrow> asset_state nio" where
  "judge_node env s =
     (let task = ns_task s; vs = ns_vulns s in
      io_bind (asset_cancelled task) (\<lambda>c.
      if c then io_return (s\<lparr>ns_status := ''cancelled''\<rparr>)
      else if vs = [] then io_return (s\<lparr>ns_ai_results := [], ns_ai_processed := False\<rparr>)
      else
        io_bind (if ne_adapter env then judge_batches env task (chunks AI_BATCH_SIZE (length vs) vs)
          else io_return (Some (map (ai_fallback ''LLM unavailable, kept original severity'') vs))) (\<lambda>r. case r of
          None \<Rightarrow> io_return (s\<lparr>ns_status := ''cancelled''\<rparr>)
        | Some rs \<Rightarrow> io_bind (write_judgements env rs) (\<lambda>_.
            io_return (s\<lparr>ns_ai_results := rs, ns_ai_processed := rs \<noteq> []\<rparr>)))))"

section \<open>The report\<close>

definition reported_severity :: "pydict \<Rightarrow> pyval" where
  "reported_severity v = py_or (dget v ''ai_severity'' PNone) (py_or (dget v ''severity'' PNone) (PStr ''unknown''))"

text \<open>A dictionary whose keys are values of any type.\<close>

fun count_key :: "pyval \<Rightarrow> (pyval \<times> nat) list \<Rightarrow> (pyval \<times> nat) list" where
  "count_key k [] = [(k, 1)]"
| "count_key k ((k', n) # r) = (if py_eq k k' then (k', n + 1) # r else (k', n) # count_key k r)"

definition key_count :: "(pyval \<times> nat) list \<Rightarrow> pyval \<Rightarrow> nat" where
  "key_count d k = (case find (\<lambda>e. py_eq k (fst e)) d of Some (_, n) \<Rightarrow> n | None \<Rightarrow> 0)"

definition count_severities :: "pydict list \<Rightarrow> (pyval \<times> nat) list res" where
  "count_severities vs =
     (if list_all (hashable \<circ> reported_severity) vs then Ok (fold (count_key \<circ> reported_severity) vs [])
      else Raise TypeError)"

definition asset_top :: "pydict \<Rightarrow> pydict" where
  "asset_top v = [(''ip'', dget v ''ip'' (PStr [])), (''port'', dget v ''port'' (PInt 0)), (''cve'', dget v ''cve'' PNone),
     (''name'', dget v ''name'' (PStr [])),
     (''severity'', py_or (dget v ''ai_severity'' PNone) (dget v ''severity'' (PStr [])))]"

definition severity_place :: "pydict \<Rightarrow> nat" where
  "severity_place d = (case dget d ''severity'' PNone of
      PStr s \<Rightarrow> (case map_of [(''critical'', 0), (''high'', 1), (''medium'', 2), (''low'', 3), (''info'', 4)] s of
                  Some n \<Rightarrow> n | None \<Rightarrow> 9)
    | _ \<Rightarrow> 9)"

definition asset_advice :: "(pyval \<times> nat) list \<Rightarrow> advice list" where
  "asset_advice sev = (let out = (if key_count sev (PStr ''critical'') > 0 then [Patch_Critical] else []) @
       (if key_count sev (PStr ''high'') > 0 then [Plan_High] else []) in
     if out = [] then [Keep_Routine] else out)"

definition make_report :: "asset_state \<Rightarrow> (pyval \<times> nat) list \<Rightarrow> string \<Rightarrow> asset_report" where
  "make_report s sev now = (let vs = ns_vulns s; hosts = length (ns_alive s); services = length (ns_services s) in
     \<lparr>ar_task = ns_task s, ar_summary = (hosts, services, length vs), ar_hosts = hosts,
      ar_ports = sum_list (map (length \<circ> snd) (ns_host_ports s)), ar_services = services, ar_vulns = length vs,
      ar_by_severity = sev, ar_top = take 20 (sort_key severity_place (map asset_top vs)),
      ar_advice = asset_advice sev, ar_generated = now\<rparr>)"

definition report_node :: "asset_env \<Rightarrow> asset_state \<Rightarrow> asset_state nio" where
  "report_node env s =
     (let task = ns_task s in
      io_bind (asset_cancelled task) (\<lambda>c.
      if c then io_return (s\<lparr>ns_status := ''cancelled''\<rparr>)
      else
        io_bind (io_lift (count_severities (ns_vulns s))) (\<lambda>sev.
        io_bind (asset_now env) (\<lambda>now.
        let report = make_report s sev now in
        io_bind (asset_save_report report) (\<lambda>_.
        io_bind (asset_update_task env task [(''status'', PStr ''completed''), (''finished_at'', PStr now)]) (\<lambda>_.
        io_bind (asset_progress task ''report'' [(''vulns'', PInt (int (length (ns_vulns s))))]) (\<lambda>_.
        io_return (s\<lparr>ns_report := Some report, ns_status := ''completed''\<rparr>))))))))"

section \<open>The graph and the queued task\<close>

text \<open>The graph is a line: a node that finds the scan cancelled changes the status, and the next node runs.\<close>

definition run_asset_scan :: "asset_env \<Rightarrow> asset_request \<Rightarrow> asset_state nio" where
  "run_asset_scan env q =
     io_bind (parse_node env (asset_default_state q)) (\<lambda>s.
     io_bind (discover_node env s) (\<lambda>s.
     io_bind (fingerprint_node env s) (\<lambda>s.
     io_bind (match_node env s) (\<lambda>s.
     io_bind (judge_node env s) (\<lambda>s. report_node env s)))))"

definition run_asset_scan_from_envelope :: "asset_env \<Rightarrow> asset_request \<Rightarrow> asset_state nio" where
  "run_asset_scan_from_envelope env q =
     (let task = aq_task q in
      io_bind (asset_now env) (\<lambda>started.
      io_try
        (io_bind (asset_update_task env task [(''status'', PStr ''running''), (''started_at'', PStr started)]) (\<lambda>_.
         io_bind (run_asset_scan env q) (\<lambda>s.
         io_bind (asset_now env) (\<lambda>now.
         io_bind (asset_update_task env task [(''status'', PStr ''completed''), (''finished_at'', PStr now)]) (\<lambda>_.
         io_return s)))))
        (\<lambda>e. io_bind (asset_now env) (\<lambda>now.
             io_bind (best_effort (asset_update_task env task [(''status'', PStr ''failed''),
               (''finished_at'', PStr now), (''error'', PStr (take 2000 (ne_exn_str env e)))])) (\<lambda>_.
             io_raise e)))))"

end
