(* ===== verification/AssetApi.thy ===== *)
theory AssetApi
  imports AssetScan
begin

text \<open>
  The endpoints around the scans without an agent (\<open>src/api/routers/asset_scan.py\<close>): the checks of a request, its
  queueing, and following, cancelling, reading and deleting a scan; the hourly removal of cancellation marks of
  \<open>src/asset_scan/main.py\<close>. Addresses and networks are read as the interpreter's \<open>ipaddress\<close> module reads them. The
  role of the caller has been checked before the endpoints run, and the fields of a body have the declared types.
\<close>

section \<open>Addresses and networks\<close>

definition ipv4_octet :: "string \<Rightarrow> nat option" where
  "ipv4_octet s =
     (if py_isdigit s \<and> length s \<le> 3 \<and> (s = ''0'' \<or> hd s \<noteq> CHR ''0'') \<and> digits_val 0 s \<le> 255
      then Some (digits_val 0 s) else None)"

definition ipv4_of :: "string \<Rightarrow> nat option" where
  "ipv4_of s = (case map ipv4_octet (split_on (CHR ''.'') s) of
      [Some a, Some b, Some c, Some d] \<Rightarrow> Some (((a * 256 + b) * 256 + c) * 256 + d)
    | _ \<Rightarrow> None)"

text \<open>The length of a run of leading ones.\<close>

definition prefix_of_bits :: "nat \<Rightarrow> nat option" where
  "prefix_of_bits n = find (\<lambda>p. n = 2 ^ 32 - 2 ^ (32 - p)) [0..<33]"

text \<open>A prefix length, a netmask or a hostmask.\<close>

definition ipv4_prefix :: "string \<Rightarrow> nat option" where
  "ipv4_prefix m =
     (if py_isdigit m \<and> digits_val 0 m \<le> 32 then Some (digits_val 0 m)
      else case ipv4_of m of
        None \<Rightarrow> None
      | Some n \<Rightarrow> (case prefix_of_bits n of Some p \<Rightarrow> Some p | None \<Rightarrow> prefix_of_bits (2 ^ 32 - 1 - n)))"

definition ipv4_network :: "string \<Rightarrow> (nat \<times> nat) option" where
  "ipv4_network s = (case split_on (CHR ''/'') s of
      [a, m] \<Rightarrow> (case (ipv4_of a, ipv4_prefix m) of
          (Some n, Some p) \<Rightarrow> Some (n div 2 ^ (32 - p) * 2 ^ (32 - p), p)
        | _ \<Rightarrow> None)
    | _ \<Rightarrow> None)"

definition is_hex :: "char \<Rightarrow> bool" where
  "is_hex c = (let n = (of_char c :: nat) in 48 \<le> n \<and> n \<le> 57 \<or> 65 \<le> n \<and> n \<le> 70 \<or> 97 \<le> n \<and> n \<le> 102)"

definition hextet :: "string \<Rightarrow> bool" where
  "hextet s \<longleftrightarrow> s \<noteq> [] \<and> length s \<le> 4 \<and> list_all is_hex s"

text \<open>An address of the sixth version, without its zone. A trailing dotted part stands for two groups.\<close>

definition ipv6_groups :: "string \<Rightarrow> string list option" where
  "ipv6_groups s = (let parts = split_on (CHR '':'') s in
     if length parts < 3 then None
     else if CHR ''.'' \<in> set (last parts) then
       (if ipv4_of (last parts) = None then None else Some (butlast parts @ [''0'', ''0'']))
     else Some parts)"

definition ipv6_body :: "string \<Rightarrow> bool" where
  "ipv6_body s = (case ipv6_groups s of
      None \<Rightarrow> False
    | Some parts \<Rightarrow>
        let n = length parts; gaps = filter (\<lambda>i. parts ! i = []) [1..<n - 1] in
        n \<le> 9 \<and>
        (case gaps of
           [] \<Rightarrow> n = 8 \<and> list_all hextet parts
         | [i] \<Rightarrow>
             let hi = (if hd parts = [] then i - 1 else i);
                 lo = (if last parts = [] then n - i - 2 else n - i - 1) in
             (hd parts = [] \<longrightarrow> hi = 0) \<and> (last parts = [] \<longrightarrow> lo = 0) \<and> hi + lo \<le> 7 \<and>
             list_all hextet (take hi parts) \<and> list_all hextet (drop (n - lo) parts)
         | _ \<Rightarrow> False))"

definition ipv6_ok :: "string \<Rightarrow> bool" where
  "ipv6_ok s = (CHR ''/'' \<notin> set s \<and> (case split_once (CHR ''%'') s of
      None \<Rightarrow> ipv6_body s
    | Some (a, zone) \<Rightarrow> zone \<noteq> [] \<and> CHR ''%'' \<notin> set zone \<and> ipv6_body a))"

section \<open>The checks of a request\<close>

record asset_body =
  ab_targets :: "string list"
  ab_ports :: "int list"
  ab_engine :: string
  ab_modules :: "string list"
  ab_schedule :: string
  ab_source :: string

definition ENGINES :: "string list" where "ENGINES = [''fast'', ''full'', ''global'']"
definition MODULES :: "string list" where "MODULES = [''discovery'', ''fingerprint'', ''cve'', ''nuclei'', ''brute'']"
definition MAX_TARGETS :: nat where "MAX_TARGETS = 500"
definition MAX_PORTS :: nat where "MAX_PORTS = 100"
definition MAX_CIDR_PREFIX :: nat where "MAX_CIDR_PREFIX = 22"

definition target_ok :: "string \<Rightarrow> bool" where
  "target_ok t0 = (let t = strip t0 in
     t \<noteq> [] \<and>
     (if CHR ''/'' \<in> set t
      then (case ipv4_network t of None \<Rightarrow> False | Some (n, p) \<Rightarrow> MAX_CIDR_PREFIX \<le> p)
      else ipv4_of t \<noteq> None \<or> ipv6_ok t))"

definition check_targets :: "string list \<Rightarrow> string list res" where
  "check_targets v =
     (if v = [] \<or> length v > MAX_TARGETS \<or> \<not> list_all target_ok v then Raise (HTTPException 422 [])
      else Ok (map strip v))"

definition check_ports :: "int list \<Rightarrow> int list res" where
  "check_ports v =
     (if length v > MAX_PORTS \<or> \<not> list_all (\<lambda>p. 1 \<le> p \<and> p \<le> 65535) v then Raise (HTTPException 422 []) else Ok v)"

definition check_engine :: "string \<Rightarrow> string res" where
  "check_engine v = (if v \<notin> set ENGINES then Raise (HTTPException 422 []) else Ok v)"

definition check_modules :: "string list \<Rightarrow> string list res" where
  "check_modules v = (if \<not> set v \<subseteq> set MODULES then Raise (HTTPException 422 []) else Ok v)"

definition checked_asset_body :: "asset_body \<Rightarrow> asset_body res" where
  "checked_asset_body b =
     rbind (check_targets (ab_targets b)) (\<lambda>targets.
     rbind (check_ports (ab_ports b)) (\<lambda>ports.
     rbind (check_engine (ab_engine b)) (\<lambda>engine.
     rbind (check_modules (ab_modules b)) (\<lambda>modules.
     Ok (b\<lparr>ab_targets := targets, ab_ports := ports, ab_engine := engine, ab_modules := modules\<rparr>)))))"

section \<open>Queueing\<close>

text \<open>\<open>fresh\<close> is the random identifier, \<open>host\<close> the name of this machine, \<open>dumps\<close> the encoding as JSON.\<close>

definition asset_envelope :: "string \<Rightarrow> string \<Rightarrow> string \<Rightarrow> string \<Rightarrow> asset_body \<Rightarrow> pydict" where
  "asset_envelope fresh now host actor b =
     make_asset_envelope fresh now host (ab_source b) (map PStr (ab_targets b)) (Some (map PInt (ab_ports b)))
       (ab_engine b) (Some (map PStr (ab_modules b))) (ab_schedule b) actor None"

definition queued_task :: "pydict \<Rightarrow> string \<Rightarrow> pydict" where
  "queued_task e now = map (\<lambda>k. (k, dget e k PNone))
       [''task_id'', ''source'', ''targets'', ''ports'', ''engine'', ''modules'', ''schedule'', ''actor''] @
     [(''status'', PStr ''queued''), (''created_at'', PStr now), (''updated_at'', PStr now)]"

definition queued_status :: "pydict \<Rightarrow> pydict" where
  "queued_status e = (''status'', PStr ''queued'') #
     map (\<lambda>k. (k, dget e k PNone)) [''actor'', ''source'', ''targets'', ''engine'', ''submitted_at'']"

definition enqueue_asset :: "asset_env \<Rightarrow> (pyval \<Rightarrow> string) \<Rightarrow> string \<Rightarrow> string \<Rightarrow> string \<Rightarrow> asset_body \<Rightarrow> pydict nio" where
  "enqueue_asset env dumps fresh host actor b =
     io_bind (asset_now env) (\<lambda>now. let e = asset_envelope fresh now host actor b in
     io_bind (best_effort (asset_save_task env (queued_task e now))) (\<lambda>_.
     io_bind (on_redis (io_modify (\<lambda>w. w\<lparr>nw_stream := nw_stream w @ [entry_payload dumps e]\<rparr>))) (\<lambda>_.
     io_bind (best_effort (on_redis (io_modify (\<lambda>w. w\<lparr>nw_status :=
       AList.update (asset_status_key (env_str e ''task_id'')) (queued_status e, nw_now w + STATUS_TTL_SEC)
         (nw_status w)\<rparr>)))) (\<lambda>_.
     io_return e))))"

definition api_create_asset_task ::
    "asset_env \<Rightarrow> (pyval \<Rightarrow> string) \<Rightarrow> string \<Rightarrow> string \<Rightarrow> string \<Rightarrow> asset_body \<Rightarrow> string nio" where
  "api_create_asset_task env dumps fresh host actor body =
     io_bind (io_lift (checked_asset_body body)) (\<lambda>b.
     io_bind (io_try (enqueue_asset env dumps fresh host actor b) (\<lambda>e. io_raise (HTTPException 503 []))) (\<lambda>e.
     io_return (env_str e ''task_id'')))"

section \<open>Reading, cancelling, deleting\<close>

text \<open>The page and, as its total, the number of tasks on it.\<close>

definition api_list_asset_tasks ::
    "asset_env \<Rightarrow> string option \<Rightarrow> string option \<Rightarrow> nat \<Rightarrow> nat \<Rightarrow> (pydict list \<times> nat) nio" where
  "api_list_asset_tasks env status source page per_page =
     (if page < 1 \<or> per_page < 1 \<or> per_page > 100 then io_raise (HTTPException 422 [])
      else io_bind (asset_list_tasks env status source per_page ((page - 1) * per_page)) (\<lambda>items.
           io_return (items, length items)))"

definition side_channel :: "string \<Rightarrow> pydict \<Rightarrow> pydict" where
  "side_channel task d = [(''task_id'', PStr task), (''status'', dget d ''status'' (PStr ''queued'')),
     (''targets'', dget d ''targets'' (PList [])), (''engine'', dget d ''engine'' (PStr [])),
     (''actor'', dget d ''actor'' (PStr [])), (''side_channel'', PBool True),
     (''submitted_at'', dget d ''submitted_at'' (PStr []))]"

definition read_status :: "string \<Rightarrow> pydict option nio" where
  "read_status task = on_redis (io_gets (\<lambda>w. case map_of (nw_status w) (asset_status_key task) of
      Some (d, expires) \<Rightarrow> if nw_now w < expires then Some d else None
    | None \<Rightarrow> None))"

definition api_get_asset_task :: "string \<Rightarrow> pydict nio" where
  "api_get_asset_task task =
     io_bind (asset_get_task task) (\<lambda>t. case t of
       Some d \<Rightarrow> io_return d
     | None \<Rightarrow>
         io_bind (io_try (read_status task) (\<lambda>e. io_return None)) (\<lambda>p. case p of
           Some d \<Rightarrow> io_return (side_channel task d)
         | None \<Rightarrow> io_raise (HTTPException 404 [''Task not found''])))"

definition api_cancel_asset_task :: "string \<Rightarrow> pydict nio" where
  "api_cancel_asset_task task =
     io_bind (on_redis (io_modify (\<lambda>w. w\<lparr>nw_cancel :=
        AList.update (asset_cancel_key task) (nw_now w + 24 * 3600) (nw_cancel w)\<rparr>))) (\<lambda>_.
     io_return [(''task_id'', PStr task), (''status'', PStr ''cancelling'')])"

definition api_delete_asset_task :: "string \<Rightarrow> pydict nio" where
  "api_delete_asset_task task =
     io_bind (asset_get_task task) (\<lambda>t.
     if t = None then io_raise (HTTPException 404 [''Task not found''])
     else io_bind (asset_delete_task task) (\<lambda>_.
          io_bind (on_redis (io_modify (\<lambda>w. w\<lparr>nw_cancel := AList.delete (asset_cancel_key task) (nw_cancel w),
             nw_status := AList.delete (asset_status_key task) (nw_status w)\<rparr>))) (\<lambda>_.
          io_return [(''task_id'', PStr task), (''status'', PStr ''deleted'')])))"

definition api_asset_task_assets :: "asset_env \<Rightarrow> string \<Rightarrow> (pydict list \<times> nat) nio" where
  "api_asset_task_assets env task = io_bind (list_assets env task) (\<lambda>ds. io_return (ds, length ds))"

definition api_asset_task_vulns :: "asset_env \<Rightarrow> string \<Rightarrow> (pydict list \<times> nat) nio" where
  "api_asset_task_vulns env task = io_bind (asset_list_vulns env task) (\<lambda>ds. io_return (ds, length ds))"

definition api_asset_task_report :: "string \<Rightarrow> asset_report nio" where
  "api_asset_task_report task =
     io_bind (asset_get_report task) (\<lambda>r. case r of
       Some x \<Rightarrow> io_return x
     | None \<Rightarrow> io_raise (HTTPException 404 [''Report not generated yet'']))"

text \<open>The event stream, for the answers of the subscription so far: a message, or nothing for ten seconds.\<close>

definition event_text :: "string option \<Rightarrow> string" where
  "event_text m = (case m of
      Some d \<Rightarrow> ''data: '' @ d @ [CHR 0x0A, CHR 0x0A]
    | None \<Rightarrow> '': heartbeat'' @ [CHR 0x0A, CHR 0x0A])"

definition api_asset_task_stream :: "(string \<Rightarrow> pydict option) \<Rightarrow> string \<Rightarrow> string option list \<Rightarrow> string list res" where
  "api_asset_task_stream decode token polls =
     (if decode token = None then Raise (HTTPException 401 [''Invalid token'']) else Ok (map event_text polls))"

section \<open>The removal of marks\<close>

text \<open>One round of \<open>_cancel_sweep_loop\<close>: every key that begins like a mark is deleted.\<close>

definition cancel_sweep :: "unit nio" where
  "cancel_sweep = best_effort (on_redis (io_modify (\<lambda>w. w\<lparr>nw_cancel :=
     filter (\<lambda>(k, t). \<not> prefix ''assetscan:queue:cancel:'' k) (nw_cancel w)\<rparr>)))"

end
