(* ===== verification/AssetLaws.thy ===== *)
theory AssetLaws
  imports AssetApi
begin

text \<open>
  Facts about the scans without an agent: what an accepted request can ask for, what a cancellation stops and what is
  recorded of it, what a task's status says of its run, what the report counts, and which findings a scan leaves for
  which task.
\<close>

section \<open>Requests\<close>

definition target_hosts :: "string \<Rightarrow> nat" where
  "target_hosts t = (case ipv4_network t of Some (n, p) \<Rightarrow> 2 ^ (32 - p) | None \<Rightarrow> 1)"

lemma dropWhile_idem: "dropWhile P (dropWhile P xs) = dropWhile P xs"
  by (induction xs) auto

lemma dropWhile_rev_dropWhile:
  assumes "xs = dropWhile P xs"
  shows "dropWhile P (rev (dropWhile P (rev xs))) = rev (dropWhile P (rev xs))"
proof (cases "rev (dropWhile P (rev xs))")
  case (Cons y ys)
  have "prefix (rev (dropWhile P (rev xs))) xs"
    by (metis suffix_dropWhile suffix_to_prefix rev_rev_ident)
  then obtain zs where "xs = y # zs" using Cons by (auto simp: prefix_def)
  then show ?thesis using assms Cons by (metis dropWhile_eq_Cons_conv dropWhile_idem dropWhile.simps(2) list.sel(1))
next
  case Nil
  then show ?thesis by (simp only: dropWhile.simps)
qed

lemma strip_idem [simp]: "strip (strip s) = strip s"
proof -
  have "lstrip (rstrip (lstrip s)) = rstrip (lstrip s)"
    unfolding lstrip_def rstrip_def by (rule dropWhile_rev_dropWhile) (simp add: dropWhile_idem)
  then show ?thesis by (simp add: strip_def rstrip_def dropWhile_idem)
qed

lemma network_no_slash: "CHR ''/'' \<notin> set t \<Longrightarrow> ipv4_network t = None"
  by (simp add: ipv4_network_def split_on_no_sep)

lemma target_ok_hosts: "target_ok t \<Longrightarrow> target_hosts (strip t) \<le> 1024"
proof -
  assume t: "target_ok t"
  show ?thesis
  proof (cases "ipv4_network (strip t)")
    case (Some np)
    obtain n p where np: "np = (n, p)" by fastforce
    with t Some have "22 \<le> p"
      using network_no_slash [of "strip t"] by (auto simp: target_ok_def Let_def MAX_CIDR_PREFIX_def split: if_splits)
    then have "(2::nat) ^ (32 - p) \<le> 2 ^ 10" by (intro power_increasing) auto
    then show ?thesis by (simp add: target_hosts_def Some np)
  qed (simp add: target_hosts_def)
qed

lemma checked_bodyD:
  assumes "checked_asset_body b = Ok b'"
  shows "b' = b\<lparr>ab_targets := map strip (ab_targets b)\<rparr>" "ab_targets b \<noteq> []" "length (ab_targets b) \<le> 500"
    "list_all target_ok (ab_targets b)" "length (ab_ports b) \<le> 100" "list_all (\<lambda>p. 1 \<le> p \<and> p \<le> 65535) (ab_ports b)"
    "ab_engine b \<in> set ENGINES" "set (ab_modules b) \<subseteq> set MODULES"
  using assms
  by (auto simp: checked_asset_body_def check_targets_def check_ports_def check_engine_def check_modules_def
      rbind_eq_Inr_iff MAX_TARGETS_def MAX_PORTS_def split: if_splits)

text \<open>An accepted request names at least one target and at most half a million addresses, its ports are ports, and
  the scan's own check of targets and engine passes it unchanged but for repeated targets.\<close>

theorem accepted_request_bounded:
  "checked_asset_body b = Ok b' \<Longrightarrow>
   sum_list (map target_hosts (ab_targets b')) \<le> 500 * 1024 \<and>
   list_all (\<lambda>p. 1 \<le> p \<and> p \<le> 65535) (ab_ports b') \<and>
   ab_targets b' \<noteq> [] \<and>
   parse_intent (ab_targets b') (ab_engine b') = Ok (dedup_first (ab_targets b'), ab_engine b')"
proof (intro conjI)
  assume ok: "checked_asset_body b = Ok b'"
  note D = checked_bodyD [OF ok]
  have le: "sum_list (map target_hosts (map strip ts)) \<le> length ts * 1024" if "list_all target_ok ts" for ts
    using that
  proof (induction ts)
    case (Cons t ts)
    then have "target_hosts (strip t) \<le> 1024" using target_ok_hosts by simp
    with Cons show ?case by simp
  qed simp
  have "sum_list (map target_hosts (ab_targets b')) \<le> length (ab_targets b) * 1024"
    using le [OF D(4)] D(1) by simp
  also have "\<dots> \<le> 500 * 1024" using D(3) by simp
  finally show "sum_list (map target_hosts (ab_targets b')) \<le> 500 * 1024" .
  show "list_all (\<lambda>p. 1 \<le> p \<and> p \<le> 65535) (ab_ports b')" using D by simp
  show ne': "ab_targets b' \<noteq> []" using D by simp
  have ne: "strip t \<noteq> []" if "t \<in> set (ab_targets b)" for t
    using D(4) that by (auto simp: list_all_iff target_ok_def Let_def)
  have id: "filter (\<lambda>t. t \<noteq> [] \<and> strip t \<noteq> []) (ab_targets b') = ab_targets b'" "map strip (ab_targets b') = ab_targets b'"
    using ne by (auto simp: D(1) filter_id_conv)
  have eng: "ab_engine b' \<in> {''fast'', ''full'', ''global''}" using D by (simp add: ENGINES_def)
  show "parse_intent (ab_targets b') (ab_engine b') = Ok (dedup_first (ab_targets b'), ab_engine b')"
    unfolding parse_intent_def Let_def id using ne' eng by simp
qed

definition example_body :: asset_body where
  "example_body = \<lparr>ab_targets = [''10.0.0.0/24''], ab_ports = [80], ab_engine = ''fast'', ab_modules = [''cve''],
     ab_schedule = [], ab_source = ''manual''\<rparr>"

lemma example_body_ok: "checked_asset_body example_body = Ok example_body"
  by (simp add: checked_asset_body_def example_body_def check_targets_def check_ports_def check_engine_def
      check_modules_def target_ok_def ipv4_network_def ipv4_of_def ipv4_octet_def ipv4_prefix_def py_isdigit_def
      is_digit_def digit_val_def strip_def lstrip_def rstrip_def is_space_def ENGINES_def MODULES_def MAX_TARGETS_def
      MAX_PORTS_def MAX_CIDR_PREFIX_def Let_def)

theorem accepted_request_bounded_witness:
  "sum_list (map target_hosts (ab_targets example_body)) \<le> 500 * 1024"
  using accepted_request_bounded [OF example_body_ok] by blast

section \<open>Cancellation\<close>

lemma best_effort_simps:
  "m w = (Inr x, w') \<Longrightarrow> best_effort m w = (Inr (), w')"
  "m w = (Inl e, w') \<Longrightarrow> best_effort m w = (if is_Exception e then Inr () else Inl e, w')"
  by (simp_all add: best_effort_def)

lemma asset_cancelled_eq: "asset_cancelled task w = (Inr (nw_redis w \<and> marked task w), w)"
  by (simp add: asset_cancelled_def on_redis_def io_try_def is_Exception_def)

lemma asset_now_eq [simp]: "asset_now env w = (Inr (ne_iso env (nw_now w)), w)"
  by (simp add: asset_now_def)

text \<open>A property of the world that no write of a scan touches: it is kept as long as the others keep it.\<close>

lemma keeps_on_redis [keeps_intros]: "keeps I m \<Longrightarrow> keeps I (on_redis m)"
  by (simp add: keeps_def on_redis_def)

lemma keeps_on_es [keeps_intros]: "keeps I m \<Longrightarrow> keeps I (on_es m)"
  by (simp add: keeps_def on_es_def)

lemma keeps_asset_best_effort [keeps_intros]: "keeps I m \<Longrightarrow> keeps I (best_effort m)"
  unfolding best_effort_def by (intro keeps_intros)

lemma keeps_asset_cancelled [keeps_intros]: "keeps I (asset_cancelled task)"
  by (simp add: keeps_def asset_cancelled_eq)

lemma keeps_asset_now [keeps_intros]: "keeps I (asset_now env)"
  by (simp add: keeps_def)

lemma keeps_case_prod [keeps_intros]: "(\<And>a b. keeps I (f a b)) \<Longrightarrow> keeps I (case x of (a, b) \<Rightarrow> f a b)"
  by (cases x) simp

lemma keeps_bind_dep:
  "keeps I m \<Longrightarrow> (\<And>w x w'. m w = (Inr x, w') \<Longrightarrow> keeps I (f x)) \<Longrightarrow> keeps I (io_bind m f)"
  unfolding keeps_def io_bind_def by (fastforce split: prod.splits sum.splits)

lemma keeps_discover [keeps_intros]: "(\<And>args. keeps I (run args)) \<Longrightarrow> keeps I (discover_hosts px run ts)"
  unfolding discover_hosts_def by (intro keeps_intros)

lemma keeps_scan_ports [keeps_intros]: "(\<And>args. keeps I (run args)) \<Longrightarrow> keeps I (scan_ports px run a b hs e ps)"
  unfolding scan_ports_def Let_def by (intro keeps_intros)

lemma nuclei_loop_keeps:
  assumes "\<And>args. keeps I (run args)"
  shows "I w \<Longrightarrow> I (snd (nuclei_loop loads run now sev dir found ts w))"
proof (induction ts arbitrary: found w)
  case (Cons t ts)
  then show ?case
    using keepsD [OF assms, of w "nuclei_args sev dir t"] by (auto split: prod.splits sum.splits)
qed simp

lemma keeps_run_nuclei [keeps_intros]: "(\<And>args. keeps I (run args)) \<Longrightarrow> keeps I (run_nuclei loads run now sev tpl hps)"
  unfolding run_nuclei_def by (intro keeps_if keeps_return) (simp add: keeps_def nuclei_loop_keeps)

lemma load_pages_keeps:
  assumes "\<And>c. keeps I (search c)" "I w"
  shows "I (snd (load_pages search limit c rules w))"
  using assms(2)
proof (induction "limit - length rules" arbitrary: c rules w rule: less_induct)
  case less
  have step: "I (snd (search c w))" using keepsD [OF assms(1) less.prems] .
  show ?case
  proof (cases "search c w")
    case (Pair r w')
    have I': "I w'" using step Pair by simp
    show ?thesis
    proof (cases r)
      case (Inr hits)
      have "I (snd (load_pages search limit (Some (snd (last hits))) (rules @ map fst hits) w'))"
        if "hits \<noteq> []" "length (rules @ map fst hits) < limit"
        using that I' by (intro less.hyps) (auto simp: diff_less_mono2 neq_Nil_conv)
      with I' show ?thesis by (subst load_pages.simps) (simp add: Pair Inr Let_def)
    qed (use I' in \<open>subst load_pages.simps, simp add: Pair\<close>)
  qed
qed

lemma keeps_load_cve_rules [keeps_intros]:
  assumes "\<And>c. keeps I (search c)"
  shows "keeps I (load_cve_rules search limit)"
  unfolding load_cve_rules_def keeps_def using load_pages_keeps [where search = search, OF assms] by blast

lemma keeps_search_rules [keeps_intros]: "keeps I (search_rules env c)"
  by (simp add: keeps_def search_rules_def on_es_def)


text \<open>
  What a scan preserves: a property of the world that pauses and programs preserve and that does not look at the
  documents and logs the scan writes.
\<close>

locale scan_invariant =
  fixes env :: asset_env and task :: string and I :: "asset_world \<Rightarrow> bool"
  assumes pause: "keeps I (asset_pause env n)"
    and run: "keeps I (scanner_run env limit task args)"
    and writes: "I w \<Longrightarrow> I (w\<lparr>nw_progress := a, nw_usage := b, nw_tasks := c, nw_assets := d, nw_vulns := e, nw_reports := f\<rparr>)"
begin

lemma write_one:
  assumes "I w"
  shows "I (w\<lparr>nw_progress := a\<rparr>)" "I (w\<lparr>nw_usage := b\<rparr>)" "I (w\<lparr>nw_tasks := c\<rparr>)" "I (w\<lparr>nw_assets := d\<rparr>)"
    "I (w\<lparr>nw_vulns := e\<rparr>)" "I (w\<lparr>nw_reports := f\<rparr>)"
  using writes [OF assms, where a = a and b = "nw_usage w" and c = "nw_tasks w" and d = "nw_assets w" and e = "nw_vulns w" and f = "nw_reports w"]
    writes [OF assms, where a = "nw_progress w" and b = b and c = "nw_tasks w" and d = "nw_assets w" and e = "nw_vulns w" and f = "nw_reports w"]
    writes [OF assms, where a = "nw_progress w" and b = "nw_usage w" and c = c and d = "nw_assets w" and e = "nw_vulns w" and f = "nw_reports w"]
    writes [OF assms, where a = "nw_progress w" and b = "nw_usage w" and c = "nw_tasks w" and d = d and e = "nw_vulns w" and f = "nw_reports w"]
    writes [OF assms, where a = "nw_progress w" and b = "nw_usage w" and c = "nw_tasks w" and d = "nw_assets w" and e = e and f = "nw_reports w"]
    writes [OF assms, where a = "nw_progress w" and b = "nw_usage w" and c = "nw_tasks w" and d = "nw_assets w" and e = "nw_vulns w" and f = f]
  by simp_all

lemma progress: "keeps I (asset_progress t step detail)"
  unfolding asset_progress_def by (intro keeps_intros keeps_modify write_one)

lemma update_task: "keeps I (asset_update_task env t fs)"
  unfolding asset_update_task_def Let_def keeps_def on_es_def
  by (auto simp: write_one split: option.splits)

lemma put_assets: "keeps I (bulk_assets env cs)"
  by (induction cs) (auto simp: Let_def intro!: keeps_intros keeps_modify write_one)

lemma put_vulns: "keeps I (bulk_vulns env cs)"
  by (induction cs) (auto simp: Let_def intro!: keeps_intros keeps_modify write_one)

lemma update_vuln: "keeps I (asset_update_vuln env vid fs)"
proof -
  have "keeps I (on_es (\<lambda>w. case map_of (nw_vulns w) vid of
          None \<Rightarrow> (Raise (ExtError ''NotFoundError''), w)
        | Some v \<Rightarrow>
            if ne_accepts env INDEX_ASSET_VULNS (dupdate v doc)
            then (Ok (), w\<lparr>nw_vulns := AList.update vid (dupdate v doc) (nw_vulns w)\<rparr>)
            else (Raise (ExtError ''RequestError''), w)))" for doc
    by (auto simp: keeps_def on_es_def write_one split: option.splits)
  then show ?thesis unfolding asset_update_vuln_def Let_def by (intro keeps_if keeps_return keeps_asset_best_effort)
qed

lemma save_report: "keeps I (asset_save_report r)"
  unfolding asset_save_report_def by (intro keeps_intros keeps_modify write_one)

lemma usage: "keeps I (asset_usage st)"
  unfolding asset_usage_def by (intro keeps_intros keeps_modify write_one)

lemmas basic = progress update_task put_assets put_vulns update_vuln save_report usage pause run

lemma parse_node: "keeps I (parse_node env s)"
  unfolding parse_node_def by (intro keeps_intros basic)

lemma discover_node:
  assumes "ns_task s = task"
  shows "keeps I (discover_node env s)"
  unfolding discover_node_def Let_def save_assets_def assms by (intro keeps_intros basic)

lemma fingerprint_loop: "keeps I (fingerprint_loop env task services hps)"
  by (induction hps arbitrary: services) (auto intro!: keeps_intros basic)

lemma fingerprint_node:
  assumes "ns_task s = task"
  shows "keeps I (fingerprint_node env s)"
  unfolding fingerprint_node_def Let_def assms by (intro keeps_intros basic fingerprint_loop)

lemma match_node:
  assumes "ns_task s = task"
  shows "keeps I (match_node env s)"
  unfolding match_node_def cpe_findings_def template_findings_def save_vulns_def Let_def assms by (intro keeps_intros basic)

lemma ask_model: "keeps I (ask_model n attempt e env batch)"
proof (induction n arbitrary: attempt e)
  case (Suc n)
  have "keeps I (io_bind (asset_usage ''success'') (\<lambda>_.
      io_bind (if attempt > 0 then asset_usage ''retry'' else io_return ()) (\<lambda>_. io_return x)))" for x :: string
    by (intro keeps_intros basic)
  moreover have "keeps I (io_bind (asset_usage st) (\<lambda>_.
      io_bind (if n > 0 then asset_pause env d else io_return ()) (\<lambda>_. ask_model n (Suc attempt) e' env batch)))" for st d e'
    by (intro keeps_intros basic Suc.IH)
  ultimately show ?case by (auto simp: keeps_def split: sum.splits)
qed (auto intro: keeps_intros)

lemma judge_batch: "keeps I (judge_batch env b)"
  unfolding judge_batch_def Let_def by (intro keeps_intros ask_model)

lemma judge_batches: "keeps I (judge_batches env t bs)"
  by (induction bs) (auto intro!: keeps_intros judge_batch)

lemma write_judgements: "keeps I (write_judgements env rs)"
  by (induction rs) (auto simp: write_judgement_def intro!: keeps_intros basic)

lemma judge_node: "keeps I (judge_node env s)"
  unfolding judge_node_def Let_def by (intro keeps_intros judge_batches write_judgements)

lemma report_node: "keeps I (report_node env s)"
  unfolding report_node_def Let_def by (intro keeps_intros basic)

end

text \<open>Every node keeps the identifier of the task, so the nodes can be run one after the other; only the last sets a
  report.\<close>

definition yields :: "('a \<Rightarrow> bool) \<Rightarrow> ('w, 'a) io \<Rightarrow> bool" where
  "yields P m \<longleftrightarrow> (\<forall>w x w'. m w = (Inr x, w') \<longrightarrow> P x)"

lemma yieldsD: "yields P m \<Longrightarrow> m w = (Inr x, w') \<Longrightarrow> P x"
  unfolding yields_def by blast

lemma yields_return: "P x \<Longrightarrow> yields P (io_return x)"
  by (simp add: yields_def)

lemma yields_bind: "(\<And>y. yields P (f y)) \<Longrightarrow> yields P (io_bind m f)"
  by (auto simp: yields_def io_bind_Inr)

lemma yields_if: "yields P m \<Longrightarrow> yields P n \<Longrightarrow> yields P (if b then m else n)"
  by simp

lemma yields_option: "yields P m \<Longrightarrow> (\<And>y. yields P (f y)) \<Longrightarrow> yields P (case v of None \<Rightarrow> m | Some y \<Rightarrow> f y)"
  by (cases v) simp_all

lemma yields_case_prod: "(\<And>a c. yields P (g a c)) \<Longrightarrow> yields P (case u of (a, c) \<Rightarrow> g a c)"
  by (cases u) simp

lemmas yields_rules = yields_return yields_bind yields_if yields_option yields_case_prod

lemma yields_parse: "yields (\<lambda>s'. ns_task s' = ns_task s \<and> ns_report s' = ns_report s) (parse_node env s)"
  unfolding parse_node_def Let_def by (intro yields_rules) simp_all

lemma yields_discover: "yields (\<lambda>s'. ns_task s' = ns_task s \<and> ns_report s' = ns_report s) (discover_node env s)"
  unfolding discover_node_def Let_def by (intro yields_rules) simp_all

lemma yields_fingerprint: "yields (\<lambda>s'. ns_task s' = ns_task s \<and> ns_report s' = ns_report s) (fingerprint_node env s)"
  unfolding fingerprint_node_def Let_def by (intro yields_rules) simp_all

lemma yields_match: "yields (\<lambda>s'. ns_task s' = ns_task s \<and> ns_report s' = ns_report s) (match_node env s)"
  unfolding match_node_def Let_def by (intro yields_rules) simp_all

lemma yields_judge: "yields (\<lambda>s'. ns_task s' = ns_task s \<and> ns_report s' = ns_report s) (judge_node env s)"
  unfolding judge_node_def Let_def by (intro yields_rules) simp_all

lemma yields_report: "yields (\<lambda>s'. ns_task s' = ns_task s) (report_node env s)"
  unfolding report_node_def Let_def by (intro yields_rules) simp_all

lemmas node_tasks = yields_parse yields_discover yields_fingerprint yields_match yields_judge yields_report

context scan_invariant
begin

lemma scan: "aq_task q = task \<Longrightarrow> keeps I (run_asset_scan env q)"
  unfolding run_asset_scan_def
  by (intro keeps_bind_dep parse_node discover_node fingerprint_node match_node judge_node report_node)
    (auto simp: asset_default_state_def dest!: node_tasks [THEN yieldsD])

lemma scan_from_envelope: "aq_task q = task \<Longrightarrow> keeps I (run_asset_scan_from_envelope env q)"
  unfolding run_asset_scan_from_envelope_def Let_def by (intro keeps_intros basic scan) auto

end

lemma watch_keeps:
  assumes "\<And>n. keeps I (asset_pause env n)"
  shows "keeps I (watch env task p limit t)"
  using assms
proof (induction env task p limit t rule: watch.induct)
  case (1 env task p limit t)
  show ?case
    by (subst watch.simps) (auto intro!: keeps_intros 1 split: option.splits)
qed

text \<open>The clock never runs backwards during a scan, whatever the others do.\<close>

lemma clock_pause: "keeps (\<lambda>w. t \<le> nw_now w) (asset_pause env n)"
  by (auto simp: keeps_def asset_pause_def Let_def)

lemma keeps_check_cancelled [keeps_intros]: "keeps I (check_cancelled task)"
  by (simp add: keeps_def check_cancelled_def)

interpretation clock: scan_invariant env task "\<lambda>w. t \<le> nw_now w" for env task t
proof
  show "keeps (\<lambda>w. t \<le> nw_now w) (scanner_run env limit task args)" for limit args
    unfolding scanner_run_def by (intro keeps_intros keeps_modify watch_keeps clock_pause) simp
qed (auto intro: clock_pause)

text \<open>
  The others cancel the task once \<open>n\<close> programs have been started: whenever they act from then on, the mark is there
  afterwards. They start no programs for the scan themselves.
\<close>

definition cancels_after :: "asset_env \<Rightarrow> string \<Rightarrow> nat \<Rightarrow> bool" where
  "cancels_after env task n \<longleftrightarrow> (\<forall>w. nw_runs (ne_others env w) = nw_runs w \<and> nw_now (ne_others env w) = nw_now w \<and>
     (n \<le> length (nw_runs w) \<longrightarrow> nw_redis (ne_others env w) \<and> marked task (ne_others env w)))"

lemma pause_runs: "cancels_after env task n \<Longrightarrow> nw_runs (snd (asset_pause env d w)) = nw_runs w"
  by (simp add: cancels_after_def asset_pause_def Let_def)

lemma pause_marks:
  assumes "cancels_after env task n" "n \<le> length (nw_runs w)"
  shows "nw_redis (snd (asset_pause env d w)) \<and> marked task (snd (asset_pause env d w))"
proof -
  let ?w1 = "w\<lparr>nw_now := nw_now w + max d 0\<rparr>"
  have "snd (asset_pause env d w) = (ne_others env ?w1)\<lparr>nw_now := nw_now (ne_others env ?w1)\<rparr>"
    using assms(1) by (simp add: asset_pause_def Let_def cancels_after_def)
  also have "\<dots> = ne_others env ?w1" by simp
  finally show ?thesis using assms by (simp add: cancels_after_def)
qed

lemma pause_bind: "io_bind (asset_pause env d) f w = f () (snd (asset_pause env d w))"
  by (simp add: asset_pause_def)

lemma programs_run:
  assumes H: "cancels_after env task n" and le: "length (nw_runs w) \<le> n"
  shows "length (nw_runs (snd (scanner_run env limit task args w))) \<le> n"
proof -
  define w1 where "w1 = snd (asset_pause env (ne_slot env (length (nw_runs w))) w)"
  have runs: "nw_runs w1 = nw_runs w" using pause_runs [OF H] by (simp add: w1_def)
  have step: "scanner_run env limit task args w =
      io_bind (check_cancelled task) (\<lambda>_.
      io_bind (io_lift (ne_process env (length (nw_runs w)) args)) (\<lambda>p.
      io_bind (io_modify (\<lambda>w. w\<lparr>nw_runs := nw_runs w @ [args]\<rparr>)) (\<lambda>_.
      watch env task p (case limit of Some (Suc t) \<Rightarrow> Suc t | _ \<Rightarrow> ne_timeout env) 0))) w1"
    unfolding scanner_run_def
    by (simp add: pause_bind w1_def)
  have watched: "keeps (\<lambda>w. length (nw_runs w) \<le> n) (watch env task p l t)" for p l t
    by (rule watch_keeps) (simp add: keeps_def pause_runs [OF H])
  show ?thesis
  proof (cases "length (nw_runs w) < n")
    case True
    then show ?thesis
      unfolding step using keepsD [OF watched] runs
      by (cases "ne_process env (length (nw_runs w)) args") (auto simp: check_cancelled_def io_bind_def)
  next
    case False
    then have "nw_redis w1 \<and> marked task w1" using pause_marks [OF H] by (simp add: w1_def)
    then have "check_cancelled task w1 = (Inl CancelledError, w1)" by (simp add: check_cancelled_def)
    with le runs show ?thesis unfolding step by simp
  qed
qed

interpretation programs: scan_invariant env task "\<lambda>w. cancels_after env task n \<longrightarrow> length (nw_runs w) \<le> n" for env task n
proof
  show "keeps (\<lambda>w. cancels_after env task n \<longrightarrow> length (nw_runs w) \<le> n) (asset_pause env d)" for d
    using pause_runs by (auto simp: keeps_def)
  show "keeps (\<lambda>w. cancels_after env task n \<longrightarrow> length (nw_runs w) \<le> n) (scanner_run env limit task args)" for limit args
    using programs_run by (auto simp: keeps_def)
qed simp

text \<open>C16: Once a task is cancelled while its \<open>n\<close>-th program runs or waits for a slot, no further program is started for
  it: the whole run starts at most \<open>n\<close>.\<close>

theorem cancel_stops_programs:
  "cancels_after env (aq_task q) n \<Longrightarrow> length (nw_runs w) \<le> n \<Longrightarrow>
   length (nw_runs (snd (run_asset_scan_from_envelope env q w))) \<le> n"
  using keepsD [OF programs.scan_from_envelope [of q "aq_task q" env n, OF refl], of w] by blast

text \<open>A program that runs when the mark appears is killed at the next look, two seconds later at most.\<close>

lemma watch_ends_soon:
  assumes "cancels_after env task n" "n \<le> length (nw_runs w)" "task \<noteq> []" "watch env task p limit t w = (Inr r, w')"
  shows "\<exists>d \<le> t + 2. fst (snd r) = pr_out p d"
proof (cases "ends_by p (min (t + 2) limit)")
  case None
  note step = watch.simps [of env task p limit t]
  show ?thesis
  proof (cases "limit \<le> t + 2")
    case True
    with assms(4) None show ?thesis
      by (subst (asm) step) (simp add: asset_pause_def)
  next
    case False
    have m: "nw_redis (snd (asset_pause env 2 w)) \<and> marked task (snd (asset_pause env 2 w))"
      using pause_marks assms(1,2) by blast
    have "watch env task p limit t w = (Inr (- 9, pr_out p (t + 2), pr_err p (t + 2)), snd (asset_pause env 2 w))"
      unfolding step using None False m assms(3) by (simp add: pause_bind)
    with assms(4) show ?thesis by auto
  qed
next
  case (Some d)
  then have "d \<le> t + 2" by (auto simp: ends_by_def split: option.splits if_splits)
  moreover have "fst (snd r) = pr_out p d"
    using assms(4) Some by (subst (asm) watch.simps) (auto simp: asset_pause_def)
  ultimately show ?thesis by blast
qed

definition toy_process :: process where
  "toy_process = \<lparr>pr_end = Some 5, pr_rc = 0, pr_out = (\<lambda>_. ''x''), pr_err = (\<lambda>_. [])\<rparr>"

definition toy_asset_env :: "(asset_world \<Rightarrow> asset_world) \<Rightarrow> asset_env" where
  "toy_asset_env others = \<lparr>ne_rt = toy_rt, ne_iso = (\<lambda>_. ''now''), ne_instant = (\<lambda>_. 0), ne_exn_str = (\<lambda>_. ''error''),
     ne_others = others, ne_process = (\<lambda>_ _. Ok toy_process), ne_slot = (\<lambda>_. 0), ne_accepts = (\<lambda>_ _. True),
     ne_xml = (\<lambda>_. None), ne_loads = (\<lambda>_. None), ne_rules = (\<lambda>_ _. Ok []), ne_adapter = False,
     ne_chat = (\<lambda>_ _ _. Raise TimeoutError), ne_retries = 0, ne_backoff = 1, ne_timeout = 60, ne_masscan_rate = 2000,
     ne_nmap_rate = 100, ne_severity = ''high'', ne_templates = []\<rparr>"

definition toy_cancel :: "asset_world \<Rightarrow> asset_world" where
  "toy_cancel w = (if 1 \<le> length (nw_runs w)
     then w\<lparr>nw_redis := True, nw_cancel := [(asset_cancel_key ''t'', nw_now w + 1)]\<rparr> else w)"

definition toy_request :: asset_request where
  "toy_request = \<lparr>aq_task = ''t'', aq_source = ''manual'', aq_targets = [''10.0.0.1''], aq_ports = [], aq_engine = ''fast'',
     aq_modules = [''cve''], aq_schedule = [], aq_actor = []\<rparr>"

definition toy_asset_world :: asset_world where
  "toy_asset_world = \<lparr>nw_now = 0, nw_redis = True, nw_es = True, nw_cancel = [(asset_cancel_key ''t'', 100)],
     nw_status = [], nw_stream = [], nw_progress = [], nw_usage = [], nw_tasks = [(''t'', [(''task_id'', PStr ''t'')])],
     nw_assets = [], nw_vulns = [], nw_reports = [], nw_runs = []\<rparr>"

lemma toy_cancels: "cancels_after (toy_asset_env toy_cancel) ''t'' 1"
  unfolding cancels_after_def toy_asset_env_def toy_cancel_def marked_def by auto

theorem cancel_stops_programs_witness:
  "length (nw_runs (snd (run_asset_scan_from_envelope (toy_asset_env toy_cancel) toy_request
     (toy_asset_world\<lparr>nw_cancel := []\<rparr>)))) \<le> 1"
  by (rule cancel_stops_programs) (simp_all add: toy_request_def toy_cancels [simplified] toy_asset_world_def)

section \<open>What is recorded of a run\<close>

lemma update_task_Some:
  assumes "nw_es w" "map_of (nw_tasks w) task = Some t" "given_fields fs \<noteq> []"
  shows "asset_update_task env task fs w = (Inr (), w\<lparr>nw_tasks := AList.update task
     (dupdate t (given_fields fs @ [(''updated_at'', PStr (ne_iso env (nw_now w)))])) (nw_tasks w)\<rparr>)"
  using assms by (simp add: asset_update_task_def on_es_def Let_def)

lemma asset_update_Inr:
  assumes "asset_update_task env task ((''status'', PStr st) # fs) w = (Inr u, w')"
  obtains t where "map_of (nw_tasks w) task = Some t" "nw_es w"
    "w' = w\<lparr>nw_tasks := AList.update task (dupdate t (given_fields ((''status'', PStr st) # fs) @
       [(''updated_at'', PStr (ne_iso env (nw_now w)))])) (nw_tasks w)\<rparr>"
  using assms by (auto simp: asset_update_task_def given_fields_def on_es_def split: if_splits option.splits)

definition recorded_status :: "asset_world \<Rightarrow> string \<Rightarrow> pyval option" where
  "recorded_status w task = map_option (\<lambda>t. dget t ''status'' PNone) (map_of (nw_tasks w) task)"

lemma status_after_update:
  assumes "''status'' \<notin> fst ` set fs"
  shows "dget (dupdate t (given_fields ((''status'', PStr st) # fs) @ [(''updated_at'', PStr u)])) ''status'' PNone = PStr st"
proof -
  have "map_of (rev (given_fields fs)) ''status'' = None"
    using assms by (auto simp: given_fields_def map_of_eq_None_iff)
  then show ?thesis
    by (simp add: dget_def map_of_dupdate given_fields_def map_add_def)
qed

lemma recorded_after_update:
  assumes "asset_update_task env task ((''status'', PStr st) # fs) w = (Inr u, w')" "''status'' \<notin> fst ` set fs"
  shows "recorded_status w' task = Some (PStr st)"
  using assms(1) by (rule asset_update_Inr) (simp add: recorded_status_def update_conv' status_after_update assms(2))

lemma update_task_fails:
  assumes "asset_update_task env task ((''status'', PStr st) # fs) w = (Inl e, w')"
  shows "w' = w \<and> (\<not> nw_es w \<or> map_of (nw_tasks w) task = None) \<and> is_Exception e"
  using assms by (auto simp: asset_update_task_def given_fields_def on_es_def is_Exception_def split: if_splits option.splits)

text \<open>A queued scan that returns is recorded as completed, and one that raises as failed, as long as the index has
  the task and answers; only a run that ends with a cancellation of its coroutine is left as it is.\<close>

theorem asset_task_outcome:
  assumes run: "run_asset_scan_from_envelope env q w = (r, w')" and es: "nw_es w'"
    and doc: "map_of (nw_tasks w') (aq_task q) \<noteq> None" and r: "r \<noteq> Inl CancelledError"
  shows "recorded_status w' (aq_task q) = Some (PStr (case r of Inr s \<Rightarrow> ''completed'' | Inl e \<Rightarrow> ''failed''))"
proof -
  let ?body = "io_bind (asset_update_task env (aq_task q) [(''status'', PStr ''running''), (''started_at'', PStr (ne_iso env (nw_now w)))]) (\<lambda>_.
         io_bind (run_asset_scan env q) (\<lambda>s.
         io_bind (asset_now env) (\<lambda>now.
         io_bind (asset_update_task env (aq_task q) [(''status'', PStr ''completed''), (''finished_at'', PStr now)]) (\<lambda>_.
         io_return s))))"
  have run': "io_try ?body (\<lambda>e. io_bind (asset_now env) (\<lambda>now.
             io_bind (best_effort (asset_update_task env (aq_task q) [(''status'', PStr ''failed''),
               (''finished_at'', PStr now), (''error'', PStr (take 2000 (ne_exn_str env e)))])) (\<lambda>_.
             io_raise e))) w = (r, w')"
    using run by (simp add: run_asset_scan_from_envelope_def Let_def io_bind_simps(2) [where m = "asset_now env"])
  show ?thesis
  proof (cases "?body w")
    case (Pair r1 w1)
    show ?thesis
    proof (cases r1)
      case (Inr s)
      with Pair run' have "r = Inr s" "w1 = w'" by (auto simp: io_try_def)
      moreover from Pair Inr obtain w2 now u where
        "asset_update_task env (aq_task q) [(''status'', PStr ''completed''), (''finished_at'', PStr now)] w2 = (Inr u, w1)"
        by (auto simp: io_bind_Inr)
      ultimately show ?thesis using recorded_after_update by fastforce
    next
      case (Inl e)
      let ?fs = "[(''finished_at'', PStr (ne_iso env (nw_now w1))), (''error'', PStr (take 2000 (ne_exn_str env e)))]"
      have exc: "is_Exception e" using Pair Inl run' r by (auto simp: io_try_def is_Exception_def split: if_splits)
      obtain r2 w2 where u: "asset_update_task env (aq_task q) ((''status'', PStr ''failed'') # ?fs) w1 = (r2, w2)"
        by fastforce
      have "r = Inl e \<and> w' = w2"
        using Pair Inl run' exc u update_task_fails [of env "aq_task q" "''failed''" ?fs w1]
        by (cases r2) (auto simp: io_try_def best_effort_def io_bind_def)
      moreover have "recorded_status w2 (aq_task q) = Some (PStr ''failed'')"
      proof (cases r2)
        case (Inr x)
        then show ?thesis using recorded_after_update u by fastforce
      next
        case (Inl e')
        then show ?thesis using update_task_fails u calculation es doc by fastforce
      qed
      ultimately show ?thesis by simp
    qed
  qed
qed

text \<open>A scan that is cancelled before it starts: every node looks at the mark and passes on.\<close>

lemma marked_nodes:
  assumes "nw_redis w" "marked (ns_task s) w"
  shows "parse_node env s w = (Inr (s\<lparr>ns_status := ''cancelled''\<rparr>), w)"
    "discover_node env s w = (Inr (s\<lparr>ns_status := ''cancelled''\<rparr>), w)"
    "fingerprint_node env s w = (Inr (s\<lparr>ns_status := ''cancelled''\<rparr>), w)"
    "match_node env s w = (Inr (s\<lparr>ns_status := ''cancelled''\<rparr>), w)"
    "judge_node env s w = (Inr (s\<lparr>ns_status := ''cancelled''\<rparr>), w)"
    "report_node env s w = (Inr (s\<lparr>ns_status := ''cancelled''\<rparr>), w)"
  unfolding parse_node_def discover_node_def fingerprint_node_def match_node_def judge_node_def report_node_def Let_def
  using assms by (simp_all add: io_bind_simps(2) [OF asset_cancelled_eq])

lemma marked_graph:
  assumes "nw_redis w" "marked (aq_task q) w"
  shows "run_asset_scan env q w = (Inr ((asset_default_state q)\<lparr>ns_status := ''cancelled''\<rparr>), w)"
proof -
  have t: "marked (ns_task ((asset_default_state q)\<lparr>ns_status := x\<rparr>)) w" "marked (ns_task (asset_default_state q)) w" for x
    using assms(2) by (simp_all add: asset_default_state_def)
  show ?thesis
    unfolding run_asset_scan_def
    by (simp add: io_bind_simps(2) [OF marked_nodes(1)] io_bind_simps(2) [OF marked_nodes(2)]
        io_bind_simps(2) [OF marked_nodes(3)] io_bind_simps(2) [OF marked_nodes(4)]
        io_bind_simps(2) [OF marked_nodes(5)] marked_nodes(6) assms(1) t)
qed

lemma marked_scan:
  assumes "nw_redis w" "nw_es w" "marked (aq_task q) w" "map_of (nw_tasks w) (aq_task q) = Some t"
  obtains s w' where "run_asset_scan_from_envelope env q w = (Inr s, w')" "ns_status s = ''cancelled''" "ns_report s = None"
    "w' = w\<lparr>nw_tasks := nw_tasks w'\<rparr>" "recorded_status w' (aq_task q) = Some (PStr ''completed'')"
proof -
  let ?fs1 = "[(''started_at'', PStr (ne_iso env (nw_now w)))]" and ?fs2 = "[(''finished_at'', PStr (ne_iso env (nw_now w)))]"
  have gf: "given_fields ((''status'', PStr st) # (k, PStr x) # []) \<noteq> []" for st k x by (simp add: given_fields_def)
  obtain w1 where u1: "asset_update_task env (aq_task q) ((''status'', PStr ''running'') # ?fs1) w = (Inr (), w1)"
      and w1: "w1 = w\<lparr>nw_tasks := nw_tasks w1\<rparr>" and t1: "map_of (nw_tasks w1) (aq_task q) \<noteq> None"
    using update_task_Some [OF assms(2,4) gf] by (simp add: update_conv')
  from t1 obtain t' where t': "map_of (nw_tasks w1) (aq_task q) = Some t'" by blast
  have same: "nw_redis w1 = nw_redis w" "nw_es w1 = nw_es w" "nw_now w1 = nw_now w" "nw_cancel w1 = nw_cancel w"
    by (subst w1, simp)+
  then have m: "marked (aq_task q) w1" using assms(3) by (simp add: marked_def split: option.splits)
  obtain w2 where u2: "asset_update_task env (aq_task q) ((''status'', PStr ''completed'') # ?fs2) w1 = (Inr (), w2)"
      and w2: "w2 = w1\<lparr>nw_tasks := nw_tasks w2\<rparr>"
    using update_task_Some [OF _ t' gf, of env] assms(2) same by simp
  have "run_asset_scan env q w1 = (Inr ((asset_default_state q)\<lparr>ns_status := ''cancelled''\<rparr>), w1)"
    using marked_graph assms same m by simp
  then have "run_asset_scan_from_envelope env q w = (Inr ((asset_default_state q)\<lparr>ns_status := ''cancelled''\<rparr>), w2)"
    using u1 u2 same by (simp add: run_asset_scan_from_envelope_def Let_def io_bind_simps(2) [where m = "asset_now env"])
  moreover have "w2 = w\<lparr>nw_tasks := nw_tasks w2\<rparr>"
    by (subst w2, subst w1) simp
  moreover have "recorded_status w2 (aq_task q) = Some (PStr ''completed'')"
    using recorded_after_update u2 by fastforce
  ultimately show ?thesis using that by (simp add: asset_default_state_def)
qed

text \<open>A scan that was cancelled before its turn starts no program and writes no document, but its task is recorded as
  completed.\<close>

theorem cancelled_asset_scan_inert:
  assumes "nw_redis w" "nw_es w" "marked (aq_task q) w" "map_of (nw_tasks w) (aq_task q) = Some t"
  shows "\<exists>s w'. run_asset_scan_from_envelope env q w = (Inr s, w') \<and> ns_status s = ''cancelled'' \<and>
     w' = w\<lparr>nw_tasks := nw_tasks w'\<rparr> \<and> recorded_status w' (aq_task q) = Some (PStr ''completed'')"
  using marked_scan [OF assms] by metis

lemma toy_marked: "nw_redis toy_asset_world" "nw_es toy_asset_world" "marked (aq_task toy_request) toy_asset_world"
  "map_of (nw_tasks toy_asset_world) (aq_task toy_request) = Some [(''task_id'', PStr ''t'')]"
  by (simp_all add: toy_asset_world_def toy_request_def marked_def asset_cancel_key_def)

theorem cancelled_asset_scan_inert_witness:
  "\<exists>s w'. run_asset_scan_from_envelope (toy_asset_env id) toy_request toy_asset_world = (Inr s, w') \<and>
     ns_status s = ''cancelled'' \<and> nw_runs w' = [] \<and> recorded_status w' ''t'' = Some (PStr ''completed'')"
proof -
  obtain s w' where r: "run_asset_scan_from_envelope (toy_asset_env id) toy_request toy_asset_world = (Inr s, w')"
      "ns_status s = ''cancelled''" "w' = toy_asset_world\<lparr>nw_tasks := nw_tasks w'\<rparr>"
      "recorded_status w' (aq_task toy_request) = Some (PStr ''completed'')"
    using cancelled_asset_scan_inert [OF toy_marked] by blast
  have "nw_runs w' = []" by (subst r(3)) (simp add: toy_asset_world_def)
  with r show ?thesis by (auto simp: toy_request_def)
qed

theorem asset_task_outcome_witness:
  "\<exists>s w'. run_asset_scan_from_envelope (toy_asset_env id) toy_request toy_asset_world = (Inr s, w') \<and>
     recorded_status w' (aq_task toy_request) = Some (PStr ''completed'')"
proof -
  obtain s w' where r: "run_asset_scan_from_envelope (toy_asset_env id) toy_request toy_asset_world = (Inr s, w')"
      "w' = toy_asset_world\<lparr>nw_tasks := nw_tasks w'\<rparr>"
      "recorded_status w' (aq_task toy_request) = Some (PStr ''completed'')"
    using marked_scan [OF toy_marked] by metis
  have "nw_es w'" by (subst r(2)) (simp add: toy_asset_world_def)
  moreover have "map_of (nw_tasks w') (aq_task toy_request) \<noteq> None" using r(3) by (auto simp: recorded_status_def)
  ultimately show ?thesis using asset_task_outcome [OF r(1)] r(1) by simp
qed

text \<open>A cancellation that comes between the look of a node and the start of its program ends the coroutine: nothing
  is recorded, and the task stays as it was.\<close>

lemma unrecorded_cancellation:
  assumes "asset_update_task env (aq_task q) [(''status'', PStr ''running''), (''started_at'', PStr (ne_iso env (nw_now w)))] w = (Inr (), w1)"
    "run_asset_scan env q w1 = (Inl CancelledError, w2)"
  shows "run_asset_scan_from_envelope env q w = (Inl CancelledError, w2)"
  using assms by (simp add: run_asset_scan_from_envelope_def Let_def io_bind_simps(2) [where m = "asset_now env"]
      io_try_def is_Exception_def)

text \<open>The hourly removal of the marks takes a cancellation back: the scan is no longer seen as cancelled.\<close>

lemma sweep_forgets_cancellations: "nw_redis w \<Longrightarrow> \<not> marked task (snd (cancel_sweep w))"
proof -
  assume up: "nw_redis w"
  have "map_of (filter (\<lambda>(k, t). \<not> prefix ''assetscan:queue:cancel:'' k) cs) (asset_cancel_key task) = None" for cs :: "(string \<times> int) list"
    by (auto simp: map_of_eq_None_iff asset_cancel_key_def)
  with up show ?thesis by (simp add: cancel_sweep_def best_effort_def on_redis_def marked_def)
qed

section \<open>The report\<close>

lemma py_eq_PStr_iff [simp]: "py_eq (PStr x) v \<longleftrightarrow> v = PStr x" "py_eq v (PStr x) \<longleftrightarrow> v = PStr x"
  by (subst py_eq.simps, cases v; auto)+

lemma sum_count_key: "sum_list (map snd (count_key k d)) = Suc (sum_list (map snd d))"
  by (induction k d rule: count_key.induct) auto

lemma sum_counts: "sum_list (map snd (fold (count_key \<circ> f) vs d)) = length vs + sum_list (map snd d)"
  by (induction vs arbitrary: d) (simp_all add: sum_count_key)

lemma key_count_Nil: "key_count [] k = 0"
  by (simp add: key_count_def)

lemma key_count_Cons: "key_count ((k', n) # d) (PStr x) = (if k' = PStr x then n else key_count d (PStr x))"
  by (simp add: key_count_def)

lemma key_count_count_key: "key_count (count_key k d) (PStr x) = key_count d (PStr x) + (if k = PStr x then 1 else 0)"
  by (induction k d rule: count_key.induct) (auto simp: key_count_Nil key_count_Cons)

lemma key_count_fold:
  "key_count (fold (count_key \<circ> f) vs d) (PStr x) = key_count d (PStr x) + length (filter (\<lambda>v. f v = PStr x) vs)"
  by (induction vs arbitrary: d) (simp_all add: key_count_count_key)

lemma report_node_Some:
  assumes "report_node env s w = (Inr s', w')" "ns_report s = None" "ns_report s' = Some r"
  obtains sev now where "count_severities (ns_vulns s) = Ok sev" "r = make_report s sev now" "ns_vulns s' = ns_vulns s"
    "map_of (nw_reports w') (ns_task s) = Some r"
proof -
  from assms obtain c where
    "(if c then io_return (s\<lparr>ns_status := ''cancelled''\<rparr>) else
        io_bind (io_lift (count_severities (ns_vulns s))) (\<lambda>sev.
        io_bind (asset_now env) (\<lambda>now.
        io_bind (asset_save_report (make_report s sev now)) (\<lambda>_.
        io_bind (asset_update_task env (ns_task s) [(''status'', PStr ''completed''), (''finished_at'', PStr now)]) (\<lambda>_.
        io_bind (asset_progress (ns_task s) ''report'' [(''vulns'', PInt (int (length (ns_vulns s))))]) (\<lambda>_.
        io_return (s\<lparr>ns_report := Some (make_report s sev now), ns_status := ''completed''\<rparr>))))))) w = (Inr s', w')"
    unfolding report_node_def Let_def by (auto simp: io_bind_Inr asset_cancelled_eq)
  then obtain sev now w1 w2 w3 u1 u2 u3 where c: "count_severities (ns_vulns s) = Ok sev"
      and w1: "asset_save_report (make_report s sev now) w = (Inr u1, w1)"
      and w2: "asset_update_task env (ns_task s) [(''status'', PStr ''completed''), (''finished_at'', PStr now)] w1 = (Inr u2, w2)"
      and w3: "asset_progress (ns_task s) ''report'' [(''vulns'', PInt (int (length (ns_vulns s))))] w2 = (Inr u3, w3)"
      and s': "s' = s\<lparr>ns_report := Some (make_report s sev now), ns_status := ''completed''\<rparr>" "w' = w3"
    using assms(2,3) by (cases c) (auto simp: io_bind_Inr)
  have "map_of (nw_reports w1) (ns_task s) = Some (make_report s sev now)"
    using w1 by (auto simp: asset_save_report_def on_es_def make_report_def Let_def update_conv' split: if_splits)
  moreover have "nw_reports w2 = nw_reports w1"
    using w2 by (auto simp: asset_update_task_def on_es_def Let_def split: if_splits option.splits)
  moreover have "nw_reports w3 = nw_reports w2"
    using w3 by (auto simp: asset_progress_def best_effort_def on_redis_def io_try_def split: if_splits)
  ultimately show ?thesis using that [of sev now] c s' assms(3) by simp
qed

text \<open>The report a scan returns is the one stored for it; it counts every finding of the scan once, under the
  severity it has, and shows at most twenty, the most severe first.\<close>

theorem asset_report_counts:
  assumes run: "run_asset_scan env q w = (Inr s, w')" and rep: "ns_report s = Some r"
  shows "map_of (nw_reports w') (aq_task q) = Some r \<and> ar_vulns r = length (ns_vulns s) \<and>
    sum_list (map snd (ar_by_severity r)) = ar_vulns r \<and>
    (\<forall>x. key_count (ar_by_severity r) (PStr x) = length (filter (\<lambda>v. reported_severity v = PStr x) (ns_vulns s))) \<and>
    length (ar_top r) \<le> 20 \<and> sorted (map severity_place (ar_top r))"
proof -
  from run obtain s5 w5 where last: "report_node env s5 w5 = (Inr s, w')" "ns_task s5 = aq_task q" "ns_report s5 = None"
    unfolding run_asset_scan_def io_bind_Inr asset_default_state_def
    by (fastforce dest: node_tasks(1) [THEN yieldsD] node_tasks(2) [THEN yieldsD] node_tasks(3) [THEN yieldsD]
        node_tasks(4) [THEN yieldsD] node_tasks(5) [THEN yieldsD])
  obtain sev now where r: "count_severities (ns_vulns s5) = Ok sev" "r = make_report s5 sev now" "ns_vulns s = ns_vulns s5"
      "map_of (nw_reports w') (ns_task s5) = Some r"
    using report_node_Some [OF last(1,3) rep] by metis
  have sev: "sev = fold (count_key \<circ> reported_severity) (ns_vulns s5) []"
    using r(1) by (simp add: count_severities_def split: if_splits)
  have "sorted (map severity_place (take 20 (sort_key severity_place xs)))" for xs
    by (metis sorted_sort_key sorted_wrt_take take_map)
  then show ?thesis
    using r last(2) by (simp add: make_report_def Let_def sev sum_counts key_count_fold key_count_Nil)
qed

text \<open>A scan of one host that runs an old server.\<close>

definition toy_host :: xml where
  "toy_host = Elem ''run'' [] None [Elem ''host'' [] None
     [Elem ''status'' [(''state'', ''up'')] None [],
      Elem ''address'' [(''addrtype'', ''ipv4''), (''addr'', ''10.0.0.1'')] None [],
      Elem ''port'' [(''portid'', ''80'')] None
        [Elem ''state'' [(''state'', ''open'')] None [],
         Elem ''service'' [(''product'', ''nginx''), (''version'', ''1.2'')] None []]]]"

definition toy_rule :: pydict where
  "toy_rule = [(''id'', PStr ''R1''), (''severity'', PStr ''critical''), (''check'', PDict [(''type'', PStr ''package_version''),
     (''name'', PStr ''nginx''), (''op'', PStr ''lt''), (''value'', PStr ''1.3'')])]"

definition toy_scan_env :: asset_env where
  "toy_scan_env = (toy_asset_env id)\<lparr>ne_xml := (\<lambda>_. Some toy_host),
     ne_rules := (\<lambda>c n. Ok (if c = None then [(toy_rule, 1)] else []))\<rparr>"

definition toy_run :: "asset_state res \<times> asset_world" where
  "toy_run = run_asset_scan toy_scan_env toy_request (toy_asset_world\<lparr>nw_cancel := []\<rparr>)"

lemma toy_run_reports: "(case fst toy_run of Inr s \<Rightarrow> map_option ar_vulns (ns_report s) = Some 1 | Inl e \<Rightarrow> False) = True"
  by code_simp

theorem asset_report_counts_witness:
  "\<exists>s w' r. run_asset_scan toy_scan_env toy_request (toy_asset_world\<lparr>nw_cancel := []\<rparr>) = (Inr s, w') \<and>
     map_of (nw_reports w') ''t'' = Some r \<and> ar_vulns r = 1 \<and> sum_list (map snd (ar_by_severity r)) = 1"
proof -
  obtain s w' r where run: "run_asset_scan toy_scan_env toy_request (toy_asset_world\<lparr>nw_cancel := []\<rparr>) = (Inr s, w')"
      "ns_report s = Some r" "ar_vulns r = 1"
    using toy_run_reports by (cases toy_run) (auto simp: toy_run_def split: sum.splits)
  then show ?thesis using asset_report_counts [OF run(1,2)] by (auto simp: toy_request_def)
qed

section \<open>Findings and their task\<close>

lemma concat_chunks: "0 < n \<Longrightarrow> length xs \<le> k \<Longrightarrow> concat (chunks n k xs) = xs"
proof (induction k arbitrary: xs)
  case (Suc k)
  have "length (drop n xs) \<le> k" using Suc.prems by simp
  then show ?case using Suc by (simp add: append_take_drop_id)
qed simp

lemma put_all_dupdate: "list_all (\<lambda>(i, d). ok d) c \<Longrightarrow> put_all ok c st = dupdate st c"
  by (simp add: put_all_def dupdate_def filter_id_conv list_all_iff)

lemma bulk_vulns_Inr:
  "bulk_vulns env cs w = (Inr u, w') \<Longrightarrow> nw_vulns w' = dupdate (nw_vulns w) (concat cs) \<and> nw_es w' = nw_es w"
proof (induction cs arbitrary: w)
  case Nil
  then show ?case by (simp add: dupdate_def)
next
  case (Cons c cs)
  let ?ok = "ne_accepts env INDEX_ASSET_VULNS"
  from Cons.prems have ok: "list_all (\<lambda>(i, d). ?ok d) c"
      and rest: "bulk_vulns env cs (w\<lparr>nw_vulns := put_all ?ok c (nw_vulns w)\<rparr>) = (Inr u, w')"
    by (auto simp: Let_def io_bind_Inr on_es_def split: if_splits)
  from Cons.IH [OF rest] put_all_dupdate [OF ok] show ?case
    by (simp add: dupdate_def)
qed

lemma filter_update_other:
  assumes "distinct (map fst al)" "\<not> Q (i, d)"
  shows "filter Q (AList.update i d al) = filter (\<lambda>e. Q e \<and> fst e \<noteq> i) al"
  using assms
proof (induction al)
  case (Cons e al)
  have "filter (\<lambda>e. Q e \<and> fst e \<noteq> i) al = filter Q al" if "fst e = i"
    using Cons.prems(1) that by (intro filter_cong refl) (metis distinct.simps(2) image_eqI list.simps(9) set_map)
  with Cons show ?case by (cases e) auto
qed simp

lemma filter_dupdate_other:
  assumes "distinct (map fst al)" "list_all (\<lambda>(i, d). \<not> P d) docs"
  shows "filter (P \<circ> snd) (dupdate al docs) = filter (P \<circ> snd) (filter (\<lambda>(i, x). i \<notin> fst ` set docs) al)"
  using assms
proof (induction docs arbitrary: al)
  case (Cons e docs)
  obtain i d where e: "e = (i, d)" by fastforce
  have "filter (P \<circ> snd) (dupdate al (e # docs)) = filter (P \<circ> snd) (dupdate (AList.update i d al) docs)"
    by (simp add: dupdate_def e)
  also have "\<dots> = filter (P \<circ> snd) (filter (\<lambda>(i, x). i \<notin> fst ` set docs) (AList.update i d al))"
    using Cons by (intro Cons.IH) (auto simp: distinct_update)
  also have "\<dots> = filter (\<lambda>e. (P \<circ> snd) e \<and> fst e \<notin> fst ` set docs) (AList.update i d al)"
    by (simp add: case_prod_unfold conj_commute)
  also have "\<dots> = filter (\<lambda>e. ((P \<circ> snd) e \<and> fst e \<notin> fst ` set docs) \<and> fst e \<noteq> i) al"
    using Cons.prems e by (intro filter_update_other) auto
  finally show ?case by (simp add: e case_prod_unfold conj_ac comp_def)
qed (simp add: dupdate_def)

lemma by_detection_filter: "filter (of_task t \<circ> snd) a = filter (of_task t \<circ> snd) b \<Longrightarrow> by_detection env t a = by_detection env t b"
  by (simp add: by_detection_def filter_map)

text \<open>Writing the findings of a scan stores each under its identifier, replacing what is there. The identifier of a
  finding does not name the task, so the list of every other scan loses the findings this one has found again.\<close>

theorem findings_belong_to_latest_scan:
  assumes save: "save_vulns env task vs w = (Inr u, w')" and up: "nw_es w" and ids: "distinct (map fst (nw_vulns w))"
  shows "map_of (nw_vulns w') = map_of (nw_vulns w) ++ map_of (rev (map (vuln_doc env task) vs)) \<and>
    (other \<noteq> task \<longrightarrow> asset_list_vulns env other w' =
       (Inr (by_detection env other (filter (\<lambda>(i, d). i \<notin> fst ` set (map (vuln_doc env task) vs)) (nw_vulns w))), w'))"
proof -
  let ?docs = "map (vuln_doc env task) vs"
  have w': "nw_vulns w' = dupdate (nw_vulns w) ?docs" "nw_es w' = nw_es w"
    using save bulk_vulns_Inr [of env "chunks 500 (length ?docs) ?docs" w u w'] by (simp_all add: save_vulns_def concat_chunks)
  have "list_all (\<lambda>(i, d). \<not> of_task other d) ?docs" if "other \<noteq> task"
    using that by (auto simp: list_all_iff vuln_doc_def of_task_def dget_def update_conv')
  then have "by_detection env other (nw_vulns w') =
      by_detection env other (filter (\<lambda>(i, d). i \<notin> fst ` set ?docs) (nw_vulns w))" if "other \<noteq> task"
    using filter_dupdate_other [OF ids, where P = "of_task other"] w'(1) that by (intro by_detection_filter) simp
  then show ?thesis
    by (auto simp: w' map_of_dupdate asset_list_vulns_def on_es_def up)
qed

lemma toy_accepts: "ne_accepts (toy_asset_env others) = (\<lambda>i d. True)"
  by (simp add: toy_asset_env_def)

definition toy_finding :: pydict where "toy_finding = [(''vuln_id'', PStr ''v''), (''severity'', PStr ''high'')]"

theorem findings_belong_to_latest_scan_witness:
  "fst (asset_list_vulns (toy_asset_env id) ''first'' (snd (save_vulns (toy_asset_env id) ''second'' [toy_finding]
     (toy_asset_world\<lparr>nw_vulns := [vuln_doc (toy_asset_env id) ''first'' toy_finding]\<rparr>)))) = Inr []"
proof -
  let ?w = "toy_asset_world\<lparr>nw_vulns := [vuln_doc (toy_asset_env id) ''first'' toy_finding]\<rparr>"
  obtain u w' where save: "save_vulns (toy_asset_env id) ''second'' [toy_finding] ?w = (Inr u, w')"
    by (simp add: save_vulns_def toy_accepts on_es_def toy_asset_world_def Let_def case_prod_unfold)
  have "asset_list_vulns (toy_asset_env id) ''first'' w' = (Inr (by_detection (toy_asset_env id) ''first''
      (filter (\<lambda>(i, d). i \<notin> fst ` set (map (vuln_doc (toy_asset_env id) ''second'') [toy_finding])) (nw_vulns ?w))), w')"
    using findings_belong_to_latest_scan [OF save, of "''first''"] by (simp add: toy_asset_world_def)
  also have "\<dots> = (Inr [], w')" by (simp add: vuln_doc_def toy_finding_def by_detection_def py_or_def)
  finally show ?thesis by (simp only: save snd_conv fst_conv)
qed

end
