(* ===== verification/Schedules.thy ===== *)
theory Schedules
  imports Prelude
begin

text \<open>
  When the rules are synchronised (\<open>src/agents/scheduler.py\<close>): the hour and minute read from the configured text, and
  the wait until they come next. Local times are microseconds counted from a midnight.
\<close>

text \<open>\<open>s.split()\<close>: the words between white space.\<close>

fun words_aux :: "string \<Rightarrow> string \<Rightarrow> string list" where
  "words_aux cur [] = (if cur = [] then [] else [rev cur])"
| "words_aux cur (c # cs) =
     (if is_space c then (if cur = [] then words_aux [] cs else rev cur # words_aux [] cs) else words_aux (c # cur) cs)"

definition words :: "string \<Rightarrow> string list" where "words s = words_aux [] s"

text \<open>
  The minute is taken from the first word and the hour from the second; the first word that is no number, or is
  missing, leaves the rest at three o'clock sharp.
\<close>

definition sync_time :: "string \<Rightarrow> int \<times> int" where
  "sync_time cron = (case words cron of
      [] \<Rightarrow> (3, 0)
    | m # ws \<Rightarrow> (case int_of_str m of
        None \<Rightarrow> (3, 0)
      | Some minute \<Rightarrow> (case ws of
          [] \<Rightarrow> (3, minute)
        | h # _ \<Rightarrow> (case int_of_str h of None \<Rightarrow> (3, minute) | Some hour \<Rightarrow> (hour, minute)))))"

definition day :: int where "day = 24 * 3600 * 1000000"

text \<open>The next time the clock shows hour and minute; \<open>replace\<close> refuses numbers that are not a time of day.\<close>

definition next_run :: "int \<Rightarrow> int \<Rightarrow> int \<Rightarrow> int res" where
  "next_run hour minute now =
     (if \<not> (0 \<le> hour \<and> hour < 24 \<and> 0 \<le> minute \<and> minute < 60) then Raise ValueError
      else let t = now div day * day + (hour * 3600 + minute * 60) * 1000000 in
           Ok (if t \<le> now then t + day else t))"

definition wait_until_sync :: "string \<Rightarrow> int \<Rightarrow> int res" where
  "wait_until_sync cron now = (case sync_time cron of (hour, minute) \<Rightarrow>
     rbind (next_run hour minute now) (\<lambda>t. Ok (t - now)))"

text \<open>The wait for the next synchronisation is positive and at most a day, and it ends when the clock shows the
  configured hour and minute. A configured time that does not exist raises, and the loop ends.\<close>

theorem sync_wait_correct:
  "sync_time cron = (hour, minute) \<Longrightarrow>
   (case wait_until_sync cron now of
      Inr d \<Rightarrow> 0 < d \<and> d \<le> day \<and> (now + d) mod day = (hour * 3600 + minute * 60) * 1000000
    | Inl e \<Rightarrow> e = ValueError \<and> \<not> (0 \<le> hour \<and> hour < 24 \<and> 0 \<le> minute \<and> minute < 60))"
proof -
  assume c: "sync_time cron = (hour, minute)"
  show ?thesis
  proof (cases "0 \<le> hour \<and> hour < 24 \<and> 0 \<le> minute \<and> minute < 60")
    case True
    define x where "x = (hour * 3600 + minute * 60) * 1000000"
    have x: "0 \<le> x" "x < day" using True by (simp_all add: x_def day_def)
    have "0 \<le> now mod day" "now mod day < day" by (simp_all add: day_def)
    then have m: "now div day * day \<le> now" "now < now div day * day + day"
      by (simp_all add: minus_mod_eq_div_mult [symmetric])
    have w: "wait_until_sync cron now = Ok (if now div day * day + x \<le> now then now div day * day + x + day - now
        else now div day * day + x - now)"
      using True by (simp add: wait_until_sync_def c next_run_def x_def Let_def)
    have "(now div day * day + x) mod day = x" "(now div day * day + x + day) mod day = x"
      using x by simp_all
    with x m show ?thesis unfolding w x_def [symmetric] by (auto split: if_splits)
  qed (simp add: wait_until_sync_def c next_run_def)
qed

theorem sync_wait_correct_witness:
  "\<exists>d. wait_until_sync ''30 4 * * *'' 0 = Inr d \<and> 0 < d \<and> d mod day = 16200 * 1000000"
proof -
  have t: "sync_time ''30 4 * * *'' = (4, 30)" by code_simp
  have "wait_until_sync ''30 4 * * *'' 0 \<noteq> Inl ValueError"
    by (simp add: wait_until_sync_def t next_run_def Let_def)
  then show ?thesis
    using sync_wait_correct [OF t, of 0] by (cases "wait_until_sync ''30 4 * * *'' 0") auto
qed

text \<open>A schedule the loop does not understand in full is not refused: the words it can read are used.\<close>

lemma half_read_schedules:
  "sync_time ''*/15 * * * *'' = (3, 0)"
  "sync_time ''30 * * * *'' = (3, 30)"
  "wait_until_sync ''75 3 * * *'' now = Raise ValueError"
proof -
  have "sync_time ''75 3 * * *'' = (3, 75)" by code_simp
  then show "wait_until_sync ''75 3 * * *'' now = Raise ValueError" by (simp add: wait_until_sync_def next_run_def)
  show "sync_time ''*/15 * * * *'' = (3, 0)" "sync_time ''30 * * * *'' = (3, 30)" by code_simp+
qed

end
