(* ===== verification/Events.thy ===== *)
theory Events
  imports Prelude
begin

text \<open>
  The store of security events: \<open>src/api/store.py\<close> (the record of an event, the store in a process,
  the store in the database), \<open>src/api/store_es.py\<close> (the store in the search engine) and
  \<open>src/api/events_bus.py\<close>. A record is the dictionary of its fields; building one validates every
  field as the declared type demands, and what the validation library makes of a number or a truth
  value that arrives as another type is the argument \<open>lax\<close>. The three stores are parts of one world,
  \<open>event_world\<close>, and have the same operations, the record \<open>store_ops\<close>. The locale \<open>event_store\<close> is what
  a caller may rely on whichever of the first two is configured. The servers answer; a search in
  the search engine sees what has been refreshed, which is an argument.
\<close>

section \<open>Validation\<close>

type_synonym validator = "pyval \<Rightarrow> pyval res"

record lax =
  lax_bool :: validator
  lax_int :: validator
  lax_float :: validator

definition v_str :: validator where
  "v_str v = (case v of PStr s \<Rightarrow> Ok v | _ \<Rightarrow> Raise ValueError)"

definition v_one_of :: "string list \<Rightarrow> validator" where
  "v_one_of ss v = (case v of PStr s \<Rightarrow> if s \<in> set ss then Ok v else Raise ValueError | _ \<Rightarrow> Raise ValueError)"

definition v_opt :: "validator \<Rightarrow> validator" where
  "v_opt p v = (if v = PNone then Ok v else p v)"

definition v_bool :: "lax \<Rightarrow> validator" where
  "v_bool l v = (case v of PBool b \<Rightarrow> Ok v | _ \<Rightarrow> lax_bool l v)"

definition v_int :: "lax \<Rightarrow> validator" where
  "v_int l v = (case v of PInt i \<Rightarrow> Ok v | _ \<Rightarrow> lax_int l v)"

definition v_float :: "lax \<Rightarrow> validator" where
  "v_float l v = (case v of PFloat r \<Rightarrow> Ok v | PInt i \<Rightarrow> Ok (PFloat (of_int i)) | _ \<Rightarrow> lax_float l v)"

definition v_list :: "validator \<Rightarrow> validator" where
  "v_list p v = (case v of PList xs \<Rightarrow> rbind (mapM p xs) (\<lambda>ys. Ok (PList ys)) | _ \<Rightarrow> Raise ValueError)"

definition v_dict :: "validator \<Rightarrow> validator" where
  "v_dict p v = (case v of
     PDict d \<Rightarrow> rbind (mapM (\<lambda>(k, x). rbind (p x) (\<lambda>y. Ok (k, y))) d) (\<lambda>d'. Ok (PDict d'))
   | _ \<Rightarrow> Raise ValueError)"

definition v_dict_or_list :: validator where
  "v_dict_or_list v = (case v of PDict d \<Rightarrow> Ok v | PList xs \<Rightarrow> Ok v | _ \<Rightarrow> Raise ValueError)"

text \<open>A model: the fields in their order, each with its type and its default.\<close>

type_synonym schema = "(string \<times> validator \<times> pyval option) list"

fun parse_fields :: "schema \<Rightarrow> pydict \<Rightarrow> pydict res" where
  "parse_fields [] d = Ok []"
| "parse_fields ((f, p, dflt) # fs) d =
     rbind (case map_of d f of
         Some v \<Rightarrow> p v
       | None \<Rightarrow> (case dflt of Some v \<Rightarrow> Ok v | None \<Rightarrow> Raise ValueError))
       (\<lambda>v. rbind (parse_fields fs d) (\<lambda>rest. Ok ((f, v) # rest)))"

definition v_model :: "schema \<Rightarrow> validator" where
  "v_model fs v = (case v of PDict d \<Rightarrow> rbind (parse_fields fs d) (\<lambda>m. Ok (PDict m)) | _ \<Rightarrow> Raise ValueError)"

section \<open>The models\<close>

definition trace_step :: schema where
  "trace_step =
     [(''node'', v_str, None), (''action'', v_str, None), (''summary'', v_str, None),
      (''timestamp'', v_str, None), (''details'', v_dict Ok, Some (PDict []))]"

definition approval_entry :: schema where
  "approval_entry =
     [(''event_id'', v_str, None), (''action'', v_str, None), (''note'', v_str, Some (PStr [])),
      (''actor'', v_str, None), (''role'', v_str, None), (''timestamp'', v_str, None)]"

definition event_statuses :: "string list" where
  "event_statuses = [''processing'', ''completed'', ''pending_approval'', ''ignored'', ''error'', ''rejected'']"

definition event_record :: "lax \<Rightarrow> schema" where
  "event_record l =
     [(''event_id'', v_str, None), (''source'', v_str, Some (PStr ''api'')),
      (''submitted_at'', v_str, Some (PStr [])), (''finished_at'', v_opt v_str, Some PNone),
      (''status'', v_one_of event_statuses, Some (PStr ''processing'')),
      (''priority'', v_opt v_str, Some PNone), (''tags'', v_list v_str, Some (PList [])),
      (''sanitized_text'', v_str, Some (PStr [])), (''iocs'', v_dict (v_list v_str), Some (PDict [])),
      (''final_verdict'', v_opt v_str, Some PNone), (''confidence'', v_opt (v_float l), Some PNone),
      (''evidence_summary'', v_opt v_str, Some PNone), (''mitre_ttps'', v_list v_str, Some (PList [])),
      (''poc'', v_opt v_str, Some PNone), (''is_vulnerable'', v_bool l, Some (PBool False)),
      (''trace'', v_list (v_model trace_step), Some (PList [])),
      (''approvals'', v_list (v_model approval_entry), Some (PList [])),
      (''pending_approval_id'', v_opt v_str, Some PNone), (''duration_ms'', v_opt (v_int l), Some PNone),
      (''execution_summary'', v_opt v_dict_or_list, Some PNone)]"

definition parse_event :: "lax \<Rightarrow> pydict \<Rightarrow> pydict res" where
  "parse_event l d = parse_fields (event_record l) d"

text \<open>The record of a new event.\<close>

definition new_event :: "lax \<Rightarrow> string \<Rightarrow> string \<Rightarrow> string \<Rightarrow> pyval \<Rightarrow> string \<Rightarrow> pydict res" where
  "new_event l now event_id text iocs source =
     parse_event l [(''event_id'', PStr event_id), (''source'', PStr source), (''submitted_at'', PStr now),
       (''sanitized_text'', PStr text), (''iocs'', iocs)]"

section \<open>The world\<close>

text \<open>
  The events of the process, the rows of the table \<open>events\<close>, the documents of the two indices of the
  search engine, the messages published, and the rest of the system, \<open>'x\<close>.
\<close>

record 'x event_world =
  ew_mem :: "(string \<times> pydict) list"
  ew_rows :: "(string \<times> pydict) list"
  ew_docs :: "(string \<times> pydict) list"
  ew_audit :: "pydict list"
  ew_bus :: "(string \<times> pydict) list"
  ew_rest :: 'x

record 'x event_env =
  ee_lax :: lax
  ee_now :: string
  ee_publishes :: "'x event_world \<Rightarrow> string \<Rightarrow> bool"
  ee_docs_seen :: "(string \<times> pydict) list \<Rightarrow> (string \<times> pydict) list"
  ee_audit_seen :: "pydict list \<Rightarrow> pydict list"
  ee_uuid :: "'x event_world \<Rightarrow> string"

type_synonym ('x, 'a) eio = "('x event_world, 'a) io"

text \<open>Publishing never raises: a failure is logged.\<close>

definition publish :: "'x event_env \<Rightarrow> string \<Rightarrow> pydict \<Rightarrow> ('x, unit) eio" where
  "publish env channel payload =
     io_modify (\<lambda>w. if ee_publishes env w channel then w\<lparr>ew_bus := ew_bus w @ [(channel, payload)]\<rparr> else w)"

definition publish_update :: "'x event_env \<Rightarrow> string \<Rightarrow> ('x, unit) eio" where
  "publish_update env event_id =
     io_bind (publish env (''events:'' @ event_id)
       [(''type'', PStr ''event_update''), (''event_id'', PStr event_id)]) (\<lambda>_.
     io_bind (publish env ''events:list''
       [(''type'', PStr ''event_update''), (''event_id'', PStr event_id)]) (\<lambda>_.
     publish env ''metrics'' [(''type'', PStr ''metrics_update''), (''event_id'', PStr event_id)]))"

definition publish_trace :: "'x event_env \<Rightarrow> string \<Rightarrow> pydict \<Rightarrow> ('x, unit) eio" where
  "publish_trace env event_id step =
     publish env (''events:'' @ event_id)
       [(''type'', PStr ''trace_update''), (''event_id'', PStr event_id), (''node'', dget step ''node'' PNone)]"

text \<open>The operations of a store.\<close>

record event_metrics =
  m_total :: nat
  m_by_verdict :: "(string \<times> nat) list"
  m_by_priority :: "(string \<times> nat) list"
  m_pending :: nat
  m_avg_duration :: int

record event_filter =
  f_status :: "string option"
  f_verdict :: "string option"
  f_priority :: "string option"
  f_limit :: int
  f_offset :: int

record 'x store_ops =
  so_create :: "string \<Rightarrow> string \<Rightarrow> pyval \<Rightarrow> string \<Rightarrow> ('x, pydict) eio"
  so_get :: "string \<Rightarrow> ('x, pydict option) eio"
  so_list :: "event_filter \<Rightarrow> ('x, pydict list) eio"
  so_count :: "('x, nat) eio"
  so_update :: "string \<Rightarrow> pydict \<Rightarrow> ('x, unit) eio"
  so_trace :: "string \<Rightarrow> pydict \<Rightarrow> ('x, unit) eio"
  so_approval :: "string \<Rightarrow> pydict \<Rightarrow> ('x, unit) eio"
  so_metrics :: "('x, event_metrics) eio"

section \<open>Lists of events\<close>

text \<open>\<open>xs[i:j]\<close>.\<close>

definition slice_index :: "int \<Rightarrow> 'a list \<Rightarrow> nat" where
  "slice_index i xs = nat (if i < 0 then i + int (length xs) else min i (int (length xs)))"

definition py_slice :: "int \<Rightarrow> int \<Rightarrow> 'a list \<Rightarrow> 'a list" where
  "py_slice i j xs = drop (slice_index i xs) (take (slice_index j xs) xs)"

definition text_of :: "pydict \<Rightarrow> string \<Rightarrow> string" where
  "text_of e k = (case dget e k PNone of PStr s \<Rightarrow> s | _ \<Rightarrow> [])"

text \<open>Newest first; events of the same time keep their order.\<close>

definition newest_first :: "pydict list \<Rightarrow> pydict list" where
  "newest_first es = rev (sort_key (\<lambda>e. text_of e ''submitted_at'') (rev es))"

text \<open>A filter that is absent, and for the servers one that is empty, selects everything.\<close>

definition field_is :: "pydict \<Rightarrow> string \<Rightarrow> string option \<Rightarrow> bool" where
  "field_is e k f = (case f of None \<Rightarrow> True | Some s \<Rightarrow> dget e k PNone = PStr s)"

definition selected :: "event_filter \<Rightarrow> pydict \<Rightarrow> bool" where
  "selected f e = (field_is e ''status'' (f_status f) \<and> field_is e ''final_verdict'' (f_verdict f) \<and>
     field_is e ''priority'' (f_priority f))"

definition non_empty :: "string option \<Rightarrow> string option" where
  "non_empty f = (if f = Some [] then None else f)"

definition server_filter :: "event_filter \<Rightarrow> event_filter" where
  "server_filter f = f\<lparr>f_status := non_empty (f_status f), f_verdict := non_empty (f_verdict f),
     f_priority := non_empty (f_priority f)\<rparr>"

section \<open>Counts\<close>

definition tally :: "'a list \<Rightarrow> ('a \<times> nat) list" where
  "tally xs = map (\<lambda>x. (x, count_list xs x)) (dedup_first xs)"

text \<open>A text field of an event, if it has one.\<close>

definition text_field :: "string \<Rightarrow> pydict \<Rightarrow> string option" where
  "text_field k e = (case dget e k PNone of PStr s \<Rightarrow> Some s | _ \<Rightarrow> None)"

definition durations :: "pydict list \<Rightarrow> int list" where
  "durations es = List.map_filter (\<lambda>e. case dget e ''duration_ms'' PNone of PInt i \<Rightarrow> Some i | _ \<Rightarrow> None) es"

text \<open>\<open>int(sum / len)\<close>: the quotient towards zero.\<close>

definition mean :: "int list \<Rightarrow> int" where
  "mean ds = (if ds = [] then 0 else
     let s = sum_list ds; n = int (length ds) in if 0 \<le> s then s div n else - ((- s) div n))"

definition is_pending :: "pydict \<Rightarrow> bool" where
  "is_pending e = (dget e ''status'' PNone = PStr ''pending_approval'')"

section \<open>The store in the process\<close>

definition mem_create :: "'x event_env \<Rightarrow> string \<Rightarrow> string \<Rightarrow> pyval \<Rightarrow> string \<Rightarrow> ('x, pydict) eio" where
  "mem_create env event_id text iocs source =
     io_bind (io_lift (new_event (ee_lax env) (ee_now env) event_id text iocs source)) (\<lambda>e.
     io_bind (io_modify (\<lambda>w. w\<lparr>ew_mem := AList.update event_id e (ew_mem w)\<rparr>)) (\<lambda>_. io_return e))"

definition mem_get :: "string \<Rightarrow> ('x, pydict option) eio" where
  "mem_get event_id = io_gets (\<lambda>w. map_of (ew_mem w) event_id)"

definition mem_list :: "event_filter \<Rightarrow> ('x, pydict list) eio" where
  "mem_list f = io_gets (\<lambda>w.
     py_slice (f_offset f) (f_offset f + f_limit f) (newest_first (filter (selected f) (map snd (ew_mem w)))))"

definition mem_count :: "('x, nat) eio" where
  "mem_count = io_gets (\<lambda>w. length (ew_mem w))"

definition change :: "string \<Rightarrow> (pydict \<Rightarrow> pydict) \<Rightarrow> (string \<times> pydict) list \<Rightarrow> (string \<times> pydict) list" where
  "change event_id f es = map (\<lambda>(i, e). (i, if i = event_id then f e else e)) es"

text \<open>Assigning the attributes in turn; a record has no attributes but its fields.\<close>

fun mem_assign :: "'x event_env \<Rightarrow> string \<Rightarrow> pydict \<Rightarrow> ('x, unit) eio" where
  "mem_assign env event_id [] = io_return ()"
| "mem_assign env event_id ((k, v) # kvs) =
     io_bind (io_guard (k \<in> fst ` set (event_record (ee_lax env))) ValueError) (\<lambda>_.
     io_bind (io_modify (\<lambda>w. w\<lparr>ew_mem := change event_id (AList.update k v) (ew_mem w)\<rparr>)) (\<lambda>_.
     mem_assign env event_id kvs))"

definition mem_update :: "'x event_env \<Rightarrow> string \<Rightarrow> pydict \<Rightarrow> ('x, unit) eio" where
  "mem_update env event_id kvs =
     io_bind (mem_get event_id) (\<lambda>e. if e = None then io_return () else mem_assign env event_id kvs)"

text \<open>Appending to a list of the record.\<close>

definition append_to :: "string \<Rightarrow> pydict \<Rightarrow> pydict \<Rightarrow> pydict" where
  "append_to k x e = AList.update k (case dget e k PNone of
     PList xs \<Rightarrow> PList (xs @ [PDict x]) | _ \<Rightarrow> PList [PDict x]) e"

definition mem_append :: "string \<Rightarrow> string \<Rightarrow> pydict \<Rightarrow> ('x, unit) eio" where
  "mem_append k event_id x = io_modify (\<lambda>w. w\<lparr>ew_mem := change event_id (append_to k x) (ew_mem w)\<rparr>)"

text \<open>The counters leave out what is empty.\<close>

definition counter :: "string option list \<Rightarrow> (string \<times> nat) list" where
  "counter vs = tally (filter (\<lambda>v. v \<noteq> []) (List.map_filter (\<lambda>v. v) vs))"

definition mem_metrics :: "('x, event_metrics) eio" where
  "mem_metrics = io_gets (\<lambda>w. let es = map snd (ew_mem w) in
     \<lparr>m_total = length es,
      m_by_verdict = counter (map (text_field ''final_verdict'') es),
      m_by_priority = counter (map (text_field ''priority'') es),
      m_pending = length (filter is_pending es),
      m_avg_duration = mean (durations es)\<rparr>)"

definition memory_store :: "'x event_env \<Rightarrow> 'x store_ops" where
  "memory_store env =
     \<lparr>so_create = mem_create env, so_get = mem_get, so_list = mem_list, so_count = mem_count,
      so_update = mem_update env, so_trace = mem_append ''trace'', so_approval = mem_append ''approvals'',
      so_metrics = mem_metrics\<rparr>"

section \<open>The store in the database\<close>

text \<open>The identifier of a row has at most sixty-four characters.\<close>

definition event_id_limit :: nat where "event_id_limit = 64"

definition pg_create :: "'x event_env \<Rightarrow> string \<Rightarrow> string \<Rightarrow> pyval \<Rightarrow> string \<Rightarrow> ('x, pydict) eio" where
  "pg_create env event_id text iocs source =
     io_bind (io_lift (new_event (ee_lax env) (ee_now env) event_id text iocs source)) (\<lambda>e.
     io_bind (io_guard (length event_id \<le> event_id_limit) (ExtError ''StringDataRightTruncationError'')) (\<lambda>_.
     io_bind (io_modify (\<lambda>w. w\<lparr>ew_rows := AList.update event_id e (ew_rows w)\<rparr>)) (\<lambda>_. io_return e)))"

definition pg_get :: "'x event_env \<Rightarrow> string \<Rightarrow> ('x, pydict option) eio" where
  "pg_get env event_id = io_bind (io_gets (\<lambda>w. map_of (ew_rows w) event_id)) (\<lambda>row.
     case row of None \<Rightarrow> io_return None
     | Some d \<Rightarrow> io_lift (rbind (parse_event (ee_lax env) d) (\<lambda>e. Ok (Some e))))"

text \<open>A limit of zero is no limit, and the server refuses a negative one.\<close>

definition pg_page :: "int \<Rightarrow> int \<Rightarrow> 'a list \<Rightarrow> 'a list res" where
  "pg_page limit offset xs =
     (if limit < 0 \<or> offset < 0 then Raise (ExtError ''must not be negative'')
      else let ys = drop (nat offset) xs in Ok (if limit = 0 then ys else take (nat limit) ys))"

definition pg_list :: "'x event_env \<Rightarrow> event_filter \<Rightarrow> ('x, pydict list) eio" where
  "pg_list env f = io_bind (io_gets (\<lambda>w. pg_page (f_limit f) (f_offset f)
       (newest_first (filter (selected (server_filter f)) (map snd (ew_rows w)))))) (\<lambda>rows.
     io_lift (rbind rows (mapM (parse_event (ee_lax env)))))"

definition pg_count :: "('x, nat) eio" where
  "pg_count = io_gets (\<lambda>w. length (ew_rows w))"

text \<open>
  The statement of an update: an absent value is skipped, \<open>Clear\<close> is the sentinel \<open>_CLEAR\<close>. A
  statement assigns the column \<open>data\<close> more than once only if every assignment is to a key of it.
\<close>

datatype arg = Val pyval | Clear

definition set_parts :: "(string \<times> arg) list \<Rightarrow> (string \<times> arg) list" where
  "set_parts args = filter (\<lambda>(k, a). a \<noteq> Val PNone) args"

definition apply_part :: "string \<times> arg \<Rightarrow> pydict \<Rightarrow> pydict" where
  "apply_part part d = (case part of (k, Val v) \<Rightarrow> AList.update k v d | (k, Clear) \<Rightarrow> AList.delete k d)"

definition pg_update_args :: "'x event_env \<Rightarrow> string \<Rightarrow> (string \<times> arg) list \<Rightarrow> ('x, unit) eio" where
  "pg_update_args env event_id args =
     (let parts = set_parts args in
      if parts = [] then io_return ()
      else io_bind (io_guard (length parts = 1 \<or> Clear \<notin> snd ` set parts)
             (ExtError ''multiple assignments to same column'')) (\<lambda>_.
      io_bind (io_modify (\<lambda>w. w\<lparr>ew_rows := change event_id (fold apply_part parts) (ew_rows w)\<rparr>)) (\<lambda>_.
      publish_update env event_id)))"

definition pg_update :: "'x event_env \<Rightarrow> string \<Rightarrow> pydict \<Rightarrow> ('x, unit) eio" where
  "pg_update env event_id kvs = pg_update_args env event_id (map (\<lambda>(k, v). (k, Val v)) kvs)"

definition pg_append :: "string \<Rightarrow> string \<Rightarrow> pydict \<Rightarrow> ('x, unit) eio" where
  "pg_append k event_id x = io_modify (\<lambda>w. w\<lparr>ew_rows := change event_id (append_to k x) (ew_rows w)\<rparr>)"

definition pg_trace :: "'x event_env \<Rightarrow> string \<Rightarrow> pydict \<Rightarrow> ('x, unit) eio" where
  "pg_trace env event_id step =
     io_bind (pg_append ''trace'' event_id step) (\<lambda>_. publish_trace env event_id step)"

text \<open>
  The groups of a column, largest first, and the dictionary made of them: the name of a missing
  value may be the name of a group.
\<close>

definition groups :: "string option list \<Rightarrow> (string option \<times> nat) list" where
  "groups vs = rev (sort_key snd (rev (tally vs)))"

definition named :: "string \<Rightarrow> string option \<Rightarrow> string" where
  "named missing v = (case v of Some (c # cs) \<Rightarrow> c # cs | _ \<Rightarrow> missing)"

definition by_group :: "string \<Rightarrow> string option list \<Rightarrow> (string \<times> nat) list" where
  "by_group missing vs = dupdate [] (map (\<lambda>(v, c). (named missing v, c)) (groups vs))"

definition pg_metrics :: "('x, event_metrics) eio" where
  "pg_metrics = io_gets (\<lambda>w. let es = map snd (ew_rows w) in
     \<lparr>m_total = length es,
      m_by_verdict = by_group ''unknown'' (map (text_field ''final_verdict'') es),
      m_by_priority = by_group ''none'' (map (text_field ''priority'') es),
      m_pending = length (filter is_pending es),
      m_avg_duration = mean (durations es)\<rparr>)"

definition pg_store :: "'x event_env \<Rightarrow> 'x store_ops" where
  "pg_store env =
     \<lparr>so_create = pg_create env, so_get = pg_get env, so_list = pg_list env, so_count = pg_count,
      so_update = pg_update env, so_trace = pg_trace env, so_approval = pg_append ''approvals'',
      so_metrics = pg_metrics\<rparr>"

section \<open>The store in the search engine\<close>

definition es_create :: "'x event_env \<Rightarrow> string \<Rightarrow> string \<Rightarrow> pyval \<Rightarrow> string \<Rightarrow> ('x, pydict) eio" where
  "es_create env event_id text iocs source =
     io_bind (io_lift (new_event (ee_lax env) (ee_now env) event_id text iocs source)) (\<lambda>e.
     io_bind (io_modify (\<lambda>w. w\<lparr>ew_docs := AList.update event_id e (ew_docs w)\<rparr>)) (\<lambda>_. io_return e))"

definition trace_limit :: nat where "trace_limit = 1000"

definition fetch_trace :: "'x event_env \<Rightarrow> string \<Rightarrow> 'x event_world \<Rightarrow> pydict list res" where
  "fetch_trace env event_id w =
     mapM (\<lambda>d. parse_fields trace_step
        [(''node'', dget d ''node'' (PStr ''?'')), (''action'', dget d ''action'' (PStr [])),
         (''summary'', dget d ''summary'' (PStr [])), (''timestamp'', dget d ''timestamp'' (PStr [])),
         (''details'', dget d ''details'' (PDict []))])
       (take trace_limit (sort_key (\<lambda>d. text_of d ''timestamp'')
          (filter (\<lambda>d. dget d ''event_id'' PNone = PStr event_id) (ee_audit_seen env (ew_audit w)))))"

definition es_get :: "'x event_env \<Rightarrow> string \<Rightarrow> ('x, pydict option) eio" where
  "es_get env event_id = (\<lambda>w. (case map_of (ew_docs w) event_id of
       None \<Rightarrow> Ok None
     | Some d \<Rightarrow> rbind (fetch_trace env event_id w) (\<lambda>steps.
         rbind (parse_event (ee_lax env) (AList.update ''trace'' (PList (map PDict steps)) d)) (\<lambda>e. Ok (Some e))), w))"

definition result_window :: int where "result_window = 10000"

definition es_list :: "'x event_env \<Rightarrow> event_filter \<Rightarrow> ('x, pydict list) eio" where
  "es_list env f =
     io_bind (io_guard (0 \<le> f_limit f \<and> 0 \<le> f_offset f \<and> f_offset f + f_limit f \<le> result_window)
       (ExtError ''BadRequestError'')) (\<lambda>_.
     io_bind (io_gets (\<lambda>w. take (nat (f_limit f)) (drop (nat (f_offset f))
       (newest_first (filter (selected (server_filter f)) (map snd (ee_docs_seen env (ew_docs w)))))))) (\<lambda>hits.
     io_lift (mapM (parse_event (ee_lax env)) hits)))"

definition es_count :: "'x event_env \<Rightarrow> ('x, nat) eio" where
  "es_count env = io_gets (\<lambda>w. length (ee_docs_seen env (ew_docs w)))"

text \<open>A partial document is merged into the stored one, objects field by field.\<close>

function merge_val :: "pyval \<Rightarrow> pyval \<Rightarrow> pyval" where
  "merge_val old new = (case (old, new) of
     (PDict d, PDict e) \<Rightarrow> PDict (fold (\<lambda>(k, v) acc.
        AList.update k (case map_of acc k of None \<Rightarrow> v | Some o' \<Rightarrow> merge_val o' v) acc) e d)
   | _ \<Rightarrow> new)"
  by pat_completeness auto
termination
  by (relation "measure (\<lambda>(a, b). size b)") (auto simp: less_Suc_eq_le size_list_estimation')

declare merge_val.simps [simp del]

definition merge_doc :: "pydict \<Rightarrow> pydict \<Rightarrow> pydict" where
  "merge_doc d e = (case merge_val (PDict d) (PDict e) of PDict m \<Rightarrow> m | _ \<Rightarrow> [])"

definition es_update :: "'x event_env \<Rightarrow> string \<Rightarrow> pydict \<Rightarrow> ('x, unit) eio" where
  "es_update env event_id kvs =
     (let doc = filter (\<lambda>(k, v). v \<noteq> PNone) kvs in
      if doc = [] then io_return ()
      else io_bind (io_gets (\<lambda>w. map_of (ew_docs w) event_id)) (\<lambda>d.
        if d = None then io_return ()
        else io_bind (io_modify (\<lambda>w. w\<lparr>ew_docs := change event_id (\<lambda>d. merge_doc d doc) (ew_docs w)\<rparr>)) (\<lambda>_.
             publish_update env event_id)))"

definition es_trace :: "'x event_env \<Rightarrow> string \<Rightarrow> pydict \<Rightarrow> ('x, unit) eio" where
  "es_trace env event_id step =
     io_bind (io_modify (\<lambda>w. w\<lparr>ew_audit := ew_audit w @
       [[(''doc_id'', PStr (ee_uuid env w)), (''event_id'', PStr event_id), (''node'', dget step ''node'' PNone),
         (''action'', dget step ''action'' PNone), (''summary'', dget step ''summary'' PNone),
         (''details'', dget step ''details'' PNone),
         (''timestamp'', py_or (dget step ''timestamp'' PNone) (PStr (ee_now env)))]]\<rparr>)) (\<lambda>_.
     publish_trace env event_id step)"

definition es_approval :: "'x event_env \<Rightarrow> string \<Rightarrow> pydict \<Rightarrow> ('x, unit) eio" where
  "es_approval env event_id entry = io_bind (io_gets (\<lambda>w. map_of (ew_docs w) event_id)) (\<lambda>d.
     io_bind (io_guard (d \<noteq> None) (ExtError ''NotFoundError'')) (\<lambda>_.
     io_modify (\<lambda>w. w\<lparr>ew_docs := change event_id (append_to ''approvals'' entry) (ew_docs w)\<rparr>)))"

text \<open>
  The buckets of a term: the largest first, then by name. The number of hits is counted up to the
  result window, and the average is rounded half to even.
\<close>

definition term_buckets :: "nat \<Rightarrow> string \<Rightarrow> string option list \<Rightarrow> (string \<times> nat) list" where
  "term_buckets n missing vs =
     take n (sort_key (\<lambda>(s, c). - int c) (sort_key fst
       (tally (map (\<lambda>v. case v of Some s \<Rightarrow> s | None \<Rightarrow> missing) vs))))"

definition mean_rounded :: "int list \<Rightarrow> int" where
  "mean_rounded ds = (if ds = [] then 0 else
     let s = sum_list ds; n = int (length ds); q = s div n; r = s mod n in
     if 2 * r < n then q else if 2 * r > n then q + 1 else if even q then q else q + 1)"

definition es_metrics :: "'x event_env \<Rightarrow> ('x, event_metrics) eio" where
  "es_metrics env = io_gets (\<lambda>w. let es = map snd (ee_docs_seen env (ew_docs w)) in
     \<lparr>m_total = min (length es) (nat result_window),
      m_by_verdict = term_buckets 20 ''unknown'' (map (text_field ''final_verdict'') es),
      m_by_priority = term_buckets 10 ''none'' (map (text_field ''priority'') es),
      m_pending = length (filter is_pending es),
      m_avg_duration = mean_rounded (durations es)\<rparr>)"

definition es_store :: "'x event_env \<Rightarrow> 'x store_ops" where
  "es_store env =
     \<lparr>so_create = es_create env, so_get = es_get env, so_list = es_list env, so_count = es_count env,
      so_update = es_update env, so_trace = es_trace env, so_approval = es_approval env,
      so_metrics = es_metrics env\<rparr>"

definition get_event_store :: "'x event_env \<Rightarrow> string \<Rightarrow> 'x store_ops" where
  "get_event_store env backend =
     (if backend = ''es'' then es_store env else if backend = ''memory'' then memory_store env else pg_store env)"

end
