(* ===== verification/EventLaws.thy ===== *)
theory EventLaws
  imports Events
begin

text \<open>
  Properties of the event store: validation keeps a record that was stored as it was, the contract
  a caller may rely on, which the store in the process and the store in the database meet, and
  where the three stores differ.
\<close>

section \<open>Validation\<close>

lemma v_str_Ok: "v_str v = Ok u \<longleftrightarrow> (\<exists>s. v = PStr s) \<and> u = v"
  by (cases v) (auto simp: v_str_def)

lemma mapM_id: "(\<And>x y. x \<in> set xs \<Longrightarrow> p x = Ok y \<Longrightarrow> y = x) \<Longrightarrow> mapM p xs = Ok ys \<Longrightarrow> ys = xs"
  by (induction xs arbitrary: ys) (auto simp: rbind_eq_Inr_iff)

lemma v_list_id: "(\<And>x y. p x = Ok y \<Longrightarrow> y = x) \<Longrightarrow> v_list p v = Ok u \<Longrightarrow> u = v"
  by (cases v) (auto simp: v_list_def rbind_eq_Inr_iff dest: mapM_id [rotated])

lemma v_dict_id: "(\<And>x y. p x = Ok y \<Longrightarrow> y = x) \<Longrightarrow> v_dict p v = Ok u \<Longrightarrow> u = v"
  by (cases v) (auto simp: v_dict_def rbind_eq_Inr_iff dest!: mapM_id [rotated])

lemma iocs_id: "v_dict (v_list v_str) v = Ok u \<Longrightarrow> u = v"
  by (rule v_dict_id [OF v_list_id]) (simp_all add: v_str_Ok)

lemma parse_keys: "parse_fields fs d = Ok r \<Longrightarrow> map fst r = map fst fs"
  by (induction fs arbitrary: r) (auto simp: rbind_eq_Inr_iff)

lemma parse_other: "k \<notin> fst ` set fs \<Longrightarrow> parse_fields fs (AList.update k v d) = parse_fields fs d"
  by (induction fs) (auto simp: update_conv')

lemma parse_update:
  "distinct (map fst fs) \<Longrightarrow> parse_fields fs d = Ok r \<Longrightarrow> (k, p, dflt) \<in> set fs \<Longrightarrow> p v = Ok v' \<Longrightarrow>
   parse_fields fs (AList.update k v d) = Ok (AList.update k v' r)"
proof (induction fs arbitrary: r)
  case (Cons fd fs)
  obtain f q df where fd: "fd = (f, q, df)" by (cases fd)
  from Cons.prems(2) obtain x rest where r: "r = (f, x) # rest" "parse_fields fs d = Ok rest"
    by (auto simp: fd rbind_eq_Inr_iff)
  show ?case
  proof (cases "f = k")
    case True
    with Cons.prems(1,3) have "q = p" by (force simp: fd)
    with True Cons.prems(1,4) r show ?thesis by (auto simp: fd update_conv' parse_other)
  next
    case False
    with Cons.prems(3) have "(k, p, dflt) \<in> set fs" by (auto simp: fd)
    with Cons r have "parse_fields fs (AList.update k v d) = Ok (AList.update k v' rest)" by (simp add: fd)
    with False Cons.prems(2) r show ?thesis by (auto simp: fd update_conv' rbind_eq_Inr_iff)
  qed
qed simp

lemma distinct_fields: "distinct (map fst (event_record l))"
  by (simp add: event_record_def)

text \<open>A record that validation keeps as it is.\<close>

definition valid_event :: "lax \<Rightarrow> pydict \<Rightarrow> bool" where
  "valid_event l e \<longleftrightarrow> parse_event l e = Ok e"

lemma valid_keys: "valid_event l e \<Longrightarrow> map fst e = map fst (event_record l)"
  by (auto simp: valid_event_def parse_event_def dest: parse_keys)

lemma valid_update:
  "valid_event l e \<Longrightarrow> (k, p, dflt) \<in> set (event_record l) \<Longrightarrow> p v = Ok v \<Longrightarrow> valid_event l (AList.update k v e)"
  by (simp add: valid_event_def parse_event_def parse_update [OF distinct_fields])

text \<open>The record of a new event, written out.\<close>

definition event_of :: "string \<Rightarrow> string \<Rightarrow> string \<Rightarrow> pyval \<Rightarrow> string \<Rightarrow> pydict" where
  "event_of now event_id text iocs source =
     [(''event_id'', PStr event_id), (''source'', PStr source), (''submitted_at'', PStr now),
      (''finished_at'', PNone), (''status'', PStr ''processing''), (''priority'', PNone), (''tags'', PList []),
      (''sanitized_text'', PStr text), (''iocs'', iocs), (''final_verdict'', PNone), (''confidence'', PNone),
      (''evidence_summary'', PNone), (''mitre_ttps'', PList []), (''poc'', PNone), (''is_vulnerable'', PBool False),
      (''trace'', PList []), (''approvals'', PList []), (''pending_approval_id'', PNone), (''duration_ms'', PNone),
      (''execution_summary'', PNone)]"

lemmas validators = v_opt_def v_str_def v_one_of_def v_list_def v_bool_def event_statuses_def

lemma new_event_eq:
  "new_event l now i text iocs src =
     rbind (v_dict (v_list v_str) iocs) (\<lambda>iocs. Ok (event_of now i text iocs src))"
  by (cases "v_dict (v_list v_str) iocs")
    (simp_all add: new_event_def parse_event_def event_record_def event_of_def v_str_def)

lemma new_event_iff:
  "new_event l now i text iocs src = Ok e \<longleftrightarrow>
     v_dict (v_list v_str) iocs = Ok iocs \<and> e = event_of now i text iocs src"
  by (auto simp: new_event_eq rbind_eq_Inr_iff dest: iocs_id)

lemma new_event_valid: "new_event l now i text iocs src = Ok e \<Longrightarrow> valid_event l e"
  unfolding new_event_iff
  by (simp add: valid_event_def parse_event_def event_record_def event_of_def validators)

section \<open>The contract of a store\<close>

text \<open>
  Values that may be written: a field of the record, a value that validation keeps, and an absent
  value only where the field is absent already, which the servers skip and the process assigns.
\<close>

definition field_accepts :: "lax \<Rightarrow> string \<Rightarrow> pyval \<Rightarrow> bool" where
  "field_accepts l k v = (\<exists>(f, p, dflt) \<in> set (event_record l). f = k \<and> p v = Ok v)"

definition settable :: "lax \<Rightarrow> pydict \<Rightarrow> pydict \<Rightarrow> bool" where
  "settable l e kvs \<longleftrightarrow> distinct (map fst kvs) \<and>
     (\<forall>(k, v) \<in> set kvs. field_accepts l k v \<and> (v = PNone \<longrightarrow> dget e k (PInt 0) = PNone))"

definition valid_model :: "schema \<Rightarrow> pydict \<Rightarrow> bool" where
  "valid_model fs x \<longleftrightarrow> parse_fields fs x = Ok x"

locale event_store =
  fixes st :: "'x store_ops" and env :: "'x event_env"
    and view :: "'x event_world \<Rightarrow> string \<Rightarrow> pydict option"
    and ok :: "'x event_world \<Rightarrow> bool" and fits :: "string \<Rightarrow> bool"
  assumes create: "ok w \<Longrightarrow> fits i \<Longrightarrow> new_event (ee_lax env) (ee_now env) i text iocs src = Ok e \<Longrightarrow>
      \<exists>w'. so_create st i text iocs src w = (Ok e, w') \<and> ok w' \<and> view w' = (view w)(i \<mapsto> e)"
    and refused: "new_event (ee_lax env) (ee_now env) i text iocs src = Raise exc \<Longrightarrow>
      so_create st i text iocs src w = (Raise exc, w)"
    and get: "ok w \<Longrightarrow> so_get st i w = (Ok (view w i), w)"
    and update: "ok w \<Longrightarrow> (\<And>e. view w i = Some e \<Longrightarrow> settable (ee_lax env) e kvs) \<Longrightarrow>
      \<exists>w'. so_update st i kvs w = (Ok (), w') \<and> ok w' \<and>
        view w' = (view w)(i := map_option (\<lambda>e. dupdate e kvs) (view w i))"
    and trace: "ok w \<Longrightarrow> valid_model trace_step x \<Longrightarrow>
      \<exists>w'. so_trace st i x w = (Ok (), w') \<and> ok w' \<and>
        view w' = (view w)(i := map_option (append_to ''trace'' x) (view w i))"
    and approval: "ok w \<Longrightarrow> valid_model approval_entry x \<Longrightarrow>
      \<exists>w'. so_approval st i x w = (Ok (), w') \<and> ok w' \<and>
        view w' = (view w)(i := map_option (append_to ''approvals'' x) (view w i))"
    and sound: "ok w \<Longrightarrow> view w i = Some e \<Longrightarrow> valid_event (ee_lax env) e"

section \<open>Records under change\<close>

text \<open>Both keyed forms of the events: a list of valid records, changed in place.\<close>

definition all_valid :: "lax \<Rightarrow> (string \<times> pydict) list \<Rightarrow> bool" where
  "all_valid l es \<longleftrightarrow> distinct (map fst es) \<and> (\<forall>(i, e) \<in> set es. valid_event l e)"

lemma view_change: "map_of (change i f es) = (map_of es)(i := map_option f (map_of es i))"
  by (induction es) (auto simp: change_def)

lemma map_of_put: "map_of (AList.update i e es) = (map_of es)(i \<mapsto> e)"
  by (simp add: fun_eq_iff update_conv)

lemma all_validD: "all_valid l es \<Longrightarrow> map_of es i = Some e \<Longrightarrow> valid_event l e"
  by (auto simp: all_valid_def dest: map_of_SomeD)

lemma all_valid_change:
  "all_valid l es \<Longrightarrow> (\<And>e. map_of es i = Some e \<Longrightarrow> valid_event l e \<Longrightarrow> valid_event l (f e)) \<Longrightarrow>
   all_valid l (change i f es)"
  by (auto simp: all_valid_def change_def comp_def case_prod_unfold)

lemma change_cong:
  "all_valid l es \<Longrightarrow> (\<And>e. map_of es i = Some e \<Longrightarrow> f e = g e) \<Longrightarrow> change i f es = change i g es"
  by (auto simp: all_valid_def change_def)

lemma all_valid_put: "all_valid l es \<Longrightarrow> valid_event l e \<Longrightarrow> all_valid l (AList.update i e es)"
  unfolding all_valid_def by (induction es) (auto split: if_splits dest: map_of_SomeD simp: update_keys)

lemma field_acceptsE:
  assumes "field_accepts l k v"
  obtains p dflt where "(k, p, dflt) \<in> set (event_record l)" "p v = Ok v"
  using assms by (auto simp: field_accepts_def)

lemma valid_set: "valid_event l e \<Longrightarrow> field_accepts l k v \<Longrightarrow> valid_event l (AList.update k v e)"
  by (metis field_acceptsE valid_update)

lemma dupdate_pairs [simp]:
  "dupdate d [] = d"
  "dupdate d ((k, v) # kvs) = dupdate (AList.update k v d) kvs"
  by (simp_all add: dupdate_def)

lemma valid_set_all:
  "valid_event l e \<Longrightarrow> (\<And>k v. (k, v) \<in> set kvs \<Longrightarrow> field_accepts l k v) \<Longrightarrow> valid_event l (dupdate e kvs)"
  by (induction kvs arbitrary: e) (auto simp: valid_set)

text \<open>Writing a value that is there already changes nothing.\<close>

lemma update_same: "map_of d k = Some v \<Longrightarrow> AList.update k v d = d"
  by (induction d) auto

lemma dupdate_skips_absent:
  assumes "distinct (map fst kvs)" "\<forall>(k, v) \<in> set kvs. v = PNone \<longrightarrow> dget e k (PInt 0) = PNone"
  shows "dupdate e (filter (\<lambda>(k, v). v \<noteq> PNone) kvs) = dupdate e kvs"
  using assms
proof (induction kvs arbitrary: e)
  case (Cons kv kvs)
  obtain k v where kv: "kv = (k, v)" by (cases kv)
  have "\<forall>(j, u) \<in> set kvs. u = PNone \<longrightarrow> dget (AList.update k v e) j (PInt 0) = PNone"
    using Cons.prems by (force simp: kv dget_def update_conv')
  moreover have "AList.update k v e = e" if "v = PNone"
    using Cons.prems(2) that by (auto simp: kv dget_def intro!: update_same split: option.splits)
  ultimately show ?case using Cons by (auto simp: kv)
qed simp

lemma settable_accepts: "settable l e kvs \<Longrightarrow> (k, v) \<in> set kvs \<Longrightarrow> field_accepts l k v"
  by (auto simp: settable_def)

text \<open>Appending a valid entry to the list of a valid record.\<close>

lemma v_list_append:
  "v_list p (PList xs) = Ok (PList xs) \<Longrightarrow> p x = Ok x \<Longrightarrow> v_list p (PList (xs @ [x])) = Ok (PList (xs @ [x]))"
proof -
  have "mapM p (ys @ [x]) = rbind (mapM p ys) (\<lambda>zs. rbind (p x) (\<lambda>z. Ok (zs @ [z])))" for ys
    by (induction ys) (auto simp: rbind_def split: sum.splits)
  then show "v_list p (PList xs) = Ok (PList xs) \<Longrightarrow> p x = Ok x \<Longrightarrow> ?thesis"
    by (auto simp: v_list_def rbind_eq_Inr_iff)
qed

lemma parse_field:
  "parse_fields fs d = Ok r \<Longrightarrow> distinct (map fst fs) \<Longrightarrow> (k, p, dflt) \<in> set fs \<Longrightarrow> map_of d k = Some v \<Longrightarrow>
   \<exists>u. p v = Ok u \<and> map_of r k = Some u"
  by (induction fs arbitrary: r) (force simp: rbind_eq_Inr_iff)+

lemma valid_field:
  assumes "valid_event l e" "(k, p, dflt) \<in> set (event_record l)"
  obtains v where "map_of e k = Some v" "p v = Ok v"
proof -
  have e: "parse_fields (event_record l) e = Ok e" using assms(1) by (simp add: valid_event_def parse_event_def)
  have "k \<in> fst ` set e" using assms(2) valid_keys [OF assms(1)] by (metis fst_conv image_eqI list.set_map)
  then obtain v where v: "map_of e k = Some v" by (metis map_of_eq_None_iff option.exhaust)
  with parse_field [OF e distinct_fields assms(2) v] that show ?thesis by auto
qed

lemma valid_append:
  assumes "valid_event l e" "(k, v_list (v_model fs), dflt) \<in> set (event_record l)" "valid_model fs x"
  shows "valid_event l (append_to k x e)"
proof -
  obtain v where v: "map_of e k = Some v" "v_list (v_model fs) v = Ok v" by (rule valid_field [OF assms(1,2)])
  then obtain xs where xs: "v = PList xs" by (auto simp: v_list_def split: pyval.splits)
  have "v_model fs (PDict x) = Ok (PDict x)" using assms(3) by (simp add: v_model_def valid_model_def)
  with v(2) xs have "v_list (v_model fs) (PList (xs @ [PDict x])) = Ok (PList (xs @ [PDict x]))"
    by (intro v_list_append) simp_all
  from valid_update [OF assms(1,2) this] show ?thesis using v(1) xs by (simp add: append_to_def dget_def)
qed

lemma list_fields:
  "(''trace'', v_list (v_model trace_step), Some (PList [])) \<in> set (event_record l)"
  "(''approvals'', v_list (v_model approval_entry), Some (PList [])) \<in> set (event_record l)"
  by (simp_all add: event_record_def)

lemmas valid_entries = valid_append [OF _ list_fields(1)] valid_append [OF _ list_fields(2)]

section \<open>The store in the process meets the contract\<close>

lemma accepts_known: "field_accepts l k v \<Longrightarrow> k \<in> fst ` set (event_record l)"
  by (force simp: field_accepts_def)

lemma change_change: "change i f (change i g es) = change i (f \<circ> g) es"
  by (auto simp: change_def)

lemma change_id: "change i (\<lambda>e. e) es = es"
  by (auto simp: change_def intro: map_idI)

lemma mem_assign_eq:
  "(\<And>k v. (k, v) \<in> set kvs \<Longrightarrow> k \<in> fst ` set (event_record (ee_lax env))) \<Longrightarrow>
   mem_assign env i kvs w = (Ok (), w\<lparr>ew_mem := change i (\<lambda>e. dupdate e kvs) (ew_mem w)\<rparr>)"
proof (induction kvs arbitrary: w)
  case (Cons kv kvs)
  obtain k v where kv: "kv = (k, v)" by (cases kv)
  have "k \<in> fst ` set (event_record (ee_lax env))" using Cons.prems [of k v] by (simp add: kv)
  moreover have "mem_assign env i kvs w = (Ok (), w\<lparr>ew_mem := change i (\<lambda>e. dupdate e kvs) (ew_mem w)\<rparr>)" for w
  proof (rule Cons.IH)
    show "a \<in> fst ` set (event_record (ee_lax env))" if "(a, b) \<in> set kvs" for a b
      using Cons.prems [of a b] that by simp
  qed
  ultimately show ?case by (simp add: kv io_guard_bind change_change comp_def)
qed (simp add: change_id)

interpretation memory: event_store "memory_store env" env "\<lambda>w. map_of (ew_mem w)"
    "\<lambda>w. all_valid (ee_lax env) (ew_mem w)" "\<lambda>i. True" for env :: "'x event_env"
proof unfold_locales
  fix w :: "'x event_world" and i body iocs src e x kvs
  let ?l = "ee_lax env"
  show "\<exists>w'. so_create (memory_store env) i body iocs src w = (Ok e, w') \<and> all_valid ?l (ew_mem w') \<and>
      map_of (ew_mem w') = (map_of (ew_mem w))(i \<mapsto> e)"
    if "all_valid ?l (ew_mem w)" "new_event ?l (ee_now env) i body iocs src = Ok e"
    using that by (simp add: memory_store_def mem_create_def map_of_put all_valid_put new_event_valid)
  show "so_create (memory_store env) i body iocs src w = (Raise exc, w)"
    if "new_event ?l (ee_now env) i body iocs src = Raise exc" for exc
    using that by (simp add: memory_store_def mem_create_def)
  show "so_get (memory_store env) i w = (Ok (map_of (ew_mem w) i), w)"
    by (simp add: memory_store_def mem_get_def)
  show "\<exists>w'. so_update (memory_store env) i kvs w = (Ok (), w') \<and> all_valid ?l (ew_mem w') \<and>
      map_of (ew_mem w') = (map_of (ew_mem w))(i := map_option (\<lambda>e. dupdate e kvs) (map_of (ew_mem w) i))"
    if "all_valid ?l (ew_mem w)" "\<And>e. map_of (ew_mem w) i = Some e \<Longrightarrow> settable ?l e kvs"
  proof (cases "map_of (ew_mem w) i")
    case None
    with that show ?thesis by (simp add: memory_store_def mem_update_def mem_get_def fun_upd_idem)
  next
    case (Some e)
    note s = that(2) [OF Some]
    from Some that(1) show ?thesis
      using mem_assign_eq [of kvs env i w, OF accepts_known [OF settable_accepts [OF s]]]
      by (auto simp: memory_store_def mem_update_def mem_get_def view_change
          intro!: all_valid_change valid_set_all settable_accepts [OF s])
  qed
  show "\<exists>w'. so_trace (memory_store env) i x w = (Ok (), w') \<and> all_valid ?l (ew_mem w') \<and>
      map_of (ew_mem w') = (map_of (ew_mem w))(i := map_option (append_to ''trace'' x) (map_of (ew_mem w) i))"
    if "all_valid ?l (ew_mem w)" "valid_model trace_step x"
    using that by (simp add: memory_store_def mem_append_def view_change all_valid_change valid_entries)
  show "\<exists>w'. so_approval (memory_store env) i x w = (Ok (), w') \<and> all_valid ?l (ew_mem w') \<and>
      map_of (ew_mem w') = (map_of (ew_mem w))(i := map_option (append_to ''approvals'' x) (map_of (ew_mem w) i))"
    if "all_valid ?l (ew_mem w)" "valid_model approval_entry x"
    using that by (simp add: memory_store_def mem_append_def view_change all_valid_change valid_entries)
  show "valid_event ?l e" if "all_valid ?l (ew_mem w)" "map_of (ew_mem w) i = Some e"
    by (rule all_validD [OF that])
qed

section \<open>The store in the database meets the contract\<close>

text \<open>Publishing leaves the stores as they are.\<close>

lemma publish_io: "\<exists>w'. publish env c p w = (Ok (), w') \<and> ew_rows w' = ew_rows w"
  by (simp add: publish_def)

lemma publish_update_io: "\<exists>w'. publish_update env i w = (Ok (), w') \<and> ew_rows w' = ew_rows w"
  unfolding publish_update_def publish_def by simp

lemma publish_trace_io: "\<exists>w'. publish_trace env i x w = (Ok (), w') \<and> ew_rows w' = ew_rows w"
  unfolding publish_trace_def by (rule publish_io)

lemma parts_of_values:
  "set_parts (map (\<lambda>(k, v). (k, Val v)) kvs) =
     map (\<lambda>(k, v). (k, Val v)) (filter (\<lambda>(k, v). v \<noteq> PNone) kvs)"
  by (induction kvs) (auto simp: set_parts_def)

lemma fold_parts_values: "fold apply_part (map (\<lambda>(k, v). (k, Val v)) kvs) = (\<lambda>d. dupdate d kvs)"
proof
  show "fold apply_part (map (\<lambda>(k, v). (k, Val v)) kvs) d = dupdate d kvs" for d
    by (induction kvs arbitrary: d) (auto simp: apply_part_def)
qed

lemma pg_update_io:
  "\<exists>w'. pg_update env i kvs w = (Ok (), w') \<and>
     ew_rows w' = change i (\<lambda>e. dupdate e (filter (\<lambda>(k, v). v \<noteq> PNone) kvs)) (ew_rows w)"
proof (cases "filter (\<lambda>(k, v). v \<noteq> PNone) kvs = []")
  case True
  then show ?thesis by (simp add: pg_update_def pg_update_args_def parts_of_values change_id)
next
  case False
  let ?w = "w\<lparr>ew_rows := change i (\<lambda>e. dupdate e (filter (\<lambda>(k, v). v \<noteq> PNone) kvs)) (ew_rows w)\<rparr>"
  have "Clear \<notin> snd ` set (map (\<lambda>(k, v). (k, Val v)) (filter (\<lambda>(k, v). v \<noteq> PNone) kvs))" by auto
  with False have "pg_update env i kvs w = publish_update env i ?w"
    by (simp add: pg_update_def pg_update_args_def parts_of_values fold_parts_values Let_def io_guard_bind)
  with publish_update_io [of env i ?w] show ?thesis by simp
qed

lemma pg_trace_io:
  "\<exists>w'. pg_trace env i x w = (Ok (), w') \<and> ew_rows w' = change i (append_to ''trace'' x) (ew_rows w)"
proof -
  let ?w = "w\<lparr>ew_rows := change i (append_to ''trace'' x) (ew_rows w)\<rparr>"
  have "pg_trace env i x w = publish_trace env i x ?w" by (simp add: pg_trace_def pg_append_def)
  with publish_trace_io [of env i x ?w] show ?thesis by simp
qed

lemma pg_get_valid:
  "all_valid (ee_lax env) (ew_rows w) \<Longrightarrow> pg_get env i w = (Ok (map_of (ew_rows w) i), w)"
  by (cases "map_of (ew_rows w) i") (auto simp: pg_get_def valid_event_def dest: all_validD)

interpretation database: event_store "pg_store env" env "\<lambda>w. map_of (ew_rows w)"
    "\<lambda>w. all_valid (ee_lax env) (ew_rows w)" "\<lambda>i. length i \<le> event_id_limit" for env :: "'x event_env"
proof unfold_locales
  fix w :: "'x event_world" and i body iocs src e x kvs
  let ?l = "ee_lax env"
  show "\<exists>w'. so_create (pg_store env) i body iocs src w = (Ok e, w') \<and> all_valid ?l (ew_rows w') \<and>
      map_of (ew_rows w') = (map_of (ew_rows w))(i \<mapsto> e)"
    if "all_valid ?l (ew_rows w)" "length i \<le> event_id_limit" "new_event ?l (ee_now env) i body iocs src = Ok e"
    using that by (simp add: pg_store_def pg_create_def io_guard_bind map_of_put all_valid_put new_event_valid)
  show "so_create (pg_store env) i body iocs src w = (Raise exc, w)"
    if "new_event ?l (ee_now env) i body iocs src = Raise exc" for exc
    using that by (simp add: pg_store_def pg_create_def)
  show "so_get (pg_store env) i w = (Ok (map_of (ew_rows w) i), w)" if "all_valid ?l (ew_rows w)"
    using that by (simp add: pg_store_def pg_get_valid)
  show "\<exists>w'. so_update (pg_store env) i kvs w = (Ok (), w') \<and> all_valid ?l (ew_rows w') \<and>
      map_of (ew_rows w') = (map_of (ew_rows w))(i := map_option (\<lambda>e. dupdate e kvs) (map_of (ew_rows w) i))"
    if v: "all_valid ?l (ew_rows w)" "\<And>e. map_of (ew_rows w) i = Some e \<Longrightarrow> settable ?l e kvs"
  proof -
    have "change i (\<lambda>e. dupdate e (filter (\<lambda>(k, v). v \<noteq> PNone) kvs)) (ew_rows w) =
        change i (\<lambda>e. dupdate e kvs) (ew_rows w)"
      using v by (intro change_cong [OF v(1)] dupdate_skips_absent) (auto simp: settable_def)
    with pg_update_io [of env i kvs w] show ?thesis
      using v by (auto simp: pg_store_def view_change intro!: all_valid_change valid_set_all
          dest!: v(2) intro: settable_accepts)
  qed
  show "\<exists>w'. so_trace (pg_store env) i x w = (Ok (), w') \<and> all_valid ?l (ew_rows w') \<and>
      map_of (ew_rows w') = (map_of (ew_rows w))(i := map_option (append_to ''trace'' x) (map_of (ew_rows w) i))"
    if "all_valid ?l (ew_rows w)" "valid_model trace_step x"
    using pg_trace_io [of env i x w] that by (auto simp: pg_store_def view_change all_valid_change valid_entries)
  show "\<exists>w'. so_approval (pg_store env) i x w = (Ok (), w') \<and> all_valid ?l (ew_rows w') \<and>
      map_of (ew_rows w') = (map_of (ew_rows w))(i := map_option (append_to ''approvals'' x) (map_of (ew_rows w) i))"
    if "all_valid ?l (ew_rows w)" "valid_model approval_entry x"
    using that by (simp add: pg_store_def pg_append_def view_change all_valid_change valid_entries)
  show "valid_event ?l e" if "all_valid ?l (ew_rows w)" "map_of (ew_rows w) i = Some e"
    by (rule all_validD [OF that])
qed

section \<open>The two stores agree\<close>

text \<open>
  A history of operations, and what it means for the records: an operation outside the contract has
  no meaning. The identifiers of new events must fit into the stores.
\<close>

datatype store_op =
    Op_create string string pyval string
  | Op_update string pydict
  | Op_trace string pydict
  | Op_approval string pydict

fun perform :: "'x store_ops \<Rightarrow> store_op \<Rightarrow> ('x, unit) eio" where
  "perform st (Op_create i body iocs src) = io_bind (so_create st i body iocs src) (\<lambda>_. io_return ())"
| "perform st (Op_update i kvs) = so_update st i kvs"
| "perform st (Op_trace i x) = so_trace st i x"
| "perform st (Op_approval i x) = so_approval st i x"

fun perform_all :: "'x store_ops \<Rightarrow> store_op list \<Rightarrow> ('x, unit) eio" where
  "perform_all st [] = io_return ()"
| "perform_all st (x # xs) = io_bind (perform st x) (\<lambda>_. perform_all st xs)"

type_synonym records = "string \<Rightarrow> pydict option"

fun meaning :: "'x event_env \<Rightarrow> store_op \<Rightarrow> records \<Rightarrow> records option" where
  "meaning env (Op_create i body iocs src) V = (if length i > event_id_limit then None else
     case new_event (ee_lax env) (ee_now env) i body iocs src of Inl _ \<Rightarrow> None | Inr e \<Rightarrow> Some (V(i \<mapsto> e)))"
| "meaning env (Op_update i kvs) V =
     (case V i of None \<Rightarrow> Some V
      | Some e \<Rightarrow> if settable (ee_lax env) e kvs then Some (V(i \<mapsto> dupdate e kvs)) else None)"
| "meaning env (Op_trace i x) V =
     (if valid_model trace_step x then Some (V(i := map_option (append_to ''trace'' x) (V i))) else None)"
| "meaning env (Op_approval i x) V =
     (if valid_model approval_entry x then Some (V(i := map_option (append_to ''approvals'' x) (V i))) else None)"

fun meaning_all :: "'x event_env \<Rightarrow> store_op list \<Rightarrow> records \<Rightarrow> records option" where
  "meaning_all env [] V = Some V"
| "meaning_all env (x # xs) V = (case meaning env x V of None \<Rightarrow> None | Some V' \<Rightarrow> meaning_all env xs V')"

context event_store
begin

lemma perform_refines:
  assumes short: "\<And>i. length i \<le> event_id_limit \<Longrightarrow> fits i"
    and "ok w" "meaning env x (view w) = Some V"
  shows "\<exists>w'. perform st x w = (Ok (), w') \<and> ok w' \<and> view w' = V"
proof (cases x)
  case (Op_create i body iocs src)
  with assms(3) obtain e where e: "new_event (ee_lax env) (ee_now env) i body iocs src = Ok e"
    "V = (view w)(i \<mapsto> e)" "length i \<le> event_id_limit" by (auto split: sum.splits if_splits)
  from create [OF assms(2) short [OF e(3)] e(1)] e(2) Op_create show ?thesis by (auto simp: io_bind_def)
next
  case (Op_update i kvs)
  have "settable (ee_lax env) e kvs" if "view w i = Some e" for e
    using assms(3) that by (simp add: Op_update split: if_splits)
  with update [OF assms(2), of i kvs] assms(3) show ?thesis
    by (fastforce simp: Op_update fun_upd_idem split: option.splits if_splits)
next
  case (Op_trace i y)
  with assms(2,3) trace [OF assms(2), of y i] show ?thesis by (auto split: if_splits)
next
  case (Op_approval i y)
  with assms(2,3) approval [OF assms(2), of y i] show ?thesis by (auto split: if_splits)
qed

lemma perform_all_refines:
  assumes short: "\<And>i. length i \<le> event_id_limit \<Longrightarrow> fits i"
  shows "ok w \<Longrightarrow> meaning_all env xs (view w) = Some V \<Longrightarrow>
   \<exists>w'. perform_all st xs w = (Ok (), w') \<and> ok w' \<and> view w' = V"
proof (induction xs arbitrary: w)
  case (Cons x xs)
  from Cons.prems(2) obtain V' where "meaning env x (view w) = Some V'" "meaning_all env xs V' = Some V"
    by (auto split: option.splits)
  with perform_refines [OF short Cons.prems(1)] obtain w1 where
    w1: "perform st x w = (Ok (), w1)" "ok w1" "meaning_all env xs (view w1) = Some V" by metis
  from Cons.IH [OF w1(2,3)] w1(1) show ?case by auto
qed simp

lemma answers: "ok w \<Longrightarrow> fst (so_get st i w) = Ok (view w i)"
  by (simp add: get)

end


definition strict_lax :: lax where
  "strict_lax = \<lparr>lax_bool = (\<lambda>_. Raise ValueError), lax_int = (\<lambda>_. Raise ValueError), lax_float = (\<lambda>_. Raise ValueError)\<rparr>"

definition toy_store_env :: "unit event_env" where
  "toy_store_env = \<lparr>ee_lax = strict_lax, ee_now = ''2026'', ee_publishes = (\<lambda>_ _. True), ee_docs_seen = (\<lambda>d. d),
     ee_audit_seen = (\<lambda>d. d), ee_uuid = (\<lambda>_. [])\<rparr>"

definition toy_world :: "unit event_world" where
  "toy_world = \<lparr>ew_mem = [], ew_rows = [], ew_docs = [], ew_audit = [], ew_bus = [], ew_rest = ()\<rparr>"

definition toy_step :: pydict where
  "toy_step = [(''node'', PStr ''entry''), (''action'', PStr ''processed''), (''summary'', PStr []),
     (''timestamp'', PStr ''2026''), (''details'', PDict [])]"

definition toy_history :: "store_op list" where
  "toy_history = [Op_create ''E'' ''text'' (PDict []) ''api'', Op_trace ''E'' toy_step,
     Op_update ''E'' [(''status'', PStr ''completed''), (''confidence'', PFloat 1), (''priority'', PNone)]]"

lemma toy_meaning: "\<exists>V. meaning_all toy_store_env toy_history Map.empty = Some V"
proof -
  have "case meaning_all toy_store_env toy_history Map.empty of None \<Rightarrow> False | Some V \<Rightarrow> True" by code_simp
  then show ?thesis by (auto split: option.splits)
qed


section \<open>Where the stores differ\<close>

text \<open>An identifier that is too long is refused by the database alone.\<close>

lemma long_identifier_refused:
  "length i > event_id_limit \<Longrightarrow> v_dict (v_list v_str) iocs = Ok iocs \<Longrightarrow>
   pg_create env i body iocs src w = (Raise (ExtError ''StringDataRightTruncationError''), w)"
  by (simp add: pg_create_def new_event_eq io_guard_bind)

text \<open>The group without a verdict and the group \<open>unknown\<close> share a name, and one count is lost.\<close>

lemma missing_verdicts_hide:
  "by_group ''unknown'' [Some ''unknown'', Some ''unknown'', None] = [(''unknown'', 1)]"
  by code_simp

text \<open>Clearing a field while setting another is refused by the server.\<close>

lemma clear_and_set_refused:
  "pg_update_args env i [(''finished_at'', Clear), (''status'', Val (PStr ''processing''))] w =
     (Raise (ExtError ''multiple assignments to same column''), w)"
  by (simp add: pg_update_args_def set_parts_def io_guard_def)

text \<open>One record that validation refuses makes every list of events fail.\<close>

lemma bad_record_breaks_lists:
  assumes "parse_event (ee_lax env) e = Raise exc"
  shows "fst (pg_list env \<lparr>f_status = None, f_verdict = None, f_priority = None, f_limit = 0, f_offset = 0\<rparr>
    (w\<lparr>ew_rows := [(i, e)]\<rparr>)) = Raise exc"
  using assms by (simp add: pg_list_def pg_page_def newest_first_def selected_def server_filter_def
      non_empty_def field_is_def)

text \<open>An event that is delivered again keeps the trace of its first run in the search engine.\<close>

lemma trace_outlives_record:
  "\<exists>e w. io_bind (es_create toy_store_env ''E'' [] (PDict []) ''kafka'') (\<lambda>_.
      io_bind (es_trace toy_store_env ''E'' toy_step) (\<lambda>_.
      io_bind (es_create toy_store_env ''E'' [] (PDict []) ''kafka'') (\<lambda>_. es_get toy_store_env ''E''))) toy_world =
     (Ok (Some e), w) \<and> dget e ''trace'' PNone = PList [PDict toy_step]"
  by (simp add: es_create_def new_event_eq v_dict_def io_bind_def es_trace_def publish_trace_def
      es_get_def fetch_trace_def trace_limit_def publish_def event_of_def toy_world_def toy_store_env_def toy_step_def
      trace_step_def v_str_def text_of_def parse_event_def event_record_def validators v_model_def py_or_def)

end
