(* ===== verification/Pipeline.thy ===== *)
theory Pipeline
  imports EventLaws MainGraph
begin

text \<open>
  The runner of the pipeline, \<open>src/orchestration/runner.py\<close>: one event is recorded, sent through the
  main graph, and its outcome is written back. The store is an argument, the record \<open>store_ops\<close>; the
  duration measured and the time of the end are arguments too.
\<close>

section \<open>The runner\<close>

text \<open>A step of the trace, built from an entry of the graph's log.\<close>

definition audit_step :: "pydict \<Rightarrow> pydict res" where
  "audit_step a = parse_fields trace_step
     [(''node'', dget a ''node'' (PStr ''?'')), (''action'', PStr ''processed''),
      (''summary'', dget a ''summary'' (PStr [])), (''timestamp'', dget a ''ts'' (PStr [])), (''details'', PDict [])]"

fun add_steps :: "'x store_ops \<Rightarrow> string \<Rightarrow> pydict list \<Rightarrow> ('x, unit) eio" where
  "add_steps st event_id [] = io_return ()"
| "add_steps st event_id (a # as) =
     io_bind (io_lift (audit_step a)) (\<lambda>x.
     io_bind (so_trace st event_id x) (\<lambda>_. add_steps st event_id as))"

definition pending_of :: "main_state \<Rightarrow> pydict" where
  "pending_of r = (case ms_pending r of Some d \<Rightarrow> d | None \<Rightarrow> [])"

text \<open>A graph that never came to a verdict has no such key, and the verdict is \<open>unknown\<close>.\<close>

definition verdict_of :: "main_state \<Rightarrow> pyval" where
  "verdict_of r = dget (sub_of r) ''final_verdict''
     (if ms_verdict r = PNone then PStr ''unknown'' else ms_verdict r)"

definition outcome_fields :: "int \<Rightarrow> string \<Rightarrow> main_state \<Rightarrow> pydict" where
  "outcome_fields duration finished r =
     [(''status'', PStr (event_status r)), (''final_verdict'', verdict_of r),
      (''confidence'', dget (sub_of r) ''confidence_score'' (ms_confidence r)),
      (''priority'', case ms_priority r of Some p \<Rightarrow> PStr p | None \<Rightarrow> PNone),
      (''tags'', PList (map PStr (ms_tags r))), (''duration_ms'', PInt duration), (''finished_at'', PStr finished),
      (''pending_approval_id'', dget (pending_of r) ''approval_id'' PNone),
      (''execution_summary'', dget (pending_of r) ''execution_summary'' PNone)]"

definition run_pipeline ::
    "'x store_ops \<Rightarrow> 'x event_world graph_env \<Rightarrow> int \<Rightarrow> string \<Rightarrow> string \<Rightarrow> string \<Rightarrow> pyval \<Rightarrow> string \<Rightarrow>
     ('x, main_state) eio" where
  "run_pipeline st ge duration finished event_id body iocs source =
     io_bind (so_create st event_id body iocs source) (\<lambda>_.
     io_bind (run_main ge event_id body iocs source) (\<lambda>out.
     case out of
       None \<Rightarrow> io_raise (ExtError ''GraphRecursionError'')
     | Some (path, r) \<Rightarrow>
         io_bind (add_steps st event_id (ms_audit r)) (\<lambda>_.
         io_bind (so_update st event_id (outcome_fields duration finished r)) (\<lambda>_.
         io_return r))))"

section \<open>The log of the graph\<close>

text \<open>Whatever the nodes do, the log only grows, by entries of one form.\<close>

definition entries :: "'w graph_env \<Rightarrow> (string \<times> string) list \<Rightarrow> pydict list" where
  "entries env xs = map (\<lambda>(n, s). audit_entry env n s) xs"

definition logs :: "'w graph_env \<Rightarrow> main_state \<Rightarrow> main_state \<Rightarrow> bool" where
  "logs env st st' \<longleftrightarrow> (\<exists>xs. ms_audit st' = ms_audit st @ entries env xs)"

lemma logs_refl [simp]: "ms_audit st' = ms_audit st \<Longrightarrow> logs env st st'"
  unfolding logs_def by (rule exI [of _ "[]"]) (simp add: entries_def)

lemma logs_entry: "ms_audit st' = ms_audit st @ [audit_entry env n s] \<Longrightarrow> logs env st st'"
  unfolding logs_def by (rule exI [of _ "[(n, s)]"]) (simp add: entries_def)

lemma logs_trans: "logs env a b \<Longrightarrow> logs env b c \<Longrightarrow> logs env a c"
  unfolding logs_def by (metis append.assoc entries_def map_append)

lemma node_logs: "node_body env n st w = (Inr st', w') \<Longrightarrow> logs env st st'"
  by (cases n) (auto simp: node_body_def entry_node_def orchestrator_node_def aggregator_node_def
      ignore_node_def investigate_node_def vuln_check_node_def respond_node_def Let_def io_bind_Inr io_try_Inr
      intro: logs_entry split: if_splits)

lemma run_graph_logs: "run_graph env limit n st w = (Ok (Some (path, r)), w') \<Longrightarrow> logs env st r"
proof (induction limit arbitrary: n st path w)
  case 0
  then show ?case by (cases n) simp_all
next
  case (Suc limit)
  show ?case
  proof (cases "n = End")
    case True
    with Suc.prems show ?thesis by simp
  next
    case False
    with Suc.prems obtain st' w1 n' w2 path' where s: "node_body env n st w = (Inr st', w1)"
      "run_graph env limit n' st' w2 = (Ok (Some (path', r)), w')"
      by (cases n) (auto simp: io_bind_Inr split: option.splits)
    from Suc.IH [OF s(2)] node_logs [OF s(1)] show ?thesis by (blast intro: logs_trans)
  qed
qed

lemma audit_step_entry:
  "audit_step (audit_entry env n s) = Ok
     [(''node'', PStr n), (''action'', PStr ''processed''), (''summary'', PStr s),
      (''timestamp'', PStr (ge_now env)), (''details'', PDict [])]"
  by (simp add: audit_step_def audit_entry_def trace_step_def v_str_def v_dict_def)

definition step_of :: "pydict \<Rightarrow> pydict" where
  "step_of a = [(''node'', dget a ''node'' PNone), (''action'', PStr ''processed''), (''summary'', dget a ''summary'' PNone),
     (''timestamp'', dget a ''ts'' PNone), (''details'', PDict [])]"

lemma run_main_steps:
  assumes "run_main env i body iocs src w = (Ok (Some (path, r)), w')" "a \<in> set (ms_audit r)"
  shows "audit_step a = Ok (step_of a)" "valid_model trace_step (step_of a)"
proof -
  from run_graph_logs [OF assms(1) [unfolded run_main_def]] assms(2)
  obtain n s where a: "a = audit_entry env n s" by (auto simp: logs_def entries_def initial_state_def)
  show "audit_step a = Ok (step_of a)"
    by (simp add: a audit_step_entry step_of_def) (simp add: audit_entry_def)
  show "valid_model trace_step (step_of a)"
    by (simp add: a step_of_def valid_model_def trace_step_def v_str_def v_dict_def) (simp add: audit_entry_def)
qed

section \<open>What is stored\<close>

definition with_trace :: "pydict list \<Rightarrow> pydict \<Rightarrow> pydict" where
  "with_trace steps e = fold (append_to ''trace'') steps e"

text \<open>The outcome can be stored: what the models, the responder and the clock deliver has the declared types.\<close>

definition storable :: "lax \<Rightarrow> main_state \<Rightarrow> bool" where
  "storable l r \<longleftrightarrow> field_accepts l ''final_verdict'' (verdict_of r) \<and>
     field_accepts l ''confidence'' (dget (sub_of r) ''confidence_score'' (ms_confidence r)) \<and>
     field_accepts l ''pending_approval_id'' (dget (pending_of r) ''approval_id'' PNone) \<and>
     field_accepts l ''execution_summary'' (dget (pending_of r) ''execution_summary'' PNone)"

lemma status_known: "event_status r \<in> {''completed'', ''rejected'', ''error'', ''pending_approval''}"
  by (simp add: event_status_def status_from_result_def Let_def)

lemma v_list_texts: "v_list v_str (PList (map PStr ss)) = Ok (PList (map PStr ss))"
proof -
  have "mapM v_str (map PStr ss) = Ok (map PStr ss)" by (induction ss) (simp_all add: v_str_def)
  then show ?thesis by (simp add: v_list_def)
qed

lemma accepts_simps:
  "field_accepts l ''status'' v = (v_one_of event_statuses v = Ok v)"
  "field_accepts l ''priority'' v = (v_opt v_str v = Ok v)"
  "field_accepts l ''tags'' v = (v_list v_str v = Ok v)"
  "field_accepts l ''duration_ms'' v = (v_opt (v_int l) v = Ok v)"
  "field_accepts l ''finished_at'' v = (v_opt v_str v = Ok v)"
  "field_accepts l ''final_verdict'' v = (v_opt v_str v = Ok v)"
  "field_accepts l ''confidence'' v = (v_opt (v_float l) v = Ok v)"
  "field_accepts l ''pending_approval_id'' v = (v_opt v_str v = Ok v)"
  "field_accepts l ''execution_summary'' v = (v_opt v_dict_or_list v = Ok v)"
  by (simp_all add: field_accepts_def event_record_def)

lemma accepts_fixed:
  "field_accepts l ''status'' (PStr (event_status r))"
  "field_accepts l ''priority'' (case p of Some s \<Rightarrow> PStr s | None \<Rightarrow> PNone)"
  "field_accepts l ''tags'' (PList (map PStr ss))"
  "field_accepts l ''duration_ms'' (PInt d)"
  "field_accepts l ''finished_at'' (PStr fin)"
  unfolding accepts_simps using status_known [of r]
  by (auto simp: v_list_texts validators(1,2,3,6) v_int_def split: option.splits)

lemma accepts_outcome:
  "storable l r \<Longrightarrow> \<forall>(k, v) \<in> set (outcome_fields d fin r). field_accepts l k v"
  unfolding outcome_fields_def storable_def by (simp add: accepts_fixed)

text \<open>Only the trace changes when steps are appended.\<close>

lemma dget_append_to: "k' \<noteq> k \<Longrightarrow> dget (append_to k x e) k' u = dget e k' u"
  by (simp add: append_to_def dget_def update_conv')

lemma dget_with_trace: "k \<noteq> ''trace'' \<Longrightarrow> dget (with_trace xs e) k u = dget e k u"
  by (induction xs arbitrary: e) (simp_all add: with_trace_def dget_append_to)

lemma trace_of_with_trace:
  "map_of e ''trace'' = Some (PList ys) \<Longrightarrow> map_of (with_trace xs e) ''trace'' = Some (PList (ys @ map PDict xs))"
proof (induction xs arbitrary: e ys)
  case (Cons x xs)
  have "map_of (append_to ''trace'' x e) ''trace'' = Some (PList (ys @ [PDict x]))"
    using Cons.prems by (simp add: append_to_def dget_def update_conv')
  from Cons.IH [OF this] show ?case by (simp add: with_trace_def)
qed (simp add: with_trace_def)

lemma settable_outcome:
  assumes "storable l r"
  shows "settable l (with_trace xs (event_of now i body iocs src)) (outcome_fields d fin r)"
proof -
  have "v = PNone \<longrightarrow> dget (with_trace xs (event_of now i body iocs src)) k (PInt 0) = PNone"
    if "(k, v) \<in> set (outcome_fields d fin r)" for k v
    using that by (auto simp: outcome_fields_def dget_with_trace event_of_def)
  with accepts_outcome [OF assms, of d fin] show ?thesis
    unfolding settable_def by (auto simp: outcome_fields_def)
qed

text \<open>The record of an event whose run has ended.\<close>

definition finished_event ::
    "string \<Rightarrow> string \<Rightarrow> string \<Rightarrow> pyval \<Rightarrow> string \<Rightarrow> int \<Rightarrow> string \<Rightarrow> main_state \<Rightarrow> pydict" where
  "finished_event now i body iocs src duration finished r =
     dupdate (with_trace (map step_of (ms_audit r)) (event_of now i body iocs src)) (outcome_fields duration finished r)"

context event_store
begin

lemma add_steps_stored:
  assumes "ok w" "view w i = Some e"
    and "\<And>a. a \<in> set as \<Longrightarrow> audit_step a = Ok (step_of a) \<and> valid_model trace_step (step_of a)"
  shows "\<exists>w'. add_steps st i as w = (Ok (), w') \<and> ok w' \<and>
    view w' = (view w)(i \<mapsto> with_trace (map step_of as) e)"
  using assms
proof (induction as arbitrary: w e)
  case (Cons a as)
  have a: "audit_step a = Ok (step_of a)" "valid_model trace_step (step_of a)" using Cons.prems(3) [of a] by simp_all
  from trace [OF Cons.prems(1) a(2), of i] Cons.prems(2) obtain w1 where w1:
    "so_trace st i (step_of a) w = (Ok (), w1)" "ok w1" "view w1 = (view w)(i \<mapsto> append_to ''trace'' (step_of a) e)"
    by auto
  have "view w1 i = Some (append_to ''trace'' (step_of a) e)" by (simp add: w1(3))
  from Cons.IH [OF w1(2) this] Cons.prems(3) show ?case
    using w1 a(1) by (fastforce simp: with_trace_def)
qed (simp add: with_trace_def fun_upd_idem)

lemma pipeline_stored:
  assumes "ok w" "fits i" "new_event (ee_lax env) (ee_now env) i body iocs src = Ok e"
    and graph: "\<And>w1. ok w1 \<Longrightarrow> \<exists>path r w2. run_main ge i body iocs src w1 = (Ok (Some (path, r)), w2) \<and>
      ok w2 \<and> view w2 = view w1 \<and> storable (ee_lax env) r"
  shows "\<exists>r w'. run_pipeline st ge d fin i body iocs src w = (Ok r, w') \<and> ok w' \<and>
    view w' = (view w)(i \<mapsto> finished_event (ee_now env) i body iocs src d fin r)"
proof -
  from assms(3) have e: "e = event_of (ee_now env) i body iocs src" by (simp add: new_event_iff)
  from create [OF assms(1,2,3)] obtain w1 where w1: "so_create st i body iocs src w = (Ok e, w1)" "ok w1"
    "view w1 = (view w)(i \<mapsto> e)" by blast
  from graph [OF w1(2)] obtain path r w2 where w2: "run_main ge i body iocs src w1 = (Ok (Some (path, r)), w2)"
    "ok w2" "view w2 = view w1" "storable (ee_lax env) r" by blast
  have v2: "view w2 i = Some e" by (simp add: w2(3) w1(3))
  from add_steps_stored [OF w2(2) v2, of "ms_audit r"] run_main_steps [OF w2(1)]
  obtain w3 where w3: "add_steps st i (ms_audit r) w2 = (Ok (), w3)" "ok w3"
    "view w3 = (view w2)(i \<mapsto> with_trace (map step_of (ms_audit r)) e)" by blast
  from update [OF w3(2), of i "outcome_fields d fin r"] settable_outcome [OF w2(4)]
  obtain w4 where w4: "so_update st i (outcome_fields d fin r) w3 = (Ok (), w4)" "ok w4"
    "view w4 = (view w3)(i := map_option (\<lambda>e. dupdate e (outcome_fields d fin r)) (view w3 i))"
    by (auto simp: w3(3) e)
  have "run_pipeline st ge d fin i body iocs src w = (Ok r, w4)"
    by (simp add: run_pipeline_def w1(1) w2(1) w3(1) w4(1))
  moreover have "view w4 = (view w)(i \<mapsto> finished_event (ee_now env) i body iocs src d fin r)"
    by (simp add: w4(3) w3(3) w2(3) w1(3) e finished_event_def)
  ultimately show ?thesis using w4(2) by blast
qed

text \<open>A run that raises leaves the record of the new event.\<close>

lemma pipeline_failed:
  assumes "ok w" "fits i" "new_event (ee_lax env) (ee_now env) i body iocs src = Ok e"
    and graph: "\<And>w1. ok w1 \<Longrightarrow> \<exists>w2. run_main ge i body iocs src w1 = (Raise exc, w2) \<and> ok w2 \<and> view w2 = view w1"
  shows "\<exists>w'. run_pipeline st ge d fin i body iocs src w = (Raise exc, w') \<and> ok w' \<and> view w' = (view w)(i \<mapsto> e)"
proof -
  from create [OF assms(1,2,3)] obtain w1 where w1: "so_create st i body iocs src w = (Ok e, w1)" "ok w1"
    "view w1 = (view w)(i \<mapsto> e)" by blast
  from graph [OF w1(2)] obtain w2 where w2: "run_main ge i body iocs src w1 = (Raise exc, w2)" "ok w2"
    "view w2 = view w1" by blast
  have "run_pipeline st ge d fin i body iocs src w = (Raise exc, w2)"
    by (simp add: run_pipeline_def w1(1) w2(1))
  with w2 w1(3) show ?thesis by auto
qed

end

lemma dget_dupdate: "distinct (map fst kvs) \<Longrightarrow> dget (dupdate e kvs) k u = (case map_of kvs k of Some v \<Rightarrow> v | None \<Rightarrow> dget e k u)"
proof -
  assume "distinct (map fst kvs)"
  then have "map_of (rev kvs) = map_of kvs" by (simp add: map_of_inject_set rev_map [symmetric])
  then show ?thesis by (auto simp: dget_def map_of_dupdate map_add_def split: option.splits)
qed

lemma finished_fields:
  "dget (finished_event now i body iocs src d fin r) ''status'' u = PStr (event_status r)"
  "dget (finished_event now i body iocs src d fin r) ''final_verdict'' u = verdict_of r"
  "dget (finished_event now i body iocs src d fin r) ''sanitized_text'' u = PStr body"
  "dget (finished_event now i body iocs src d fin r) ''trace'' u = PList (map (\<lambda>a. PDict (step_of a)) (ms_audit r))"
  "dget (finished_event now i body iocs src d fin r) ''evidence_summary'' u = PNone"
  "dget (finished_event now i body iocs src d fin r) ''poc'' u = PNone"
proof -
  have dk: "distinct (map fst (outcome_fields d fin r))" by (simp add: outcome_fields_def)
  have tr: "dget (with_trace (map step_of (ms_audit r)) (event_of now i body iocs src)) ''trace'' u =
      PList (map (\<lambda>a. PDict (step_of a)) (ms_audit r))"
    by (simp add: dget_def trace_of_with_trace [of _ "[]"] event_of_def comp_def)
  note f = finished_event_def dget_dupdate [OF dk]
  show "dget (finished_event now i body iocs src d fin r) ''status'' u = PStr (event_status r)"
    "dget (finished_event now i body iocs src d fin r) ''final_verdict'' u = verdict_of r"
    unfolding f by (simp_all add: outcome_fields_def)
  show "dget (finished_event now i body iocs src d fin r) ''sanitized_text'' u = PStr body"
    "dget (finished_event now i body iocs src d fin r) ''evidence_summary'' u = PNone"
    "dget (finished_event now i body iocs src d fin r) ''poc'' u = PNone"
    unfolding f by (simp_all add: outcome_fields_def dget_with_trace event_of_def)
  show "dget (finished_event now i body iocs src d fin r) ''trace'' u = PList (map (\<lambda>a. PDict (step_of a)) (ms_audit r))"
    unfolding f by (simp add: outcome_fields_def tr)
qed

section \<open>Properties\<close>

text \<open>The records of the configured store.\<close>

definition records_of :: "string \<Rightarrow> 'x event_world \<Rightarrow> (string \<times> pydict) list" where
  "records_of backend w = (if backend = ''memory'' then ew_mem w else ew_rows w)"

text \<open>A graph that leaves the store alone and delivers what can be stored.\<close>

definition leaves_records ::
    "'x event_world graph_env \<Rightarrow> string \<Rightarrow> string \<Rightarrow> string \<Rightarrow> pyval \<Rightarrow> string \<Rightarrow> bool" where
  "leaves_records ge backend i body iocs src \<longleftrightarrow>
     (\<forall>w. records_of backend (snd (run_main ge i body iocs src w)) = records_of backend w)"

definition delivers_storable ::
    "lax \<Rightarrow> 'x event_world graph_env \<Rightarrow> string \<Rightarrow> string \<Rightarrow> pyval \<Rightarrow> string \<Rightarrow> bool" where
  "delivers_storable l ge i body iocs src \<longleftrightarrow>
     (\<forall>w path r w'. run_main ge i body iocs src w = (Ok (Some (path, r)), w') \<longrightarrow> storable l r)"

lemma graph_result:
  assumes "calm ge" "leaves_records ge backend i body iocs src" "delivers_storable l ge i body iocs src"
  shows "\<exists>path r w2. run_main ge i body iocs src w1 = (Ok (Some (path, r)), w2) \<and>
    records_of backend w2 = records_of backend w1 \<and> storable l r"
proof -
  have "state_ok (initial_state i body iocs src)"
    by (simp add: state_ok_def initial_state_def sub_of_def score_ok_def py_or_def)
  then obtain out w2 where r: "run_main ge i body iocs src w1 = (Ok out, w2)"
    using run_graph_returns [OF assms(1)] unfolding run_main_def by blast
  from run_main_ends [OF this] obtain path st where "out = Some (path, st)" by (auto simp: ends_in_def)
  with r have r: "run_main ge i body iocs src w1 = (Ok (Some (path, st)), w2)" by simp
  moreover have "records_of backend w2 = records_of backend w1"
    using assms(2) r unfolding leaves_records_def by (metis snd_conv)
  moreover have "storable l st" using assms(3) r unfolding delivers_storable_def by blast
  ultimately show ?thesis by blast
qed


definition toy_pipeline_graph :: "unit event_world graph_env" where
  "toy_pipeline_graph = \<lparr>ge_rt = toy_rt, ge_now = ''2026'', ge_exn_str = (\<lambda>_. []), ge_fixed2 = (\<lambda>_. []),
     ge_triage = (\<lambda>_. io_return \<lparr>tr_priority = ''high'', tr_tags = [], tr_noise = 0, tr_reasoning = []\<rparr>),
     ge_investigate = (\<lambda>_. io_return [(''final_verdict'', PStr ''true_positive''), (''confidence_score'', PFloat 1)]),
     ge_vuln_hunt = (\<lambda>_. io_return []), ge_respond = (\<lambda>_. io_raise TimeoutError),
     ge_audit = (\<lambda>_ _ _ _. io_return ())\<rparr>"

lemma toy_pipeline_calm: "calm toy_pipeline_graph"
  by (simp add: calm_def toy_pipeline_graph_def uncancelled_def score_ok_def py_or_def)

lemma toy_pipeline_run:
  "\<exists>path r. run_main toy_pipeline_graph ''E'' ''scan'' (PDict []) ''api'' w = (Ok (Some (path, r)), w) \<and>
     storable strict_lax r \<and> event_status r = ''error''"
proof -
  have h: "honeypot_rule ''scan'' = False"
    by (simp add: honeypot_rule_def HONEYPOT_COMMANDS_def py_simps)
  show ?thesis
    by (simp add: run_main_def recursion_limit_def eval_nat_numeral node_body_def next_node_def
        toy_pipeline_graph_def initial_state_def entry_node_def orchestrator_node_def triage_def h try_audit_def
        io_try_def route_decision_def investigate_node_def aggregator_node_def sub_of_def Let_def
        route_after_verdict_def py_or_def num_res_def float_0_8_def respond_node_def is_Exception_def io_bind_def
        storable_def accepts_simps verdict_of_def pending_of_def validators v_float_def event_status_def
        status_from_result_def)
qed


text \<open>
  The evidence, the techniques and the exploit of an event are fields of its record that no run
  writes.
\<close>

lemma evidence_never_stored:
  "dget (finished_event now i body iocs src d fin r) ''evidence_summary'' u = PNone"
  by (rule finished_fields)

end
