(* ===== verification/Ingest.thy ===== *)
theory Ingest
  imports Pipeline Sanitize TaskQueue
begin

text \<open>
  How events come in: the consumer of raw alerts (\<open>src/preprocessing/consumer.py\<close>) masks each alert,
  extracts its indicators and puts it on the stream \<open>events:tasks\<close>
  (\<open>src/preprocessing/vulnscan_queue\<close>), as does the endpoint that submits an event
  (\<open>src/api/main.py\<close>); the scan engine (\<open>src/scan_engine/main.py\<close>) takes the entries off the stream and runs the
  pipeline for each. The world is a pair: the commands sent to the stream server so far, and the
  part of the component itself.
\<close>

section \<open>Two worlds\<close>

definition on_queue :: "('h, 'a) io \<Rightarrow> ('h \<times> 'y, 'a) io" where
  "on_queue m = (\<lambda>(h, y). let (r, h') = m h in (r, (h', y)))"

definition on_part :: "('y, 'a) io \<Rightarrow> ('h \<times> 'y, 'a) io" where
  "on_part m = (\<lambda>(h, y). let (r, y') = m y in (r, (h, y')))"

section \<open>Putting an event on the stream\<close>

definition EVENT_STREAM :: string where "EVENT_STREAM = ''events:tasks''"
definition EVENT_CONSUMER_GROUP :: string where "EVENT_CONSUMER_GROUP = ''scan-engine-events''"

text \<open>\<open>setdefault\<close>.\<close>

definition set_default :: "string \<Rightarrow> pyval \<Rightarrow> pydict \<Rightarrow> pydict" where
  "set_default k v d = (if map_of d k = None then d @ [(k, v)] else d)"

definition event_fields :: "(pyval \<Rightarrow> string) \<Rightarrow> string \<Rightarrow> string \<Rightarrow> pydict \<Rightarrow> pydict" where
  "event_fields dumps now event_id payload =
     [(''event_id'', PStr event_id),
      (''body'', PStr (dumps (PDict (set_default ''enqueued_at'' (PStr now)
         (set_default ''event_id'' (PStr event_id) payload)))))]"

definition enqueue_event ::
    "service \<Rightarrow> (pyval \<Rightarrow> string) \<Rightarrow> string \<Rightarrow> string \<Rightarrow> pydict \<Rightarrow> pyval qio" where
  "enqueue_event sv dumps now event_id payload =
     io_bind (call sv (XAdd EVENT_STREAM (event_fields dumps now event_id payload) (Some 10000)))
       (\<lambda>a. io_return (ans_value a))"

definition ensure_event_consumer_group :: "service \<Rightarrow> unit qio" where
  "ensure_event_consumer_group sv = ensure_group sv (Some EVENT_STREAM) (Some EVENT_CONSUMER_GROUP)"

section \<open>The consumer of raw alerts\<close>

text \<open>
  The consumer's place in the topic: the offset of the next alert, the offset committed to the
  broker, and the letters handed to the producer of the dead-letter topic.
\<close>

record topic =
  tp_position :: nat
  tp_committed :: nat
  tp_dead :: "pydict list"

record consumer =
  co_rules :: "rule list"
  co_patterns :: ioc_patterns
  co_topic :: string
  co_loads :: "string \<Rightarrow> pyval res"
  co_dumps :: "pyval \<Rightarrow> string"
  co_sha256 :: "string \<Rightarrow> string"
  co_now :: string
  co_uuid :: string
  co_exn_str :: "exn \<Rightarrow> string"
  co_service :: service
  co_send :: "topic \<Rightarrow> exn option"
  co_commit :: "topic \<Rightarrow> exn option"
  co_kafka_error :: "exn \<Rightarrow> bool"

type_synonym 'a cio = "(cmd list \<times> topic, 'a) io"

text \<open>The first of the identifying fields that is a text and not empty.\<close>

fun first_id :: "string list \<Rightarrow> pydict \<Rightarrow> string option" where
  "first_id [] d = None"
| "first_id (k # ks) d = (case dget d k PNone of PStr (c # cs) \<Rightarrow> Some (c # cs) | _ \<Rightarrow> first_id ks d)"

definition id_keys :: "string list" where
  "id_keys = [''id'', ''event_id'', ''alert_id'', ''uuid'']"

definition stable_event_id :: "consumer \<Rightarrow> string \<Rightarrow> string \<Rightarrow> string" where
  "stable_event_id c raw source =
     (let hashed = ''sha256:'' @ take 32 (co_sha256 c raw) in
      case co_loads c raw of
        Inr (PDict d) \<Rightarrow> (case first_id id_keys d of Some v \<Rightarrow> source @ '':'' @ v | None \<Rightarrow> hashed)
      | _ \<Rightarrow> hashed)"

definition iocs_value :: "ioc_bundle \<Rightarrow> pyval" where
  "iocs_value b = PDict
     [(''ips'', PList (map PStr (ips b))), (''domains'', PList (map PStr (domains b))),
      (''hashes'', PList (map PStr (hashes b))), (''urls'', PList (map PStr (urls b)))]"

definition process :: "consumer \<Rightarrow> string \<Rightarrow> string option \<Rightarrow> pydict res" where
  "process c raw event_id =
     rbind (sanitize (co_rules c) raw) (\<lambda>sanitized.
     Ok [(''event_id'', PStr (name_or event_id (co_uuid c))), (''sanitized_text'', PStr sanitized),
         (''iocs'', iocs_value (extract_iocs (co_patterns c) sanitized)), (''timestamp'', PStr (co_now c)),
         (''source'', PStr ''kafka'')])"

definition emit_payload :: "consumer \<Rightarrow> pydict \<Rightarrow> pydict" where
  "emit_payload c event =
     [(''event_id'', dget event ''event_id'' PNone), (''sanitized_text'', dget event ''sanitized_text'' (PStr [])),
      (''iocs'', dget event ''iocs'' (PDict [])), (''source'', dget event ''source'' (PStr ''kafka'')),
      (''ts'', dget event ''timestamp'' (PStr (co_now c)))]"

definition emit :: "consumer \<Rightarrow> pydict \<Rightarrow> unit cio" where
  "emit c event =
     io_bind (on_queue (enqueue_event (co_service c) (co_dumps c) (co_now c) (env_str event ''event_id'')
       (emit_payload c event))) (\<lambda>_. io_return ())"

text \<open>A dead letter carries the alert as it came.\<close>

definition send_dlq :: "consumer \<Rightarrow> string \<Rightarrow> string \<Rightarrow> bool cio" where
  "send_dlq c raw err = (\<lambda>(h, t). case co_send c t of
     None \<Rightarrow> (Ok True, (h, t\<lparr>tp_dead := tp_dead t @
       [[(''raw'', PStr raw), (''error'', PStr err), (''ts'', PStr (co_now c))]]\<rparr>))
   | Some e \<Rightarrow> if co_kafka_error c e then (Ok False, (h, t)) else (Raise e, (h, t)))"

text \<open>Committing without an offset commits the position: everything that was taken so far.\<close>

definition commit :: "consumer \<Rightarrow> unit cio" where
  "commit c = (\<lambda>(h, t). case co_commit c t of
     None \<Rightarrow> (Ok (), (h, t\<lparr>tp_committed := tp_position t\<rparr>)) | Some e \<Rightarrow> (Raise e, (h, t)))"

text \<open>One turn of the loop: taking the alert moves the position.\<close>

definition take_one :: "unit cio" where
  "take_one = io_modify (\<lambda>(h, t). (h, t\<lparr>tp_position := Suc (tp_position t)\<rparr>))"

definition handle_alert :: "consumer \<Rightarrow> string \<Rightarrow> unit cio" where
  "handle_alert c raw =
     (case process c raw (Some (stable_event_id c raw (co_topic c))) of
        Inl e \<Rightarrow>
          if is_Exception e then
            io_bind (send_dlq c raw (co_exn_str c e)) (\<lambda>sent. if sent then commit c else io_return ())
          else io_raise e
      | Inr structured \<Rightarrow>
          io_try (io_bind (emit c structured) (\<lambda>_. commit c)) (\<lambda>e. io_return ()))"

fun run_consumer :: "consumer \<Rightarrow> string list \<Rightarrow> unit cio" where
  "run_consumer c [] = io_return ()"
| "run_consumer c (raw # raws) =
     io_bind take_one (\<lambda>_. io_bind (handle_alert c raw) (\<lambda>_. run_consumer c raws))"

section \<open>Submitting an event through the API\<close>

definition submit_event ::
    "'x store_ops \<Rightarrow> service \<Rightarrow> (pyval \<Rightarrow> string) \<Rightarrow> string \<Rightarrow> (exn \<Rightarrow> string) \<Rightarrow> string \<Rightarrow> string \<Rightarrow> string \<Rightarrow> pyval \<Rightarrow>
     string \<Rightarrow> (cmd list \<times> 'x event_world, pydict) io" where
  "submit_event st sv dumps now exn_str username event_id body iocs source =
     io_bind (on_part (so_create st event_id body iocs source)) (\<lambda>_.
     io_bind (io_try
       (io_bind (on_queue (enqueue_event sv dumps now event_id
          [(''event_id'', PStr event_id), (''sanitized_text'', PStr body), (''iocs'', iocs),
           (''source'', PStr source), (''submitted_by'', PStr username)])) (\<lambda>_. io_return ()))
       (\<lambda>e. io_bind (io_try (on_part (so_update st event_id [(''status'', PStr ''error'')])) (\<lambda>_. io_return ()))
          (\<lambda>_. io_raise (HTTPException 503 [''event enqueue failed: '', exn_str e])))) (\<lambda>_.
     io_return [(''event_id'', PStr event_id), (''status'', PStr ''processing'')]))"

section \<open>Taking events off the stream\<close>

type_synonym 'x pipeline = "string \<Rightarrow> string \<Rightarrow> pyval \<Rightarrow> string \<Rightarrow> ('x, main_state) eio"

text \<open>
  A body that is missing or no JSON is dropped; identifier, text and source must be texts, as the
  first statement of the pipeline demands.
\<close>

definition dispatch_body :: "'x pipeline \<Rightarrow> pydict \<Rightarrow> pyval \<Rightarrow> ('x, unit) eio" where
  "dispatch_body pipe entry body =
     (case body of
        PDict d \<Rightarrow>
          (case (py_or (dget d ''event_id'' PNone) (dget entry ''event_id'' (PStr ''unknown'')),
                 dget d ''sanitized_text'' (PStr []), dget d ''source'' (PStr EVENT_STREAM)) of
             (PStr event_id, PStr sanitized_text, PStr source) \<Rightarrow>
               io_bind (pipe event_id sanitized_text (dget d ''iocs'' (PDict [])) source) (\<lambda>_. io_return ())
           | _ \<Rightarrow> io_raise ValueError)
      | _ \<Rightarrow> io_raise AttributeError)"

definition dispatch_event :: "(string \<Rightarrow> pyval res) \<Rightarrow> 'x pipeline \<Rightarrow> pydict \<Rightarrow> ('x, unit) eio" where
  "dispatch_event loads pipe entry =
     (let raw = dget entry ''body'' PNone in
      if \<not> truthy raw then io_return ()
      else case (case raw of PStr s \<Rightarrow> loads s | v \<Rightarrow> Ok v) of
        Inl e \<Rightarrow> if is_Exception e then io_return () else io_raise e
      | Inr body \<Rightarrow> dispatch_body pipe entry body)"

type_synonym 'x engine = "cmd list \<times> 'x event_world"

text \<open>Dispatching and acknowledging one entry: neither failure stops the loop.\<close>

definition event_ack :: "service \<Rightarrow> string \<Rightarrow> ('x engine, unit) io" where
  "event_ack sv entry_id = io_try
     (io_bind (on_queue (call sv (XAck EVENT_STREAM EVENT_CONSUMER_GROUP entry_id))) (\<lambda>_. io_return ()))
     (\<lambda>e. io_return ())"

definition handle_entry ::
    "service \<Rightarrow> (pydict \<Rightarrow> ('x, unit) eio) \<Rightarrow> string \<times> pydict \<Rightarrow> ('x engine, unit) io" where
  "handle_entry sv dispatch entry =
     io_bind (io_try (on_part (dispatch (snd entry))) (\<lambda>e. io_return ())) (\<lambda>_. event_ack sv (fst entry))"

fun handle_entries ::
    "service \<Rightarrow> (pydict \<Rightarrow> ('x, unit) eio) \<Rightarrow> (string \<times> pydict) list \<Rightarrow> ('x engine, unit) io" where
  "handle_entries sv dispatch [] = io_return ()"
| "handle_entries sv dispatch (e # es) = io_bind (handle_entry sv dispatch e) (\<lambda>_. handle_entries sv dispatch es)"

text \<open>An entry taken over from a consumer that died: acknowledged after its run, or after its failure.\<close>

definition handle_stale ::
    "service \<Rightarrow> (pydict \<Rightarrow> ('x, unit) eio) \<Rightarrow> string \<times> pydict \<Rightarrow> ('x engine, unit) io" where
  "handle_stale sv dispatch entry =
     io_try (io_bind (on_part (dispatch (snd entry))) (\<lambda>_.
             io_bind (on_queue (call sv (XAck EVENT_STREAM EVENT_CONSUMER_GROUP (fst entry)))) (\<lambda>_. io_return ())))
       (\<lambda>e. event_ack sv (fst entry))"

fun handle_all_stale ::
    "service \<Rightarrow> (pydict \<Rightarrow> ('x, unit) eio) \<Rightarrow> (string \<times> pydict) list \<Rightarrow> ('x engine, unit) io" where
  "handle_all_stale sv dispatch [] = io_return ()"
| "handle_all_stale sv dispatch (e # es) =
     io_bind (handle_stale sv dispatch e) (\<lambda>_. handle_all_stale sv dispatch es)"

definition events_min_idle_ms :: nat where "events_min_idle_ms = 60000"
definition max_claims_default :: nat where "max_claims_default = 100"

definition claim_events ::
    "service \<Rightarrow> (pydict \<Rightarrow> ('x, unit) eio) \<Rightarrow> string \<Rightarrow> ('x engine, unit) io" where
  "claim_events sv dispatch consumer =
     io_try (io_bind (on_queue (claim_stale_batch sv EVENT_STREAM EVENT_CONSUMER_GROUP consumer
         events_min_idle_ms max_claims_default)) (handle_all_stale sv dispatch))
       (\<lambda>e. io_return ())"

text \<open>One turn: a short read, and the group made anew when the stream was deleted.\<close>

definition recreate_group :: "service \<Rightarrow> ('x engine, unit) io" where
  "recreate_group sv = io_try
     (io_bind (on_queue (call sv (XGroupCreate EVENT_STREAM EVENT_CONSUMER_GROUP))) (\<lambda>_. io_return ()))
     (\<lambda>e. io_return ())"

definition events_turn ::
    "service \<Rightarrow> (exn \<Rightarrow> string) \<Rightarrow> (pydict \<Rightarrow> ('x, unit) eio) \<Rightarrow> string \<Rightarrow> ('x engine, unit) io" where
  "events_turn sv exn_str dispatch consumer =
     io_bind (io_try
       (io_bind (on_queue (call sv (XReadGroup EVENT_STREAM EVENT_CONSUMER_GROUP consumer 2000)))
          (\<lambda>a. io_return (ans_entries a)))
       (\<lambda>e. io_bind (if str_in ''NOGROUP'' (exn_str e) then recreate_group sv else io_return ())
          (\<lambda>_. io_return [])))
       (handle_entries sv dispatch)"

text \<open>The loop runs until it is told to stop, here after a number of turns.\<close>

fun events_turns ::
    "service \<Rightarrow> (exn \<Rightarrow> string) \<Rightarrow> (pydict \<Rightarrow> ('x, unit) eio) \<Rightarrow> string \<Rightarrow> nat \<Rightarrow> ('x engine, unit) io" where
  "events_turns sv exn_str dispatch consumer 0 = io_return ()"
| "events_turns sv exn_str dispatch consumer (Suc n) =
     io_bind (events_turn sv exn_str dispatch consumer) (\<lambda>_. events_turns sv exn_str dispatch consumer n)"

definition events_consumer_loop ::
    "service \<Rightarrow> (exn \<Rightarrow> string) \<Rightarrow> (pydict \<Rightarrow> ('x, unit) eio) \<Rightarrow> string \<Rightarrow> nat \<Rightarrow> ('x engine, unit) io" where
  "events_consumer_loop sv exn_str dispatch consumer turns =
     io_bind (on_queue (ensure_event_consumer_group sv)) (\<lambda>_.
     io_bind (claim_events sv dispatch consumer) (\<lambda>_.
     events_turns sv exn_str dispatch consumer turns))"

section \<open>Watching the task queue\<close>

record alert_cfg =
  ac_queued :: int
  ac_oldest :: int
  ac_enabled :: bool
  ac_interval :: int

definition default_alert_cfg :: alert_cfg where
  "default_alert_cfg = \<lparr>ac_queued = 50, ac_oldest = 1800, ac_enabled = True, ac_interval = 60\<rparr>"

text \<open>Any failure, and a missing row, means the defaults.\<close>

definition load_alert_cfg :: "pydict option res \<Rightarrow> alert_cfg" where
  "load_alert_cfg answer =
     (case rbind answer (\<lambda>row. case row of
          None \<Rightarrow> Ok default_alert_cfg
        | Some d \<Rightarrow>
            rbind (rbind (dindex d ''queued_threshold'') py_int) (\<lambda>q.
            rbind (rbind (dindex d ''oldest_age_sec'') py_int) (\<lambda>a.
            rbind (dindex d ''scan_check_enabled'') (\<lambda>b.
            rbind (rbind (dindex d ''check_interval_sec'') py_int) (\<lambda>n.
            Ok \<lparr>ac_queued = q, ac_oldest = a, ac_enabled = truthy b, ac_interval = n\<rparr>))))) of
        Inr cfg \<Rightarrow> cfg | Inl e \<Rightarrow> default_alert_cfg)"

datatype queue_alert = Queued_exceeded | Oldest_exceeded | High_pending

text \<open>The age of the oldest entry in seconds: its identifier begins with the milliseconds of its arrival.\<close>

definition oldest_age :: "int \<Rightarrow> string option \<Rightarrow> rat" where
  "oldest_age now_ms oldest = (case oldest of
     None \<Rightarrow> 0
   | Some i \<Rightarrow> (case int_of_str (case split_once (CHR ''-'') i of Some (p, _) \<Rightarrow> p | None \<Rightarrow> i) of
       None \<Rightarrow> 0 | Some ms \<Rightarrow> max 0 (of_int (now_ms - ms) / 1000)))"

definition queue_alerts :: "alert_cfg \<Rightarrow> int \<Rightarrow> int \<Rightarrow> rat \<Rightarrow> queue_alert list" where
  "queue_alerts cfg xlen pending age =
     (if xlen \<ge> ac_queued cfg then [Queued_exceeded] else []) @
     (if age \<ge> of_int (ac_oldest cfg) then [Oldest_exceeded] else []) @
     (if pending > 0 \<and> pending \<ge> ac_queued cfg div 2 then [High_pending] else [])"

text \<open>One pass of the watch: the alerts, and the seconds until the next pass.\<close>

definition alert_scan ::
    "pydict option res \<Rightarrow> int \<Rightarrow> (int \<times> int \<times> int \<times> string option) res \<Rightarrow> queue_alert list \<times> int" where
  "alert_scan row interval queue =
     (let cfg = load_alert_cfg row in
      if \<not> ac_enabled cfg then ([], interval)
      else let next = max 10 (ac_interval cfg) in
        case queue of
          Inl e \<Rightarrow> ([], next)
        | Inr (xlen, pending, now_ms, first) \<Rightarrow> (queue_alerts cfg xlen pending (oldest_age now_ms first), next))"

section \<open>Liveness\<close>

definition healthz :: "bool \<Rightarrow> bool \<Rightarrow> pydict" where
  "healthz worker_alive consumer_alive =
     [(''status'', PStr (if worker_alive \<or> consumer_alive then ''ok'' else ''degraded'')),
      (''service'', PStr ''scan-engine''), (''task_worker_alive'', PBool worker_alive),
      (''events_consumer_alive'', PBool consumer_alive)]"

end
