(* ===== verification/IngestLaws.thy ===== *)
theory IngestLaws
  imports Ingest
begin

text \<open>
  Properties of the way in: only masked text is queued, an alert is queued or set aside when the
  servers take what they are given, every entry read is run once and acknowledged, and a submission
  is queued or answered with an error.
\<close>

section \<open>The consumer of raw alerts\<close>

lemma mask_uncancelled: "apply_mask body sp \<noteq> Inl CancelledError"
  by (simp add: apply_mask_def Let_def split: option.splits)

lemma apply_loop_uncancelled: "apply_loop body cursor ss \<noteq> Inl CancelledError"
proof (induction ss arbitrary: cursor)
  case (Cons s ss)
  then show ?case using mask_uncancelled [of body s]
    by (cases "apply_mask body s"; cases "apply_loop body (send s) ss") (simp_all, metis sum.inject(1))
qed simp

lemma sanitize_uncancelled: "sanitize rules body \<noteq> Inl CancelledError"
  by (simp add: sanitize_def apply_spans_def apply_loop_uncancelled)

lemma process_Inl: "process c raw i = Inl e \<longleftrightarrow> sanitize (co_rules c) raw = Inl e"
  by (cases "sanitize (co_rules c) raw") (simp_all add: process_def)

text \<open>The identifier of an alert, the command that queues it, and its dead letter.\<close>

definition alert_id :: "consumer \<Rightarrow> string \<Rightarrow> string" where
  "alert_id c raw = stable_event_id c raw (co_topic c)"

definition alert_payload :: "consumer \<Rightarrow> string \<Rightarrow> string \<Rightarrow> pydict" where
  "alert_payload c raw masked =
     [(''event_id'', PStr (name_or (Some (alert_id c raw)) (co_uuid c))), (''sanitized_text'', PStr masked),
      (''iocs'', iocs_value (extract_iocs (co_patterns c) masked)), (''source'', PStr ''kafka''),
      (''ts'', PStr (co_now c))]"

definition alert_cmd :: "consumer \<Rightarrow> string \<Rightarrow> string \<Rightarrow> cmd" where
  "alert_cmd c raw masked =
     XAdd EVENT_STREAM (event_fields (co_dumps c) (co_now c) (name_or (Some (alert_id c raw)) (co_uuid c))
       (alert_payload c raw masked)) (Some 10000)"

definition dead_letter :: "consumer \<Rightarrow> string \<Rightarrow> exn \<Rightarrow> pydict" where
  "dead_letter c raw e = [(''raw'', PStr raw), (''error'', PStr (co_exn_str c e)), (''ts'', PStr (co_now c))]"

lemma emit_eq:
  assumes "process c raw (Some (alert_id c raw)) = Inr x" "sanitize (co_rules c) raw = Inr masked"
  shows "emit c x (h, t) = (case co_service c h (alert_cmd c raw masked) of
     A_Err e \<Rightarrow> (Inl e, (h @ [alert_cmd c raw masked], t)) | _ \<Rightarrow> (Inr (), (h @ [alert_cmd c raw masked], t)))"
proof -
  have x: "x = [(''event_id'', PStr (name_or (Some (alert_id c raw)) (co_uuid c))), (''sanitized_text'', PStr masked),
      (''iocs'', iocs_value (extract_iocs (co_patterns c) masked)), (''timestamp'', PStr (co_now c)),
      (''source'', PStr ''kafka'')]"
    using assms by (simp add: process_def)
  show ?thesis
    by (auto simp: emit_def on_queue_def enqueue_event_def call_def x env_str_def emit_payload_def
        alert_cmd_def alert_payload_def io_bind_def Let_def split: answer.splits)
qed

lemma call_add_only:
  "snd (handle_alert c raw (h, t)) = (h', t') \<Longrightarrow>
   h' = h \<or> (\<exists>masked. sanitize (co_rules c) raw = Inr masked \<and> h' = h @ [alert_cmd c raw masked])"
proof (cases "sanitize (co_rules c) raw")
  case (Inl e)
  then have p: "process c raw (Some (stable_event_id c raw (co_topic c))) = Inl e" by (simp add: process_Inl)
  assume "snd (handle_alert c raw (h, t)) = (h', t')"
  then show ?thesis
    by (auto simp: handle_alert_def p send_dlq_def commit_def io_bind_def split: option.splits if_splits)
next
  case (Inr masked)
  then obtain x where p: "process c raw (Some (alert_id c raw)) = Inr x" by (simp add: process_def)
  assume "snd (handle_alert c raw (h, t)) = (h', t')"
  then show ?thesis
    by (auto simp: handle_alert_def p [unfolded alert_id_def] io_bind_def io_try_def commit_def
        emit_eq [OF p Inr] Inr split: answer.splits option.splits if_splits)
qed


definition toy_consumer :: consumer where
  "toy_consumer = \<lparr>co_rules = [], co_patterns = \<lparr>ip_re = (\<lambda>_. []), domain_re = (\<lambda>_. []), sha256_re = (\<lambda>_. []),
       sha1_re = (\<lambda>_. []), md5_re = (\<lambda>_. []), url_re = (\<lambda>_. [])\<rparr>, co_topic = ''raw'', co_loads = (\<lambda>_. Raise ValueError),
     co_dumps = (\<lambda>_. ''{}''), co_sha256 = (\<lambda>s. s), co_now = ''2026'', co_uuid = ''u'', co_exn_str = (\<lambda>_. []),
     co_service = (\<lambda>_ _. A_Done), co_send = (\<lambda>_. None), co_commit = (\<lambda>_. None), co_kafka_error = (\<lambda>_. True)\<rparr>"

definition toy_topic :: topic where
  "toy_topic = \<lparr>tp_position = 0, tp_committed = 0, tp_dead = []\<rparr>"

lemma sanitize_no_rules: "sanitize [] raw = Inr raw"
  by (simp add: sanitize_def find_spans_def resolve_spans_def apply_spans_def)

lemma toy_handles:
  "handle_alert toy_consumer raw (h, t) =
     (Inr (), (h @ [alert_cmd toy_consumer raw raw], t\<lparr>tp_committed := tp_position t\<rparr>))"
proof -
  have s: "sanitize (co_rules toy_consumer) raw = Inr raw" by (simp add: toy_consumer_def sanitize_no_rules)
  then obtain x where p: "process toy_consumer raw (Some (alert_id toy_consumer raw)) = Inr x"
    by (simp add: process_def)
  show ?thesis
    by (simp add: handle_alert_def p [unfolded alert_id_def] io_bind_def io_try_def emit_eq [OF p s])
      (simp add: toy_consumer_def commit_def)
qed


section \<open>Nothing is lost while the servers answer\<close>

definition queued :: "consumer \<Rightarrow> string \<Rightarrow> cmd option" where
  "queued c raw = (case sanitize (co_rules c) raw of Inr masked \<Rightarrow> Some (alert_cmd c raw masked) | Inl e \<Rightarrow> None)"

definition set_aside :: "consumer \<Rightarrow> string \<Rightarrow> pydict option" where
  "set_aside c raw = (case sanitize (co_rules c) raw of Inl e \<Rightarrow> Some (dead_letter c raw e) | Inr masked \<Rightarrow> None)"

text \<open>Servers that take what they are given.\<close>

definition servers_answer :: "consumer \<Rightarrow> bool" where
  "servers_answer c \<longleftrightarrow> (\<forall>h x e. co_service c h x \<noteq> A_Err e) \<and> (\<forall>t. co_send c t = None) \<and> (\<forall>t. co_commit c t = None)"

lemma handle_answered:
  assumes "servers_answer c"
  shows "handle_alert c raw (h, t) = (Ok (),
    (h @ (case queued c raw of Some x \<Rightarrow> [x] | None \<Rightarrow> []),
     t\<lparr>tp_committed := tp_position t, tp_dead := tp_dead t @ (case set_aside c raw of Some x \<Rightarrow> [x] | None \<Rightarrow> [])\<rparr>))"
proof (cases "sanitize (co_rules c) raw")
  case (Inl e)
  then have p: "process c raw (Some (stable_event_id c raw (co_topic c))) = Inl e" by (simp add: process_Inl)
  have "is_Exception e" using sanitize_uncancelled [of "co_rules c" raw] Inl by (auto simp: is_Exception_def)
  with assms show ?thesis
    by (simp add: handle_alert_def p send_dlq_def commit_def io_bind_def servers_answer_def queued_def
        set_aside_def Inl dead_letter_def)
next
  case (Inr masked)
  then obtain x where p: "process c raw (Some (alert_id c raw)) = Inr x" by (simp add: process_def)
  have e: "emit c x (h, t) = (Inr (), (h @ [alert_cmd c raw masked], t))"
    using assms by (auto simp: emit_eq [OF p Inr] servers_answer_def split: answer.splits)
  with assms show ?thesis
    by (simp add: handle_alert_def p [unfolded alert_id_def] io_bind_def io_try_def commit_def
        servers_answer_def queued_def set_aside_def Inr)
qed

text \<open>C18: while the servers take what they are given, the consumer goes through all alerts without an
  error; each is queued, in order, or set aside as a dead letter when it cannot be masked, and all
  of them are committed.\<close>

theorem alerts_accounted:
  assumes "servers_answer c" "raws \<noteq> []"
  shows "run_consumer c raws (h, t) = (Ok (), (h @ List.map_filter (queued c) raws,
    t\<lparr>tp_position := tp_position t + length raws, tp_committed := tp_position t + length raws,
      tp_dead := tp_dead t @ List.map_filter (set_aside c) raws\<rparr>))"
  using assms(2)
proof (induction raws arbitrary: h t)
  case (Cons raw raws)
  let ?h = "h @ (case queued c raw of Some x \<Rightarrow> [x] | None \<Rightarrow> [])"
  let ?t = "t\<lparr>tp_position := Suc (tp_position t), tp_committed := Suc (tp_position t),
      tp_dead := tp_dead t @ (case set_aside c raw of Some x \<Rightarrow> [x] | None \<Rightarrow> [])\<rparr>"
  have "run_consumer c (raw # raws) (h, t) = run_consumer c raws (?h, ?t)"
    by (simp add: take_one_def handle_answered [OF assms(1)])
  moreover have "run_consumer c raws (?h, ?t) = (Ok (), (?h @ List.map_filter (queued c) raws,
      ?t\<lparr>tp_position := tp_position ?t + length raws, tp_committed := tp_position ?t + length raws,
        tp_dead := tp_dead ?t @ List.map_filter (set_aside c) raws\<rparr>))"
    using Cons.IH [of ?h ?t] by (cases "raws = []") (simp_all add: List.map_filter_def)
  ultimately show ?case by (simp add: List.map_filter_simps split: option.splits)
qed simp

theorem alerts_accounted_witness:
  "servers_answer toy_consumer \<and>
   run_consumer toy_consumer [''a'', ''b''] ([], toy_topic) =
     (Ok (), ([] @ List.map_filter (queued toy_consumer) [''a'', ''b''],
      toy_topic\<lparr>tp_position := tp_position toy_topic + length [''a'', ''b''],
        tp_committed := tp_position toy_topic + length [''a'', ''b''],
        tp_dead := tp_dead toy_topic @ List.map_filter (set_aside toy_consumer) [''a'', ''b'']\<rparr>))"
proof -
  have "servers_answer toy_consumer" by (simp add: servers_answer_def toy_consumer_def)
  with alerts_accounted [OF this, of "[''a'', ''b'']" "[]" toy_topic] show ?thesis by simp
qed

text \<open>
  An alert whose entry the stream server refuses is not committed; the commit of the next one passes
  over it, and the broker does not deliver it again.
\<close>

definition busy_consumer :: consumer where
  "busy_consumer = toy_consumer\<lparr>co_service := (\<lambda>h x. if h = [] then A_Err TimeoutError else A_Done)\<rparr>"

lemma failed_alert_passed_over:
  "\<exists>h. run_consumer busy_consumer [''a'', ''b''] ([], toy_topic) =
     (Ok (), (h, toy_topic\<lparr>tp_position := 2, tp_committed := 2\<rparr>)) \<and>
   fst (run_consumer busy_consumer [''a''] ([], toy_topic)) = Ok () \<and>
   tp_committed (snd (snd (run_consumer busy_consumer [''a''] ([], toy_topic)))) = 0"
  by (simp add: take_one_def handle_alert_def process_def busy_consumer_def toy_consumer_def toy_topic_def
      sanitize_no_rules emit_def on_queue_def enqueue_event_def call_def commit_def io_bind_def io_try_def Let_def
      is_Exception_def)

section \<open>The events loop\<close>

text \<open>What the runs of some entries make of the component's part, one after the other.\<close>

fun all_runs :: "(pydict \<Rightarrow> ('x, unit) eio) \<Rightarrow> (string \<times> pydict) list \<Rightarrow> 'x event_world \<Rightarrow> 'x event_world" where
  "all_runs dispatch [] y = y"
| "all_runs dispatch (e # es) y = all_runs dispatch es (snd (dispatch (snd e) y))"

definition ack_cmd :: "string \<Rightarrow> cmd" where
  "ack_cmd entry_id = XAck EVENT_STREAM EVENT_CONSUMER_GROUP entry_id"

definition redis_alive :: "service \<Rightarrow> bool" where
  "redis_alive sv \<longleftrightarrow> (\<forall>h x. sv h x \<noteq> A_Err CancelledError)"

lemma event_ack_runs:
  assumes "redis_alive sv"
  shows "event_ack sv i (h, y) = (Inr (), (h @ [ack_cmd i], y))"
proof -
  have "is_Exception e" if "sv h (XAck EVENT_STREAM EVENT_CONSUMER_GROUP i) = A_Err e" for e
    using assms that by (auto simp: redis_alive_def is_Exception_def)
  then show ?thesis
    by (auto simp: event_ack_def ack_cmd_def on_queue_def call_def io_bind_def io_try_def Let_def split: answer.splits)
qed

lemma handle_entry_runs:
  assumes "redis_alive sv" "uncancelled (dispatch (snd e))"
  shows "handle_entry sv dispatch e (h, y) = (Inr (), (h @ [ack_cmd (fst e)], snd (dispatch (snd e) y)))"
proof -
  have "fst (dispatch (snd e) y) \<noteq> Inl CancelledError" using assms(2) by (simp add: uncancelled_def)
  then have "io_try (on_part (dispatch (snd e))) (\<lambda>e. io_return ()) (h, y) = (Inr (), (h, snd (dispatch (snd e) y)))"
    by (cases "dispatch (snd e) y"; cases "fst (dispatch (snd e) y)")
      (auto simp: io_try_def on_part_def is_Exception_def)
  then show ?thesis by (simp add: handle_entry_def event_ack_runs [OF assms(1)])
qed

lemma handle_entries_run:
  "redis_alive sv \<Longrightarrow> (\<And>d. uncancelled (dispatch d)) \<Longrightarrow>
   handle_entries sv dispatch es (h, y) = (Inr (), (h @ map (ack_cmd \<circ> fst) es, all_runs dispatch es y))"
  by (induction es arbitrary: h y) (simp_all add: handle_entry_runs)

text \<open>C30: a turn of the events loop gives every entry it has read to the pipeline exactly once, in
  order, and acknowledges each, whether its run succeeded or failed; the loop itself goes on.\<close>

theorem every_entry_acknowledged:
  assumes "redis_alive sv" "\<forall>d. uncancelled (dispatch d)"
    and "sv h (XReadGroup EVENT_STREAM EVENT_CONSUMER_GROUP consumer 2000) = A_Entries es"
  shows "events_turn sv exn_str dispatch consumer (h, y) = (Ok (),
    (h @ XReadGroup EVENT_STREAM EVENT_CONSUMER_GROUP consumer 2000 # map (ack_cmd \<circ> fst) es,
     all_runs dispatch es y))"
proof -
  have "io_bind (on_queue (call sv (XReadGroup EVENT_STREAM EVENT_CONSUMER_GROUP consumer 2000)))
      (\<lambda>a. io_return (ans_entries a)) (h, y) =
      (Inr es, (h @ [XReadGroup EVENT_STREAM EVENT_CONSUMER_GROUP consumer 2000], y))"
    by (simp add: on_queue_def call_def assms(3) io_bind_def)
  with handle_entries_run [of sv dispatch es] assms(1,2) show ?thesis by (simp add: events_turn_def)
qed

definition toy_entries :: "(string \<times> pydict) list" where
  "toy_entries = [(''1-0'', []), (''2-0'', [])]"

definition toy_stream :: service where
  "toy_stream = (\<lambda>h c. case c of XReadGroup _ _ _ _ \<Rightarrow> A_Entries toy_entries | _ \<Rightarrow> A_Done)"

definition toy_dispatch :: "pydict \<Rightarrow> (unit, unit) eio" where
  "toy_dispatch d = io_raise ValueError"

theorem every_entry_acknowledged_witness:
  "events_turn toy_stream (\<lambda>_. []) toy_dispatch ''c'' ([], toy_world) = (Ok (),
    ([] @ XReadGroup EVENT_STREAM EVENT_CONSUMER_GROUP ''c'' 2000 #
       map (ack_cmd \<circ> fst) toy_entries,
     all_runs toy_dispatch toy_entries toy_world))"
proof (rule every_entry_acknowledged)
  show "redis_alive toy_stream" by (auto simp: redis_alive_def toy_stream_def split: cmd.splits)
  show "\<forall>d. uncancelled (toy_dispatch d)" by (simp add: uncancelled_def toy_dispatch_def)
qed (simp add: toy_stream_def)

text \<open>
  A run that fails is acknowledged all the same, and nothing marks its record: it stays as it was
  created, in the state \<open>processing\<close>.
\<close>

lemma failed_event_stays_processing:
  assumes "all_valid (ee_lax env) (ew_rows y)" "length i \<le> event_id_limit" "v_dict (v_list v_str) iocs = Ok iocs"
    and "\<And>w1. \<exists>w2. run_main ge i body iocs src w1 = (Raise exc, w2) \<and> ew_rows w2 = ew_rows w1"
  shows "\<exists>y'. run_pipeline (pg_store env) ge d fin i body iocs src y = (Raise exc, y') \<and>
    map_of (ew_rows y') i = Some (event_of (ee_now env) i body iocs src) \<and>
    dget (event_of (ee_now env) i body iocs src) ''status'' PNone = PStr ''processing''"
proof -
  have e: "new_event (ee_lax env) (ee_now env) i body iocs src = Ok (event_of (ee_now env) i body iocs src)"
    using assms(3) by (simp add: new_event_iff)
  have "\<exists>w'. run_pipeline (pg_store env) ge d fin i body iocs src y = (Raise exc, w') \<and>
      all_valid (ee_lax env) (ew_rows w') \<and>
      map_of (ew_rows w') = (map_of (ew_rows y))(i \<mapsto> event_of (ee_now env) i body iocs src)"
  proof (rule database.pipeline_failed [OF assms(1,2) e])
    show "\<exists>w2. run_main ge i body iocs src w1 = (Raise exc, w2) \<and> all_valid (ee_lax env) (ew_rows w2) \<and>
        map_of (ew_rows w2) = map_of (ew_rows w1)" if "all_valid (ee_lax env) (ew_rows w1)" for w1
      using assms(4) [of w1] that by auto
  qed
  then show ?thesis by (auto simp: event_of_def)
qed

section \<open>Submitted and taken off the stream\<close>

text \<open>The payload of the endpoint; an alert's payload has the same three fields.\<close>

definition submitted :: "string \<Rightarrow> string \<Rightarrow> pyval \<Rightarrow> string \<Rightarrow> string \<Rightarrow> pydict" where
  "submitted event_id body iocs source username =
     [(''event_id'', PStr event_id), (''sanitized_text'', PStr body), (''iocs'', iocs),
      (''source'', PStr source), (''submitted_by'', PStr username)]"

text \<open>An event put on the stream through the endpoint reaches the pipeline with the identifier,
  the text, the indicators and the source it was submitted with, if the JSON of its body can be
  read back.\<close>

theorem submitted_event_dispatched:
  assumes "event_id \<noteq> []"
    and "let v = PDict (submitted event_id body iocs source username @ [(''enqueued_at'', PStr now)])
      in dumps v \<noteq> [] \<and> loads (dumps v) = Ok v"
  shows "dispatch_event loads pipe
      (event_fields dumps now event_id (submitted event_id body iocs source username)) =
    io_bind (pipe event_id body iocs source) (\<lambda>_. io_return ())"
  using assms
  by (simp add: event_fields_def dispatch_event_def dispatch_body_def submitted_def set_default_def Let_def
      py_or_def)

definition toy_pipe :: "unit pipeline" where
  "toy_pipe i b c s = io_raise (ExtError (i @ b @ s))"

theorem submitted_event_dispatched_witness:
  "\<exists>dumps loads. dispatch_event loads toy_pipe
      (event_fields dumps ''2026'' ''E'' (submitted ''E'' ''body'' (PDict []) ''api'' ''alice'')) =
    io_bind (toy_pipe ''E'' ''body'' (PDict []) ''api'') (\<lambda>_. io_return ())"
proof -
  let ?v = "PDict (submitted ''E'' ''body'' (PDict []) ''api'' ''alice'' @ [(''enqueued_at'', PStr ''2026'')])"
  have "let v = ?v in (\<lambda>_. ''{}'') v \<noteq> [] \<and> (\<lambda>_. Ok ?v) ((\<lambda>_. ''{}'') v) = Ok v" by simp
  from submitted_event_dispatched [OF _ this, of toy_pipe] show ?thesis by blast
qed

text \<open>A submission, whose identifier fits the column of the table, is queued and answered, its record being that of a new event, or the queue's
  failure is answered with 503 and the record says \<open>error\<close>.\<close>

theorem submission_settled:
  assumes "all_valid (ee_lax env) (ew_rows y)" "length i \<le> event_id_limit" "v_dict (v_list v_str) iocs = Ok iocs"
    and "redis_alive sv"
  shows "\<exists>y' out. submit_event (pg_store env) sv dumps now exn_str username i body iocs src (h, y) =
      (out, (h @ [XAdd EVENT_STREAM (event_fields dumps now i (submitted i body iocs src username)) (Some 10000)], y')) \<and>
    (case sv h (XAdd EVENT_STREAM (event_fields dumps now i (submitted i body iocs src username)) (Some 10000)) of
       A_Err e \<Rightarrow> out = Raise (HTTPException 503 [''event enqueue failed: '', exn_str e]) \<and>
         map_of (ew_rows y') i = Some (AList.update ''status'' (PStr ''error'') (event_of (ee_now env) i body iocs src))
     | _ \<Rightarrow> (\<exists>d. out = Ok d) \<and> map_of (ew_rows y') i = Some (event_of (ee_now env) i body iocs src))"
proof -
  let ?e = "event_of (ee_now env) i body iocs src"
  let ?c = "XAdd EVENT_STREAM (event_fields dumps now i (submitted i body iocs src username)) (Some 10000)"
  have e: "new_event (ee_lax env) (ee_now env) i body iocs src = Ok ?e" using assms(3) by (simp add: new_event_iff)
  from database.create [OF assms(1,2) e] obtain y1 where y1: "so_create (pg_store env) i body iocs src y = (Ok ?e, y1)"
    "all_valid (ee_lax env) (ew_rows y1)" "map_of (ew_rows y1) = (map_of (ew_rows y))(i \<mapsto> ?e)" by blast
  have s: "settable (ee_lax env) e' [(''status'', PStr ''error'')]" for e'
    by (simp add: settable_def accepts_simps v_one_of_def event_statuses_def)
  from database.update [OF y1(2), of i "[(''status'', PStr ''error'')]"] s obtain y2 where
    y2: "so_update (pg_store env) i [(''status'', PStr ''error'')] y1 = (Ok (), y2)"
    "map_of (ew_rows y2) i = Some (AList.update ''status'' (PStr ''error'') ?e)" by (auto simp: y1(3))
  have q: "[(''event_id'', PStr i), (''sanitized_text'', PStr body), (''iocs'', iocs), (''source'', PStr src),
      (''submitted_by'', PStr username)] = submitted i body iocs src username" by (simp add: submitted_def)
  show ?thesis
  proof (cases "\<exists>e. sv h ?c = A_Err e")
    case True
    then obtain exc where exc: "sv h ?c = A_Err exc" by blast
    with assms(4) have "is_Exception exc" by (auto simp: redis_alive_def is_Exception_def)
    then have "submit_event (pg_store env) sv dumps now exn_str username i body iocs src (h, y) =
        (Raise (HTTPException 503 [''event enqueue failed: '', exn_str exc]), (h @ [?c], y2))"
      by (simp add: submit_event_def q on_part_def y1(1) y2(1) enqueue_event_def on_queue_def call_def exc
          io_bind_def io_try_def)
    with y2(2) exc show ?thesis by simp
  next
    case False
    then obtain d where "submit_event (pg_store env) sv dumps now exn_str username i body iocs src (h, y) =
        (Ok d, (h @ [?c], y1))"
      by (fastforce simp: submit_event_def q on_part_def y1(1) enqueue_event_def on_queue_def call_def
          io_bind_def io_try_def split: answer.splits)
    with False y1(3) show ?thesis by (intro exI [of _ y1] exI [of _ "Ok d"]) (auto split: answer.splits)
  qed
qed

theorem submission_settled_witness:
  "\<exists>y' out. submit_event (pg_store toy_store_env) (\<lambda>h x. A_Err TimeoutError) (\<lambda>_. ''{}'') ''2026'' (\<lambda>_. []) ''alice'' ''E''
      ''body'' (PDict []) ''api'' ([], toy_world) =
      (out, ([] @ [XAdd EVENT_STREAM (event_fields (\<lambda>_. ''{}'') ''2026'' ''E''
         (submitted ''E'' ''body'' (PDict []) ''api'' ''alice'')) (Some 10000)], y')) \<and>
    out = Raise (HTTPException 503 [''event enqueue failed: '', []])"
proof -
  have v: "all_valid (ee_lax toy_store_env) (ew_rows toy_world)" "length ''E'' \<le> event_id_limit"
    "v_dict (v_list v_str) (PDict []) = Ok (PDict [])" "redis_alive (\<lambda>h x. A_Err TimeoutError)"
    by (simp_all add: all_valid_def toy_world_def v_dict_def redis_alive_def event_id_limit_def)
  from submission_settled [OF v, of "\<lambda>_. ''{}''" "''2026''" "\<lambda>_. []" "''alice''" "''body''" "''api''" "[]"]
  show ?thesis by auto
qed

end
