(* ===== verification/EventApi.thy ===== *)
theory EventApi
  imports Ingest Responder "HOL-Library.Multiset"
begin

text \<open>
  The endpoints for events and approvals, \<open>src/api/routers/operations.py\<close>. The role of the caller has
  been checked before they run; the caller's name and role are arguments. The world is a pair: the
  approval queue with the audit log, and the event store.
\<close>

section \<open>Events\<close>

definition api_list_events :: "'x store_ops \<Rightarrow> event_filter \<Rightarrow> ('x, pydict list \<times> nat) eio" where
  "api_list_events st f =
     io_bind (so_list st f) (\<lambda>items. io_bind (so_count st) (\<lambda>n. io_return (items, n)))"

definition api_event_detail :: "'x store_ops \<Rightarrow> string \<Rightarrow> ('x, pydict) eio" where
  "api_event_detail st event_id = io_bind (so_get st event_id) (\<lambda>ev. case ev of
       None \<Rightarrow> io_raise (HTTPException 404 [''Event not found''])
     | Some e \<Rightarrow> io_return e)"

record trace_response =
  tr_event_id :: string
  tr_trace :: "pyval list"
  tr_approvals :: "pyval list"
  tr_trace_count :: nat
  tr_approval_count :: nat

definition list_of :: "pydict \<Rightarrow> string \<Rightarrow> pyval list" where
  "list_of e k = (case dget e k PNone of PList xs \<Rightarrow> xs | _ \<Rightarrow> [])"

definition api_event_trace :: "'x store_ops \<Rightarrow> string \<Rightarrow> ('x, trace_response) eio" where
  "api_event_trace st event_id = io_bind (so_get st event_id) (\<lambda>ev.
     let steps = (case ev of Some e \<Rightarrow> list_of e ''trace'' | None \<Rightarrow> []);
         approvals = (case ev of Some e \<Rightarrow> list_of e ''approvals'' | None \<Rightarrow> []) in
     io_return \<lparr>tr_event_id = event_id, tr_trace = steps, tr_approvals = approvals,
       tr_trace_count = length steps, tr_approval_count = length approvals\<rparr>)"

definition api_metrics :: "'x store_ops \<Rightarrow> ('x, event_metrics) eio" where
  "api_metrics st = so_metrics st"

section \<open>The timeline\<close>

record timeline_point =
  tl_total :: nat
  tl_true :: nat
  tl_false :: nat
  tl_other :: nat

definition no_events :: timeline_point where
  "no_events = \<lparr>tl_total = 0, tl_true = 0, tl_false = 0, tl_other = 0\<rparr>"

definition hour_of :: "pydict \<Rightarrow> string" where
  "hour_of e = (let s = text_of e ''submitted_at'' in if s = [] then ''unknown'' else take 13 s)"

definition count_event :: "pydict \<Rightarrow> timeline_point \<Rightarrow> timeline_point" where
  "count_event e p =
     (let p = p\<lparr>tl_total := Suc (tl_total p)\<rparr>; v = dget e ''final_verdict'' PNone in
      if v = PStr ''true_positive'' then p\<lparr>tl_true := Suc (tl_true p)\<rparr>
      else if v = PStr ''false_positive'' then p\<lparr>tl_false := Suc (tl_false p)\<rparr>
      else p\<lparr>tl_other := Suc (tl_other p)\<rparr>)"

definition count_hour :: "pydict \<Rightarrow> (string \<times> timeline_point) list \<Rightarrow> (string \<times> timeline_point) list" where
  "count_hour e hourly =
     (let h = hour_of e; p = (case map_of hourly h of Some p \<Rightarrow> p | None \<Rightarrow> no_events) in
      AList.update h (count_event e p) hourly)"

definition timeline_of :: "pydict list \<Rightarrow> (string \<times> timeline_point) list" where
  "timeline_of items = sort_key fst (fold count_hour items [])"

definition timeline_filter :: event_filter where
  "timeline_filter = \<lparr>f_status = None, f_verdict = None, f_priority = None, f_limit = 200, f_offset = 0\<rparr>"

definition api_timeline :: "'x store_ops \<Rightarrow> ('x, (string \<times> timeline_point) list) eio" where
  "api_timeline st = io_bind (so_list st timeline_filter) (\<lambda>items. io_return (timeline_of items))"

section \<open>Approvals\<close>

record approval_side =
  as_db :: approval_db
  as_log :: "pydict list"

record approver =
  av_username :: string
  av_role :: string
  av_now :: string

type_synonym ('x, 'a) opio = "(approval_side \<times> 'x event_world, 'a) io"

definition api_approvals :: "('x, pydict list) opio" where
  "api_approvals = on_queue (io_gets (\<lambda>a. list_pending (as_db a)))"

text \<open>A vote through the store of approvals, and the second vote of the notification.\<close>

definition vote :: "string \<Rightarrow> string \<Rightarrow> string \<Rightarrow> ('x, string \<times> nat) opio" where
  "vote event_id actor decision = on_queue (\<lambda>a. case add_vote event_id actor decision (as_db a) of
     (answer, db) \<Rightarrow> (Ok answer, a\<lparr>as_db := db\<rparr>))"

definition notify :: "string \<Rightarrow> string \<Rightarrow> string \<Rightarrow> ('x, unit) opio" where
  "notify event_id decision actor = on_queue (\<lambda>a.
     (Ok (), a\<lparr>as_db := snd (resolve_approval_by_event_id event_id decision actor (as_db a))\<rparr>))"

definition audit_approval :: "(approval_side \<Rightarrow> exn option) \<Rightarrow> pydict \<Rightarrow> ('x, unit) opio" where
  "audit_approval fails entry = on_queue (\<lambda>a. case fails a of
     Some e \<Rightarrow> (Raise e, a) | None \<Rightarrow> (Ok (), a\<lparr>as_log := as_log a @ [entry]\<rparr>))"

text \<open>The event follows the answer to the vote.\<close>

definition follow_vote :: "'x store_ops \<Rightarrow> string \<Rightarrow> string \<Rightarrow> ('x, unit) eio" where
  "follow_vote st event_id approval_status =
     (if approval_status = ''approved'' then so_update st event_id [(''status'', PStr ''completed'')]
      else if approval_status = ''rejected'' then so_update st event_id [(''status'', PStr ''rejected'')]
      else io_return ())"

definition vote_entry :: "approver \<Rightarrow> string \<Rightarrow> string \<Rightarrow> string \<Rightarrow> pydict" where
  "vote_entry who event_id action remark =
     [(''event_id'', PStr event_id), (''action'', PStr action), (''note'', PStr remark),
      (''actor'', PStr (av_username who)), (''role'', PStr (av_role who)), (''timestamp'', PStr (av_now who))]"

definition api_approve_event ::
    "'x store_ops \<Rightarrow> (approval_side \<Rightarrow> exn option) \<Rightarrow> approver \<Rightarrow> string \<Rightarrow> string \<Rightarrow> string \<Rightarrow> ('x, pydict) opio" where
  "api_approve_event st audit_fails who event_id action remark =
     io_bind (on_part (so_get st event_id)) (\<lambda>ev.
     io_bind (io_guard (ev \<noteq> None) (HTTPException 404 [''Event not found''])) (\<lambda>_.
     io_bind (on_part (so_approval st event_id (vote_entry who event_id action remark))) (\<lambda>_.
     io_bind (vote event_id (av_username who) action) (\<lambda>(approval_status, n).
     io_bind (on_part (follow_vote st event_id approval_status)) (\<lambda>_.
     io_bind (notify event_id action (av_username who)) (\<lambda>_.
     io_bind (audit_approval audit_fails
       [(''event_id'', PStr event_id), (''node'', PStr ''approval''), (''action'', PStr action),
        (''actor'', PStr (av_username who)), (''details'', PDict [(''note'', PStr remark)])]) (\<lambda>_.
     io_return [(''status'', PStr ''ok''), (''event_id'', PStr event_id), (''action'', PStr action)])))))))"

section \<open>The timeline counts every event once\<close>

definition adds_up :: "timeline_point \<Rightarrow> bool" where
  "adds_up p \<longleftrightarrow> tl_total p = tl_true p + tl_false p + tl_other p"

lemma count_event_adds_up: "adds_up p \<Longrightarrow> adds_up (count_event e p) \<and> tl_total (count_event e p) = Suc (tl_total p)"
  by (simp add: adds_up_def count_event_def Let_def)

definition totals :: "(string \<times> timeline_point) list \<Rightarrow> nat" where
  "totals ps = sum_list (map (tl_total \<circ> snd) ps)"

lemma totals_update:
  "distinct (map fst ps) \<Longrightarrow> totals (AList.update h q ps) + (case map_of ps h of Some p \<Rightarrow> tl_total p | None \<Rightarrow> 0) =
     totals ps + tl_total q"
  by (induction ps) (auto simp: totals_def split: option.splits dest: map_of_SomeD)

definition tidy :: "(string \<times> timeline_point) list \<Rightarrow> bool" where
  "tidy ps \<longleftrightarrow> distinct (map fst ps) \<and> (\<forall>(h, p) \<in> set ps. adds_up p)"

lemma tidy_update: "tidy ps \<Longrightarrow> adds_up q \<Longrightarrow> tidy (AList.update h q ps)"
  unfolding tidy_def by (induction ps) (auto simp: update_keys split: if_splits)

lemma count_hour_tidy:
  assumes "tidy ps"
  shows "tidy (count_hour e ps) \<and> totals (count_hour e ps) = Suc (totals ps)"
proof -
  let ?p = "case map_of ps (hour_of e) of Some p \<Rightarrow> p | None \<Rightarrow> no_events"
  have "adds_up ?p" using assms
    by (auto simp: tidy_def adds_up_def no_events_def split: option.splits dest: map_of_SomeD)
  note c = count_event_adds_up [OF this, of e]
  have "tl_total ?p = (case map_of ps (hour_of e) of Some p \<Rightarrow> tl_total p | None \<Rightarrow> 0)"
    by (simp add: no_events_def split: option.splits)
  with totals_update [of ps "hour_of e" "count_event e ?p"] assms c
  have "totals (count_hour e ps) = Suc (totals ps)" by (simp add: count_hour_def Let_def tidy_def)
  moreover have "tidy (count_hour e ps)"
    using tidy_update [OF assms] c by (simp add: count_hour_def Let_def)
  ultimately show ?thesis by simp
qed

lemma count_hours_tidy: "tidy ps \<Longrightarrow> tidy (fold count_hour es ps) \<and> totals (fold count_hour es ps) = totals ps + length es"
  by (induction es arbitrary: ps) (auto simp: count_hour_tidy)

text \<open>The timeline has one point for each hour, in order; the verdicts of a point add up to its
  total, and the totals to the number of events.\<close>

theorem timeline_adds_up:
  "sorted (map fst (timeline_of es)) \<and> distinct (map fst (timeline_of es)) \<and>
   list_all (\<lambda>(h, p). tl_total p = tl_true p + tl_false p + tl_other p) (timeline_of es) \<and>
   sum_list (map (tl_total \<circ> snd) (timeline_of es)) = length es"
proof -
  have t: "tidy (fold count_hour es [])" "totals (fold count_hour es []) = length es"
    using count_hours_tidy [of "[]" es] by (simp_all add: tidy_def totals_def)
  have m: "mset (timeline_of es) = mset (fold count_hour es [])" by (simp add: timeline_of_def)
  from m have "mset (map fst (timeline_of es)) = mset (map fst (fold count_hour es []))" by (metis mset_map)
  then have d: "distinct (map fst (timeline_of es))" using t(1) unfolding tidy_def by (metis mset_eq_imp_distinct_iff)
  have s: "sum_list (map (tl_total \<circ> snd) (timeline_of es)) = length es"
    using t(2) m unfolding totals_def by (metis mset_map sum_mset_sum_list)
  have "list_all (\<lambda>(h, p). tl_total p = tl_true p + tl_false p + tl_other p) (timeline_of es)"
    using t(1) mset_eq_setD [OF m] by (auto simp: list_all_iff tidy_def adds_up_def)
  with d s show ?thesis by (simp add: timeline_of_def)
qed

section \<open>A vote and the event\<close>

lemma count_after_insert: "count_approved x db \<le> count_approved x (insert_vote aid actor decision db)"
  by (simp add: insert_vote_def count_approved_def)

lemma count_after_status [simp]: "count_approved x (set_status aid s db) = count_approved x db"
  by (simp add: set_status_def count_approved_def)

lemma count_after_publish [simp]: "count_approved x (Approvals.publish aid m db) = count_approved x db"
  by (simp add: Approvals.publish_def count_approved_def)

lemma count_after_vote: "count_approved x db \<le> count_approved x (snd (add_vote i actor decision db))"
  by (auto simp: add_vote_def Let_def count_after_insert split: option.splits)

lemma approved_has_quorum:
  assumes "fst (fst (add_vote i actor decision db)) = ''approved''"
  shows "\<exists>row. find_pending i db = Some row \<and>
    ap_required row \<le> int (count_approved (ap_id row) (snd (add_vote i actor decision db)))"
  using assms by (auto simp: add_vote_def Let_def split: option.splits if_splits)

definition followed :: "string \<Rightarrow> pydict \<Rightarrow> pydict" where
  "followed answer e =
     (if answer = ''approved'' then AList.update ''status'' (PStr ''completed'') e
      else if answer = ''rejected'' then AList.update ''status'' (PStr ''rejected'') e else e)"

lemma valid_vote_entry: "valid_model approval_entry (vote_entry who i action remark)"
  by (simp add: valid_model_def approval_entry_def vote_entry_def v_str_def)

lemma settable_status:
  "s \<in> set event_statuses \<Longrightarrow> settable l e [(''status'', PStr s)]"
  by (simp add: settable_def accepts_simps v_one_of_def)

context event_store
begin

lemma follow_vote_stored:
  assumes "ok w" "view w i = Some e"
  shows "\<exists>w'. follow_vote st i answer w = (Ok (), w') \<and> ok w' \<and> view w' = (view w)(i \<mapsto> followed answer e)"
proof -
  have "\<exists>w'. so_update st i [(''status'', PStr s)] w = (Ok (), w') \<and> ok w' \<and>
      view w' = (view w)(i \<mapsto> AList.update ''status'' (PStr s) e)" if "s \<in> set event_statuses" for s
    using update [OF assms(1), of i "[(''status'', PStr s)]"] settable_status [OF that] assms(2) by auto
  from this [of "''completed''"] this [of "''rejected''"] assms show ?thesis
    by (simp add: follow_vote_def followed_def event_statuses_def fun_upd_idem)
qed

text \<open>The handler on an event that exists, whatever becomes of the audit entry at its end.\<close>

lemma approve_stored:
  assumes "ok w" "view w i = Some e"
  shows "\<exists>out a' w'. api_approve_event st fails who i action remark (a, w) = (out, (a', w')) \<and> ok w' \<and>
    as_db a' = snd (resolve_approval_by_event_id i action (av_username who)
      (snd (add_vote i (av_username who) action (as_db a)))) \<and>
    view w' = (view w)(i \<mapsto> followed (fst (fst (add_vote i (av_username who) action (as_db a))))
      (append_to ''approvals'' (vote_entry who i action remark) e))"
proof -
  let ?x = "append_to ''approvals'' (vote_entry who i action remark) e"
  obtain answer n db1 where v: "add_vote i (av_username who) action (as_db a) = ((answer, n), db1)"
    by (metis prod.exhaust)
  from approval [OF assms(1) valid_vote_entry [of who i action remark], of i] assms(2) obtain w1 where
    w1: "so_approval st i (vote_entry who i action remark) w = (Ok (), w1)" "ok w1" "view w1 = (view w)(i \<mapsto> ?x)"
    by auto
  have "view w1 i = Some ?x" by (simp add: w1(3))
  from follow_vote_stored [OF w1(2) this, of answer] obtain w2 where
    w2: "follow_vote st i answer w1 = (Ok (), w2)" "ok w2" "view w2 = (view w1)(i \<mapsto> followed answer ?x)" by blast
  let ?a = "a\<lparr>as_db := snd (resolve_approval_by_event_id i action (av_username who) db1)\<rparr>"
  have "\<exists>out a'. api_approve_event st fails who i action remark (a, w) = (out, (a', w2)) \<and> as_db a' = as_db ?a"
    using get [OF assms(1), of i] assms(2) w1(1) w2(1)
    by (simp add: api_approve_event_def on_part_def on_queue_def io_bind_def io_guard_def vote_def v notify_def
        audit_approval_def split: option.splits)
  with w2 w1(3) v show ?thesis by auto
qed

end

text \<open>C3: an event becomes completed by an approval only when the votes reach the quorum its pending
  approval demands.\<close>

theorem completed_by_quorum:
  assumes "all_valid (ee_lax env) (ew_rows w)" "map_of (ew_rows w) i = Some e"
    and "api_approve_event (pg_store env) fails who i action remark (a, w) = (out, (a', w'))"
    and "map_of (ew_rows w') i = Some e'" "dget e' ''status'' PNone = PStr ''completed''"
    and "dget e ''status'' PNone \<noteq> PStr ''completed''"
  shows "\<exists>row. find_pending i (as_db a) = Some row \<and>
    ap_required row \<le> int (count_approved (ap_id row) (as_db a'))"
proof -
  let ?v = "add_vote i (av_username who) action (as_db a)"
  from database.approve_stored [OF assms(1,2), of fails who action remark a] assms(3)
  have a': "as_db a' = snd (resolve_approval_by_event_id i action (av_username who) (snd ?v))"
    and w': "map_of (ew_rows w') = (map_of (ew_rows w))(i \<mapsto> followed (fst (fst ?v))
      (append_to ''approvals'' (vote_entry who i action remark) e))" by auto
  from w' assms(4) have "e' = followed (fst (fst ?v)) (append_to ''approvals'' (vote_entry who i action remark) e)" by simp
  with assms(5,6) have "fst (fst ?v) = ''approved''"
    by (auto simp: followed_def dget_append_to dget_def update_conv' append_to_def split: if_splits)
  from approved_has_quorum [OF this] obtain row where row: "find_pending i (as_db a) = Some row"
    "ap_required row \<le> int (count_approved (ap_id row) (snd ?v))" by blast
  have "count_approved (ap_id row) (snd ?v) \<le> count_approved (ap_id row) (as_db a')"
    unfolding a' resolve_approval_by_event_id_def
    using count_after_vote [of "ap_id row" "snd ?v" i "av_username who" action] by (simp add: case_prod_unfold)
  with row show ?thesis by (intro exI [of _ row]) simp
qed

definition toy_event :: pydict where
  "toy_event = event_of ''2026'' ''E'' ''body'' (PDict []) ''api''"

definition toy_row_world :: "unit event_world" where
  "toy_row_world = toy_world\<lparr>ew_rows := [(''E'', toy_event)]\<rparr>"

definition toy_side :: approval_side where
  "toy_side = \<lparr>as_db = one_approval 1, as_log = []\<rparr>"

definition toy_approver :: approver where
  "toy_approver = \<lparr>av_username = ''bob'', av_role = ''responder'', av_now = ''2026''\<rparr>"

lemma toy_vote: "fst (fst (add_vote ''E'' ''bob'' ''approved'' (one_approval 1))) = ''approved''"
  by (simp add: add_vote_def schedule_eval Let_def)

theorem completed_by_quorum_witness:
  "\<exists>out a' w' row. api_approve_event (pg_store toy_store_env) (\<lambda>_. None) toy_approver ''E'' ''approved'' []
      (toy_side, toy_row_world) = (out, (a', w')) \<and>
    find_pending ''E'' (as_db toy_side) = Some row \<and>
    ap_required row \<le> int (count_approved (ap_id row) (as_db a'))"
proof -
  have v: "all_valid (ee_lax toy_store_env) (ew_rows toy_row_world)" "map_of (ew_rows toy_row_world) ''E'' = Some toy_event"
    using new_event_valid [of strict_lax "''2026''" "''E''" "''body''" "PDict []" "''api''" toy_event]
    by (simp_all add: all_valid_def toy_row_world_def toy_world_def toy_store_env_def new_event_iff toy_event_def v_dict_def)
  let ?e = "followed ''approved'' (append_to ''approvals'' (vote_entry toy_approver ''E'' ''approved'' []) toy_event)"
  from database.approve_stored [OF v, of "\<lambda>_. None" toy_approver "''approved''" "[]" toy_side] toy_vote
  obtain out a' w' where r: "api_approve_event (pg_store toy_store_env) (\<lambda>_. None) toy_approver ''E'' ''approved'' []
      (toy_side, toy_row_world) = (out, (a', w'))" "map_of (ew_rows w') ''E'' = Some ?e"
    by (auto simp: toy_side_def toy_approver_def)
  have "dget ?e ''status'' PNone = PStr ''completed''" "dget toy_event ''status'' PNone \<noteq> PStr ''completed''"
    by (simp_all add: followed_def dget_def update_conv') (simp add: toy_event_def event_of_def)
  from completed_by_quorum [OF v r this] r(1) show ?thesis by blast
qed

end
