(* ===== verification/Models.thy ===== *)
theory Models
  imports Events
begin

text \<open>
  The registry of language models: the table \<open>llm_models\<close> (\<open>src/knowledge/models/store.py\<close>), the adapter
  that calls the models and keeps a client for each (\<open>src/knowledge/models/adapter.py\<close>), and the endpoints
  that manage them (\<open>src/api/routers/models.py\<close>, behind the check of the caller's role). The client
  library, the JSON decoder, the clock, the audit log and the rounding of a column of type \<open>REAL\<close> are
  arguments.
\<close>

section \<open>The table\<close>

record model_config =
  mc_id :: int
  mc_name :: string
  mc_provider :: string
  mc_model :: string
  mc_key :: string
  mc_base :: string
  mc_temperature :: rat
  mc_max_tokens :: int
  mc_structured :: bool
  mc_enabled :: bool
  mc_default :: bool

text \<open>A client of a model, as the adapter constructs it.\<close>

datatype client_class = ChatAnthropic | ChatOpenAI

record llm_client =
  lc_class :: client_class
  lc_model :: string
  lc_key :: string
  lc_temperature :: rat
  lc_max_tokens :: "int option"
  lc_base :: "string option"
  lc_timeout :: rat

text \<open>
  The world: the rows, the next value of the sequence of identifiers, the clients the adapter of this
  process keeps (provider, client and when it was made), and the rest of the system, \<open>'x\<close>.
\<close>

record 'x model_world =
  mw_rows :: "model_config list"
  mw_next :: int
  mw_cache :: "(string \<times> (string \<times> llm_client \<times> rat)) list"
  mw_rest :: 'x

type_synonym ('x, 'a) mio = "('x model_world, 'a) io"

record llm_settings =
  ls_provider :: string
  ls_anthropic_key :: string
  ls_openai_key :: string
  ls_openai_model :: string
  ls_openai_base :: string
  ls_vllm_model :: string
  ls_vllm_base :: string
  ls_timeout :: rat

datatype lc_message = SystemMessage string | HumanMessage string | AIMessage string

text \<open>
  \<open>me_structured\<close>, \<open>me_json\<close> and \<open>me_plain\<close> are the three ways to call a client bound to a temperature:
  with a schema for the answer, in JSON mode, and for a text. \<open>me_down\<close> is the error of a database that
  does not answer, \<open>me_refuses\<close> the error of a constructor that refuses its arguments.
\<close>

record 'x model_env =
  me_settings :: llm_settings
  me_down :: "'x model_world \<Rightarrow> exn option"
  me_real :: "rat \<Rightarrow> rat"
  me_refuses :: "llm_client \<Rightarrow> exn option"
  me_now :: "'x model_world \<Rightarrow> rat"
  me_structured :: "llm_client \<Rightarrow> rat \<Rightarrow> schema \<Rightarrow> lc_message list \<Rightarrow> ('x, pyval) mio"
  me_json :: "llm_client \<Rightarrow> rat \<Rightarrow> lc_message list \<Rightarrow> ('x, pyval) mio"
  me_plain :: "llm_client \<Rightarrow> rat \<Rightarrow> lc_message list \<Rightarrow> ('x, pyval) mio"
  me_loads :: "string \<Rightarrow> pyval res"
  me_raw_decode :: "string \<Rightarrow> (pyval \<times> nat) option"
  me_schema_doc :: "schema \<Rightarrow> string"
  me_rt :: pyrt
  me_attr :: "llm_client \<Rightarrow> string"
  me_audit :: "string \<Rightarrow> string \<Rightarrow> pydict \<Rightarrow> ('x, unit) mio"
  me_exn_str :: "exn \<Rightarrow> string"
  me_probe :: string

text \<open>A connection to the database, and an argument that must be an \<open>INTEGER\<close>.\<close>

definition model_conn :: "'x model_env \<Rightarrow> ('x, unit) mio" where
  "model_conn env = (\<lambda>w. case me_down env w of Some e \<Rightarrow> (Raise e, w) | None \<Rightarrow> (Ok (), w))"

definition int4 :: "int \<Rightarrow> ('x, unit) mio" where
  "int4 i = io_guard (- (2 ^ 31) \<le> i \<and> i < 2 ^ 31) (ExtError ''DataError'')"

definition row_fits :: "model_config \<Rightarrow> bool" where
  "row_fits r \<longleftrightarrow> length (mc_name r) \<le> 128 \<and> length (mc_provider r) \<le> 32 \<and> length (mc_model r) \<le> 128"

section \<open>Operations of the store\<close>

definition list_models :: "'x model_env \<Rightarrow> ('x, model_config list) mio" where
  "list_models env = io_bind (model_conn env) (\<lambda>_. io_gets (\<lambda>w. let rows = sort_key mc_id (mw_rows w) in
     filter mc_default rows @ filter (\<lambda>r. \<not> mc_default r) rows))"

definition row_of :: "int \<Rightarrow> 'x model_world \<Rightarrow> model_config option" where
  "row_of i w = find (\<lambda>r. mc_id r = i) (mw_rows w)"

definition get_model :: "'x model_env \<Rightarrow> int \<Rightarrow> ('x, model_config option) mio" where
  "get_model env i = io_bind (model_conn env) (\<lambda>_. io_bind (int4 i) (\<lambda>_. io_gets (row_of i)))"

definition default_row :: "'x model_world \<Rightarrow> model_config option" where
  "default_row w = (case filter mc_default (mw_rows w) of r # rs \<Rightarrow> Some r
     | [] \<Rightarrow> (case sort_key mc_id (filter mc_enabled (mw_rows w)) of r # rs \<Rightarrow> Some r | [] \<Rightarrow> None))"

definition get_default_model :: "'x model_env \<Rightarrow> ('x, model_config option) mio" where
  "get_default_model env = io_bind (model_conn env) (\<lambda>_. io_gets default_row)"

definition clear_default :: "('x, unit) mio" where
  "clear_default = io_modify (\<lambda>w. w\<lparr>mw_rows := map (\<lambda>r. r\<lparr>mc_default := False\<rparr>) (mw_rows w)\<rparr>)"

text \<open>An insertion takes the next identifier also when it is refused; at most one row is the default.\<close>

definition insert_row :: "'x model_env \<Rightarrow> model_config \<Rightarrow> ('x, model_config) mio" where
  "insert_row env r =
     io_bind (io_gets mw_next) (\<lambda>i.
     io_bind (io_modify (\<lambda>w. w\<lparr>mw_next := i + 1\<rparr>)) (\<lambda>_.
     let r = r\<lparr>mc_id := i, mc_temperature := me_real env (mc_temperature r)\<rparr> in
     io_bind (io_guard (row_fits r) (ExtError ''StringDataRightTruncationError'')) (\<lambda>_.
     io_bind (io_gets (\<lambda>w. mc_default r \<and> (\<exists>r' \<in> set (mw_rows w). mc_default r'))) (\<lambda>clash.
     io_bind (io_guard (\<not> clash) (ExtError ''UniqueViolationError'')) (\<lambda>_.
     io_bind (io_modify (\<lambda>w. w\<lparr>mw_rows := mw_rows w @ [r]\<rparr>)) (\<lambda>_. io_return r))))))"

definition create_model :: "'x model_env \<Rightarrow> model_config \<Rightarrow> ('x, model_config) mio" where
  "create_model env r = io_bind (model_conn env) (\<lambda>_.
     io_bind (if mc_default r then clear_default else io_return ()) (\<lambda>_. insert_row env r))"

record model_update =
  mu_name :: "string option"
  mu_provider :: "string option"
  mu_model :: "string option"
  mu_key :: "string option"
  mu_base :: "string option"
  mu_temperature :: "rat option"
  mu_max_tokens :: "int option"
  mu_structured :: "bool option"
  mu_enabled :: "bool option"

definition no_update :: model_update where
  "no_update = \<lparr>mu_name = None, mu_provider = None, mu_model = None, mu_key = None, mu_base = None,
     mu_temperature = None, mu_max_tokens = None, mu_structured = None, mu_enabled = None\<rparr>"

definition given :: "'a option \<Rightarrow> 'a \<Rightarrow> 'a" where
  "given v old = (case v of Some x \<Rightarrow> x | None \<Rightarrow> old)"

definition apply_update :: "'x model_env \<Rightarrow> model_update \<Rightarrow> model_config \<Rightarrow> model_config" where
  "apply_update env u r = r\<lparr>mc_name := given (mu_name u) (mc_name r), mc_provider := given (mu_provider u) (mc_provider r),
     mc_model := given (mu_model u) (mc_model r), mc_key := given (mu_key u) (mc_key r),
     mc_base := given (mu_base u) (mc_base r),
     mc_temperature := given (map_option (me_real env) (mu_temperature u)) (mc_temperature r),
     mc_max_tokens := given (mu_max_tokens u) (mc_max_tokens r),
     mc_structured := given (mu_structured u) (mc_structured r), mc_enabled := given (mu_enabled u) (mc_enabled r)\<rparr>"

definition set_row :: "int \<Rightarrow> (model_config \<Rightarrow> model_config) \<Rightarrow> ('x, unit) mio" where
  "set_row i f = io_modify (\<lambda>w. w\<lparr>mw_rows := map (\<lambda>r. if mc_id r = i then f r else r) (mw_rows w)\<rparr>)"

definition update_model :: "'x model_env \<Rightarrow> int \<Rightarrow> model_update \<Rightarrow> ('x, model_config option) mio" where
  "update_model env i u = io_bind (model_conn env) (\<lambda>_. io_bind (int4 i) (\<lambda>_.
     io_bind (if u = no_update then io_return () else
       io_bind (io_gets (\<lambda>w. \<forall>r \<in> set (mw_rows w). mc_id r = i \<longrightarrow> row_fits (apply_update env u r))) (\<lambda>fits.
       io_bind (io_guard fits (ExtError ''StringDataRightTruncationError'')) (\<lambda>_.
       set_row i (apply_update env u)))) (\<lambda>_.
     io_gets (row_of i))))"

definition delete_model :: "'x model_env \<Rightarrow> int \<Rightarrow> ('x, bool) mio" where
  "delete_model env i = io_bind (model_conn env) (\<lambda>_. io_bind (int4 i) (\<lambda>_.
     io_bind (io_gets (\<lambda>w. length (filter (\<lambda>r. mc_id r = i) (mw_rows w)))) (\<lambda>n.
     io_bind (io_modify (\<lambda>w. w\<lparr>mw_rows := filter (\<lambda>r. mc_id r \<noteq> i) (mw_rows w)\<rparr>)) (\<lambda>_. io_return (n = 1)))))"

definition set_default_model :: "'x model_env \<Rightarrow> int \<Rightarrow> ('x, model_config option) mio" where
  "set_default_model env i = io_bind (model_conn env) (\<lambda>_. io_bind (int4 i) (\<lambda>_.
     io_bind (io_gets (row_of i)) (\<lambda>row. case row of None \<Rightarrow> io_return None
     | Some _ \<Rightarrow> io_bind clear_default (\<lambda>_.
         io_bind (set_row i (\<lambda>r. r\<lparr>mc_default := True, mc_enabled := True\<rparr>)) (\<lambda>_. io_gets (row_of i))))))"

text \<open>The configuration of the environment as a row.\<close>

definition env_row :: "llm_settings \<Rightarrow> model_config" where
  "env_row s =
     (let (name, model, key, base) =
        (if ls_provider s = ''claude'' then (''Claude (env)'', ''claude-sonnet-4-5'', ls_anthropic_key s, [])
         else if ls_provider s = ''vllm'' then (''vLLM (env)'', ls_vllm_model s,
           if ls_openai_key s = [] then ''EMPTY'' else ls_openai_key s, ls_vllm_base s)
         else (ls_openai_model s @ '' (env)'', ls_openai_model s, ls_openai_key s, ls_openai_base s))
      in \<lparr>mc_id = 0, mc_name = name, mc_provider = ls_provider s, mc_model = model, mc_key = key, mc_base = base,
          mc_temperature = 1 / 10, mc_max_tokens = 4096, mc_structured = True, mc_enabled = True, mc_default = True\<rparr>)"

definition migrate_env_model_if_empty :: "'x model_env \<Rightarrow> ('x, unit) mio" where
  "migrate_env_model_if_empty env = io_bind (model_conn env) (\<lambda>_.
     io_bind (io_gets (\<lambda>w. length (mw_rows w))) (\<lambda>n. if n \<noteq> 0 then io_return ()
     else io_bind (insert_row env (env_row (me_settings env))) (\<lambda>_. io_return ())))"

section \<open>The adapter\<close>

definition CACHE_TTL_SEC :: rat where "CACHE_TTL_SEC = 60"

definition construct_client :: "'x model_env \<Rightarrow> llm_client \<Rightarrow> llm_client res" where
  "construct_client env c = (case me_refuses env c of Some e \<Rightarrow> Raise e | None \<Rightarrow> Ok c)"

definition client_of :: "llm_settings \<Rightarrow> model_config \<Rightarrow> llm_client" where
  "client_of s r =
     (if mc_provider r = ''claude'' then
        \<lparr>lc_class = ChatAnthropic, lc_model = mc_model r, lc_key = mc_key r, lc_temperature = mc_temperature r,
         lc_max_tokens = Some (mc_max_tokens r), lc_base = None, lc_timeout = ls_timeout s\<rparr>
      else
        \<lparr>lc_class = ChatOpenAI, lc_model = mc_model r, lc_key = (if mc_key r = [] then ''EMPTY'' else mc_key r),
         lc_temperature = mc_temperature r, lc_max_tokens = None,
         lc_base = (if mc_base r = [] then None else Some (mc_base r)), lc_timeout = ls_timeout s\<rparr>)"

definition build_llm :: "'x model_env \<Rightarrow> model_config \<Rightarrow> llm_client res" where
  "build_llm env r = construct_client env (client_of (me_settings env) r)"

definition env_client :: "llm_settings \<Rightarrow> llm_client" where
  "env_client s =
     (if ls_provider s = ''claude'' then
        \<lparr>lc_class = ChatAnthropic, lc_model = ''claude-sonnet-4-5'', lc_key = ls_anthropic_key s,
         lc_temperature = 1 / 10, lc_max_tokens = Some 4096, lc_base = None, lc_timeout = ls_timeout s\<rparr>
      else if ls_provider s = ''openai'' then
        \<lparr>lc_class = ChatOpenAI, lc_model = ls_openai_model s, lc_key = ls_openai_key s, lc_temperature = 1 / 10,
         lc_max_tokens = None, lc_base = (if ls_openai_base s = [] then None else Some (ls_openai_base s)),
         lc_timeout = ls_timeout s\<rparr>
      else
        \<lparr>lc_class = ChatOpenAI, lc_model = ls_vllm_model s,
         lc_key = (if ls_openai_key s = [] then ''EMPTY'' else ls_openai_key s), lc_temperature = 1 / 10,
         lc_max_tokens = None, lc_base = Some (ls_vllm_base s), lc_timeout = ls_timeout s\<rparr>)"

definition build_from_env :: "'x model_env \<Rightarrow> (llm_client \<times> string) res" where
  "build_from_env env = rbind (construct_client env (env_client (me_settings env)))
     (\<lambda>c. Ok (c, ls_provider (me_settings env)))"

definition cache_key :: "int option \<Rightarrow> string" where
  "cache_key i = (case i of Some n \<Rightarrow> int_to_str n | None \<Rightarrow> ''default'')"

definition keep_client :: "'x model_env \<Rightarrow> string \<Rightarrow> string \<Rightarrow> llm_client \<Rightarrow> ('x, string \<times> llm_client) mio" where
  "keep_client env k provider c =
     io_bind (io_modify (\<lambda>w. w\<lparr>mw_cache := AList.update k (provider, c, me_now env w) (mw_cache w)\<rparr>))
       (\<lambda>_. io_return (provider, c))"

definition configured :: "'x model_env \<Rightarrow> int option \<Rightarrow> ('x, model_config option) mio" where
  "configured env i = io_try
     (case i of Some n \<Rightarrow> get_model env n
      | None \<Rightarrow> io_bind (migrate_env_model_if_empty env) (\<lambda>_. get_default_model env))
     (\<lambda>e. io_return None)"

definition resolve_anew :: "'x model_env \<Rightarrow> int option \<Rightarrow> ('x, string \<times> llm_client) mio" where
  "resolve_anew env i = io_bind (configured env i) (\<lambda>cfg. case cfg of
       Some r \<Rightarrow> io_bind (io_lift (build_llm env r)) (\<lambda>c. keep_client env (cache_key i) (mc_provider r) c)
     | None \<Rightarrow> (case i of Some n \<Rightarrow> io_raise (ExtError ''ModelNotFoundError'')
         | None \<Rightarrow> io_bind (io_lift (build_from_env env)) (\<lambda>(c, provider).
             keep_client env (cache_key i) provider c)))"

definition resolve_model :: "'x model_env \<Rightarrow> int option \<Rightarrow> ('x, string \<times> llm_client) mio" where
  "resolve_model env i = io_bind (io_gets (\<lambda>w. (map_of (mw_cache w) (cache_key i), me_now env w))) (\<lambda>(cached, now).
     case cached of
       Some (provider, c, made) \<Rightarrow>
         if now - made < CACHE_TTL_SEC then io_return (provider, c)
         else io_bind (io_modify (\<lambda>w. w\<lparr>mw_cache := AList.delete (cache_key i) (mw_cache w)\<rparr>)) (\<lambda>_. resolve_anew env i)
     | None \<Rightarrow> resolve_anew env i)"

definition invalidate :: "int option \<Rightarrow> ('x, unit) mio" where
  "invalidate i = io_modify (\<lambda>w. w\<lparr>mw_cache := (case i of None \<Rightarrow> []
     | Some n \<Rightarrow> AList.delete ''default'' (AList.delete (int_to_str n) (mw_cache w)))\<rparr>)"

section \<open>Answers\<close>

text \<open>The text of an answer; the parts of a list of content blocks are put together.\<close>

definition part_text :: "pyrt \<Rightarrow> pyval \<Rightarrow> string" where
  "part_text rt p = (case p of PDict d \<Rightarrow> py_str rt (dget d ''text'' (PStr [])) | _ \<Rightarrow> py_str rt p)"

definition content_text :: "pyrt \<Rightarrow> pyval \<Rightarrow> string" where
  "content_text rt content =
     (let content = (case content of PList ps \<Rightarrow> PStr (concat (map (part_text rt) ps)) | _ \<Rightarrow> content)
      in strip (py_str rt (py_or content (PStr []))))"

text \<open>The JSON objects that start at a brace of the text, each with its length.\<close>

fun json_candidates :: "(string \<Rightarrow> (pyval \<times> nat) option) \<Rightarrow> string \<Rightarrow> (nat \<times> pydict) list" where
  "json_candidates decode [] = []"
| "json_candidates decode (c # cs) =
     (if c = CHR ''{'' then (case decode (c # cs) of Some (PDict d, n) \<Rightarrow> [(n, d)] | _ \<Rightarrow> []) else []) @
     json_candidates decode cs"

fun first_valid :: "schema \<Rightarrow> pydict list \<Rightarrow> pyval res" where
  "first_valid sch [] = Raise ValueError"
| "first_valid sch (d # ds) = (case v_model sch (PDict d) of Inr v \<Rightarrow> Ok v | Inl e \<Rightarrow> first_valid sch ds)"

definition parse_structured_content :: "'x model_env \<Rightarrow> schema \<Rightarrow> pyval \<Rightarrow> pyval res" where
  "parse_structured_content env sch content =
     (let s = content_text (me_rt env) content in
      case rbind (me_loads env s) (v_model sch) of
        Inr v \<Rightarrow> Ok v
      | Inl e \<Rightarrow> first_valid sch
          (map snd (sort_key (\<lambda>(n, _). - int n) (json_candidates (me_raw_decode env) s))))"

definition json_mode_fallback :: "'x model_env \<Rightarrow> llm_client \<Rightarrow> rat \<Rightarrow> lc_message list \<Rightarrow> schema \<Rightarrow> ('x, pyval) mio" where
  "json_mode_fallback env c temperature msgs sch =
     io_bind (me_json env c temperature
       (SystemMessage (''Respond ONLY with a single valid JSON object matching this schema '' @
          ''(no markdown, no prose):'' @ [CHR 0x0A] @ me_schema_doc env sch) # msgs)) (\<lambda>content.
     io_lift (parse_structured_content env sch content))"

definition lc_message :: "string \<times> string \<Rightarrow> lc_message res" where
  "lc_message m = (if fst m = ''system'' then Ok (SystemMessage (snd m))
     else if fst m = ''user'' then Ok (HumanMessage (snd m))
     else if fst m = ''assistant'' then Ok (AIMessage (snd m)) else Raise ValueError)"

definition chat_completion ::
  "'x model_env \<Rightarrow> (string \<times> string) list \<Rightarrow> schema option \<Rightarrow> rat \<Rightarrow> int option \<Rightarrow> ('x, pyval) mio" where
  "chat_completion env messages sch temperature i =
     io_bind (io_lift (mapM lc_message messages)) (\<lambda>msgs.
     io_bind (resolve_model env i) (\<lambda>(provider, c).
     case sch of
       Some s \<Rightarrow> io_try (me_structured env c temperature s msgs)
         (\<lambda>e. json_mode_fallback env c temperature msgs s)
     | None \<Rightarrow> io_bind (me_plain env c temperature msgs) (\<lambda>content. io_return (PStr (py_str (me_rt env) content)))))"

definition current_model_name :: "'x model_env \<Rightarrow> ('x, string) mio" where
  "current_model_name env = io_gets (\<lambda>w.
     let cached = (case map_of (mw_cache w) ''default'' of Some (_, c, _) \<Rightarrow> me_attr env c | None \<Rightarrow> []);
         s = me_settings env in
     if cached \<noteq> [] then cached else if ls_provider s = ''claude'' then ''claude-sonnet-4-5''
     else if ls_provider s = ''openai'' then ls_openai_model s
     else if ls_provider s = ''vllm'' then ls_vllm_model s else [])"

section \<open>The endpoints\<close>

definition providers :: "string list" where "providers = [''openai'', ''claude'', ''vllm'']"

record model_view =
  mv_id :: int
  mv_name :: string
  mv_provider :: string
  mv_model :: string
  mv_has_key :: bool
  mv_base :: string
  mv_temperature :: rat
  mv_max_tokens :: int
  mv_structured :: bool
  mv_enabled :: bool
  mv_default :: bool

definition serialize_model :: "model_config \<Rightarrow> model_view" where
  "serialize_model r = \<lparr>mv_id = mc_id r, mv_name = mc_name r, mv_provider = mc_provider r, mv_model = mc_model r,
     mv_has_key = (mc_key r \<noteq> []), mv_base = mc_base r, mv_temperature = mc_temperature r,
     mv_max_tokens = mc_max_tokens r, mv_structured = mc_structured r, mv_enabled = mc_enabled r,
     mv_default = mc_default r\<rparr>"

definition in_range :: "rat \<Rightarrow> int \<Rightarrow> bool" where
  "in_range temperature tokens \<longleftrightarrow> 0 \<le> temperature \<and> temperature \<le> 2 \<and> 1 \<le> tokens \<and> tokens \<le> 200000"

definition model_create_ok :: "model_config \<Rightarrow> bool" where
  "model_create_ok r \<longleftrightarrow> mc_name r \<noteq> [] \<and> length (mc_name r) \<le> 128 \<and> mc_model r \<noteq> [] \<and> length (mc_model r) \<le> 128 \<and>
     in_range (mc_temperature r) (mc_max_tokens r)"

definition model_update_ok :: "model_update \<Rightarrow> bool" where
  "model_update_ok u \<longleftrightarrow> in_range (given (mu_temperature u) 0) (given (mu_max_tokens u) 1)"

definition known_provider :: "string \<Rightarrow> ('x, unit) mio" where
  "known_provider p = io_guard (p \<in> set providers) (HTTPException 422 [''provider must be openai/claude/vllm''])"

definition no_such_model :: "('x, 'a) mio" where
  "no_such_model = io_raise (HTTPException 404 [''no such model''])"

definition api_list_models :: "'x model_env \<Rightarrow> ('x, model_view list) mio" where
  "api_list_models env = io_bind (list_models env) (\<lambda>rs. io_return (map serialize_model rs))"

definition api_create_model :: "'x model_env \<Rightarrow> string \<Rightarrow> model_config \<Rightarrow> ('x, model_view) mio" where
  "api_create_model env username req =
     io_bind (io_guard (model_create_ok req) (HTTPException 422 [''invalid request''])) (\<lambda>_.
     io_bind (known_provider (mc_provider req)) (\<lambda>_.
     io_bind (create_model env req) (\<lambda>m.
     io_bind (invalidate None) (\<lambda>_.
     io_bind (me_audit env ''create'' username [(''id'', PInt (mc_id m)), (''name'', PStr (mc_name m))]) (\<lambda>_.
     io_return (serialize_model m))))))"

definition given_names :: "model_update \<Rightarrow> string list" where
  "given_names u = List.map_filter (\<lambda>(g, f). if g then Some f else None)
     [(mu_name u \<noteq> None, ''name''), (mu_provider u \<noteq> None, ''provider''), (mu_model u \<noteq> None, ''model_name''),
      (mu_key u \<noteq> None, ''api_key''), (mu_base u \<noteq> None, ''base_url''), (mu_temperature u \<noteq> None, ''temperature''),
      (mu_max_tokens u \<noteq> None, ''max_tokens''), (mu_structured u \<noteq> None, ''supports_structured''),
      (mu_enabled u \<noteq> None, ''enabled'')]"

definition api_update_model :: "'x model_env \<Rightarrow> string \<Rightarrow> int \<Rightarrow> model_update \<Rightarrow> ('x, model_view) mio" where
  "api_update_model env username i u =
     io_bind (io_guard (model_update_ok u) (HTTPException 422 [''invalid request''])) (\<lambda>_.
     io_bind (case mu_provider u of Some p \<Rightarrow> known_provider p | None \<Rightarrow> io_return ()) (\<lambda>_.
     io_bind (update_model env i u) (\<lambda>m. case m of None \<Rightarrow> no_such_model
     | Some r \<Rightarrow>
         io_bind (invalidate None) (\<lambda>_.
         io_bind (me_audit env ''update'' username [(''id'', PInt i), (''fields'', PList (map PStr (given_names u)))]) (\<lambda>_.
         io_return (serialize_model r))))))"

definition api_delete_model :: "'x model_env \<Rightarrow> string \<Rightarrow> int \<Rightarrow> ('x, unit) mio" where
  "api_delete_model env username i =
     io_bind (get_model env i) (\<lambda>was.
     io_bind (delete_model env i) (\<lambda>ok. if \<not> ok then no_such_model else
     io_bind (invalidate None) (\<lambda>_.
     io_bind (if (case was of Some r \<Rightarrow> mc_default r | None \<Rightarrow> False) then
         io_bind (list_models env) (\<lambda>remaining. case remaining of [] \<Rightarrow> io_return ()
         | r # rs \<Rightarrow> io_bind (set_default_model env (mc_id r)) (\<lambda>_. invalidate None))
       else io_return ()) (\<lambda>_.
     me_audit env ''delete'' username [(''id'', PInt i)]))))"

definition api_set_default :: "'x model_env \<Rightarrow> string \<Rightarrow> int \<Rightarrow> ('x, model_view) mio" where
  "api_set_default env username i =
     io_bind (set_default_model env i) (\<lambda>m. case m of None \<Rightarrow> no_such_model
     | Some r \<Rightarrow>
         io_bind (invalidate None) (\<lambda>_.
         io_bind (me_audit env ''set_default'' username [(''id'', PInt i)]) (\<lambda>_.
         io_return (serialize_model r))))"

text \<open>The test of a model: the answer, or the error, in at most five hundred characters.\<close>

definition api_test_model :: "'x model_env \<Rightarrow> int \<Rightarrow> ('x, bool \<times> string) mio" where
  "api_test_model env i =
     io_bind (get_model env i) (\<lambda>m. case m of None \<Rightarrow> no_such_model
     | Some r \<Rightarrow> if \<not> mc_enabled r then io_raise (HTTPException 422 [''the model is disabled''])
       else io_try
         (io_bind (chat_completion env [(''user'', me_probe env)] None 0 (Some i)) (\<lambda>reply.
          io_return (True, take 500 (py_str (me_rt env) reply))))
         (\<lambda>e. io_return (False, take 500 (me_exn_str env e))))"

end
