(* ===== verification/Hunting.thy ===== *)
theory Hunting
  imports Events Linter MainGraph
begin

text \<open>
  The two subgraphs around the model service: the hunt for a working program
  (\<open>src/orchestration/subgraphs/vuln_hunter\<close>) with the sandbox that runs it
  (\<open>src/execution/sandbox/executor.py\<close>), and the investigation
  (\<open>src/orchestration/subgraphs/investigation\<close>). The model service, the container runtime, the
  intelligence sources and the parser of programs are arguments. A wait under a time limit is one
  call, which raises \<open>TimeoutError\<close> when the limit passes.
\<close>

section \<open>Attributes of an answer\<close>

text \<open>The model service answers with a model of the given type, or with nothing.\<close>

definition attr :: "pyval \<Rightarrow> string \<Rightarrow> pyval res" where
  "attr v k = (case v of PDict d \<Rightarrow> (case map_of d k of Some x \<Rightarrow> Ok x | None \<Rightarrow> Raise AttributeError)
     | _ \<Rightarrow> Raise AttributeError)"

definition text_attr :: "pyval \<Rightarrow> string \<Rightarrow> string res" where
  "text_attr v k = rbind (attr v k) as_str"

definition texts_attr :: "pyval \<Rightarrow> string \<Rightarrow> string list res" where
  "texts_attr v k = rbind (attr v k) (\<lambda>x. rbind (py_iter x) as_strs)"

type_synonym 'w chat = "schema \<Rightarrow> string \<Rightarrow> ('w, pyval) io"

definition newline :: string where "newline = [CHR 0x0A]"

section \<open>The sandbox\<close>

record exec_result =
  ex_status :: string
  ex_stdout :: string
  ex_stderr :: string
  ex_exit :: int
  ex_time_ms :: int
  ex_vulnerable :: bool

definition exec_dump :: "exec_result \<Rightarrow> pydict" where
  "exec_dump r = [(''status'', PStr (ex_status r)), (''stdout'', PStr (ex_stdout r)), (''stderr'', PStr (ex_stderr r)),
     (''exit_code'', PInt (ex_exit r)), (''crash_log'', PNone), (''execution_time_ms'', PInt (ex_time_ms r)),
     (''is_vulnerable'', PBool (ex_vulnerable r))]"

text \<open>
  The environment of a hunt. \<open>he_run\<close> runs a program in a container of the given name and returns
  what it printed; \<open>he_failed\<close> are the exit status and the error text of a container that failed.
\<close>

record 'w hunt_env =
  he_chat :: "'w chat"
  he_parse :: "string \<Rightarrow> parsed"
  he_docker :: bool
  he_run :: "string \<Rightarrow> string \<Rightarrow> ('w, string) io"
  he_kill :: "string \<Rightarrow> ('w, unit) io"
  he_failed :: "exn \<Rightarrow> (int \<times> string) option"
  he_name :: "('w, string) io"
  he_elapsed :: "'w \<Rightarrow> int"
  he_timeout :: int
  he_exn_str :: "exn \<Rightarrow> string"
  he_dash :: string

definition says_vulnerable :: "string \<Rightarrow> bool" where
  "says_vulnerable out \<longleftrightarrow> str_in ''VULNERABLE'' out \<or> str_in ''exploit_success'' (py_lower out)"

definition run_container :: "'w hunt_env \<Rightarrow> string \<Rightarrow> string \<Rightarrow> ('w, exec_result) io" where
  "run_container env name code = io_try
     (io_bind (he_run env name code) (\<lambda>out. io_return
        \<lparr>ex_status = ''success'', ex_stdout = out, ex_stderr = [], ex_exit = 0, ex_time_ms = 0,
         ex_vulnerable = says_vulnerable out\<rparr>))
     (\<lambda>e. case he_failed env e of
        Some (status, err) \<Rightarrow> io_return
          \<lparr>ex_status = ''crash'', ex_stdout = [], ex_stderr = err, ex_exit = status, ex_time_ms = 0,
           ex_vulnerable = False\<rparr>
      | None \<Rightarrow> io_raise e)"

definition failed_run :: "string \<Rightarrow> string \<Rightarrow> int \<Rightarrow> int \<Rightarrow> exec_result" where
  "failed_run status err code ms =
     \<lparr>ex_status = status, ex_stdout = [], ex_stderr = err, ex_exit = code, ex_time_ms = ms, ex_vulnerable = False\<rparr>"

definition execute :: "'w hunt_env \<Rightarrow> string \<Rightarrow> ('w, exec_result) io" where
  "execute env code =
     (if \<not> he_docker env then io_return (failed_run ''error'' ''Docker not available'' (-1) 0)
      else io_bind (he_name env) (\<lambda>name. io_try
        (io_bind (run_container env name code) (\<lambda>r.
         io_bind (io_gets (he_elapsed env)) (\<lambda>ms. io_return (r\<lparr>ex_time_ms := ms\<rparr>))))
        (\<lambda>e. if e = TimeoutError then
            io_bind (io_try (he_kill env name) (\<lambda>_. io_return ())) (\<lambda>_.
            io_return (failed_run ''timeout''
              (''Execution exceeded '' @ int_to_str (he_timeout env) @ ''s timeout'') 0 (he_timeout env * 1000)))
          else io_return (failed_run ''error'' (he_exn_str env e) (-1) 0))))"

section \<open>The memory of a hunt\<close>

record hunt_memory =
  hm_target :: string
  hm_negative :: "string list"
  hm_constraints :: "string list"
  hm_candidates :: "string list"
  hm_iteration :: nat
  hm_final :: "string option"

definition add_constraint :: "string \<Rightarrow> hunt_memory \<Rightarrow> hunt_memory" where
  "add_constraint c m = (if c \<in> set (hm_constraints m) then m else m\<lparr>hm_constraints := hm_constraints m @ [c]\<rparr>)"

definition add_negative_evidence :: "string \<Rightarrow> hunt_memory \<Rightarrow> hunt_memory" where
  "add_negative_evidence e m = (if e \<in> set (hm_negative m) then m else m\<lparr>hm_negative := hm_negative m @ [e]\<rparr>)"

definition increment_iteration :: "hunt_memory \<Rightarrow> hunt_memory" where
  "increment_iteration m = m\<lparr>hm_iteration := Suc (hm_iteration m)\<rparr>"

record hunt_state =
  hs_memory :: hunt_memory
  hs_code :: "string option"
  hs_last :: "pydict option"
  hs_final :: "string option"
  hs_vulnerable :: bool
  hs_chain :: "string option"

section \<open>The nodes of a hunt\<close>

definition MAX_ITERATIONS :: nat where "MAX_ITERATIONS = 10"

definition poc_output :: schema where
  "poc_output = [(''poc_code'', v_str, None), (''reasoning'', v_str, None), (''updated_constraints'', v_list v_str, None)]"

definition tried :: "nat \<Rightarrow> string \<Rightarrow> string" where
  "tried i poc = ''<iteration round='' @ [CHR 0x22] @ nat_to_str i @ [CHR 0x22] @ ''><poc_tried>'' @
     replace_char (CHR 0x0A) (CHR '' '') (take 200 poc) @ ''...</poc_tried></iteration>''"

definition build_memory_history :: "hunt_memory \<Rightarrow> string" where
  "build_memory_history m = join newline
     (map (\<lambda>(i, poc). tried i poc) (zip [1..<Suc (length (hm_candidates m))] (hm_candidates m)) @
      (if hm_negative m \<noteq> []
       then [''<negative_paths>'' @ join '' | '' (hm_negative m) @ ''</negative_paths>''] else []))"

definition hunt_prompt :: "hunt_memory \<Rightarrow> string" where
  "hunt_prompt m = join newline
     [''You are a security researcher generating PoC exploit code.'', [],
      ''<memory_history>'', build_memory_history m, ''</memory_history>'', [],
      ''<constraints>'', join newline (map (\<lambda>c. ''- '' @ c) (hm_constraints m)), ''</constraints>'', [],
      ''<target>'', hm_target m, ''</target>'', [],
      ''<current_task>'',
      ''Generate iteration '' @ nat_to_str (hm_iteration m) @ '' PoC. MUST avoid all failed paths. Return JSON with:'',
      ''- poc_code: the Python exploit code (only allowed imports: requests,socket,json,re,time,sys,struct,hashlib,base64)'',
      ''- reasoning: why this approach should work'',
      ''- updated_constraints: any new constraints discovered'',
      ''</current_task>'']"

definition generate_poc_node :: "'w hunt_env \<Rightarrow> hunt_state \<Rightarrow> ('w, hunt_state) io" where
  "generate_poc_node env st =
     (let m = increment_iteration (hs_memory st) in
      io_bind (he_chat env poc_output (hunt_prompt m)) (\<lambda>r.
      io_bind (io_lift (texts_attr r ''updated_constraints'')) (\<lambda>cs.
      io_bind (io_lift (text_attr r ''poc_code'')) (\<lambda>code.
      let m = fold add_constraint cs m in
      io_return (st\<lparr>hs_code := Some code, hs_memory := m\<lparr>hm_candidates := hm_candidates m @ [code]\<rparr>\<rparr>)))))"

definition code_of :: "hunt_state \<Rightarrow> string" where
  "code_of st = (case hs_code st of Some c \<Rightarrow> c | None \<Rightarrow> [])"

definition lint_evidence :: "'w hunt_env \<Rightarrow> hunt_memory \<Rightarrow> string option \<Rightarrow> string" where
  "lint_evidence env m detail = ''Round '' @ nat_to_str (hm_iteration m) @ '': Linter rejected '' @ he_dash env @ '' '' @
     or_none id detail"

definition linter_check_node :: "'w hunt_env \<Rightarrow> hunt_state \<Rightarrow> ('w, hunt_state) io" where
  "linter_check_node env st =
     io_bind (io_lift (lint (he_parse env) (code_of st))) (\<lambda>r.
     if \<not> lr_passed r then
       let m = add_negative_evidence (lint_evidence env (hs_memory st) (lr_detail r)) (hs_memory st);
           m = (case lr_suggestion r of Some (c # cs) \<Rightarrow> add_constraint (c # cs) m | _ \<Rightarrow> m) in
       io_return (st\<lparr>hs_memory := m, hs_last := Some
         [(''status'', PStr ''linter_fail''),
          (''detail'', case lr_detail r of Some d \<Rightarrow> PStr d | None \<Rightarrow> PNone)]\<rparr>)
     else io_return (st\<lparr>hs_last := Some [(''status'', PStr ''linter_pass'')]\<rparr>))"

definition last_of :: "hunt_state \<Rightarrow> pydict" where
  "last_of st = (case hs_last st of Some d \<Rightarrow> d | None \<Rightarrow> [])"

definition run_evidence :: "'w hunt_env \<Rightarrow> hunt_memory \<Rightarrow> exec_result \<Rightarrow> string" where
  "run_evidence env m r = ''Round '' @ nat_to_str (hm_iteration m) @ '': Sandbox '' @ ex_status r @ '' '' @ he_dash env @
     '' '' @ take 100 (ex_stderr r)"

definition sandbox_exec_node :: "'w hunt_env \<Rightarrow> hunt_state \<Rightarrow> ('w, hunt_state) io" where
  "sandbox_exec_node env st =
     (if dget (last_of st) ''status'' PNone = PStr ''linter_fail'' then io_return (st\<lparr>hs_last := Some (last_of st)\<rparr>)
      else io_bind (execute env (code_of st)) (\<lambda>r.
        io_return (st\<lparr>hs_last := Some (exec_dump r),
          hs_memory := if ex_vulnerable r then hs_memory st
            else add_negative_evidence (run_evidence env (hs_memory st) r) (hs_memory st)\<rparr>)))"

definition finalize_node :: "hunt_state \<Rightarrow> hunt_state" where
  "finalize_node st =
     (if truthy (dget (last_of st) ''is_vulnerable'' (PBool False)) then
        st\<lparr>hs_memory := (hs_memory st)\<lparr>hm_final := hs_code st\<rparr>, hs_final := hs_code st, hs_vulnerable := True,
          hs_chain := Some (''Verified in '' @ nat_to_str (hm_iteration (hs_memory st)) @ '' iterations'')\<rparr>
      else
        st\<lparr>hs_final := None, hs_vulnerable := False,
          hs_chain := Some (''Not reproduced after '' @ nat_to_str (hm_iteration (hs_memory st)) @ '' iterations'')\<rparr>)"

section \<open>The graph of a hunt\<close>

datatype hunt_node = Generate | Lint | Sandbox | Finalize | Hunt_End

definition check_convergence :: "hunt_state \<Rightarrow> hunt_node" where
  "check_convergence st =
     (if truthy (dget (last_of st) ''is_vulnerable'' PNone) then Finalize
      else if hm_iteration (hs_memory st) \<ge> MAX_ITERATIONS then Finalize else Generate)"

definition hunt_body :: "'w hunt_env \<Rightarrow> hunt_node \<Rightarrow> hunt_state \<Rightarrow> ('w, hunt_state) io" where
  "hunt_body env n st = (case n of
     Generate \<Rightarrow> generate_poc_node env st | Lint \<Rightarrow> linter_check_node env st
   | Sandbox \<Rightarrow> sandbox_exec_node env st | Finalize \<Rightarrow> io_return (finalize_node st) | Hunt_End \<Rightarrow> io_return st)"

definition hunt_next :: "hunt_node \<Rightarrow> hunt_state \<Rightarrow> hunt_node" where
  "hunt_next n st = (case n of
     Generate \<Rightarrow> Lint | Lint \<Rightarrow> Sandbox | Sandbox \<Rightarrow> check_convergence st | _ \<Rightarrow> Hunt_End)"

text \<open>The graph under the limit on its steps that its caller gives it: \<open>None\<close> when the limit is reached.\<close>

fun run_hunt :: "'w hunt_env \<Rightarrow> nat \<Rightarrow> hunt_node \<Rightarrow> hunt_state \<Rightarrow> ('w, hunt_state option) io" where
  "run_hunt env limit Hunt_End st = io_return (Some st)"
| "run_hunt env 0 n st = io_return None"
| "run_hunt env (Suc limit) n st =
     io_bind (hunt_body env n st) (\<lambda>st'. run_hunt env limit (hunt_next n st') st')"

definition hunt_start :: "string \<Rightarrow> hunt_state" where
  "hunt_start target =
     \<lparr>hs_memory = \<lparr>hm_target = target, hm_negative = [], hm_constraints = [], hm_candidates = [], hm_iteration = 0,
        hm_final = None\<rparr>,
      hs_code = Some [], hs_last = None, hs_final = None, hs_vulnerable = False, hs_chain = None\<rparr>"

definition hunt_limit :: nat where "hunt_limit = 35"

text \<open>What the main graph is given: the fields of the final state it reads.\<close>

definition hunt_result :: "hunt_state \<Rightarrow> pydict" where
  "hunt_result st =
     [(''is_vulnerable'', PBool (hs_vulnerable st)),
      (''final_poc'', case hs_final st of Some c \<Rightarrow> PStr c | None \<Rightarrow> PNone),
      (''exploit_chain'', case hs_chain st of Some c \<Rightarrow> PStr c | None \<Rightarrow> PNone)]"

definition vuln_hunt :: "'w hunt_env \<Rightarrow> pydict \<Rightarrow> ('w, pydict) io" where
  "vuln_hunt env sub_state =
     io_bind (io_lift (rbind (vget (dget sub_state ''memory'' (PDict [])) ''target_info'' PNone) as_str)) (\<lambda>target.
     io_bind (run_hunt env hunt_limit Generate (hunt_start target)) (\<lambda>out.
     case out of None \<Rightarrow> io_raise (ExtError ''GraphRecursionError'') | Some st \<Rightarrow> io_return (hunt_result st)))"

section \<open>The investigation\<close>

definition intel_card :: schema where
  "intel_card =
     [(''risk_level'', v_one_of [''critical'', ''high'', ''medium'', ''low'', ''unknown''], None),
      (''related_apt'', v_list v_str, None), (''campaigns'', v_list v_str, None), (''ttps'', v_list v_str, None),
      (''recommendations'', v_list v_str, None), (''raw_evidence'', v_list v_str, None)]"

text \<open>A number between bounds.\<close>

definition v_between :: "lax \<Rightarrow> rat \<Rightarrow> rat \<Rightarrow> validator" where
  "v_between l lo hi v = rbind (v_float l v) (\<lambda>u. case u of
     PFloat r \<Rightarrow> if lo \<le> r \<and> r \<le> hi then Ok u else Raise ValueError | _ \<Rightarrow> Raise ValueError)"

definition verdict_result :: "lax \<Rightarrow> schema" where
  "verdict_result l =
     [(''verdict'', v_one_of [''true_positive'', ''false_positive'', ''benign''], None),
      (''confidence'', v_between l 0 1, None), (''evidence_summary'', v_str, None),
      (''mitre_ttps'', v_list v_str, None), (''recommended_action'', v_str, None)]"

record 'w inv_env =
  iv_chat :: "'w chat"
  iv_lax :: lax
  iv_rt :: pyrt
  iv_fixed2 :: "pyval \<Rightarrow> string res"
  iv_vt_key :: string
  iv_vt :: "string \<Rightarrow> ('w, int \<times> pyval) io"
  iv_search :: "string list \<Rightarrow> ('w, pyval) io"
  iv_memory_add :: "pyval \<Rightarrow> string \<Rightarrow> string \<Rightarrow> pyval \<Rightarrow> ('w, unit) io"
  iv_at_most :: string

definition query_virustotal :: "'w inv_env \<Rightarrow> string \<Rightarrow> ('w, pyval) io" where
  "query_virustotal env ioc =
     (if iv_vt_key env = [] then io_return (PDict [])
      else io_try (io_bind (iv_vt env ioc) (\<lambda>(status, body). io_return (if status = 200 then body else PDict [])))
        (\<lambda>e. io_return (PDict [])))"

text \<open>The lookups are gathered; one that is cancelled yields its exception as its result.\<close>

definition gathered :: "('w, pyval) io \<Rightarrow> ('w, pyval option) io" where
  "gathered m = (\<lambda>w. case m w of (Inr v, w') \<Rightarrow> (Ok (Some v), w') | (Inl e, w') \<Rightarrow> (Ok None, w'))"

fun gather :: "('w, pyval) io list \<Rightarrow> ('w, pyval option list) io" where
  "gather [] = io_return []"
| "gather (m # ms) = io_bind (gathered m) (\<lambda>v. io_bind (gather ms) (\<lambda>vs. io_return (v # vs)))"

definition query_graphrag :: "'w inv_env \<Rightarrow> string list \<Rightarrow> ('w, pyval) io" where
  "query_graphrag env iocs =
     io_try (io_bind (iv_search env iocs) (\<lambda>r. io_lift (rbind (vget r ''context'' (PStr [])) (\<lambda>c. Ok (py_or c (PStr []))))))
       (\<lambda>e. io_return (PStr []))"

definition evidence_of :: "'w inv_env \<Rightarrow> pyval option list \<Rightarrow> string list" where
  "evidence_of env rs = List.map_filter (\<lambda>r. case r of
     Some (PDict (x # xs)) \<Rightarrow> Some (py_str (iv_rt env) (PDict (x # xs))) | _ \<Rightarrow> None) rs"

definition text_list :: "pyval \<Rightarrow> string list res" where
  "text_list v = (case v of PList xs \<Rightarrow> as_strs xs | _ \<Rightarrow> Raise TypeError)"

definition ioc_values :: "pyval \<Rightarrow> string list res" where
  "ioc_values iocs =
     rbind (rbind (vget iocs ''ips'' (PList [])) text_list) (\<lambda>a.
     rbind (rbind (vget iocs ''domains'' (PList [])) text_list) (\<lambda>b.
     rbind (rbind (vget iocs ''hashes'' (PList [])) text_list) (\<lambda>c. Ok (a @ b @ c))))"

definition cti_prompt :: "'w inv_env \<Rightarrow> string list \<Rightarrow> pyval list \<Rightarrow> string list \<Rightarrow> string \<Rightarrow> string" where
  "cti_prompt env iocs relations evidence context =
     ''You are a CTI analyst. Based on the following IOCs and evidence, '' @
     ''produce a structured threat intelligence card.'' @ newline @ newline @
     ''IOCs: '' @ py_str (iv_rt env) (PList (map PStr iocs)) @ newline @
     ''Graph relations: '' @ py_str (iv_rt env) (PList (take 10 relations)) @ newline @
     ''External evidence: '' @ py_str (iv_rt env) (PList (map PStr (take 3 evidence))) @ newline @
     ''Local intel context:'' @ newline @ take 1000 context @ newline @ newline @
     ''Return a JSON with: risk_level, related_apt, campaigns, ttps, recommendations, raw_evidence''"

definition degraded_card :: "string list \<Rightarrow> pyval" where
  "degraded_card evidence = PDict
     [(''risk_level'', PStr ''unknown''), (''related_apt'', PList []), (''campaigns'', PList []), (''ttps'', PList []),
      (''recommendations'', PList [PStr ''CTI LLM unavailable -- manual review required'']),
      (''raw_evidence'', PList (map PStr (take 5 evidence)))]"

definition store_memory :: "'w inv_env \<Rightarrow> pyval \<Rightarrow> string \<Rightarrow> string \<Rightarrow> pyval \<Rightarrow> ('w, unit) io" where
  "store_memory env event_id node content metadata =
     io_try (iv_memory_add env event_id node content metadata) (\<lambda>e. io_return ())"

definition log_of :: "pydict \<Rightarrow> pyval list" where
  "log_of st = (case dget st ''investigation_log'' (PList []) of PList xs \<Rightarrow> xs | _ \<Rightarrow> [])"

definition cti_analyst_node :: "'w inv_env \<Rightarrow> pydict \<Rightarrow> ('w, pydict) io" where
  "cti_analyst_node env st =
     io_bind (io_lift (ioc_values (dget st ''iocs'' (PDict [])))) (\<lambda>iocs.
     io_bind (gather (map (query_virustotal env) (take 5 iocs))) (\<lambda>found.
     let evidence = evidence_of env found;
         relations = (case dget st ''graph_relations'' (PList []) of PList xs \<Rightarrow> xs | _ \<Rightarrow> []) in
     io_bind (query_graphrag env iocs) (\<lambda>context.
     io_bind (io_lift (as_str context)) (\<lambda>context.
     io_bind (io_try (iv_chat env intel_card (cti_prompt env iocs relations evidence context))
       (\<lambda>e. io_return (degraded_card evidence))) (\<lambda>card.
     io_bind (io_lift (text_attr card ''risk_level'')) (\<lambda>risk.
     io_bind (io_lift (attr card ''related_apt'')) (\<lambda>apt.
     io_bind (store_memory env (dget st ''event_id'' (PStr ''unknown'')) ''cti_analyst'' (''Risk: '' @ risk) card) (\<lambda>_.
     io_return (dupdate st [(''raw_intel'', card),
       (''investigation_log'', PList (log_of st @
          [PStr (''CTI: risk='' @ risk @ '' apt='' @ py_str (iv_rt env) apt)]))])))))))))"

definition cot_prompt :: "'w inv_env \<Rightarrow> string \<Rightarrow> string \<Rightarrow> string" where
  "cot_prompt env event_text intel_summary = join newline
     [''You are a senior security investigator. Use Chain-of-Thought reasoning:'', [],
      ''Step 1: Analyze the IOC characteristics'', ''Step 2: Compare with threat intelligence'',
      ''Step 3: Identify attack chain and TTPs'', ''Step 4: Cross-validate internal and external evidence'',
      ''Step 5: Output final verdict with confidence'', [],
      ''Event:'', event_text, [], ''Intelligence:'', intel_summary, [],
      ''Return JSON: verdict (true_positive|false_positive|benign), confidence (0-1),'',
      ''evidence_summary ('' @ iv_at_most env @ ''100 chars), mitre_ttps (list), recommended_action (string)'', []]"

definition investigator_node :: "'w inv_env \<Rightarrow> pydict \<Rightarrow> ('w, pydict) io" where
  "investigator_node env st =
     io_bind (io_lift (vget (dget st ''raw_event'' (PDict [])) ''sanitized_text'' (PStr []))) (\<lambda>event_text.
     io_bind (iv_chat env (verdict_result (iv_lax env)) (cot_prompt env
        (take 1500 (py_str (iv_rt env) event_text))
        (take 1000 (py_str (iv_rt env) (dget st ''raw_intel'' (PDict [])))))) (\<lambda>r.
     io_bind (io_lift (text_attr r ''verdict'')) (\<lambda>verdict.
     io_bind (io_lift (attr r ''confidence'')) (\<lambda>confidence.
     io_bind (io_lift (iv_fixed2 env confidence)) (\<lambda>shown.
     io_bind (io_lift (attr r ''evidence_summary'')) (\<lambda>evidence.
     io_bind (io_lift (attr r ''mitre_ttps'')) (\<lambda>ttps.
     io_return (dupdate st
       [(''final_verdict'', PStr verdict), (''confidence_score'', confidence), (''evidence_summary'', evidence),
        (''mitre_ttps'', ttps),
        (''investigation_log'', PList (log_of st @
          [PStr (''Investigator: verdict='' @ verdict @ '' confidence='' @ shown)]))]))))))))"

definition run_investigation :: "'w inv_env \<Rightarrow> pydict \<Rightarrow> ('w, pydict) io" where
  "run_investigation env st = io_bind (cti_analyst_node env st) (investigator_node env)"

end
