(* ===== verification/HuntLaws.thy ===== *)
theory HuntLaws
  imports Hunting
begin

text \<open>
  The theorems on the hunt and the investigation of \<open>Hunting\<close>: a hunt ends within the step limit
  its caller sets, only programs that pass the linter run in the sandbox, and what is reported as a
  verified program has done both.
\<close>

section \<open>Every hunt ends\<close>

text \<open>The steps the graph needs at most from a node.\<close>

definition steps_left :: "hunt_node \<Rightarrow> hunt_state \<Rightarrow> nat" where
  "steps_left n st = (let rounds = MAX_ITERATIONS - hm_iteration (hs_memory st) in
     case n of Generate \<Rightarrow> 3 * rounds + 1 | Lint \<Rightarrow> 3 * rounds + 3 | Sandbox \<Rightarrow> 3 * rounds + 2
     | Finalize \<Rightarrow> 1 | Hunt_End \<Rightarrow> 0)"

definition round_ok :: "hunt_node \<Rightarrow> hunt_state \<Rightarrow> bool" where
  "round_ok n st \<longleftrightarrow> n = Generate \<longrightarrow> hm_iteration (hs_memory st) < MAX_ITERATIONS"

lemma memory_steps [simp]:
  "hm_iteration (increment_iteration m) = Suc (hm_iteration m)"
  "hm_iteration (add_constraint c m) = hm_iteration m"
  "hm_iteration (add_negative_evidence e m) = hm_iteration m"
  "hm_candidates (increment_iteration m) = hm_candidates m"
  "hm_candidates (add_constraint c m) = hm_candidates m"
  "hm_candidates (add_negative_evidence e m) = hm_candidates m"
  by (simp_all add: increment_iteration_def add_constraint_def add_negative_evidence_def)

lemma fold_constraints [simp]:
  "hm_iteration (fold add_constraint cs m) = hm_iteration m"
  "hm_candidates (fold add_constraint cs m) = hm_candidates m"
  by (induction cs arbitrary: m) simp_all

lemma generated:
  assumes "generate_poc_node env st w = (Ok st', w')"
  shows "hm_iteration (hs_memory st') = Suc (hm_iteration (hs_memory st))"
    and "\<exists>code. hs_code st' = Some code \<and> hm_candidates (hs_memory st') = hm_candidates (hs_memory st) @ [code]"
    and "hs_last st' = hs_last st"
  using assms by (auto simp: generate_poc_node_def Let_def io_bind_Inr)

lemma linted:
  assumes "linter_check_node env st w = (Ok st', w')"
  obtains r where "lint (he_parse env) (code_of st) = Ok r" "hs_code st' = hs_code st"
    "hm_iteration (hs_memory st') = hm_iteration (hs_memory st)"
    "hm_candidates (hs_memory st') = hm_candidates (hs_memory st)"
    "hs_last st' = Some (if lr_passed r then [(''status'', PStr ''linter_pass'')]
       else [(''status'', PStr ''linter_fail''), (''detail'', case lr_detail r of Some d \<Rightarrow> PStr d | None \<Rightarrow> PNone)])"
proof -
  from assms obtain r where r: "lint (he_parse env) (code_of st) = Ok r"
    by (auto simp: linter_check_node_def io_bind_Inr)
  show ?thesis
  proof (cases "lr_passed r")
    case True
    with assms r have "st' = st\<lparr>hs_last := Some [(''status'', PStr ''linter_pass'')]\<rparr>"
      by (auto simp: linter_check_node_def io_bind_Inr)
    with r True show ?thesis by (intro that [of r]) simp_all
  next
    case False
    let ?m = "add_negative_evidence (lint_evidence env (hs_memory st) (lr_detail r)) (hs_memory st)"
    have "st' = st\<lparr>hs_memory := (case lr_suggestion r of Some (c # cs) \<Rightarrow> add_constraint (c # cs) ?m | _ \<Rightarrow> ?m),
        hs_last := Some [(''status'', PStr ''linter_fail''),
          (''detail'', case lr_detail r of Some d \<Rightarrow> PStr d | None \<Rightarrow> PNone)]\<rparr>"
      using assms r False by (auto simp: linter_check_node_def Let_def io_bind_Inr)
    with r False show ?thesis by (intro that [of r]) (simp_all split: option.split list.split)
  qed
qed

lemma sandboxed:
  assumes "sandbox_exec_node env st w = (Ok st', w')"
  shows "hs_code st' = hs_code st" "hm_iteration (hs_memory st') = hm_iteration (hs_memory st)"
    "hm_candidates (hs_memory st') = hm_candidates (hs_memory st)"
  using assms by (auto simp: sandbox_exec_node_def io_bind_Inr split: if_splits)

lemma round_progress:
  assumes "hunt_body env n st w = (Ok st', w')" "round_ok n st" "n \<noteq> Hunt_End"
  shows "steps_left (hunt_next n st') st' < steps_left n st" "round_ok (hunt_next n st') st'"
  using assms
  by (cases n; auto simp: hunt_body_def hunt_next_def steps_left_def round_ok_def Let_def check_convergence_def
      dest!: generated(1) sandboxed(2) elim!: linted)+

lemma run_hunt_Suc: "n \<noteq> Hunt_End \<Longrightarrow> run_hunt env (Suc limit) n st =
    io_bind (hunt_body env n st) (\<lambda>st'. run_hunt env limit (hunt_next n st') st')"
  by (cases n) simp_all

lemma run_hunt_ends:
  "round_ok n st \<Longrightarrow> steps_left n st \<le> limit \<Longrightarrow> fst (run_hunt env limit n st w) \<noteq> Ok None"
proof (induction limit arbitrary: n st w)
  case (Suc limit)
  show ?case
  proof (cases "n = Hunt_End")
    case False
    note r = run_hunt_Suc [OF False]
    show ?thesis
    proof (cases "hunt_body env n st w")
      case (Pair x w1)
      show ?thesis
      proof (cases x)
        case (Inr st')
        with Pair round_progress [OF _ Suc.prems(1) False] have
          "steps_left (hunt_next n st') st' < steps_left n st" "round_ok (hunt_next n st') st'" by auto
        with Suc.IH [of "hunt_next n st'" st' w1] Suc.prems(2) show ?thesis by (simp add: r Pair Inr)
      qed (simp add: r Pair)
    qed
  qed simp
next
  case (0 n)
  then show ?case by (cases n) (simp_all add: steps_left_def round_ok_def Let_def)
qed

text \<open>C31: a hunt ends: within the step limit of its caller (35) it always reaches its end, whatever the
  model service answers and however the programs fail, or raises what an outside call raised.\<close>

theorem hunt_ends_in_time: "fst (run_hunt env hunt_limit Generate (hunt_start target) w) \<noteq> Ok None"
  by (rule run_hunt_ends) (simp_all add: round_ok_def steps_left_def hunt_start_def MAX_ITERATIONS_def hunt_limit_def)

section \<open>What runs in the sandbox\<close>

definition passes :: "'w hunt_env \<Rightarrow> string \<Rightarrow> bool" where
  "passes env code = (case lint (he_parse env) code of Inr r \<Rightarrow> lr_passed r | Inl e \<Rightarrow> False)"

text \<open>The same hunt, with another runtime for the programs that do not pass the linter.\<close>

definition with_runtime :: "(string \<Rightarrow> string \<Rightarrow> ('w, string) io) \<Rightarrow> 'w hunt_env \<Rightarrow> 'w hunt_env" where
  "with_runtime other env =
     env\<lparr>he_run := \<lambda>name code. if passes env code then he_run env name code else other name code\<rparr>"

text \<open>A program that passed the linter ran in the sandbox and its output said that it worked.\<close>

definition confirmed :: "'w hunt_env \<Rightarrow> string \<Rightarrow> bool" where
  "confirmed env code \<longleftrightarrow> passes env code \<and> he_docker env \<and>
     (\<exists>name w out w'. he_run env name code w = (Ok out, w') \<and> says_vulnerable out)"

definition flagged :: "hunt_state \<Rightarrow> bool" where
  "flagged st = truthy (dget (last_of st) ''is_vulnerable'' PNone)"

definition lint_failed :: "hunt_state \<Rightarrow> bool" where
  "lint_failed st \<longleftrightarrow> dget (last_of st) ''status'' PNone = PStr ''linter_fail''"

definition verdict_of :: "'w hunt_env \<Rightarrow> hunt_state \<Rightarrow> bool" where
  "verdict_of env st \<longleftrightarrow> (\<exists>n. 1 \<le> n \<and> n \<le> MAX_ITERATIONS \<and>
     (if hs_vulnerable st
      then \<exists>code. hs_final st = Some code \<and> confirmed env code \<and>
        hs_chain st = Some (''Verified in '' @ nat_to_str n @ '' iterations'')
      else hs_final st = None \<and> n = MAX_ITERATIONS \<and>
        hs_chain st = Some (''Not reproduced after '' @ nat_to_str n @ '' iterations'')))"

fun hunt_inv :: "'w hunt_env \<Rightarrow> hunt_node \<Rightarrow> hunt_state \<Rightarrow> bool" where
  "hunt_inv env Generate st \<longleftrightarrow> hm_iteration (hs_memory st) < MAX_ITERATIONS"
| "hunt_inv env Lint st \<longleftrightarrow> 1 \<le> hm_iteration (hs_memory st) \<and> hm_iteration (hs_memory st) \<le> MAX_ITERATIONS \<and>
     hs_code st \<noteq> None"
| "hunt_inv env Sandbox st \<longleftrightarrow> 1 \<le> hm_iteration (hs_memory st) \<and> hm_iteration (hs_memory st) \<le> MAX_ITERATIONS \<and>
     hs_code st \<noteq> None \<and> \<not> flagged st \<and> (lint_failed st \<or> passes env (code_of st))"
| "hunt_inv env Finalize st \<longleftrightarrow> 1 \<le> hm_iteration (hs_memory st) \<and> hm_iteration (hs_memory st) \<le> MAX_ITERATIONS \<and>
     hs_code st \<noteq> None \<and> (if flagged st then confirmed env (code_of st) else hm_iteration (hs_memory st) = MAX_ITERATIONS)"
| "hunt_inv env Hunt_End st \<longleftrightarrow> verdict_of env st"

lemma executed:
  assumes "execute env code w = (Ok r, w')" "ex_vulnerable r"
  shows "he_docker env \<and> (\<exists>name w out w'. he_run env name code w = (Ok out, w') \<and> says_vulnerable out)"
  using assms by (auto simp: execute_def run_container_def failed_run_def io_bind_Inr io_try_Inr split: if_splits option.splits) blast

lemma exec_dump_flag: "truthy (dget (exec_dump r) ''is_vulnerable'' PNone) = ex_vulnerable r"
  by (simp add: exec_dump_def dget_def)

lemma sandbox_flag:
  assumes "sandbox_exec_node env st w = (Ok st', w')" "\<not> flagged st" "lint_failed st \<or> passes env (code_of st)" "flagged st'"
  shows "confirmed env (code_of st')"
  using assms executed [of env "code_of st"]
  by (auto simp: sandbox_exec_node_def io_bind_Inr flagged_def lint_failed_def last_of_def confirmed_def code_of_def
      exec_dump_flag split: if_splits option.splits)

lemma dget_default_flag: "truthy (dget d ''is_vulnerable'' (PBool False)) = truthy (dget d ''is_vulnerable'' PNone)"
  by (simp add: dget_def split: option.split)

lemma hunt_inv_step:
  assumes "hunt_inv env n st" "hunt_body env n st w = (Ok st', w')" "n \<noteq> Hunt_End"
  shows "hunt_inv env (hunt_next n st') st'"
proof (cases n)
  case Generate
  with assms generated [of env st w st' w'] show ?thesis by (auto simp: hunt_body_def hunt_next_def)
next
  case Lint
  with assms(2) have "linter_check_node env st w = (Ok st', w')" by (simp add: hunt_body_def)
  then show ?thesis
    using assms(1) Lint by (auto elim!: linted simp: hunt_next_def flagged_def lint_failed_def last_of_def
        passes_def code_of_def split: if_splits)
next
  case Sandbox
  with assms(2) have s: "sandbox_exec_node env st w = (Ok st', w')" by (simp add: hunt_body_def)
  from assms(1) Sandbox have "\<not> flagged st" "lint_failed st \<or> passes env (code_of st)" by auto
  with sandbox_flag [OF s] sandboxed [OF s] assms(1) Sandbox show ?thesis
    by (auto simp: hunt_next_def check_convergence_def flagged_def)
next
  case Finalize
  with assms(2) have st': "st' = finalize_node st" by (simp add: hunt_body_def)
  from assms(1) Finalize obtain code where c: "hs_code st = Some code" by auto
  show ?thesis
    using assms(1) Finalize c
    by (auto simp: st' hunt_next_def verdict_of_def finalize_node_def flagged_def dget_default_flag code_of_def
        intro!: exI [of _ "hm_iteration (hs_memory st)"])
qed (use assms(3) in simp)

lemma run_hunt_verdict:
  "hunt_inv env n st \<Longrightarrow> run_hunt env limit n st w = (Ok (Some st'), w') \<Longrightarrow> verdict_of env st'"
proof (induction limit arbitrary: n st w)
  case 0
  then show ?case by (cases n) simp_all
next
  case (Suc limit)
  show ?case
  proof (cases "n = Hunt_End")
    case False
    with Suc.prems(2) obtain st1 w1 where s: "hunt_body env n st w = (Ok st1, w1)"
      "run_hunt env limit (hunt_next n st1) st1 w1 = (Ok (Some st'), w')" by (auto simp: run_hunt_Suc io_bind_Inr)
    from Suc.IH [OF hunt_inv_step [OF Suc.prems(1) s(1) False] s(2)] show ?thesis .
  qed (use Suc.prems in simp)
qed

lemma hunt_inv_start: "hunt_inv env Generate (hunt_start target)"
  by (simp add: hunt_start_def MAX_ITERATIONS_def)



lemma with_runtime_simps [simp]:
  "he_chat (with_runtime other env) = he_chat env" "he_parse (with_runtime other env) = he_parse env"
  "he_docker (with_runtime other env) = he_docker env" "he_kill (with_runtime other env) = he_kill env"
  "he_failed (with_runtime other env) = he_failed env" "he_name (with_runtime other env) = he_name env"
  "he_elapsed (with_runtime other env) = he_elapsed env" "he_timeout (with_runtime other env) = he_timeout env"
  "he_exn_str (with_runtime other env) = he_exn_str env" "he_dash (with_runtime other env) = he_dash env"
  "he_run (with_runtime other env) name code = (if passes env code then he_run env name code else other name code)"
  by (simp_all add: with_runtime_def)

lemma evidence_with_runtime [simp]:
  "lint_evidence (with_runtime other env) = lint_evidence env" "run_evidence (with_runtime other env) = run_evidence env"
  by (simp_all add: fun_eq_iff lint_evidence_def run_evidence_def)

lemma execute_with_runtime: "passes env code \<Longrightarrow> execute (with_runtime other env) code = execute env code"
  by (simp add: execute_def run_container_def cong: if_cong)

lemma generate_with_runtime [simp]: "generate_poc_node (with_runtime other env) = generate_poc_node env"
  by (simp add: fun_eq_iff generate_poc_node_def)

lemma linter_with_runtime [simp]: "linter_check_node (with_runtime other env) = linter_check_node env"
  by (simp add: fun_eq_iff linter_check_node_def cong: if_cong)

lemma sandbox_with_runtime:
  "lint_failed st \<or> passes env (code_of st) \<Longrightarrow> sandbox_exec_node (with_runtime other env) st = sandbox_exec_node env st"
  by (auto simp: sandbox_exec_node_def lint_failed_def execute_with_runtime cong: if_cong)

lemma body_with_runtime: "hunt_inv env n st \<Longrightarrow> hunt_body (with_runtime other env) n st = hunt_body env n st"
  by (cases n) (simp_all add: hunt_body_def sandbox_with_runtime)

lemma run_hunt_with_runtime:
  "hunt_inv env n st \<Longrightarrow> run_hunt (with_runtime other env) limit n st w = run_hunt env limit n st w"
proof (induction limit arbitrary: n st w)
  case 0
  then show ?case by (cases n) simp_all
next
  case (Suc limit)
  show ?case
  proof (cases "n = Hunt_End")
    case False
    show ?thesis
      unfolding run_hunt_Suc [OF False] io_bind_def body_with_runtime [OF Suc.prems]
      using hunt_inv_step [OF Suc.prems _ False] Suc.IH by (auto split: prod.split sum.split)
  qed simp
qed

text \<open>C20: the sandbox only ever runs programs that pass the linter: a container runtime that does anything
  else with the programs that do not pass changes no hunt.\<close>

theorem only_checked_programs_run: "vuln_hunt (with_runtime other env) sub_state = vuln_hunt env sub_state"
proof
  fix w
  have "run_hunt (with_runtime other env) hunt_limit Generate (hunt_start target) =
      run_hunt env hunt_limit Generate (hunt_start target)" for target
    by (rule ext) (rule run_hunt_with_runtime [OF hunt_inv_start])
  then show "vuln_hunt (with_runtime other env) sub_state w = vuln_hunt env sub_state w"
    by (simp add: vuln_hunt_def)
qed

text \<open>A hunt of one round: the program imports nothing and prints that it worked.\<close>

definition toy_hunt :: "unit hunt_env" where
  "toy_hunt = \<lparr>he_chat = (\<lambda>_ _. io_return (PDict [(''poc_code'', PStr ''print()''), (''updated_constraints'', PList [])])),
     he_parse = (\<lambda>_. Parsed (Node [])), he_docker = True, he_run = (\<lambda>_ _. io_return ''VULNERABLE''),
     he_kill = (\<lambda>_. io_return ()), he_failed = (\<lambda>_. None), he_name = io_return ''poc-1'', he_elapsed = (\<lambda>_. 5),
     he_timeout = 30, he_exn_str = (\<lambda>_. []), he_dash = ''-''\<rparr>"

definition toy_target :: pydict where
  "toy_target = [(''memory'', PDict [(''target_info'', PStr ''T'')])]"

lemma toy_lint: "lint (\<lambda>_. Parsed (Node [])) ''print()'' = Ok lint_ok"
  by code_simp

lemma toy_says: "says_vulnerable ''VULNERABLE''"
  by code_simp

lemma toy_round: "nat_to_str (Suc 0) = ''1''"
  by code_simp

lemma toy_hunt_ends: "\<exists>st. run_hunt toy_hunt (Suc (Suc (Suc (Suc n)))) Generate (hunt_start t) w = (Ok (Some st), w) \<and>
    hunt_result st = [(''is_vulnerable'', PBool True), (''final_poc'', PStr ''print()''),
      (''exploit_chain'', PStr ''Verified in 1 iterations'')]"
  by (simp add: run_hunt_Suc hunt_body_def generate_poc_node_def linter_check_node_def sandbox_exec_node_def
      toy_hunt_def attr_def text_attr_def texts_attr_def code_of_def toy_lint lint_ok_def last_of_def execute_def
      run_container_def toy_says hunt_next_def check_convergence_def exec_dump_def finalize_node_def hunt_result_def
      hunt_start_def increment_iteration_def Let_def io_bind_def io_try_def io_return_def io_lift_def io_gets_def
      toy_round)

lemma toy_hunt_runs: "vuln_hunt toy_hunt toy_target w = (Ok [(''is_vulnerable'', PBool True),
    (''final_poc'', PStr ''print()''), (''exploit_chain'', PStr ''Verified in 1 iterations'')], w)"
  using toy_hunt_ends [of 31 "''T''" w]
  by (auto simp: vuln_hunt_def toy_target_def hunt_limit_def)


text \<open>An output that says the opposite counts as a success, too.\<close>

lemma denial_counts_as_success: "says_vulnerable ''NOT VULNERABLE''"
  by code_simp

text \<open>The modules the prompt allows are among those the linter allows.\<close>

lemma prompt_within_allowlist:
  "set [''requests'', ''socket'', ''json'', ''re'', ''time'', ''sys'', ''struct'', ''hashlib'', ''base64''] \<subseteq> set ALLOWED_IMPORTS"
  by code_simp

section \<open>No cancellation of their own\<close>

text \<open>The outside calls of a hunt and of an investigation, but for those of the model, are not cancelled.\<close>

definition quiet_chat :: "'w chat \<Rightarrow> bool" where
  "quiet_chat chat \<longleftrightarrow> (\<forall>s p. uncancelled (chat s p))"

definition quiet_hunt :: "'w hunt_env \<Rightarrow> bool" where
  "quiet_hunt env \<longleftrightarrow> (\<forall>n c. uncancelled (he_run env n c)) \<and>
     (\<forall>n. uncancelled (he_kill env n)) \<and> uncancelled (he_name env) \<and>
     (\<forall>code. he_parse env code \<noteq> Parse_Raises CancelledError)"

definition quiet_inv :: "'w inv_env \<Rightarrow> bool" where
  "quiet_inv env \<longleftrightarrow> (\<forall>iocs. uncancelled (iv_search env iocs)) \<and>
     (\<forall>e n c m. uncancelled (iv_memory_add env e n c m)) \<and> (\<forall>v. iv_fixed2 env v \<noteq> Raise CancelledError)"

definition no_cancel :: "'a res \<Rightarrow> bool" where "no_cancel r \<longleftrightarrow> r \<noteq> Raise CancelledError"

lemma no_cancel_simps [simp]: "no_cancel (Ok x)" "no_cancel (Raise e) \<longleftrightarrow> e \<noteq> CancelledError"
  by (simp_all add: no_cancel_def)

lemma no_cancel_bind: "no_cancel r \<Longrightarrow> (\<And>x. no_cancel (f x)) \<Longrightarrow> no_cancel (rbind r f)"
  by (cases r) simp_all

lemma no_cancel_mapM: "(\<And>x. no_cancel (f x)) \<Longrightarrow> no_cancel (mapM f xs)"
  by (induction xs) (simp_all add: no_cancel_bind)

lemma no_cancel_str: "no_cancel (as_str v)" "no_cancel (attr v k)" "no_cancel (py_iter v)"
  by (cases v; simp add: attr_def split: option.split)+

lemma no_cancel_strs: "no_cancel (as_strs vs)"
  unfolding as_strs_def by (intro no_cancel_mapM no_cancel_str)

lemma no_cancel_attrs: "no_cancel (text_attr v k)" "no_cancel (texts_attr v k)" "no_cancel (text_list v)"
  by (auto simp: text_attr_def texts_attr_def text_list_def intro!: no_cancel_bind no_cancel_str no_cancel_strs split: pyval.split)

lemma no_cancel_vget: "no_cancel (vget v k d)"
  by (cases v) simp_all

lemma no_cancel_iocs: "no_cancel (ioc_values v)"
  unfolding ioc_values_def by (intro no_cancel_bind no_cancel_vget no_cancel_attrs) simp

lemma no_cancel_lint: "(\<And>code. parse code \<noteq> Parse_Raises CancelledError) \<Longrightarrow> no_cancel (lint parse code)"
  unfolding lint_def syntax_check_def build_alias_map_def import_check_def dangerous_call_check_def tree_check_def
  by (cases "parse code") (auto simp: no_cancel_def rbind_def split: sum.split)

lemma uncancelled_no [io_intros]: "no_cancel r \<Longrightarrow> uncancelled (io_lift r)"
  by (rule uncancelled_lift) (simp add: no_cancel_def)

lemma uncancelled_try [io_intros]: "uncancelled m \<Longrightarrow> (\<And>e. uncancelled (h e)) \<Longrightarrow> uncancelled (io_try m h)"
  unfolding uncancelled_def io_try_def by (auto split: prod.splits sum.splits) (metis fst_conv)+

lemma uncancelled_raise [io_intros]: "e \<noteq> CancelledError \<Longrightarrow> uncancelled (io_raise e)"
  by (simp add: uncancelled_def)

lemma uncancelled_Pair [io_intros]: "no_cancel r \<Longrightarrow> uncancelled (Pair r)"
  by (simp add: uncancelled_def no_cancel_def)

lemma uncancelled_gets [io_intros]: "uncancelled (io_gets f)"
  by (simp add: uncancelled_def)

lemma uncancelled_handled: "uncancelled m \<Longrightarrow> (\<And>e. e \<noteq> CancelledError \<Longrightarrow> uncancelled (h e)) \<Longrightarrow> uncancelled (io_try m h)"
  unfolding uncancelled_def io_try_def is_Exception_def by (auto split: prod.splits sum.splits) (metis fst_conv)+

lemma execute_quiet: "quiet_hunt env \<Longrightarrow> uncancelled (execute env code)"
  unfolding execute_def run_container_def
  by (auto simp: quiet_hunt_def intro!: io_intros uncancelled_handled split: option.split)

lemma body_quiet: "quiet_hunt env \<Longrightarrow> quiet_chat (he_chat env) \<Longrightarrow> uncancelled (hunt_body env n st)"
  by (cases n) (auto simp: hunt_body_def generate_poc_node_def linter_check_node_def sandbox_exec_node_def Let_def
      quiet_hunt_def quiet_chat_def intro!: io_intros no_cancel_attrs no_cancel_lint execute_quiet [unfolded quiet_hunt_def])

lemma run_hunt_quiet: "quiet_hunt env \<Longrightarrow> quiet_chat (he_chat env) \<Longrightarrow> uncancelled (run_hunt env limit n st)"
proof (induction limit arbitrary: n st)
  case 0
  then show ?case by (cases n) (auto intro!: uncancelled_Pair)
next
  case (Suc limit)
  then show ?case by (cases n) (auto intro!: io_intros body_quiet)
qed

lemma vuln_hunt_quiet: "quiet_hunt env \<Longrightarrow> quiet_chat (he_chat env) \<Longrightarrow> uncancelled (vuln_hunt env s)"
  unfolding vuln_hunt_def
  by (auto intro!: io_intros no_cancel_bind no_cancel_vget no_cancel_str run_hunt_quiet split: option.split)

lemma gather_quiet: "uncancelled (gather ms)"
proof (induction ms)
  case (Cons m ms)
  have "uncancelled (gathered m)" by (simp add: uncancelled_def gathered_def split: prod.split sum.split)
  with Cons show ?case by (auto intro!: io_intros)
qed (auto intro!: io_intros)

lemma investigation_quiet: "quiet_inv env \<Longrightarrow> quiet_chat (iv_chat env) \<Longrightarrow> uncancelled (run_investigation env st)"
  unfolding run_investigation_def cti_analyst_node_def investigator_node_def query_graphrag_def store_memory_def Let_def
  by (auto simp: quiet_inv_def quiet_chat_def no_cancel_def [symmetric] intro!: io_intros gather_quiet no_cancel_iocs no_cancel_bind
      no_cancel_vget no_cancel_str no_cancel_attrs)

section \<open>What a model service promises\<close>

text \<open>
  An answer is nothing or an instance of the schema it was asked for, when the client library keeps
  its word (\<open>typed\<close>). The clients' lemmas rest on this alone.
\<close>

definition instance_of :: "schema \<Rightarrow> pyval \<Rightarrow> bool" where
  "instance_of sch v \<longleftrightarrow> (\<exists>d0 d. v = PDict d \<and> parse_fields sch d0 = Ok d)"

lemma parsed_field:
  assumes "parse_fields sch d0 = Ok d" "(k, p, None) \<in> set sch" "distinct (map fst sch)"
  obtains x y where "map_of d k = Some y" "p x = Ok y"
proof -
  have "\<exists>x y. map_of d k = Some y \<and> p x = Ok y"
    using assms
  proof (induction sch d0 arbitrary: d rule: parse_fields.induct)
    case (2 f q dflt fs d0)
    then obtain v rest where v: "(case map_of d0 f of Some v \<Rightarrow> q v
        | None \<Rightarrow> (case dflt of Some v \<Rightarrow> Ok v | None \<Rightarrow> Raise ValueError)) = Ok v"
      and rest: "parse_fields fs d0 = Ok rest" "d = (f, v) # rest"
      by (auto simp: rbind_eq_Inr_iff)
    show ?case
    proof (cases "k = f")
      case True
      with "2.prems"(2,3) have "q = p" "dflt = None" by force+
      with v True rest show ?thesis by (auto split: option.splits)
    next
      case False
      with "2.prems"(2) have "(k, p, None) \<in> set fs" by auto
      with "2.IH" [OF v rest(1) this] "2.prems"(3) False rest(2) show ?thesis by auto
    qed
  qed simp
  then show ?thesis using that by blast
qed

lemma instance_attr:
  assumes "instance_of sch v" "(k, p, None) \<in> set sch" "distinct (map fst sch)"
  obtains x y where "attr v k = Ok y" "p x = Ok y"
proof -
  from assms(1) obtain d0 d where d: "v = PDict d" "parse_fields sch d0 = Ok d" by (auto simp: instance_of_def)
  from parsed_field [OF d(2) assms(2,3)] obtain x y where "map_of d k = Some y" "p x = Ok y" .
  with d(1) show ?thesis by (intro that [of y x]) (simp_all add: attr_def)
qed

lemma v_between_Ok:
  assumes "v_between l lo hi v = Ok u"
  obtains q where "u = PFloat q" "lo \<le> q" "q \<le> hi"
proof -
  from assms obtain x where "(case x of PFloat r \<Rightarrow> if lo \<le> r \<and> r \<le> hi then Ok x else Raise ValueError
      | _ \<Rightarrow> Raise ValueError) = Ok u" by (auto simp: v_between_def rbind_eq_Inr_iff)
  then show ?thesis using that by (cases x) (auto split: if_splits)
qed

lemma texts_valid: "mapM v_str (map PStr xs) = Ok (map PStr xs)"
  by (induction xs) (simp_all add: v_str_def)

lemma v_model_instance: "v_model sch v = Ok u \<Longrightarrow> instance_of sch u"
  by (auto simp: v_model_def instance_of_def rbind_eq_Inr_iff split: pyval.splits)

lemma degraded_typed: "instance_of intel_card (degraded_card evidence)"
  by (rule v_model_instance [of _ "degraded_card evidence"])
    (simp add: v_model_def degraded_card_def intel_card_def v_one_of_def v_list_def texts_valid v_str_def)

locale model_service =
  fixes chat :: "'w chat" and typed :: bool
  assumes answers: "typed \<Longrightarrow> chat sch prompt w = (Ok v, w') \<Longrightarrow> v = PNone \<or> instance_of sch v"
begin

lemma PNone_no_attr [simp]: "attr PNone k = Raise AttributeError"
  by (simp add: attr_def)

lemma verdict_bounded:
  assumes "typed" "iv_chat env = chat" "investigator_node env st w = (Ok r, w')"
  shows "dget r ''final_verdict'' PNone \<in> PStr ` {''true_positive'', ''false_positive'', ''benign''} \<and>
    (\<exists>q. dget r ''confidence_score'' PNone = PFloat q \<and> 0 \<le> q \<and> q \<le> 1)"
proof -
  from assms obtain p w1 v w2 verdict confidence shown evidence ttps where
    v: "chat (verdict_result (iv_lax env)) p w1 = (Ok v, w2)"
    and a: "text_attr v ''verdict'' = Ok verdict" "attr v ''confidence'' = Ok confidence"
    and r: "r = dupdate st [(''final_verdict'', PStr verdict), (''confidence_score'', confidence),
        (''evidence_summary'', evidence), (''mitre_ttps'', ttps),
        (''investigation_log'', PList (log_of st @
          [PStr (''Investigator: verdict='' @ verdict @ '' confidence='' @ shown)]))]"
    by (auto simp: investigator_node_def io_bind_Inr)
  from a(2) have "v \<noteq> PNone" by auto
  with answers [OF assms(1) v] have i: "instance_of (verdict_result (iv_lax env)) v" by simp
  obtain x y where vy: "attr v ''verdict'' = Ok y" "v_one_of [''true_positive'', ''false_positive'', ''benign''] x = Ok y"
    by (rule instance_attr [OF i, of "''verdict''" "v_one_of [''true_positive'', ''false_positive'', ''benign'']"])
      (simp_all add: verdict_result_def)
  obtain z u where cu: "attr v ''confidence'' = Ok u" "v_between (iv_lax env) 0 1 z = Ok u"
    by (rule instance_attr [OF i, of "''confidence''" "v_between (iv_lax env) 0 1"]) (simp_all add: verdict_result_def)
  from vy a(1) have "verdict \<in> {''true_positive'', ''false_positive'', ''benign''}"
    by (auto simp: text_attr_def v_one_of_def split: pyval.splits if_splits)
  moreover from cu a(2) have "\<exists>q. confidence = PFloat q \<and> 0 \<le> q \<and> q \<le> 1"
    by (auto elim: v_between_Ok)
  ultimately show ?thesis by (auto simp: r dupdate_def dget_def)
qed

lemma card_typed:
  assumes "typed" "iv_chat env = chat" "cti_analyst_node env st w = (Ok r, w')"
  shows "instance_of intel_card (dget r ''raw_intel'' PNone)"
proof -
  from assms(3) obtain evidence p w1 card w2 risk apt where
    c: "io_try (iv_chat env intel_card p) (\<lambda>e. io_return (degraded_card evidence)) w1 = (Ok card, w2)"
    and a: "text_attr card ''risk_level'' = Ok risk"
    and r: "r = dupdate st [(''raw_intel'', card), (''investigation_log'', PList (log_of st @
          [PStr (''CTI: risk='' @ risk @ '' apt='' @ py_str (iv_rt env) apt)]))]"
    by (auto simp: cti_analyst_node_def io_bind_Inr Let_def)
  from a have "card \<noteq> PNone" by (auto simp: text_attr_def)
  with c have "(\<exists>w3. chat intel_card p w3 = (Ok card, w2)) \<or> card = degraded_card evidence"
    by (auto simp: assms(2) io_try_Inr)
  with answers [OF assms(1)] degraded_typed [of evidence] \<open>card \<noteq> PNone\<close> have "instance_of intel_card card" by blast
  then show ?thesis by (simp add: r dupdate_def dget_def)
qed

lemma investigation_bounded:
  assumes "typed" "iv_chat env = chat" "run_investigation env st w = (Ok r, w')"
  shows "dget r ''final_verdict'' PNone \<in> PStr ` {''true_positive'', ''false_positive'', ''benign''} \<and>
    (\<exists>q. dget r ''confidence_score'' PNone = PFloat q \<and> 0 \<le> q \<and> q \<le> 1) \<and>
    instance_of intel_card (dget r ''raw_intel'' PNone)"
proof -
  from assms(3) obtain st1 w1 where c: "cti_analyst_node env st w = (Ok st1, w1)"
    and i: "investigator_node env st1 w1 = (Ok r, w')" by (auto simp: run_investigation_def io_bind_Inr)
  from i have "dget r ''raw_intel'' PNone = dget st1 ''raw_intel'' PNone"
    by (auto simp: investigator_node_def io_bind_Inr dupdate_def dget_def)
  with verdict_bounded [OF assms(1,2) i] card_typed [OF assms(1,2) c] show ?thesis by simp
qed

end

end
