(* ===== verification/ModelLaws.thy ===== *)
theory ModelLaws
  imports Models HuntLaws
begin

text \<open>
  The theorems on the registry of models and its adapter (\<open>Models\<close>): the table keeps one default at
  most, a caller that names a model gets a client of that model as it is configured, an answer with a
  schema is an instance of it; and the adapter provides what the clients of \<open>HuntLaws\<close> rely on.
\<close>

section \<open>Keys of the cache\<close>

lemma digit_char [simp]: "d < 10 \<Longrightarrow> digit_val (char_of (48 + d :: nat)) = d"
  by (simp add: digit_val_def)

lemma is_digit_char [simp]: "d < 10 \<Longrightarrow> is_digit (char_of (48 + d :: nat))"
  by (simp add: is_digit_def Let_def)

lemma digits_val_aux: "digits_val 0 (nat_to_str_aux n acc) = digits_val n acc"
proof (induction n acc rule: nat_to_str_aux.induct)
  case (1 n acc)
  have "10 * (n div 10) + n mod 10 = n" by simp
  with 1 show ?case by (subst nat_to_str_aux.simps) (simp add: Let_def)
qed

lemma aux_step: "nat_to_str_aux n acc = (if n < 10 then char_of (48 + n mod 10 :: nat) # acc
    else nat_to_str_aux (n div 10) (char_of (48 + n mod 10 :: nat) # acc))"
  by (subst nat_to_str_aux.simps) (simp only: Let_def)

lemma digits_only: "list_all is_digit acc \<Longrightarrow> list_all is_digit (nat_to_str_aux n acc) \<and> nat_to_str_aux n acc \<noteq> []"
proof (induction n arbitrary: acc rule: less_induct)
  case (less n)
  let ?acc = "char_of (48 + n mod 10 :: nat) # acc"
  have a: "list_all is_digit ?acc" using less.prems is_digit_char [of "n mod 10"] by (simp only: list.pred_inject)
  show ?case
  proof (cases "n < 10")
    case True
    then have "nat_to_str_aux n acc = ?acc" by (subst aux_step) (simp only: if_True)
    with a show ?thesis by (simp only: list.distinct) simp
  next
    case False
    then have "nat_to_str_aux n acc = nat_to_str_aux (n div 10) ?acc" by (subst aux_step) (simp only: if_False)
    with less.IH [OF _ a] False show ?thesis by (simp only: div_less_dividend) simp
  qed
qed

lemma nat_to_str_inj: "nat_to_str m = nat_to_str n \<Longrightarrow> m = n"
  by (metis digits_val_aux digits_val.simps(1) nat_to_str_def)

lemma nat_to_str_digits: "list_all is_digit (nat_to_str n)" "nat_to_str n \<noteq> []"
  using digits_only [of "[]" n] by (simp_all add: nat_to_str_def)

lemma no_sign: "nat_to_str n \<noteq> CHR ''-'' # s"
proof
  assume "nat_to_str n = CHR ''-'' # s"
  with nat_to_str_digits(1) [of n] have "is_digit CHR ''-''" by simp
  then show False by code_simp
qed

lemma int_to_str_inj: "int_to_str i = int_to_str j \<Longrightarrow> i = j"
  using nat_to_str_inj [of "nat (- i)" "nat (- j)"] nat_to_str_inj [of "nat i" "nat j"]
    no_sign [of "nat i"] no_sign [of "nat j"] no_sign [of "nat i", THEN not_sym] no_sign [of "nat j", THEN not_sym]
  by (auto simp: int_to_str_def split: if_splits)

lemma int_to_str_eq [simp]: "int_to_str i = int_to_str j \<longleftrightarrow> i = j"
  using int_to_str_inj by blast

lemma not_default: "int_to_str i \<noteq> ''default''"
proof
  assume *: "int_to_str i = ''default''"
  then have "nat_to_str (nat i) = ''default''" by (auto simp: int_to_str_def split: if_splits)
  with nat_to_str_digits(1) [of "nat i"] have "is_digit CHR ''d''" by simp
  then show False by code_simp
qed

section \<open>The registry\<close>

text \<open>The calls to the outside leave the table and the cache alone.\<close>

definition leaves_registry :: "('x, 'a) mio \<Rightarrow> bool" where
  "leaves_registry m \<longleftrightarrow> (\<forall>w. mw_rows (snd (m w)) = mw_rows w \<and> mw_next (snd (m w)) = mw_next w \<and>
     mw_cache (snd (m w)) = mw_cache w)"

definition apart :: "'x model_env \<Rightarrow> bool" where
  "apart env \<longleftrightarrow> (\<forall>a u d. leaves_registry (me_audit env a u d)) \<and>
     (\<forall>c t s ms. leaves_registry (me_structured env c t s ms)) \<and>
     (\<forall>c t ms. leaves_registry (me_json env c t ms)) \<and> (\<forall>c t ms. leaves_registry (me_plain env c t ms))"

definition rows_ok :: "'x model_world \<Rightarrow> bool" where
  "rows_ok w \<longleftrightarrow> distinct (map mc_id (mw_rows w)) \<and> (\<forall>r \<in> set (mw_rows w). mc_id r < mw_next w) \<and>
     length (filter mc_default (mw_rows w)) \<le> 1"

text \<open>Every client kept for a named model is the client of that model's row.\<close>

definition is_current :: "'x model_env \<Rightarrow> int \<Rightarrow> string \<Rightarrow> llm_client \<Rightarrow> 'x model_world \<Rightarrow> bool" where
  "is_current env n p c w \<longleftrightarrow>
     (\<exists>r. row_of n w = Some r \<and> p = mc_provider r \<and> c = client_of (me_settings env) r)"

definition coherent :: "'x model_env \<Rightarrow> 'x model_world \<Rightarrow> bool" where
  "coherent env w \<longleftrightarrow> (\<forall>n p c t. map_of (mw_cache w) (int_to_str n) = Some (p, c, t) \<longrightarrow> is_current env n p c w)"

lemma leaves_keeps:
  assumes "leaves_registry m"
  shows "keeps rows_ok m" "keeps (coherent env) m"
  using assms by (auto simp: leaves_registry_def keeps_def rows_ok_def coherent_def is_current_def row_of_def)

lemma apart_keeps [keeps_intros]:
  assumes "apart env"
  shows "keeps rows_ok (me_audit env a u d)" "keeps rows_ok (me_structured env c t s ms)"
    "keeps rows_ok (me_json env c t ms)" "keeps rows_ok (me_plain env c t ms)"
    "keeps (coherent env') (me_audit env a u d)" "keeps (coherent env') (me_structured env c t s ms)"
    "keeps (coherent env') (me_json env c t ms)" "keeps (coherent env') (me_plain env c t ms)"
  using assms unfolding apart_def by (blast intro: leaves_keeps)+

lemma keeps_conn [keeps_intros]: "keeps I (model_conn env)"
  by (simp add: model_conn_def keeps_def split: option.split)

lemma keeps_int4 [keeps_intros]: "keeps I (int4 i)"
  by (simp add: int4_def keeps_guard)

subsection \<open>At most one default\<close>

lemma rows_ok_cache [simp]: "rows_ok (w\<lparr>mw_cache := x\<rparr>) = rows_ok w"
  by (simp add: rows_ok_def)

lemma keeps_rows_map:
  assumes "\<And>r. mc_id (f r) = mc_id r" "\<And>r. mc_default (f r) \<longrightarrow> mc_default r"
  shows "keeps rows_ok (io_modify (\<lambda>w. w\<lparr>mw_rows := map f (mw_rows w)\<rparr>))"
proof (rule keeps_modify)
  fix w :: "'x model_world" assume ok: "rows_ok w"
  have "length (filter mc_default (map f rs)) \<le> length (filter mc_default rs)" for rs
    using assms(2) by (induction rs) auto
  from this [of "mw_rows w"] ok show "rows_ok (w\<lparr>mw_rows := map f (mw_rows w)\<rparr>)"
    using assms(1) by (auto simp: rows_ok_def comp_def intro: le_trans)
qed

lemma keeps_clear [keeps_intros]: "keeps rows_ok clear_default"
  unfolding clear_default_def by (rule keeps_rows_map) simp_all

lemma keeps_update_row [keeps_intros]: "keeps rows_ok (set_row i (apply_update env u))"
  unfolding set_row_def by (rule keeps_rows_map) (simp_all add: apply_update_def)

lemma keeps_invalidate [keeps_intros]: "keeps rows_ok (invalidate i)"
  unfolding invalidate_def by (rule keeps_modify) simp

lemma keeps_delete [keeps_intros]: "keeps rows_ok (io_modify (\<lambda>w. w\<lparr>mw_rows := filter P (mw_rows w)\<rparr>))"
proof (rule keeps_modify)
  fix w :: "'x model_world" assume ok: "rows_ok w"
  have "length (filter mc_default (filter P rs)) \<le> length (filter mc_default rs)" for rs by (induction rs) auto
  from this [of "mw_rows w"] ok show "rows_ok (w\<lparr>mw_rows := filter P (mw_rows w)\<rparr>)"
    by (auto simp: rows_ok_def distinct_map_filter intro: le_trans)
qed

lemma rows_ok_next: "rows_ok w \<Longrightarrow> rows_ok (w\<lparr>mw_next := mw_next w + 1\<rparr>)"
  by (auto simp: rows_ok_def less_imp_le zless_add1_eq)

lemma rows_ok_append:
  assumes "rows_ok w" "mc_id r = mw_next w" "\<not> (mc_default r \<and> (\<exists>r' \<in> set (mw_rows w). mc_default r'))"
  shows "rows_ok (w\<lparr>mw_next := mw_next w + 1, mw_rows := mw_rows w @ [r]\<rparr>)"
  using assms by (auto simp: rows_ok_def less_imp_le zless_add1_eq filter_empty_conv)

lemma keeps_insert [keeps_intros]: "keeps rows_ok (insert_row env r)"
  unfolding keeps_def insert_row_def
  by (auto simp: io_guard_def Let_def io_bind_def intro: rows_ok_next rows_ok_append)

lemma one_with_key: "distinct (map f xs) \<Longrightarrow> length (filter (\<lambda>x. f x = i) xs) \<le> 1"
  by (induction xs) (force simp: filter_empty_conv image_iff)+

lemma rows_ok_switch:
  assumes "rows_ok w" "\<And>r. mc_id (f r) = mc_id r" "\<And>r. mc_default (f r) \<longleftrightarrow> mc_id r = i"
  shows "rows_ok (w\<lparr>mw_rows := map f (mw_rows w)\<rparr>)"
proof -
  have "length (filter mc_default (map f (mw_rows w))) \<le> 1"
    using one_with_key [of mc_id "mw_rows w" i] assms(1) by (simp add: filter_map comp_def assms(3) rows_ok_def)
  then show ?thesis using assms(1,2) by (auto simp: rows_ok_def comp_def)
qed

lemma keeps_switch [keeps_intros]:
  assumes "\<And>x. keeps rows_ok (k x)"
  shows "keeps rows_ok (io_bind clear_default (\<lambda>_.
    io_bind (set_row i (\<lambda>r. r\<lparr>mc_default := True, mc_enabled := True\<rparr>)) k))"
proof -
  let ?f = "(\<lambda>r. if mc_id r = i then r\<lparr>mc_default := True, mc_enabled := True\<rparr> else r) \<circ> (\<lambda>r. r\<lparr>mc_default := False\<rparr>)"
  have "keeps rows_ok (io_modify (\<lambda>w :: 'a model_world. w\<lparr>mw_rows := map ?f (mw_rows w)\<rparr>))"
    by (intro keeps_modify rows_ok_switch [where i = i]) simp_all
  from keeps_bind [OF this assms] show ?thesis
    by (simp add: keeps_def clear_default_def set_row_def)
qed

lemma keeps_resolve_rows: "keeps rows_ok (io_modify (\<lambda>w. w\<lparr>mw_cache := f w\<rparr>))"
  by (rule keeps_modify) simp

lemmas registry_defs = list_models_def get_model_def get_default_model_def create_model_def update_model_def
  delete_model_def set_default_model_def migrate_env_model_if_empty_def

lemma keeps_store [keeps_intros]:
  "keeps rows_ok (list_models env)" "keeps rows_ok (get_model env i)" "keeps rows_ok (get_default_model env)"
  "keeps rows_ok (create_model env r)" "keeps rows_ok (update_model env i u)" "keeps rows_ok (delete_model env i)"
  "keeps rows_ok (set_default_model env i)" "keeps rows_ok (migrate_env_model_if_empty env)"
  unfolding registry_defs by (intro keeps_intros; simp)+

lemma keeps_resolve [keeps_intros]: "keeps rows_ok (resolve_model env i)"
  unfolding resolve_model_def resolve_anew_def configured_def keep_client_def
  by (auto intro!: keeps_intros keeps_resolve_rows split: option.split prod.split)

lemma keeps_chat [keeps_intros]: "apart env \<Longrightarrow> keeps rows_ok (chat_completion env ms sch t i)"
  unfolding chat_completion_def json_mode_fallback_def
  by (auto intro!: keeps_intros split: option.split prod.split)

subsection \<open>Clients of named models\<close>

lemma coherent_fresh: "mw_cache w = [] \<Longrightarrow> coherent env w"
  by (simp add: coherent_def)

lemma coherent_rows:
  assumes "coherent env w" "\<And>n r. row_of n w = Some r \<Longrightarrow>
    \<exists>r'. row_of n w' = Some r' \<and> mc_provider r' = mc_provider r \<and> client_of (me_settings env) r' = client_of (me_settings env) r"
    and "mw_cache w' = mw_cache w"
  shows "coherent env w'"
  using assms unfolding coherent_def is_current_def by metis

lemma find_append: "find P xs = Some r \<Longrightarrow> find P (xs @ ys) = Some r"
  by (induction xs) auto

lemma find_map: "(\<And>r. P (f r) = P r) \<Longrightarrow> find P (map f rs) = map_option f (find P rs)"
  by (induction rs) auto

lemma keeps_flags:
  assumes "\<And>r. mc_id (f r) = mc_id r" "\<And>r. mc_provider (f r) = mc_provider r"
    "\<And>r. client_of (me_settings env) (f r) = client_of (me_settings env) r"
  shows "keeps (coherent env) (io_modify (\<lambda>w. w\<lparr>mw_rows := map f (mw_rows w)\<rparr>))"
  by (intro keeps_modify, erule coherent_rows) (auto simp: row_of_def find_map assms)

lemma client_of_flags [simp]:
  "client_of s (r\<lparr>mc_default := b\<rparr>) = client_of s r" "client_of s (r\<lparr>mc_enabled := b\<rparr>) = client_of s r"
  by (simp_all add: client_of_def)

lemma coherent_clear [keeps_intros]: "keeps (coherent env) clear_default"
  unfolding clear_default_def by (rule keeps_flags) simp_all

lemma coherent_switch [keeps_intros]:
  "keeps (coherent env) (set_row i (\<lambda>r. r\<lparr>mc_default := True, mc_enabled := True\<rparr>))"
  unfolding set_row_def by (rule keeps_flags) simp_all

lemma coherent_insert [keeps_intros]: "keeps (coherent env) (insert_row env' r)"
proof -
  have bump: "coherent env (w\<lparr>mw_next := i\<rparr>)" if "coherent env w" for i and w :: "'a model_world"
    by (rule coherent_rows [OF that]) (simp_all add: row_of_def)
  have append: "coherent env (w\<lparr>mw_rows := mw_rows w @ [r']\<rparr>)" if "coherent env w" for r' and w :: "'a model_world"
    by (rule coherent_rows [OF that]) (simp_all add: row_of_def find_append)
  show ?thesis
    unfolding insert_row_def Let_def
    by (intro keeps_bind keeps_gets keeps_guard keeps_return keeps_modify bump append)
qed

lemma coherent_invalidate [keeps_intros]: "keeps (coherent env) (invalidate None)"
  unfolding invalidate_def by (rule keeps_modify) (simp add: coherent_def)

lemma coherent_store [keeps_intros]:
  "keeps (coherent env) (list_models env')" "keeps (coherent env) (get_model env' i)"
  "keeps (coherent env) (get_default_model env')" "keeps (coherent env) (create_model env' r)"
  "keeps (coherent env) (set_default_model env' i)" "keeps (coherent env) (migrate_env_model_if_empty env')"
  unfolding registry_defs by (intro keeps_intros; simp)+

text \<open>A change of a row or its removal, which the loss of all clients follows.\<close>

lemma keeps_hoare: "keeps I m \<Longrightarrow> hoare I m (\<lambda>_. I) I"
  unfolding keeps_def hoare_def by (metis (no_types, lifting) case_prod_unfold snd_conv sum.case_eq_if)

lemma hoare_keeps: "hoare I m (\<lambda>_. I) I \<Longrightarrow> keeps I m"
  using hoare_snd by (fastforce simp: keeps_def)

lemma hoare_weak: "keeps I m \<Longrightarrow> hoare I m (\<lambda>_ _. True) I"
  by (rule hoare_conseq [OF keeps_hoare]) auto

lemma lose_clients: "hoare (\<lambda>_. True) (invalidate None) (\<lambda>_. coherent env) E"
  unfolding invalidate_def by (rule hoare_conseq [OF hoare_modify]) (auto simp: coherent_fresh)

lemma set_row_absent:
  assumes "row_of i (w\<lparr>mw_rows := map (\<lambda>r. if mc_id r = i then f r else r) (mw_rows w)\<rparr>) = None"
    and "\<And>r. mc_id (f r) = mc_id r"
  shows "w\<lparr>mw_rows := map (\<lambda>r. if mc_id r = i then f r else r) (mw_rows w)\<rparr> = w"
proof -
  from assms have "\<forall>r \<in> set (mw_rows w). mc_id r \<noteq> i" by (auto simp: row_of_def find_None_iff)
  then have "map (\<lambda>r. if mc_id r = i then f r else r) (mw_rows w) = mw_rows w" by (induction "mw_rows w") (auto intro: map_idI)
  then show ?thesis by simp
qed

lemma coherent_update: "hoare (coherent env) (update_model env' i u)
    (\<lambda>m w. m = None \<longrightarrow> coherent env w) (coherent env)"
proof (rule hoareI)
  fix w assume ok: "coherent env w"
  let ?w = "w\<lparr>mw_rows := map (\<lambda>r. if mc_id r = i then apply_update env' u r else r) (mw_rows w)\<rparr>"
  have "coherent env ?w" if "row_of i ?w = None"
    using set_row_absent [OF that] ok by (simp add: apply_update_def)
  with ok show "case update_model env' i u w of (Inr m, w') \<Rightarrow> m = None \<longrightarrow> coherent env w' | (Inl e, w') \<Rightarrow> coherent env w'"
    by (simp add: update_model_def model_conn_def int4_def set_row_def io_guard_def io_bind_def split: option.split)
qed

lemma coherent_delete: "hoare (\<lambda>w. rows_ok w \<and> coherent env w) (delete_model env' i)
    (\<lambda>found w. \<not> found \<longrightarrow> coherent env w) (coherent env)"
proof (rule hoareI)
  fix w assume ok: "rows_ok w \<and> coherent env w"
  let ?w = "w\<lparr>mw_rows := filter (\<lambda>r. mc_id r \<noteq> i) (mw_rows w)\<rparr>"
  from ok one_with_key [of mc_id "mw_rows w" i] have "length (filter (\<lambda>r. mc_id r = i) (mw_rows w)) \<le> 1"
    by (simp add: rows_ok_def)
  then have "?w = w" if "length (filter (\<lambda>r. mc_id r = i) (mw_rows w)) \<noteq> 1"
    using that by (auto simp: filter_empty_conv filter_id_conv le_Suc_eq)
  with ok show "case delete_model env' i w of (Inr found, w') \<Rightarrow> \<not> found \<longrightarrow> coherent env w' | (Inl e, w') \<Rightarrow> coherent env w'"
    by (auto simp: delete_model_def model_conn_def int4_def io_guard_def io_bind_def split: option.split)
qed

lemma coherent_drop [keeps_intros]:
  "keeps (coherent env) (io_modify (\<lambda>w. w\<lparr>mw_cache := AList.delete k (mw_cache w)\<rparr>))"
  by (rule keeps_modify) (auto simp: coherent_def is_current_def row_of_def delete_conv)

lemma coherent_keep:
  assumes "coherent env w" "\<And>n. k = int_to_str n \<Longrightarrow> is_current env n p c w"
  shows "coherent env (w\<lparr>mw_cache := AList.update k (p, c, t) (mw_cache w)\<rparr>)"
  using assms by (auto simp: coherent_def is_current_def row_of_def update_conv split: if_splits)

lemma get_model_Some: "get_model env n w = (Ok (Some r), w') \<Longrightarrow> row_of n w' = Some r \<and> w' = w"
  by (auto simp: get_model_def model_conn_def int4_def io_guard_def io_bind_def split: option.splits if_splits)

lemma configured_named: "configured env (Some n) w = (Ok (Some r), w') \<Longrightarrow> row_of n w' = Some r"
  by (auto simp: configured_def io_try_Inr dest: get_model_Some)

lemma coherent_configured: "keeps (coherent env) (configured env i)"
  unfolding configured_def by (auto intro!: keeps_intros split: option.split)

lemma construct_client_Ok: "construct_client env c = Ok c' \<Longrightarrow> c' = c"
  by (simp add: construct_client_def split: option.splits)

lemma coherent_anew [keeps_intros]: "keeps (coherent env) (resolve_anew env i)"
proof -
  let ?rest = "\<lambda>cfg. case cfg of
       Some r \<Rightarrow> io_bind (io_lift (build_llm env r)) (\<lambda>c. keep_client env (cache_key i) (mc_provider r) c)
     | None \<Rightarrow> (case i of Some n \<Rightarrow> io_raise (ExtError ''ModelNotFoundError'')
         | None \<Rightarrow> io_bind (io_lift (build_from_env env)) (\<lambda>(c, provider). keep_client env (cache_key i) provider c))"
  have "coherent env (snd (?rest cfg w'))" if "configured env i w = (Ok cfg, w')" "coherent env w'" for cfg w w'
    using that(2) configured_named [of env _ w _ w'] that(1)
    by (auto simp: keep_client_def io_bind_def cache_key_def build_llm_def is_current_def not_default not_default [THEN not_sym]
        split: option.splits sum.splits prod.splits intro!: coherent_keep dest: construct_client_Ok)
  then show ?thesis
    unfolding resolve_anew_def keeps_def io_bind_def
    using coherent_configured [of env i] by (auto simp: keeps_def split: prod.split sum.split)
qed

lemma coherent_resolve [keeps_intros]: "keeps (coherent env) (resolve_model env i)"
  unfolding resolve_model_def by (auto intro!: keeps_intros split: option.split prod.split)

lemma coherent_chat [keeps_intros]: "apart env \<Longrightarrow> keeps (coherent env) (chat_completion env ms sch t i)"
  unfolding chat_completion_def json_mode_fallback_def
  by (auto intro!: keeps_intros split: option.split prod.split)

subsection \<open>Requests\<close>

datatype model_request =
    Create_Model string model_config
  | Update_Model string int model_update
  | Delete_Model string int
  | Set_Default string int
  | Test_Model int
  | Ask "(string \<times> string) list" "schema option" rat "int option"

fun serve_model :: "'x model_env \<Rightarrow> model_request \<Rightarrow> ('x, unit) mio" where
  "serve_model env (Create_Model u r) = io_bind (api_create_model env u r) (\<lambda>_. io_return ())"
| "serve_model env (Update_Model u i upd) = io_bind (api_update_model env u i upd) (\<lambda>_. io_return ())"
| "serve_model env (Delete_Model u i) = api_delete_model env u i"
| "serve_model env (Set_Default u i) = io_bind (api_set_default env u i) (\<lambda>_. io_return ())"
| "serve_model env (Test_Model i) = io_bind (api_test_model env i) (\<lambda>_. io_return ())"
| "serve_model env (Ask ms sch t i) = io_bind (chat_completion env ms sch t i) (\<lambda>_. io_return ())"

text \<open>The world after a history of requests, each answered or refused.\<close>

definition after_requests :: "'x model_env \<Rightarrow> model_request list \<Rightarrow> 'x model_world \<Rightarrow> 'x model_world" where
  "after_requests env reqs w = fold (\<lambda>q w. snd (serve_model env q w)) reqs w"

lemmas model_api_defs = api_create_model_def api_update_model_def api_delete_model_def api_set_default_def
  api_test_model_def known_provider_def no_such_model_def

lemma rows_ok_serve: "apart env \<Longrightarrow> keeps rows_ok (serve_model env q)"
  by (cases q) (auto simp: model_api_defs intro!: keeps_intros split: option.split list.split)

lemma hoare_lost:
  assumes "\<And>x. keeps (coherent env) (k x)"
  shows "hoare P (io_bind (invalidate None) k) (\<lambda>_. coherent env) (coherent env)"
proof (rule hoare_bind)
  show "hoare P (invalidate None) (\<lambda>_. coherent env) (coherent env)"
    by (rule hoare_conseq [OF lose_clients]) simp_all
qed (rule keeps_hoare [OF assms])

lemma coherent_serve_update:
  assumes "apart env"
  shows "keeps (coherent env) (api_update_model env u i upd)"
proof (rule hoare_keeps)
  have tail: "hoare (\<lambda>w. m = None \<longrightarrow> coherent env w) (case m of None \<Rightarrow> io_raise e
      | Some r \<Rightarrow> io_bind (invalidate None) (\<lambda>_. io_bind (me_audit env a u d) (\<lambda>_. io_return (f r))))
      (\<lambda>_. coherent env) (coherent env)" for m e a d and f :: "model_config \<Rightarrow> model_view"
    by (cases m) (auto intro!: hoare_raise hoare_lost keeps_intros apart_keeps assms)
  show "hoare (coherent env) (api_update_model env u i upd) (\<lambda>_. coherent env) (coherent env)"
    unfolding model_api_defs
    by (rule hoare_bind [OF keeps_hoare [OF keeps_guard]], rule hoare_bind [OF keeps_hoare])
      (auto intro!: keeps_intros hoare_bind [OF coherent_update tail] split: option.split)
qed

lemma coherent_serve_delete:
  assumes "apart env"
  shows "hoare (\<lambda>w. rows_ok w \<and> coherent env w) (api_delete_model env u i) (\<lambda>_. coherent env) (coherent env)"
proof -
  have keep: "keeps (\<lambda>w. rows_ok w \<and> coherent env w) (get_model env i)"
    using keeps_store(2) [of env i] coherent_store(2) [of env env i] by (simp add: keeps_def)
  have tail: "hoare (\<lambda>w. \<not> found \<longrightarrow> coherent env w) (if \<not> found then no_such_model else
      io_bind (invalidate None) k) (\<lambda>_. coherent env) (coherent env)"
    if "\<And>x. keeps (coherent env) (k x)" for found k
    by (cases found) (auto simp: no_such_model_def intro!: hoare_raise hoare_lost that)
  show ?thesis
    unfolding api_delete_model_def
  proof (rule hoare_bind)
    show "hoare (\<lambda>w. rows_ok w \<and> coherent env w) (get_model env i) (\<lambda>_ w. rows_ok w \<and> coherent env w) (coherent env)"
      by (rule hoare_conseq [OF keeps_hoare [OF keep]]) simp_all
  qed (auto intro!: hoare_bind [OF coherent_delete tail] keeps_intros apart_keeps assms split: option.split list.split)
qed

lemma coherent_serve:
  assumes "apart env" "rows_ok w" "coherent env w"
  shows "coherent env (snd (serve_model env q w))"
proof (cases "\<exists>u i. q = Delete_Model u i")
  case True
  then obtain u i where q: "q = Delete_Model u i" by blast
  from coherent_serve_delete [OF assms(1), of u i] assms(2,3) show ?thesis
    by (cases "api_delete_model env u i w") (auto simp: q hoare_def split: sum.splits)
next
  case False
  then have "keeps (coherent env) (serve_model env q)"
    by (cases q) (auto simp: api_create_model_def api_set_default_def api_test_model_def known_provider_def no_such_model_def
        intro!: keeps_intros coherent_serve_update assms(1) split: option.split)
  from keepsD [OF this assms(3)] show ?thesis .
qed

lemma registry_kept:
  assumes "apart env" "rows_ok w" "coherent env w"
  shows "rows_ok (after_requests env reqs w) \<and> coherent env (after_requests env reqs w)"
  using assms(2,3)
proof (induction reqs arbitrary: w)
  case (Cons q reqs)
  from Cons.IH [OF keepsD [OF rows_ok_serve [OF assms(1)] Cons.prems(1)] coherent_serve [OF assms(1) Cons.prems]]
  show ?case by (simp add: after_requests_def)
qed (simp add: after_requests_def)

lemma current_client:
  assumes "coherent env w" "resolve_model env (Some n) w = (Ok (p, c), w')"
  shows "is_current env n p c w"
proof (cases "\<exists>t. map_of (mw_cache w) (int_to_str n) = Some (p, c, t) \<and> me_now env w - t < CACHE_TTL_SEC")
  case True
  with assms(1) show ?thesis unfolding coherent_def by blast
next
  case False
  have anew: "is_current env n p c v" if "resolve_anew env (Some n) v = (Ok (p, c), w')" for v
    using that by (auto simp: resolve_anew_def configured_def io_bind_Inr io_try_Inr keep_client_def build_llm_def is_current_def
        dest!: get_model_Some construct_client_Ok split: option.splits)
  show ?thesis
    using assms(2) False anew [of w] anew [of "w\<lparr>mw_cache := AList.delete (int_to_str n) (mw_cache w)\<rparr>"]
    by (auto simp: resolve_model_def cache_key_def is_current_def row_of_def split: option.splits if_splits)
qed


text \<open>Two models, one of them renamed and then asked.\<close>

definition toy_models :: "unit model_env" where
  "toy_models = \<lparr>me_settings = \<lparr>ls_provider = ''openai'', ls_anthropic_key = [], ls_openai_key = ''K'', ls_openai_model = ''M'',
       ls_openai_base = [], ls_vllm_model = [], ls_vllm_base = [], ls_timeout = 120\<rparr>,
     me_down = (\<lambda>_. None), me_real = id, me_refuses = (\<lambda>_. None), me_now = (\<lambda>_. 0),
     me_structured = (\<lambda>_ _ sch _. case v_model sch (PDict [(''verdict'', PStr ''benign''), (''confidence'', PFloat 1),
       (''evidence_summary'', PStr []), (''mitre_ttps'', PList []), (''recommended_action'', PStr [])]) of
       Inr v \<Rightarrow> io_return v | Inl e \<Rightarrow> io_raise ValueError),
     me_json = (\<lambda>_ _ _. io_raise ValueError), me_plain = (\<lambda>_ _ _. io_return (PStr ''OK'')),
     me_loads = (\<lambda>_. Raise ValueError), me_raw_decode = (\<lambda>_. None), me_schema_doc = (\<lambda>_. []), me_rt = toy_rt,
     me_attr = lc_model, me_audit = (\<lambda>_ _ _. io_return ()), me_exn_str = (\<lambda>_. []), me_probe = ''OK?''\<rparr>"

definition toy_row :: "int \<Rightarrow> model_config" where
  "toy_row i = \<lparr>mc_id = i, mc_name = ''N'', mc_provider = ''openai'', mc_model = ''A'', mc_key = ''K'', mc_base = [],
     mc_temperature = 0, mc_max_tokens = 1, mc_structured = True, mc_enabled = True, mc_default = (i = 1)\<rparr>"

definition toy_registry :: "unit model_world" where
  "toy_registry = \<lparr>mw_rows = [toy_row 1, toy_row 2], mw_next = 3, mw_cache = [], mw_rest = ()\<rparr>"

definition toy_requests :: "model_request list" where
  "toy_requests = [Test_Model 2, Update_Model ''admin'' 2 (no_update\<lparr>mu_model := Some ''B''\<rparr>)]"

lemma toy_models_apart: "apart toy_models"
  by (simp add: apart_def leaves_registry_def toy_models_def split: sum.split)

lemma toy_registry_ok: "rows_ok toy_registry" "mw_cache toy_registry = []"
  by (simp_all add: rows_ok_def toy_registry_def toy_row_def)

lemma toy_resolved: "fst (resolve_model toy_models (Some 2) (after_requests toy_models toy_requests toy_registry)) =
    Ok (''openai'', (client_of (me_settings toy_models) (toy_row 2))\<lparr>lc_model := ''B''\<rparr>)"
  by code_simp


text \<open>A default that has been disabled is still the one that is used.\<close>

lemma disabled_default_used:
  "default_row (toy_registry\<lparr>mw_rows := [toy_row 2, (toy_row 1)\<lparr>mc_enabled := False\<rparr>]\<rparr>) = Some ((toy_row 1)\<lparr>mc_enabled := False\<rparr>)"
  by (simp add: default_row_def toy_registry_def toy_row_def)

text \<open>When the default is deleted the next model is made the default and enabled, also one that was disabled.\<close>

lemma heir_enabled:
  "mw_rows (snd (api_delete_model toy_models ''admin'' 1
     (toy_registry\<lparr>mw_rows := [toy_row 1, (toy_row 2)\<lparr>mc_enabled := False\<rparr>, toy_row 3]\<rparr>))) =
   [(toy_row 2)\<lparr>mc_default := True\<rparr>, toy_row 3]"
  by code_simp

text \<open>A client of an OpenAI model is not told the bound on its tokens.\<close>

lemma max_tokens_dropped:
  "mc_provider r \<noteq> ''claude'' \<Longrightarrow> client_of s (r\<lparr>mc_max_tokens := n\<rparr>) = client_of s r"
  by (simp add: client_of_def)

section \<open>Answers with a schema\<close>

text \<open>What the client library documents: an answer with a schema is an instance of it, or nothing.\<close>

definition typed_client :: "'x model_env \<Rightarrow> bool" where
  "typed_client env \<longleftrightarrow> (\<forall>c t sch ms w v w'. me_structured env c t sch ms w = (Ok v, w') \<longrightarrow>
     v = PNone \<or> instance_of sch v)"

lemma first_valid_instance: "first_valid sch ds = Ok v \<Longrightarrow> instance_of sch v"
  by (induction ds) (auto dest: v_model_instance split: sum.splits)

lemma parse_instance: "parse_structured_content env sch content = Ok v \<Longrightarrow> instance_of sch v"
  by (auto simp: parse_structured_content_def Let_def rbind_def dest: v_model_instance first_valid_instance
      split: sum.splits)

lemma answer_instance:
  assumes "typed_client env" "chat_completion env ms (Some sch) t i w = (Ok v, w')"
  shows "v = PNone \<or> instance_of sch v"
  using assms unfolding typed_client_def
  by (auto simp: chat_completion_def json_mode_fallback_def io_bind_Inr io_try_Inr dest: parse_instance split: prod.splits) blast

text \<open>One prompt, with the temperature and the model of a call that names neither.\<close>

definition ask_model :: "'x model_env \<Rightarrow> schema \<Rightarrow> string \<Rightarrow> ('x, pyval) mio" where
  "ask_model env sch prompt = chat_completion env [(''user'', prompt)] (Some sch) (1 / 10) None"

interpretation adapter: model_service "ask_model env" "typed_client env" for env :: "'x model_env"
  by unfold_locales (auto simp: ask_model_def dest: answer_instance)

text \<open>C33: an investigation that ends, with the adapter as its model service, has one of the three verdicts, a
  confidence between nought and one, and a complete intelligence card, also when the analyst's call
  of the model failed.\<close>

theorem investigation_within_bounds:
  assumes "typed_client env" "run_investigation (iv\<lparr>iv_chat := ask_model env\<rparr>) st w = (Ok r, w')"
  shows "dget r ''final_verdict'' PNone \<in> PStr ` {''true_positive'', ''false_positive'', ''benign''} \<and>
    (\<exists>q. dget r ''confidence_score'' PNone = PFloat q \<and> 0 \<le> q \<and> q \<le> 1) \<and>
    instance_of intel_card (dget r ''raw_intel'' PNone)"
  by (rule adapter.investigation_bounded [OF assms(1) _ assms(2)]) simp

definition toy_inv :: "unit model_world inv_env" where
  "toy_inv = \<lparr>iv_chat = (\<lambda>_ _. io_raise TimeoutError), iv_lax = \<lparr>lax_bool = (\<lambda>_. Raise ValueError), lax_int = (\<lambda>_. Raise ValueError), lax_float = (\<lambda>_. Raise ValueError)\<rparr>, iv_rt = toy_rt, iv_fixed2 = (\<lambda>_. Ok ''1.00''),
     iv_vt_key = [], iv_vt = (\<lambda>_. io_raise TimeoutError), iv_search = (\<lambda>_. io_raise TimeoutError),
     iv_memory_add = (\<lambda>_ _ _ _. io_return ()), iv_at_most = []\<rparr>"

lemma toy_typed: "typed_client toy_models"
  by (auto simp: typed_client_def toy_models_def dest: v_model_instance split: sum.splits)

lemma toy_investigation: "\<exists>r w'. run_investigation (toy_inv\<lparr>iv_chat := ask_model toy_models\<rparr>) [] toy_registry = (Ok r, w')"
proof -
  have "case fst (run_investigation (toy_inv\<lparr>iv_chat := ask_model toy_models\<rparr>) [] toy_registry) of Inr _ \<Rightarrow> True | Inl _ \<Rightarrow> False"
    by code_simp
  then show ?thesis by (cases "run_investigation (toy_inv\<lparr>iv_chat := ask_model toy_models\<rparr>) [] toy_registry")
    (auto split: sum.splits)
qed

theorem investigation_within_bounds_witness:
  "\<exists>r w'. run_investigation (toy_inv\<lparr>iv_chat := ask_model toy_models\<rparr>) [] toy_registry = (Ok r, w') \<and>
     dget r ''final_verdict'' PNone \<in> PStr ` {''true_positive'', ''false_positive'', ''benign''} \<and>
     instance_of intel_card (dget r ''raw_intel'' PNone)"
  using toy_investigation investigation_within_bounds [OF toy_typed] by metis

section \<open>Answers in prose\<close>

lemma first_valid_iff: "(\<exists>v. first_valid sch ds = Ok v) \<longleftrightarrow> (\<exists>d \<in> set ds. \<exists>v. v_model sch (PDict d) = Ok v)"
  by (induction ds) (auto split: sum.splits)

lemma candidates_suffix: "set (json_candidates decode s) \<subseteq> set (json_candidates decode (pre @ s))"
proof (induction pre)
  case (Cons c pre)
  have "set (json_candidates decode (pre @ s)) \<subseteq> set (json_candidates decode (c # pre @ s))"
    by (subst json_candidates.simps(2)) (simp only: set_append Un_upper2)
  with Cons show ?case by (simp only: append_Cons)
qed (simp only: append_Nil subset_refl)

lemma candidate_found:
  assumes "decode (CHR ''{'' # post) = Some (PDict d, n)"
  shows "(n, d) \<in> set (json_candidates decode (pre @ CHR ''{'' # post))"
proof -
  have "json_candidates decode (CHR ''{'' # post) = (n, d) # json_candidates decode post"
    by (subst json_candidates.simps(2)) (simp add: assms)
  then have "(n, d) \<in> set (json_candidates decode (CHR ''{'' # post))" by simp
  with candidates_suffix show ?thesis by blast
qed

text \<open>When the text of an answer holds a JSON object of the schema anywhere, in prose, between other
  objects or in the midst of broken ones, the adapter finds an answer, and whatever it finds is an
  instance of the schema.\<close>

theorem answer_in_prose_found:
  assumes "content_text (me_rt env) content = pre @ CHR ''{'' # post"
    and "me_raw_decode env (CHR ''{'' # post) = Some (PDict d, n)" "v_model sch (PDict d) = Ok v"
  shows "\<exists>u. parse_structured_content env sch content = Ok u \<and> instance_of sch u"
proof -
  let ?ds = "map snd (sort_key (\<lambda>(n, _). - int n) (json_candidates (me_raw_decode env) (pre @ CHR ''{'' # post)))"
  from imageI [OF candidate_found [of "me_raw_decode env", OF assms(2), of pre], of snd]
  have "d \<in> set ?ds" by (simp only: set_map set_sort snd_conv)
  with assms(3) first_valid_iff [of sch ?ds] obtain u where "first_valid sch ?ds = Ok u" by blast
  then have "\<exists>u. parse_structured_content env sch content = Ok u"
    by (auto simp: parse_structured_content_def assms(1) Let_def split: sum.split)
  then show ?thesis using parse_instance by blast
qed

definition toy_prose :: "unit model_env" where
  "toy_prose = toy_models\<lparr>me_raw_decode := (\<lambda>s. if s = ''{x'' then Some (PDict [(''a'', PStr ''b'')], 2) else None)\<rparr>"

theorem answer_in_prose_found_witness:
  "\<exists>u. parse_structured_content toy_prose [(''a'', v_str, None)] (PStr ''Well: {x'') = Ok u \<and>
     instance_of [(''a'', v_str, None)] u"
proof (rule answer_in_prose_found)
  show "content_text (me_rt toy_prose) (PStr ''Well: {x'') = ''Well: '' @ CHR ''{'' # ''x''" by code_simp
  show "me_raw_decode toy_prose (CHR ''{'' # ''x'') = Some (PDict [(''a'', PStr ''b'')], 2)" by (simp add: toy_prose_def)
  show "v_model [(''a'', v_str, None)] (PDict [(''a'', PStr ''b'')]) = Ok (PDict [(''a'', PStr ''b'')])"
    by (simp add: v_model_def v_str_def)
qed

section \<open>The subgraphs in the main graph\<close>

text \<open>The outside calls of the adapter are not cancelled.\<close>

definition quiet_models :: "'x model_env \<Rightarrow> bool" where
  "quiet_models env \<longleftrightarrow> (\<forall>w. me_down env w \<noteq> Some CancelledError) \<and> (\<forall>c. me_refuses env c \<noteq> Some CancelledError) \<and>
     (\<forall>c t s ms. uncancelled (me_structured env c t s ms)) \<and> (\<forall>c t ms. uncancelled (me_json env c t ms)) \<and>
     (\<forall>c t ms. uncancelled (me_plain env c t ms))"

lemma uncancelled_modify [io_intros]: "uncancelled (io_modify f)"
  by (simp add: uncancelled_def)

lemma uncancelled_guard [io_intros]: "e \<noteq> CancelledError \<Longrightarrow> uncancelled (io_guard b e)"
  by (simp add: io_guard_def uncancelled_def)

lemma conn_quiet [io_intros]: "quiet_models env \<Longrightarrow> uncancelled (model_conn env)"
  by (auto simp: uncancelled_def model_conn_def quiet_models_def split: option.split)

lemma client_quiet: "quiet_models env \<Longrightarrow> no_cancel (construct_client env c)"
  by (auto simp: construct_client_def quiet_models_def split: option.split)

lemma configured_quiet: "quiet_models env \<Longrightarrow> uncancelled (configured env i)"
  unfolding configured_def registry_defs insert_row_def int4_def Let_def
  by (auto intro!: io_intros split: option.split)

lemma resolve_quiet: "quiet_models env \<Longrightarrow> uncancelled (resolve_model env i)"
  unfolding resolve_model_def resolve_anew_def keep_client_def build_llm_def build_from_env_def
  by (auto intro!: io_intros configured_quiet client_quiet no_cancel_bind split: option.split prod.split)

lemma parse_quiet: "no_cancel (parse_structured_content env sch content)"
proof -
  have "no_cancel (first_valid sch ds)" for ds by (induction ds) (auto split: sum.split)
  then show ?thesis by (auto simp: parse_structured_content_def Let_def split: sum.split)
qed

lemma ask_quiet: "quiet_models env \<Longrightarrow> quiet_chat (ask_model env)"
  unfolding quiet_chat_def ask_model_def chat_completion_def json_mode_fallback_def
  by (auto simp: lc_message_def quiet_models_def intro!: io_intros resolve_quiet [unfolded quiet_models_def] parse_quiet
      split: prod.split)

text \<open>C32: the investigation and the hunt of the code, which ask the adapter, meet what the main graph
  relies on: with them in place no call is cancelled when none of theirs is, and every investigation
  that ends reports its confidence as a number.\<close>

theorem subgraphs_meet_contract:
  assumes "calm ge" "typed_client env" "quiet_models env"
    and "quiet_hunt he" "quiet_inv iv"
  shows "calm (ge\<lparr>ge_investigate := run_investigation (iv\<lparr>iv_chat := ask_model env\<rparr>),
    ge_vuln_hunt := vuln_hunt (he\<lparr>he_chat := ask_model env\<rparr>)\<rparr>)"
proof -
  let ?iv = "iv\<lparr>iv_chat := ask_model env\<rparr>"
  have "score_ok r" if r: "run_investigation ?iv d w = (Ok r, w')" for d w r w'
  proof -
    have "iv_chat ?iv = ask_model env" by simp
    from adapter.investigation_bounded [OF assms(2) this r] obtain q where "dget r ''confidence_score'' PNone = PFloat q" by blast
    then have "dget r ''confidence_score'' (PFloat 0) = PFloat q" by (simp add: dget_def split: option.splits)
    then show ?thesis by (simp add: score_ok_def py_or_def)
  qed
  moreover have "uncancelled (run_investigation ?iv d)" for d
    using assms(5) ask_quiet [OF assms(3)] by (intro investigation_quiet) (simp_all add: quiet_inv_def)
  moreover have "uncancelled (vuln_hunt (he\<lparr>he_chat := ask_model env\<rparr>) d)" for d
    using assms(4) ask_quiet [OF assms(3)] by (intro vuln_hunt_quiet) (simp_all add: quiet_hunt_def)
  ultimately show ?thesis using assms(1) by (simp add: calm_def)
qed

definition toy_main :: "unit model_world graph_env" where
  "toy_main = \<lparr>ge_rt = toy_rt, ge_now = [], ge_exn_str = (\<lambda>_. []), ge_fixed2 = (\<lambda>_. []),
     ge_triage = (\<lambda>_. io_raise TimeoutError), ge_investigate = (\<lambda>_. io_raise TimeoutError),
     ge_vuln_hunt = (\<lambda>_. io_raise TimeoutError), ge_respond = (\<lambda>_. io_raise TimeoutError),
     ge_audit = (\<lambda>_ _ _ _. io_return ())\<rparr>"

definition toy_sandbox :: "unit model_world hunt_env" where
  "toy_sandbox = \<lparr>he_chat = (\<lambda>_ _. io_raise TimeoutError), he_parse = (\<lambda>_. Parsed (Node [])), he_docker = True,
     he_run = (\<lambda>_ _. io_return ''VULNERABLE''), he_kill = (\<lambda>_. io_return ()), he_failed = (\<lambda>_. None),
     he_name = io_return ''poc-1'', he_elapsed = (\<lambda>_. 5), he_timeout = 30, he_exn_str = (\<lambda>_. []), he_dash = ''-''\<rparr>"

lemma toy_calls_quiet: "calm toy_main" "quiet_models toy_models" "quiet_hunt toy_sandbox" "quiet_inv toy_inv"
  by (simp_all add: calm_def toy_main_def quiet_models_def toy_models_def quiet_hunt_def toy_sandbox_def quiet_inv_def
      toy_inv_def uncancelled_def split: sum.split)

theorem subgraphs_meet_contract_witness:
  "calm (toy_main\<lparr>ge_investigate := run_investigation (toy_inv\<lparr>iv_chat := ask_model toy_models\<rparr>),
    ge_vuln_hunt := vuln_hunt (toy_sandbox\<lparr>he_chat := ask_model toy_models\<rparr>)\<rparr>)"
  by (rule subgraphs_meet_contract [OF toy_calls_quiet(1) toy_typed toy_calls_quiet(2-4)])

end
