(* ===== verification/Spec2Isabelle.thy ===== *)
theory Spec2Isabelle
  imports Version Scanner Sanitize Detection Edr Actions Responder MainGraph TaskQueue AccountLaws UpgradeLaws
    ScanLaws Linter Responses RuleLaws ScanApiLaws ReportPage AssetLaws Schedules IngestLaws EventApi ModelLaws
begin

text \<open>
  A verification library for the security agent platform: the Python services under \<open>src/\<close> that receive events from
  agents on hosts and from other products, turn them into alerts, decide on responses and carry them out, scan the
  hosts for vulnerabilities, and keep the accounts and the agents.

  \<^bold>\<open>The parts and how they interact.\<close> Events pass the sanitisation and the indicator extraction
  (\<open>preprocessing\<close>) and the Sigma rules (\<open>detection\<close>), and a match becomes an alert. Alerts of other products come
  from a topic and are put on a stream, as are submissions; the scan engine takes them off it and runs the pipeline
  for each. The main graph (\<open>orchestration/main_graph\<close>) takes an event to a verdict and, if one is due, to the
  responder subgraph, which asks for approvals and runs playbooks through connectors (\<open>execution/actions\<close>). The gateway (\<open>agents/ws_gateway.py\<close>)
  connects the agents, which enroll with tokens, send heartbeats and results, and receive signed commands: upgrades,
  defensive actions, rule packs and scans. A vulnerability scan is queued (\<open>orchestration/task_queue\<close>), run by a
  worker as a graph of nodes (\<open>orchestration/subgraphs/vulnscan\<close>) and read through \<open>api/routers/vulnscan.py\<close>. Hosts
  without an agent are scanned by programs (\<open>asset_scan\<close>). Accounts (\<open>api/auth\<close>, \<open>api/routers/users.py\<close>) guard the
  endpoints. The services share a database, a search service and a key-value server.

  \<^bold>\<open>The theories.\<close> Each group of definitions follows the order of its source file and has its names where Isabelle
  allows them.

  \<^item> \<open>Prelude\<close>: exceptions as values, computations on a world (\<open>io\<close>) with rules for what they return (\<open>returns\<close>,
    \<open>hoare\<close>) and preserve (\<open>keeps\<close>), Python's dynamic values, dictionaries, strings and numbers, and the contract
    \<open>kv_store\<close> of a dictionary.
  \<^item> \<open>Version\<close> (\<open>asset_scan/scanner/version.py\<close>): comparison of versions; the contract \<open>total_compare\<close> is proved of
    each level of the comparison and used for the next.
  \<^item> \<open>Scanner\<close> (\<open>asset_scan/scanner/discovery.py\<close>, \<open>fingerprint.py\<close>, \<open>vuln_match.py\<close>): what the scan programs say, and
    the matching of services to rules against a reference definition.
  \<^item> \<open>AssetScan\<close>, \<open>AssetApi\<close>, \<open>AssetLaws\<close> (\<open>asset_scan/store.py\<close>, \<open>runner.py\<close>, \<open>scanner/runner.py\<close>, \<open>main.py\<close>,
    \<open>orchestration/subgraphs/asset_scan\<close>, \<open>api/routers/asset_scan.py\<close>): scans without an agent, with programs that
    run for so many seconds while others act; the contract \<open>scan_invariant\<close> says what a whole scan preserves.
  \<^item> \<open>Sanitize\<close> (\<open>preprocessing/sanitization\<close>, \<open>ioc_extractor\<close>): masking and extraction for any compiled patterns.
  \<^item> \<open>Alerts\<close>, \<open>Sigma\<close>, \<open>Detection\<close> (\<open>agents/models.py\<close>, \<open>detection\<close>): the alert, the rule language, the detector with
    its registry and its import of rule files.
  \<^item> \<open>Edr\<close> (\<open>preprocessing/edr_adapter\<close>): the adapters of other vendors as records of hooks.
  \<^item> \<open>Actions\<close> (\<open>execution/actions\<close>): playbooks, their rollback, and the connectors under the contract \<open>connector\<close>.
  \<^item> \<open>Approvals\<close>, \<open>Responder\<close>, \<open>MainGraph\<close> (\<open>orchestration/subgraphs/responder\<close>, \<open>main_graph\<close>, \<open>runner.py\<close>): the
    approval queue as interleaved statements on two tables, the responder graph and the main graph.
  \<^item> \<open>Events\<close>, \<open>EventLaws\<close> (\<open>api/store.py\<close>, \<open>store_es.py\<close>, \<open>events_bus.py\<close>): the records of events and the three stores;
    the contract \<open>event_store\<close>, met by the store in the process and by the database, carries the proofs of every caller.
    \<open>Pipeline\<close> (\<open>orchestration/runner.py\<close>): the run of one event. \<open>Ingest\<close>, \<open>IngestLaws\<close> (\<open>preprocessing/consumer.py\<close>,
    \<open>vulnscan_queue\<close>, \<open>scan_engine/main.py\<close>, \<open>api/main.py\<close>): alerts from the topic, submissions, the stream and the loop that
    runs what is on it. \<open>EventApi\<close> (\<open>api/routers/operations.py\<close>): the endpoints for events and approvals.
  \<^item> \<open>TaskQueue\<close> (\<open>orchestration/task_queue\<close>): envelopes, the stream and the worker, against any behaviour of the
    services.
  \<^item> \<open>Accounts\<close>, \<open>AccountLaws\<close> (\<open>api/auth\<close>, \<open>api/routers/users.py\<close>, \<open>stream.py\<close>, \<open>common/db/pg.py\<close>): users, tokens,
    roles; requests are served one after the other and what each keeps is proved once.
  \<^item> \<open>Fleet\<close>, \<open>Hosts\<close>, \<open>Commands\<close>, with \<open>TokenLaws\<close>, \<open>HostLaws\<close>, \<open>CommandLaws\<close>, \<open>UpgradeLaws\<close>, \<open>SweepLaws\<close> (\<open>agents/enroll.py\<close>,
    \<open>revoke.py\<close>, \<open>store.py\<close>, \<open>manager.py\<close>, \<open>ws_gateway.py\<close>, \<open>signing.py\<close>, \<open>upgrade.py\<close>, \<open>api/routers/agents.py\<close>): enrollment,
    the inventory, the connections, signed commands and upgrades.
  \<^item> \<open>Responses\<close> (\<open>agents/response_actions.py\<close>, \<open>api/routers/responses.py\<close>): defensive actions on one agent.
  \<^item> \<open>Rules\<close>, \<open>RulePacks\<close>, \<open>RuleLaws\<close> (\<open>agents/rules_sync.py\<close>, \<open>api/routers/rules.py\<close>): feeds, packs, their publication and
    delivery. \<open>Schedules\<close> (\<open>agents/scheduler.py\<close>): when the rules are synchronised.
  \<^item> \<open>Scans\<close>, \<open>ScanNodes\<close>, \<open>ReconcileLaws\<close>, \<open>ScanLaws\<close> (\<open>agents/store.py\<close>, \<open>scan_engine/llm_analysis.py\<close>,
    \<open>orchestration/subgraphs/vulnscan\<close>): the documents of a scan, its nodes, the reconciliation of what agents report
    with what is known, the analysis by the model service and its repetition.
  \<^item> \<open>ScanApi\<close>, \<open>ReportPage\<close>, \<open>ScanApiLaws\<close> (\<open>api/routers/vulnscan.py\<close>): the endpoints around scans, the exported page, and
    the caches under the contract \<open>timed_cache\<close>.
  \<^item> \<open>Linter\<close> (\<open>execution/linter/poc_linter.py\<close>): the checks on a generated program before the sandbox. \<open>Hunting\<close>,
    \<open>HuntLaws\<close> (\<open>orchestration/subgraphs/vuln_hunter\<close>, \<open>investigation\<close>, \<open>execution/sandbox\<close>): the two subgraphs around the
    model service and the sandbox; they rest on the contract \<open>model_service\<close>.
  \<^item> \<open>Models\<close>, \<open>ModelLaws\<close> (\<open>knowledge/models\<close>, \<open>api/routers/models.py\<close>): the registry of models and the adapter, which
    provides \<open>model_service\<close>; with it the subgraphs meet what the main graph relies on.

  \<^bold>\<open>How the code is represented.\<close> A Python exception is a value (\<open>exn\<close>), a function that may raise returns a sum, and
  a coroutine is a function on a world: the tables, documents, keys, streams and logs of the services as explicit
  state, or, where the code only talks to a service, the history of its commands. A cancellation is the one exception
  that \<open>except Exception\<close> lets through. Servers may be down: a call then raises. While a coroutine waits, others act:
  an arbitrary function on the world. Third-party code is an argument: password and token codes, signatures, regular
  expressions, the XML, YAML and JSON readers, the model service, the clock and its text forms. The parts of the
  standard library that matter are defined: string methods, \<open>str\<close> and \<open>repr\<close>, equality and order of values, numbers
  from text, \<open>ipaddress\<close>.

  Strings are ASCII: the case and digit methods are those of ASCII text, and the Chinese texts of the source are left
  out or named. Floats are rationals. The order in which a set is walked is an argument. \<open>LIMIT 1\<close> without an order
  takes the row inserted first. Times are seconds, and one clock serves a service and its caches. The search service
  shows a write to the next read. The approximate length limit of the streams is left out. The role of a caller is
  checked in \<open>Accounts\<close>; the endpoints of the other theories run after that check.

  \<^bold>\<open>What the lemmas show.\<close> Beside the properties named in the theories: the laws of each data structure (association
  lists, spans, histories, streams), what each operation returns on each branch, and the invariants of the worlds. The
  properties fall into groups: who may do what (accounts, approvals, credentials, packs, tokens); nothing happens
  without its cause (responses, upgrades, dry runs, cancelled scans); results are right (rules, masking, versions,
  reconciliation, reports, pages); work ends and errors are reported (graphs, queues, synchronisation, playbooks); and
  texts and messages survive their way (signatures, packs, tokens). Where the code does not do what its comments say,
  a lemma shows the behaviour it has.

  \<^bold>\<open>Bounds.\<close> Recursion is structural or on a measure wherever the loop is bounded: pages of rules and findings by
  their limits, polls of a collection by its deadline, programs by their time limit, attempts by the configured
  number. The graphs run under the step limit of the graph library, 25, and the main graph is shown to end below it
  (\<open>graph_run_ends\<close>); a hunt needs at most 31 of the 35 steps it is given (\<open>hunt_ends_in_time\<close>). The claim loop of a worker has the eight rounds of the source. Reading a feed page by page may
  not end for an arbitrary server, so \<open>fetch_pages\<close> is a partial function and \<open>fetch_reads_feed\<close> proves that it returns
  for a feed of finite length.

  \<^bold>\<open>Not modelled.\<close> The remaining endpoints, most of them queries that pass through (\<open>api/routers\<close>: alerts, chat,
  monitoring, templates), the stores behind them, the conversations with the model service (\<open>agents/chat_*\<close>,
  \<open>ai\<close>, \<open>knowledge/graphrag\<close>, \<open>graphrag\<close>), whose results are texts of a model, the container runtime, configuration, logging and metrics, the start of the services, the agent written
  in Go and the frontend.
\<close>

end
